(* ===== verification/Prelude.thy ===== *)
theory Prelude
  imports Main "HOL-Library.Word" "HOL-Library.Monad_Syntax"
begin

unbundle bit_operations_syntax

text \<open>
  The vocabulary shared by every theory of the library: names for the machine integer
  types of the C sources, the collections of facts the component proofs use, and the
  generic lemmas on lists, options and words.

  An access outside an object (an undefined behaviour in C) is the value \<open>None\<close> of an
  option, so the do-notation of the library chains operations that may fault.
\<close>

section \<open>Machine integers\<close>

type_synonym u8 = "8 word"
type_synonym u16 = "16 word"
type_synonym u32 = "32 word"
type_synonym u64 = "64 word"

text \<open>Conversion of an unbounded result to a signed C type (two's complement).\<close>

definition i32 :: "int \<Rightarrow> int" where
  "i32 x = signed_take_bit 31 x"

definition i64 :: "int \<Rightarrow> int" where
  "i64 x = signed_take_bit 63 x"

lemma i32_id: "- (2 ^ 31) \<le> x \<Longrightarrow> x < 2 ^ 31 \<Longrightarrow> i32 x = x"
  by (simp add: i32_def signed_take_bit_int_eq_self)

lemma i64_id: "- (2 ^ 63) \<le> x \<Longrightarrow> x < 2 ^ 63 \<Longrightarrow> i64 x = x"
  by (simp add: i64_def signed_take_bit_int_eq_self)

lemma i32_bounds: "- (2 ^ 31) \<le> i32 x \<and> i32 x < 2 ^ 31"
  unfolding i32_def
  using signed_take_bit_int_greater_eq_minus_exp [of 31 x] signed_take_bit_int_less_exp [of 31 x]
  by simp

text \<open>Testing a flag of a bit mask, \<open>if (mask & FLAG)\<close>.\<close>

definition has :: "'a::len word \<Rightarrow> 'a word \<Rightarrow> bool" where
  "has m flag \<longleftrightarrow> m AND flag \<noteq> 0"

lemma has_or: "has (a OR b) f \<longleftrightarrow> has a f \<or> has b f" for a :: "'a::len word"
  by (auto simp: has_def bit.conj_disj_distrib2 or_eq_0_iff)

text \<open>The C idiom \<open>!!(x)\<close> on a truth value, as the integer it prints.\<close>

abbreviation b2i :: "bool \<Rightarrow> int" where
  "b2i b \<equiv> (if b then 1 else 0)"

section \<open>Collections of facts\<close>

text \<open>
  \<open>decode_intros\<close>: the decoding laws of the record sections (theory ParseRecord).
  \<open>count_simps\<close>: facts on the number of active slots of a table (theory SlotTable).
  \<open>scan_simps\<close>: what the scanners return on printed text (theory CText).
\<close>

named_theorems decode_intros
named_theorems count_simps
named_theorems scan_simps

section \<open>Lists\<close>

lemma nth_rotate_split:
  assumes "k < length xs" and "m \<le> length xs"
  shows "(drop m xs @ take m xs) ! k = xs ! ((m + k) mod length xs)"
proof (cases "k < length xs - m")
  case True
  then have "(m + k) mod length xs = m + k" by simp
  with True assms show ?thesis by (simp add: nth_append)
next
  case False
  with assms have "(m + k) mod length xs = m + k - length xs"
    by (subst mod_if) (auto simp: not_less)
  moreover have "m + k - length xs = k - (length xs - m)"
    using False assms by simp
  ultimately show ?thesis using False assms by (simp add: nth_append)
qed

lemma length_filter_update:
  assumes "i < length xs"
  shows "length (filter P (xs[i := y])) + (if P (xs ! i) then 1 else 0)
       = length (filter P xs) + (if P y then 1 else 0)"
  using assms
proof (induction xs arbitrary: i)
  case Nil
  then show ?case by simp
next
  case (Cons x xs)
  then show ?case by (cases i) auto
qed

text \<open>
  Distinctness of a long list of strings, shown part by part: the list is split by the bits of
  the last characters, so that only the strings that agree on them are compared.
\<close>

fun distinct_by :: "('a \<Rightarrow> bool) list \<Rightarrow> 'a list \<Rightarrow> bool" where
  "distinct_by [] xs = distinct xs"
| "distinct_by (p # ps) xs \<longleftrightarrow> distinct_by ps (filter p xs) \<and> distinct_by ps (filter (\<lambda>x. \<not> p x) xs)"

lemma distinct_parts: "distinct (filter p xs) \<Longrightarrow> distinct (filter (\<lambda>x. \<not> p x) xs) \<Longrightarrow> distinct xs"
  by (induction xs) (auto split: if_splits)

lemma distinct_by_distinct: "distinct_by ps xs \<Longrightarrow> distinct xs"
  by (induction ps arbitrary: xs) (auto intro: distinct_parts)

definition last_chars :: "(string \<Rightarrow> bool) list" where
  "last_chars = [\<lambda>n. digit0 (hd n), \<lambda>n. digit1 (hd n), \<lambda>n. digit2 (hd n), \<lambda>n. digit3 (hd n),
     \<lambda>n. digit0 (hd (tl n)), \<lambda>n. digit1 (hd (tl n))]"

lemma distinct_by_last: "distinct_by last_chars (map rev xs) \<Longrightarrow> distinct xs"
  using distinct_by_distinct [of last_chars "map rev xs"] by (simp add: distinct_map)

section \<open>Options\<close>

lemma bind_Some_iff:
  "Option.bind m f = Some y \<longleftrightarrow> (\<exists>x. m = Some x \<and> f x = Some y)"
  by (cases m) auto

lemma bind_None_iff:
  "Option.bind m f = None \<longleftrightarrow> m = None \<or> (\<exists>x. m = Some x \<and> f x = None)"
  by (cases m) auto

end
