(* ===== verification/Bytes.thy ===== *)
theory Bytes
  imports Prelude
begin

text \<open>
  Memory as a list of bytes, and the two ways the sources read integers from it:
  \<open>memcpy(&x,&data[offset],n)\<close> of lib/parse_record.c (a little-endian host), and the
  shift-and-or readers of perf_data_fuzzer/data_read.c. The locale \<open>field_codec\<close> is the
  interface both offer to the decoders: a reader, the encoding it inverts, and its width.
\<close>

section \<open>Bytes in memory\<close>

text \<open>A read of \<open>n\<close> bytes at \<open>off\<close>; \<open>None\<close> is an access outside the buffer.\<close>

definition rd_bytes :: "nat \<Rightarrow> u8 list \<Rightarrow> int \<Rightarrow> u8 list option" where
  "rd_bytes n data off =
     (if 0 \<le> off \<and> off + int n \<le> int (length data)
      then Some (take n (drop (nat off) data)) else None)"

text \<open>The bytes \<open>bs\<close> stand in the buffer at \<open>off\<close>.\<close>

definition at :: "u8 list \<Rightarrow> int \<Rightarrow> u8 list \<Rightarrow> bool" where
  "at data off bs \<longleftrightarrow>
     0 \<le> off \<and> off + int (length bs) \<le> int (length data) \<and>
     take (length bs) (drop (nat off) data) = bs"

lemma at_nonneg: "at data off bs \<Longrightarrow> 0 \<le> off"
  by (simp add: at_def)

lemma at_bound: "at data off bs \<Longrightarrow> off + int (length bs) \<le> int (length data)"
  by (simp add: at_def)

lemma rd_bytes_at: "at data off bs \<Longrightarrow> n = length bs \<Longrightarrow> rd_bytes n data off = Some bs"
  by (simp add: at_def rd_bytes_def)

lemma at_append_iff:
  "at data off (bs @ cs) \<longleftrightarrow> at data off bs \<and> at data (off + int (length bs)) cs"
proof (cases "0 \<le> off \<and> off + int (length bs) + int (length cs) \<le> int (length data)")
  case True
  then have n: "nat (off + int (length bs)) = nat off + length bs"
    by (simp add: nat_add_distrib)
  have split: "take (length bs + length cs) (drop (nat off) data)
      = take (length bs) (drop (nat off) data)
        @ take (length cs) (drop (nat off + length bs) data)"
    by (simp add: take_add add.commute)
  from True have len: "length (take (length bs) (drop (nat off) data)) = length bs"
    by auto
  with True show ?thesis
    unfolding at_def n by (auto simp: split add.assoc)
next
  case False
  then show ?thesis by (auto simp: at_def)
qed

lemma at_append1: "at data off (bs @ cs) \<Longrightarrow> at data off bs"
  by (simp add: at_append_iff)

lemma at_append2: "at data off (bs @ cs) \<Longrightarrow> at data (off + int (length bs)) cs"
  by (simp add: at_append_iff)

lemma at_self: "at (pre @ bs @ post) (int (length pre)) bs"
  by (simp add: at_def)

section \<open>Integers in memory\<close>

text \<open>The value of a little-endian run of bytes, and the run of a value.\<close>

fun bytes_to_word :: "u8 list \<Rightarrow> 'a::len word" where
  "bytes_to_word [] = 0"
| "bytes_to_word (b # bs) = ucast b OR push_bit 8 (bytes_to_word bs)"

fun to_bytes :: "nat \<Rightarrow> 'a::len word \<Rightarrow> u8 list" where
  "to_bytes 0 w = []"
| "to_bytes (Suc n) w = ucast w # to_bytes n (drop_bit 8 w)"

lemma length_to_bytes [simp]: "length (to_bytes n w) = n"
  by (induction n arbitrary: w) auto

lemma low_byte_or_rest:
  fixes w :: "'a::len word"
  shows "ucast (ucast w :: u8) OR push_bit 8 (take_bit n (drop_bit 8 w)) = take_bit (8 + n) w"
  by (rule bit_word_eqI) (auto simp: bit_simps)

lemma bytes_to_word_to_bytes:
  "bytes_to_word (to_bytes n w) = take_bit (8 * n) w"
proof (induction n arbitrary: w)
  case 0
  then show ?case by simp
next
  case (Suc n)
  have "bytes_to_word (to_bytes (Suc n) w)
      = ucast (ucast w :: u8) OR push_bit 8 (take_bit (8 * n) (drop_bit 8 w))"
    by (simp add: Suc.IH)
  then show ?case by (simp add: low_byte_or_rest)
qed

definition le16 :: "u16 \<Rightarrow> u8 list" where
  "le16 w = to_bytes 2 w"

definition le32 :: "u32 \<Rightarrow> u8 list" where
  "le32 w = to_bytes 4 w"

definition le64 :: "u64 \<Rightarrow> u8 list" where
  "le64 w = to_bytes 8 w"

lemma length_le [simp]:
  "length (le16 a) = 2" "length (le32 b) = 4" "length (le64 c) = 8"
  by (simp_all add: le16_def le32_def le64_def)

lemma bytes_to_word_le [simp]:
  "bytes_to_word (le16 a) = a" "bytes_to_word (le32 b) = b" "bytes_to_word (le64 c) = c"
  by (simp_all add: le16_def le32_def le64_def bytes_to_word_to_bytes take_bit_word_eq_self)

definition rd16 :: "u8 list \<Rightarrow> int \<Rightarrow> u16 option" where
  "rd16 data off = map_option bytes_to_word (rd_bytes 2 data off)"

definition rd32 :: "u8 list \<Rightarrow> int \<Rightarrow> u32 option" where
  "rd32 data off = map_option bytes_to_word (rd_bytes 4 data off)"

definition rd64 :: "u8 list \<Rightarrow> int \<Rightarrow> u64 option" where
  "rd64 data off = map_option bytes_to_word (rd_bytes 8 data off)"

section \<open>The readers of data_read.c\<close>

text \<open>One byte of the buffer, \<open>data[offset]\<close>.\<close>

definition rd8 :: "u8 list \<Rightarrow> int \<Rightarrow> u8 option" where
  "rd8 data off = (if 0 \<le> off \<and> off < int (length data) then Some (data ! nat off) else None)"

definition get_uint16 :: "u8 list \<Rightarrow> int \<Rightarrow> u16 option" where
  "get_uint16 data off = do {
     a \<leftarrow> rd8 data off; b \<leftarrow> rd8 data (off + 1);
     Some (ucast a OR push_bit 8 (ucast b)) }"

definition get_uint32 :: "u8 list \<Rightarrow> int \<Rightarrow> u32 option" where
  "get_uint32 data off = do {
     a \<leftarrow> rd8 data off; b \<leftarrow> rd8 data (off + 1);
     c \<leftarrow> rd8 data (off + 2); d \<leftarrow> rd8 data (off + 3);
     Some (ucast a OR push_bit 8 (ucast b) OR push_bit 16 (ucast c) OR push_bit 24 (ucast d)) }"

definition get_uint64 :: "u8 list \<Rightarrow> int \<Rightarrow> u64 option" where
  "get_uint64 data off = do {
     a \<leftarrow> rd8 data (off + 0); b \<leftarrow> rd8 data (off + 1);
     c \<leftarrow> rd8 data (off + 2); d \<leftarrow> rd8 data (off + 3);
     e \<leftarrow> rd8 data (off + 4); f \<leftarrow> rd8 data (off + 5);
     g \<leftarrow> rd8 data (off + 6); h \<leftarrow> rd8 data (off + 7);
     Some (push_bit 0 (ucast a) OR push_bit 8 (ucast b) OR
           push_bit 16 (ucast c) OR push_bit 24 (ucast d) OR
           push_bit 32 (ucast e) OR push_bit 40 (ucast f) OR
           push_bit 48 (ucast g) OR push_bit 56 (ucast h)) }"

lemma rd_bytes_Suc:
  "rd_bytes (Suc n) data off =
     do { b \<leftarrow> rd8 data off; bs \<leftarrow> rd_bytes n data (off + 1); Some (b # bs) }"
proof (cases "0 \<le> off \<and> off + int (Suc n) \<le> int (length data)")
  case True
  then have "nat (off + 1) = Suc (nat off)" by (simp add: nat_add_distrib)
  moreover have lt: "nat off < length data" using True by linarith
  moreover have "take (Suc n) (drop (nat off) data)
      = data ! nat off # take n (drop (Suc (nat off)) data)"
    using lt by (simp add: Cons_nth_drop_Suc [symmetric])
  ultimately show ?thesis using True by (simp add: rd_bytes_def rd8_def)
next
  case False
  then show ?thesis by (auto simp: rd_bytes_def rd8_def)
qed

lemma rd_bytes_1: "rd_bytes (Suc 0) data off = map_option (\<lambda>b. [b]) (rd8 data off)"
  by (cases "rd8 data off") (auto simp: rd_bytes_Suc, auto simp: rd_bytes_def rd8_def split: if_splits)

lemmas rd_bytes_steps = rd_bytes_Suc [of "Suc n" for n] rd_bytes_1

text \<open>
  The shift-and-or readers agree with a little-endian memory read, out-of-range
  accesses included.
\<close>

lemma get_uint16_eq_rd16: "get_uint16 data off = rd16 data off"
  by (simp add: get_uint16_def rd16_def eval_nat_numeral rd_bytes_steps
      map_option_case split: option.splits bind_splits)

lemma get_uint32_eq_rd32: "get_uint32 data off = rd32 data off"
  by (simp add: get_uint32_def rd32_def eval_nat_numeral rd_bytes_steps add.assoc
      push_bit_or push_bit_push_bit map_option_case split: option.splits bind_splits)

lemma get_uint64_eq_rd64: "get_uint64 data off = rd64 data off"
  by (simp add: get_uint64_def rd64_def eval_nat_numeral rd_bytes_steps add.assoc
      push_bit_or push_bit_push_bit map_option_case split: option.splits bind_splits)

section \<open>The interface of a field reader\<close>

locale field_codec =
  fixes rd :: "u8 list \<Rightarrow> int \<Rightarrow> 'v option"
    and enc :: "'v \<Rightarrow> u8 list"
    and width :: nat
  assumes rd_at: "at data off (enc v) \<Longrightarrow> rd data off = Some v"
    and enc_length: "length (enc v) = width"
    and rd_range: "rd data off \<noteq> None \<longleftrightarrow> 0 \<le> off \<and> off + int width \<le> int (length data)"
begin

lemma rd_then:
  assumes "at data off (enc v @ bs)"
  shows "rd data off = Some v" and "at data (off + int width) bs"
  using assms rd_at by (auto simp: at_append_iff enc_length)

lemma rd_outside: "int (length data) < off + int width \<Longrightarrow> rd data off = None"
  using rd_range [of data off] by auto

lemma enc_inj:
  assumes "enc v = enc w"
  shows "v = w"
proof -
  have "at (enc v) 0 (enc v)" for v using at_self [of "[]" "enc v" "[]"] by simp
  then have "rd (enc v) 0 = Some v" for v by (rule rd_at)
  from this [of v] this [of w] show ?thesis unfolding assms by simp
qed

end

lemma rd_bytes_range:
  "rd_bytes n data off \<noteq> None \<longleftrightarrow> 0 \<le> off \<and> off + int n \<le> int (length data)"
  by (simp add: rd_bytes_def)

interpretation c16: field_codec rd16 le16 2
  by unfold_locales (simp_all add: rd16_def rd_bytes_at, simp add: rd_bytes_def)

interpretation c32: field_codec rd32 le32 4
  by unfold_locales (simp_all add: rd32_def rd_bytes_at, simp add: rd_bytes_def)

interpretation c64: field_codec rd64 le64 8
  by unfold_locales (simp_all add: rd64_def rd_bytes_at, simp add: rd_bytes_def)

interpretation g16: field_codec get_uint16 le16 2
  unfolding get_uint16_eq_rd16 by (rule c16.field_codec_axioms)

interpretation g32: field_codec get_uint32 le32 4
  unfolding get_uint32_eq_rd32 by (rule c32.field_codec_axioms)

interpretation g64: field_codec get_uint64 le64 8
  unfolding get_uint64_eq_rd64 by (rule c64.field_codec_axioms)

end
