(* ===== verification/PerfEvent.thy ===== *)
theory PerfEvent
  imports Prelude
begin

text \<open>
  The constants of include/perf_event.h that the decoders and the fuzzer use, each at the
  width of the field it is tested against. The \<open>_defs\<close> bundles unfold one group at a time.
\<close>

section \<open>Enum perf_event_sample_format\<close>

definition PERF_SAMPLE_IP :: u32 where "PERF_SAMPLE_IP = 1"
definition PERF_SAMPLE_TID :: u32 where "PERF_SAMPLE_TID = 2"
definition PERF_SAMPLE_TIME :: u32 where "PERF_SAMPLE_TIME = 4"
definition PERF_SAMPLE_ADDR :: u32 where "PERF_SAMPLE_ADDR = 8"
definition PERF_SAMPLE_READ :: u32 where "PERF_SAMPLE_READ = 0x10"
definition PERF_SAMPLE_CALLCHAIN :: u32 where "PERF_SAMPLE_CALLCHAIN = 0x20"
definition PERF_SAMPLE_ID :: u32 where "PERF_SAMPLE_ID = 0x40"
definition PERF_SAMPLE_CPU :: u32 where "PERF_SAMPLE_CPU = 0x80"
definition PERF_SAMPLE_PERIOD :: u32 where "PERF_SAMPLE_PERIOD = 0x100"
definition PERF_SAMPLE_STREAM_ID :: u32 where "PERF_SAMPLE_STREAM_ID = 0x200"
definition PERF_SAMPLE_RAW :: u32 where "PERF_SAMPLE_RAW = 0x400"
definition PERF_SAMPLE_BRANCH_STACK :: u32 where "PERF_SAMPLE_BRANCH_STACK = 0x800"
definition PERF_SAMPLE_REGS_USER :: u32 where "PERF_SAMPLE_REGS_USER = 0x1000"
definition PERF_SAMPLE_STACK_USER :: u32 where "PERF_SAMPLE_STACK_USER = 0x2000"
definition PERF_SAMPLE_WEIGHT :: u32 where "PERF_SAMPLE_WEIGHT = 0x4000"
definition PERF_SAMPLE_DATA_SRC :: u32 where "PERF_SAMPLE_DATA_SRC = 0x8000"
definition PERF_SAMPLE_IDENTIFIER :: u32 where "PERF_SAMPLE_IDENTIFIER = 0x10000"
definition PERF_SAMPLE_TRANSACTION :: u32 where "PERF_SAMPLE_TRANSACTION = 0x20000"
definition PERF_SAMPLE_REGS_INTR :: u32 where "PERF_SAMPLE_REGS_INTR = 0x40000"
definition PERF_SAMPLE_PHYS_ADDR :: u32 where "PERF_SAMPLE_PHYS_ADDR = 0x80000"
definition PERF_SAMPLE_AUX :: u32 where "PERF_SAMPLE_AUX = 0x100000"
definition PERF_SAMPLE_CGROUP :: u32 where "PERF_SAMPLE_CGROUP = 0x200000"
definition PERF_SAMPLE_DATA_PAGE_SIZE :: u32 where "PERF_SAMPLE_DATA_PAGE_SIZE = 0x400000"
definition PERF_SAMPLE_CODE_PAGE_SIZE :: u32 where "PERF_SAMPLE_CODE_PAGE_SIZE = 0x800000"

lemmas sample_flag_defs =
  PERF_SAMPLE_PHYS_ADDR_def PERF_SAMPLE_AUX_def PERF_SAMPLE_CGROUP_def
  PERF_SAMPLE_DATA_PAGE_SIZE_def PERF_SAMPLE_CODE_PAGE_SIZE_def
  PERF_SAMPLE_IP_def PERF_SAMPLE_TID_def PERF_SAMPLE_TIME_def
  PERF_SAMPLE_ADDR_def PERF_SAMPLE_READ_def PERF_SAMPLE_CALLCHAIN_def
  PERF_SAMPLE_ID_def PERF_SAMPLE_CPU_def PERF_SAMPLE_PERIOD_def
  PERF_SAMPLE_STREAM_ID_def PERF_SAMPLE_RAW_def PERF_SAMPLE_BRANCH_STACK_def
  PERF_SAMPLE_REGS_USER_def PERF_SAMPLE_STACK_USER_def PERF_SAMPLE_WEIGHT_def
  PERF_SAMPLE_DATA_SRC_def PERF_SAMPLE_IDENTIFIER_def PERF_SAMPLE_TRANSACTION_def
  PERF_SAMPLE_REGS_INTR_def

section \<open>Enum perf_event_read_format\<close>

definition PERF_FORMAT_TOTAL_TIME_ENABLED :: u32 where "PERF_FORMAT_TOTAL_TIME_ENABLED = 1"
definition PERF_FORMAT_TOTAL_TIME_RUNNING :: u32 where "PERF_FORMAT_TOTAL_TIME_RUNNING = 2"
definition PERF_FORMAT_ID :: u32 where "PERF_FORMAT_ID = 4"
definition PERF_FORMAT_GROUP :: u32 where "PERF_FORMAT_GROUP = 8"
definition PERF_FORMAT_LOST :: u32 where "PERF_FORMAT_LOST = 0x10"

lemmas read_format_defs =
  PERF_FORMAT_TOTAL_TIME_ENABLED_def PERF_FORMAT_TOTAL_TIME_RUNNING_def PERF_FORMAT_ID_def
  PERF_FORMAT_GROUP_def PERF_FORMAT_LOST_def

section \<open>Enum perf_event_type\<close>

definition PERF_RECORD_MMAP :: u32 where "PERF_RECORD_MMAP = 1"
definition PERF_RECORD_LOST :: u32 where "PERF_RECORD_LOST = 2"
definition PERF_RECORD_COMM :: u32 where "PERF_RECORD_COMM = 3"
definition PERF_RECORD_EXIT :: u32 where "PERF_RECORD_EXIT = 4"
definition PERF_RECORD_THROTTLE :: u32 where "PERF_RECORD_THROTTLE = 5"
definition PERF_RECORD_UNTHROTTLE :: u32 where "PERF_RECORD_UNTHROTTLE = 6"
definition PERF_RECORD_FORK :: u32 where "PERF_RECORD_FORK = 7"
definition PERF_RECORD_READ :: u32 where "PERF_RECORD_READ = 8"
definition PERF_RECORD_SAMPLE :: u32 where "PERF_RECORD_SAMPLE = 9"
definition PERF_RECORD_MMAP2 :: u32 where "PERF_RECORD_MMAP2 = 0xa"
definition PERF_RECORD_AUX :: u32 where "PERF_RECORD_AUX = 0xb"
definition PERF_RECORD_ITRACE_START :: u32 where "PERF_RECORD_ITRACE_START = 0xc"
definition PERF_RECORD_LOST_SAMPLES :: u32 where "PERF_RECORD_LOST_SAMPLES = 0xd"
definition PERF_RECORD_SWITCH :: u32 where "PERF_RECORD_SWITCH = 0xe"
definition PERF_RECORD_SWITCH_CPU_WIDE :: u32 where "PERF_RECORD_SWITCH_CPU_WIDE = 0xf"

lemmas record_type_defs =
  PERF_RECORD_MMAP_def PERF_RECORD_LOST_def PERF_RECORD_COMM_def
  PERF_RECORD_EXIT_def PERF_RECORD_THROTTLE_def PERF_RECORD_UNTHROTTLE_def
  PERF_RECORD_FORK_def PERF_RECORD_READ_def PERF_RECORD_SAMPLE_def
  PERF_RECORD_MMAP2_def PERF_RECORD_AUX_def PERF_RECORD_ITRACE_START_def
  PERF_RECORD_LOST_SAMPLES_def PERF_RECORD_SWITCH_def PERF_RECORD_SWITCH_CPU_WIDE_def

section \<open>The misc field of a record header\<close>

definition PERF_RECORD_MISC_CPUMODE_MASK :: u16 where "PERF_RECORD_MISC_CPUMODE_MASK = 7"
definition PERF_RECORD_MISC_CPUMODE_UNKNOWN :: u16 where "PERF_RECORD_MISC_CPUMODE_UNKNOWN = 0"
definition PERF_RECORD_MISC_KERNEL :: u16 where "PERF_RECORD_MISC_KERNEL = 1"
definition PERF_RECORD_MISC_USER :: u16 where "PERF_RECORD_MISC_USER = 2"
definition PERF_RECORD_MISC_HYPERVISOR :: u16 where "PERF_RECORD_MISC_HYPERVISOR = 3"
definition PERF_RECORD_MISC_GUEST_KERNEL :: u16 where "PERF_RECORD_MISC_GUEST_KERNEL = 4"
definition PERF_RECORD_MISC_GUEST_USER :: u16 where "PERF_RECORD_MISC_GUEST_USER = 5"
definition PERF_RECORD_MISC_MMAP_DATA :: u16 where "PERF_RECORD_MISC_MMAP_DATA = 0x2000"
definition PERF_RECORD_MISC_EXACT_IP :: u16 where "PERF_RECORD_MISC_EXACT_IP = 0x4000"
definition PERF_RECORD_MISC_EXT_RESERVED :: u16 where "PERF_RECORD_MISC_EXT_RESERVED = 0x8000"

lemmas misc_defs =
  PERF_RECORD_MISC_CPUMODE_MASK_def PERF_RECORD_MISC_CPUMODE_UNKNOWN_def PERF_RECORD_MISC_KERNEL_def
  PERF_RECORD_MISC_USER_def PERF_RECORD_MISC_HYPERVISOR_def PERF_RECORD_MISC_GUEST_KERNEL_def
  PERF_RECORD_MISC_GUEST_USER_def PERF_RECORD_MISC_MMAP_DATA_def PERF_RECORD_MISC_EXACT_IP_def
  PERF_RECORD_MISC_EXT_RESERVED_def

section \<open>Enum perf_sample_regs_abi\<close>

definition PERF_SAMPLE_REGS_ABI_NONE :: u64 where "PERF_SAMPLE_REGS_ABI_NONE = 0"
definition PERF_SAMPLE_REGS_ABI_32 :: u64 where "PERF_SAMPLE_REGS_ABI_32 = 1"
definition PERF_SAMPLE_REGS_ABI_64 :: u64 where "PERF_SAMPLE_REGS_ABI_64 = 2"

lemmas regs_abi_defs =
  PERF_SAMPLE_REGS_ABI_NONE_def PERF_SAMPLE_REGS_ABI_32_def PERF_SAMPLE_REGS_ABI_64_def

section \<open>The flags of a PERF_RECORD_AUX\<close>

definition PERF_AUX_FLAG_TRUNCATED :: u64 where "PERF_AUX_FLAG_TRUNCATED = 1"
definition PERF_AUX_FLAG_OVERWRITE :: u64 where "PERF_AUX_FLAG_OVERWRITE = 2"

lemmas aux_flag_defs =
  PERF_AUX_FLAG_TRUNCATED_def PERF_AUX_FLAG_OVERWRITE_def

end
