(* ===== verification/RecordFields.thy ===== *)
theory RecordFields
  imports Bytes PerfEvent
begin

text \<open>
  The parts of a perf record that lib/parse_record.c decodes: the constants of
  include/perf_event.h, what the code prints, the sections a decoder is built of, and the
  helpers \<open>handle_struct_read_format\<close>, \<open>print_regs\<close>, \<open>dump_raw_ibs_fetch\<close> and
  \<open>dump_raw_ibs_op\<close>.

  A section is a piece of the decoder: from the buffer and the current \<open>offset\<close> it
  yields what it prints and the offset it leaves, or \<open>None\<close> when it reads outside the
  buffer. The combinators below are the control structures the C code uses.
\<close>

section \<open>Output\<close>

text \<open>
  One call of \<open>printf\<close>: the text of its format and the integers it prints (\<open>Pr\<close>), or a
  NUL-terminated string (\<open>PrS\<close>); \<open>Er\<close> is a message on the standard error.
\<close>

datatype out = Pr string "int list" | PrS string "u8 list" | Er string "int list"

definition say :: "bool \<Rightarrow> out list \<Rightarrow> out list" where
  "say quiet os = (if quiet then [] else os)"

section \<open>Sections\<close>

type_synonym sect = "u8 list \<Rightarrow> int \<Rightarrow> (out list \<times> int) option"

definition emit :: "out list \<Rightarrow> sect" where
  "emit os data off = Some (os, off)"

definition skip :: "int \<Rightarrow> sect" where
  "skip n data off = Some ([], off + n)"

text \<open>\<open>memcpy(&v,&data[offset],8); offset+=8;\<close> and the code that uses \<open>v\<close>.\<close>

definition bind64 :: "(u64 \<Rightarrow> sect) \<Rightarrow> sect" where
  "bind64 f data off = do { v \<leftarrow> rd64 data off; f v data (off + 8) }"

definition bind32 :: "(u32 \<Rightarrow> sect) \<Rightarrow> sect" where
  "bind32 f data off = do { v \<leftarrow> rd32 data off; f v data (off + 4) }"

text \<open>
  A read of \<open>n\<close> bytes with a signed size: \<open>memcpy\<close> takes a \<open>size_t\<close>, so a negative
  size is a copy that runs off every buffer.
\<close>

definition bind_bytes :: "int \<Rightarrow> (u8 list \<Rightarrow> sect) \<Rightarrow> sect" where
  "bind_bytes n f data off =
     (if n < 0 then None
      else do { bs \<leftarrow> rd_bytes (nat n) data off; f bs data (off + n) })"

definition when_sect :: "bool \<Rightarrow> sect \<Rightarrow> sect" where
  "when_sect c s = (if c then s else emit [])"

fun seqs :: "sect list \<Rightarrow> sect" where
  "seqs [] data off = Some ([], off)"
| "seqs (s # ss) data off = do {
     (os, off1) \<leftarrow> s data off;
     (ps, off2) \<leftarrow> seqs ss data off1;
     Some (os @ ps, off2) }"

text \<open>\<open>for(i=0;i<n;i++)\<close> around a section.\<close>

definition for_sect :: "int \<Rightarrow> (int \<Rightarrow> sect) \<Rightarrow> sect" where
  "for_sect n f = seqs (map (\<lambda>i. f (int i)) [0..<nat n])"

declare seqs.simps [simp del]

section \<open>The decoding law of a section\<close>

text \<open>Wherever the bytes \<open>bs\<close> stand, the section reads exactly them and prints \<open>os\<close>.\<close>

definition decodes :: "sect \<Rightarrow> u8 list \<Rightarrow> out list \<Rightarrow> bool" where
  "decodes s bs os \<longleftrightarrow>
     (\<forall>data off. at data off bs \<longrightarrow> s data off = Some (os, off + int (length bs)))"

lemma decodesD: "decodes s bs os \<Longrightarrow> at data off bs \<Longrightarrow> s data off = Some (os, off + int (length bs))"
  by (simp add: decodes_def)

lemma decodes_emit [decode_intros]: "decodes (emit os) [] os"
  by (simp add: decodes_def emit_def)

lemma decodes_skip: "int (length bs) = n \<Longrightarrow> decodes (skip n) bs []"
  by (auto simp: decodes_def skip_def)

lemma decodes_bind64 [decode_intros]:
  "decodes (f v) bs os \<Longrightarrow> decodes (bind64 f) (le64 v @ bs) os"
  unfolding decodes_def bind64_def by (auto simp: at_append_iff c64.rd_at add.assoc)

lemma decodes_bind32 [decode_intros]:
  "decodes (f v) bs os \<Longrightarrow> decodes (bind32 f) (le32 v @ bs) os"
  unfolding decodes_def bind32_def by (auto simp: at_append_iff c32.rd_at add.assoc)

lemma decodes_bind_bytes [decode_intros]:
  "n = int (length cs) \<Longrightarrow> decodes (f cs) bs os \<Longrightarrow> decodes (bind_bytes n f) (cs @ bs) os"
  unfolding decodes_def bind_bytes_def by (auto simp: at_append_iff rd_bytes_at add.assoc)

lemma decodes_when [decode_intros]:
  "(c \<Longrightarrow> decodes s bs os) \<Longrightarrow>
   decodes (when_sect c s) (if c then bs else []) (if c then os else [])"
  by (simp add: when_sect_def decodes_emit)

lemma decodes_seqs_Nil [decode_intros]: "decodes (seqs []) [] []"
  by (simp add: decodes_def seqs.simps)

lemma decodes_seqs_Cons [decode_intros]:
  "decodes s bs os \<Longrightarrow> decodes (seqs ss) cs ps \<Longrightarrow> decodes (seqs (s # ss)) (bs @ cs) (os @ ps)"
  unfolding decodes_def by (auto simp: seqs.simps at_append_iff add.assoc)

lemma decodes_seqs_map:
  "(\<And>x. x \<in> set xs \<Longrightarrow> decodes (f x) (e x) (p x)) \<Longrightarrow>
   decodes (seqs (map f xs)) (concat (map e xs)) (concat (map p xs))"
proof (induction xs)
  case Nil
  then show ?case by (simp add: decodes_seqs_Nil)
next
  case (Cons x xs)
  then show ?case by (simp add: decodes_seqs_Cons)
qed

lemma map_upt_nth: "map (\<lambda>i. f i (xs ! i)) [0..<length xs] = map2 f [0..<length xs] xs"
  by (rule nth_equalityI) auto

lemma decodes_for [decode_intros]:
  assumes "n = int (length vs)"
    and "\<And>i. i < length vs \<Longrightarrow> decodes (f (int i)) (e (vs ! i)) (p (int i) (vs ! i))"
  shows "decodes (for_sect n f) (concat (map e vs))
           (concat (map (\<lambda>i. p (int i) (vs ! i)) [0..<length vs]))"
proof -
  have "map e vs = map (\<lambda>i. e (vs ! i)) [0..<length vs]"
    by (rule nth_equalityI) auto
  moreover have "decodes (seqs (map (\<lambda>i. f (int i)) [0..<length vs]))
      (concat (map (\<lambda>i. e (vs ! i)) [0..<length vs]))
      (concat (map (\<lambda>i. p (int i) (vs ! i)) [0..<length vs]))"
    by (rule decodes_seqs_map) (simp add: assms(2))
  ultimately show ?thesis by (simp add: for_sect_def assms(1))
qed

text \<open>The law with its bytes and its output given up to equality.\<close>

lemma decodes_cong: "decodes s bs os \<Longrightarrow> bs = cs \<Longrightarrow> os = ps \<Longrightarrow> decodes s cs ps"
  by simp

section \<open>handle_struct_read_format\<close>

record validate_values =
  v_pid :: int
  v_tid :: int
  v_events :: int
  v_branch_low :: u64
  v_branch_high :: u64

definition handle_struct_read_format :: "u32 \<Rightarrow> validate_values option \<Rightarrow> bool \<Rightarrow> sect" where
  "handle_struct_read_format read_format validation quiet =
     (if has read_format PERF_FORMAT_GROUP then
        bind64 (\<lambda>nr. seqs [
          emit (say quiet [Pr ''Number: %lld'' [sint nr]]),
          emit (case validation of None \<Rightarrow> []
                | Some v \<Rightarrow> (if v_events v \<noteq> sint nr
                    then [Er ''Error!  Wrong number of events %d != %lld'' [v_events v, sint nr]]
                    else [])),
          when_sect (has read_format PERF_FORMAT_TOTAL_TIME_ENABLED)
            (bind64 (\<lambda>t. emit (say quiet [Pr ''enabled: %lld'' [sint t]]))),
          when_sect (has read_format PERF_FORMAT_TOTAL_TIME_RUNNING)
            (bind64 (\<lambda>t. emit (say quiet [Pr ''running: %lld'' [sint t]]))),
          for_sect (sint nr) (\<lambda>i. bind64 (\<lambda>val. seqs [
            emit (say quiet [Pr ''Value: %lld'' [sint val]]),
            when_sect (has read_format PERF_FORMAT_ID)
              (bind64 (\<lambda>id. emit (say quiet [Pr ''id: %lld'' [sint id]])))]))])
      else
        bind64 (\<lambda>val. seqs [
          emit (say quiet [Pr ''Value: %lld'' [sint val]]),
          when_sect (has read_format PERF_FORMAT_TOTAL_TIME_ENABLED)
            (bind64 (\<lambda>t. emit (say quiet [Pr ''enabled: %lld'' [sint t]]))),
          when_sect (has read_format PERF_FORMAT_TOTAL_TIME_RUNNING)
            (bind64 (\<lambda>t. emit (say quiet [Pr ''running: %lld'' [sint t]]))),
          when_sect (has read_format PERF_FORMAT_ID)
            (bind64 (\<lambda>id. emit (say quiet [Pr ''id: %lld'' [sint id]])))]))"

section \<open>print_regs\<close>

definition reg_names_x86_64 :: "string list" where
  "reg_names_x86_64 =
     [''RAX'', ''RBX'', ''RCX'', ''RDX'', ''RSI'', ''RDI'', ''RBP'', ''RSP'',
      ''RIP'', ''RFLAGS'', ''CS'', ''SS'', ''DS'', ''ES'', ''FS'', ''GS'',
      ''R8'', ''R9'', ''R10'', ''R11'', ''R12'', ''R13'', ''R14'', ''R15'']"

definition reg_names_i386 :: "string list" where
  "reg_names_i386 =
     [''EAX'', ''EBX'', ''ECX'', ''EDX'', ''ESI'', ''EDI'', ''EBP'', ''ESP'',
      ''EIP'', ''EFLAGS'', ''CS'', ''SS'', ''DS'', ''ES'', ''FS'', ''GS'']"

definition reg_names_arm :: "string list" where
  "reg_names_arm =
     [''R0'', ''R1'', ''R2'', ''R3'', ''R4'', ''R5'', ''R6'', ''R7'',
      ''R8'', ''R9'', ''R10'', ''FP'', ''IP'', ''SP'', ''LR'', ''PC'']"

text \<open>
  \<open>names\<close> is the \<open>reg_names\<close> table of the target (its length is \<open>NUM_REGS\<close>). The
  registers are read only when they are printed; the offset moves either way.
\<close>

definition print_regs :: "bool \<Rightarrow> string list \<Rightarrow> u64 \<Rightarrow> u64 \<Rightarrow> sect" where
  "print_regs quiet names abi reg_mask =
     seqs (emit (say quiet [Pr ''Reg mask %llx'' [uint reg_mask]]) #
       map (\<lambda>i. when_sect (bit reg_mask i)
                  (if quiet then skip 8
                   else bind64 (\<lambda>v. emit
                     [Pr ((if i < length names then names ! i else ''???'') @ '' : %llx'') [uint v]])))
           [0..<64])"

section \<open>The IBS dumps\<close>

text \<open>\<open>!!(msr&1ULL<<n)\<close> and \<open>(msr>>n)&mask\<close>.\<close>

definition bit_of :: "u64 \<Rightarrow> nat \<Rightarrow> int" where
  "bit_of w n = b2i (bit w n)"

definition field_of :: "u64 \<Rightarrow> nat \<Rightarrow> u64 \<Rightarrow> int" where
  "field_of w n m = uint (drop_bit n w AND m)"

definition ibs_page_size :: "u64 \<Rightarrow> string" where
  "ibs_page_size w =
     (let v = drop_bit 53 w AND 3 in
      if v = 0 then ''4kB'' else if v = 1 then ''2MB'' else if v = 2 then ''1GB''
      else ''Resreved'')"

definition ibs_fetch_text :: "u32 \<Rightarrow> u64 \<Rightarrow> u64 \<Rightarrow> u64 \<Rightarrow> out list" where
  "ibs_fetch_text hdr m0 m1 m2 =
      [Pr ''Header: %x'' [uint hdr],
       Pr ''MSR IBS_FETCH_CONTROL %llx'' [uint m0],
       Pr ''IBS_RAND_EN: %d'' [bit_of m0 57],
       Pr ''L2 iTLB Miss: %d'' [bit_of m0 56],
       Pr ''L1 iTLB Miss: %d'' [bit_of m0 55],
       Pr ''L1TLB page size: '' [], Pr (ibs_page_size m0) [],
       Pr ''Fetch Physical Address Valid: %d'' [bit_of m0 52],
       Pr ''icache miss: %d'' [bit_of m0 51],
       Pr ''Instruction Fetch Complete: %d'' [bit_of m0 50],
       Pr ''Instruction Fetch Valid: %d'' [bit_of m0 49],
       Pr ''Instruction Fetch Enabled: %d'' [bit_of m0 48],
       Pr ''Instruction Fetch Latency: %lld'' [field_of m0 32 0xffff],
       Pr ''Instruction Fetch Count: %lld'' [field_of m0 16 0xffff * 16],
       Pr ''Instruction Fetch Max Count: %lld'' [field_of m0 0 0xffff * 16],
       Pr ''MSR IBS_FETCH_LINEAR_ADDRESS %llx'' [uint m1],
       Pr ''MSR IBS_FETCH_PHYSICAL_ADDRESS %llx'' [uint m2]]"

definition dump_raw_ibs_fetch :: "u8 list \<Rightarrow> int \<Rightarrow> int \<Rightarrow> out list option" where
  "dump_raw_ibs_fetch data off sz = do {
     hdr \<leftarrow> rd32 data off;
     m0 \<leftarrow> rd64 data (off + 4);
     m1 \<leftarrow> rd64 data (off + 12);
     m2 \<leftarrow> rd64 data (off + 20);
     brtarget \<leftarrow> (if sz > 24
       then map_option (\<lambda>m3. [Pr ''MSR IBS_BRTARGET %llx'' [uint m3]]) (rd64 data (off + 28))
       else Some []);
     Some (ibs_fetch_text hdr m0 m1 m2 @ brtarget) }"

fun ibs_data_source :: "int \<Rightarrow> string" where
  "ibs_data_source v =
     (if v = 0 then ''No valid status'' else if v = 1 then ''L3''
      else if v = 2 then ''Cache from another compute unit'' else if v = 3 then ''DRAM''
      else if v = 4 then ''Reserved remote cache'' else if v = 5 then ''Reserved''
      else if v = 6 then ''Reserved'' else ''Other: MMIO/config/PCI/APIC'')"

definition ibs_op_text :: "u32 \<Rightarrow> u64 \<Rightarrow> u64 \<Rightarrow> u64 \<Rightarrow> u64 \<Rightarrow> u64 \<Rightarrow> out list" where
  "ibs_op_text hdr m0 m1 m2 m3 m4 =
      [Pr ''Header: %x'' [uint hdr],
       Pr ''MSR IBS_EXECUTION_CONTROL %llx'' [uint m0],
       Pr ''IbsOpCurCnt: %lld'' [field_of m0 32 0x3ffffff],
       Pr ''IBS OpCntCtl: %d'' [bit_of m0 19],
       Pr ''IBS OpVal: %d'' [bit_of m0 18],
       Pr ''IBS OpEn: %d'' [bit_of m0 17],
       Pr ''IbsOpMaxCnt: %lld'' [uint (push_bit 4 (m0 AND 0xffff) OR (m0 AND 0x3f00000))],
       Pr ''MSR IBS_OP_LOGICAL_ADDRESS %llx'' [uint m1],
       Pr ''MSR IBS_OP_DATA %llx'' [uint m2],
       Pr ''RIP Invalid: %d'' [bit_of m2 38],
       Pr ''Branch Retired: %d'' [bit_of m2 37],
       Pr ''Branch Mispredicted: %d'' [bit_of m2 36],
       Pr ''Branch Taken: %d'' [bit_of m2 35],
       Pr ''Return uop: %d'' [bit_of m2 34],
       Pr ''Mispredicted Return uop: %d'' [bit_of m2 33],
       Pr ''Tag to Retire Cycles: %lld'' [field_of m2 16 0xffff],
       Pr ''Completion to Retire Cycles: %lld'' [field_of m2 0 0xffff],
       Pr ''MSR IBS_OP_DATA2 (Northbridge) %llx'' [uint m3],
       Pr (if bit m3 5 then ''Cache Hit State: O'' else ''Cache Hit State: M'') [],
       Pr (if bit m3 4 then ''Request destination node: Same''
           else ''Request destination node: Different'') [],
       Pr ''Northbridge data source: '' [], Pr (ibs_data_source (field_of m3 0 7)) [],
       Pr ''MSR IBS_OP_DATA3 (cache) %llx'' [uint m4],
       Pr ''Data Cache Miss Latency: %lld'' [field_of m4 32 0xffff],
       Pr ''L2TLB data hit in 1GB page: %d'' [bit_of m4 19],
       Pr ''Data cache physical addr valid: %d'' [bit_of m4 18],
       Pr ''Data cache linear addr valid: %d'' [bit_of m4 17],
       Pr ''MAB hit: %d'' [bit_of m4 16],
       Pr ''Data cache locked operation: %d'' [bit_of m4 15],
       Pr ''Uncachable memory operation: %d'' [bit_of m4 14],
       Pr ''Write-combining memory operation: %d'' [bit_of m4 13],
       Pr ''Data forwarding store to load canceled: %d'' [bit_of m4 12],
       Pr ''Data forwarding store to load operation: %d'' [bit_of m4 11],
       Pr ''Bank conflict on load operation: %d'' [bit_of m4 9],
       Pr ''Misaligned access: %d'' [bit_of m4 8],
       Pr ''Data cache miss: %d'' [bit_of m4 7],
       Pr ''Data cache L2TLB hit in 2M: %d'' [bit_of m4 6],
       Pr ''Data cache L2TLB hit in 1G: %d'' [bit_of m4 5],
       Pr ''Data cache L1TLB hit in 2M: %d'' [bit_of m4 4],
       Pr ''Data cache L2TLB miss: %d'' [bit_of m4 3],
       Pr ''Data cache L1TLB miss: %d'' [bit_of m4 2],
       Pr ''Operation is a store: %d'' [bit_of m4 1],
       Pr ''Operation is a load: %d'' [bit_of m4 0]]"

definition dump_raw_ibs_op :: "u8 list \<Rightarrow> int \<Rightarrow> int \<Rightarrow> out list option" where
  "dump_raw_ibs_op data off sz = do {
     hdr \<leftarrow> rd32 data off;
     m0 \<leftarrow> rd64 data (off + 4);
     m1 \<leftarrow> rd64 data (off + 12);
     m2 \<leftarrow> rd64 data (off + 20);
     m3 \<leftarrow> rd64 data (off + 28);
     m4 \<leftarrow> rd64 data (off + 36);
     linear \<leftarrow> (if bit m4 17
       then map_option (\<lambda>m5. [Pr ''MSR IBS_DC_LINEAR_ADDRESS %llx'' [uint m5]]) (rd64 data (off + 44))
       else Some []);
     physical \<leftarrow> (if bit m4 18
       then map_option (\<lambda>m6. [Pr ''MSR IBS_DC_PHYSICAL_ADDRESS %llx'' [uint m6]]) (rd64 data (off + 52))
       else Some []);
     data4 \<leftarrow> (if sz > 64
       then map_option (\<lambda>m7. [Pr ''MSR IBS_OP_DATA4 %llx'' [uint m7]]) (rd64 data (off + 60))
       else Some []);
     Some (ibs_op_text hdr m0 m1 m2 m3 m4 @ linear @ physical @ data4) }"

end
