(* ===== verification/ParseRecord.thy ===== *)
theory ParseRecord
  imports RecordFields
begin

text \<open>
  \<open>perf_mmap_read\<close> of lib/parse_record.c: the decoder of the records of a perf ring
  buffer, one definition per record type of its switch, the loop over the records and the
  unwrapping of the ring. White-space of the printed text is not modelled.
\<close>

section \<open>Fields that are read and printed\<close>

definition pr64 :: "bool \<Rightarrow> string \<Rightarrow> sect" where
  "pr64 quiet label = bind64 (\<lambda>v. emit (say quiet [Pr label [sint v]]))"

definition px64 :: "bool \<Rightarrow> string \<Rightarrow> sect" where
  "px64 quiet label = bind64 (\<lambda>v. emit (say quiet [Pr label [uint v]]))"

definition pr32 :: "bool \<Rightarrow> string \<Rightarrow> sect" where
  "pr32 quiet label = bind32 (\<lambda>v. emit (say quiet [Pr label [sint v]]))"

text \<open>A string of the buffer up to its NUL; without one \<open>printf\<close> runs off the copy.\<close>

definition cstr :: "u8 list \<Rightarrow> u8 list option" where
  "cstr bs = (if 0 \<in> set bs then Some (takeWhile (\<lambda>b. b \<noteq> 0) bs) else None)"

definition pr_str :: "bool \<Rightarrow> string \<Rightarrow> int \<Rightarrow> sect" where
  "pr_str quiet label n = bind_bytes n (\<lambda>bs data off.
     if quiet then Some ([], off)
     else map_option (\<lambda>s. ([PrS label s], off)) (cstr bs))"

section \<open>The header of a record\<close>

definition record_name :: "u32 \<Rightarrow> u32 \<Rightarrow> out" where
  "record_name sample_type t =
     (if t = PERF_RECORD_MMAP then Pr ''PERF_RECORD_MMAP'' []
      else if t = PERF_RECORD_LOST then Pr ''PERF_RECORD_LOST'' []
      else if t = PERF_RECORD_COMM then Pr ''PERF_RECORD_COMM'' []
      else if t = PERF_RECORD_EXIT then Pr ''PERF_RECORD_EXIT'' []
      else if t = PERF_RECORD_THROTTLE then Pr ''PERF_RECORD_THROTTLE'' []
      else if t = PERF_RECORD_UNTHROTTLE then Pr ''PERF_RECORD_UNTHROTTLE'' []
      else if t = PERF_RECORD_FORK then Pr ''PERF_RECORD_FORK'' []
      else if t = PERF_RECORD_READ then Pr ''PERF_RECORD_READ'' []
      else if t = PERF_RECORD_SAMPLE then Pr ''PERF_RECORD_SAMPLE [%x]'' [uint sample_type]
      else if t = PERF_RECORD_MMAP2 then Pr ''PERF_RECORD_MMAP2'' []
      else if t = PERF_RECORD_AUX then Pr ''PERF_RECORD_AUX'' []
      else if t = PERF_RECORD_ITRACE_START then Pr ''PERF_RECORD_ITRACE_START'' []
      else if t = PERF_RECORD_LOST_SAMPLES then Pr ''PERF_RECORD_LOST_SAMPLES'' []
      else if t = PERF_RECORD_SWITCH then Pr ''PERF_RECORD_SWITCH'' []
      else if t = PERF_RECORD_SWITCH_CPU_WIDE then Pr ''PERF_RECORD_SWITCH_CPU_WIDE'' []
      else Pr ''UNKNOWN %d'' [sint t])"

definition cpumode_name :: "u16 \<Rightarrow> out" where
  "cpumode_name misc =
     (let m = misc AND PERF_RECORD_MISC_CPUMODE_MASK in
      if m = PERF_RECORD_MISC_CPUMODE_UNKNOWN then Pr ''PERF_RECORD_MISC_CPUMODE_UNKNOWN'' []
      else if m = PERF_RECORD_MISC_KERNEL then Pr ''PERF_RECORD_MISC_KERNEL'' []
      else if m = PERF_RECORD_MISC_USER then Pr ''PERF_RECORD_MISC_USER'' []
      else if m = PERF_RECORD_MISC_HYPERVISOR then Pr ''PERF_RECORD_MISC_HYPERVISOR'' []
      else if m = PERF_RECORD_MISC_GUEST_KERNEL then Pr ''PERF_RECORD_MISC_GUEST_KERNEL'' []
      else if m = PERF_RECORD_MISC_GUEST_USER then Pr ''PERF_RECORD_MISC_GUEST_USER'' []
      else Pr ''Unknown %d!'' [uint misc])"

definition misc_flags :: "u32 \<Rightarrow> u16 \<Rightarrow> out list" where
  "misc_flags t misc =
     (if has misc PERF_RECORD_MISC_MMAP_DATA then
        (if t = PERF_RECORD_MMAP then [Pr '',PERF_RECORD_MISC_MMAP_DATA '' []]
         else if t = PERF_RECORD_COMM then [Pr '',PERF_RECORD_MISC_COMM_EXEC '' []]
         else if t = PERF_RECORD_SWITCH \<or> t = PERF_RECORD_SWITCH_CPU_WIDE
         then [Pr '',PERF_RECORD_MISC_SWITCH_OUT '' []]
         else [Pr ''UNKNOWN ALIAS!!! '' []])
      else []) @
     (if has misc PERF_RECORD_MISC_EXACT_IP then [Pr '',PERF_RECORD_MISC_EXACT_IP '' []] else []) @
     (if has misc PERF_RECORD_MISC_EXT_RESERVED
      then [Pr '',PERF_RECORD_MISC_EXT_RESERVED '' []] else [])"

definition header_out :: "u32 \<Rightarrow> u32 \<Rightarrow> u16 \<Rightarrow> u16 \<Rightarrow> out list" where
  "header_out sample_type t misc sz =
     [record_name sample_type t, Pr '', MISC=%d ('' [uint misc], cpumode_name misc] @
     misc_flags t misc @ [Pr ''), Size=%d'' [uint sz]]"

section \<open>The records without a sample\<close>

definition parse_lost :: "bool \<Rightarrow> sect" where
  "parse_lost quiet = seqs [pr64 quiet ''ID: %lld'', pr64 quiet ''LOST: %lld'']"

definition parse_comm :: "bool \<Rightarrow> u16 \<Rightarrow> sect" where
  "parse_comm quiet event_size = seqs
     [pr32 quiet ''PID: %d'', pr32 quiet ''TID: %d'',
      pr_str quiet ''comm: %s'' (uint event_size - 16)]"

definition parse_fork :: "bool \<Rightarrow> sect" where
  "parse_fork quiet = seqs
     [pr32 quiet ''PID: %d'', pr32 quiet ''PPID: %d'', pr32 quiet ''TID: %d'',
      pr32 quiet ''PTID: %d'', pr64 quiet ''Time: %lld'']"

definition parse_mmap :: "bool \<Rightarrow> u16 \<Rightarrow> sect" where
  "parse_mmap quiet event_size = seqs
     [pr32 quiet ''PID: %d'', pr32 quiet ''TID: %d'', px64 quiet ''Address: %llx'',
      px64 quiet ''Length: %llx'', px64 quiet ''Page Offset: %llx'',
      pr_str quiet ''Filename: %s'' (uint event_size - 40)]"

definition parse_mmap2 :: "bool \<Rightarrow> u16 \<Rightarrow> sect" where
  "parse_mmap2 quiet event_size = seqs
     [pr32 quiet ''PID: %d'', pr32 quiet ''TID: %d'', px64 quiet ''Address: %llx'',
      px64 quiet ''Length: %llx'', px64 quiet ''Page Offset: %llx'',
      pr32 quiet ''Major: %d'', pr32 quiet ''Minor: %d'', px64 quiet ''Ino: %llx'',
      px64 quiet ''Ino generation: %llx'', pr32 quiet ''Prot: %d'', pr32 quiet ''Flags: %d'',
      pr_str quiet ''Filename: %s'' (uint event_size - 72)]"

definition parse_exit :: "bool \<Rightarrow> sect" where
  "parse_exit quiet = seqs
     [pr32 quiet ''PID: %d'', pr32 quiet ''PPID: %d'', pr32 quiet ''TID: %d'',
      pr32 quiet ''PTID: %d'', pr64 quiet ''Time: %lld'']"

definition parse_throttle :: "bool \<Rightarrow> sect" where
  "parse_throttle quiet = seqs
     [pr64 quiet ''Time: %lld'', pr64 quiet ''ID: %lld'', pr64 quiet ''Stream ID: %lld'']"

definition parse_aux :: "bool \<Rightarrow> sect" where
  "parse_aux quiet = seqs
     [pr64 quiet ''AUX_OFFSET: %lld'', pr64 quiet ''AUX_SIZE: %lld'',
      bind64 (\<lambda>flags. emit (say quiet (
        [Pr ''FLAGS: %llx'' [uint flags]] @
        (if has flags PERF_AUX_FLAG_TRUNCATED then [Pr ''FLAG_TRUNCATED '' []] else []) @
        (if has flags PERF_AUX_FLAG_OVERWRITE then [Pr ''FLAG_OVERWRITE '' []] else [])))),
      pr64 quiet ''SAMPLE_ID: %lld'']"

definition parse_itrace_start :: "bool \<Rightarrow> sect" where
  "parse_itrace_start quiet = seqs [pr32 quiet ''PID: %d'', pr32 quiet ''TID: %d'']"

definition parse_lost_samples :: "bool \<Rightarrow> sect" where
  "parse_lost_samples quiet = seqs [pr64 quiet ''LOST: %lld'', pr64 quiet ''SAMPLE_ID: %lld'']"

definition parse_switch :: "bool \<Rightarrow> sect" where
  "parse_switch quiet = seqs [pr64 quiet ''SAMPLE_ID: %lld'']"

definition parse_switch_cpu_wide :: "bool \<Rightarrow> sect" where
  "parse_switch_cpu_wide quiet = seqs
     [pr32 quiet ''PREV_PID: %d'', pr32 quiet ''PREV_TID: %d'', pr64 quiet ''SAMPLE_ID: %lld'']"

section \<open>The fields of a sample\<close>

definition sec_tid :: "validate_values option \<Rightarrow> bool \<Rightarrow> sect" where
  "sec_tid validate quiet = bind32 (\<lambda>pid. bind32 (\<lambda>tid. emit (
     (case validate of None \<Rightarrow> []
      | Some v \<Rightarrow> (if v_pid v \<noteq> sint pid then [Er ''Error, pid %d != %d'' [v_pid v, sint pid]]
                  else [])) @
     say quiet [Pr ''PERF_SAMPLE_TID, pid: %d  tid %d'' [sint pid, sint tid]])))"

definition sec_cpu :: "bool \<Rightarrow> sect" where
  "sec_cpu quiet = bind32 (\<lambda>cpu. bind32 (\<lambda>res. emit (
     say quiet [Pr ''PERF_SAMPLE_CPU, cpu: %d  res %d'' [sint cpu, sint res]])))"

definition sec_read :: "u32 \<Rightarrow> validate_values option \<Rightarrow> bool \<Rightarrow> sect" where
  "sec_read read_format validate quiet = seqs
     [emit (say quiet [Pr ''PERF_SAMPLE_READ, read_format'' []]),
      handle_struct_read_format read_format validate quiet]"

definition sec_callchain :: "bool \<Rightarrow> sect" where
  "sec_callchain quiet = bind64 (\<lambda>nr. seqs
     [emit (say quiet [Pr ''PERF_SAMPLE_CALLCHAIN, callchain length: %lld'' [sint nr]]),
      for_sect (sint nr) (\<lambda>i. bind64 (\<lambda>ip. emit (say quiet [Pr ''ip[%d]: %llx'' [i, uint ip]])))])"

text \<open>\<open>RAW_IBS_FETCH\<close> is 1 and \<open>RAW_IBS_OP\<close> is 2 (include/parse_record.h).\<close>

definition raw_dump :: "int \<Rightarrow> u8 list \<Rightarrow> int \<Rightarrow> int \<Rightarrow> out list option" where
  "raw_dump raw_type data off sz =
     (if raw_type = 1 then dump_raw_ibs_fetch data off sz
      else if raw_type = 2 then dump_raw_ibs_op data off sz
      else if sz \<le> 0 then Some []
      else map_option (map (\<lambda>b. Pr ''%d'' [uint b])) (rd_bytes (nat sz) data off))"

definition sec_raw :: "int \<Rightarrow> bool \<Rightarrow> sect" where
  "sec_raw raw_type quiet = bind32 (\<lambda>szw data off. do {
     os \<leftarrow> (if quiet then Some [] else raw_dump raw_type data off (sint szw));
     Some (say quiet [Pr ''PERF_SAMPLE_RAW, Raw length: %d'' [sint szw]] @ os, off + sint szw) })"

text \<open>The \<open>flags\<close> of a branch entry, each tested on what the earlier tests left.\<close>

definition lbr_flags_out :: "u64 \<Rightarrow> out list" where
  "lbr_flags_out flags0 =
     (let o0 = (if flags0 = 0 then [Pr ''0'' []] else []);
          (o1, flags1) = (if has flags0 1 then ([Pr ''MISPREDICTED '' []], flags0 AND NOT 2)
                          else ([], flags0));
          (o2, flags2) = (if has flags1 2 then ([Pr ''PREDICTED '' []], flags1 AND NOT 2)
                          else ([], flags1));
          (o3, flags3) = (if has flags2 4 then ([Pr ''IN_TRANSACTION '' []], flags2 AND NOT 4)
                          else ([], flags2));
          o4 = (if has flags3 8 then [Pr ''TRANSACTION_ABORT '' []] else [])
      in o0 @ o1 @ o2 @ o3 @ o4)"

definition sec_branch_stack :: "validate_values option \<Rightarrow> bool \<Rightarrow> sect" where
  "sec_branch_stack validate quiet = bind64 (\<lambda>bnr. seqs
     [emit (say quiet [Pr ''PERF_SAMPLE_BRANCH_STACK, branch_stack entries: %lld'' [sint bnr]]),
      for_sect (sint bnr) (\<lambda>i. bind64 (\<lambda>frm. seqs
        [emit (case validate of None \<Rightarrow> []
               | Some v \<Rightarrow> (if frm < v_branch_low v
                           then [Er ''Error! branch out of bounds!'' []] else [])),
         bind64 (\<lambda>to. bind64 (\<lambda>flags. emit (say quiet (
           Pr ''lbr[%d]: %llx %llx '' [i, uint frm, uint to] # lbr_flags_out flags))))]))])"

definition abi_out :: "u64 \<Rightarrow> out list" where
  "abi_out abi =
     (if abi = PERF_SAMPLE_REGS_ABI_NONE then [Pr ''PERF_SAMPLE_REGS_ABI_NONE'' []] else []) @
     (if abi = PERF_SAMPLE_REGS_ABI_32 then [Pr ''PERF_SAMPLE_REGS_ABI_32'' []] else []) @
     (if abi = PERF_SAMPLE_REGS_ABI_64 then [Pr ''PERF_SAMPLE_REGS_ABI_64'' []] else [])"

definition sec_regs :: "string \<Rightarrow> bool \<Rightarrow> string list \<Rightarrow> u64 \<Rightarrow> sect" where
  "sec_regs label quiet names reg_mask = bind64 (\<lambda>abi. seqs
     [emit (say quiet (Pr label [] # abi_out abi)), print_regs quiet names abi reg_mask])"

text \<open>
  The copied stack is an \<open>int\<close> array that the code indexes with \<open>k\<close>, a byte count: entry
  \<open>k\<close> is at byte \<open>4*k\<close>. The loop runs over \<open>k = 0,4,8,\<dots>\<close> below \<open>dyn_size\<close>. Its \<open>int k\<close>
  never reaches a \<open>dyn_size\<close> above 2147483644: it wraps to -2147483648 and starts again. A
  loop that prints then reads outside the copy, at the latest at that negative index. A quiet
  one reads nothing and never ends. Both leave no output here (\<open>None\<close>); \<open>dump_spins\<close> tells
  them apart for \<open>parse_loop\<close>.
\<close>

definition dump_spins :: "bool \<Rightarrow> int \<Rightarrow> bool" where
  "dump_spins quiet dyn_size \<longleftrightarrow> quiet \<and> 2147483644 < dyn_size"

definition stack_dump :: "bool \<Rightarrow> u8 list \<Rightarrow> int \<Rightarrow> out list option" where
  "stack_dump quiet stack dyn_size =
     (if quiet then (if dump_spins quiet dyn_size then None else Some [])
      else if dyn_size > 2147483644 then None
      else those (map (\<lambda>j. map_option (\<lambda>w. Pr ''0x%x'' [uint w]) (rd32 stack (4 * (4 * int j))))
             [0..<nat ((dyn_size + 3) div 4)]))"

definition sec_stack_user :: "bool \<Rightarrow> sect" where
  "sec_stack_user quiet = bind64 (\<lambda>sz. bind_bytes (sint sz) (\<lambda>stack. bind64 (\<lambda>dyn data off. do {
     os \<leftarrow> stack_dump quiet stack (sint dyn);
     Some (say quiet [Pr ''PERF_SAMPLE_STACK_USER, Requested size: %lld'' [sint sz],
                      Pr ''Dynamic (used) size: %lld'' [sint dyn]] @ os, off) })))"

text \<open>The code reaches the loop over the stack and stays in it.\<close>

definition stack_spins :: "bool \<Rightarrow> u8 list \<Rightarrow> int \<Rightarrow> bool" where
  "stack_spins quiet data off =
     (case do { sz \<leftarrow> rd64 data off;
                stack \<leftarrow> (if sint sz < 0 then None else rd_bytes (nat (sint sz)) data (off + 8));
                rd64 data (off + 8 + sint sz) } of
        None \<Rightarrow> False
      | Some dyn \<Rightarrow> dump_spins quiet (sint dyn))"

text \<open>
  The masks \<open>PERF_MEM_x<<PERF_MEM_SHIFT\<close> are shifts of an \<open>int\<close>, converted to the
  \<open>long long\<close> they are tested against; the last one is a \<open>long long\<close> from the start.
\<close>

definition mem_mask :: "int \<Rightarrow> nat \<Rightarrow> u64" where
  "mem_mask v s = word_of_int (i32 (v * 2 ^ s))"

definition mem_mask_ll :: "int \<Rightarrow> nat \<Rightarrow> u64" where
  "mem_mask_ll v s = word_of_int (v * 2 ^ s)"

definition mem_flags :: "(u64 \<times> string) list" where
  "mem_flags =
     [(mem_mask 0x0001 0, ''Op Not available''),
      (mem_mask 0x0002 0, ''Load''),
      (mem_mask 0x0004 0, ''Store''),
      (mem_mask 0x0008 0, ''Prefetch''),
      (mem_mask 0x0010 0, ''Executable code''),
      (mem_mask 0x0001 5, ''Level Not available''),
      (mem_mask 0x0002 5, ''Hit''),
      (mem_mask 0x0004 5, ''Miss''),
      (mem_mask 0x0008 5, ''L1 cache''),
      (mem_mask 0x0010 5, ''Line fill buffer''),
      (mem_mask 0x0020 5, ''L2 cache''),
      (mem_mask 0x0040 5, ''L3 cache''),
      (mem_mask 0x0080 5, ''Local DRAM''),
      (mem_mask 0x0100 5, ''Remote DRAM 1 hop''),
      (mem_mask 0x0200 5, ''Remote DRAM 2 hops''),
      (mem_mask 0x0400 5, ''Remote cache 1 hop''),
      (mem_mask 0x0800 5, ''Remote cache 2 hops''),
      (mem_mask 0x1000 5, ''I/O memory''),
      (mem_mask 0x2000 5, ''Uncached memory''),
      (mem_mask 0x0001 19, ''Not available''),
      (mem_mask 0x0002 19, ''No snoop''),
      (mem_mask 0x0004 19, ''Snoop hit''),
      (mem_mask 0x0008 19, ''Snoop miss''),
      (mem_mask 0x0010 19, ''Snoop hit modified''),
      (mem_mask 0x0001 24, ''Not available''),
      (mem_mask 0x0002 24, ''Locked transaction''),
      (mem_mask 0x0001 26, ''Not available''),
      (mem_mask 0x0002 26, ''Hit''),
      (mem_mask 0x0004 26, ''Miss''),
      (mem_mask 0x0008 26, ''Level 1 TLB''),
      (mem_mask 0x0010 26, ''Level 2 TLB''),
      (mem_mask 0x0020 26, ''Hardware walker''),
      (mem_mask_ll 0x0040 26, ''OS fault handler'')]"

definition data_src_out :: "u64 \<Rightarrow> out list" where
  "data_src_out src = map (\<lambda>(m, label). Pr label []) (filter (\<lambda>(m, label). has src m) mem_flags)"

definition sec_data_src :: "bool \<Rightarrow> sect" where
  "sec_data_src quiet = bind64 (\<lambda>src. emit (say quiet (
     Pr ''PERF_SAMPLE_DATA_SRC, Raw: %llx'' [uint src] # data_src_out src)))"

section \<open>The sample record\<close>

record parse_cfg =
  c_sample_type :: u32
  c_read_format :: u32
  c_reg_mask :: u64
  c_validate :: "validate_values option"
  c_quiet :: bool
  c_raw_type :: int
  c_reg_names :: "string list"

definition sample_sections :: "parse_cfg \<Rightarrow> (u32 \<times> sect) list" where
  "sample_sections cfg = (let q = c_quiet cfg; val = c_validate cfg in
     [(PERF_SAMPLE_IP, px64 q ''PERF_SAMPLE_IP, IP: %llx''),
      (PERF_SAMPLE_TID, sec_tid val q),
      (PERF_SAMPLE_TIME, pr64 q ''PERF_SAMPLE_TIME, time: %lld''),
      (PERF_SAMPLE_ADDR, px64 q ''PERF_SAMPLE_ADDR, addr: %llx''),
      (PERF_SAMPLE_ID, pr64 q ''PERF_SAMPLE_ID, sample_id: %lld''),
      (PERF_SAMPLE_STREAM_ID, pr64 q ''PERF_SAMPLE_STREAM_ID, sample_stream_id: %lld''),
      (PERF_SAMPLE_CPU, sec_cpu q),
      (PERF_SAMPLE_PERIOD, pr64 q ''PERF_SAMPLE_PERIOD, period: %lld''),
      (PERF_SAMPLE_READ, sec_read (c_read_format cfg) val q),
      (PERF_SAMPLE_CALLCHAIN, sec_callchain q),
      (PERF_SAMPLE_RAW, sec_raw (c_raw_type cfg) q),
      (PERF_SAMPLE_BRANCH_STACK, sec_branch_stack val q),
      (PERF_SAMPLE_REGS_USER, sec_regs ''PERF_SAMPLE_REGS_USER, ABI: '' q (c_reg_names cfg) (c_reg_mask cfg)),
      (PERF_SAMPLE_REGS_INTR, sec_regs ''PERF_SAMPLE_REGS_INTR, ABI: '' q (c_reg_names cfg) (c_reg_mask cfg)),
      (PERF_SAMPLE_STACK_USER, sec_stack_user q),
      (PERF_SAMPLE_WEIGHT, pr64 q ''PERF_SAMPLE_WEIGHT, Weight: %lld''),
      (PERF_SAMPLE_DATA_SRC, sec_data_src q),
      (PERF_SAMPLE_IDENTIFIER, pr64 q ''PERF_SAMPLE_IDENTIFIER, Raw length: %lld''),
      (PERF_SAMPLE_TRANSACTION, pr64 q ''PERF_SAMPLE_TRANSACTION, Raw length: %lld'')])"

definition parse_sample :: "parse_cfg \<Rightarrow> sect" where
  "parse_sample cfg =
     seqs (map (\<lambda>(flag, s). when_sect (has (c_sample_type cfg) flag) s) (sample_sections cfg))"

text \<open>
  A sample in which the code never ends: the fields before the user stack can be read, and the
  loop over the stack spins.
\<close>

definition sample_spins :: "parse_cfg \<Rightarrow> u8 list \<Rightarrow> int \<Rightarrow> bool" where
  "sample_spins cfg data off =
     (has (c_sample_type cfg) PERF_SAMPLE_STACK_USER \<and>
      (case seqs (map (\<lambda>(flag, s). when_sect (has (c_sample_type cfg) flag) s)
                   (takeWhile (\<lambda>(flag, s). flag \<noteq> PERF_SAMPLE_STACK_USER) (sample_sections cfg)))
              data off of
         None \<Rightarrow> False
       | Some (_, off') \<Rightarrow> stack_spins (c_quiet cfg) data off'))"

section \<open>One record, the loop, the ring buffer\<close>

text \<open>
  The switch on \<open>event->type\<close>. \<open>start\<close> is where the record's header stands, \<open>limit\<close> the
  number of new bytes: the default case jumps to it.
\<close>

definition parse_body :: "parse_cfg \<Rightarrow> int \<Rightarrow> int \<Rightarrow> u32 \<Rightarrow> sect" where
  "parse_body cfg limit start t data off = (let q = c_quiet cfg in
     if t = PERF_RECORD_LOST then parse_lost q data off
     else if t = PERF_RECORD_COMM then
       do { sz \<leftarrow> rd16 data (start + 6); parse_comm q sz data off }
     else if t = PERF_RECORD_FORK then parse_fork q data off
     else if t = PERF_RECORD_MMAP then
       do { sz \<leftarrow> rd16 data (start + 6); parse_mmap q sz data off }
     else if t = PERF_RECORD_MMAP2 then
       do { sz \<leftarrow> rd16 data (start + 6); parse_mmap2 q sz data off }
     else if t = PERF_RECORD_EXIT then parse_exit q data off
     else if t = PERF_RECORD_THROTTLE \<or> t = PERF_RECORD_UNTHROTTLE then parse_throttle q data off
     else if t = PERF_RECORD_SAMPLE then parse_sample cfg data off
     else if t = PERF_RECORD_AUX then parse_aux q data off
     else if t = PERF_RECORD_ITRACE_START then parse_itrace_start q data off
     else if t = PERF_RECORD_LOST_SAMPLES then parse_lost_samples q data off
     else if t = PERF_RECORD_SWITCH then parse_switch q data off
     else if t = PERF_RECORD_SWITCH_CPU_WIDE then parse_switch_cpu_wide q data off
     else Some (say q [Pr ''Unknown type %d'' [sint t]], limit))"

definition parse_event :: "parse_cfg \<Rightarrow> int \<Rightarrow> sect" where
  "parse_event cfg limit data start = do {
     t \<leftarrow> rd32 data start;
     os \<leftarrow> (if c_quiet cfg then Some []
           else do { misc \<leftarrow> rd16 data (start + 4); sz \<leftarrow> rd16 data (start + 6);
                     Some (header_out (c_sample_type cfg) t misc sz) });
     (ps, off) \<leftarrow> parse_body cfg limit start t data (start + 8);
     Some (os @ ps, off) }"

text \<open>A record in which the code never ends (only a quiet reader does so: nothing is printed).\<close>

definition event_spins :: "parse_cfg \<Rightarrow> u8 list \<Rightarrow> int \<Rightarrow> bool" where
  "event_spins cfg data start =
     (rd32 data start = Some PERF_RECORD_SAMPLE \<and> sample_spins cfg data (start + 8))"

text \<open>
  The \<open>while(offset<size)\<close> loop. It may run forever (\<open>None\<close>), stop at an access outside
  the copy (\<open>Fault\<close>), or end with what was printed and the number of events. A record the
  code never leaves is a step of the loop that changes nothing.
\<close>

datatype run = Fault | Done "out list" int

partial_function (option) parse_loop ::
    "parse_cfg \<Rightarrow> u8 list \<Rightarrow> int \<Rightarrow> int \<Rightarrow> out list \<Rightarrow> int \<Rightarrow> run option" where
  "parse_loop cfg data limit off acc n =
     (if off < limit then
        (case parse_event cfg limit data off of
           None \<Rightarrow> if event_spins cfg data off then parse_loop cfg data limit off acc n
                  else Some Fault
         | Some (os, off') \<Rightarrow> parse_loop cfg data limit off' (acc @ os) (n + 1))
      else Some (Done acc n))"

text \<open>The mapped control page with the data pages behind it.\<close>

record mmap_area =
  data_head :: u64
  data_tail :: u64
  ring :: "u8 list"

datatype read_result =
    RFault
  | RRet int "mmap_area option" "out list" "int option"

definition unwrap :: "u8 list \<Rightarrow> int \<Rightarrow> int \<Rightarrow> u8 list option" where
  "unwrap rng bytesize wrap =
     (if 0 \<le> wrap \<and> wrap \<le> bytesize then do {
        first \<leftarrow> rd_bytes (nat (bytesize - wrap)) rng wrap;
        second \<leftarrow> rd_bytes (nat wrap) rng 0;
        Some (first @ second) }
      else None)"

text \<open>C's \<open>%\<close> on \<open>long long\<close> takes the sign of the dividend.\<close>

definition c_mod :: "int \<Rightarrow> int \<Rightarrow> int" where
  "c_mod a b = sgn a * (\<bar>a\<bar> mod \<bar>b\<bar>)"

definition perf_mmap_read ::
    "int \<Rightarrow> bool \<Rightarrow> parse_cfg \<Rightarrow> mmap_area option \<Rightarrow> int \<Rightarrow> int \<Rightarrow> read_result option" where
  "perf_mmap_read pagesize malloc_ok cfg our_mmap mmap_size prev_head =
     (if mmap_size = 0 then Some (RRet 0 our_mmap [] None)
      else case our_mmap of
        None \<Rightarrow> Some (RRet (-1) our_mmap [Er ''ERROR mmap page NULL'' []] None)
      | Some area \<Rightarrow>
         (let head = sint (data_head area);
              sz = i32 (head - prev_head);
              bytesize = mmap_size * pagesize;
              warn = (if sz > bytesize
                      then [Pr ''error!  we overflowed the mmap buffer %d>%lld bytes'' [sz, bytesize]]
                      else [])
          in if i32 bytesize \<noteq> bytesize then Some RFault
             else if bytesize < 0 \<or> \<not> malloc_ok then Some (RRet (-1) our_mmap warn None)
             else case unwrap (ring area) bytesize (c_mod prev_head bytesize) of
               None \<Rightarrow> Some RFault
             | Some data \<Rightarrow>
                (case parse_loop cfg data sz 0 warn 0 of
                   None \<Rightarrow> None
                 | Some Fault \<Rightarrow> Some RFault
                 | Some (Done os n) \<Rightarrow>
                     Some (RRet head (Some (area\<lparr>data_tail := data_head area\<rparr>)) os (Some n)))))"

end
