(* ===== verification/RecordSpec.thy ===== *)
theory RecordSpec
  imports ParseRecord
begin

text \<open>
  The abstract side of the record decoder: perf records as data, their layout in the ring
  buffer as the comments of include/perf_event.h document it, and what
  \<open>perf_mmap_read\<close> is meant to print for each. The laws here say that each decoder of
  theory ParseRecord reads exactly the documented bytes.
\<close>

section \<open>Records as data\<close>

datatype read_values =
    RfSingle u64 u64 u64 u64 u64              \<comment> \<open>value, enabled, running, ident, lost\<close>
  | RfGroup u64 u64 "(u64 \<times> u64 \<times> u64) list"  \<comment> \<open>enabled, running, (value, ident, lost)\<close>

record sample =
  s_identifier :: u64
  s_ip :: u64
  s_pid :: u32
  s_tid :: u32
  s_time :: u64
  s_addr :: u64
  s_id :: u64
  s_stream_id :: u64
  s_cpu :: u32
  s_res :: u32
  s_period :: u64
  s_read :: read_values
  s_chain :: "u64 list"
  s_raw :: "u8 list"
  s_lbr :: "(u64 \<times> u64 \<times> u64) list"
  s_user_abi :: u64
  s_user_regs :: "nat \<Rightarrow> u64"
  s_stack :: "u8 list"
  s_dyn_size :: u64
  s_weight :: u64
  s_data_src :: u64
  s_transaction :: u64
  s_intr_abi :: u64
  s_intr_regs :: "nat \<Rightarrow> u64"
  s_tail :: "u8 list"     \<comment> \<open>the fields the decoder does not know, from \<open>PHYS_ADDR\<close> on\<close>

datatype perf_record =
    RMmap u32 u32 u64 u64 u64 "u8 list"
  | RLost u64 u64
  | RComm u32 u32 "u8 list"
  | RExit u32 u32 u32 u32 u64
  | RThrottle u64 u64 u64
  | RUnthrottle u64 u64 u64
  | RFork u32 u32 u32 u32 u64
  | RRead u32 u32 read_values
  | RSample sample
  | RMmap2 u32 u32 u64 u64 u64 u32 u32 u64 u64 u32 u32 "u8 list"
  | RAux u64 u64 u64 u64
  | RItraceStart u32 u32
  | RLostSamples u64 u64
  | RSwitch u64
  | RSwitchCpuWide u32 u32 u64

section \<open>The documented layout\<close>

definition opt :: "'w::len word \<Rightarrow> 'w word \<Rightarrow> 'a list \<Rightarrow> 'a list" where
  "opt m flag bs = (if has m flag then bs else [])"

fun enc_read_values :: "u32 \<Rightarrow> read_values \<Rightarrow> u8 list" where
  "enc_read_values rf (RfSingle val en run ident lost) =
     le64 val @ opt rf PERF_FORMAT_TOTAL_TIME_ENABLED (le64 en) @
     opt rf PERF_FORMAT_TOTAL_TIME_RUNNING (le64 run) @
     opt rf PERF_FORMAT_ID (le64 ident) @ opt rf PERF_FORMAT_LOST (le64 lost)"
| "enc_read_values rf (RfGroup en run vs) =
     le64 (word_of_int (int (length vs))) @ opt rf PERF_FORMAT_TOTAL_TIME_ENABLED (le64 en) @
     opt rf PERF_FORMAT_TOTAL_TIME_RUNNING (le64 run) @
     concat (map (\<lambda>(val, ident, lost). le64 val @ opt rf PERF_FORMAT_ID (le64 ident) @
                                   opt rf PERF_FORMAT_LOST (le64 lost)) vs)"

definition enc_regs :: "u64 \<Rightarrow> (nat \<Rightarrow> u64) \<Rightarrow> u8 list" where
  "enc_regs msk regs = concat (map (\<lambda>i. if bit msk i then le64 (regs i) else []) [0..<64])"

definition enc_count :: "'a list \<Rightarrow> u8 list" where
  "enc_count xs = le64 (word_of_int (int (length xs)))"

text \<open>The fields of a \<open>PERF_RECORD_SAMPLE\<close>, in the order of the comment.\<close>

definition enc_sample :: "parse_cfg \<Rightarrow> sample \<Rightarrow> u8 list" where
  "enc_sample cfg s = (let st = c_sample_type cfg; msk = c_reg_mask cfg in
     opt st PERF_SAMPLE_IDENTIFIER (le64 (s_identifier s)) @
     opt st PERF_SAMPLE_IP (le64 (s_ip s)) @
     opt st PERF_SAMPLE_TID (le32 (s_pid s) @ le32 (s_tid s)) @
     opt st PERF_SAMPLE_TIME (le64 (s_time s)) @
     opt st PERF_SAMPLE_ADDR (le64 (s_addr s)) @
     opt st PERF_SAMPLE_ID (le64 (s_id s)) @
     opt st PERF_SAMPLE_STREAM_ID (le64 (s_stream_id s)) @
     opt st PERF_SAMPLE_CPU (le32 (s_cpu s) @ le32 (s_res s)) @
     opt st PERF_SAMPLE_PERIOD (le64 (s_period s)) @
     opt st PERF_SAMPLE_READ (enc_read_values (c_read_format cfg) (s_read s)) @
     opt st PERF_SAMPLE_CALLCHAIN (enc_count (s_chain s) @ concat (map le64 (s_chain s))) @
     opt st PERF_SAMPLE_RAW (le32 (word_of_int (int (length (s_raw s)))) @ s_raw s) @
     opt st PERF_SAMPLE_BRANCH_STACK (enc_count (s_lbr s) @
       concat (map (\<lambda>(frm, to, flags). le64 frm @ le64 to @ le64 flags) (s_lbr s))) @
     opt st PERF_SAMPLE_REGS_USER (le64 (s_user_abi s) @ enc_regs msk (s_user_regs s)) @
     opt st PERF_SAMPLE_STACK_USER (enc_count (s_stack s) @ s_stack s @ le64 (s_dyn_size s)) @
     opt st PERF_SAMPLE_WEIGHT (le64 (s_weight s)) @
     opt st PERF_SAMPLE_DATA_SRC (le64 (s_data_src s)) @
     opt st PERF_SAMPLE_TRANSACTION (le64 (s_transaction s)) @
     opt st PERF_SAMPLE_REGS_INTR (le64 (s_intr_abi s) @ enc_regs msk (s_intr_regs s)) @
     s_tail s)"

fun record_type :: "perf_record \<Rightarrow> u32" where
  "record_type (RMmap _ _ _ _ _ _) = PERF_RECORD_MMAP"
| "record_type (RLost _ _) = PERF_RECORD_LOST"
| "record_type (RComm _ _ _) = PERF_RECORD_COMM"
| "record_type (RExit _ _ _ _ _) = PERF_RECORD_EXIT"
| "record_type (RThrottle _ _ _) = PERF_RECORD_THROTTLE"
| "record_type (RUnthrottle _ _ _) = PERF_RECORD_UNTHROTTLE"
| "record_type (RFork _ _ _ _ _) = PERF_RECORD_FORK"
| "record_type (RRead _ _ _) = PERF_RECORD_READ"
| "record_type (RSample _) = PERF_RECORD_SAMPLE"
| "record_type (RMmap2 _ _ _ _ _ _ _ _ _ _ _ _) = PERF_RECORD_MMAP2"
| "record_type (RAux _ _ _ _) = PERF_RECORD_AUX"
| "record_type (RItraceStart _ _) = PERF_RECORD_ITRACE_START"
| "record_type (RLostSamples _ _) = PERF_RECORD_LOST_SAMPLES"
| "record_type (RSwitch _) = PERF_RECORD_SWITCH"
| "record_type (RSwitchCpuWide _ _ _) = PERF_RECORD_SWITCH_CPU_WIDE"

text \<open>
  The payloads. The records with a \<open>sample_id\<close> that the code reads carry the one-word form
  of it (\<open>PERF_SAMPLE_ID\<close> alone); the others are laid out without \<open>sample_id_all\<close>.
\<close>

fun enc_body :: "parse_cfg \<Rightarrow> perf_record \<Rightarrow> u8 list" where
  "enc_body cfg (RMmap pid tid addr len pgoff name) =
     le32 pid @ le32 tid @ le64 addr @ le64 len @ le64 pgoff @ name"
| "enc_body cfg (RLost ident lost) = le64 ident @ le64 lost"
| "enc_body cfg (RComm pid tid comm) = le32 pid @ le32 tid @ comm"
| "enc_body cfg (RExit pid ppid tid ptid time) =
     le32 pid @ le32 ppid @ le32 tid @ le32 ptid @ le64 time"
| "enc_body cfg (RThrottle time ident stream_id) = le64 time @ le64 ident @ le64 stream_id"
| "enc_body cfg (RUnthrottle time ident stream_id) = le64 time @ le64 ident @ le64 stream_id"
| "enc_body cfg (RFork pid ppid tid ptid time) =
     le32 pid @ le32 ppid @ le32 tid @ le32 ptid @ le64 time"
| "enc_body cfg (RRead pid tid vals) =
     le32 pid @ le32 tid @ enc_read_values (c_read_format cfg) vals"
| "enc_body cfg (RSample s) = enc_sample cfg s"
| "enc_body cfg (RMmap2 pid tid addr len pgoff maj mnr ino gen prot flags name) =
     le32 pid @ le32 tid @ le64 addr @ le64 len @ le64 pgoff @ le32 maj @ le32 mnr @
     le64 ino @ le64 gen @ le32 prot @ le32 flags @ name"
| "enc_body cfg (RAux aoff asize flags ident) = le64 aoff @ le64 asize @ le64 flags @ le64 ident"
| "enc_body cfg (RItraceStart pid tid) = le32 pid @ le32 tid"
| "enc_body cfg (RLostSamples lost ident) = le64 lost @ le64 ident"
| "enc_body cfg (RSwitch ident) = le64 ident"
| "enc_body cfg (RSwitchCpuWide pid tid ident) = le32 pid @ le32 tid @ le64 ident"

definition record_size :: "parse_cfg \<Rightarrow> perf_record \<Rightarrow> nat" where
  "record_size cfg r = 8 + length (enc_body cfg r)"

definition enc_record :: "parse_cfg \<Rightarrow> u16 \<times> perf_record \<Rightarrow> u8 list" where
  "enc_record cfg mr = (case mr of (misc, r) \<Rightarrow>
     le32 (record_type r) @ le16 misc @ le16 (word_of_int (int (record_size cfg r))) @
     enc_body cfg r)"

section \<open>What is printed\<close>

text \<open>
  The message on a group whose number of values is not the expected one, and the values of
  a read as the read format announces them.
\<close>

definition count_errors :: "validate_values option \<Rightarrow> nat \<Rightarrow> out list" where
  "count_errors val n = (case val of None \<Rightarrow> []
     | Some v \<Rightarrow> (if v_events v \<noteq> int n
         then [Er ''Error!  Wrong number of events %d != %lld'' [v_events v, int n]] else []))"

fun show_read :: "u32 \<Rightarrow> validate_values option \<Rightarrow> bool \<Rightarrow> read_values \<Rightarrow> out list" where
  "show_read rf val q (RfSingle v en run ident lost) =
     say q [Pr ''Value: %lld'' [sint v]] @
     opt rf PERF_FORMAT_TOTAL_TIME_ENABLED (say q [Pr ''enabled: %lld'' [sint en]]) @
     opt rf PERF_FORMAT_TOTAL_TIME_RUNNING (say q [Pr ''running: %lld'' [sint run]]) @
     opt rf PERF_FORMAT_ID (say q [Pr ''id: %lld'' [sint ident]])"
| "show_read rf val q (RfGroup en run vs) =
     say q [Pr ''Number: %lld'' [int (length vs)]] @ count_errors val (length vs) @
     opt rf PERF_FORMAT_TOTAL_TIME_ENABLED (say q [Pr ''enabled: %lld'' [sint en]]) @
     opt rf PERF_FORMAT_TOTAL_TIME_RUNNING (say q [Pr ''running: %lld'' [sint run]]) @
     concat (map (\<lambda>(v, ident, lost). say q [Pr ''Value: %lld'' [sint v]] @
                    opt rf PERF_FORMAT_ID (say q [Pr ''id: %lld'' [sint ident]])) vs)"

text \<open>The kind of the values must be the one the read format announces; a count fits.\<close>

fun read_values_ok :: "u32 \<Rightarrow> read_values \<Rightarrow> bool" where
  "read_values_ok rf (RfSingle _ _ _ _ _) \<longleftrightarrow>
     \<not> has rf PERF_FORMAT_GROUP \<and> \<not> has rf PERF_FORMAT_LOST"
| "read_values_ok rf (RfGroup _ _ vs) \<longleftrightarrow>
     has rf PERF_FORMAT_GROUP \<and> \<not> has rf PERF_FORMAT_LOST \<and> length vs < 2 ^ 31"

section \<open>Rules that follow the bytes\<close>

lemma say_append: "say q (os @ ps) = say q os @ say q ps"
  by (simp add: say_def)

lemma say_Nil [simp]: "say q [] = []"
  by (simp add: say_def)

lemma say_opt: "say q (opt m f os) = opt m f (say q os)"
  by (simp add: opt_def)

lemma say_concat: "say q (concat (map f xs)) = concat (map (\<lambda>x. say q (f x)) xs)"
  by (induction xs) (simp_all add: say_append)

lemma opt_append: "opt m f (xs @ ys) = opt m f xs @ opt m f ys"
  by (simp add: opt_def)

lemma d_one: "decodes s bs os \<Longrightarrow> decodes (seqs [s]) bs os"
  using decodes_seqs_Cons [of s bs os "[]" "[]" "[]"] by (simp add: decodes_seqs_Nil)

lemma d_cons:
  "decodes s bs os \<Longrightarrow> decodes (seqs (t # ss)) cs ps \<Longrightarrow> decodes (seqs (s # t # ss)) (bs @ cs) (os @ ps)"
  by (rule decodes_seqs_Cons)

lemma d_emit: "decodes (seqs (t # ss)) cs ps \<Longrightarrow> decodes (seqs (emit os # t # ss)) cs (os @ ps)"
  using decodes_seqs_Cons [OF decodes_emit] by fastforce

lemma d_bind64_last: "decodes (f v) [] os \<Longrightarrow> decodes (bind64 f) (le64 v) os"
  using decodes_bind64 [of f v "[]"] by simp

lemma d_bind32_last: "decodes (f v) [] os \<Longrightarrow> decodes (bind32 f) (le32 v) os"
  using decodes_bind32 [of f v "[]"] by simp

lemma d_when: "(has m f \<Longrightarrow> decodes s bs os) \<Longrightarrow> decodes (when_sect (has m f) s) (opt m f bs) (opt m f os)"
  unfolding opt_def by (rule decodes_when)

lemma d_pr64: "decodes (pr64 q l) (le64 v) (say q [Pr l [sint v]])"
  unfolding pr64_def by (rule d_bind64_last decodes_emit)+

lemma d_px64: "decodes (px64 q l) (le64 v) (say q [Pr l [uint v]])"
  unfolding px64_def by (rule d_bind64_last decodes_emit)+

lemma d_pr32: "decodes (pr32 q l) (le32 v) (say q [Pr l [sint v]])"
  unfolding pr32_def by (rule d_bind32_last decodes_emit)+

lemma d_pr_str:
  assumes "n = int (length bs)" and "cstr bs = Some s"
  shows "decodes (pr_str q l n) bs (say q [PrS l s])"
proof -
  have "decodes (\<lambda>data off. if q then Some ([], off)
      else map_option (\<lambda>s. ([PrS l s], off)) (cstr bs)) [] (say q [PrS l s])"
    by (simp add: decodes_def say_def assms(2))
  from decodes_bind_bytes [OF assms(1), of "\<lambda>bs data off. if q then Some ([], off)
      else map_option (\<lambda>s. ([PrS l s], off)) (cstr bs)", OF this]
  show ?thesis by (simp add: pr_str_def)
qed

lemmas d_rules = d_pr64 d_px64 d_pr32 d_emit d_when d_one d_cons
  d_bind64_last decodes_bind64 d_bind32_last decodes_bind32 decodes_emit

text \<open>A loop that prints nothing of its index.\<close>

lemma d_for:
  assumes "n = int (length vs)" and "\<And>i v. v \<in> set vs \<Longrightarrow> decodes (f i) (e v) (p v)"
  shows "decodes (for_sect n f) (concat (map e vs)) (concat (map p vs))"
proof -
  have "decodes (for_sect n f) (concat (map e vs))
      (concat (map (\<lambda>i. p (vs ! i)) [0..<length vs]))"
    by (rule decodes_for [where p = "\<lambda>_. p"]) (simp_all add: assms)
  moreover have "map (\<lambda>i. p (vs ! i)) [0..<length vs] = map p vs"
    by (rule nth_equalityI) auto
  ultimately show ?thesis by simp
qed

lemma sint_count: "n < 2 ^ 31 \<Longrightarrow> sint (word_of_int (int n) :: u64) = int n"
  by (simp add: sint_sbintrunc' signed_take_bit_int_eq_self del: of_int_of_nat_eq)

lemma sint_count32: "n < 2 ^ 31 \<Longrightarrow> sint (word_of_int (int n) :: u32) = int n"
  by (simp add: sint_sbintrunc' signed_take_bit_int_eq_self del: of_int_of_nat_eq)

section \<open>The read format\<close>

lemma d_read_single:
  assumes "read_values_ok rf (RfSingle v en run ident lost)"
  shows "decodes (handle_struct_read_format rf val q)
           (enc_read_values rf (RfSingle v en run ident lost))
           (show_read rf val q (RfSingle v en run ident lost))"
proof -
  from assms have f: "has rf PERF_FORMAT_GROUP = False" "opt rf PERF_FORMAT_LOST (le64 lost) = []"
    by (simp_all add: opt_def)
  show ?thesis
    unfolding handle_struct_read_format_def enc_read_values.simps show_read.simps
    unfolding f if_False append_Nil2
    by (rule d_rules)+
qed

lemma d_read_group:
  assumes "read_values_ok rf (RfGroup en run vs)"
  shows "decodes (handle_struct_read_format rf val q)
           (enc_read_values rf (RfGroup en run vs)) (show_read rf val q (RfGroup en run vs))"
proof -
  from assms have f: "has rf PERF_FORMAT_GROUP = True" "\<And>lost. opt rf PERF_FORMAT_LOST (le64 lost) = []"
    and n: "sint (word_of_int (int (length vs)) :: u64) = int (length vs)"
    by (simp_all add: opt_def sint_count del: of_int_of_nat_eq)
  have each: "decodes (bind64 (\<lambda>v. seqs
            [emit (say q [Pr ''Value: %lld'' [sint v]]),
             when_sect (has rf PERF_FORMAT_ID)
              (bind64 (\<lambda>ident. emit (say q [Pr ''id: %lld'' [sint ident]])))]))
        (case x of (v, ident, lost) \<Rightarrow> le64 v @ opt rf PERF_FORMAT_ID (le64 ident) @
                                   opt rf PERF_FORMAT_LOST (le64 lost))
        (case x of (v, ident, lost) \<Rightarrow> say q [Pr ''Value: %lld'' [sint v]] @
                    opt rf PERF_FORMAT_ID (say q [Pr ''id: %lld'' [sint ident]]))" for x
    by (cases x, simp only: prod.case f append_Nil2) (rule d_rules)+
  have loop: "decodes (for_sect (sint (word_of_int (int (length vs)) :: u64)) (\<lambda>i. bind64 (\<lambda>v. seqs
            [emit (say q [Pr ''Value: %lld'' [sint v]]),
             when_sect (has rf PERF_FORMAT_ID)
              (bind64 (\<lambda>ident. emit (say q [Pr ''id: %lld'' [sint ident]])))])))
        (concat (map (\<lambda>(v, ident, lost). le64 v @ opt rf PERF_FORMAT_ID (le64 ident) @
                                   opt rf PERF_FORMAT_LOST (le64 lost)) vs))
        (concat (map (\<lambda>(v, ident, lost). say q [Pr ''Value: %lld'' [sint v]] @
                    opt rf PERF_FORMAT_ID (say q [Pr ''id: %lld'' [sint ident]])) vs))"
    by (rule d_for [OF n each])
  have "decodes (handle_struct_read_format rf val q)
     (le64 (word_of_int (int (length vs))) @ opt rf PERF_FORMAT_TOTAL_TIME_ENABLED (le64 en) @
     opt rf PERF_FORMAT_TOTAL_TIME_RUNNING (le64 run) @
     concat (map (\<lambda>(v, ident, lost). le64 v @ opt rf PERF_FORMAT_ID (le64 ident) @
                                   opt rf PERF_FORMAT_LOST (le64 lost)) vs))
     (say q [Pr ''Number: %lld'' [sint (word_of_int (int (length vs)) :: u64)]] @
      (case val of None \<Rightarrow> []
       | Some v \<Rightarrow> (if v_events v \<noteq> sint (word_of_int (int (length vs)) :: u64)
                    then [Er ''Error!  Wrong number of events %d != %lld''
                            [v_events v, sint (word_of_int (int (length vs)) :: u64)]] else [])) @
     opt rf PERF_FORMAT_TOTAL_TIME_ENABLED (say q [Pr ''enabled: %lld'' [sint en]]) @
     opt rf PERF_FORMAT_TOTAL_TIME_RUNNING (say q [Pr ''running: %lld'' [sint run]]) @
     concat (map (\<lambda>(v, ident, lost). say q [Pr ''Value: %lld'' [sint v]] @
                    opt rf PERF_FORMAT_ID (say q [Pr ''id: %lld'' [sint ident]])) vs))"
    unfolding handle_struct_read_format_def
    unfolding f(1) if_True
    by (rule d_rules loop)+
  then show ?thesis
    unfolding enc_read_values.simps show_read.simps n by (simp only: count_errors_def)
qed

lemma d_read_format:
  "read_values_ok rf vals \<Longrightarrow>
   decodes (handle_struct_read_format rf val q) (enc_read_values rf vals) (show_read rf val q vals)"
  by (cases vals) (simp_all only: d_read_single d_read_group)

section \<open>Reads with the number of lost samples\<close>

text \<open>
  The decoder does not know \<open>PERF_FORMAT_LOST\<close>. A single value is printed without its last
  word. In a group the words of the entries are dealt out anew, one or two to an entry.
\<close>

fun read_kind_ok :: "u32 \<Rightarrow> read_values \<Rightarrow> bool" where
  "read_kind_ok rf (RfSingle _ _ _ _ _) \<longleftrightarrow> \<not> has rf PERF_FORMAT_GROUP"
| "read_kind_ok rf (RfGroup _ _ vs) \<longleftrightarrow> has rf PERF_FORMAT_GROUP \<and> length vs < 2 ^ 31"

definition entry_words :: "u32 \<Rightarrow> (u64 \<times> u64 \<times> u64) list \<Rightarrow> u64 list" where
  "entry_words rf vs = concat (map (\<lambda>(v, ident, lost). v # opt rf PERF_FORMAT_ID [ident] @ [lost]) vs)"

fun deal :: "bool \<Rightarrow> nat \<Rightarrow> u64 list \<Rightarrow> (u64 \<times> u64 \<times> u64) list" where
  "deal True (Suc n) (v # i # ws) = (v, i, 0) # deal True n ws"
| "deal False (Suc n) (v # ws) = (v, 0, 0) # deal False n ws"
| "deal ids n ws = []"

fun without_lost :: "u32 \<Rightarrow> read_values \<Rightarrow> read_values" where
  "without_lost rf (RfSingle v en run ident lost) = RfSingle v en run ident 0"
| "without_lost rf (RfGroup en run vs) =
     RfGroup en run (deal (has rf PERF_FORMAT_ID) (length vs) (entry_words rf vs))"

fun read_entries :: "read_values \<Rightarrow> nat" where
  "read_entries (RfSingle _ _ _ _ _) = 1"
| "read_entries (RfGroup _ _ vs) = length vs"

definition no_lost :: "u32 \<Rightarrow> u32" where
  "no_lost rf = rf AND NOT PERF_FORMAT_LOST"

lemma has_no_lost:
  "has (no_lost rf) PERF_FORMAT_GROUP = has rf PERF_FORMAT_GROUP"
  "has (no_lost rf) PERF_FORMAT_ID = has rf PERF_FORMAT_ID"
  "has (no_lost rf) PERF_FORMAT_TOTAL_TIME_ENABLED = has rf PERF_FORMAT_TOTAL_TIME_ENABLED"
  "has (no_lost rf) PERF_FORMAT_TOTAL_TIME_RUNNING = has rf PERF_FORMAT_TOTAL_TIME_RUNNING"
  "\<not> has (no_lost rf) PERF_FORMAT_LOST"
  unfolding has_def no_lost_def read_format_defs and.assoc by simp_all

lemma opt_no_lost:
  "opt (no_lost rf) PERF_FORMAT_ID xs = opt rf PERF_FORMAT_ID xs"
  "opt (no_lost rf) PERF_FORMAT_TOTAL_TIME_ENABLED xs = opt rf PERF_FORMAT_TOTAL_TIME_ENABLED xs"
  "opt (no_lost rf) PERF_FORMAT_TOTAL_TIME_RUNNING xs = opt rf PERF_FORMAT_TOTAL_TIME_RUNNING xs"
  "opt (no_lost rf) PERF_FORMAT_LOST ys = []"
  by (simp_all add: opt_def has_no_lost)

lemma decoder_no_lost:
  "handle_struct_read_format (no_lost rf) val q = handle_struct_read_format rf val q"
  unfolding handle_struct_read_format_def has_no_lost ..

lemma show_no_lost: "show_read (no_lost rf) val q vals = show_read rf val q vals"
  by (cases vals) (simp_all only: show_read.simps opt_no_lost)

lemma deal_0 [simp]: "deal ids 0 ws = []"
  by (cases ids) simp_all

lemma deal_length: "(if ids then 2 else 1) * n \<le> length ws \<Longrightarrow> length (deal ids n ws) = n"
proof (induction n arbitrary: ws)
  case (Suc n)
  then show ?case by (cases ids; cases ws; cases "tl ws") auto
qed simp

lemma deal_words:
  "(if has rf PERF_FORMAT_ID then 2 else 1) * n \<le> length ws \<Longrightarrow>
   concat (map le64 ws) =
     concat (map (\<lambda>(v, ident, lost). le64 v @ opt (no_lost rf) PERF_FORMAT_ID (le64 ident) @
        opt (no_lost rf) PERF_FORMAT_LOST (le64 lost)) (deal (has rf PERF_FORMAT_ID) n ws)) @
     concat (map le64 (drop ((if has rf PERF_FORMAT_ID then 2 else 1) * n) ws))"
proof (induction n arbitrary: ws)
  case (Suc n)
  show ?case
  proof (cases "has rf PERF_FORMAT_ID")
    case True
    with Suc show ?thesis by (cases ws; cases "tl ws") (auto simp: opt_def has_no_lost)
  next
    case False
    with Suc.prems obtain w vs where "ws = w # vs" by (cases ws) auto
    with False Suc.prems Suc.IH [of vs] show ?thesis by (simp add: opt_def has_no_lost)
  qed
qed simp

lemma entry_words_bytes:
  "has rf PERF_FORMAT_LOST \<Longrightarrow>
   concat (map (\<lambda>(v, ident, lost). le64 v @ opt rf PERF_FORMAT_ID (le64 ident) @
      opt rf PERF_FORMAT_LOST (le64 lost)) vs) = concat (map le64 (entry_words rf vs))"
  by (induction vs) (auto simp: entry_words_def opt_def)

lemma entry_words_length:
  "length (entry_words rf vs) = (if has rf PERF_FORMAT_ID then 2 else 1) * length vs + length vs"
  by (induction vs) (auto simp: entry_words_def opt_def)

lemma length_words: "length (concat (map le64 ws)) = 8 * length ws"
  by (induction ws) simp_all

text \<open>The bytes with the lost counts start with those of the values as they are decoded.\<close>

lemma enc_with_lost:
  assumes "has rf PERF_FORMAT_LOST"
  shows "\<exists>rest. enc_read_values rf vals = enc_read_values (no_lost rf) (without_lost rf vals) @ rest \<and>
    length rest = 8 * read_entries vals"
proof (cases vals)
  case (RfSingle v en run ident lost)
  with assms show ?thesis
    by (intro exI [of _ "le64 lost"]) (simp add: opt_no_lost, simp add: opt_def)
next
  case (RfGroup en run vs)
  let ?k = "if has rf PERF_FORMAT_ID then 2 else 1"
  have le: "?k * length vs \<le> length (entry_words rf vs)" by (simp add: entry_words_length)
  have n: "length (deal (has rf PERF_FORMAT_ID) (length vs) (entry_words rf vs)) = length vs"
    by (rule deal_length [OF le])
  show ?thesis
    unfolding RfGroup without_lost.simps enc_read_values.simps read_entries.simps n opt_no_lost(2,3)
      entry_words_bytes [OF assms] deal_words [OF le]
    by (intro exI [of _ "concat (map le64 (drop (?k * length vs) (entry_words rf vs)))"])
      (simp add: length_words entry_words_length)
qed

lemma without_lost_ok:
  assumes "read_kind_ok rf vals"
  shows "read_values_ok (no_lost rf) (without_lost rf vals)"
proof (cases vals)
  case (RfGroup en run vs)
  have "length (deal (has rf PERF_FORMAT_ID) (length vs) (entry_words rf vs)) = length vs"
    by (rule deal_length) (simp add: entry_words_length)
  with assms RfGroup show ?thesis by (simp add: has_no_lost)
qed (use assms in \<open>simp add: has_no_lost\<close>)

lemma d_read_lost:
  assumes "read_kind_ok rf vals" and "has rf PERF_FORMAT_LOST" and "at data off (enc_read_values rf vals)"
  shows "handle_struct_read_format rf val q data off
    = Some (show_read rf val q (without_lost rf vals),
            off + int (length (enc_read_values rf vals)) - 8 * int (read_entries vals))"
proof -
  from enc_with_lost [OF assms(2)] obtain rest where
    r: "enc_read_values rf vals = enc_read_values (no_lost rf) (without_lost rf vals) @ rest"
    and n: "length rest = 8 * read_entries vals" by blast
  from assms(3) have "at data off (enc_read_values (no_lost rf) (without_lost rf vals))"
    unfolding r by (simp add: at_append_iff)
  from decodesD [OF d_read_format [OF without_lost_ok [OF assms(1)]] this] show ?thesis
    unfolding decoder_no_lost show_no_lost r using n by simp
qed

end
