(* ===== verification/SampleSpec.thy ===== *)
theory SampleSpec
  imports RecordSpec
begin

text \<open>
  What a sample is meant to print, when the decoder can follow its layout (\<open>sample_ok\<close>),
  and the law that \<open>parse_sample\<close> reads exactly the documented bytes of such a sample.
\<close>

section \<open>Reads inside a window of the buffer\<close>

text \<open>Code that is handed \<open>&data[offset]\<close> sees the bytes that stand there.\<close>

lemma at_rd_bytes:
  assumes "at data off bs" and "rd_bytes n bs k = Some xs"
  shows "rd_bytes n data (off + k) = Some xs"
proof -
  from assms have k: "0 \<le> k" "k + int n \<le> int (length bs)"
    and xs: "xs = take n (drop (nat k) bs)"
    by (auto simp: rd_bytes_def split: if_splits)
  from assms have off: "0 \<le> off" "off + int (length bs) \<le> int (length data)"
    and bs: "take (length bs) (drop (nat off) data) = bs"
    by (auto simp: at_def)
  have "xs = take n (drop (nat k) (take (length bs) (drop (nat off) data)))"
    by (simp only: xs bs)
  also have "\<dots> = take n (drop (nat (off + k)) data)"
    using k off by (simp add: drop_take min_absorb1 nat_add_distrib add.commute)
  finally show ?thesis using k off by (simp add: rd_bytes_def)
qed

lemma at_rd32: "at data off bs \<Longrightarrow> rd32 bs k = Some v \<Longrightarrow> rd32 data (off + k) = Some v"
  by (auto simp: rd32_def dest: at_rd_bytes)

lemma at_rd64: "at data off bs \<Longrightarrow> rd64 bs k = Some v \<Longrightarrow> rd64 data (off + k) = Some v"
  by (auto simp: rd64_def dest: at_rd_bytes)

text \<open>One computation succeeds whenever the other does, with the same result.\<close>

definition implies_opt :: "'a option \<Rightarrow> 'a option \<Rightarrow> bool" where
  "implies_opt a b \<longleftrightarrow> (\<forall>v. a = Some v \<longrightarrow> b = Some v)"

lemma imp_refl: "implies_opt a a"
  by (simp add: implies_opt_def)

lemma imp_bind:
  "implies_opt a b \<Longrightarrow> (\<And>v. implies_opt (f v) (g v)) \<Longrightarrow> implies_opt (Option.bind a f) (Option.bind b g)"
  unfolding implies_opt_def by (cases a) auto

lemma imp_map: "implies_opt a b \<Longrightarrow> implies_opt (map_option f a) (map_option f b)"
  by (auto simp: implies_opt_def)

lemma imp_if:
  "(c \<Longrightarrow> implies_opt a b) \<Longrightarrow> (\<not> c \<Longrightarrow> implies_opt a' b') \<Longrightarrow>
   implies_opt (if c then a else a') (if c then b else b')"
  by simp

lemma imp_rd:
  assumes "at data off bs"
  shows "implies_opt (rd32 bs 0) (rd32 data off)"
    and "implies_opt (rd64 bs (0 + k)) (rd64 data (off + k))"
    and "implies_opt (rd_bytes n bs 0) (rd_bytes n data off)"
  using at_rd32 [OF assms, of 0] at_rd64 [OF assms, of k] at_rd_bytes [OF assms, of n 0]
  unfolding implies_opt_def by auto

lemma imp_raw_dump:
  assumes "at data off bs"
  shows "implies_opt (raw_dump ty bs 0 sz) (raw_dump ty data off sz)"
  unfolding raw_dump_def dump_raw_ibs_fetch_def dump_raw_ibs_op_def
  by (intro imp_if imp_bind imp_map imp_refl imp_rd assms)

lemma at_raw_dump:
  "at data off bs \<Longrightarrow> raw_dump ty bs 0 sz = Some os \<Longrightarrow> raw_dump ty data off sz = Some os"
  using imp_raw_dump unfolding implies_opt_def by blast

section \<open>Samples the decoder can follow\<close>

text \<open>The size of the printed part of the raw data and of the stack must lie in what was copied.\<close>

definition show_raw :: "int \<Rightarrow> bool \<Rightarrow> u8 list \<Rightarrow> out list option" where
  "show_raw raw_type q raw = (if q then Some [] else raw_dump raw_type raw 0 (int (length raw)))"

definition sample_fits :: "parse_cfg \<Rightarrow> sample \<Rightarrow> bool" where
  "sample_fits cfg s \<longleftrightarrow> (let st = c_sample_type cfg in
     (has st PERF_SAMPLE_READ \<longrightarrow> read_values_ok (c_read_format cfg) (s_read s)) \<and>
     length (s_chain s) < 2 ^ 31 \<and> length (s_raw s) < 2 ^ 31 \<and>
     length (s_lbr s) < 2 ^ 31 \<and> length (s_stack s) < 2 ^ 31 \<and>
     (has st PERF_SAMPLE_RAW \<longrightarrow> show_raw (c_raw_type cfg) (c_quiet cfg) (s_raw s) \<noteq> None) \<and>
     (has st PERF_SAMPLE_STACK_USER \<longrightarrow>
        stack_dump (c_quiet cfg) (s_stack s) (sint (s_dyn_size s)) \<noteq> None))"

text \<open>The sample types whose documented layout is the order the code reads in.\<close>

definition layout_agrees :: "parse_cfg \<Rightarrow> sample \<Rightarrow> bool" where
  "layout_agrees cfg s \<longleftrightarrow> \<not> has (c_sample_type cfg) PERF_SAMPLE_IDENTIFIER \<and>
     \<not> has (c_sample_type cfg) PERF_SAMPLE_REGS_INTR \<and> s_tail s = []"

definition sample_ok :: "parse_cfg \<Rightarrow> sample \<Rightarrow> bool" where
  "sample_ok cfg s \<longleftrightarrow> sample_fits cfg s \<and> layout_agrees cfg s"

definition show_tid :: "validate_values option \<Rightarrow> bool \<Rightarrow> u32 \<Rightarrow> u32 \<Rightarrow> out list" where
  "show_tid val q pid tid =
     (case val of None \<Rightarrow> []
      | Some v \<Rightarrow> (if v_pid v \<noteq> sint pid then [Er ''Error, pid %d != %d'' [v_pid v, sint pid]] else [])) @
     say q [Pr ''PERF_SAMPLE_TID, pid: %d  tid %d'' [sint pid, sint tid]]"

definition show_lbr :: "validate_values option \<Rightarrow> bool \<Rightarrow> int \<Rightarrow> u64 \<times> u64 \<times> u64 \<Rightarrow> out list" where
  "show_lbr val q i e = (case e of (frm, to, flags) \<Rightarrow>
     (case val of None \<Rightarrow> []
      | Some v \<Rightarrow> (if frm < v_branch_low v then [Er ''Error! branch out of bounds!'' []] else [])) @
     say q (Pr ''lbr[%d]: %llx %llx '' [i, uint frm, uint to] # lbr_flags_out flags))"

definition show_regs :: "string \<Rightarrow> bool \<Rightarrow> string list \<Rightarrow> u64 \<Rightarrow> u64 \<Rightarrow> (nat \<Rightarrow> u64) \<Rightarrow> out list" where
  "show_regs label q names msk abi regs =
     say q (Pr label [] # abi_out abi) @ say q [Pr ''Reg mask %llx'' [uint msk]] @
     concat (map (\<lambda>i. if bit msk i then say q
         [Pr ((if i < length names then names ! i else ''???'') @ '' : %llx'') [uint (regs i)]]
       else []) [0..<64])"

definition show_chain :: "bool \<Rightarrow> u64 list \<Rightarrow> out list" where
  "show_chain q ips =
     say q [Pr ''PERF_SAMPLE_CALLCHAIN, callchain length: %lld'' [int (length ips)]] @
     concat (map (\<lambda>i. say q [Pr ''ip[%d]: %llx'' [int i, uint (ips ! i)]]) [0..<length ips])"

definition show_branch_stack ::
    "validate_values option \<Rightarrow> bool \<Rightarrow> (u64 \<times> u64 \<times> u64) list \<Rightarrow> out list" where
  "show_branch_stack val q es =
     say q [Pr ''PERF_SAMPLE_BRANCH_STACK, branch_stack entries: %lld'' [int (length es)]] @
     concat (map (\<lambda>i. show_lbr val q (int i) (es ! i)) [0..<length es])"

section \<open>The sections of a sample\<close>

lemma d_tid: "decodes (sec_tid val q) (le32 pid @ le32 tid) (show_tid val q pid tid)"
  unfolding sec_tid_def show_tid_def by (rule d_rules)+

lemma d_cpu:
  "decodes (sec_cpu q) (le32 cpu @ le32 res)
     (say q [Pr ''PERF_SAMPLE_CPU, cpu: %d  res %d'' [sint cpu, sint res]])"
  unfolding sec_cpu_def by (rule d_rules)+

lemma d_read:
  "read_values_ok rf vals \<Longrightarrow>
   decodes (sec_read rf val q) (enc_read_values rf vals)
     (say q [Pr ''PERF_SAMPLE_READ, read_format'' []] @ show_read rf val q vals)"
  unfolding sec_read_def by (rule d_rules d_read_format | assumption)+

lemma d_callchain:
  assumes "length ips < 2 ^ 31"
  shows "decodes (sec_callchain q) (enc_count ips @ concat (map le64 ips)) (show_chain q ips)"
proof -
  have "decodes (for_sect (int (length ips))
      (\<lambda>i. bind64 (\<lambda>ip. emit (say q [Pr ''ip[%d]: %llx'' [i, uint ip]]))))
      (concat (map le64 ips))
      (concat (map (\<lambda>i. say q [Pr ''ip[%d]: %llx'' [int i, uint (ips ! i)]]) [0..<length ips]))"
    by (rule decodes_for [where p = "\<lambda>i ip. say q [Pr ''ip[%d]: %llx'' [i, uint ip]]"])
      (rule refl d_rules)+
  then have "decodes (seqs
      [emit (say q [Pr ''PERF_SAMPLE_CALLCHAIN, callchain length: %lld'' [int (length ips)]]),
       for_sect (int (length ips)) (\<lambda>i. bind64 (\<lambda>ip. emit (say q [Pr ''ip[%d]: %llx'' [i, uint ip]])))])
      (concat (map le64 ips)) (show_chain q ips)"
    unfolding show_chain_def by - (rule d_rules | assumption)+
  then show ?thesis
    unfolding sec_callchain_def enc_count_def
    by (intro decodes_bind64) (simp only: sint_count [OF assms])
qed

lemma d_branch_stack:
  assumes "length es < 2 ^ 31"
  shows "decodes (sec_branch_stack val q)
     (enc_count es @ concat (map (\<lambda>(frm, to, flags). le64 frm @ le64 to @ le64 flags) es))
     (show_branch_stack val q es)"
proof -
  let ?body = "\<lambda>i. bind64 (\<lambda>frm. seqs
        [emit (case val of None \<Rightarrow> []
               | Some v \<Rightarrow> (if frm < v_branch_low v
                           then [Er ''Error! branch out of bounds!'' []] else [])),
         bind64 (\<lambda>to. bind64 (\<lambda>flags. emit (say q (
           Pr ''lbr[%d]: %llx %llx '' [i, uint frm, uint to] # lbr_flags_out flags))))])"
  have each: "decodes (?body i) (case e of (frm, to, flags) \<Rightarrow> le64 frm @ le64 to @ le64 flags)
      (show_lbr val q i e)" for i e
    by (cases e, simp only: prod.case show_lbr_def) (rule d_rules)+
  have "decodes (for_sect (int (length es)) ?body)
      (concat (map (\<lambda>(frm, to, flags). le64 frm @ le64 to @ le64 flags) es))
      (concat (map (\<lambda>i. show_lbr val q (int i) (es ! i)) [0..<length es]))"
    by (rule decodes_for [OF refl each])
  then have "decodes (seqs
      [emit (say q [Pr ''PERF_SAMPLE_BRANCH_STACK, branch_stack entries: %lld'' [int (length es)]]),
       for_sect (int (length es)) ?body])
      (concat (map (\<lambda>(frm, to, flags). le64 frm @ le64 to @ le64 flags) es))
      (show_branch_stack val q es)"
    unfolding show_branch_stack_def by - (rule d_rules | assumption)+
  then show ?thesis
    unfolding sec_branch_stack_def enc_count_def
    by (intro decodes_bind64) (simp only: sint_count [OF assms])
qed

lemma d_regs:
  "decodes (sec_regs label q names msk) (le64 abi @ enc_regs msk regs) (show_regs label q names msk abi regs)"
proof -
  let ?reg = "\<lambda>i. when_sect (bit msk i)
                  (if q then skip 8
                   else bind64 (\<lambda>v. emit
                     [Pr ((if i < length names then names ! i else ''???'') @ '' : %llx'') [uint v]]))"
  let ?out = "\<lambda>i. if bit msk i then say q
         [Pr ((if i < length names then names ! i else ''???'') @ '' : %llx'') [uint (regs i)]] else []"
  have "decodes (?reg i) (if bit msk i then le64 (regs i) else []) (?out i)" for i
    by (rule decodes_when) (auto simp: say_def intro!: decodes_skip d_bind64_last decodes_emit)
  then have "decodes (seqs (map ?reg [0..<64])) (enc_regs msk regs) (concat (map ?out [0..<64]))"
    unfolding enc_regs_def by (intro decodes_seqs_map) simp
  then have "decodes (seqs (emit (say q [Pr ''Reg mask %llx'' [uint msk]]) # map ?reg [0..<64]))
      ([] @ enc_regs msk regs) (say q [Pr ''Reg mask %llx'' [uint msk]] @ concat (map ?out [0..<64]))"
    by (intro decodes_seqs_Cons decodes_emit)
  then have "decodes (print_regs q names abi msk) (enc_regs msk regs)
      (say q [Pr ''Reg mask %llx'' [uint msk]] @ concat (map ?out [0..<64]))"
    by (simp only: print_regs_def append_Nil)
  then show ?thesis
    unfolding sec_regs_def show_regs_def
    by - (rule d_rules | assumption)+
qed

lemma d_raw:
  assumes "length raw < 2 ^ 31" and "show_raw ty q raw = Some os"
  shows "decodes (sec_raw ty q) (le32 (word_of_int (int (length raw))) @ raw)
     (say q [Pr ''PERF_SAMPLE_RAW, Raw length: %d'' [int (length raw)]] @ os)"
  unfolding sec_raw_def
proof (rule decodes_bind32)
  show "decodes
     (\<lambda>data off.
         (if q then Some []
          else raw_dump ty data off (sint (word_of_int (int (length raw)) :: u32))) \<bind>
         (\<lambda>os. Some (say q [Pr ''PERF_SAMPLE_RAW, Raw length: %d''
                 [sint (word_of_int (int (length raw)) :: u32)]] @ os,
               off + sint (word_of_int (int (length raw)) :: u32))))
     raw (say q [Pr ''PERF_SAMPLE_RAW, Raw length: %d'' [int (length raw)]] @ os)"
    unfolding decodes_def sint_count32 [OF assms(1)]
    using assms(2) by (auto simp: show_raw_def at_raw_dump split: if_splits)
qed

lemma d_stack:
  assumes "length stack < 2 ^ 31" and "stack_dump q stack (sint dyn) = Some os"
  shows "decodes (sec_stack_user q) (enc_count stack @ stack @ le64 dyn)
     (say q [Pr ''PERF_SAMPLE_STACK_USER, Requested size: %lld'' [int (length stack)],
             Pr ''Dynamic (used) size: %lld'' [sint dyn]] @ os)"
  unfolding sec_stack_user_def enc_count_def
  by (intro decodes_bind64 decodes_bind_bytes d_bind64_last)
    (simp_all only: sint_count [OF assms(1)] assms(2) decodes_def, simp)

lemma d_data_src:
  "decodes (sec_data_src q) (le64 src)
     (say q (Pr ''PERF_SAMPLE_DATA_SRC, Raw: %llx'' [uint src] # data_src_out src))"
  unfolding sec_data_src_def by (rule d_rules)+

section \<open>The whole sample\<close>

text \<open>The layout \<open>parse_sample\<close> decodes: the order of the \<open>if\<close>s of the code.\<close>

definition enc_sample_code :: "parse_cfg \<Rightarrow> sample \<Rightarrow> u8 list" where
  "enc_sample_code cfg s = (let st = c_sample_type cfg; msk = c_reg_mask cfg in
     opt st PERF_SAMPLE_IP (le64 (s_ip s)) @
     opt st PERF_SAMPLE_TID (le32 (s_pid s) @ le32 (s_tid s)) @
     opt st PERF_SAMPLE_TIME (le64 (s_time s)) @
     opt st PERF_SAMPLE_ADDR (le64 (s_addr s)) @
     opt st PERF_SAMPLE_ID (le64 (s_id s)) @
     opt st PERF_SAMPLE_STREAM_ID (le64 (s_stream_id s)) @
     opt st PERF_SAMPLE_CPU (le32 (s_cpu s) @ le32 (s_res s)) @
     opt st PERF_SAMPLE_PERIOD (le64 (s_period s)) @
     opt st PERF_SAMPLE_READ (enc_read_values (c_read_format cfg) (s_read s)) @
     opt st PERF_SAMPLE_CALLCHAIN (enc_count (s_chain s) @ concat (map le64 (s_chain s))) @
     opt st PERF_SAMPLE_RAW (le32 (word_of_int (int (length (s_raw s)))) @ s_raw s) @
     opt st PERF_SAMPLE_BRANCH_STACK (enc_count (s_lbr s) @
       concat (map (\<lambda>(frm, to, flags). le64 frm @ le64 to @ le64 flags) (s_lbr s))) @
     opt st PERF_SAMPLE_REGS_USER (le64 (s_user_abi s) @ enc_regs msk (s_user_regs s)) @
     opt st PERF_SAMPLE_REGS_INTR (le64 (s_intr_abi s) @ enc_regs msk (s_intr_regs s)) @
     opt st PERF_SAMPLE_STACK_USER (enc_count (s_stack s) @ s_stack s @ le64 (s_dyn_size s)) @
     opt st PERF_SAMPLE_WEIGHT (le64 (s_weight s)) @
     opt st PERF_SAMPLE_DATA_SRC (le64 (s_data_src s)) @
     opt st PERF_SAMPLE_IDENTIFIER (le64 (s_identifier s)) @
     opt st PERF_SAMPLE_TRANSACTION (le64 (s_transaction s)))"

definition show_sample :: "parse_cfg \<Rightarrow> sample \<Rightarrow> out list" where
  "show_sample cfg s = (let st = c_sample_type cfg; q = c_quiet cfg; val = c_validate cfg;
       names = c_reg_names cfg; msk = c_reg_mask cfg in
     opt st PERF_SAMPLE_IP (say q [Pr ''PERF_SAMPLE_IP, IP: %llx'' [uint (s_ip s)]]) @
     opt st PERF_SAMPLE_TID (show_tid val q (s_pid s) (s_tid s)) @
     opt st PERF_SAMPLE_TIME (say q [Pr ''PERF_SAMPLE_TIME, time: %lld'' [sint (s_time s)]]) @
     opt st PERF_SAMPLE_ADDR (say q [Pr ''PERF_SAMPLE_ADDR, addr: %llx'' [uint (s_addr s)]]) @
     opt st PERF_SAMPLE_ID (say q [Pr ''PERF_SAMPLE_ID, sample_id: %lld'' [sint (s_id s)]]) @
     opt st PERF_SAMPLE_STREAM_ID
       (say q [Pr ''PERF_SAMPLE_STREAM_ID, sample_stream_id: %lld'' [sint (s_stream_id s)]]) @
     opt st PERF_SAMPLE_CPU
       (say q [Pr ''PERF_SAMPLE_CPU, cpu: %d  res %d'' [sint (s_cpu s), sint (s_res s)]]) @
     opt st PERF_SAMPLE_PERIOD
       (say q [Pr ''PERF_SAMPLE_PERIOD, period: %lld'' [sint (s_period s)]]) @
     opt st PERF_SAMPLE_READ (say q [Pr ''PERF_SAMPLE_READ, read_format'' []] @
       show_read (c_read_format cfg) val q (s_read s)) @
     opt st PERF_SAMPLE_CALLCHAIN (show_chain q (s_chain s)) @
     opt st PERF_SAMPLE_RAW
       (say q [Pr ''PERF_SAMPLE_RAW, Raw length: %d'' [int (length (s_raw s))]] @
        the (show_raw (c_raw_type cfg) q (s_raw s))) @
     opt st PERF_SAMPLE_BRANCH_STACK (show_branch_stack val q (s_lbr s)) @
     opt st PERF_SAMPLE_REGS_USER
       (show_regs ''PERF_SAMPLE_REGS_USER, ABI: '' q names msk (s_user_abi s) (s_user_regs s)) @
     opt st PERF_SAMPLE_REGS_INTR
       (show_regs ''PERF_SAMPLE_REGS_INTR, ABI: '' q names msk (s_intr_abi s) (s_intr_regs s)) @
     opt st PERF_SAMPLE_STACK_USER
       (say q [Pr ''PERF_SAMPLE_STACK_USER, Requested size: %lld'' [int (length (s_stack s))],
               Pr ''Dynamic (used) size: %lld'' [sint (s_dyn_size s)]] @
        the (stack_dump q (s_stack s) (sint (s_dyn_size s)))) @
     opt st PERF_SAMPLE_WEIGHT (say q [Pr ''PERF_SAMPLE_WEIGHT, Weight: %lld'' [sint (s_weight s)]]) @
     opt st PERF_SAMPLE_DATA_SRC (say q (Pr ''PERF_SAMPLE_DATA_SRC, Raw: %llx'' [uint (s_data_src s)] #
       data_src_out (s_data_src s))) @
     opt st PERF_SAMPLE_IDENTIFIER
       (say q [Pr ''PERF_SAMPLE_IDENTIFIER, Raw length: %lld'' [sint (s_identifier s)]]) @
     opt st PERF_SAMPLE_TRANSACTION
       (say q [Pr ''PERF_SAMPLE_TRANSACTION, Raw length: %lld'' [sint (s_transaction s)]]))"

lemmas d_sections = d_tid d_cpu d_read d_callchain d_raw d_branch_stack d_regs d_stack d_data_src

lemma d_sample_code:
  assumes "sample_fits cfg s"
  shows "decodes (parse_sample cfg) (enc_sample_code cfg s) (show_sample cfg s)"
  unfolding parse_sample_def sample_sections_def enc_sample_code_def show_sample_def Let_def
    list.map prod.case
  using assms unfolding sample_fits_def Let_def
  by - (rule d_cons d_one d_when d_pr64 d_px64 d_sections | force)+

lemma enc_sample_agrees: "layout_agrees cfg s \<Longrightarrow> enc_sample cfg s = enc_sample_code cfg s"
  unfolding layout_agrees_def enc_sample_def enc_sample_code_def Let_def opt_def by simp

lemma d_sample: "sample_ok cfg s \<Longrightarrow> decodes (parse_sample cfg) (enc_sample cfg s) (show_sample cfg s)"
  by (simp add: sample_ok_def enc_sample_agrees d_sample_code)

end
