(* ===== verification/StreamSpec.thy ===== *)
theory StreamSpec
  imports SampleSpec
begin

text \<open>
  Whole records, streams of records and the ring buffer: what \<open>perf_mmap_read\<close> is meant to
  print, and the refinement lemmas from the switch on the record type up to the read of a
  wrapped ring.
\<close>

section \<open>One record\<close>

fun show_body :: "parse_cfg \<Rightarrow> perf_record \<Rightarrow> out list" where
  "show_body cfg (RMmap pid tid addr len pgoff name) = say (c_quiet cfg)
     [Pr ''PID: %d'' [sint pid], Pr ''TID: %d'' [sint tid], Pr ''Address: %llx'' [uint addr],
      Pr ''Length: %llx'' [uint len], Pr ''Page Offset: %llx'' [uint pgoff],
      PrS ''Filename: %s'' (takeWhile (\<lambda>b. b \<noteq> 0) name)]"
| "show_body cfg (RLost ident lost) = say (c_quiet cfg)
     [Pr ''ID: %lld'' [sint ident], Pr ''LOST: %lld'' [sint lost]]"
| "show_body cfg (RComm pid tid comm) = say (c_quiet cfg)
     [Pr ''PID: %d'' [sint pid], Pr ''TID: %d'' [sint tid],
      PrS ''comm: %s'' (takeWhile (\<lambda>b. b \<noteq> 0) comm)]"
| "show_body cfg (RExit pid ppid tid ptid time) = say (c_quiet cfg)
     [Pr ''PID: %d'' [sint pid], Pr ''PPID: %d'' [sint ppid], Pr ''TID: %d'' [sint tid],
      Pr ''PTID: %d'' [sint ptid], Pr ''Time: %lld'' [sint time]]"
| "show_body cfg (RThrottle time ident stream_id) = say (c_quiet cfg)
     [Pr ''Time: %lld'' [sint time], Pr ''ID: %lld'' [sint ident],
      Pr ''Stream ID: %lld'' [sint stream_id]]"
| "show_body cfg (RUnthrottle time ident stream_id) = say (c_quiet cfg)
     [Pr ''Time: %lld'' [sint time], Pr ''ID: %lld'' [sint ident],
      Pr ''Stream ID: %lld'' [sint stream_id]]"
| "show_body cfg (RFork pid ppid tid ptid time) = say (c_quiet cfg)
     [Pr ''PID: %d'' [sint pid], Pr ''PPID: %d'' [sint ppid], Pr ''TID: %d'' [sint tid],
      Pr ''PTID: %d'' [sint ptid], Pr ''Time: %lld'' [sint time]]"
| "show_body cfg (RRead pid tid vals) = say (c_quiet cfg)
     [Pr ''Unknown type %d'' [sint PERF_RECORD_READ]]"
| "show_body cfg (RSample s) = show_sample cfg s"
| "show_body cfg (RMmap2 pid tid addr len pgoff maj mnr ino gen prot flags name) = say (c_quiet cfg)
     [Pr ''PID: %d'' [sint pid], Pr ''TID: %d'' [sint tid], Pr ''Address: %llx'' [uint addr],
      Pr ''Length: %llx'' [uint len], Pr ''Page Offset: %llx'' [uint pgoff],
      Pr ''Major: %d'' [sint maj], Pr ''Minor: %d'' [sint mnr], Pr ''Ino: %llx'' [uint ino],
      Pr ''Ino generation: %llx'' [uint gen], Pr ''Prot: %d'' [sint prot],
      Pr ''Flags: %d'' [sint flags], PrS ''Filename: %s'' (takeWhile (\<lambda>b. b \<noteq> 0) name)]"
| "show_body cfg (RAux aoff asize flags ident) = say (c_quiet cfg)
     ([Pr ''AUX_OFFSET: %lld'' [sint aoff], Pr ''AUX_SIZE: %lld'' [sint asize],
       Pr ''FLAGS: %llx'' [uint flags]] @
      opt flags PERF_AUX_FLAG_TRUNCATED [Pr ''FLAG_TRUNCATED '' []] @
      opt flags PERF_AUX_FLAG_OVERWRITE [Pr ''FLAG_OVERWRITE '' []] @
      [Pr ''SAMPLE_ID: %lld'' [sint ident]])"
| "show_body cfg (RItraceStart pid tid) = say (c_quiet cfg)
     [Pr ''PID: %d'' [sint pid], Pr ''TID: %d'' [sint tid]]"
| "show_body cfg (RLostSamples lost ident) = say (c_quiet cfg)
     [Pr ''LOST: %lld'' [sint lost], Pr ''SAMPLE_ID: %lld'' [sint ident]]"
| "show_body cfg (RSwitch ident) = say (c_quiet cfg) [Pr ''SAMPLE_ID: %lld'' [sint ident]]"
| "show_body cfg (RSwitchCpuWide pid tid ident) = say (c_quiet cfg)
     [Pr ''PREV_PID: %d'' [sint pid], Pr ''PREV_TID: %d'' [sint tid],
      Pr ''SAMPLE_ID: %lld'' [sint ident]]"

definition show_record :: "parse_cfg \<Rightarrow> u16 \<times> perf_record \<Rightarrow> out list" where
  "show_record cfg mr = (case mr of (misc, r) \<Rightarrow>
     say (c_quiet cfg) (header_out (c_sample_type cfg) (record_type r) misc
       (word_of_int (int (record_size cfg r)))) @ show_body cfg r)"

text \<open>
  A record the decoder can follow: its size fits the 16-bit field, its strings end, and its
  type is one the switch of the code handles; \<open>PERF_RECORD_READ\<close> is not.
\<close>

fun body_ok :: "parse_cfg \<Rightarrow> perf_record \<Rightarrow> bool" where
  "body_ok cfg (RMmap _ _ _ _ _ name) \<longleftrightarrow> 0 \<in> set name"
| "body_ok cfg (RComm _ _ comm) \<longleftrightarrow> 0 \<in> set comm"
| "body_ok cfg (RMmap2 _ _ _ _ _ _ _ _ _ _ _ name) \<longleftrightarrow> 0 \<in> set name"
| "body_ok cfg (RSample s) \<longleftrightarrow> sample_ok cfg s"
| "body_ok cfg (RRead _ _ _) \<longleftrightarrow> False"
| "body_ok cfg _ \<longleftrightarrow> True"

definition record_ok :: "parse_cfg \<Rightarrow> u16 \<times> perf_record \<Rightarrow> bool" where
  "record_ok cfg mr \<longleftrightarrow> record_size cfg (snd mr) < 2 ^ 16 \<and> body_ok cfg (snd mr)"

lemma length_enc_record: "length (enc_record cfg mr) = record_size cfg (snd mr)"
  by (cases mr) (simp add: enc_record_def record_size_def)

lemma uint_record_size:
  "record_size cfg r < 2 ^ 16 \<Longrightarrow> uint (word_of_int (int (record_size cfg r)) :: u16)
     = int (record_size cfg r)"
  by (simp add: unsigned_of_int take_bit_int_eq_self del: of_int_of_nat_eq)

section \<open>The payload of each record\<close>

lemma cstr_ok: "0 \<in> set bs \<Longrightarrow> cstr bs = Some (takeWhile (\<lambda>b. b \<noteq> 0) bs)"
  by (simp add: cstr_def)

lemma say_parts: "say q (x # y # xs) = say q [x] @ say q (y # xs)"
  by (simp add: say_def)

text \<open>The decoders of the records, with their strings of the right length.\<close>

lemma d_body_strings:
  "uint sz = int (16 + length comm) \<Longrightarrow> body_ok cfg (RComm pid tid comm) \<Longrightarrow>
   decodes (parse_comm (c_quiet cfg) sz) (enc_body cfg (RComm pid tid comm))
     (show_body cfg (RComm pid tid comm))"
  "uint sz = int (40 + length name) \<Longrightarrow> body_ok cfg (RMmap pid tid addr len pgoff name) \<Longrightarrow>
   decodes (parse_mmap (c_quiet cfg) sz) (enc_body cfg (RMmap pid tid addr len pgoff name))
     (show_body cfg (RMmap pid tid addr len pgoff name))"
  "uint sz = int (72 + length name) \<Longrightarrow>
   body_ok cfg (RMmap2 pid tid addr len pgoff maj mnr ino gen prot flags name) \<Longrightarrow>
   decodes (parse_mmap2 (c_quiet cfg) sz)
     (enc_body cfg (RMmap2 pid tid addr len pgoff maj mnr ino gen prot flags name))
     (show_body cfg (RMmap2 pid tid addr len pgoff maj mnr ino gen prot flags name))"
  unfolding parse_comm_def parse_mmap_def parse_mmap2_def show_body.simps enc_body.simps
    body_ok.simps say_parts
  by (rule d_rules d_pr_str cstr_ok | assumption | simp)+

lemma d_body_plain:
  "decodes (parse_lost (c_quiet cfg)) (enc_body cfg (RLost ident lost))
     (show_body cfg (RLost ident lost))"
  "decodes (parse_exit (c_quiet cfg)) (enc_body cfg (RExit pid ppid tid ptid time))
     (show_body cfg (RExit pid ppid tid ptid time))"
  "decodes (parse_fork (c_quiet cfg)) (enc_body cfg (RFork pid ppid tid ptid time))
     (show_body cfg (RFork pid ppid tid ptid time))"
  "decodes (parse_throttle (c_quiet cfg)) (enc_body cfg (RThrottle time ident stream_id))
     (show_body cfg (RThrottle time ident stream_id))"
  "decodes (parse_throttle (c_quiet cfg)) (enc_body cfg (RUnthrottle time ident stream_id))
     (show_body cfg (RUnthrottle time ident stream_id))"
  "decodes (parse_itrace_start (c_quiet cfg)) (enc_body cfg (RItraceStart pid tid))
     (show_body cfg (RItraceStart pid tid))"
  "decodes (parse_lost_samples (c_quiet cfg)) (enc_body cfg (RLostSamples lost ident))
     (show_body cfg (RLostSamples lost ident))"
  "decodes (parse_switch (c_quiet cfg)) (enc_body cfg (RSwitch ident)) (show_body cfg (RSwitch ident))"
  "decodes (parse_switch_cpu_wide (c_quiet cfg)) (enc_body cfg (RSwitchCpuWide pid tid ident))
     (show_body cfg (RSwitchCpuWide pid tid ident))"
  unfolding parse_lost_def parse_exit_def parse_fork_def parse_throttle_def parse_itrace_start_def
    parse_lost_samples_def parse_switch_def parse_switch_cpu_wide_def show_body.simps
    enc_body.simps say_parts
  by (rule d_rules)+

lemma d_body_aux:
  "decodes (parse_aux (c_quiet cfg)) (enc_body cfg (RAux aoff asize flags ident))
     (show_body cfg (RAux aoff asize flags ident))"
proof -
  have "decodes (parse_aux (c_quiet cfg)) (enc_body cfg (RAux aoff asize flags ident))
     (say (c_quiet cfg) [Pr ''AUX_OFFSET: %lld'' [sint aoff]] @
      say (c_quiet cfg) [Pr ''AUX_SIZE: %lld'' [sint asize]] @
      say (c_quiet cfg) ([Pr ''FLAGS: %llx'' [uint flags]] @
        (if has flags PERF_AUX_FLAG_TRUNCATED then [Pr ''FLAG_TRUNCATED '' []] else []) @
        (if has flags PERF_AUX_FLAG_OVERWRITE then [Pr ''FLAG_OVERWRITE '' []] else [])) @
      say (c_quiet cfg) [Pr ''SAMPLE_ID: %lld'' [sint ident]])"
    unfolding parse_aux_def enc_body.simps by (rule d_rules)+
  then show ?thesis by (rule decodes_cong) (simp_all add: say_def opt_def)
qed

section \<open>The switch on the record type\<close>

lemma record_at:
  assumes "at data start (enc_record cfg (misc, r))"
  shows "rd32 data start = Some (record_type r)" and "rd16 data (start + 4) = Some misc"
    and "rd16 data (start + 6) = Some (word_of_int (int (record_size cfg r)))"
    and "at data (start + 8) (enc_body cfg r)"
  using assms unfolding enc_record_def prod.case at_append_iff
  by (simp_all add: c32.rd_at c16.rd_at add.assoc del: of_int_of_nat_eq)

lemma parse_body_ok:
  assumes "at data start (enc_record cfg (misc, r))" and "record_ok cfg (misc, r)"
  shows "parse_body cfg limit start (record_type r) data (start + 8)
           = Some (show_body cfg r, start + int (record_size cfg r))"
proof -
  have ok: "body_ok cfg r" and sz: "record_size cfg r < 2 ^ 16"
    using assms(2) by (simp_all add: record_ok_def)
  note u = uint_record_size [OF sz]
  note size16 = record_at(3) [OF assms(1)] and here = record_at(4) [OF assms(1)]
  have n: "start + int (record_size cfg r) = start + 8 + int (length (enc_body cfg r))"
    by (simp add: record_size_def)
  have sz_name: "uint (word_of_int (int (record_size cfg r)) :: u16) = int (k + length name)"
    if "length (enc_body cfg r) + 8 = k + length name" for k and name :: "u8 list"
    unfolding u using that by (simp add: record_size_def)
  show ?thesis unfolding n
  proof (cases r)
    case (RComm pid tid comm)
    with ok here size16 d_body_strings(1) [THEN decodesD, OF sz_name] show
      "parse_body cfg limit start (record_type r) data (start + 8)
           = Some (show_body cfg r, start + 8 + int (length (enc_body cfg r)))"
      by (simp add: parse_body_def record_type_defs)
  next
    case (RMmap pid tid addr len pgoff name)
    with ok here size16 d_body_strings(2) [THEN decodesD, OF sz_name] show
      "parse_body cfg limit start (record_type r) data (start + 8)
           = Some (show_body cfg r, start + 8 + int (length (enc_body cfg r)))"
      by (simp add: parse_body_def record_type_defs)
  next
    case (RMmap2 pid tid addr len pgoff maj mnr ino gen prot flags name)
    with ok here size16 d_body_strings(3) [THEN decodesD, OF sz_name] show
      "parse_body cfg limit start (record_type r) data (start + 8)
           = Some (show_body cfg r, start + 8 + int (length (enc_body cfg r)))"
      by (simp add: parse_body_def record_type_defs)
  qed (use ok here d_sample [THEN decodesD] d_body_plain [THEN decodesD] d_body_aux [THEN decodesD]
      in \<open>simp_all add: parse_body_def record_type_defs\<close>)
qed

lemma parse_event_ok:
  assumes "at data start (enc_record cfg mr)" and "record_ok cfg mr"
  shows "parse_event cfg limit data start
           = Some (show_record cfg mr, start + int (length (enc_record cfg mr)))"
proof -
  obtain misc r where mr: "mr = (misc, r)" by (cases mr)
  note rec = record_at [OF assms(1) [unfolded mr]]
  note body = parse_body_ok [OF assms [unfolded mr], of limit]
  show ?thesis
    unfolding parse_event_def rec(1) length_enc_record mr snd_conv
    by (cases "c_quiet cfg") (simp_all only: rec(2,3) body show_record_def say_def prod.case
        Option.bind.bind_lunit if_True if_False append_Nil)
qed

text \<open>A record the switch does not name throws away everything behind it.\<close>

lemma parse_event_read:
  assumes "at data start (enc_record cfg (misc, RRead pid tid vals))"
    and "record_size cfg (RRead pid tid vals) < 2 ^ 16"
  shows "parse_event cfg limit data start
           = Some (show_record cfg (misc, RRead pid tid vals), limit)"
proof -
  note rec = record_at [OF assms(1)]
  have "parse_body cfg limit start (record_type (RRead pid tid vals)) data (start + 8)
      = Some (show_body cfg (RRead pid tid vals), limit)"
    by (simp add: parse_body_def record_type_defs)
  then show ?thesis
    unfolding parse_event_def rec(1)
    by (cases "c_quiet cfg") (simp_all only: rec(2,3) show_record_def say_def prod.case
        Option.bind.bind_lunit if_True if_False append_Nil)
qed

section \<open>Streams\<close>

abbreviation enc_stream :: "parse_cfg \<Rightarrow> (u16 \<times> perf_record) list \<Rightarrow> u8 list" where
  "enc_stream cfg rs \<equiv> concat (map (enc_record cfg) rs)"

abbreviation show_stream :: "parse_cfg \<Rightarrow> (u16 \<times> perf_record) list \<Rightarrow> out list" where
  "show_stream cfg rs \<equiv> concat (map (show_record cfg) rs)"

lemma enc_record_nonempty: "0 < length (enc_record cfg mr)"
  by (simp add: length_enc_record record_size_def)

lemma parse_loop_stop: "limit \<le> off \<Longrightarrow> parse_loop cfg data limit off acc n = Some (Done acc n)"
  by (simp add: parse_loop.simps)

lemma parse_loop_step:
  "off < limit \<Longrightarrow> parse_event cfg limit data off = Some (os, off') \<Longrightarrow>
   parse_loop cfg data limit off acc n = parse_loop cfg data limit off' (acc @ os) (n + 1)"
  by (subst parse_loop.simps) simp

lemma parse_loop_prefix:
  assumes "\<forall>mr\<in>set rs. record_ok cfg mr" and "at data off (enc_stream cfg rs)"
    and "off + int (length (enc_stream cfg rs)) \<le> limit"
  shows "parse_loop cfg data limit off acc n
    = parse_loop cfg data limit (off + int (length (enc_stream cfg rs)))
        (acc @ show_stream cfg rs) (n + int (length rs))"
  using assms
proof (induction rs arbitrary: off acc n)
  case Nil
  then show ?case by simp
next
  case (Cons mr rs)
  let ?off = "off + int (length (enc_record cfg mr))"
  from Cons.prems have here: "at data off (enc_record cfg mr)" and ok: "record_ok cfg mr"
    and rest: "at data ?off (enc_stream cfg rs)" "\<forall>mr\<in>set rs. record_ok cfg mr"
      "?off + int (length (enc_stream cfg rs)) \<le> limit"
    by (simp_all add: at_append_iff)
  have "int (length (enc_record cfg mr)) = 8 + int (length (enc_body cfg (snd mr)))"
    by (simp add: length_enc_record record_size_def)
  with rest(3) have lt: "off < limit" by linarith
  show ?case
    by (simp add: parse_loop_step [OF lt parse_event_ok [OF here ok]]
        Cons.IH [OF rest(2,1,3)] add.assoc)
qed

lemma parse_loop_stream:
  assumes "\<forall>mr\<in>set rs. record_ok cfg mr" and "at data off (enc_stream cfg rs)"
    and "limit = off + int (length (enc_stream cfg rs))"
  shows "parse_loop cfg data limit off acc n
           = Some (Done (acc @ show_stream cfg rs) (n + int (length rs)))"
  using parse_loop_prefix [OF assms(1,2)] assms(3) by (simp add: parse_loop_stop)

section \<open>The ring buffer\<close>

text \<open>
  The bytes \<open>bs\<close> stand in the ring from position \<open>pos\<close> on; a position is counted since the
  start of the buffer and taken modulo its size.
\<close>

definition ring_holds :: "u8 list \<Rightarrow> int \<Rightarrow> u8 list \<Rightarrow> bool" where
  "ring_holds rng pos bs \<longleftrightarrow>
     length bs \<le> length rng \<and>
     (\<forall>k<length bs. bs ! k = rng ! ((nat pos + k) mod length rng))"

lemma c_mod_nonneg: "0 \<le> a \<Longrightarrow> 0 < b \<Longrightarrow> c_mod a b = a mod b"
  by (auto simp: c_mod_def sgn_if)

lemma unwrap_eq:
  assumes "0 \<le> wrap" and "wrap \<le> int (length rng)"
  shows "unwrap rng (int (length rng)) wrap = Some (drop (nat wrap) rng @ take (nat wrap) rng)"
proof -
  have "rd_bytes (nat (int (length rng) - wrap)) rng wrap = Some (drop (nat wrap) rng)"
    "rd_bytes (nat wrap) rng 0 = Some (take (nat wrap) rng)"
    using assms by (simp_all add: rd_bytes_def nat_diff_distrib)
  with assms show ?thesis by (simp add: unwrap_def)
qed

lemma unwrap_at:
  assumes "ring_holds rng pos bs" and "0 \<le> pos" and "0 < length rng"
  shows "\<exists>data. unwrap rng (int (length rng)) (c_mod pos (int (length rng))) = Some data \<and>
           length data = length rng \<and> at data 0 bs"
proof -
  let ?w = "nat pos mod length rng"
  let ?data = "drop ?w rng @ take ?w rng"
  have w: "c_mod pos (int (length rng)) = int ?w"
    using assms by (simp add: c_mod_nonneg zmod_int)
  have le: "?w \<le> length rng" using assms(3) by (simp add: less_imp_le)
  then have len: "length ?data = length rng" by simp
  have "take (length bs) ?data = bs"
  proof (rule nth_equalityI)
    show "length (take (length bs) ?data) = length bs"
      unfolding length_take len using assms(1) by (simp add: ring_holds_def)
    fix k assume "k < length (take (length bs) ?data)"
    then have k: "k < length bs" "k < length rng" unfolding length_take len by simp_all
    then show "take (length bs) ?data ! k = bs ! k"
      unfolding nth_take [OF k(1)] nth_rotate_split [OF k(2) le]
      using assms(1) by (simp add: ring_holds_def mod_add_left_eq)
  qed
  then have "at ?data 0 bs"
    using assms(1) len by (simp add: at_def ring_holds_def)
  moreover have "unwrap rng (int (length rng)) (int ?w) = Some ?data"
    using unwrap_eq [of "int ?w" rng] le by simp
  ultimately show ?thesis using len w by auto
qed

end
