(* ===== verification/Termination.thy ===== *)
theory Termination
  imports StreamSpec
begin

text \<open>
  When the loop of \<open>perf_mmap_read\<close> ends: every section but the raw data moves the offset
  forward, whatever the buffer holds, so without \<open>PERF_SAMPLE_RAW\<close> the loop returns on any
  input unless it never leaves a record (a quiet dump of a user stack of two gigabytes);
  the raw data has a signed size, and with it the loop can stay on one record.
\<close>

section \<open>Sections that move forward\<close>

definition fwd :: "sect \<Rightarrow> bool" where
  "fwd s \<longleftrightarrow> (\<forall>data off os off'. s data off = Some (os, off') \<longrightarrow> off \<le> off')"

lemma fwdD: "fwd s \<Longrightarrow> s data off = Some (os, off') \<Longrightarrow> off \<le> off'"
  by (simp add: fwd_def)

named_theorems fwd_intros

lemma fwd_emit [fwd_intros]: "fwd (emit os)"
  by (simp add: fwd_def emit_def)

lemma fwd_skip [fwd_intros]: "0 \<le> n \<Longrightarrow> fwd (skip n)"
  by (simp add: fwd_def skip_def)

lemma fwd_bind64 [fwd_intros]: "(\<And>v. fwd (f v)) \<Longrightarrow> fwd (bind64 f)"
  by (fastforce simp: fwd_def bind64_def bind_Some_iff)

lemma fwd_bind32 [fwd_intros]: "(\<And>v. fwd (f v)) \<Longrightarrow> fwd (bind32 f)"
  by (fastforce simp: fwd_def bind32_def bind_Some_iff)

lemma fwd_bind_bytes [fwd_intros]: "(\<And>bs. fwd (f bs)) \<Longrightarrow> fwd (bind_bytes n f)"
  by (fastforce simp: fwd_def bind_bytes_def bind_Some_iff split: if_splits)

lemma fwd_when [fwd_intros]: "(c \<Longrightarrow> fwd s) \<Longrightarrow> fwd (when_sect c s)"
  by (simp add: when_sect_def fwd_emit)

lemma fwd_if [fwd_intros]: "(c \<Longrightarrow> fwd s) \<Longrightarrow> (\<not> c \<Longrightarrow> fwd t) \<Longrightarrow> fwd (if c then s else t)"
  by simp

lemma fwd_seqs: "\<forall>s\<in>set ss. fwd s \<Longrightarrow> fwd (seqs ss)"
proof (induction ss)
  case Nil
  then show ?case by (simp add: fwd_def seqs.simps)
next
  case (Cons s ss)
  show ?case
    unfolding fwd_def
  proof (intro allI impI)
    fix data off os off'
    assume "seqs (s # ss) data off = Some (os, off')"
    then obtain os1 off1 ps where 1: "s data off = Some (os1, off1)"
      and 2: "seqs ss data off1 = Some (ps, off')"
      by (auto simp: seqs.simps bind_Some_iff)
    from Cons have "fwd s" "fwd (seqs ss)" by simp_all
    from fwdD [OF this(1), OF 1] fwdD [OF this(2), OF 2] show "off \<le> off'" by simp
  qed
qed

lemma fwd_seqs_Nil [fwd_intros]: "fwd (seqs [])"
  by (rule fwd_seqs) simp

lemma fwd_seqs_Cons [fwd_intros]: "fwd s \<Longrightarrow> fwd (seqs ss) \<Longrightarrow> fwd (seqs (s # ss))"
  unfolding fwd_def by (fastforce simp: seqs.simps bind_Some_iff)

lemma fwd_for [fwd_intros]: "(\<And>i. fwd (f i)) \<Longrightarrow> fwd (for_sect n f)"
  unfolding for_sect_def by (rule fwd_seqs) auto

lemma fwd_local:
  "(\<And>data off os off'. s data off = Some (os, off') \<Longrightarrow> off' = off) \<Longrightarrow> fwd s"
  by (fastforce simp: fwd_def)

section \<open>The sections of the code\<close>

lemma fwd_print [fwd_intros]: "fwd (pr64 q l)" "fwd (px64 q l)" "fwd (pr32 q l)"
  unfolding pr64_def px64_def pr32_def by (intro fwd_intros)+

lemma fwd_pr_str [fwd_intros]: "fwd (pr_str q l n)"
  unfolding pr_str_def by (intro fwd_intros fwd_local) (auto split: if_splits)

lemma fwd_read_format [fwd_intros]: "fwd (handle_struct_read_format rf val q)"
  unfolding handle_struct_read_format_def by (intro fwd_intros)

lemma fwd_print_regs [fwd_intros]: "fwd (print_regs q names abi msk)"
  unfolding print_regs_def
  by (intro fwd_intros, rule fwd_seqs) (auto intro!: fwd_intros)

lemma fwd_sections [fwd_intros]:
  "fwd (sec_tid val q)" "fwd (sec_cpu q)" "fwd (sec_read rf val q)" "fwd (sec_callchain q)"
  "fwd (sec_branch_stack val q)" "fwd (sec_regs l q names msk)" "fwd (sec_data_src q)"
  unfolding sec_tid_def sec_cpu_def sec_read_def sec_callchain_def sec_branch_stack_def
    sec_regs_def sec_data_src_def
  by (intro fwd_intros)+

lemma fwd_stack_user [fwd_intros]: "fwd (sec_stack_user q)"
  unfolding sec_stack_user_def by (intro fwd_intros fwd_local) (auto simp: bind_Some_iff)

lemma fwd_sample:
  assumes "\<not> has (c_sample_type cfg) PERF_SAMPLE_RAW"
  shows "fwd (parse_sample cfg)"
  unfolding parse_sample_def sample_sections_def Let_def list.map prod.case
  using assms by (intro fwd_intros) simp

lemma fwd_records [fwd_intros]:
  "fwd (parse_lost q)" "fwd (parse_comm q sz)" "fwd (parse_fork q)" "fwd (parse_mmap q sz)"
  "fwd (parse_mmap2 q sz)" "fwd (parse_exit q)" "fwd (parse_throttle q)" "fwd (parse_aux q)"
  "fwd (parse_itrace_start q)" "fwd (parse_lost_samples q)" "fwd (parse_switch q)"
  "fwd (parse_switch_cpu_wide q)"
  unfolding parse_lost_def parse_comm_def parse_fork_def parse_mmap_def parse_mmap2_def
    parse_exit_def parse_throttle_def parse_aux_def parse_itrace_start_def
    parse_lost_samples_def parse_switch_def parse_switch_cpu_wide_def
  by (intro fwd_intros)+

lemma parse_body_fwd:
  assumes "\<not> has (c_sample_type cfg) PERF_SAMPLE_RAW"
    and "parse_body cfg limit start t data off = Some (os, off')"
  shows "off \<le> off' \<or> off' = limit"
proof -
  note fwds = fwd_records [THEN fwdD] fwd_sample [OF assms(1), THEN fwdD]
  show ?thesis
    using assms(2) unfolding parse_body_def Let_def
    by (auto simp: bind_Some_iff split: if_splits dest: fwds)
qed

lemma parse_event_fwd:
  assumes "\<not> has (c_sample_type cfg) PERF_SAMPLE_RAW"
    and "parse_event cfg limit data off = Some (os, off')"
  shows "off + 8 \<le> off' \<or> off' = limit"
proof -
  from assms(2) obtain t ps where "parse_body cfg limit off t data (off + 8) = Some (ps, off')"
    by (auto simp: parse_event_def bind_Some_iff)
  from parse_body_fwd [OF assms(1) this] show ?thesis by simp
qed

text \<open>Only a quiet reader of user stacks can stay in a record.\<close>

lemma no_spin:
  "(c_quiet cfg \<longrightarrow> \<not> has (c_sample_type cfg) PERF_SAMPLE_STACK_USER) \<Longrightarrow> \<not> event_spins cfg data off"
  by (auto simp: event_spins_def sample_spins_def stack_spins_def dump_spins_def split: option.splits)

lemma parse_loop_returns:
  assumes "\<not> has (c_sample_type cfg) PERF_SAMPLE_RAW"
    and "c_quiet cfg \<longrightarrow> \<not> has (c_sample_type cfg) PERF_SAMPLE_STACK_USER"
  shows "\<exists>r. parse_loop cfg data limit off acc n = Some r"
proof (induction "nat (limit - off)" arbitrary: off acc n rule: less_induct)
  case less
  show ?case
  proof (cases "off < limit")
    case False
    then show ?thesis by (simp add: parse_loop_stop)
  next
    case True
    show ?thesis
    proof (cases "parse_event cfg limit data off")
      case None
      with True no_spin [OF assms(2)] show ?thesis by (subst parse_loop.simps) simp
    next
      case (Some p)
      obtain os off' where p: "p = (os, off')" by (cases p)
      with parse_event_fwd [OF assms(1)] Some have "off + 8 \<le> off' \<or> off' = limit" by blast
      with True have "nat (limit - off') < nat (limit - off)" by auto
      from less [OF this] show ?thesis
        unfolding parse_loop_step [OF True Some [unfolded p]] .
    qed
  qed
qed

section \<open>A record that keeps the loop in place\<close>

lemma parse_loop_moves:
  assumes "off < limit"
    and "map_option snd (parse_event cfg limit data off) = Some off \<or>
         parse_event cfg limit data off = None \<and> event_spins cfg data off"
    and "parse_loop c d l f a m = Some r"
  shows "(c, d, l, f) \<noteq> (cfg, data, limit, off)"
  using assms(3)
proof (rule parse_loop.raw_induct
    [where P = "\<lambda>c d l f a m r. (c, d, l, f) \<noteq> (cfg, data, limit, off)", rotated])
  fix loop :: "parse_cfg \<Rightarrow> u8 list \<Rightarrow> int \<Rightarrow> int \<Rightarrow> out list \<Rightarrow> int \<Rightarrow> run option"
    and c d l f a m r
  assume IH: "\<And>c d l f a m r. loop c d l f a m = Some r \<Longrightarrow> (c, d, l, f) \<noteq> (cfg, data, limit, off)"
    and step: "(if f < l then (case parse_event c l d f of
           None \<Rightarrow> if event_spins c d f then loop c d l f a m else Some Fault
         | Some (os, off') \<Rightarrow> loop c d l off' (a @ os) (m + 1)) else Some (Done a m)) = Some r"
  show "(c, d, l, f) \<noteq> (cfg, data, limit, off)"
  proof
    assume "(c, d, l, f) = (cfg, data, limit, off)"
    with step assms(1,2)
    have "loop cfg data limit off (a @ fst (the (parse_event cfg limit data off))) (m + 1) = Some r \<or>
      loop cfg data limit off a m = Some r" by auto
    with IH show False by fastforce
  qed
qed

lemma parse_loop_stuck:
  assumes "off < limit"
    and "map_option snd (parse_event cfg limit data off) = Some off \<or>
         parse_event cfg limit data off = None \<and> event_spins cfg data off"
  shows "parse_loop cfg data limit off acc n = None"
proof (cases "parse_loop cfg data limit off acc n")
  case (Some r)
  from parse_loop_moves [OF assms this] show ?thesis by simp
qed simp

end
