(* ===== verification/RecordTheorems.thy ===== *)
theory RecordTheorems
  imports Termination
begin

text \<open>
  The properties of the record decoder (lib/parse_record.c), each with a witness where it
  has hypotheses, and the example records the witnesses run on.
\<close>

section \<open>Examples\<close>

definition ex_cfg :: parse_cfg where
  "ex_cfg = \<lparr>c_sample_type = PERF_SAMPLE_IP OR PERF_SAMPLE_READ OR PERF_SAMPLE_CALLCHAIN,
     c_read_format = PERF_FORMAT_GROUP OR PERF_FORMAT_ID, c_reg_mask = 0, c_validate = None,
     c_quiet = False, c_raw_type = 0, c_reg_names = reg_names_x86_64\<rparr>"

definition ex_sample :: sample where
  "ex_sample = \<lparr>s_identifier = 1, s_ip = 0x400123, s_pid = 2, s_tid = 3, s_time = 4, s_addr = 5,
     s_id = 6, s_stream_id = 7, s_cpu = 8, s_res = 9, s_period = 10,
     s_read = RfGroup 0 0 [(100, 1, 0), (200, 2, 0)], s_chain = [0x10, 0x20], s_raw = [],
     s_lbr = [], s_user_abi = 0, s_user_regs = (\<lambda>_. 0), s_stack = [], s_dyn_size = 0,
     s_weight = 0, s_data_src = 0, s_transaction = 0, s_intr_abi = 0, s_intr_regs = (\<lambda>_. 0),
     s_tail = []\<rparr>"

definition ex_stream :: "(u16 \<times> perf_record) list" where
  "ex_stream = [(1, RLost 7 3), (2, RSample ex_sample)]"

text \<open>A ring of 128 bytes in which the stream starts at byte 72 and wraps.\<close>

definition ex_area :: mmap_area where
  "ex_area = (let bs = enc_stream ex_cfg ex_stream in
     \<lparr>data_head = 72 + word_of_int (int (length bs)), data_tail = 0,
      ring = drop 56 bs @ replicate (128 - length bs) 0 @ take 56 bs\<rparr>)"

lemmas ex_simps = ex_cfg_def ex_sample_def ex_stream_def enc_record_def enc_sample_def opt_def
  enc_count_def has_def sample_flag_defs read_format_defs record_size_def

lemma ex_sample_length: "length (enc_sample ex_cfg ex_sample) = 72"
  by (simp add: ex_simps)

lemma ex_stream_length: "length (enc_stream ex_cfg ex_stream) = 104"
  by (simp add: ex_stream_def length_enc_record record_size_def ex_sample_length)

lemma ex_sample_ok: "sample_ok ex_cfg ex_sample"
  by (simp add: sample_ok_def sample_fits_def layout_agrees_def ex_simps)

lemma ex_stream_ok: "\<forall>mr\<in>set ex_stream. record_ok ex_cfg mr"
  by (simp add: ex_stream_def record_ok_def ex_sample_ok record_size_def ex_sample_length)

lemma ring_holds_wrapped:
  assumes "k \<le> length bs" and "length bs + length z = n" and "nat pos mod n = n - k" and "0 < k"
  shows "ring_holds (drop k bs @ z @ take k bs) pos bs"
proof -
  have "bs ! i = (drop k bs @ z @ take k bs) ! ((nat pos + i) mod n)" if i: "i < length bs" for i
  proof (cases "i < k")
    case True
    have "(nat pos + i) mod n = (n - k + i) mod n"
      by (metis assms(3) mod_add_left_eq)
    also have "\<dots> = length (drop k bs) + (length z + i)" using True assms(1,2) by simp
    finally show ?thesis using True by (simp only: nth_append_length_plus nth_take)
  next
    case False
    have "(nat pos + i) mod n = (n - k + i) mod n"
      by (metis assms(3) mod_add_left_eq)
    also have "\<dots> = i - k" using False assms(1,2) i by (simp add: mod_if)
    finally show ?thesis using False assms(1) i diff_less_mono [of i "length bs" k]
      by (simp add: nth_append)
  qed
  moreover have "length (drop k bs @ z @ take k bs) = n" using assms(1,2) by simp
  ultimately show ?thesis using assms(2) by (simp add: ring_holds_def)
qed

lemma ex_area_facts:
  "length (ring ex_area) = 128" "ring_holds (ring ex_area) 72 (enc_stream ex_cfg ex_stream)"
  "data_head ex_area = 176"
  by (simp_all add: ex_area_def ex_stream_length Let_def ring_holds_wrapped)

section \<open>Properties\<close>

text \<open>
  C1. Reading the ring returns exactly the records the kernel left in it: if a stream of
  records the decoder handles stands in the ring from the previous head on (wrapped or not),
  \<open>perf_mmap_read\<close> prints each record's fields in order, counts the records, returns the new
  head and hands the space back by moving \<open>data_tail\<close> to it.
\<close>

theorem perf_mmap_read_stream:
  assumes "\<forall>mr\<in>set rs. record_ok cfg mr"
    and "ring_holds (ring area) prev_head (enc_stream cfg rs)"
    and "mmap_size * pagesize = int (length (ring area))"
    and "0 < length (ring area)" and "length (ring area) < 2 ^ 31"
    and "0 \<le> prev_head"
    and "sint (data_head area) = prev_head + int (length (enc_stream cfg rs))"
  shows "perf_mmap_read pagesize True cfg (Some area) mmap_size prev_head =
    Some (RRet (prev_head + int (length (enc_stream cfg rs)))
      (Some (area\<lparr>data_tail := data_head area\<rparr>)) (show_stream cfg rs) (Some (int (length rs))))"
proof -
  let ?len = "int (length (enc_stream cfg rs))"
  from assms(2) have le: "?len \<le> int (length (ring area))" by (simp add: ring_holds_def)
  with assms(5) have "i32 ?len = ?len" "i32 (int (length (ring area))) = int (length (ring area))"
    by (intro i32_id; simp)+
  moreover from assms(3,4) have "mmap_size \<noteq> 0" by auto
  moreover from unwrap_at [OF assms(2,6,4)] obtain data where
    "unwrap (ring area) (int (length (ring area))) (c_mod prev_head (int (length (ring area)))) = Some data"
    "at data 0 (enc_stream cfg rs)" by blast
  moreover from parse_loop_stream [OF assms(1) this(2), of ?len "[]" 0]
  have "parse_loop cfg data ?len 0 [] 0 = Some (Done (show_stream cfg rs) (int (length rs)))" by simp
  ultimately show ?thesis
    using le by (simp add: perf_mmap_read_def assms(3,7) Let_def)
qed

theorem perf_mmap_read_stream_witness:
  "perf_mmap_read 64 True ex_cfg (Some ex_area) 2 72 =
    Some (RRet 176 (Some (ex_area\<lparr>data_tail := 176\<rparr>)) (show_stream ex_cfg ex_stream) (Some 2))"
  using perf_mmap_read_stream [of ex_stream ex_cfg ex_area 72 2 64, OF ex_stream_ok]
  by (simp add: ex_area_facts ex_stream_length) (simp add: ex_stream_def)

text \<open>
  C2. The decoder of a sample reads exactly the fields that \<open>sample_type\<close> selects, in the
  order of the code, each at its own width and with its own repetition count, and prints
  their values: for every sample whose counts fit, at any offset of any buffer.
\<close>

theorem parse_sample_layout:
  assumes "sample_fits cfg s" and "at data off (enc_sample_code cfg s)"
  shows "parse_sample cfg data off
           = Some (show_sample cfg s, off + int (length (enc_sample_code cfg s)))"
  by (rule decodesD [OF d_sample_code [OF assms(1)] assms(2)])

theorem parse_sample_layout_witness:
  "parse_sample ex_cfg ([1, 2, 3] @ enc_sample_code ex_cfg ex_sample) 3
     = Some (show_sample ex_cfg ex_sample, 75)"
proof -
  have eq: "enc_sample_code ex_cfg ex_sample = enc_sample ex_cfg ex_sample"
    using ex_sample_ok by (simp add: sample_ok_def enc_sample_agrees)
  have "at ([1, 2, 3] @ enc_sample_code ex_cfg ex_sample) 3 (enc_sample_code ex_cfg ex_sample)"
    using at_self [of "[1, 2, 3]" _ "[]"] by simp
  moreover have "sample_fits ex_cfg ex_sample" using ex_sample_ok by (simp add: sample_ok_def)
  ultimately show ?thesis
    using parse_sample_layout [of ex_cfg ex_sample "[1, 2, 3] @ enc_sample_code ex_cfg ex_sample" 3]
    by (simp add: eq ex_sample_length)
qed

text \<open>
  C3. The \<open>read_format\<close> decoder against the layout perf_event.h documents for a counter read,
  a single value or a group, with any of its optional fields. Without \<open>PERF_FORMAT_LOST\<close> it
  is the inverse of that layout: it consumes exactly the encoded bytes and prints each value
  beside its own id. With \<open>PERF_FORMAT_LOST\<close>, which it does not know, it stops 8 bytes early
  for every value; a single value is still printed as it is, and in a group the words behind
  the first entry are taken for the wrong fields (\<open>without_lost\<close>).
\<close>

theorem handle_struct_read_format_roundtrip:
  assumes "read_kind_ok rf vals" and "at data off (enc_read_values rf vals)"
  shows "handle_struct_read_format rf val q data off
    = (if has rf PERF_FORMAT_LOST
       then Some (show_read rf val q (without_lost rf vals),
                  off + int (length (enc_read_values rf vals)) - 8 * int (read_entries vals))
       else Some (show_read rf val q vals, off + int (length (enc_read_values rf vals))))"
proof (cases "has rf PERF_FORMAT_LOST")
  case True
  with d_read_lost [OF assms(1) True assms(2)] show ?thesis by simp
next
  case False
  with assms(1) have "read_values_ok rf vals" by (cases vals) simp_all
  from decodesD [OF d_read_format [OF this] assms(2)] False show ?thesis by simp
qed

lemma deal_two: "deal False 2 (v # w # ws) = [(v, 0, 0), (w, 0, 0)]"
  by (simp add: numeral_2_eq_2)

theorem handle_struct_read_format_roundtrip_witness:
  "handle_struct_read_format (PERF_FORMAT_GROUP OR PERF_FORMAT_ID) None False
     (enc_read_values (PERF_FORMAT_GROUP OR PERF_FORMAT_ID) (RfGroup 0 0 [(100, 1, 0), (200, 2, 0)])) 0
   = Some ([Pr ''Number: %lld'' [2], Pr ''Value: %lld'' [100], Pr ''id: %lld'' [1],
            Pr ''Value: %lld'' [200], Pr ''id: %lld'' [2]], 40) \<and>
   handle_struct_read_format (PERF_FORMAT_GROUP OR PERF_FORMAT_LOST) None False
     (enc_read_values (PERF_FORMAT_GROUP OR PERF_FORMAT_LOST) (RfGroup 0 0 [(100, 0, 7), (200, 0, 9)])) 0
   = Some ([Pr ''Number: %lld'' [2], Pr ''Value: %lld'' [100], Pr ''Value: %lld'' [7]], 24)"
  using handle_struct_read_format_roundtrip
    [of "PERF_FORMAT_GROUP OR PERF_FORMAT_ID" "RfGroup 0 0 [(100, 1, 0), (200, 2, 0)]"
        "enc_read_values (PERF_FORMAT_GROUP OR PERF_FORMAT_ID) (RfGroup 0 0 [(100, 1, 0), (200, 2, 0)])" 0
        None False]
    handle_struct_read_format_roundtrip
    [of "PERF_FORMAT_GROUP OR PERF_FORMAT_LOST" "RfGroup 0 0 [(100, 0, 7), (200, 0, 9)]"
        "enc_read_values (PERF_FORMAT_GROUP OR PERF_FORMAT_LOST) (RfGroup 0 0 [(100, 0, 7), (200, 0, 9)])" 0
        None False]
  by (simp add: at_def has_def read_format_defs opt_def say_def count_errors_def entry_words_def
      deal_two)

lemma some_if: "a \<noteq> None \<Longrightarrow> b \<noteq> None \<Longrightarrow> (if c then a else b) \<noteq> None"
  by simp

lemma some_option:
  "a \<noteq> None \<Longrightarrow> (\<And>x. f x \<noteq> None) \<Longrightarrow> (case m of None \<Rightarrow> a | Some x \<Rightarrow> f x) \<noteq> None"
  by (simp split: option.split)

lemma some_run:
  "m \<noteq> None \<Longrightarrow> (case m of None \<Rightarrow> None | Some Fault \<Rightarrow> Some a | Some (Done os n) \<Rightarrow> Some (f os n)) \<noteq> None"
  by (auto split: run.split)

text \<open>
  C4. Without raw data in the samples, and unless user stacks are read quietly, the reader
  always comes back: whatever bytes stand in the ring, \<open>perf_mmap_read\<close> ends (with a result
  or at an access outside the copy), since every record moves the offset forward or to the
  end. Raw data can move it back (C5), and a quiet reader can stay in the loop over a user
  stack (\<open>quiet_stack_hang\<close>).
\<close>

theorem perf_mmap_read_returns:
  assumes "\<not> has (c_sample_type cfg) PERF_SAMPLE_RAW"
    and "c_quiet cfg \<longrightarrow> \<not> has (c_sample_type cfg) PERF_SAMPLE_STACK_USER"
  shows "\<exists>r. perf_mmap_read pagesize malloc_ok cfg our_mmap mmap_size prev_head = Some r"
proof (cases our_mmap)
  case (Some area)
  have total: "parse_loop cfg data limit 0 warn 0 \<noteq> None" for data limit warn
    using parse_loop_returns [OF assms] by force
  have "perf_mmap_read pagesize malloc_ok cfg our_mmap mmap_size prev_head \<noteq> None"
    unfolding perf_mmap_read_def Some Let_def option.case
    by (intro some_if some_option some_run total) simp_all
  then show ?thesis by simp
qed (simp add: perf_mmap_read_def)

theorem perf_mmap_read_returns_witness:
  "\<exists>r. perf_mmap_read 64 True ex_cfg (Some ex_area) 2 0 = Some r"
  by (rule perf_mmap_read_returns) (simp_all add: ex_simps)

text \<open>
  C5. With raw data the loop need not end: the raw size is a signed number taken from the
  record, and a size of -12 puts the offset back on the same record, so the reader loops
  forever on a ring of 16 bytes.
\<close>

theorem perf_mmap_read_raw_hang:
  "perf_mmap_read 16 True (ex_cfg\<lparr>c_sample_type := PERF_SAMPLE_RAW\<rparr>)
     (Some \<lparr>data_head = 16, data_tail = 0,
            ring = le32 PERF_RECORD_SAMPLE @ le16 0 @ le16 12 @ le32 (- 12) @ [0, 0, 0, 0]\<rparr>) 1 0 = None"
proof -
  let ?cfg = "ex_cfg\<lparr>c_sample_type := PERF_SAMPLE_RAW\<rparr>"
  let ?data = "le32 PERF_RECORD_SAMPLE @ le16 0 @ le16 12 @ le32 (- 12) @ [0, 0, 0, 0]"
  have here: "at ?data 0 (le32 PERF_RECORD_SAMPLE @ le16 0 @ le16 12 @ le32 (- 12))"
    by (simp add: at_def)
  then have rds: "rd32 ?data 0 = Some PERF_RECORD_SAMPLE" "rd16 ?data 4 = Some 0"
    "rd16 ?data 6 = Some 12" "rd32 ?data 8 = Some (- 12)"
    by (simp_all add: at_append_iff c32.rd_at c16.rd_at)
  have "map_option snd (parse_sample ?cfg ?data 8) = Some 0"
    by (simp add: parse_sample_def sample_sections_def seqs.simps when_sect_def emit_def
        sec_raw_def bind32_def rds raw_dump_def say_def has_def sample_flag_defs ex_cfg_def)
  moreover have body: "parse_body c l st PERF_RECORD_SAMPLE d k = parse_sample c d k" for c l st d k
    by (simp add: parse_body_def record_type_defs)
  ultimately have "map_option snd (parse_event ?cfg 16 ?data 0) = Some 0"
    by (auto simp: parse_event_def rds body)
  then have stuck: "parse_loop ?cfg ?data 16 0 [] 0 = None"
    by (intro parse_loop_stuck disjI1) simp_all
  have un: "unwrap ?data 16 (c_mod 0 16) = Some ?data"
    by (simp add: unwrap_def c_mod_def rd_bytes_def)
  show ?thesis
    by (simp add: perf_mmap_read_def Let_def i32_id un stuck)
qed

text \<open>
  C6. A \<open>PERF_RECORD_READ\<close> has a name in the header switch but no case in the payload
  switch: the default case jumps to the end of the data, so all records behind it are lost.
\<close>

theorem read_record_drops_rest:
  assumes "\<forall>mr\<in>set rs. record_ok cfg mr"
    and "record_size cfg (RRead pid tid vals) < 2 ^ 16"
    and "at data 0 (enc_stream cfg rs @ enc_record cfg (misc, RRead pid tid vals) @ rest)"
    and "limit = int (length (enc_stream cfg rs @ enc_record cfg (misc, RRead pid tid vals) @ rest))"
  shows "parse_loop cfg data limit 0 [] 0
    = Some (Done (show_stream cfg rs @ show_record cfg (misc, RRead pid tid vals)) (int (length rs) + 1))"
proof -
  let ?off = "int (length (enc_stream cfg rs))"
  from assms(3) have here: "at data 0 (enc_stream cfg rs)"
    "at data ?off (enc_record cfg (misc, RRead pid tid vals))"
    by (simp_all add: at_append_iff)
  have lt: "?off < limit" "0 + ?off \<le> limit"
    unfolding assms(4) length_append length_enc_record record_size_def by simp_all
  from parse_loop_prefix [OF assms(1) here(1) lt(2), of "[]" 0]
    parse_loop_step [OF lt(1) parse_event_read [OF here(2) assms(2)]]
  show ?thesis by (simp add: parse_loop_stop)
qed

theorem read_record_drops_rest_witness:
  "parse_loop ex_cfg (enc_record ex_cfg (0, RRead 1 2 (RfGroup 0 0 [])) @
       enc_record ex_cfg (0, RLost 5 6)) 48 0 [] 0
    = Some (Done (show_record ex_cfg (0, RRead 1 2 (RfGroup 0 0 []))) 1)"
proof -
  let ?r = "enc_record ex_cfg (0, RRead 1 2 (RfGroup 0 0 []))" and ?l = "enc_record ex_cfg (0, RLost 5 6)"
  have lens: "length ?r = 24" "length ?l = 24"
    by (simp_all add: length_enc_record record_size_def ex_cfg_def has_def opt_def read_format_defs)
  then have "record_size ex_cfg (RRead 1 2 (RfGroup 0 0 [])) < 2 ^ 16" by (simp add: length_enc_record)
  moreover have "at (?r @ ?l) 0 (enc_stream ex_cfg [] @ ?r @ ?l)" by (simp add: at_def)
  moreover have "48 = int (length (enc_stream ex_cfg [] @ ?r @ ?l))" by (simp add: lens)
  moreover have "\<forall>mr\<in>set []. record_ok ex_cfg mr" by simp
  ultimately show ?thesis
    using read_record_drops_rest [of "[]" ex_cfg 1 2 "RfGroup 0 0 []" "?r @ ?l" 0 ?l 48] by simp
qed

text \<open>
  C7. The documentation puts \<open>PERF_SAMPLE_IDENTIFIER\<close> first in a sample, the code reads it
  almost last: with the IP also sampled, the identifier is printed as the IP and the IP as
  the identifier.
\<close>

theorem identifier_misplaced:
  "parse_sample (ex_cfg\<lparr>c_sample_type := PERF_SAMPLE_IDENTIFIER OR PERF_SAMPLE_IP\<rparr>)
     (enc_sample (ex_cfg\<lparr>c_sample_type := PERF_SAMPLE_IDENTIFIER OR PERF_SAMPLE_IP\<rparr>)
        (ex_sample\<lparr>s_identifier := a, s_ip := b\<rparr>)) 0
   = Some ([Pr ''PERF_SAMPLE_IP, IP: %llx'' [uint a],
            Pr ''PERF_SAMPLE_IDENTIFIER, Raw length: %lld'' [sint b]], 16)"
proof -
  let ?cfg = "ex_cfg\<lparr>c_sample_type := PERF_SAMPLE_IDENTIFIER OR PERF_SAMPLE_IP\<rparr>"
  let ?s = "ex_sample\<lparr>s_ip := a, s_identifier := b\<rparr>"
  have fits: "sample_fits ?cfg ?s" by (simp add: sample_fits_def ex_simps)
  have "enc_sample ?cfg (ex_sample\<lparr>s_identifier := a, s_ip := b\<rparr>) = enc_sample_code ?cfg ?s"
    by (simp add: enc_sample_code_def ex_simps)
  moreover have "at (enc_sample_code ?cfg ?s) 0 (enc_sample_code ?cfg ?s)" by (simp add: at_def)
  moreover have "length (enc_sample_code ?cfg ?s) = 16"
    by (simp add: enc_sample_code_def ex_simps)
  moreover have "show_sample ?cfg ?s = [Pr ''PERF_SAMPLE_IP, IP: %llx'' [uint a],
            Pr ''PERF_SAMPLE_IDENTIFIER, Raw length: %lld'' [sint b]]"
    by (simp add: show_sample_def ex_simps say_def)
  ultimately show ?thesis
    using decodesD [OF d_sample_code [OF fits], of "enc_sample_code ?cfg ?s" 0] by simp
qed

lemma has_bits:
  fixes w :: u64
  shows "has w 1 = bit w 0" "has w 2 = bit w 1" "has w 4 = bit w 2" "has w 8 = bit w 3"
  using and_exp_eq_0_iff_not_bit [of w 0] and_exp_eq_0_iff_not_bit [of w 1]
    and_exp_eq_0_iff_not_bit [of w 2] and_exp_eq_0_iff_not_bit [of w 3]
  by (simp_all add: has_def)

lemma clear_bits:
  fixes w :: u64
  shows "bit (w AND NOT 2) n \<longleftrightarrow> bit w n \<and> n \<noteq> 1" "bit (w AND NOT 4) n \<longleftrightarrow> bit w n \<and> n \<noteq> 2"
proof -
  have "bit (w AND NOT (push_bit m 1)) n \<longleftrightarrow> bit w n \<and> n \<noteq> m" for m
    by (auto simp: bit_simps dest: bit_imp_le_length)
  from this [of 1] this [of 2]
  show "bit (w AND NOT 2) n \<longleftrightarrow> bit w n \<and> n \<noteq> 1" "bit (w AND NOT 4) n \<longleftrightarrow> bit w n \<and> n \<noteq> 2"
    by simp_all
qed

lemma data_src_label:
  "Pr label [] \<in> set (data_src_out src) \<longleftrightarrow> (\<exists>m. (m, label) \<in> set mem_flags \<and> has src m)"
  by (auto simp: data_src_out_def image_iff)

lemma those_None: "None \<in> set xs \<Longrightarrow> those xs = None"
  by (induction xs) (auto split: option.splits)

lemma and_high: "(w :: u64) AND 0xffffffff80000000 = push_bit 31 (drop_bit 31 w)"
proof -
  have "(0xffffffff80000000 :: u64) = NOT (mask 31)" by (simp add: mask_eq_exp_minus_1)
  moreover have "w AND NOT (mask 31) = push_bit 31 (drop_bit 31 w)"
    by (rule bit_word_eqI) (auto simp: bit_simps)
  ultimately show ?thesis by simp
qed

lemma push_drop_zero: "push_bit n (drop_bit n (w :: u64)) = 0 \<longleftrightarrow> drop_bit n w = 0"
proof
  assume "push_bit n (drop_bit n w) = 0"
  then have "drop_bit n (push_bit n (drop_bit n w)) = 0" by simp
  moreover have "drop_bit n (push_bit n (drop_bit n w)) = drop_bit n w"
    by (rule bit_word_eqI) (auto simp: bit_simps dest: bit_imp_le_length)
  ultimately show "drop_bit n w = 0" by simp
qed simp

text \<open>
  What is printed of the flags of a branch entry: each flag of its own bit, except that
  \<open>PREDICTED\<close> is dropped when \<open>MISPREDICTED\<close> is set, because the first test clears bit 1
  (\<open>flags&=~2\<close>) instead of its own.
\<close>

theorem lbr_flags_out_spec:
  "lbr_flags_out f =
     (if f = 0 then [Pr ''0'' []] else []) @
     opt f 1 [Pr ''MISPREDICTED '' []] @
     (if has f 2 \<and> \<not> has f 1 then [Pr ''PREDICTED '' []] else []) @
     opt f 4 [Pr ''IN_TRANSACTION '' []] @ opt f 8 [Pr ''TRANSACTION_ABORT '' []]"
  unfolding lbr_flags_out_def Let_def opt_def has_bits
  by (cases "bit f 0"; cases "bit f 1"; cases "bit f 2")
    (simp_all add: has_bits clear_bits [simplified])

text \<open>
  The mask \<open>PERF_MEM_TLB_WK<<PERF_MEM_TLB_SHIFT\<close> is an \<open>int\<close> with its sign bit set, so
  converted to 64 bits it tests bit 31 and every bit above it: the hardware walker is
  reported for an OS fault handler, and for any of the bits above the field.
\<close>

theorem hardware_walker_sign_extended:
  "Pr ''Hardware walker'' [] \<in> set (data_src_out src) \<longleftrightarrow> drop_bit 31 src \<noteq> 0"
proof -
  have "mem_mask 0x20 26 = 0xffffffff80000000" by (simp add: mem_mask_def i32_def)
  then have "has src (mem_mask 0x20 26) \<longleftrightarrow> src AND 0xffffffff80000000 \<noteq> 0" by (simp add: has_def)
  also have "\<dots> \<longleftrightarrow> drop_bit 31 src \<noteq> 0" by (simp only: and_high push_drop_zero)
  finally have walker: "has src (mem_mask 0x20 26) \<longleftrightarrow> drop_bit 31 src \<noteq> 0" .
  have "(m, ''Hardware walker'') \<in> set mem_flags \<longleftrightarrow> m = mem_mask 0x20 26" for m
    by (simp add: mem_flags_def)
  then show ?thesis by (simp add: data_src_label walker)
qed

text \<open>
  A quiet reader that meets a sample whose used stack size does not fit its \<open>int\<close> counter
  never leaves the loop over the stack: here a record of 24 bytes with an empty copy and a
  used size of 2147483645.
\<close>

theorem quiet_stack_hang:
  "perf_mmap_read 24 True (ex_cfg\<lparr>c_sample_type := PERF_SAMPLE_STACK_USER, c_quiet := True\<rparr>)
     (Some \<lparr>data_head = 24, data_tail = 0,
            ring = le32 PERF_RECORD_SAMPLE @ le16 0 @ le16 24 @ le64 0 @ le64 2147483645\<rparr>) 1 0 = None"
proof -
  let ?cfg = "ex_cfg\<lparr>c_sample_type := PERF_SAMPLE_STACK_USER, c_quiet := True\<rparr>"
  let ?data = "le32 PERF_RECORD_SAMPLE @ le16 0 @ le16 24 @ le64 0 @ le64 2147483645"
  have here: "at ?data 0 (le32 PERF_RECORD_SAMPLE @ le16 0 @ le16 24 @ le64 0 @ le64 2147483645)"
    by (simp add: at_def)
  then have rds: "rd32 ?data 0 = Some PERF_RECORD_SAMPLE" "rd64 ?data 8 = Some 0"
    "rd64 ?data 16 = Some 2147483645"
    by (simp_all add: at_append_iff c32.rd_at c64.rd_at)
  have nob: "rd_bytes 0 ?data 16 = Some []" by (simp add: rd_bytes_def)
  have spins: "event_spins ?cfg ?data 0"
    by (simp add: event_spins_def sample_spins_def stack_spins_def dump_spins_def rds nob
        sample_sections_def seqs.simps when_sect_def emit_def has_def sample_flag_defs ex_cfg_def)
  have none: "parse_sample ?cfg ?data 8 = None"
    by (simp add: parse_sample_def sec_stack_user_def
        bind64_def bind_bytes_def stack_dump_def dump_spins_def rds nob
        sample_sections_def seqs.simps when_sect_def emit_def has_def sample_flag_defs ex_cfg_def)
  have body: "parse_body c l st PERF_RECORD_SAMPLE d k = parse_sample c d k" for c l st d k
    by (simp add: parse_body_def record_type_defs)
  have "parse_event ?cfg 24 ?data 0 = None"
    unfolding parse_event_def rds(1) Option.bind.bind_lunit body by (simp add: none)
  with spins have stuck: "parse_loop ?cfg ?data 24 0 [] 0 = None"
    by (intro parse_loop_stuck disjI2 conjI) simp_all
  have un: "unwrap ?data 24 (c_mod 0 24) = Some ?data"
    by (simp add: unwrap_def c_mod_def rd_bytes_def)
  show ?thesis
    by (simp add: perf_mmap_read_def Let_def i32_id un stuck)
qed

text \<open>
  The dump of the user stack indexes an array of \<open>int\<close> with a byte count: for every
  stack of more than four bytes that is fully used, printing it reads outside the copy.
\<close>

theorem stack_dump_out_of_bounds:
  assumes "4 < length stack" and "length stack < 2 ^ 31 - 4"
  shows "stack_dump False stack (int (length stack)) = None"
proof -
  let ?n = "nat ((int (length stack) + 3) div 4)"
  let ?j = "?n - 1"
  have j: "?j < ?n" and out: "int (length stack) < 4 * (4 * int ?j) + 4"
    using assms(1) by linarith+
  then have "rd32 stack (4 * (4 * int ?j)) = None"
    by (simp add: rd32_def rd_bytes_def)
  with j have "None \<in> set (map (\<lambda>j. map_option (\<lambda>w. Pr ''0x%x'' [uint w]) (rd32 stack (4 * (4 * int j)))) [0..<?n])"
    by (intro image_eqI [where x = ?j, THEN set_map [symmetric, THEN equalityD1, THEN subsetD]]) simp_all
  from those_None [OF this] show ?thesis by (simp add: stack_dump_def)
qed

theorem stack_dump_out_of_bounds_witness:
  "stack_dump False [1, 2, 3, 4, 5, 6, 7, 8] 8 = None"
  using stack_dump_out_of_bounds [of "[1, 2, 3, 4, 5, 6, 7, 8]"] by simp

end
