(* ===== verification/CText.thy ===== *)
theory CText
  imports Prelude "HOL-Library.Char_ord"
begin

text \<open>
  C strings and numbers: what \<open>printf\<close> writes for \<open>%d\<close>, \<open>%x\<close> and their long forms, what
  \<open>sscanf\<close> reads for them, and the round trips between the two. A string is the characters
  before its NUL.
\<close>

section \<open>Characters\<close>

text \<open>A \<open>char\<close> is signed on the hosts the programs run on.\<close>

definition schar :: "char \<Rightarrow> int" where
  "schar c = (let n = int (of_char c :: nat) in if n < 128 then n else n - 256)"

definition is_digit :: "char \<Rightarrow> bool" where
  "is_digit c \<longleftrightarrow> 48 \<le> (of_char c :: nat) \<and> (of_char c :: nat) \<le> 57"

definition is_xdigit :: "char \<Rightarrow> bool" where
  "is_xdigit c \<longleftrightarrow> is_digit c \<or> (97 \<le> (of_char c :: nat) \<and> (of_char c :: nat) \<le> 102) \<or>
     (65 \<le> (of_char c :: nat) \<and> (of_char c :: nat) \<le> 70)"

definition is_space :: "char \<Rightarrow> bool" where
  "is_space c \<longleftrightarrow> (of_char c :: nat) = 32 \<or> (9 \<le> (of_char c :: nat) \<and> (of_char c :: nat) \<le> 13)"

definition digit_val :: "char \<Rightarrow> nat" where
  "digit_val c = (let n = (of_char c :: nat) in
     if n \<le> 57 then n - 48 else if n < 97 then n - 55 else n - 87)"

definition digit_char :: "nat \<Rightarrow> char" where
  "digit_char d = char_of (if d < 10 then 48 + d else 87 + d)"

lemma of_char_digit_char [simp]:
  "d < 16 \<Longrightarrow> (of_char (digit_char d) :: nat) = (if d < 10 then 48 + d else 87 + d)"
  by (simp add: digit_char_def)

lemma digit_val_digit_char [simp]: "d < 16 \<Longrightarrow> digit_val (digit_char d) = d"
  by (simp add: digit_val_def)

lemma is_xdigit_digit_char [simp]: "d < 16 \<Longrightarrow> is_xdigit (digit_char d)"
  by (simp add: is_xdigit_def is_digit_def)

lemma is_digit_digit_char [simp]: "d < 10 \<Longrightarrow> is_digit (digit_char d)"
  by (simp add: is_digit_def)

section \<open>Numerals\<close>

text \<open>The digits of \<open>n\<close> in base \<open>b\<close>, most significant first, lower case.\<close>

function digits :: "nat \<Rightarrow> nat \<Rightarrow> string" where
  "digits b n = (if n < b \<or> b < 2 then [digit_char n] else digits b (n div b) @ [digit_char (n mod b)])"
  by auto
termination by (relation "measure snd") auto

declare digits.simps [simp del]

definition horner :: "nat \<Rightarrow> 'a::comm_semiring_1 \<Rightarrow> string \<Rightarrow> 'a" where
  "horner b acc cs = foldl (\<lambda>a c. a * of_nat b + of_nat (digit_val c)) acc cs"

lemma horner_append: "horner b a (xs @ ys) = horner b (horner b a xs) ys"
  by (simp add: horner_def)

lemma horner_Nil [simp]: "horner b a [] = a"
  by (simp add: horner_def)

lemma horner_Cons: "horner b a (c # cs) = horner b (a * of_nat b + of_nat (digit_val c)) cs"
  by (simp add: horner_def)

lemma horner_digits:
  assumes "2 \<le> b" and "b \<le> 16"
  shows "horner b 0 (digits b n) = (of_nat n :: 'a::comm_semiring_1)"
proof (induction n rule: less_induct)
  case (less n)
  show ?case
  proof (cases "n < b")
    case True
    with assms show ?thesis by (subst digits.simps) (simp add: horner_Cons)
  next
    case False
    with assms have "n div b < n" by (intro div_less_dividend) auto
    from less [OF this] False assms
    have "horner b 0 (digits b n) = (of_nat (n div b) :: 'a) * of_nat b + of_nat (n mod b)"
      by (subst digits.simps) (simp add: horner_append horner_Cons less_trans [of "n mod b" b 16]
          less_le_trans [of "n mod b" b 16])
    also have "\<dots> = of_nat (n div b * b + n mod b)" by (simp only: of_nat_add of_nat_mult)
    finally show ?thesis by (simp only: div_mult_mod_eq)
  qed
qed

lemma digits_nonempty [simp]: "digits b n \<noteq> []"
  by (subst digits.simps) simp

lemma set_digits: "2 \<le> b \<Longrightarrow> b \<le> 16 \<Longrightarrow> c \<in> set (digits b n) \<Longrightarrow> \<exists>d<b. c = digit_char d"
proof (induction n rule: less_induct)
  case (less n)
  show ?case
  proof (cases "n < b")
    case True
    with less.prems show ?thesis by (subst (asm) digits.simps) auto
  next
    case False
    with less.prems have "n div b < n" by (intro div_less_dividend) auto
    note IH = less.IH [OF this less.prems(1,2)]
    have "n mod b < b" using less.prems(1) by simp
    moreover have "c \<in> set (digits b (n div b)) \<or> c = digit_char (n mod b)"
      using less.prems False by (subst (asm) digits.simps) auto
    ultimately show ?thesis using IH by blast
  qed
qed

lemma digits10_is_digit: "c \<in> set (digits 10 n) \<Longrightarrow> is_digit c"
  using set_digits [of 10 c n] by auto

lemma digits16_is_xdigit: "c \<in> set (digits 16 n) \<Longrightarrow> is_xdigit c"
  using set_digits [of 16 c n] by auto

section \<open>printf\<close>

definition show_nat :: "nat \<Rightarrow> string" where
  "show_nat n = digits 10 n"

text \<open>\<open>%d\<close> and \<open>%lld\<close>.\<close>

definition show_int :: "int \<Rightarrow> string" where
  "show_int i = (if i < 0 then CHR ''-'' # digits 10 (nat (- i)) else digits 10 (nat i))"

text \<open>\<open>%x\<close> and \<open>%llx\<close>.\<close>

definition show_hex :: "'a::len word \<Rightarrow> string" where
  "show_hex w = digits 16 (unat w)"

section \<open>scanf\<close>

text \<open>
  The conversions skip white space and take a sign. \<open>strtoll\<close> saturates at the ends of
  \<open>long long\<close>; what it returns is then stored at the width of the argument.
\<close>

definition skip_ws :: "string \<Rightarrow> string" where
  "skip_ws cs = dropWhile is_space cs"

text \<open>\<open>%s\<close>: a run of characters that are no white space.\<close>

definition scan_token :: "string \<Rightarrow> (string \<times> string) option" where
  "scan_token cs = (let ds = skip_ws cs; tok = takeWhile (\<lambda>c. \<not> is_space c) ds in
     if tok = [] then None else Some (tok, dropWhile (\<lambda>c. \<not> is_space c) ds))"

definition clamp64 :: "int \<Rightarrow> int" where
  "clamp64 i = max (- (2 ^ 63)) (min (2 ^ 63 - 1) i)"

definition scan_sign :: "string \<Rightarrow> bool \<times> string" where
  "scan_sign cs = (if cs \<noteq> [] \<and> hd cs = CHR ''-'' then (True, tl cs)
     else if cs \<noteq> [] \<and> hd cs = CHR ''+'' then (False, tl cs) else (False, cs))"

text \<open>\<open>%lld\<close>: the value, before it is stored.\<close>

definition scan_dec :: "string \<Rightarrow> (int \<times> string) option" where
  "scan_dec cs = (case scan_sign (skip_ws cs) of (neg, ds) \<Rightarrow>
     let num = takeWhile is_digit ds in
     if num = [] then None
     else Some (clamp64 (if neg then - int (horner 10 0 num) else int (horner 10 0 num)),
                dropWhile is_digit ds))"

definition scan_d :: "string \<Rightarrow> (int \<times> string) option" where
  "scan_d cs = map_option (\<lambda>(v, r). (i32 v, r)) (scan_dec cs)"

text \<open>\<open>atoi\<close>: 0 when there is no number.\<close>

definition atoi :: "string \<Rightarrow> int" where
  "atoi cs = (case scan_d cs of Some (v, _) \<Rightarrow> v | None \<Rightarrow> 0)"

text \<open>What repeated calls of \<open>strtok\<close> return: the runs of characters that are no delimiters.\<close>

fun tokens :: "(char \<Rightarrow> bool) \<Rightarrow> string \<Rightarrow> string list" where
  "tokens P [] = []"
| "tokens P (c # cs) =
     (if P c then tokens P cs
      else if cs = [] \<or> P (hd cs) then [c] # tokens P cs
      else (case tokens P cs of [] \<Rightarrow> [[c]] | t # ts \<Rightarrow> (c # t) # ts))"

lemma tokens_word:
  "w \<noteq> [] \<Longrightarrow> \<forall>c\<in>set w. \<not> P c \<Longrightarrow> rest = [] \<or> P (hd rest) \<Longrightarrow> tokens P (w @ rest) = w # tokens P rest"
proof (induction w)
  case (Cons c w)
  then show ?case by (cases "w = []") (auto simp: hd_append neq_Nil_conv)
qed simp

lemma not_space_digit: "is_xdigit c \<Longrightarrow> \<not> is_space c"
  by (auto simp: is_xdigit_def is_digit_def is_space_def)

lemma skip_ws_id: "cs \<noteq> [] \<Longrightarrow> \<not> is_space (hd cs) \<Longrightarrow> skip_ws cs = cs"
  by (cases cs) (simp_all add: skip_ws_def)

text \<open>A run of digits up to a character that is none.\<close>

definition stops :: "(char \<Rightarrow> bool) \<Rightarrow> string \<Rightarrow> bool" where
  "stops P rest \<longleftrightarrow> (rest = [] \<or> \<not> P (hd rest))"

lemma span_stops:
  assumes "\<forall>c\<in>set ds. P c" and "stops P rest"
  shows "takeWhile P (ds @ rest) = ds" and "dropWhile P (ds @ rest) = rest"
proof -
  from assms(2) have "takeWhile P rest = []" "dropWhile P rest = rest"
    by (cases rest; simp add: stops_def)+
  with assms(1) show "takeWhile P (ds @ rest) = ds" "dropWhile P (ds @ rest) = rest"
    by simp_all
qed

lemma digits10_span:
  assumes "stops is_digit rest"
  shows "takeWhile is_digit (digits 10 n @ rest) = digits 10 n"
    and "dropWhile is_digit (digits 10 n @ rest) = rest"
  using span_stops [OF _ assms, of "digits 10 n"] digits10_is_digit by blast+

lemma hd_digits10: "is_digit (hd (digits 10 n))"
  using digits10_is_digit [of "hd (digits 10 n)" n] by simp

lemma scan_dec_show_int [scan_simps]:
  assumes "stops is_digit rest" and "- (2 ^ 63) \<le> i" and "i < 2 ^ 63"
  shows "scan_dec (show_int i @ rest) = Some (i, rest)"
proof -
  have plus: "hd (digits 10 n) \<noteq> CHR ''-''" "hd (digits 10 n) \<noteq> CHR ''+''" for n
    using hd_digits10 [of n] by (auto simp: is_digit_def)
  have sp: "\<not> is_space (hd (digits 10 n))" for n
    using hd_digits10 [of n] by (simp add: not_space_digit is_xdigit_def)
  have "\<not> is_space CHR ''-''" by (simp add: is_space_def)
  then have "scan_sign (skip_ws (show_int i @ rest)) = (i < 0, digits 10 (nat \<bar>i\<bar>) @ rest)"
    by (auto simp: show_int_def skip_ws_id sp scan_sign_def plus)
  moreover have "clamp64 i = i" using assms(2,3) by (simp add: clamp64_def)
  ultimately show ?thesis
    unfolding scan_dec_def
    by (simp add: digits10_span [OF assms(1)] horner_digits Let_def)
qed

lemma scan_d_show_int [scan_simps]:
  assumes "stops is_digit rest" and "- (2 ^ 31) \<le> i" and "i < 2 ^ 31"
  shows "scan_d (show_int i @ rest) = Some (i, rest)"
  using scan_dec_show_int [OF assms(1), of i] assms(2,3) by (simp add: scan_d_def i32_id)

text \<open>\<open>%x\<close> and its long forms: an unsigned value, saturating at 64 bits; a \<open>-\<close> negates it.\<close>

definition scan_hex :: "string \<Rightarrow> (u64 \<times> string) option" where
  "scan_hex cs = (case scan_sign (skip_ws cs) of (neg, ds0) \<Rightarrow>
     let ds = (if take 2 ds0 = ''0x'' \<or> take 2 ds0 = ''0X'' then drop 2 ds0 else ds0);
         num = takeWhile is_xdigit ds
     in if num = [] then None
        else (let v = (of_nat (min (horner 16 0 num) (2 ^ 64 - 1)) :: u64)
              in Some (if neg then - v else v, dropWhile is_xdigit ds)))"

lemma digits16_span:
  assumes "stops is_xdigit rest"
  shows "takeWhile is_xdigit (digits 16 n @ rest) = digits 16 n"
    and "dropWhile is_xdigit (digits 16 n @ rest) = rest"
  using span_stops [OF _ assms, of "digits 16 n"] digits16_is_xdigit by blast+

lemma no_hex_prefix:
  assumes "rest = [] \<or> is_space (hd rest)"
  shows "take 2 (digits 16 n @ rest) \<noteq> ''0x''" and "take 2 (digits 16 n @ rest) \<noteq> ''0X''"
proof -
  have d: "\<forall>c\<in>set (digits 16 n). is_xdigit c" using digits16_is_xdigit by blast
  have x: "\<not> is_xdigit CHR ''x''" "\<not> is_xdigit CHR ''X''" "\<not> is_space CHR ''x''" "\<not> is_space CHR ''X''"
    by (simp_all add: is_xdigit_def is_digit_def is_space_def)
  obtain y ys where y: "digits 16 n = y # ys" by (cases "digits 16 n") auto
  show "take 2 (digits 16 n @ rest) \<noteq> ''0x''" and "take 2 (digits 16 n @ rest) \<noteq> ''0X''"
    using d x assms unfolding y by (cases ys; cases rest; auto)+
qed

lemma scan_hex_show [scan_simps]:
  assumes "rest = [] \<or> is_space (hd rest)" and "n < 2 ^ 64"
  shows "scan_hex (digits 16 n @ rest) = Some (of_nat n, rest)"
proof -
  have "is_xdigit (hd (digits 16 n))" using digits16_is_xdigit [of "hd (digits 16 n)" n] by simp
  then have h: "hd (digits 16 n) \<noteq> CHR ''-''" "hd (digits 16 n) \<noteq> CHR ''+''" "\<not> is_space (hd (digits 16 n))"
    by (auto simp: not_space_digit) (simp_all add: is_xdigit_def is_digit_def)
  then have "scan_sign (skip_ws (digits 16 n @ rest)) = (False, digits 16 n @ rest)"
    by (simp add: skip_ws_id scan_sign_def)
  moreover have "stops is_xdigit rest"
    using assms(1) not_space_digit by (auto simp: stops_def)
  moreover have "min (horner 16 0 (digits 16 n)) (2 ^ 64 - 1) = n"
    using assms(2) horner_digits [of 16 n, where 'a = nat] by simp
  ultimately show ?thesis
    unfolding scan_hex_def using no_hex_prefix [OF assms(1), of n]
    by (simp add: digits16_span Let_def)
qed

end
