(* ===== verification/PmuEvents.thy ===== *)
theory PmuEvents
  imports CText
begin

text \<open>
  tools/event_parser.c: the parser of the PMU descriptions under
  /sys/bus/event_source/devices. \<open>parse_format\<close> reads a format such as
  \<open>config1:1,6-10,44\<close> into a field and a bit mask, \<open>separate_bits\<close> spreads a value over the
  bits of a mask, \<open>parse_generic\<close> builds the configuration of a named event, and
  \<open>init_pmus\<close> fills the tables from the files. Arithmetic on signed integers wraps, as it
  does on the hosts; a shift by a count outside the width is undefined: \<open>None\<close>.
\<close>

section \<open>The tables\<close>

definition FIELD_UNKNOWN :: int where "FIELD_UNKNOWN = 0"
definition FIELD_CONFIG :: int where "FIELD_CONFIG = 1"
definition FIELD_CONFIG1 :: int where "FIELD_CONFIG1 = 2"
definition FIELD_CONFIG2 :: int where "FIELD_CONFIG2 = 3"
definition MAX_FIELDS :: int where "MAX_FIELDS = 4"

lemmas field_defs = FIELD_UNKNOWN_def FIELD_CONFIG_def FIELD_CONFIG1_def FIELD_CONFIG2_def

definition fieldnames :: "string list" where
  "fieldnames = [''unknown'', ''config'', ''config1'', ''config2'']"

definition field_to_name :: "int \<Rightarrow> string" where
  "field_to_name field = (if field \<ge> MAX_FIELDS then fieldnames ! 0 else fieldnames ! nat field)"

text \<open>A name or value that is \<open>NULL\<close> is \<open>None\<close>; the counts are the lengths of the lists.\<close>

record generic_event_type =
  g_name :: "string option"
  g_value :: "string option"
  g_config :: u64
  g_config1 :: u64
  g_config2 :: u64

record format_type =
  f_name :: "string option"
  f_value :: "string option"
  f_field :: int
  f_mask :: u64

record pmu_type =
  p_name :: "string option"
  p_type :: int
  p_formats :: "format_type list"
  p_events :: "generic_event_type list"

section \<open>parse_format\<close>

text \<open>
  A decimal number up to the end, a \<open>-\<close> or a \<open>,\<close>: its value and what is left from the
  terminator on. \<open>None\<close> is the error return on any other character.
\<close>

fun scan_num :: "string \<Rightarrow> int \<Rightarrow> (int \<times> string) option" where
  "scan_num [] acc = Some (acc, [])"
| "scan_num (c # cs) acc =
     (if c = CHR ''-'' \<or> c = CHR '','' then Some (acc, c # cs)
      else if schar c < 48 \<or> schar c > 57 then None
      else scan_num cs (i32 (i32 (acc * 10) + (schar c - 48))))"

lemma scan_num_length: "scan_num s acc = Some (n, r) \<Longrightarrow> length r \<le> length s"
  by (induction s acc rule: scan_num.induct) (auto split: if_splits)

definition add_bits :: "u64 \<Rightarrow> int \<Rightarrow> int \<Rightarrow> u64 option" where
  "add_bits mask0 bits shift =
     (if bits = 64 then Some (mask0 OR - 1)
      else if bits < 0 \<or> bits > 64 \<or> shift < 0 \<or> shift \<ge> 64 then None
      else Some (mask0 OR push_bit (nat shift) (2 ^ nat bits - 1)))"

text \<open>The second number of a range, if there is one: the number of bits and the rest.\<close>

definition scan_bits :: "int \<Rightarrow> string \<Rightarrow> (int \<times> string) option" where
  "scan_bits firstnum r =
     (if r = [] \<or> hd r = CHR '','' then Some (1, r)
      else map_option (\<lambda>(secondnum, r2). (i32 (i32 (secondnum - firstnum) + 1), r2)) (scan_num (tl r) 0))"

lemma scan_bits_length: "scan_bits n r = Some (b, r2) \<Longrightarrow> length r2 \<le> length r"
  by (cases r) (auto simp: scan_bits_def dest: scan_num_length split: if_splits)

text \<open>The loop over the ranges: the return value and the mask, or \<open>None\<close> for an undefined shift.\<close>

function parse_ranges :: "string \<Rightarrow> u64 \<Rightarrow> (int \<times> u64) option" where
  "parse_ranges s mask0 =
     (case scan_num s 0 of
        None \<Rightarrow> Some (- 1, mask0)
      | Some (shift, r) \<Rightarrow>
         (case scan_bits shift r of
            None \<Rightarrow> Some (- 1, mask0)
          | Some (bits, r2) \<Rightarrow>
             (case add_bits mask0 bits shift of
                None \<Rightarrow> None
              | Some mask1 \<Rightarrow> if r2 = [] then Some (0, mask1) else parse_ranges (tl r2) mask1)))"
  by pat_completeness auto
termination
proof (relation "measure (\<lambda>(s, m). length s)", goal_cases)
  case (2 s mask0 p shift r q bits r2 mask1)
  then have "length r2 \<le> length s"
    using scan_num_length scan_bits_length by (metis order.trans)
  with 2 show ?case by (cases r2) auto
qed simp

declare parse_ranges.simps [simp del]

text \<open>
  A format without a colon: the loop over the numbers starts behind the terminator, a read
  of what is left in the buffer (\<open>None\<close>).
\<close>

definition format_field :: "string \<Rightarrow> int" where
  "format_field name =
     (if name = ''config'' then FIELD_CONFIG
      else if name = ''config1'' then FIELD_CONFIG1
      else if name = ''config2'' then FIELD_CONFIG2
      else FIELD_UNKNOWN)"

definition parse_format :: "string \<Rightarrow> (int \<times> int \<times> u64) option" where
  "parse_format s =
     (let name = takeWhile (\<lambda>c. c \<noteq> CHR '':'') s;
          rest = dropWhile (\<lambda>c. c \<noteq> CHR '':'') s
      in if rest = [] then None
         else map_option (\<lambda>(ret, msk). (ret, format_field name, msk)) (parse_ranges (tl rest) 0))"

section \<open>separate_bits\<close>

definition separate_step :: "u64 \<Rightarrow> u64 \<Rightarrow> nat \<Rightarrow> nat \<times> u64 \<Rightarrow> nat \<times> u64" where
  "separate_step value msk i st = (case st of (value_bit, result) \<Rightarrow>
     if push_bit i 1 AND msk \<noteq> 0
     then (value_bit + 1, result OR push_bit i (drop_bit value_bit value AND 1))
     else (value_bit, result))"

definition separate_bits :: "u64 \<Rightarrow> u64 \<Rightarrow> u64" where
  "separate_bits value msk = snd (fold (separate_step value msk) [0..<64] (0, 0))"

section \<open>update_configs and parse_generic\<close>

record configs =
  cfg0 :: u64
  cfg1 :: u64
  cfg2 :: u64

definition no_configs :: configs where
  "no_configs = \<lparr>cfg0 = 0, cfg1 = 0, cfg2 = 0\<rparr>"

text \<open>\<open>strcmp\<close> with a \<open>NULL\<close> name crashes: \<open>None\<close>.\<close>

fun update_configs :: "format_type list \<Rightarrow> string \<Rightarrow> u64 \<Rightarrow> configs \<Rightarrow> configs option" where
  "update_configs [] field value c = Some c"
| "update_configs (f # fs) field value c = (case f_name f of None \<Rightarrow> None
     | Some nm \<Rightarrow>
         (if field = nm then
            (if f_field f = FIELD_CONFIG
             then Some (c\<lparr>cfg0 := cfg0 c OR separate_bits value (f_mask f)\<rparr>)
             else if f_field f = FIELD_CONFIG1
             then Some (c\<lparr>cfg1 := cfg1 c OR separate_bits value (f_mask f)\<rparr>)
             else if f_field f = FIELD_CONFIG2
             then Some (c\<lparr>cfg2 := cfg2 c OR separate_bits value (f_mask f)\<rparr>)
             else update_configs fs field value c)
          else update_configs fs field value c))"

text \<open>
  The value behind a \<open>=\<close>, up to a comma or the end. Other characters than hexadecimal digits
  are reported and counted in all the same.
\<close>

definition gen_digit :: "char \<Rightarrow> int" where
  "gen_digit c = (let n = schar c in
     if 48 \<le> n \<and> n \<le> 57 then n - 48
     else if 97 \<le> n \<and> n \<le> 102 then n - 97 + 10 else n - 65 + 10)"

definition gen_expected :: "char \<Rightarrow> bool" where
  "gen_expected c = (let n = schar c in
     (48 \<le> n \<and> n \<le> 57) \<or> (97 \<le> n \<and> n \<le> 102) \<or> (65 \<le> n \<and> n \<le> 70))"

fun scan_value :: "u64 \<Rightarrow> u64 \<Rightarrow> string \<Rightarrow> string \<Rightarrow> u64 \<times> string \<times> string" where
  "scan_value base temp errs [] = (temp, errs, [])"
| "scan_value base temp errs (c # cs) =
     (if c = CHR '','' then (temp, errs, c # cs)
      else scan_value base (temp * base + word_of_int (gen_digit c))
             (if gen_expected c then errs else errs @ [c]) cs)"

definition scan_based :: "string \<Rightarrow> string \<Rightarrow> u64 \<times> string \<times> string" where
  "scan_based errs s =
     (if take 2 s = ''0x'' then scan_value 16 0 errs (drop 2 s) else scan_value 10 0 errs s)"

lemma scan_value_length: "scan_value b t e s = (v, e', r) \<Longrightarrow> length r \<le> length s"
  by (induction b t e s rule: scan_value.induct) (auto split: if_splits)

lemma scan_based_length: "scan_based e s = (v, e', r) \<Longrightarrow> length r \<le> length s"
  unfolding scan_based_def using scan_value_length by (fastforce split: if_splits)

abbreviation in_field :: "char \<Rightarrow> bool" where
  "in_field c \<equiv> c \<noteq> CHR ''='' \<and> c \<noteq> CHR '',''"

function generic_loop ::
    "format_type list \<Rightarrow> string \<Rightarrow> configs \<Rightarrow> string \<Rightarrow> (configs \<times> string) option" where
  "generic_loop fs s c errs =
     (let field = takeWhile in_field s;
          r = dropWhile in_field s;
          (temp, errs1, r1) = (if r = [] \<or> hd r = CHR '','' then (1, errs, r)
                               else scan_based errs (tl r))
      in case update_configs fs field temp c of
           None \<Rightarrow> None
         | Some c1 \<Rightarrow> if r1 = [] then Some (c1, errs1) else generic_loop fs (tl r1) c1 errs1)"
  by pat_completeness auto
termination
proof (relation "measure (\<lambda>(fs, s, c, e). length s)", goal_cases)
  case (2 fs s c errs field r p temp q errs1 r1 c1)
  have "length r \<le> length s" using 2(2) by (simp add: length_dropWhile_le)
  moreover have "length r1 \<le> length r"
  proof (cases "r = [] \<or> hd r = CHR '',''")
    case True
    with 2(3-5) show ?thesis by simp
  next
    case False
    with 2(3-5) have "scan_based errs (tl r) = (temp, errs1, r1)" by simp
    from scan_based_length [OF this] show ?thesis by simp
  qed
  ultimately show ?case using 2(7) by (cases r1) auto
qed simp

declare generic_loop.simps [simp del]

definition parse_generic :: "format_type list \<Rightarrow> string \<Rightarrow> (configs \<times> string) option" where
  "parse_generic fs value = generic_loop fs value no_configs []"

section \<open>init_pmus\<close>

text \<open>
  What the kernel exports: for each directory its \<open>type\<close> file, and the files of its
  \<open>format\<close> and \<open>events\<close> directories with their text. A file that cannot be opened and a
  directory that does not exist are \<open>None\<close>.
\<close>

record sys_pmu =
  d_name :: string
  d_type :: "string option"
  d_formats :: "(string \<times> string option) list option"
  d_events :: "(string \<times> string option) list option"

definition not_dots :: "string \<Rightarrow> bool" where
  "not_dots nm \<longleftrightarrow> nm \<noteq> ''.'' \<and> nm \<noteq> ''..''"

definition new_format :: format_type where
  "new_format = \<lparr>f_name = None, f_value = None, f_field = 0, f_mask = 0\<rparr>"

definition new_event :: generic_event_type where
  "new_event = \<lparr>g_name = None, g_value = None, g_config = 0, g_config1 = 0, g_config2 = 0\<rparr>"

definition new_pmu :: pmu_type where
  "new_pmu = \<lparr>p_name = None, p_type = 0, p_formats = [], p_events = []\<rparr>"

text \<open>
  The buffers \<open>format_value\<close> and \<open>event_value\<close> live as long as the function: a file that
  does not scan leaves them as they are (\<open>None\<close> until first written).
\<close>

fun fill_formats ::
    "(string \<times> string option) list \<Rightarrow> format_type list \<Rightarrow> nat \<Rightarrow> string option \<Rightarrow>
     (format_type list \<times> string option) option" where
  "fill_formats [] fs format_num buf = Some (fs, buf)"
| "fill_formats ((nm, content) # es) fs format_num buf =
     (let fs1 = fs[format_num := (fs ! format_num)\<lparr>f_name := Some nm\<rparr>] in
      case content of
        None \<Rightarrow> fill_formats es fs1 format_num buf
      | Some txt \<Rightarrow>
         (let tok = map_option fst (scan_token txt);
              fs2 = (if tok = None then fs1
                     else fs1[format_num := (fs1 ! format_num)\<lparr>f_value := tok\<rparr>]);
              buf1 = (if tok = None then buf else tok)
          in case buf1 of None \<Rightarrow> None
             | Some format_value \<Rightarrow>
                 (case parse_format format_value of None \<Rightarrow> None
                  | Some (ret, fld, msk) \<Rightarrow>
                      fill_formats es
                        (fs2[format_num := (fs2 ! format_num)\<lparr>f_field := fld, f_mask := msk\<rparr>])
                        (format_num + 1) buf1)))"

fun fill_events ::
    "format_type list \<Rightarrow> (string \<times> string option) list \<Rightarrow> generic_event_type list \<Rightarrow> nat \<Rightarrow>
     string option \<Rightarrow> (generic_event_type list \<times> string option) option" where
  "fill_events fs [] gs generic_num buf = Some (gs, buf)"
| "fill_events fs ((nm, content) # es) gs generic_num buf =
     (let gs1 = gs[generic_num := (gs ! generic_num)\<lparr>g_name := Some nm\<rparr>];
          tok = (case content of None \<Rightarrow> None | Some txt \<Rightarrow> map_option fst (scan_token txt));
          gs2 = (if tok = None then gs1
                 else gs1[generic_num := (gs1 ! generic_num)\<lparr>g_value := tok\<rparr>]);
          buf1 = (if tok = None then buf else tok)
      in case buf1 of None \<Rightarrow> None
         | Some event_value \<Rightarrow>
             (case parse_generic fs event_value of None \<Rightarrow> None
              | Some (c, errs) \<Rightarrow>
                  fill_events fs es
                    (gs2[generic_num := (gs2 ! generic_num)
                       \<lparr>g_config := cfg0 c, g_config1 := cfg1 c, g_config2 := cfg2 c\<rparr>])
                    (generic_num + 1) buf1))"

definition read_type :: "string option \<Rightarrow> int \<Rightarrow> int" where
  "read_type content old = (case content of None \<Rightarrow> old
     | Some txt \<Rightarrow> (case scan_d txt of None \<Rightarrow> old | Some (v, r) \<Rightarrow> v))"

definition add_pmu ::
    "sys_pmu \<Rightarrow> string option \<Rightarrow> string option \<Rightarrow>
     (pmu_type \<times> string option \<times> string option) option" where
  "add_pmu d fbuf ebuf = do {
     (fs, fbuf1) \<leftarrow> (case d_formats d of None \<Rightarrow> Some ([], fbuf)
        | Some es \<Rightarrow> (let es1 = filter (\<lambda>e. not_dots (fst e)) es in
            fill_formats es1 (replicate (length es1) new_format) 0 fbuf));
     (gs, ebuf1) \<leftarrow> (case d_events d of None \<Rightarrow> Some ([], ebuf)
        | Some es \<Rightarrow> (let es1 = filter (\<lambda>e. not_dots (fst e)) es in
            fill_events fs es1 (replicate (length es1) new_event) 0 ebuf));
     Some (new_pmu\<lparr>p_name := Some (d_name d), p_type := read_type (d_type d) 0,
                   p_formats := fs, p_events := gs\<rparr>, fbuf1, ebuf1) }"

fun add_pmus ::
    "sys_pmu list \<Rightarrow> string option \<Rightarrow> string option \<Rightarrow> pmu_type list option" where
  "add_pmus [] fbuf ebuf = Some []"
| "add_pmus (d # ds) fbuf ebuf = do {
     (p, fbuf1, ebuf1) \<leftarrow> add_pmu d fbuf ebuf;
     ps \<leftarrow> add_pmus ds fbuf1 ebuf1;
     Some (p # ps) }"

text \<open>The return value and the table, when \<open>calloc\<close> succeeds.\<close>

definition init_pmus :: "sys_pmu list option \<Rightarrow> (int \<times> pmu_type list) option" where
  "init_pmus sysfs = (case sysfs of None \<Rightarrow> Some (- 1, [])
     | Some entries \<Rightarrow>
        (let ds = filter (\<lambda>d. not_dots (d_name d)) entries in
         if length ds < 1 then Some (- 1, [])
         else map_option (\<lambda>ps. (0, ps)) (add_pmus ds None None)))"

section \<open>dump_pmus\<close>

definition show_str :: "string option \<Rightarrow> string" where
  "show_str v = (case v of None \<Rightarrow> ''(null)'' | Some t \<Rightarrow> t)"

definition dump_format :: "format_type \<Rightarrow> string list" where
  "dump_format f =
     [show_str (f_name f) @ '' : '' @ show_str (f_value f),
      ''field: '' @ field_to_name (f_field f) @ '' mask: '' @ show_hex (f_mask f)]"

definition dump_event :: "generic_event_type \<Rightarrow> string list" where
  "dump_event g =
     [show_str (g_name g) @ '' : '' @ show_str (g_value g),
      ''config: '' @ show_hex (g_config g) @ ''  config1: '' @ show_hex (g_config1 g)]"

definition dump_pmu :: "pmu_type \<Rightarrow> string list" where
  "dump_pmu p =
     (case p_name p of None \<Rightarrow> [] | Some nm \<Rightarrow> [nm]) @
     [''Type='' @ show_int (p_type p)] @
     (if p_formats p \<noteq> [] then ''Formats:'' # concat (map dump_format (p_formats p)) else []) @
     (if p_events p \<noteq> [] then ''Generic Events:'' # concat (map dump_event (p_events p)) else [])"

definition dump_pmus :: "pmu_type list \<Rightarrow> string list" where
  "dump_pmus ps = ''Dumping PMUs'' # concat (map dump_pmu ps)"

text \<open>\<open>main\<close>: the table is printed whatever \<open>init_pmus\<close> returned.\<close>

definition event_parser_main :: "sys_pmu list option \<Rightarrow> (int \<times> string list) option" where
  "event_parser_main sysfs = map_option (\<lambda>(ret, ps). (0, dump_pmus ps)) (init_pmus sysfs)"

end
