(* ===== verification/PmuTheorems.thy ===== *)
theory PmuTheorems
  imports PmuEvents
begin

text \<open>
  The properties of tools/event_parser.c: the mask of a printed format, the spreading of a
  value over a mask, the configuration of a printed event, and what the parser makes of
  files it cannot read.
\<close>

section \<open>Spreading bits\<close>

text \<open>The number of selected bits below \<open>i\<close>.\<close>

definition rank :: "u64 \<Rightarrow> nat \<Rightarrow> nat" where
  "rank m i = length (filter (bit m) [0..<i])"

lemma rank_0 [simp]: "rank m 0 = 0"
  by (simp add: rank_def)

lemma rank_Suc: "rank m (Suc n) = rank m n + (if bit m n then 1 else 0)"
  by (simp add: rank_def)

lemma one_bit_set: "push_bit i 1 AND m \<noteq> 0 \<longleftrightarrow> bit m i" for m :: u64
  using and_exp_eq_0_iff_not_bit [of m i] by (simp add: push_bit_eq_mult and.commute)

lemma rank_onto: "k < rank m n \<Longrightarrow> \<exists>i<n. bit m i \<and> rank m i = k"
proof (induction n)
  case (Suc n)
  show ?case
  proof (cases "k < rank m n")
    case True
    with Suc.IH show ?thesis using less_SucI by blast
  next
    case False
    with Suc.prems have "bit m n" "rank m n = k" by (auto simp: rank_Suc split: if_splits)
    then show ?thesis by blast
  qed
qed simp

lemma rank_le: "i \<le> n \<Longrightarrow> rank m i \<le> rank m n"
  by (induction n) (auto simp: rank_Suc le_Suc_eq)

lemma rank_less: "bit m i \<Longrightarrow> i < n \<Longrightarrow> rank m i < rank m n"
  using rank_le [of "Suc i" n m] by (simp add: rank_Suc)

lemma separate_loop:
  assumes "n \<le> 64"
  shows "fst (fold (separate_step v m) [0..<n] (0, 0)) = rank m n \<and>
    (\<forall>i. bit (snd (fold (separate_step v m) [0..<n] (0, 0))) i
           \<longleftrightarrow> i < n \<and> bit m i \<and> bit v (rank m i))"
  using assms
proof (induction n)
  case 0
  then show ?case by simp
next
  case (Suc n)
  let ?st = "fold (separate_step v m) [0..<n] (0, 0)"
  obtain vb r where st: "?st = (vb, r)" by (cases ?st)
  from Suc have vb: "vb = rank m n"
    and r: "\<And>i. bit r i \<longleftrightarrow> i < n \<and> bit m i \<and> bit v (rank m i)" by (simp_all add: st)
  have step: "fold (separate_step v m) [0..<Suc n] (0, 0) = separate_step v m n (vb, r)"
    by (simp add: st)
  show ?case
  proof (cases "bit m n")
    case True
    have one: "bit (push_bit n (drop_bit (rank m n) v AND 1)) i \<longleftrightarrow> i = n \<and> bit v (rank m n)" for i
      using Suc.prems by (auto simp: bit_simps)
    have "separate_step v m n (vb, r) = (vb + 1, r OR push_bit n (drop_bit vb v AND 1))"
      by (simp only: separate_step_def prod.case one_bit_set True if_True)
    with True show ?thesis
      unfolding step by (auto simp only: fst_conv snd_conv bit_or_iff one r rank_Suc vb less_Suc_eq if_True)
  next
    case False
    have "separate_step v m n (vb, r) = (vb, r)"
      by (simp only: separate_step_def prod.case one_bit_set False if_False)
    with False show ?thesis
      unfolding step by (auto simp: r rank_Suc vb less_Suc_eq)
  qed
qed

lemma separate_bits_bit: "bit (separate_bits v m) i \<longleftrightarrow> bit m i \<and> bit v (rank m i)"
  using separate_loop [of 64 v m] bit_imp_le_length [of m i]
  by (auto simp: separate_bits_def)

text \<open>
  C11. The bit that \<open>separate_bits\<close> leaves at each position: the bits of the value, lowest
  first, go to the bits of the mask, lowest first, and all other bits are clear.
\<close>

theorem separate_bits_spec:
  "bit (separate_bits v m) i \<longleftrightarrow> bit m i \<and> bit v (rank m i)"
  by (rule separate_bits_bit)

text \<open>
  C12. \<open>separate_bits\<close> keeps exactly as many low bits of the value as the mask has bits: two
  values give the same configuration if and only if they agree on those.
\<close>

theorem separate_bits_injective:
  "separate_bits v m = separate_bits w m \<longleftrightarrow> take_bit (rank m 64) v = take_bit (rank m 64) w"
proof
  assume eq: "separate_bits v m = separate_bits w m"
  show "take_bit (rank m 64) v = take_bit (rank m 64) w"
  proof (rule bit_word_eqI)
    fix k assume "k < LENGTH(64)"
    show "bit (take_bit (rank m 64) v) k = bit (take_bit (rank m 64) w) k"
    proof (cases "k < rank m 64")
      case True
      then obtain i where "bit m i" "rank m i = k" using rank_onto by blast
      with eq separate_bits_bit [of v m i] separate_bits_bit [of w m i] show ?thesis
        by (simp add: bit_take_bit_iff)
    qed (simp add: bit_take_bit_iff)
  qed
next
  assume eq: "take_bit (rank m 64) v = take_bit (rank m 64) w"
  show "separate_bits v m = separate_bits w m"
  proof (rule bit_word_eqI)
    fix i assume i: "i < LENGTH(64)"
    show "bit (separate_bits v m) i = bit (separate_bits w m) i"
    proof (cases "bit m i")
      case True
      with i have "rank m i < rank m 64" by (simp add: rank_less)
      with eq have "bit v (rank m i) = bit w (rank m i)" by (metis bit_take_bit_iff)
      then show ?thesis by (simp add: separate_bits_bit)
    qed (simp add: separate_bits_bit)
  qed
qed

section \<open>Printed formats\<close>

datatype brange = One nat | Span nat nat

fun lo :: "brange \<Rightarrow> nat" where "lo (One a) = a" | "lo (Span a b) = a"
fun hi :: "brange \<Rightarrow> nat" where "hi (One a) = a" | "hi (Span a b) = b"

definition range_ok :: "brange \<Rightarrow> bool" where
  "range_ok r \<longleftrightarrow> lo r \<le> hi r \<and> hi r < 64"

fun show_range :: "brange \<Rightarrow> string" where
  "show_range (One a) = show_nat a"
| "show_range (Span a b) = show_nat a @ ''-'' @ show_nat b"

fun show_ranges :: "brange list \<Rightarrow> string" where
  "show_ranges [] = []"
| "show_ranges [r] = show_range r"
| "show_ranges (r # rs) = show_range r @ '','' @ show_ranges rs"

lemma horner_mono: "0 \<le> (a::int) \<Longrightarrow> a \<le> horner 10 a ds"
proof (induction ds arbitrary: a)
  case (Cons c ds)
  have "a \<le> a * 10 + int (digit_val c)" using Cons.prems by simp
  also have "\<dots> \<le> horner 10 (a * 10 + int (digit_val c)) ds"
    using Cons.prems by (intro Cons.IH) simp
  finally show ?case by (simp add: horner_Cons)
qed simp

definition sep_stop :: "string \<Rightarrow> bool" where
  "sep_stop r \<longleftrightarrow> (r = [] \<or> hd r = CHR '','' \<or> hd r = CHR ''-'')"

lemma scan_num_digits:
  assumes "\<forall>c\<in>set ds. is_digit c" and "sep_stop rest" and "0 \<le> a" and "horner 10 a ds < 2 ^ 31"
  shows "scan_num (ds @ rest) a = Some (horner 10 a ds, rest)"
  using assms
proof (induction ds arbitrary: a)
  case Nil
  then show ?case by (cases rest) (auto simp: sep_stop_def)
next
  case (Cons c ds)
  let ?a = "a * 10 + int (digit_val c)"
  have c: "is_digit c" using Cons.prems(1) by simp
  then have d: "schar c - 48 = int (digit_val c)" "48 \<le> schar c" "schar c \<le> 57"
    "c \<noteq> CHR ''-''" "c \<noteq> CHR '',''"
    by (auto simp: is_digit_def schar_def digit_val_def Let_def)
  have small: "horner 10 ?a ds < 2 ^ 31" using Cons.prems(4) by (simp add: horner_Cons)
  moreover have "?a \<le> horner 10 ?a ds" using Cons.prems(3) by (intro horner_mono) simp
  ultimately have "i32 (i32 (a * 10) + (schar c - 48)) = ?a"
    using Cons.prems(3) by (simp add: i32_id d(1))
  then have "scan_num ((c # ds) @ rest) a = scan_num (ds @ rest) ?a"
    using d by simp
  also have "\<dots> = Some (horner 10 ?a ds, rest)"
    using Cons.prems small by (intro Cons.IH) simp_all
  finally show ?case by (simp add: horner_Cons)
qed

lemma scan_num_show: "sep_stop rest \<Longrightarrow> n < 64 \<Longrightarrow> scan_num (show_nat n @ rest) 0 = Some (int n, rest)"
  using scan_num_digits [of "digits 10 n" rest 0] digits10_is_digit [of _ n]
    horner_digits [of 10 n, where 'a = int]
  by (simp add: show_nat_def)

lemma bit_low_ones: "bit (2 ^ n - 1 :: u64) i \<longleftrightarrow> i < n \<and> i < 64"
  by (auto simp: mask_eq_exp_minus_1 [symmetric] bit_mask_iff)

lemma add_bits_range:
  assumes "a \<le> b" and "b < 64"
  shows "\<exists>m'. add_bits m (int b - int a + 1) (int a) = Some m' \<and>
           (\<forall>i<64. bit m' i \<longleftrightarrow> bit m i \<or> (a \<le> i \<and> i \<le> b))"
proof (cases "b - a = 63")
  case True
  with assms show ?thesis by (auto simp: add_bits_def bit_or_iff)
next
  case False
  have n: "nat (int b - int a + 1) = Suc (b - a)" using assms by linarith
  have r: "int b - int a + 1 \<noteq> 64" "\<not> int b - int a + 1 > 64" "\<not> int b - int a + 1 < 0"
    using assms False by linarith+
  have "add_bits m (int b - int a + 1) (int a) = Some (m OR push_bit a (2 ^ Suc (b - a) - 1))"
    unfolding add_bits_def n using r assms by simp
  moreover have "\<forall>i<64. bit (m OR push_bit a (2 ^ Suc (b - a) - 1)) i \<longleftrightarrow> bit m i \<or> (a \<le> i \<and> i \<le> b)"
    unfolding bit_or_iff bit_push_bit_iff bit_low_ones using assms by auto
  ultimately show ?thesis by blast
qed

lemma i32_small: "0 \<le> x \<Longrightarrow> x \<le> 1000 \<Longrightarrow> i32 x = x"
  by (rule i32_id) simp_all

text \<open>One range of the list, read from its first character on.\<close>

lemma scan_range:
  assumes "range_ok r" and "rest = [] \<or> hd rest = CHR '',''"
  shows "\<exists>q. scan_num (show_range r @ rest) 0 = Some (int (lo r), q) \<and>
           scan_bits (int (lo r)) q = Some (int (hi r) - int (lo r) + 1, rest)"
proof (cases r)
  case (One a)
  have "sep_stop rest" using assms(2) by (auto simp: sep_stop_def)
  with One assms show ?thesis by (simp add: scan_num_show range_ok_def scan_bits_def)
next
  case (Span a b)
  have s: "sep_stop rest" "sep_stop (''-'' @ show_nat b @ rest)"
    using assms(2) by (auto simp: sep_stop_def)
  have ab: "a \<le> b" "b < 64" using assms(1) Span by (simp_all add: range_ok_def)
  have "scan_num (show_nat a @ ''-'' @ show_nat b @ rest) 0 = Some (int a, ''-'' @ show_nat b @ rest)"
    using ab by (intro scan_num_show s) simp
  moreover have "scan_num (show_nat b @ rest) 0 = Some (int b, rest)"
    using ab by (intro scan_num_show s)
  moreover have "i32 (i32 (int b - int a) + 1) = int b - int a + 1"
    using ab by (simp add: i32_small)
  ultimately show ?thesis using Span by (simp add: scan_bits_def)
qed

lemma parse_ranges_show:
  assumes "\<forall>r\<in>set rs. range_ok r" and "rs \<noteq> []"
  shows "\<exists>m'. parse_ranges (show_ranges rs) m = Some (0, m') \<and>
           (\<forall>i<64. bit m' i \<longleftrightarrow> bit m i \<or> (\<exists>r\<in>set rs. lo r \<le> i \<and> i \<le> hi r))"
  using assms
proof (induction rs arbitrary: m rule: show_ranges.induct)
  case 1
  then show ?case by simp
next
  case (2 r)
  then have ok: "range_ok r" by simp
  from scan_range [OF ok, of "[]"] obtain q where q: "scan_num (show_range r) 0 = Some (int (lo r), q)"
    "scan_bits (int (lo r)) q = Some (int (hi r) - int (lo r) + 1, [])" by auto
  from add_bits_range [of "lo r" "hi r" m] ok obtain m' where
    m': "add_bits m (int (hi r) - int (lo r) + 1) (int (lo r)) = Some m'"
    "\<forall>i<64. bit m' i \<longleftrightarrow> bit m i \<or> (lo r \<le> i \<and> i \<le> hi r)" by (auto simp: range_ok_def)
  have "parse_ranges (show_ranges [r]) m = Some (0, m')"
    by (subst parse_ranges.simps) (simp add: q m')
  with m'(2) show ?case by auto
next
  case (3 r r2 rs)
  then have ok: "range_ok r" by simp
  let ?rest = "show_ranges (r2 # rs)"
  from scan_range [OF ok, of "'','' @ ?rest"] obtain q where
    q: "scan_num (show_range r @ '','' @ ?rest) 0 = Some (int (lo r), q)"
    "scan_bits (int (lo r)) q = Some (int (hi r) - int (lo r) + 1, '','' @ ?rest)" by auto
  from add_bits_range [of "lo r" "hi r" m] ok obtain m1 where
    m1: "add_bits m (int (hi r) - int (lo r) + 1) (int (lo r)) = Some m1"
    "\<forall>i<64. bit m1 i \<longleftrightarrow> bit m i \<or> (lo r \<le> i \<and> i \<le> hi r)" by (auto simp: range_ok_def)
  from "3.IH" [of m1] "3.prems" obtain m' where
    m': "parse_ranges ?rest m1 = Some (0, m')"
    "\<forall>i<64. bit m' i \<longleftrightarrow> bit m1 i \<or> (\<exists>r\<in>set (r2 # rs). lo r \<le> i \<and> i \<le> hi r)" by auto
  have "parse_ranges (show_ranges (r # r2 # rs)) m = Some (0, m')"
    using q m1(1) m'(1) by (subst parse_ranges.simps) simp
  with m1(2) m'(2) show ?case by auto
qed

text \<open>
  C13. A printed format is parsed back: from a field name, a colon and a list of bits and
  bit ranges below 64, \<open>parse_format\<close> returns success, the field of the name and the mask of
  exactly the listed bits.
\<close>

theorem parse_format_show:
  assumes "\<forall>r\<in>set rs. range_ok r" and "rs \<noteq> []" and "CHR '':'' \<notin> set name"
  shows "\<exists>m. parse_format (name @ '':'' @ show_ranges rs) = Some (0, format_field name, m) \<and>
           (\<forall>i<64. bit m i \<longleftrightarrow> (\<exists>r\<in>set rs. lo r \<le> i \<and> i \<le> hi r))"
proof -
  have span: "takeWhile (\<lambda>c. c \<noteq> CHR '':'') (name @ '':'' @ show_ranges rs) = name"
    "dropWhile (\<lambda>c. c \<noteq> CHR '':'') (name @ '':'' @ show_ranges rs) = '':'' @ show_ranges rs"
    using assms(3) by (subst takeWhile_append2 dropWhile_append2; force)+
  from parse_ranges_show [OF assms(1,2), of 0] obtain m where
    m: "parse_ranges (show_ranges rs) 0 = Some (0, m)"
    "\<forall>i<64. bit m i \<longleftrightarrow> (\<exists>r\<in>set rs. lo r \<le> i \<and> i \<le> hi r)" by auto
  have "parse_format (name @ '':'' @ show_ranges rs) = Some (0, format_field name, m)"
    unfolding parse_format_def span by (simp add: m(1))
  with m(2) show ?thesis by blast
qed

theorem parse_format_show_witness:
  "\<exists>m. parse_format ''config1:1,6-10,44'' = Some (0, FIELD_CONFIG1, m) \<and>
     (\<forall>i<64. bit m i \<longleftrightarrow> i = 1 \<or> (6 \<le> i \<and> i \<le> 10) \<or> i = 44)"
proof -
  have "show_ranges [One 1, Span 6 10, One 44] = ''1,6-10,44''" by code_simp
  moreover have "format_field ''config1'' = FIELD_CONFIG1" by (simp add: format_field_def)
  moreover have "(1 \<le> i \<and> i \<le> 1 \<or> 6 \<le> i \<and> i \<le> 10 \<or> 44 \<le> i \<and> i \<le> 44)
      \<longleftrightarrow> (i = 1 \<or> (6 \<le> i \<and> i \<le> 10) \<or> i = (44::nat))" for i by auto
  ultimately show ?thesis
    using parse_format_show [of "[One 1, Span 6 10, One 44]" "''config1''"]
    by (simp add: range_ok_def)
qed

section \<open>Printed events\<close>

datatype gterm = GFlag string | GDec string nat | GHex string nat

fun gname :: "gterm \<Rightarrow> string" where
  "gname (GFlag nm) = nm" | "gname (GDec nm n) = nm" | "gname (GHex nm n) = nm"

fun gvalue :: "gterm \<Rightarrow> u64" where
  "gvalue (GFlag nm) = 1" | "gvalue (GDec nm n) = of_nat n" | "gvalue (GHex nm n) = of_nat n"

fun show_gvalue :: "gterm \<Rightarrow> string" where
  "show_gvalue (GFlag nm) = []"
| "show_gvalue (GDec nm n) = CHR ''='' # digits 10 n"
| "show_gvalue (GHex nm n) = CHR ''='' # ''0x'' @ digits 16 n"

fun show_gterms :: "gterm list \<Rightarrow> string" where
  "show_gterms [] = []"
| "show_gterms [t] = gname t @ show_gvalue t"
| "show_gterms (t # ts) = gname t @ show_gvalue t @ '','' @ show_gterms ts"

fun apply_gterms :: "format_type list \<Rightarrow> gterm list \<Rightarrow> configs \<Rightarrow> configs option" where
  "apply_gterms fs [] c = Some c"
| "apply_gterms fs (t # ts) c = do {
     c1 \<leftarrow> update_configs fs (gname t) (gvalue t) c; apply_gterms fs ts c1 }"

definition gname_ok :: "gterm \<Rightarrow> bool" where
  "gname_ok t \<longleftrightarrow> CHR ''='' \<notin> set (gname t) \<and> CHR '','' \<notin> set (gname t)"

lemma gen_digit_xdigit:
  "d < 16 \<Longrightarrow> gen_expected (digit_char d) \<and> gen_digit (digit_char d) = int d"
  by (auto simp: gen_expected_def gen_digit_def schar_def Let_def)

lemma digit_char_not_comma: "d < 16 \<Longrightarrow> digit_char d \<noteq> CHR '',''"
proof
  assume "d < 16" and "digit_char d = CHR '',''"
  then have "is_xdigit (CHR '','')" using is_xdigit_digit_char [of d] by simp
  then show False by (simp add: is_xdigit_def is_digit_def)
qed

definition comma :: "string \<Rightarrow> bool" where
  "comma r \<longleftrightarrow> (r = [] \<or> hd r = CHR '','')"

lemma scan_value_digits:
  assumes "\<forall>c\<in>set ds. \<exists>d<16. c = digit_char d" and "comma rest"
  shows "scan_value (of_nat b) a errs (ds @ rest) = (horner b a ds, errs, rest)"
  using assms
proof (induction ds arbitrary: a)
  case Nil
  then show ?case by (cases rest) (auto simp: comma_def)
next
  case (Cons c ds)
  then obtain d where d: "d < 16" "c = digit_char d" by auto
  have "scan_value (of_nat b) a errs ((c # ds) @ rest) = scan_value (of_nat b) (a * of_nat b + of_nat d) errs (ds @ rest)"
    using gen_digit_xdigit [OF d(1)] digit_char_not_comma [OF d(1)] d(2) by simp
  also have "\<dots> = (horner b (a * of_nat b + of_nat d) ds, errs, rest)"
    using Cons.prems by (intro Cons.IH) simp_all
  finally show ?case using d by (simp add: horner_Cons)
qed

lemma no_0x: "comma rest \<Longrightarrow> take 2 (digits 10 n @ rest) \<noteq> ''0x''"
proof
  assume c: "comma rest" and t: "take 2 (digits 10 n @ rest) = ''0x''"
  have dig: "\<forall>c\<in>set (digits 10 n). is_digit c" using digits10_is_digit by blast
  show False
  proof (cases "digits 10 n")
    case Nil
    then show ?thesis by simp
  next
    case (Cons x xs)
    have "x = CHR ''0'' \<and> (case xs of [] \<Rightarrow> rest \<noteq> [] \<and> hd rest = CHR ''x'' | y # ys \<Rightarrow> y = CHR ''x'')"
      using t Cons by (cases xs; cases rest) auto
    with dig c Cons show ?thesis by (cases xs) (auto simp: comma_def is_digit_def)
  qed
qed

lemma scan_based_show:
  assumes "comma rest"
  shows "scan_based errs (digits 10 n @ rest) = (of_nat n, errs, rest)"
    and "scan_based errs (''0x'' @ digits 16 n @ rest) = (of_nat n, errs, rest)"
proof -
  have d: "\<exists>d<16. c = digit_char d" if "c \<in> set (digits b n)" "b = 10 \<or> b = 16" for b c
  proof -
    from that have b: "2 \<le> b" "b \<le> 16" by auto
    from set_digits [OF this that(1)] obtain e where "e < b" "c = digit_char e" by blast
    with b show ?thesis by (intro exI [of _ e]) simp
  qed
  show "scan_based errs (digits 10 n @ rest) = (of_nat n, errs, rest)"
    using scan_value_digits [of "digits 10 n", OF _ assms, of 10 0 errs] d [of _ 10] no_0x [OF assms, of n]
      horner_digits [of 10 n, where 'a = u64]
    unfolding scan_based_def by simp
  show "scan_based errs (''0x'' @ digits 16 n @ rest) = (of_nat n, errs, rest)"
    using scan_value_digits [of "digits 16 n", OF _ assms, of 16 0 errs] d [of _ 16] horner_digits [of 16 n, where 'a = u64]
    unfolding scan_based_def by simp
qed

text \<open>One term of the list: its name and what its value scans to.\<close>

lemma gterm_span:
  assumes "gname_ok t" and "comma rest"
  shows "takeWhile in_field (gname t @ show_gvalue t @ rest) = gname t"
    and "dropWhile in_field (gname t @ show_gvalue t @ rest) = show_gvalue t @ rest"
proof -
  have "stops in_field (show_gvalue t @ rest)"
    using assms(2) by (cases t) (simp_all add: comma_def stops_def, auto)
  moreover have "\<forall>c\<in>set (gname t). in_field c" using assms(1) by (auto simp: gname_ok_def)
  ultimately show "takeWhile in_field (gname t @ show_gvalue t @ rest) = gname t"
    "dropWhile in_field (gname t @ show_gvalue t @ rest) = show_gvalue t @ rest"
    by (simp_all only: span_stops)
qed

lemma generic_loop_term:
  assumes "gname_ok t" and "comma rest"
  shows "generic_loop fs (gname t @ show_gvalue t @ rest) c errs =
    (case update_configs fs (gname t) (gvalue t) c of None \<Rightarrow> None
     | Some c1 \<Rightarrow> if rest = [] then Some (c1, errs) else generic_loop fs (tl rest) c1 errs)"
proof -
  have "(if show_gvalue t @ rest = [] \<or> hd (show_gvalue t @ rest) = CHR '','' then (1, errs, show_gvalue t @ rest)
         else scan_based errs (tl (show_gvalue t @ rest))) = (gvalue t, errs, rest)"
  proof (cases t)
    case (GFlag nm)
    with assms(2) show ?thesis by (auto simp: comma_def)
  next
    case (GDec nm n)
    then show ?thesis by (simp add: scan_based_show [OF assms(2)])
  next
    case (GHex nm n)
    then show ?thesis using scan_based_show(2) [OF assms(2), of errs n] by simp
  qed
  then show ?thesis
    by (subst generic_loop.simps) (simp only: gterm_span [OF assms] Let_def prod.case)
qed

lemma generic_loop_show:
  assumes "\<forall>t\<in>set ts. gname_ok t" and "ts \<noteq> []"
  shows "generic_loop fs (show_gterms ts) c errs = map_option (\<lambda>c. (c, errs)) (apply_gterms fs ts c)"
  using assms
proof (induction ts arbitrary: c rule: show_gterms.induct)
  case 1
  then show ?case by simp
next
  case (2 t)
  then have "generic_loop fs (gname t @ show_gvalue t @ []) c errs =
    (case update_configs fs (gname t) (gvalue t) c of None \<Rightarrow> None | Some c1 \<Rightarrow> Some (c1, errs))"
    by (cases "update_configs fs (gname t) (gvalue t) c"; subst generic_loop_term)
      (simp_all add: comma_def)
  then show ?case by (cases "update_configs fs (gname t) (gvalue t) c") simp_all
next
  case (3 t t2 ts)
  then have "generic_loop fs (gname t @ show_gvalue t @ '','' @ show_gterms (t2 # ts)) c errs =
    (case update_configs fs (gname t) (gvalue t) c of None \<Rightarrow> None
     | Some c1 \<Rightarrow> generic_loop fs (show_gterms (t2 # ts)) c1 errs)"
    by (cases "update_configs fs (gname t) (gvalue t) c"; subst generic_loop_term)
      (simp_all add: comma_def)
  with 3 show ?case
    by (cases "update_configs fs (gname t) (gvalue t) c") simp_all
qed

text \<open>
  C14. A printed event is parsed back: from a comma-separated list of flags, decimal and
  hexadecimal assignments, \<open>parse_generic\<close> reports no stray character and returns the
  configurations that the assignments give in their order, a flag counting as 1.
\<close>

theorem parse_generic_show:
  assumes "\<forall>t\<in>set ts. gname_ok t" and "ts \<noteq> []"
  shows "parse_generic fs (show_gterms ts) = map_option (\<lambda>c. (c, [])) (apply_gterms fs ts no_configs)"
  unfolding parse_generic_def by (rule generic_loop_show [OF assms])

definition ex_formats :: "format_type list" where
  "ex_formats = [\<lparr>f_name = Some ''event'', f_value = None, f_field = FIELD_CONFIG, f_mask = 0xf000000ff\<rparr>,
                 \<lparr>f_name = Some ''inv'', f_value = None, f_field = FIELD_CONFIG, f_mask = 0x800000\<rparr>,
                 \<lparr>f_name = Some ''ldlat'', f_value = None, f_field = FIELD_CONFIG1, f_mask = 0xffff\<rparr>]"

theorem parse_generic_show_witness:
  "parse_generic ex_formats ''event=0xcd,inv,ldlat=3'' =
     map_option (\<lambda>c. (c, [])) (apply_gterms ex_formats [GHex ''event'' 205, GFlag ''inv'', GDec ''ldlat'' 3] no_configs)"
proof -
  have "show_gterms [GHex ''event'' 205, GFlag ''inv'', GDec ''ldlat'' 3] = ''event=0xcd,inv,ldlat=3''"
    by code_simp
  then show ?thesis
    using parse_generic_show [of "[GHex ''event'' 205, GFlag ''inv'', GDec ''ldlat'' 3]" ex_formats]
    by (simp add: gname_ok_def)
qed

section \<open>Files that cannot be read\<close>

text \<open>
  An event whose file cannot be opened is not left empty: \<open>parse_generic\<close> is run on the
  buffer all the same, so the event gets the configuration of the event read before it.
\<close>

theorem unreadable_event_copies_previous:
  assumes "scan_token txt = Some (v, r)" and "parse_generic fs v = Some (c, errs)"
  shows "fill_events fs [(n1, Some txt), (n2, None)] [new_event, new_event] 0 None =
    Some ([\<lparr>g_name = Some n1, g_value = Some v, g_config = cfg0 c, g_config1 = cfg1 c, g_config2 = cfg2 c\<rparr>,
           \<lparr>g_name = Some n2, g_value = None, g_config = cfg0 c, g_config1 = cfg1 c, g_config2 = cfg2 c\<rparr>],
          Some v)"
  using assms by (simp add: new_event_def Let_def)

theorem unreadable_event_copies_previous_witness:
  "fill_events [] [(''a'', Some ''x=1''), (''b'', None)] [new_event, new_event] 0 None =
    Some ([\<lparr>g_name = Some ''a'', g_value = Some ''x=1'', g_config = 0, g_config1 = 0, g_config2 = 0\<rparr>,
           \<lparr>g_name = Some ''b'', g_value = None, g_config = 0, g_config1 = 0, g_config2 = 0\<rparr>],
          Some ''x=1'')"
proof -
  have "scan_token ''x=1'' = Some (''x=1'', [])" by code_simp
  moreover have "parse_generic [] ''x=1'' = Some (no_configs, [])" by code_simp
  ultimately show ?thesis
    using unreadable_event_copies_previous [of "''x=1''" "''x=1''" "[]" "[]" no_configs "[]" "''a''" "''b''"]
    by (simp add: no_configs_def)
qed

text \<open>
  A format file that cannot be opened leaves a hole at the end of the table: its slot is
  reused for the next format, the last slot keeps the \<open>NULL\<close> name of \<open>calloc\<close>, and looking
  up any name that stands in no earlier slot passes that \<open>NULL\<close> to \<open>strcmp\<close>.
\<close>

theorem unreadable_format_null_name:
  assumes "scan_token txt = Some (v, r)" and "parse_format v = Some (ret, fld, msk)" and "nm \<noteq> n2"
  shows "fill_formats [(n1, None), (n2, Some txt)] [new_format, new_format] 0 None =
      Some ([\<lparr>f_name = Some n2, f_value = Some v, f_field = fld, f_mask = msk\<rparr>, new_format], Some v)
    \<and> update_configs [\<lparr>f_name = Some n2, f_value = Some v, f_field = fld, f_mask = msk\<rparr>, new_format]
        nm value c = None"
  using assms by (simp add: new_format_def Let_def)

theorem unreadable_format_null_name_witness:
  "update_configs [\<lparr>f_name = Some ''b'', f_value = Some ''config:0'', f_field = 1, f_mask = 1\<rparr>, new_format]
     ''event'' 5 no_configs = None"
proof -
  have "scan_token ''config:0'' = Some (''config:0'', [])" by code_simp
  moreover have "parse_format ''config:0'' = Some (0, 1, 1)" by code_simp
  ultimately show ?thesis
    using unreadable_format_null_name [of "''config:0''" "''config:0''" "[]" 0 1 1 "''event''" "''b''" "''a''" 5 no_configs]
    by simp
qed

end
