(* ===== verification/PerfAttr.thy ===== *)
theory PerfAttr
  imports CText
begin

text \<open>
  \<open>struct perf_event_attr\<close> of include/perf_event.h, and its text form: \<open>perf_log_attr\<close> of
  fuzzer/fuzz_open.c writes the attributes of an event to the log, \<open>parse_open_event\<close> of
  fuzzer/parse_log.c reads them back for a replay.
\<close>

section \<open>The structure\<close>

text \<open>
  The 64-bit bit field is one word, from bit 0 up; \<open>a_bits\<close> keeps it. The last fields are
  the ones the log does not hold.
\<close>

record perf_event_attr =
  a_type :: u32
  a_size :: u32
  a_config :: u64
  a_sample_period :: u64
  a_sample_type :: u64
  a_read_format :: u64
  a_bits :: u64
  a_wakeup_events :: u32
  a_bp_type :: u32
  a_config1 :: u64
  a_config2 :: u64
  a_branch_sample_type :: u64
  a_sample_regs_user :: u64
  a_sample_stack_user :: u32
  a_clockid :: u32
  a_sample_regs_intr :: u64
  a_aux_watermark :: u32
  a_sample_max_stack :: u16
  a_reserved_2 :: u16
  a_aux_sample_size :: u32
  a_aux_action :: u32
  a_sig_data :: u64
  a_config3 :: u64
  a_config4 :: u64

text \<open>A structure of zero bytes, which \<open>memset\<close> and \<open>zmalloc\<close> leave.\<close>

definition zero_pe :: perf_event_attr where
  "zero_pe = \<lparr>a_type = 0, a_size = 0, a_config = 0, a_sample_period = 0, a_sample_type = 0,
     a_read_format = 0, a_bits = 0, a_wakeup_events = 0, a_bp_type = 0, a_config1 = 0, a_config2 = 0,
     a_branch_sample_type = 0, a_sample_regs_user = 0, a_sample_stack_user = 0, a_clockid = 0,
     a_sample_regs_intr = 0, a_aux_watermark = 0, a_sample_max_stack = 0, a_reserved_2 = 0,
     a_aux_sample_size = 0, a_aux_action = 0, a_sig_data = 0, a_config3 = 0, a_config4 = 0\<rparr>"

text \<open>The bit fields in the order of the structure: name, first bit and width.\<close>

definition attr_bits :: "(string \<times> nat \<times> nat) list" where
  "attr_bits =
     [(''disabled'', 0, 1), (''inherit'', 1, 1), (''pinned'', 2, 1), (''exclusive'', 3, 1),
      (''exclude_user'', 4, 1), (''exclude_kernel'', 5, 1), (''exclude_hv'', 6, 1),
      (''exclude_idle'', 7, 1), (''mmap'', 8, 1), (''comm'', 9, 1), (''freq'', 10, 1),
      (''inherit_stat'', 11, 1), (''enable_on_exec'', 12, 1), (''task'', 13, 1),
      (''watermark'', 14, 1), (''precise_ip'', 15, 2), (''mmap_data'', 17, 1),
      (''sample_id_all'', 18, 1), (''exclude_host'', 19, 1), (''exclude_guest'', 20, 1),
      (''exclude_callchain_kernel'', 21, 1), (''exclude_callchain_user'', 22, 1),
      (''mmap2'', 23, 1), (''comm_exec'', 24, 1), (''use_clockid'', 25, 1),
      (''context_switch'', 26, 1), (''write_backward'', 27, 1), (''namespaces'', 28, 1),
      (''ksymbol'', 29, 1), (''bpf_event'', 30, 1), (''aux_output'', 31, 1), (''cgroup'', 32, 1),
      (''text_poke'', 33, 1), (''build_id'', 34, 1), (''inherit_thread'', 35, 1),
      (''remove_on_exec'', 36, 1), (''sigtrap'', 37, 1)]"

text \<open>Reading a bit field gives an \<open>int\<close>, storing to one keeps its low bits.\<close>

definition get_bits :: "nat \<Rightarrow> nat \<Rightarrow> u64 \<Rightarrow> int" where
  "get_bits pos w bits = uint (take_bit w (drop_bit pos bits))"

definition put_bits :: "nat \<Rightarrow> nat \<Rightarrow> int \<Rightarrow> u64 \<Rightarrow> u64" where
  "put_bits pos w v bits =
     (bits AND NOT (push_bit pos (mask w))) OR push_bit pos (take_bit w (word_of_int v))"

section \<open>Conversions\<close>

text \<open>
  The conversions of the two format strings, on the integer that is printed or stored.
  \<open>%hd\<close> prints and stores a \<open>short\<close>, \<open>%lx\<close> and \<open>%llx\<close> 64 bits.
\<close>

datatype conv = C_d | C_x | C_llx | C_lld | C_hd

fun canon :: "conv \<Rightarrow> int \<Rightarrow> int" where
  "canon C_d v = i32 v"
| "canon C_x v = v mod 2 ^ 32"
| "canon C_llx v = v mod 2 ^ 64"
| "canon C_lld v = i64 v"
| "canon C_hd v = signed_take_bit 15 v"

fun print_conv :: "conv \<Rightarrow> int \<Rightarrow> string" where
  "print_conv C_d v = show_int (i32 v)"
| "print_conv C_x v = show_hex (word_of_int v :: u32)"
| "print_conv C_llx v = show_hex (word_of_int v :: u64)"
| "print_conv C_lld v = show_int (i64 v)"
| "print_conv C_hd v = show_int (signed_take_bit 15 v)"

fun scan_conv :: "conv \<Rightarrow> string \<Rightarrow> (int \<times> string) option" where
  "scan_conv C_d s = scan_d s"
| "scan_conv C_x s = map_option (\<lambda>(v, r). (uint (ucast v :: u32), r)) (scan_hex s)"
| "scan_conv C_llx s = map_option (\<lambda>(v, r). (uint v, r)) (scan_hex s)"
| "scan_conv C_lld s = scan_dec s"
| "scan_conv C_hd s = map_option (\<lambda>(v, r). (signed_take_bit 15 v, r)) (scan_dec s)"

text \<open>\<open>sscanf\<close> assigns until a conversion fails.\<close>

fun scan_convs :: "conv list \<Rightarrow> string \<Rightarrow> int list" where
  "scan_convs [] s = []"
| "scan_convs (c # cs) s =
     (case scan_conv c s of None \<Rightarrow> [] | Some (v, r) \<Rightarrow> v # scan_convs cs r)"

text \<open>The variables behind a format; one that is not assigned holds what was on the stack.\<close>

definition scanned :: "(nat \<Rightarrow> int) \<Rightarrow> conv list \<Rightarrow> string \<Rightarrow> nat \<Rightarrow> int" where
  "scanned stack cs line i = (let vs = scan_convs cs (drop 1 line) in if i < length vs then vs ! i else stack i)"

section \<open>perf_log_attr\<close>

definition attr_convs :: "conv list" where
  "attr_convs = [C_x, C_x, C_llx, C_llx, C_llx, C_llx] @ map (\<lambda>_. C_d) attr_bits @
     [C_d, C_d, C_llx, C_llx, C_lld, C_lld, C_d, C_d, C_lld, C_d, C_hd, C_d]"

definition attr_values :: "perf_event_attr \<Rightarrow> int list" where
  "attr_values a =
     [uint (a_type a), uint (a_size a), uint (a_config a), uint (a_sample_period a),
      uint (a_sample_type a), uint (a_read_format a)] @
     map (\<lambda>(nm, pos, w). get_bits pos w (a_bits a)) attr_bits @
     [uint (a_wakeup_events a), uint (a_bp_type a), uint (a_config1 a), uint (a_config2 a),
      uint (a_branch_sample_type a), uint (a_sample_regs_user a), uint (a_sample_stack_user a),
      uint (a_clockid a), uint (a_sample_regs_intr a), uint (a_aux_watermark a),
      uint (a_sample_max_stack a), uint (a_aux_sample_size a)]"

text \<open>Each value is printed with a space behind it.\<close>

definition print_all :: "conv list \<Rightarrow> int list \<Rightarrow> string" where
  "print_all cs vs = concat (map2 (\<lambda>c v. print_conv c v @ '' '') cs vs)"

definition newline :: string where
  "newline = [char_of (10 :: nat)]"

definition perf_log_attr :: "perf_event_attr \<Rightarrow> string" where
  "perf_log_attr a = print_all attr_convs (attr_values a) @ newline"

text \<open>The line \<open>open_random_event\<close> logs for an event it opened.\<close>

definition open_convs :: "conv list" where
  "open_convs = [C_d, C_d, C_d, C_d, C_llx]"

definition log_open_line :: "int \<Rightarrow> int \<Rightarrow> int \<Rightarrow> int \<Rightarrow> u64 \<Rightarrow> perf_event_attr \<Rightarrow> string" where
  "log_open_line fd pid cpu group_fd flags a =
     ''O '' @ print_all open_convs [fd, pid, cpu, group_fd, uint flags] @ perf_log_attr a"

section \<open>parse_open_event\<close>

definition store_bits :: "int list \<Rightarrow> u64 \<Rightarrow> u64" where
  "store_bits vs bits =
     fold (\<lambda>((nm, pos, w), v) b. put_bits pos w v b) (zip attr_bits vs) bits"

text \<open>A field that \<open>sscanf\<close> stores to, unless it stopped before.\<close>

definition assigned :: "int list \<Rightarrow> nat \<Rightarrow> 'a::len word \<Rightarrow> 'a word" where
  "assigned vs i old = (if i < length vs then word_of_int (vs ! i) else old)"

text \<open>
  \<open>None\<close>: the scan stopped before the last bit field, and what the code then copies into
  the structure is uninitialised.
\<close>

definition parse_open_event ::
    "string \<Rightarrow> perf_event_attr \<Rightarrow> (int \<times> int \<times> int \<times> int \<times> u64 \<times> perf_event_attr) option" where
  "parse_open_event line pe =
     (let vs = scan_convs (open_convs @ attr_convs) (drop 1 line) in
      if length vs < 48 then None
      else Some (vs ! 0, vs ! 1, vs ! 2, vs ! 3, word_of_int (vs ! 4),
        pe\<lparr>a_type := word_of_int (vs ! 5), a_size := word_of_int (vs ! 6),
           a_config := word_of_int (vs ! 7), a_sample_period := word_of_int (vs ! 8),
           a_sample_type := word_of_int (vs ! 9), a_read_format := word_of_int (vs ! 10),
           a_bits := store_bits (take 37 (drop 11 vs)) (a_bits pe),
           a_wakeup_events := assigned vs 48 (a_wakeup_events pe),
           a_bp_type := assigned vs 49 (a_bp_type pe),
           a_config1 := assigned vs 50 (a_config1 pe),
           a_config2 := assigned vs 51 (a_config2 pe),
           a_branch_sample_type := assigned vs 52 (a_branch_sample_type pe),
           a_sample_regs_user := assigned vs 53 (a_sample_regs_user pe),
           a_sample_stack_user := assigned vs 54 (a_sample_stack_user pe),
           a_clockid := assigned vs 55 (a_clockid pe),
           a_sample_regs_intr := assigned vs 56 (a_sample_regs_intr pe),
           a_aux_watermark := assigned vs 57 (a_aux_watermark pe),
           a_sample_max_stack := assigned vs 58 (a_sample_max_stack pe),
           a_aux_sample_size := assigned vs 59 (a_aux_sample_size pe)\<rparr>))"

end
