(* ===== verification/AttrTheorems.thy ===== *)
theory AttrTheorems
  imports PerfAttr
begin

text \<open>
  The log line of an opened event is read back by the replay: every logged field of the
  attributes survives, the others keep what the reader's structure held.
\<close>

section \<open>One conversion\<close>

lemma canon_word [simp]:
  "word_of_int (i32 (uint w)) = (w :: u32)" "word_of_int (i64 (uint v)) = (v :: u64)"
  "word_of_int (signed_take_bit 15 (uint x)) = (x :: u16)"
  by (rule bit_word_eqI; simp add: bit_simps i32_def i64_def bit_uint_iff)+

lemma i64_bounds: "- (2 ^ 63) \<le> i64 x \<and> i64 x < 2 ^ 63"
  unfolding i64_def
  using signed_take_bit_int_greater_eq_minus_exp [of 63 x] signed_take_bit_int_less_exp [of 63 x]
  by simp

lemma short_bounds: "- (2 ^ 15) \<le> signed_take_bit 15 x \<and> signed_take_bit 15 x < 2 ^ 15" for x :: int
  using signed_take_bit_int_greater_eq_minus_exp [of 15 x] signed_take_bit_int_less_exp [of 15 x]
  by simp

text \<open>A number ends at the end of the line or at white space.\<close>

definition at_end :: "string \<Rightarrow> bool" where
  "at_end rest \<longleftrightarrow> rest = [] \<or> is_space (hd rest)"

lemma at_end_simps [simp]: "at_end []" "at_end ('' '' @ rest)" "at_end (CHR '' '' # rest)" "at_end newline"
  by (simp_all add: at_end_def is_space_def newline_def)

lemma at_end_stops: "at_end rest \<Longrightarrow> stops is_digit rest"
  using not_space_digit by (auto simp: at_end_def stops_def is_xdigit_def)

lemma scan_print_end:
  assumes "at_end rest"
  shows "scan_conv c (print_conv c v @ rest) = Some (canon c v, rest)"
proof (cases c)
  case C_d
  then show ?thesis using scan_d_show_int [OF at_end_stops [OF assms], of "i32 v"] i32_bounds [of v] by simp
next
  case C_x
  have "unat (word_of_int v :: u32) < 2 ^ 64"
    by (rule less_trans [OF unsigned_less]) simp
  then have "scan_hex (digits 16 (unat (word_of_int v :: u32)) @ rest)
      = Some (of_nat (unat (word_of_int v :: u32)), rest)"
    using assms by (intro scan_hex_show) (simp_all add: at_end_def)
  moreover have "uint (ucast (of_nat (unat (word_of_int v :: u32)) :: u64) :: u32) = v mod 2 ^ 32"
  proof -
    have "(ucast (of_nat (unat (word_of_int v :: u32)) :: u64) :: u32) = word_of_int v"
      by (rule bit_word_eqI) (simp add: bit_simps)
    then show ?thesis by (simp add: unsigned_of_int take_bit_eq_mod)
  qed
  ultimately show ?thesis using C_x by (simp add: show_hex_def)
next
  case C_llx
  have "unat (word_of_int v :: u64) < 2 ^ 64"
    by (rule less_le_trans [OF unsigned_less]) simp
  then have "scan_hex (digits 16 (unat (word_of_int v :: u64)) @ rest) = Some (word_of_int v, rest)"
    using scan_hex_show [of rest "unat (word_of_int v :: u64)"] assms by (simp add: at_end_def)
  with C_llx show ?thesis by (simp add: show_hex_def unsigned_of_int take_bit_eq_mod)
next
  case C_lld
  then show ?thesis using scan_dec_show_int [OF at_end_stops [OF assms], of "i64 v"] i64_bounds [of v] by simp
next
  case C_hd
  have "scan_dec (show_int (signed_take_bit 15 v) @ rest) = Some (signed_take_bit 15 v, rest)"
    using short_bounds [of v] assms by (intro scan_dec_show_int at_end_stops) simp_all
  with C_hd show ?thesis by simp
qed

lemma scan_print_conv:
  "scan_conv c (print_conv c v @ '' '' @ rest) = Some (canon c v, '' '' @ rest)"
  by (rule scan_print_end) simp

lemma scan_conv_space: "scan_conv c ('' '' @ s) = scan_conv c s"
  by (cases c) (simp_all add: scan_d_def scan_dec_def scan_hex_def skip_ws_def is_space_def)

lemma scan_print_all:
  assumes "length cs = length vs"
  shows "scan_convs cs (print_all cs vs @ rest) = map2 canon cs vs"
proof -
  have "scan_convs cs (sp @ print_all cs vs @ rest) = map2 canon cs vs" if "sp = [] \<or> sp = '' ''" for sp
    using assms that
  proof (induction cs vs arbitrary: sp rule: list_induct2)
    case Nil
    then show ?case by simp
  next
    case (Cons c cs v vs)
    have "scan_conv c (sp @ print_all (c # cs) (v # vs) @ rest)
        = scan_conv c (print_conv c v @ '' '' @ print_all cs vs @ rest)"
      using Cons.prems scan_conv_space by (auto simp: print_all_def)
    also have "\<dots> = Some (canon c v, '' '' @ print_all cs vs @ rest)"
      by (rule scan_print_conv)
    finally show ?case using Cons.IH [of "'' ''"] by simp
  qed
  from this [of "[]"] show ?thesis by simp
qed

lemma print_all_append:
  "length cs = length vs \<Longrightarrow> print_all (cs @ ds) (vs @ ws) = print_all cs vs @ print_all ds ws"
  by (simp add: print_all_def)

section \<open>The bit field\<close>

lemma bit_put:
  assumes "i < 64"
  shows "bit (put_bits pos w (get_bits pos w src) b) i
     \<longleftrightarrow> (if pos \<le> i \<and> i < pos + w then bit src i else bit b i)"
  unfolding put_bits_def get_bits_def
  using assms by (auto simp: bit_simps)

text \<open>Consecutive fields from \<open>a\<close> on, up to \<open>e\<close>.\<close>

fun contiguous :: "nat \<Rightarrow> (string \<times> nat \<times> nat) list \<Rightarrow> nat \<Rightarrow> bool" where
  "contiguous a [] e \<longleftrightarrow> a = e"
| "contiguous a ((nm, pos, w) # fs) e \<longleftrightarrow> pos = a \<and> contiguous (a + w) fs e"

lemma contiguous_le: "contiguous a fs e \<Longrightarrow> a \<le> e"
  by (induction a fs e rule: contiguous.induct) auto

lemma attr_bits_contiguous: "contiguous 0 attr_bits 38"
  by (simp add: attr_bits_def)

lemma fold_put:
  assumes "contiguous a fs e" and "i < 64"
  shows "bit (fold (\<lambda>((nm, pos, w), v) b. put_bits pos w v b)
            (zip fs (map (\<lambda>(nm, pos, w). get_bits pos w src) fs)) b) i
     \<longleftrightarrow> (if a \<le> i \<and> i < e then bit src i else bit b i)"
  using assms
proof (induction a fs e arbitrary: b rule: contiguous.induct)
  case (1 a e)
  then show ?case by auto
next
  case (2 a nm pos w fs e)
  have "a + w \<le> e" using contiguous_le 2(2) by auto
  with 2 show ?case by (auto simp: bit_put)
qed

lemma store_get_bits:
  "store_bits (map (\<lambda>(nm, pos, w). get_bits pos w src) attr_bits) b
     = (src AND mask 38) OR (b AND NOT (mask 38))"
proof (rule bit_word_eqI)
  fix i assume "i < LENGTH(64)"
  then have "i < 64" by simp
  from fold_put [OF attr_bits_contiguous this, of src b] this
  show "bit (store_bits (map (\<lambda>(nm, pos, w). get_bits pos w src) attr_bits) b) i
      = bit ((src AND mask 38) OR (b AND NOT (mask 38))) i"
    unfolding store_bits_def by (simp add: bit_simps)
qed

section \<open>The round trip\<close>

text \<open>
  What the reader ends up with: the logged attributes, with the unlogged fields and the bits
  from 38 on as they were in its own structure.
\<close>

definition restored :: "perf_event_attr \<Rightarrow> perf_event_attr \<Rightarrow> perf_event_attr" where
  "restored a pe = a\<lparr>a_bits := (a_bits a AND mask 38) OR (a_bits pe AND NOT (mask 38)),
     a_reserved_2 := a_reserved_2 pe, a_aux_action := a_aux_action pe,
     a_sig_data := a_sig_data pe, a_config3 := a_config3 pe, a_config4 := a_config4 pe\<rparr>"

lemma get_bits_small:
  assumes "(nm, pos, w) \<in> set attr_bits"
  shows "i32 (get_bits pos w b) = get_bits pos w b"
proof -
  from assms have w: "w \<le> 2" by (auto simp: attr_bits_def)
  have "uint (take_bit w (drop_bit pos b)) = take_bit w (uint (drop_bit pos b))"
    by (simp add: unsigned_take_bit_eq)
  also have "\<dots> < 2 ^ w" by simp
  also have "\<dots> \<le> 2 ^ 2" using w by (intro power_increasing) simp_all
  finally have "uint (take_bit w (drop_bit pos b)) < 4" by simp
  moreover have "0 \<le> uint (take_bit w (drop_bit pos b))" by simp
  moreover have "i32 x = x" if "0 \<le> x" "x < 4" for x using that by (simp add: i32_id)
  ultimately show ?thesis unfolding get_bits_def by blast
qed

lemma map2_canon_bits:
  "map2 canon (map (\<lambda>_. C_d) attr_bits) (map (\<lambda>(nm, pos, w). get_bits pos w b) attr_bits)
     = map (\<lambda>(nm, pos, w). get_bits pos w b) attr_bits"
  using get_bits_small by (auto simp: zip_map_map zip_same_conv_map)

lemma length_attr_bits: "length attr_bits = 37"
  by (simp add: attr_bits_def)

lemma canon_values:
  fixes flags :: u64
  shows "map2 canon (open_convs @ attr_convs) ([fd, pid, cpu, gfd, uint flags] @ attr_values a) =
     ([i32 fd, i32 pid, i32 cpu, i32 gfd, uint flags, uint (a_type a), uint (a_size a),
       uint (a_config a), uint (a_sample_period a), uint (a_sample_type a), uint (a_read_format a)] @
      map (\<lambda>(nm, pos, w). get_bits pos w (a_bits a)) attr_bits) @
     [i32 (uint (a_wakeup_events a)), i32 (uint (a_bp_type a)), uint (a_config1 a), uint (a_config2 a),
      i64 (uint (a_branch_sample_type a)), i64 (uint (a_sample_regs_user a)),
      i32 (uint (a_sample_stack_user a)), i32 (uint (a_clockid a)),
      i64 (uint (a_sample_regs_intr a)), i32 (uint (a_aux_watermark a)),
      signed_take_bit 15 (uint (a_sample_max_stack a)), i32 (uint (a_aux_sample_size a))]"
proof -
  have m32: "uint w mod 2 ^ 32 = uint w" for w :: u32
    using uint_lt2p [of w] by (simp add: mod_pos_pos_trivial)
  have m64: "uint w mod 2 ^ 64 = uint w" for w :: u64
    using uint_lt2p [of w] by (simp add: mod_pos_pos_trivial)
  show ?thesis
    unfolding open_convs_def attr_convs_def attr_values_def append.simps append_assoc
    by (simp only: zip_Cons_Cons list.map prod.case canon.simps m32 m64 zip_append length_map
        map_append map2_canon_bits zip_Nil append.simps)
qed

lemma scan_log_open_line:
  "scan_convs (open_convs @ attr_convs) (drop 1 (log_open_line fd pid cpu group_fd flags a))
     = map2 canon (open_convs @ attr_convs) ([fd, pid, cpu, group_fd, uint flags] @ attr_values a)"
proof -
  have len: "length (open_convs @ attr_convs) = length ([fd, pid, cpu, group_fd, uint flags] @ attr_values a)"
    by (simp add: open_convs_def attr_convs_def attr_values_def)
  have "drop 1 (log_open_line fd pid cpu group_fd flags a)
      = '' '' @ print_all (open_convs @ attr_convs) ([fd, pid, cpu, group_fd, uint flags] @ attr_values a) @ newline"
    unfolding log_open_line_def perf_log_attr_def
    by (subst print_all_append) (simp_all add: open_convs_def)
  then show ?thesis
    using scan_print_all [OF len, of newline] scan_conv_space
    by (simp add: open_convs_def)
qed

lemma parse_log_open_line:
  "parse_open_event (log_open_line fd pid cpu group_fd flags a) pe =
     Some (i32 fd, i32 pid, i32 cpu, i32 group_fd, flags, restored a pe)"
proof -
  let ?bits = "map (\<lambda>(nm, pos, w). get_bits pos w (a_bits a)) attr_bits"
  let ?vs = "([i32 fd, i32 pid, i32 cpu, i32 group_fd, uint flags, uint (a_type a), uint (a_size a),
       uint (a_config a), uint (a_sample_period a), uint (a_sample_type a), uint (a_read_format a)] @ ?bits) @
     [i32 (uint (a_wakeup_events a)), i32 (uint (a_bp_type a)), uint (a_config1 a), uint (a_config2 a),
      i64 (uint (a_branch_sample_type a)), i64 (uint (a_sample_regs_user a)),
      i32 (uint (a_sample_stack_user a)), i32 (uint (a_clockid a)),
      i64 (uint (a_sample_regs_intr a)), i32 (uint (a_aux_watermark a)),
      signed_take_bit 15 (uint (a_sample_max_stack a)), i32 (uint (a_aux_sample_size a))]"
  have len: "length ?bits = 37" by (simp add: length_attr_bits)
  have head: "?vs ! 0 = i32 fd" "?vs ! 1 = i32 pid" "?vs ! 2 = i32 cpu" "?vs ! 3 = i32 group_fd"
    "?vs ! 4 = uint flags" "?vs ! 5 = uint (a_type a)" "?vs ! 6 = uint (a_size a)"
    "?vs ! 7 = uint (a_config a)" "?vs ! 8 = uint (a_sample_period a)"
    "?vs ! 9 = uint (a_sample_type a)" "?vs ! 10 = uint (a_read_format a)"
    by simp_all
  have tail: "?vs ! (48 + k) = [i32 (uint (a_wakeup_events a)), i32 (uint (a_bp_type a)),
      uint (a_config1 a), uint (a_config2 a),
      i64 (uint (a_branch_sample_type a)), i64 (uint (a_sample_regs_user a)),
      i32 (uint (a_sample_stack_user a)), i32 (uint (a_clockid a)),
      i64 (uint (a_sample_regs_intr a)), i32 (uint (a_aux_watermark a)),
      signed_take_bit 15 (uint (a_sample_max_stack a)), i32 (uint (a_aux_sample_size a))] ! k" for k
    by (simp add: nth_append length_attr_bits)
  have bits: "take 37 (drop 11 ?vs) = ?bits" and total: "length ?vs = 60"
    by (simp_all add: length_attr_bits)
  have store: "store_bits ?bits (a_bits pe) = (a_bits a AND mask 38) OR (a_bits pe AND NOT (mask 38))"
    by (rule store_get_bits)
  note ks = tail [of 0] tail [of 1] tail [of 2] tail [of 3] tail [of 4] tail [of 5] tail [of 6]
    tail [of 7] tail [of 8] tail [of 9] tail [of 10] tail [of 11]
  define vs where "vs = ?vs"
  note facts = head [folded vs_def] head(2) [folded vs_def, simplified] ks [folded vs_def, simplified] bits [folded vs_def]
    total [folded vs_def]
  show ?thesis
    unfolding parse_open_event_def scan_log_open_line canon_values Let_def vs_def [symmetric] restored_def
    by (simp add: facts assigned_def store)
qed

text \<open>
  C17. The log line of an opened event is a complete record of what was logged: parsing it
  gives back the file descriptor, pid, cpu, group and flags, and an attribute structure that
  equals the logged one in every logged field; the reserved bits, \<open>sig_data\<close>, \<open>config3\<close>,
  \<open>config4\<close> and \<open>aux_action\<close> are not in the log and keep the reader's values.
\<close>

theorem parse_open_event_log_line:
  "parse_open_event (log_open_line fd pid cpu group_fd flags a) pe =
     Some (i32 fd, i32 pid, i32 cpu, i32 group_fd, flags, restored a pe)"
  by (rule parse_log_open_line)

text \<open>
  Nothing of the log is lost by a replay: logging the attributes that were read back
  writes the same line again.
\<close>

theorem perf_log_attr_restored:
  "perf_log_attr (restored a pe) = perf_log_attr a"
proof -
  have same: "get_bits pos w ((a_bits a AND mask 38) OR (a_bits pe AND NOT (mask 38))) = get_bits pos w (a_bits a)"
    if "(nm, pos, w) \<in> set attr_bits" for nm pos w
  proof -
    from that have "pos + w \<le> 38" by (auto simp: attr_bits_def)
    then have "take_bit w (drop_bit pos ((a_bits a AND mask 38) OR (a_bits pe AND NOT (mask 38))))
        = take_bit w (drop_bit pos (a_bits a))"
      by (intro bit_word_eqI) (auto simp: bit_simps)
    then show ?thesis by (simp add: get_bits_def)
  qed
  have maps: "map (\<lambda>(nm, pos, w). get_bits pos w ((a_bits a AND mask 38) OR (a_bits pe AND NOT (mask 38)))) attr_bits
      = map (\<lambda>(nm, pos, w). get_bits pos w (a_bits a)) attr_bits"
    by (rule map_cong [OF refl]) (clarsimp simp: same)
  show ?thesis
    unfolding perf_log_attr_def attr_values_def restored_def
    by (simp add: maps)
qed

end
