(* ===== verification/SlotTable.thy ===== *)
theory SlotTable
  imports Prelude
begin

text \<open>
  The tables of the fuzzer (\<open>event_data\<close>, \<open>mmaps\<close>): arrays whose slots carry an \<open>active\<close>
  flag, a loop that finds the first free slot, a loop that finds the \<open>x\<close>-th active one, and
  a counter of active slots kept beside them. The locale \<open>slot_table\<close> is what the
  operations on such a table rely on.
\<close>

section \<open>The loops\<close>

text \<open>\<open>for(i=0;i<MAX;i++) if (!t[i].active) return i; return -1;\<close>\<close>

fun scan_free :: "('s \<Rightarrow> bool) \<Rightarrow> 's list \<Rightarrow> int \<Rightarrow> int" where
  "scan_free act [] i = - 1"
| "scan_free act (s # ss) i = (if \<not> act s then i else scan_free act ss (i + 1))"

text \<open>\<open>for(i=0;i<MAX;i++) if (t[i].active) { if (j==x) return i; j++; } return -1;\<close>\<close>

fun scan_active :: "('s \<Rightarrow> bool) \<Rightarrow> 's list \<Rightarrow> int \<Rightarrow> int \<Rightarrow> int \<Rightarrow> int" where
  "scan_active act [] i j x = - 1"
| "scan_active act (s # ss) i j x =
     (if act s then (if j = x then i else scan_active act ss (i + 1) (j + 1) x)
      else scan_active act ss (i + 1) j x)"

definition actives :: "('s \<Rightarrow> bool) \<Rightarrow> 's list \<Rightarrow> nat" where
  "actives act ss = length (filter act ss)"

lemma actives_simps [simp]:
  "actives act [] = 0" "actives act (s # ss) = (if act s then 1 else 0) + actives act ss"
  by (simp_all add: actives_def)

lemma actives_update [count_simps]:
  assumes "i < length ss"
  shows "actives act (ss[i := t]) + (if act (ss ! i) then 1 else 0)
     = actives act ss + (if act t then 1 else 0)"
  using length_filter_update [OF assms] unfolding actives_def .

lemma actives_same: "i < length ss \<Longrightarrow> act t = act (ss ! i) \<Longrightarrow> actives act (ss[i := t]) = actives act ss"
  using actives_update [of i ss act t] by (simp split: if_splits)

lemma actives_set: "i < length ss \<Longrightarrow> \<not> act (ss ! i) \<Longrightarrow> act t \<Longrightarrow> actives act (ss[i := t]) = Suc (actives act ss)"
  using actives_update [of i ss act t] by simp

lemma actives_clear: "i < length ss \<Longrightarrow> act (ss ! i) \<Longrightarrow> \<not> act t \<Longrightarrow> Suc (actives act (ss[i := t])) = actives act ss"
  using actives_update [of i ss act t] by simp

lemma scan_free_found:
  assumes "scan_free act ss i0 = i" and "0 \<le> i0" and "0 \<le> i"
  shows "\<exists>k<length ss. i = i0 + int k \<and> \<not> act (ss ! k) \<and> (\<forall>j<k. act (ss ! j))"
  using assms
proof (induction act ss i0 rule: scan_free.induct)
  case (1 act i0)
  then show ?case by simp
next
  case (2 act s ss i0)
  show ?case
  proof (cases "act s")
    case False
    with 2 show ?thesis by (intro exI [of _ 0]) simp
  next
    case True
    with 2 obtain k where "k < length ss" "i = i0 + 1 + int k" "\<not> act (ss ! k)" "\<forall>j<k. act (ss ! j)"
      by auto
    with True show ?thesis by (intro exI [of _ "Suc k"]) (auto simp: less_Suc_eq_0_disj)
  qed
qed

lemma scan_free_full: "scan_free act ss i0 = - 1 \<Longrightarrow> 0 \<le> i0 \<Longrightarrow> \<forall>s\<in>set ss. act s"
  by (induction act ss i0 rule: scan_free.induct) (auto split: if_splits)

lemma scan_free_range: "scan_free act ss i0 = - 1 \<or> i0 \<le> scan_free act ss i0"
proof (induction act ss i0 rule: scan_free.induct)
  case (2 act s ss i0)
  then show ?case by (cases "act s") auto
qed simp

lemma scan_active_found:
  assumes "j \<le> x" and "x < j + int (actives act ss)"
  shows "\<exists>k<length ss. scan_active act ss i j x = i + int k \<and> act (ss ! k) \<and>
           j + int (actives act (take k ss)) = x"
  using assms
proof (induction act ss i j x rule: scan_active.induct)
  case (1 act i j x)
  then show ?case by simp
next
  case (2 act s ss i j x)
  show ?case
  proof (cases "act s \<and> j = x")
    case True
    then show ?thesis by (intro exI [of _ 0]) simp
  next
    case False
    let ?j = "if act s then j + 1 else j"
    from False 2 have "\<exists>k<length ss. scan_active act ss (i + 1) ?j x = i + 1 + int k \<and> act (ss ! k) \<and>
           ?j + int (actives act (take k ss)) = x" by (cases "act s") auto
    then obtain k where "k < length ss" "scan_active act ss (i + 1) ?j x = i + 1 + int k" "act (ss ! k)"
      "?j + int (actives act (take k ss)) = x" by blast
    with False show ?thesis by (intro exI [of _ "Suc k"]) auto
  qed
qed

lemma scan_active_none: "j + int (actives act ss) \<le> x \<Longrightarrow> scan_active act ss i j x = - 1"
  by (induction act ss i j x rule: scan_active.induct) auto

section \<open>The interface\<close>

locale slot_table =
  fixes active :: "'s \<Rightarrow> bool"
    and find_empty :: "'s list \<Rightarrow> int"
    and pick :: "'s list \<Rightarrow> int \<Rightarrow> int"
  assumes empty_free: "0 \<le> find_empty ss \<Longrightarrow>
      nat (find_empty ss) < length ss \<and> \<not> active (ss ! nat (find_empty ss))"
    and empty_full: "find_empty ss < 0 \<Longrightarrow> s \<in> set ss \<Longrightarrow> active s"
    and pick_hit: "0 \<le> x \<Longrightarrow> x < int (actives active ss) \<Longrightarrow>
      \<exists>k<length ss. pick ss x = int k \<and> active (ss ! k) \<and> int (actives active (take k ss)) = x"
    and pick_miss: "int (actives active ss) \<le> x \<Longrightarrow> pick ss x = - 1"
begin

lemma claim_count:
  assumes "0 \<le> find_empty ss" and "active t"
  shows "actives active (ss[nat (find_empty ss) := t]) = Suc (actives active ss)"
  using empty_free [OF assms(1)] assms(2) by (intro actives_set) auto

lemma release_count:
  assumes "i < length ss" and "active (ss ! i)" and "\<not> active t"
  shows "actives active (ss[i := t]) = actives active ss - 1"
  using actives_clear [OF assms] by simp

text \<open>A counter that is right makes the random pick total.\<close>

lemma pick_total:
  assumes "count = int (actives active ss)" and "0 < count" and "0 \<le> r"
  shows "0 \<le> pick ss (r mod count) \<and> nat (pick ss (r mod count)) < length ss \<and>
    active (ss ! nat (pick ss (r mod count)))"
proof -
  have "0 \<le> r mod count" "r mod count < int (actives active ss)"
    using assms by (simp_all add: pos_mod_bound)
  from pick_hit [OF this] show ?thesis by auto
qed

text \<open>Different draws below the count pick different slots.\<close>

lemma pick_inj:
  assumes "0 \<le> x" "x < int (actives active ss)" "0 \<le> y" "y < int (actives active ss)"
    and "pick ss x = pick ss y"
  shows "x = y"
proof -
  from pick_hit [OF assms(1,2)] obtain k where "pick ss x = int k" "int (actives active (take k ss)) = x"
    by blast
  moreover from pick_hit [OF assms(3,4)] obtain l where "pick ss y = int l" "int (actives active (take l ss)) = y"
    by blast
  ultimately show ?thesis using assms(5) by simp
qed

end

text \<open>The two loops, over any flag, are a slot table.\<close>

lemma scan_table:
  "slot_table act (\<lambda>ss. scan_free act ss 0) (\<lambda>ss x. scan_active act ss 0 0 x)"
proof (unfold_locales, goal_cases)
  case (1 ss)
  then show ?case using scan_free_found [of act ss 0 "scan_free act ss 0"] by auto
next
  case (2 ss s)
  then show ?case using scan_free_range [of act ss 0] scan_free_full [of act ss 0] by auto
next
  case (3 x ss)
  then show ?case using scan_active_found [of 0 x act ss 0] by simp
next
  case (4 ss x)
  then show ?case using scan_active_none [of 0 act ss x 0] by simp
qed

end
