(* ===== verification/FuzzState.thy ===== *)
theory FuzzState
  imports SlotTable PerfAttr
begin

text \<open>
  The global state of perf_fuzzer (fuzzer/perf_fuzzer.h, fuzzer_stats.h, fuzz_mmap.c), its
  environment, and the tables' lookups. The random numbers and what the kernel answers are
  parameters: \<open>e_rand\<close> is the sequence that \<open>rand()\<close> yields, and each system call has a
  function of the number of calls made before it and of its arguments.
\<close>

section \<open>Types of calls\<close>

definition TYPE_MMAP :: u32 where "TYPE_MMAP = 0x0001"
definition TYPE_OVERFLOW :: u32 where "TYPE_OVERFLOW = 0x0002"
definition TYPE_OPEN :: u32 where "TYPE_OPEN = 0x0004"
definition TYPE_CLOSE :: u32 where "TYPE_CLOSE = 0x0008"
definition TYPE_READ :: u32 where "TYPE_READ = 0x0010"
definition TYPE_WRITE :: u32 where "TYPE_WRITE = 0x0020"
definition TYPE_IOCTL :: u32 where "TYPE_IOCTL = 0x0040"
definition TYPE_FORK :: u32 where "TYPE_FORK = 0x0080"
definition TYPE_PRCTL :: u32 where "TYPE_PRCTL = 0x0200"
definition TYPE_POLL :: u32 where "TYPE_POLL = 0x0400"
definition TYPE_MILLION :: u32 where "TYPE_MILLION = 0x0800"
definition TYPE_ACCESS :: u32 where "TYPE_ACCESS = 0x1000"
definition TYPE_TRASH_MMAP :: u32 where "TYPE_TRASH_MMAP = 0x2000"
definition TYPE_VSYSCALL :: u32 where "TYPE_VSYSCALL = 0x4000"
definition TYPE_AFFINITY :: u32 where "TYPE_AFFINITY = 0x8000"

lemmas call_type_defs = TYPE_MMAP_def TYPE_OVERFLOW_def TYPE_OPEN_def TYPE_CLOSE_def
  TYPE_READ_def TYPE_WRITE_def TYPE_IOCTL_def TYPE_FORK_def TYPE_PRCTL_def TYPE_POLL_def
  TYPE_MILLION_def TYPE_ACCESS_def TYPE_TRASH_MMAP_def TYPE_VSYSCALL_def TYPE_AFFINITY_def

text \<open>The pairs \<open>x_attempts\<close>, \<open>x_successful\<close> of the statistics are indexed by the call.\<close>

datatype call = Kopen | Kclose | Kmmap | Ktrash | Kunmap | Kmmap_read | Kaux_read | Kaux
  | Kread | Kwrite | Kioctl | Kprctl | Kvsyscall | Kfork | Kpoll | Kaccess | Kaffinity

definition MAX_ERRNOS :: nat where "MAX_ERRNOS = 1023"
definition MAX_OPEN_TYPE :: nat where "MAX_OPEN_TYPE = 20"
definition MAX_OPEN_TRINITY_TYPE :: nat where "MAX_OPEN_TRINITY_TYPE = 4"
definition MAX_IOCTL_TYPE :: nat where "MAX_IOCTL_TYPE = 16"

record fuzzer_stats =
  total_syscalls :: int
  total_iterations :: int
  overflows :: int
  already_overflows :: int
  sigios :: int
  current_open :: int
  attempts :: "call \<Rightarrow> int"
  successful :: "call \<Rightarrow> int"
  open_errno_count :: "nat \<Rightarrow> int"
  fork_errno_count :: "nat \<Rightarrow> int"
  open_type_success :: "nat \<Rightarrow> int"
  open_type_fail :: "nat \<Rightarrow> int"
  open_trinity_type_success :: "nat \<Rightarrow> int"
  open_trinity_type_fail :: "nat \<Rightarrow> int"
  ioctl_type_success :: "nat \<Rightarrow> int"
  ioctl_type_fail :: "nat \<Rightarrow> int"

section \<open>The tables\<close>

record event_data_t =
  e_active :: bool
  e_fd :: int
  e_attr :: perf_event_attr
  e_pid :: int
  e_cpu :: int
  e_group_fd :: int
  e_flags :: u64
  e_read_size :: int
  e_number_in_group :: int
  e_mmap :: int
  e_last_refresh :: int
  e_overflows :: int
  e_throttles :: int

text \<open>Addresses are integers; \<open>MAP_FAILED\<close> is \<open>(void *)-1\<close> and \<open>NULL\<close> is 0.\<close>

definition MAP_FAILED :: int where "MAP_FAILED = - 1"

record our_mmap_t =
  m_active :: bool
  m_addr :: int
  m_size :: int
  m_fd :: int
  m_prot :: int
  m_flags :: int
  m_head :: int
  m_aux_head :: int
  m_aux :: bool
  m_parent_mmap :: int
  m_which_event :: int

text \<open>What the fuzzer writes to a mapped control page.\<close>

record ctl_page =
  ctl_data_tail :: u64
  ctl_aux_tail :: u64
  ctl_aux_offset :: int
  ctl_aux_size :: int

text \<open>
  The globals of the fuzzer, and the static variables of its files: \<open>h_next_refresh\<close> is the
  \<open>next_refresh\<close> of fuzz_overflow.c, which is not the one of perf_fuzzer.c. \<open>rpos\<close> counts the
  random numbers drawn and \<open>sysno\<close> the system calls made; \<open>flog\<close> holds the lines written to
  the log, \<open>forks\<close> what the calls of \<open>fork\<close> returned, \<open>killed\<close> the processes killed and
  \<open>ioctls\<close> the ioctl calls (the latest last).
\<close>

record fstate =
  rpos :: nat
  sysno :: nat
  event_data :: "event_data_t list"
  active_events :: int
  mmaps :: "our_mmap_t list"
  active_mmaps :: int
  stats :: fuzzer_stats
  flog :: "string list"
  pages :: "int \<Rightarrow> ctl_page"
  already_forked :: bool
  forked_pid :: int
  forks :: "int list"
  killed :: "int list"
  ioctls :: "(int \<times> u64 \<times> u64) list"
  already_handling :: bool
  last_fd :: int
  h_next_refresh :: int
  next_refresh :: int
  next_overflow_refresh :: int
  throttle_close_event :: int
  watchdog_counter :: int
  open_fds :: "int list"
  open_files :: int
  kprobe_initialized :: bool
  kprobe_id :: int
  bpf_fd :: int
  tp_filter :: string

text \<open>The switches of fuzzer_determinism.h that skip a call after its random draws.\<close>

record skip_t =
  i_mmap :: bool
  i_open :: bool
  i_close :: bool
  i_read :: bool
  i_write :: bool
  i_ioctl :: bool
  i_fork :: bool
  i_prctl :: bool
  i_poll :: bool
  i_trash_mmap :: bool
  i_overflow :: bool
  i_million :: bool
  i_access :: bool
  i_vsyscall :: bool
  i_affinity :: bool

text \<open>What trinity's generator fills in for a \<open>perf_event_open\<close> call.\<close>

record open_args =
  o_attr :: perf_event_attr
  o_pid :: int
  o_group_fd :: int
  o_flags :: u64
  o_trinity_type :: nat

text \<open>The table of tracepoints generated into trace_filters.h.\<close>

record trace_filter_t =
  tf_type :: int
  tf_name :: string

record trace_event_t =
  te_id :: int
  te_filters :: "trace_filter_t list"

record env =
  e_rand :: "nat \<Rightarrow> int"
  e_page_size :: int
  e_logging :: u32
  e_ignore :: skip_t
  k_mmap :: "nat \<Rightarrow> int \<Rightarrow> int \<Rightarrow> int \<Rightarrow> int \<Rightarrow> int \<Rightarrow> int \<Rightarrow> int"
  k_munmap :: "nat \<Rightarrow> int \<Rightarrow> int \<Rightarrow> int"
  k_close :: "nat \<Rightarrow> int \<Rightarrow> int"
  k_read :: "nat \<Rightarrow> int \<Rightarrow> int \<Rightarrow> int"
  k_write :: "nat \<Rightarrow> int \<Rightarrow> int \<Rightarrow> int"
  k_poll :: "nat \<Rightarrow> int list \<Rightarrow> int \<Rightarrow> int"
  k_prctl :: "nat \<Rightarrow> bool \<Rightarrow> int"
  k_fork :: "nat \<Rightarrow> int \<times> nat"
  k_ioctl :: "nat \<Rightarrow> int \<Rightarrow> u64 \<Rightarrow> u64 \<Rightarrow> int"
  k_data_head :: "nat \<Rightarrow> int \<Rightarrow> u64"
  k_aux_head :: "nat \<Rightarrow> int \<Rightarrow> u64"
  e_address :: "nat \<Rightarrow> int"
  e_sanitise :: "nat \<Rightarrow> open_args \<times> nat"
  e_get_cpu :: "nat \<Rightarrow> int \<times> nat"
  k_open :: "nat \<Rightarrow> perf_event_attr \<Rightarrow> int \<Rightarrow> int \<Rightarrow> int \<Rightarrow> u64 \<Rightarrow> int \<times> nat"
  k_open_file :: "nat \<Rightarrow> nat \<Rightarrow> u64 \<Rightarrow> int"
  k_setaffinity :: "nat \<Rightarrow> nat list \<Rightarrow> int"
  k_kprobe :: "nat \<Rightarrow> bool \<times> int option \<times> int"
  e_trace_events :: "trace_event_t list"
  e_vsyscall :: bool
  e_garbage :: "nat \<Rightarrow> int"
  k_event_id :: "nat \<Rightarrow> int"
  e_ptr :: "string \<Rightarrow> u64"
  e_stop_after :: int
  e_log_fd :: int

text \<open>
  \<open>k_\<close> fields are answers of the kernel, \<open>e_sanitise\<close>, \<open>e_get_cpu\<close> and \<open>e_address\<close> the
  generators of trinity, \<open>e_ptr\<close> the addresses of the fuzzer's own buffers, and
  \<open>e_garbage\<close> what an uninitialised variable holds. \<open>k_open\<close> and \<open>k_fork\<close> return the
  \<open>errno\<close> too.
\<close>

text \<open>\<open>rand()\<close> of the C library is never negative.\<close>

definition rand_ok :: "env \<Rightarrow> bool" where
  "rand_ok e \<longleftrightarrow> (\<forall>n. 0 \<le> e_rand e n)"

definition draw :: "env \<Rightarrow> fstate \<Rightarrow> int \<times> fstate" where
  "draw e s = (e_rand e (rpos s), s\<lparr>rpos := rpos s + 1\<rparr>)"

section \<open>Small steps on the state\<close>

definition upd_stats :: "(fuzzer_stats \<Rightarrow> fuzzer_stats) \<Rightarrow> fstate \<Rightarrow> fstate" where
  "upd_stats f s = s\<lparr>stats := f (stats s)\<rparr>"

definition attempt :: "call \<Rightarrow> fstate \<Rightarrow> fstate" where
  "attempt k = upd_stats (\<lambda>t. t\<lparr>attempts := (attempts t)(k := attempts t k + 1)\<rparr>)"

definition success :: "call \<Rightarrow> fstate \<Rightarrow> fstate" where
  "success k = upd_stats (\<lambda>t. t\<lparr>successful := (successful t)(k := successful t k + 1)\<rparr>)"

definition count_syscall :: "fstate \<Rightarrow> fstate" where
  "count_syscall = upd_stats (\<lambda>t. t\<lparr>total_syscalls := total_syscalls t + 1\<rparr>)"

definition log_line :: "env \<Rightarrow> u32 \<Rightarrow> string \<Rightarrow> fstate \<Rightarrow> fstate" where
  "log_line e ty line s = (if has (e_logging e) ty then s\<lparr>flog := flog s @ [line]\<rparr> else s)"

text \<open>Calls made from the handler of \<open>SIGIO\<close> are not logged.\<close>

definition log_unless :: "bool \<Rightarrow> env \<Rightarrow> u32 \<Rightarrow> string \<Rightarrow> fstate \<Rightarrow> fstate" where
  "log_unless from_sigio e ty line s = (if from_sigio then s else log_line e ty line s)"

definition syscall :: "fstate \<Rightarrow> fstate" where
  "syscall s = s\<lparr>sysno := sysno s + 1\<rparr>"

definition upd_mmap :: "nat \<Rightarrow> (our_mmap_t \<Rightarrow> our_mmap_t) \<Rightarrow> fstate \<Rightarrow> fstate" where
  "upd_mmap i f s = s\<lparr>mmaps := (mmaps s)[i := f (mmaps s ! i)]\<rparr>"

definition upd_event :: "nat \<Rightarrow> (event_data_t \<Rightarrow> event_data_t) \<Rightarrow> fstate \<Rightarrow> fstate" where
  "upd_event i f s = s\<lparr>event_data := (event_data s)[i := f (event_data s ! i)]\<rparr>"

text \<open>An index into a table; a negative or too large one is an access outside the array.\<close>

definition index_ok :: "int \<Rightarrow> 'a list \<Rightarrow> bool" where
  "index_ok i xs \<longleftrightarrow> 0 \<le> i \<and> nat i < length xs"

section \<open>Lookups of perf_fuzzer.c\<close>

definition find_empty_event :: "event_data_t list \<Rightarrow> int" where
  "find_empty_event evs = scan_free e_active evs 0"

definition pick_event :: "event_data_t list \<Rightarrow> int \<Rightarrow> int" where
  "pick_event evs x = scan_active e_active evs 0 0 x"

definition find_random_active_event :: "env \<Rightarrow> fstate \<Rightarrow> int \<times> fstate" where
  "find_random_active_event e s =
     (if active_events s < 1 then (- 1, s)
      else (case draw e s of (r, s1) \<Rightarrow> (pick_event (event_data s) (r mod active_events s), s1)))"

text \<open>The two variants count the active events, but walk over the matching ones only.\<close>

definition find_random_active_sampling_event :: "env \<Rightarrow> fstate \<Rightarrow> int \<times> fstate" where
  "find_random_active_sampling_event e s =
     (if active_events s < 1 then (- 1, s)
      else (case draw e s of (r, s1) \<Rightarrow>
        (scan_active (\<lambda>v. e_active v \<and> a_sample_period (e_attr v) \<noteq> 0) (event_data s) 0 0
           (r mod active_events s), s1)))"

definition PERF_TYPE_BREAKPOINT :: u32 where "PERF_TYPE_BREAKPOINT = 5"

definition find_random_active_breakpoint_event :: "env \<Rightarrow> fstate \<Rightarrow> int \<times> fstate" where
  "find_random_active_breakpoint_event e s =
     (if active_events s < 1 then (- 1, s)
      else (case draw e s of (r, s1) \<Rightarrow>
        (scan_active (\<lambda>v. e_active v \<and> a_type (e_attr v) = PERF_TYPE_BREAKPOINT) (event_data s) 0 0
           (r mod active_events s), s1)))"

fun scan_fd :: "event_data_t list \<Rightarrow> int \<Rightarrow> int \<Rightarrow> int" where
  "scan_fd [] i fd = - 1"
| "scan_fd (v # vs) i fd = (if e_active v \<and> e_fd v = fd then i else scan_fd vs (i + 1) fd)"

definition lookup_event :: "fstate \<Rightarrow> int \<Rightarrow> int" where
  "lookup_event s fd = (if active_events s < 1 then - 1 else scan_fd (event_data s) 0 fd)"

interpretation evt: slot_table e_active find_empty_event pick_event
  unfolding find_empty_event_def [abs_def] pick_event_def [abs_def] by (rule scan_table)

end
