(* ===== verification/FuzzMmap.thy ===== *)
theory FuzzMmap
  imports FuzzState
begin

text \<open>
  fuzzer/fuzz_mmap.c and fuzzer/fuzz_close.c: the table of mapped ring buffers, how mappings
  are set up, read, trashed and removed, and how events are closed. \<open>None\<close> is an access
  outside a table. The protections and flags are those of the 64-bit x86 hosts.
\<close>

section \<open>Random arguments\<close>

text \<open>A generator takes the position in the random sequence and returns the one behind it.\<close>

type_synonym 'a gen = "nat \<Rightarrow> 'a \<times> nat"

definition PROT_READ :: int where "PROT_READ = 1"
definition PROT_WRITE :: int where "PROT_WRITE = 2"
definition PROT_EXEC :: int where "PROT_EXEC = 4"
definition MAP_SHARED :: int where "MAP_SHARED = 1"
definition MAP_PRIVATE :: int where "MAP_PRIVATE = 2"

text \<open>\<open>if (rand()%2) x|=FLAG;\<close> for a list of flags.\<close>

fun maybe_flags :: "env \<Rightarrow> int list \<Rightarrow> int \<Rightarrow> int gen" where
  "maybe_flags e [] v p = (v, p)"
| "maybe_flags e (f # fs) v p =
     maybe_flags e fs (if e_rand e p mod 2 \<noteq> 0 then v OR f else v) (p + 1)"

definition mmap_random_prot :: "env \<Rightarrow> int gen" where
  "mmap_random_prot e p =
     (if e_rand e p mod 10 \<noteq> 0 then (PROT_READ OR PROT_WRITE, p + 1)
      else maybe_flags e [PROT_EXEC, PROT_READ, PROT_WRITE] 0 (p + 1))"

definition mmap_random_size :: "env \<Rightarrow> int \<Rightarrow> int gen" where
  "mmap_random_size e notaux p =
     (let k = e_rand e p mod 3; r = e_rand e (p + 1) in
      if k = 0 then ((r mod 64) * e_page_size e, p + 2)
      else if k = 1 then ((notaux + 2 ^ nat (r mod 10)) * e_page_size e, p + 2)
      else (r mod 65535, p + 2))"

text \<open>
  \<open>MAP_32BIT\<close>, \<open>DENYWRITE\<close>, \<open>EXECUTABLE\<close>, \<open>FILE\<close>, \<open>FIXED\<close>, \<open>GROWSDOWN\<close>, \<open>HUGETLB\<close>,
  \<open>LOCKED\<close>, \<open>NONBLOCK\<close>, \<open>NORESERVE\<close>, \<open>POPULATE\<close> and \<open>STACK\<close>.
\<close>

definition map_flag_list :: "int list" where
  "map_flag_list = [0x40, 0x800, 0x1000, 0, 0x10, 0x100, 0x40000, 0x2000, 0x10000, 0x4000,
     0x8000, 0x20000]"

definition mmap_random_flags :: "env \<Rightarrow> int gen" where
  "mmap_random_flags e p =
     (if e_rand e p mod 10 \<noteq> 0 then (MAP_SHARED, p + 1)
      else maybe_flags e map_flag_list
             (if e_rand e (p + 1) mod 2 \<noteq> 0 then MAP_SHARED else MAP_PRIVATE) (p + 2))"

section \<open>Lookups\<close>

definition find_empty_slot :: "our_mmap_t list \<Rightarrow> int" where
  "find_empty_slot ms = scan_free m_active ms 0"

definition pick_mmap :: "our_mmap_t list \<Rightarrow> int \<Rightarrow> int" where
  "pick_mmap ms x = scan_active m_active ms 0 0 x"

definition find_empty_mmap :: "fstate \<Rightarrow> int" where
  "find_empty_mmap s = find_empty_slot (mmaps s)"

definition find_random_active_mmap :: "env \<Rightarrow> fstate \<Rightarrow> int \<times> fstate" where
  "find_random_active_mmap e s =
     (if active_mmaps s < 1 then (- 1, s)
      else (case draw e s of (r, s1) \<Rightarrow> (pick_mmap (mmaps s) (r mod active_mmaps s), s1)))"

interpretation mm: slot_table m_active find_empty_slot pick_mmap
  unfolding find_empty_slot_def [abs_def] pick_mmap_def [abs_def] by (rule scan_table)

section \<open>Reading a mapping\<close>

definition set_tail :: "int \<Rightarrow> u64 \<Rightarrow> fstate \<Rightarrow> fstate" where
  "set_tail a h s = s\<lparr>pages := (pages s)(a := (pages s a)\<lparr>ctl_data_tail := h\<rparr>)\<rparr>"

definition set_aux_tail :: "int \<Rightarrow> u64 \<Rightarrow> fstate \<Rightarrow> fstate" where
  "set_aux_tail a h s = s\<lparr>pages := (pages s)(a := (pages s a)\<lparr>ctl_aux_tail := h\<rparr>)\<rparr>"

definition perf_mmap_aux_read :: "env \<Rightarrow> int \<Rightarrow> fstate \<Rightarrow> (int \<times> fstate) option" where
  "perf_mmap_aux_read e which s0 =
     (if \<not> index_ok which (mmaps s0) then None
      else (let m = mmaps s0 ! nat which; parent = m_parent_mmap m; s = attempt Kaux_read s0 in
        if m_prot m AND PROT_READ = 0 then Some (0, s)
        else if \<not> index_ok parent (mmaps s) then None
        else (let pm = mmaps s ! nat parent in
          if m_prot pm AND PROT_READ = 0 then Some (0, s)
          else if \<not> m_active pm then Some (0, s)
          else if m_addr pm = MAP_FAILED then Some (0, s)
          else if m_size pm = 0 then Some (0, s)
          else if m_addr pm = 0 then Some (- 1, s)
          else (let head = k_aux_head e (sysno s) (m_addr pm);
                    s1 = (if m_prot pm AND PROT_WRITE \<noteq> 0
                          then upd_mmap (nat which) (\<lambda>m. m\<lparr>m_aux_head := sint head\<rparr>)
                                 (set_aux_tail (m_addr pm) head s)
                          else s)
                in Some (sint head, success Kaux_read s1)))))"

definition perf_mmap_read :: "env \<Rightarrow> int \<Rightarrow> fstate \<Rightarrow> (int \<times> fstate) option" where
  "perf_mmap_read e which s0 =
     (if \<not> index_ok which (mmaps s0) then None
      else (let m = mmaps s0 ! nat which in
        if m_aux m then perf_mmap_aux_read e which s0
        else (let s = attempt Kmmap_read s0 in
          if m_prot m AND PROT_READ = 0 then Some (0, s)
          else if \<not> m_active m then Some (0, s)
          else if m_addr m = MAP_FAILED then Some (0, s)
          else if m_size m = 0 then Some (0, s)
          else if m_addr m = 0 then Some (- 1, s)
          else (let head = k_data_head e (sysno s) (m_addr m);
                    s1 = (if m_prot m AND PROT_WRITE \<noteq> 0
                          then upd_mmap (nat which) (\<lambda>m. m\<lparr>m_head := sint head\<rparr>)
                                 (set_tail (m_addr m) head s)
                          else s)
                in Some (sint head, success Kmmap_read s1)))))"

section \<open>Setting up a mapping\<close>

definition show_ptr :: "int \<Rightarrow> string" where
  "show_ptr a = (if a = 0 then ''(nil)'' else ''0x'' @ show_hex (word_of_int a :: u64))"

definition words :: "string list \<Rightarrow> string" where
  "words ws = concat (map (\<lambda>w. w @ '' '') (butlast ws)) @ last ws"

text \<open>The random description of a mapping, written to a free slot.\<close>

definition draw_slot :: "env \<Rightarrow> nat \<Rightarrow> bool \<Rightarrow> fstate \<Rightarrow> int \<times> int \<times> int \<times> fstate" where
  "draw_slot e i aux s =
     (case mmap_random_size e (if aux then 0 else 1) (rpos s) of (sz, p1) \<Rightarrow>
      case mmap_random_prot e p1 of (prot, p2) \<Rightarrow>
      case mmap_random_flags e p2 of (flags, p3) \<Rightarrow>
        (sz, prot, flags,
         upd_mmap i (\<lambda>m. m\<lparr>m_addr := MAP_FAILED, m_prot := prot, m_flags := flags,
                           m_size := sz, m_aux := aux\<rparr>) (s\<lparr>rpos := p3\<rparr>)))"

definition activate :: "nat \<Rightarrow> fstate \<Rightarrow> fstate" where
  "activate i = upd_mmap i (\<lambda>m. m\<lparr>m_active := True\<rparr>)"

definition count_mapped :: "fstate \<Rightarrow> fstate" where
  "count_mapped s = s\<lparr>active_mmaps := active_mmaps s + 1\<rparr>"

definition set_aux_area :: "int \<Rightarrow> int \<Rightarrow> int \<Rightarrow> fstate \<Rightarrow> fstate" where
  "set_aux_area a off sz s =
     s\<lparr>pages := (pages s)(a := (pages s a)\<lparr>ctl_aux_offset := off, ctl_aux_size := sz\<rparr>)\<rparr>"

text \<open>The call of \<open>mmap\<close>, whose result goes to the slot, and what follows when it succeeds.\<close>

definition call_mmap ::
    "env \<Rightarrow> nat \<Rightarrow> int \<Rightarrow> int \<Rightarrow> int \<Rightarrow> int \<Rightarrow> int \<Rightarrow> int \<Rightarrow> fstate \<Rightarrow> int \<times> fstate" where
  "call_mmap e i addr sz prot flags fd off s =
     (let a = k_mmap e (sysno s) addr sz prot flags fd off
      in (a, upd_mmap i (\<lambda>m. m\<lparr>m_addr := a\<rparr>) (syscall s)))"

definition mapped ::
    "env \<Rightarrow> call \<Rightarrow> nat \<Rightarrow> int \<Rightarrow> (our_mmap_t \<Rightarrow> our_mmap_t) \<Rightarrow> int \<Rightarrow> int \<Rightarrow> int \<Rightarrow> fstate \<Rightarrow> fstate" where
  "mapped e k i which f sz fd a s =
     success k (log_line e TYPE_MMAP (words [''M'', show_int sz, show_int fd, show_ptr a])
       (upd_mmap i f (upd_event (nat which) (\<lambda>v. v\<lparr>e_mmap := int i\<rparr>) (count_mapped s))))"

definition setup_mmap_aux :: "env \<Rightarrow> int \<Rightarrow> int \<Rightarrow> fstate \<Rightarrow> (int \<times> fstate) option" where
  "setup_mmap_aux e which_fd which_mmap s =
     (let i = find_empty_mmap s in
      if i < 0 then Some (- 1, s)
      else (case draw_slot e (nat i) True s of (sz, prot, flags, s0) \<Rightarrow>
        (let s1 = upd_mmap (nat i) (\<lambda>m. m\<lparr>m_parent_mmap := which_mmap\<rparr>) s0 in
         if i_mmap (e_ignore e) then Some (0, activate (nat i) s1)
         else if \<not> index_ok which_fd (event_data s1) \<or> \<not> index_ok which_mmap (mmaps s1) then None
         else (let pm = mmaps s1 ! nat which_mmap;
                   fd = e_fd (event_data s1 ! nat which_fd);
                   s2 = attempt Kaux s1;
                   s3 = (if m_addr pm \<noteq> 0 \<and> m_prot pm AND PROT_WRITE \<noteq> 0
                         then set_aux_area (m_addr pm) (m_size pm) sz s2 else s2)
               in case call_mmap e (nat i) 0 sz prot flags fd (m_size pm) s3 of (a, s4) \<Rightarrow>
                  if a = MAP_FAILED then Some (- 1, s4)
                  else Some (0, activate (nat i)
                    (mapped e Kaux (nat i) which_fd (\<lambda>m. m\<lparr>m_fd := fd\<rparr>) sz fd a s4))))))"

text \<open>The part of \<open>setup_mmap\<close> under \<open>if (!ignore_but_dont_skip.mmap)\<close>.\<close>

definition try_mmap ::
    "env \<Rightarrow> nat \<Rightarrow> int \<Rightarrow> int \<Rightarrow> int \<Rightarrow> int \<Rightarrow> fstate \<Rightarrow> (bool \<times> fstate) option" where
  "try_mmap e i which sz prot flags s1 =
     (case draw e s1 of (r, s2) \<Rightarrow>
       (let addr = (if r mod 20 = 0 then e_address e (rpos s2) else 0);
            s3 = count_syscall (attempt Kmmap s2)
        in if \<not> index_ok which (event_data s3) then None
           else (let fd = e_fd (event_data s3 ! nat which) in
             case call_mmap e i addr sz prot flags fd 0 s3 of (a, s4) \<Rightarrow>
               if a = MAP_FAILED then Some (False, s4)
               else Some (True, mapped e Kmmap i which
                      (\<lambda>m. m\<lparr>m_fd := fd, m_which_event := which\<rparr>) sz fd a s4))))"

definition setup_mmap :: "env \<Rightarrow> int \<Rightarrow> fstate \<Rightarrow> (int \<times> fstate) option" where
  "setup_mmap e which s =
     (let i = find_empty_mmap s in
      if i < 0 then Some (- 1, s)
      else (case draw_slot e (nat i) False s of (sz, prot, flags, s1) \<Rightarrow>
        (case (if i_mmap (e_ignore e) then Some (True, s1)
               else try_mmap e (nat i) which sz prot flags s1) of
           None \<Rightarrow> None
         | Some (ok, s5) \<Rightarrow>
             if \<not> ok then Some (- 1, s5)
             else (case draw e (activate (nat i) s5) of (r, s6) \<Rightarrow>
               if r mod 4 = 0
               then map_option (\<lambda>(_, s7). (0, s7)) (setup_mmap_aux e which i s6)
               else Some (0, s6)))))"

section \<open>Removing a mapping, closing an event\<close>

definition unmap_mmap :: "env \<Rightarrow> int \<Rightarrow> bool \<Rightarrow> fstate \<Rightarrow> fstate option" where
  "unmap_mmap e i from_sigio s0 =
     (let s = count_syscall (attempt Kunmap s0) in
      if \<not> index_ok i (mmaps s) then None
      else (let m = mmaps s ! nat i in
        if m_addr m = MAP_FAILED then Some s
        else (let s1 = upd_mmap (nat i) (\<lambda>m. m\<lparr>m_active := False\<rparr>) s;
                  result = k_munmap e (sysno s1) (m_addr m) (m_size m);
                  s2 = log_unless from_sigio e TYPE_MMAP
                         (words [''U'', show_int (m_fd m), show_int (m_size m), show_ptr (m_addr m)])
                         (syscall s1);
                  s3 = upd_mmap (nat i) (\<lambda>m. m\<lparr>m_addr := MAP_FAILED\<rparr>) s2
              in if result = 0
                 then Some (success Kunmap (s3\<lparr>active_mmaps := active_mmaps s3 - 1\<rparr>))
                 else Some s3)))"

definition do_close :: "env \<Rightarrow> int \<Rightarrow> bool \<Rightarrow> fstate \<Rightarrow> fstate" where
  "do_close e fd from_sigio s =
     (let s1 = attempt Kclose s;
          result = k_close e (sysno s1) fd;
          s2 = syscall s1;
          s3 = (if result = 0
                then upd_stats (\<lambda>t. t\<lparr>current_open := current_open t - 1\<rparr>) (success Kclose s2)
                else s2)
      in log_unless from_sigio e TYPE_CLOSE (words [''C'', show_int fd]) s3)"

definition close_event :: "env \<Rightarrow> int \<Rightarrow> bool \<Rightarrow> fstate \<Rightarrow> fstate option" where
  "close_event e i from_sigio s =
     (if i < 0 then Some s
      else (case draw e s of (r, s0) \<Rightarrow>
        if i_close (e_ignore e) then Some s0
        else if \<not> index_ok i (event_data s0) then None
        else (let s1 = upd_event (nat i) (\<lambda>v. v\<lparr>e_active := False\<rparr>) s0;
                  v = event_data s1 ! nat i;
                  s3 = (if r mod 2 \<noteq> 0
                        then map_option (do_close e (e_fd v) from_sigio) (unmap_mmap e (e_mmap v) from_sigio s1)
                        else unmap_mmap e (e_mmap v) from_sigio (do_close e (e_fd v) from_sigio s1))
              in map_option (\<lambda>s. s\<lparr>active_events := active_events s - 1\<rparr>) s3)))"

definition close_random_event :: "env \<Rightarrow> fstate \<Rightarrow> fstate option" where
  "close_random_event e s =
     (case find_random_active_event e s of (i, s1) \<Rightarrow> close_event e i False s1)"

section \<open>Trashing a mapping, and the random choice\<close>

text \<open>
  The write of one byte to the mapping goes to a field of the control page that no code here
  reads; a segmentation fault in it is caught and the code goes on.
\<close>

definition trash_random_mmap :: "env \<Rightarrow> fstate \<Rightarrow> fstate" where
  "trash_random_mmap e s0 =
     (case find_random_active_mmap e (attempt Ktrash s0) of (i, s) \<Rightarrow>
        if i < 0 then s
        else (case draw e s of (value, s1) \<Rightarrow>
          (let m = mmaps s1 ! nat i in
           if i_trash_mmap (e_ignore e) then s1
           else if m_prot m AND PROT_WRITE = 0 then s1
           else if m_aux m \<and> m_prot m AND PROT_WRITE \<noteq> 0 then s1
           else success Ktrash
             (log_line e TYPE_TRASH_MMAP
               (words [''Q'', show_int value, show_int (e_page_size e), show_int (m_fd m)]) s1))))"

definition mmap_random_event :: "env \<Rightarrow> u32 \<Rightarrow> fstate \<Rightarrow> fstate option" where
  "mmap_random_event e ty s =
     (case draw e s of (r, s1) \<Rightarrow>
      (let k = r mod 6 in
       if k = 0 then (case find_random_active_event e s1 of (which, s2) \<Rightarrow>
         map_option snd (setup_mmap e which s2))
       else if k = 2 then (case find_random_active_mmap e s1 of (which, s2) \<Rightarrow>
         if which \<ge> 0 then unmap_mmap e which False s2 else Some s2)
       else if k = 3 then (case find_random_active_mmap e s1 of (which, s2) \<Rightarrow>
         if which \<ge> 0 then map_option snd (perf_mmap_read e which s2) else Some s2)
       else if k = 4 then
         (if has ty TYPE_TRASH_MMAP then Some (trash_random_mmap e s1) else Some s1)
       else Some s1))"

end
