(* ===== verification/FuzzInv.thy ===== *)
theory FuzzInv
  imports FuzzMmap
begin

text \<open>
  The invariant of the table of mappings: the counter is the number of active slots, an
  active slot has an address and a size, and an inactive one has nothing to unmap.
\<close>

section \<open>What the kernel promises\<close>

text \<open>
  \<open>mmap\<close> and \<open>munmap\<close> refuse a length of zero, and \<open>munmap\<close> of a mapping that was made
  succeeds.
\<close>

definition kernel_ok :: "env \<Rightarrow> bool" where
  "kernel_ok e \<longleftrightarrow>
     (\<forall>t a prot fl fd off. k_mmap e t a 0 prot fl fd off = MAP_FAILED) \<and>
     (\<forall>t a sz. a \<noteq> MAP_FAILED \<longrightarrow> sz \<noteq> 0 \<longrightarrow> k_munmap e t a sz = 0) \<and>
     (\<forall>t a. k_munmap e t a 0 \<noteq> 0)"

definition slot_ok :: "our_mmap_t \<Rightarrow> bool" where
  "slot_ok m \<longleftrightarrow> (if m_active m then m_addr m \<noteq> MAP_FAILED \<and> m_size m \<noteq> 0
                 else m_addr m = MAP_FAILED \<or> m_size m = 0)"

definition maps_ok :: "fstate \<Rightarrow> bool" where
  "maps_ok s \<longleftrightarrow> active_mmaps s = int (actives m_active (mmaps s)) \<and> (\<forall>m\<in>set (mmaps s). slot_ok m)"

section \<open>What the small steps leave alone\<close>

lemma frame_simps [simp]:
  "mmaps (attempt k s) = mmaps s" "active_mmaps (attempt k s) = active_mmaps s"
  "mmaps (success k s) = mmaps s" "active_mmaps (success k s) = active_mmaps s"
  "mmaps (count_syscall s) = mmaps s" "active_mmaps (count_syscall s) = active_mmaps s"
  "mmaps (log_line e ty l s) = mmaps s" "active_mmaps (log_line e ty l s) = active_mmaps s"
  "mmaps (log_unless sg e ty l s) = mmaps s" "active_mmaps (log_unless sg e ty l s) = active_mmaps s"
  "mmaps (syscall s) = mmaps s" "active_mmaps (syscall s) = active_mmaps s"
  "mmaps (upd_event i g s) = mmaps s" "active_mmaps (upd_event i g s) = active_mmaps s"
  "mmaps (set_tail a h s) = mmaps s" "active_mmaps (set_tail a h s) = active_mmaps s"
  "mmaps (set_aux_tail a h s) = mmaps s" "active_mmaps (set_aux_tail a h s) = active_mmaps s"
  "mmaps (set_aux_area a o1 z s) = mmaps s" "active_mmaps (set_aux_area a o1 z s) = active_mmaps s"
  "mmaps (count_mapped s) = mmaps s" "active_mmaps (count_mapped s) = active_mmaps s + 1"
  "mmaps (upd_stats h2 s) = mmaps s" "active_mmaps (upd_stats h2 s) = active_mmaps s"
  "active_mmaps (upd_mmap i f s) = active_mmaps s"
  "active_mmaps (activate i s) = active_mmaps s"
  by (simp_all add: attempt_def success_def count_syscall_def upd_stats_def log_line_def log_unless_def syscall_def
      upd_event_def set_tail_def set_aux_tail_def set_aux_area_def count_mapped_def upd_mmap_def
      activate_def)

lemma frame_events [simp]:
  "event_data (attempt k s) = event_data s" "event_data (success k s) = event_data s"
  "event_data (count_syscall s) = event_data s" "event_data (log_line e ty l s) = event_data s"
  "event_data (log_unless sg e ty l s) = event_data s"
  "event_data (syscall s) = event_data s" "event_data (upd_mmap i f s) = event_data s"
  "event_data (activate i s) = event_data s" "event_data (count_mapped s) = event_data s"
  "event_data (set_aux_area a o1 z s) = event_data s" "event_data (upd_stats h2 s) = event_data s"
  "event_data (set_tail a h s) = event_data s" "event_data (set_aux_tail a h s) = event_data s"
  by (simp_all add: attempt_def success_def count_syscall_def upd_stats_def log_line_def log_unless_def syscall_def
      upd_mmap_def activate_def count_mapped_def set_aux_area_def set_tail_def set_aux_tail_def)

lemma mmaps_upd: "mmaps (upd_mmap i f s) = (mmaps s)[i := f (mmaps s ! i)]"
  by (simp add: upd_mmap_def)

lemma mmaps_activate: "mmaps (activate i s) = (mmaps s)[i := (mmaps s ! i)\<lparr>m_active := True\<rparr>]"
  by (simp add: activate_def mmaps_upd)

lemma draw_frame: "draw e s = (r, s1) \<Longrightarrow> mmaps s1 = mmaps s \<and> active_mmaps s1 = active_mmaps s
    \<and> event_data s1 = event_data s \<and> active_events s1 = active_events s \<and> stats s1 = stats s"
  by (auto simp: draw_def)

lemma maps_ok_cong: "mmaps s1 = mmaps s \<Longrightarrow> active_mmaps s1 = active_mmaps s \<Longrightarrow> maps_ok s1 = maps_ok s"
  by (simp add: maps_ok_def)

section \<open>Replacing a slot\<close>

lemma slot_ok_replace:
  "maps_ok s \<Longrightarrow> slot_ok m \<Longrightarrow> x \<in> set ((mmaps s)[i := m]) \<Longrightarrow> slot_ok x"
  using set_update_subset_insert [of "mmaps s" i m] by (auto simp: maps_ok_def)

text \<open>A free slot is rewritten and stays free, or is taken; an active slot is released.\<close>

lemma maps_ok_rewrite:
  assumes "maps_ok s" and "i < length (mmaps s)" and "mmaps s1 = (mmaps s)[i := m]"
    and "m_active m = m_active (mmaps s ! i)" and "slot_ok m" and "active_mmaps s1 = active_mmaps s"
  shows "maps_ok s1"
  using assms slot_ok_replace [OF assms(1,5)] actives_same [OF assms(2), of m_active m]
  unfolding maps_ok_def by simp

lemma maps_ok_take:
  assumes "maps_ok s" and "i < length (mmaps s)" and "\<not> m_active (mmaps s ! i)"
    and "mmaps s1 = (mmaps s)[i := m]" and "m_active m" and "slot_ok m"
    and "active_mmaps s1 = active_mmaps s + 1"
  shows "maps_ok s1"
  using assms slot_ok_replace [OF assms(1,6)] actives_set [OF assms(2), of m_active m]
  unfolding maps_ok_def by simp

lemma maps_ok_release:
  assumes "maps_ok s" and "i < length (mmaps s)" and "m_active (mmaps s ! i)"
    and "mmaps s1 = (mmaps s)[i := m]" and "\<not> m_active m" and "slot_ok m"
    and "active_mmaps s1 = active_mmaps s - 1"
  shows "maps_ok s1"
  using assms slot_ok_replace [OF assms(1,6)] actives_clear [OF assms(2), of m_active m]
  unfolding maps_ok_def by simp

lemma maps_ok_slot: "maps_ok s \<Longrightarrow> i < length (mmaps s) \<Longrightarrow> slot_ok (mmaps s ! i)"
  by (simp add: maps_ok_def)

lemma free_slot:
  assumes "find_empty_mmap s = i" and "\<not> i < 0"
  shows "nat i < length (mmaps s)" and "\<not> m_active (mmaps s ! nat i)"
  using mm.empty_free [of "mmaps s"] assms by (auto simp: find_empty_mmap_def)

section \<open>Every operation keeps the invariant\<close>

lemma draw_slot_frame:
  assumes "draw_slot e i aux s = (sz, prot, flags, s1)"
  shows "mmaps s1 = (mmaps s)[i := (mmaps s ! i)\<lparr>m_addr := MAP_FAILED, m_prot := prot,
      m_flags := flags, m_size := sz, m_aux := aux\<rparr>]"
    and "active_mmaps s1 = active_mmaps s" and "event_data s1 = event_data s"
  using assms by (auto simp: draw_slot_def mmaps_upd split: prod.splits)

lemma call_mmap_frame:
  assumes "call_mmap e i addr sz prot flags fd o1 s = (a, s1)"
  shows "mmaps s1 = (mmaps s)[i := (mmaps s ! i)\<lparr>m_addr := a\<rparr>]" "active_mmaps s1 = active_mmaps s"
    "event_data s1 = event_data s"
    and "kernel_ok e \<Longrightarrow> sz = 0 \<Longrightarrow> a = MAP_FAILED"
  using assms by (auto simp: call_mmap_def mmaps_upd kernel_ok_def Let_def)

lemma mapped_frame:
  "mmaps (mapped e k i w f sz fd a s) = (mmaps s)[i := f (mmaps s ! i)]"
  "active_mmaps (mapped e k i w f sz fd a s) = active_mmaps s + 1"
  by (simp_all add: mapped_def mmaps_upd)

lemma slot_ok_failed: "\<not> m_active m \<Longrightarrow> m_addr m = MAP_FAILED \<Longrightarrow> slot_ok m"
  by (simp add: slot_ok_def)

lemma slot_ok_mapped: "m_active m \<Longrightarrow> m_addr m \<noteq> MAP_FAILED \<Longrightarrow> m_size m \<noteq> 0 \<Longrightarrow> slot_ok m"
  by (simp add: slot_ok_def)

lemma setup_mmap_aux_maps_ok:
  assumes "maps_ok s" and "kernel_ok e" and "\<not> i_mmap (e_ignore e)"
    and "setup_mmap_aux e w1 w2 s = Some (r, s')"
  shows "maps_ok s'"
proof (cases "find_empty_mmap s < 0")
  case True
  with assms show ?thesis by (simp add: setup_mmap_aux_def)
next
  case False
  let ?i = "nat (find_empty_mmap s)"
  note free = free_slot [OF refl False]
  obtain sz prot flags s0 where ds: "draw_slot e ?i True s = (sz, prot, flags, s0)"
    by (metis prod_cases4)
  note fr = draw_slot_frame [OF ds]
  let ?s1 = "upd_mmap ?i (\<lambda>m. m\<lparr>m_parent_mmap := w2\<rparr>) s0"
  let ?pm = "mmaps ?s1 ! nat w2" and ?fd = "e_fd (event_data ?s1 ! nat w1)"
  let ?s3 = "if m_addr ?pm \<noteq> 0 \<and> m_prot ?pm AND PROT_WRITE \<noteq> 0
    then set_aux_area (m_addr ?pm) (m_size ?pm) sz (attempt Kaux ?s1) else attempt Kaux ?s1"
  obtain a s4 where cm: "call_mmap e ?i 0 sz prot flags ?fd (m_size ?pm) ?s3 = (a, s4)"
    by fastforce
  note cf = call_mmap_frame [OF cm]
  have s3: "mmaps ?s3 = mmaps ?s1" "active_mmaps ?s3 = active_mmaps ?s1" by simp_all
  have m4: "mmaps s4 = (mmaps s)[?i := (mmaps s ! ?i)\<lparr>m_prot := prot,
      m_flags := flags, m_size := sz, m_aux := True, m_parent_mmap := w2, m_addr := a\<rparr>]"
    and c4: "active_mmaps s4 = active_mmaps s"
    using cf(1,2) [unfolded s3] fr free(1) by (simp_all add: mmaps_upd)
  from assms(4) have res: "s' = (if a = MAP_FAILED then s4
      else activate ?i (mapped e Kaux ?i w1 (\<lambda>m. m\<lparr>m_fd := ?fd\<rparr>) sz ?fd a s4))"
    unfolding setup_mmap_aux_def Let_def using False assms(3)
    by (simp only: if_False ds prod.case cm split: if_splits) simp_all
  show ?thesis
  proof (cases "a = MAP_FAILED")
    case True
    with res have "s' = s4" by simp
    moreover have "maps_ok s4" using free True
      by (intro maps_ok_rewrite [OF assms(1) free(1) m4 _ _ c4]) (simp_all add: slot_ok_failed)
    ultimately show ?thesis by simp
  next
    case False
    with cf(4) [OF assms(2)] have "sz \<noteq> 0" by blast
    from False res have s': "mmaps s' = (mmaps s)[?i := (mmaps s ! ?i)\<lparr>m_prot := prot,
      m_flags := flags, m_size := sz, m_aux := True, m_parent_mmap := w2, m_addr := a, m_fd := ?fd,
      m_active := True\<rparr>]" "active_mmaps s' = active_mmaps s + 1"
      using m4 c4 free by (simp_all add: mmaps_activate mapped_frame)
    show ?thesis using False \<open>sz \<noteq> 0\<close>
      by (intro maps_ok_take [OF assms(1) free s'(1) _ _ s'(2)]) (simp_all add: slot_ok_mapped)
  qed
qed

lemma try_mmap_frame:
  assumes "try_mmap e i w sz prot flags s = Some (ok, s1)" and "i < length (mmaps s)"
  shows "\<not> ok \<Longrightarrow> mmaps s1 = (mmaps s)[i := (mmaps s ! i)\<lparr>m_addr := MAP_FAILED\<rparr>] \<and>
           active_mmaps s1 = active_mmaps s"
    and "ok \<Longrightarrow> \<exists>a fd. a \<noteq> MAP_FAILED \<and> (kernel_ok e \<longrightarrow> sz \<noteq> 0) \<and>
           mmaps s1 = (mmaps s)[i := (mmaps s ! i)\<lparr>m_addr := a, m_fd := fd, m_which_event := w\<rparr>] \<and>
           active_mmaps s1 = active_mmaps s + 1"
proof -
  obtain r s2 where dr: "draw e s = (r, s2)" by fastforce
  note df = draw_frame [OF dr]
  let ?s3 = "count_syscall (attempt Kmmap s2)"
  let ?addr = "if r mod 20 = 0 then e_address e (rpos s2) else 0"
  let ?fd = "e_fd (event_data ?s3 ! nat w)"
  obtain a s4 where cm: "call_mmap e i ?addr sz prot flags ?fd 0 ?s3 = (a, s4)" by fastforce
  note cf = call_mmap_frame [OF cm]
  from assms(1) have res: "(ok, s1) = (if a = MAP_FAILED then (False, s4)
      else (True, mapped e Kmmap i w (\<lambda>m. m\<lparr>m_fd := ?fd, m_which_event := w\<rparr>) sz ?fd a s4))"
    unfolding try_mmap_def Let_def
    by (simp only: dr prod.case cm split: if_splits) simp_all
  have m4: "mmaps s4 = (mmaps s)[i := (mmaps s ! i)\<lparr>m_addr := a\<rparr>]" "active_mmaps s4 = active_mmaps s"
    using cf(1,2) df by simp_all
  show "\<not> ok \<Longrightarrow> mmaps s1 = (mmaps s)[i := (mmaps s ! i)\<lparr>m_addr := MAP_FAILED\<rparr>] \<and>
           active_mmaps s1 = active_mmaps s"
    using res m4 by (simp split: if_splits)
  assume ok
  with res have "a \<noteq> MAP_FAILED" and
    "s1 = mapped e Kmmap i w (\<lambda>m. m\<lparr>m_fd := ?fd, m_which_event := w\<rparr>) sz ?fd a s4"
    by (simp_all split: if_splits)
  with m4 cf(4) assms(2) show "\<exists>a fd. a \<noteq> MAP_FAILED \<and> (kernel_ok e \<longrightarrow> sz \<noteq> 0) \<and>
           mmaps s1 = (mmaps s)[i := (mmaps s ! i)\<lparr>m_addr := a, m_fd := fd, m_which_event := w\<rparr>] \<and>
           active_mmaps s1 = active_mmaps s + 1"
    by (intro exI [of _ a] exI [of _ ?fd]) (auto simp: mapped_frame)
qed

lemma setup_mmap_maps_ok:
  assumes "maps_ok s" and "kernel_ok e" and "\<not> i_mmap (e_ignore e)"
    and "setup_mmap e w s = Some (r, s')"
  shows "maps_ok s'"
proof (cases "find_empty_mmap s < 0")
  case True
  with assms show ?thesis by (simp add: setup_mmap_def)
next
  case False
  let ?i = "nat (find_empty_mmap s)"
  note free = free_slot [OF refl False]
  obtain sz prot flags s1 where ds: "draw_slot e ?i False s = (sz, prot, flags, s1)"
    by (metis prod_cases4)
  note fr = draw_slot_frame [OF ds]
  from assms(4) False assms(3) obtain ok s5 where tm: "try_mmap e ?i w sz prot flags s1 = Some (ok, s5)"
    by (auto simp: setup_mmap_def Let_def ds split: option.splits)
  have i1: "?i < length (mmaps s1)" using free fr by simp
  note tf = try_mmap_frame [OF tm i1]
  show ?thesis
  proof (cases ok)
    case False
    with assms(4) \<open>\<not> find_empty_mmap s < 0\<close> assms(3) have "s' = s5"
      by (simp add: setup_mmap_def Let_def ds tm)
    moreover have s5: "mmaps s5 = (mmaps s)[?i := (mmaps s ! ?i)\<lparr>m_prot := prot,
      m_flags := flags, m_size := sz, m_aux := False, m_addr := MAP_FAILED\<rparr>]" "active_mmaps s5 = active_mmaps s"
      using tf(1) [OF False] fr free by simp_all
    moreover have "maps_ok s5" using free
      by (intro maps_ok_rewrite [OF assms(1) free(1) s5(1) _ _ s5(2)]) (simp_all add: slot_ok_failed)
    ultimately show ?thesis by simp
  next
    case True
    from tf(2) [OF this] assms(2) obtain a fd where a: "a \<noteq> MAP_FAILED" "sz \<noteq> 0"
      "mmaps s5 = (mmaps s1)[?i := (mmaps s1 ! ?i)\<lparr>m_addr := a, m_fd := fd, m_which_event := w\<rparr>]"
      "active_mmaps s5 = active_mmaps s1 + 1" by blast
    obtain r6 s6 where dr: "draw e (activate ?i s5) = (r6, s6)" by fastforce
    have s5: "mmaps (activate ?i s5) = (mmaps s)[?i := (mmaps s ! ?i)\<lparr>m_prot := prot,
      m_flags := flags, m_size := sz, m_aux := False, m_addr := a, m_fd := fd, m_which_event := w,
      m_active := True\<rparr>]" "active_mmaps (activate ?i s5) = active_mmaps s + 1"
      using a fr free by (simp_all add: mmaps_activate)
    have "maps_ok (activate ?i s5)" using a(1,2)
      by (intro maps_ok_take [OF assms(1) free s5(1) _ _ s5(2)]) (simp_all add: slot_ok_mapped)
    then have ok6: "maps_ok s6" using maps_ok_cong [of s6 "activate ?i s5"] draw_frame [OF dr] by simp
    show ?thesis
    proof (cases "r6 mod 4 = 0")
      case True
      with assms(4) \<open>\<not> find_empty_mmap s < 0\<close> assms(3) \<open>ok\<close> obtain q where
        "setup_mmap_aux e w (find_empty_mmap s) s6 = Some (q, s')"
        by (auto simp: setup_mmap_def Let_def ds tm dr)
      from setup_mmap_aux_maps_ok [OF ok6 assms(2,3) this] show ?thesis .
    next
      case False
      with assms(4) \<open>\<not> find_empty_mmap s < 0\<close> assms(3) \<open>ok\<close> have "s' = s6"
        by (auto simp: setup_mmap_def Let_def ds tm dr)
      with ok6 show ?thesis by simp
    qed
  qed
qed

lemma unmap_mmap_maps_ok:
  assumes "maps_ok s" and "kernel_ok e" and "unmap_mmap e i sg s = Some s'"
  shows "maps_ok s'"
proof -
  let ?i = "nat i" and ?m = "mmaps s ! nat i"
  from assms(3) have i: "?i < length (mmaps s)"
    by (auto simp: unmap_mmap_def Let_def index_ok_def split: if_splits)
  note ok = maps_ok_slot [OF assms(1) i]
  show ?thesis
  proof (cases "m_addr ?m = MAP_FAILED")
    case True
    with assms(3) have "s' = count_syscall (attempt Kunmap s)"
      by (simp add: unmap_mmap_def Let_def split: if_splits)
    with assms(1) show ?thesis by (simp add: maps_ok_def)
  next
    case addr: False
    let ?s1 = "upd_mmap ?i (\<lambda>m. m\<lparr>m_active := False\<rparr>) (count_syscall (attempt Kunmap s))"
    let ?t = "sysno ?s1"
    let ?s3 = "upd_mmap ?i (\<lambda>m. m\<lparr>m_addr := MAP_FAILED\<rparr>) (log_unless sg e TYPE_MMAP
      (words [''U'', show_int (m_fd ?m), show_int (m_size ?m), show_ptr (m_addr ?m)]) (syscall ?s1))"
    have res: "s' = (if k_munmap e ?t (m_addr ?m) (m_size ?m) = 0
        then success Kunmap (?s3\<lparr>active_mmaps := active_mmaps ?s3 - 1\<rparr>) else ?s3)"
      using assms(3) addr by (simp add: unmap_mmap_def Let_def split: if_splits)
    have m3: "mmaps ?s3 = (mmaps s)[?i := ?m\<lparr>m_active := False, m_addr := MAP_FAILED\<rparr>]"
      using i by (simp add: mmaps_upd)
    have ms: "mmaps s' = (mmaps s)[?i := ?m\<lparr>m_active := False, m_addr := MAP_FAILED\<rparr>]"
      unfolding res using m3 by simp
    have cnt: "active_mmaps s' = active_mmaps s - (if k_munmap e ?t (m_addr ?m) (m_size ?m) = 0 then 1 else 0)"
      unfolding res by simp
    show ?thesis
    proof (cases "m_active ?m")
      case True
      with ok addr have "m_size ?m \<noteq> 0" by (simp add: slot_ok_def)
      with assms(2) addr have "k_munmap e ?t (m_addr ?m) (m_size ?m) = 0"
        unfolding kernel_ok_def by blast
      with cnt show ?thesis
        by (intro maps_ok_release [OF assms(1) i True ms]) (simp_all add: slot_ok_failed)
    next
      case False
      with ok addr have "m_size ?m = 0" by (simp add: slot_ok_def)
      moreover have "k_munmap e ?t (m_addr ?m) 0 \<noteq> 0"
        using assms(2) unfolding kernel_ok_def by blast
      ultimately show ?thesis using cnt False
        by (intro maps_ok_rewrite [OF assms(1) i ms]) (simp_all add: slot_ok_failed)
    qed
  qed
qed

lemma do_close_maps_ok: "maps_ok (do_close e fd sg s) = maps_ok s"
  by (rule maps_ok_cong) (simp_all add: do_close_def Let_def)

lemma close_event_maps_ok:
  assumes "maps_ok s" and "kernel_ok e" and "close_event e i sg s = Some s'"
  shows "maps_ok s'"
proof -
  obtain r s0 where dr: "draw e s = (r, s0)" by fastforce
  let ?s1 = "upd_event (nat i) (\<lambda>v. v\<lparr>e_active := False\<rparr>) s0"
  have ok1: "maps_ok ?s1" "maps_ok s0"
    using assms(1) draw_frame [OF dr] by (simp_all add: maps_ok_def)
  have set: "maps_ok (s\<lparr>active_events := k\<rparr>) = maps_ok s" for s k
    by (rule maps_ok_cong) simp_all
  note un = unmap_mmap_maps_ok [OF _ assms(2)]
  let ?v = "event_data ?s1 ! nat i"
  show ?thesis
  proof (cases "i < 0 \<or> i_close (e_ignore e)")
    case True
    with assms(1,3) ok1(2) show ?thesis by (auto simp: close_event_def dr split: if_splits)
  next
    case live: False
    from assms(3) live have idx: "index_ok i (event_data s0)"
      by (simp add: close_event_def dr split: if_splits)
    show ?thesis
    proof (cases "r mod 2 \<noteq> 0")
      case True
      with assms(3) live idx obtain s2 where "unmap_mmap e (e_mmap ?v) sg ?s1 = Some s2"
        "s' = (do_close e (e_fd ?v) sg s2)\<lparr>active_events := active_events (do_close e (e_fd ?v) sg s2) - 1\<rparr>"
        unfolding close_event_def Let_def dr prod.case by (simp only: if_True if_False) auto
      with un [OF ok1(1)] show ?thesis by (simp add: set do_close_maps_ok)
    next
      case False
      with assms(3) live idx obtain s2 where "unmap_mmap e (e_mmap ?v) sg (do_close e (e_fd ?v) sg ?s1) = Some s2"
        "s' = s2\<lparr>active_events := active_events s2 - 1\<rparr>"
        unfolding close_event_def Let_def dr prod.case by (simp only: if_True if_False) auto
      with un [of "do_close e (e_fd ?v) sg ?s1"] ok1(1) show ?thesis
        by (simp add: set do_close_maps_ok)
    qed
  qed
qed

lemma find_random_frame:
  "find_random_active_event e s = (i, s1) \<Longrightarrow> maps_ok s1 = maps_ok s"
  "find_random_active_mmap e s = (i, s1) \<Longrightarrow> maps_ok s1 = maps_ok s"
proof -
  obtain r t where d: "draw e s = (r, t)" by fastforce
  have "maps_ok t = maps_ok s" using draw_frame [OF d] by (simp add: maps_ok_def)
  then show "find_random_active_event e s = (i, s1) \<Longrightarrow> maps_ok s1 = maps_ok s"
    and "find_random_active_mmap e s = (i, s1) \<Longrightarrow> maps_ok s1 = maps_ok s"
    by (auto simp: find_random_active_event_def find_random_active_mmap_def d split: if_splits)
qed

lemma trash_maps_ok: "maps_ok (trash_random_mmap e s) = maps_ok s"
proof -
  obtain i s1 where f: "find_random_active_mmap e (attempt Ktrash s) = (i, s1)" by fastforce
  obtain r s2 where d: "draw e s1 = (r, s2)" by fastforce
  have "maps_ok s1 = maps_ok s"
    using find_random_frame(2) [OF f] by (simp add: maps_ok_def)
  moreover have "maps_ok s2 = maps_ok s1" using draw_frame [OF d] by (simp add: maps_ok_def)
  moreover have "maps_ok (success k (log_line e t l s2)) = maps_ok s2" for k t l
    by (rule maps_ok_cong) simp_all
  ultimately show ?thesis by (simp add: trash_random_mmap_def f d Let_def)
qed

lemma upd_head_maps_ok:
  assumes "i < length (mmaps s)" and "mmaps s1 = (mmaps s)[i := m]"
    and "m_active m = m_active (mmaps s ! i)" "m_addr m = m_addr (mmaps s ! i)"
      "m_size m = m_size (mmaps s ! i)"
    and "active_mmaps s1 = active_mmaps s" and "maps_ok s"
  shows "maps_ok s1"
  using maps_ok_slot [OF assms(7,1)] assms(3-5)
  by (intro maps_ok_rewrite [OF assms(7,1,2,3) _ assms(6)]) (simp add: slot_ok_def)

lemma perf_mmap_read_maps_ok:
  assumes "maps_ok s" and "perf_mmap_read e i s = Some (r, s')"
  shows "maps_ok s'"
proof -
  have i: "nat i < length (mmaps s)"
    using assms(2) by (auto simp: perf_mmap_read_def index_ok_def split: if_splits)
  have "(mmaps s' = mmaps s \<or> (\<exists>h. mmaps s' = (mmaps s)[nat i := (mmaps s ! nat i)\<lparr>m_head := h\<rparr>]) \<or>
      (\<exists>h. mmaps s' = (mmaps s)[nat i := (mmaps s ! nat i)\<lparr>m_aux_head := h\<rparr>]))
    \<and> active_mmaps s' = active_mmaps s"
    using assms(2)
    by (auto simp: perf_mmap_read_def perf_mmap_aux_read_def Let_def mmaps_upd split: if_splits)
  then show ?thesis
    using upd_head_maps_ok [OF i _ _ _ _ _ assms(1)] assms(1)
    by (elim conjE disjE exE) (simp_all add: maps_ok_def)
qed

lemma mmap_random_event_maps_ok:
  assumes "maps_ok s" and "kernel_ok e" and "\<not> i_mmap (e_ignore e)"
    and "mmap_random_event e ty s = Some s'"
  shows "maps_ok s'"
proof -
  obtain r s1 where dr: "draw e s = (r, s1)" by fastforce
  have ok1: "maps_ok s1" using assms(1) draw_frame [OF dr] by (simp add: maps_ok_def)
  obtain w s2 where fe: "find_random_active_event e s1 = (w, s2)" by fastforce
  obtain m s3 where fm: "find_random_active_mmap e s1 = (m, s3)" by fastforce
  have ok: "maps_ok s2" "maps_ok s3"
    using find_random_frame(1) [OF fe] find_random_frame(2) [OF fm] ok1 by simp_all
  show ?thesis
    using assms(4) ok ok1 setup_mmap_maps_ok [OF ok(1) assms(2,3)] unmap_mmap_maps_ok [OF ok(2) assms(2)]
      perf_mmap_read_maps_ok [OF ok(2)]
    unfolding mmap_random_event_def Let_def dr fe fm prod.case
    by (auto simp: trash_maps_ok split: if_splits)
qed

end
