(* ===== verification/FuzzRuns.thy ===== *)
theory FuzzRuns
  imports FuzzInv
begin

text \<open>
  Runs of the fuzzer's operations on mappings, and a small environment and state on which the
  witnesses of the fuzzer's properties run.
\<close>

section \<open>Runs\<close>

definition zero_mmap :: our_mmap_t where
  "zero_mmap = \<lparr>m_active = False, m_addr = 0, m_size = 0, m_fd = 0, m_prot = 0, m_flags = 0,
     m_head = 0, m_aux_head = 0, m_aux = False, m_parent_mmap = 0, m_which_event = 0\<rparr>"

text \<open>A step of the fuzzer on the mappings, with any arguments, and the runs of such steps.\<close>

inductive mm_step :: "env \<Rightarrow> fstate \<Rightarrow> fstate \<Rightarrow> bool" for e where
  Setup: "setup_mmap e w s = Some (r, s') \<Longrightarrow> mm_step e s s'"
| Unmap: "unmap_mmap e i sg s = Some s' \<Longrightarrow> mm_step e s s'"
| Read: "perf_mmap_read e i s = Some (h, s') \<Longrightarrow> mm_step e s s'"
| Trash: "mm_step e s (trash_random_mmap e s)"
| Close: "close_event e i sg s = Some s' \<Longrightarrow> mm_step e s s'"
| Random: "mmap_random_event e ty s = Some s' \<Longrightarrow> mm_step e s s'"

inductive_cases mm_stepE: "mm_step e s s'"

inductive mm_run :: "env \<Rightarrow> fstate \<Rightarrow> fstate \<Rightarrow> bool" for e where
  Start: "mm_run e s s"
| Step: "mm_run e s s' \<Longrightarrow> mm_step e s' s'' \<Longrightarrow> mm_run e s s''"

lemma mm_step_maps_ok:
  assumes "mm_step e s s'" and "maps_ok s" and "kernel_ok e" and "\<not> i_mmap (e_ignore e)"
  shows "maps_ok s'"
  using assms(1)
  by (cases rule: mm_stepE)
    (use assms(2-4) in \<open>auto simp: trash_maps_ok intro: setup_mmap_maps_ok unmap_mmap_maps_ok
      perf_mmap_read_maps_ok close_event_maps_ok mmap_random_event_maps_ok\<close>)

lemma mm_run_maps_ok:
  "mm_run e s s' \<Longrightarrow> maps_ok s \<Longrightarrow> kernel_ok e \<Longrightarrow> \<not> i_mmap (e_ignore e) \<Longrightarrow> maps_ok s'"
  by (induction rule: mm_run.induct) (blast intro: mm_step_maps_ok)+

lemma actives_replicate: "\<not> act x \<Longrightarrow> actives act (replicate n x) = 0"
  by (simp add: actives_def)

lemma initial_maps_ok:
  "mmaps s = replicate n zero_mmap \<Longrightarrow> active_mmaps s = 0 \<Longrightarrow> maps_ok s"
  by (auto simp: maps_ok_def actives_replicate zero_mmap_def slot_ok_def)

section \<open>Examples\<close>

definition ex_skip :: skip_t where
  "ex_skip = \<lparr>i_mmap = False, i_open = False, i_close = False, i_read = False, i_write = False,
     i_ioctl = False, i_fork = False, i_prctl = False, i_poll = False, i_trash_mmap = False,
     i_overflow = False, i_million = False, i_access = False, i_vsyscall = False, i_affinity = False\<rparr>"

definition zero_attr :: perf_event_attr where
  "zero_attr = \<lparr>a_type = 0, a_size = 0, a_config = 0, a_sample_period = 0, a_sample_type = 0,
     a_read_format = 0, a_bits = 0, a_wakeup_events = 0, a_bp_type = 0, a_config1 = 0,
     a_config2 = 0, a_branch_sample_type = 0, a_sample_regs_user = 0, a_sample_stack_user = 0,
     a_clockid = 0, a_sample_regs_intr = 0, a_aux_watermark = 0, a_sample_max_stack = 0,
     a_reserved_2 = 0, a_aux_sample_size = 0, a_aux_action = 0, a_sig_data = 0, a_config3 = 0,
     a_config4 = 0\<rparr>"

text \<open>A kernel that maps everything with a size at 0x10000, unmaps what has a size, and \<open>rand() = 7\<close>.\<close>

definition ex_env :: env where
  "ex_env = \<lparr>e_rand = (\<lambda>_. 7), e_page_size = 4096, e_logging = 0, e_ignore = ex_skip,
     k_mmap = (\<lambda>t a sz prot fl fd o1. if sz = 0 then MAP_FAILED else 0x10000),
     k_munmap = (\<lambda>t a sz. if sz = 0 then - 1 else 0), k_close = (\<lambda>t fd. 0),
     k_read = (\<lambda>t fd n. n), k_write = (\<lambda>t fd n. n), k_poll = (\<lambda>t fds n. 1), k_prctl = (\<lambda>t b. 0),
     k_fork = (\<lambda>t. (100, 0)), k_ioctl = (\<lambda>t fd r a. 0), k_data_head = (\<lambda>t a. 0),
     k_aux_head = (\<lambda>t a. 0), e_address = (\<lambda>t. 0),
     e_sanitise = (\<lambda>p. (\<lparr>o_attr = zero_attr, o_pid = 0, o_group_fd = - 1, o_flags = 0, o_trinity_type = 0\<rparr>, p)),
     e_get_cpu = (\<lambda>p. (0, p)), k_open = (\<lambda>t a pid cpu g f. (int t + 10, 0)),
     k_open_file = (\<lambda>t w f. 9), k_setaffinity = (\<lambda>t cs. 0), k_kprobe = (\<lambda>t. (True, Some 1, 8)),
     e_trace_events = [], e_vsyscall = True, e_garbage = (\<lambda>t. 0), k_event_id = (\<lambda>t. 0), e_ptr = (\<lambda>x. 0),
     e_stop_after = 3, e_log_fd = 1\<rparr>"

definition zero_stats :: fuzzer_stats where
  "zero_stats = \<lparr>total_syscalls = 0, total_iterations = 0, overflows = 0, already_overflows = 0,
     sigios = 0, current_open = 0, attempts = (\<lambda>_. 0), successful = (\<lambda>_. 0),
     open_errno_count = (\<lambda>_. 0), fork_errno_count = (\<lambda>_. 0), open_type_success = (\<lambda>_. 0),
     open_type_fail = (\<lambda>_. 0), open_trinity_type_success = (\<lambda>_. 0), open_trinity_type_fail = (\<lambda>_. 0),
     ioctl_type_success = (\<lambda>_. 0), ioctl_type_fail = (\<lambda>_. 0)\<rparr>"

definition ex_event :: "int \<Rightarrow> event_data_t" where
  "ex_event fd = \<lparr>e_active = True, e_fd = fd, e_attr = zero_attr, e_pid = 0, e_cpu = 0,
     e_group_fd = - 1, e_flags = 0, e_read_size = 8, e_number_in_group = 1, e_mmap = 0,
     e_last_refresh = 0, e_overflows = 0, e_throttles = 0\<rparr>"

definition ex_state :: fstate where
  "ex_state = \<lparr>rpos = 0, sysno = 0, event_data = [ex_event 4, ex_event 5], active_events = 2,
     mmaps = replicate 4 zero_mmap, active_mmaps = 0, stats = zero_stats, flog = [],
     pages = (\<lambda>_. \<lparr>ctl_data_tail = 0, ctl_aux_tail = 0, ctl_aux_offset = 0, ctl_aux_size = 0\<rparr>),
     already_forked = False, forked_pid = 0, forks = [], killed = [], ioctls = [], already_handling = False,
     last_fd = 0, h_next_refresh = 0, next_refresh = 0, next_overflow_refresh = 0,
     throttle_close_event = 0, watchdog_counter = 0, open_fds = replicate 5 0, open_files = 0,
     kprobe_initialized = False, kprobe_id = 0, bpf_fd = 0, tp_filter = []\<rparr>"

lemma ex_env_ok: "kernel_ok ex_env" "\<not> i_mmap (e_ignore ex_env)" "rand_ok ex_env"
  by (simp_all add: kernel_ok_def ex_env_def ex_skip_def rand_ok_def)

text \<open>Event 0 gets a mapping in slot 0; event 1 never has one.\<close>

definition ex_mapped :: fstate where
  "ex_mapped = snd (the (setup_mmap ex_env 0 ex_state))"

lemma ex_setup: "setup_mmap ex_env 0 ex_state = Some (0, ex_mapped)"
proof -
  have "map_option fst (setup_mmap ex_env 0 ex_state) = Some 0"
    by (simp add: setup_mmap_def ex_env_def ex_skip_def ex_state_def find_empty_mmap_def
        find_empty_slot_def numeral_eq_Suc zero_mmap_def draw_slot_def mmap_random_size_def
        mmap_random_prot_def mmap_random_flags_def Let_def upd_mmap_def try_mmap_def draw_def
        index_ok_def call_mmap_def MAP_FAILED_def mapped_def success_def upd_stats_def log_line_def
        has_def upd_event_def count_mapped_def syscall_def count_syscall_def attempt_def activate_def)
  then show ?thesis unfolding ex_mapped_def by (cases "setup_mmap ex_env 0 ex_state") auto
qed

lemma ex_mapped_table:
  "mmaps ex_mapped = zero_mmap\<lparr>m_active := True, m_addr := 0x10000, m_size := (1 + 128) * 4096,
     m_fd := 4, m_prot := PROT_READ OR PROT_WRITE, m_flags := MAP_SHARED\<rparr> # replicate 3 zero_mmap"
  "event_data ex_mapped = event_data ex_state" "active_mmaps ex_mapped = 1"
  by (simp_all add: ex_mapped_def setup_mmap_def ex_env_def ex_skip_def ex_state_def find_empty_mmap_def
        find_empty_slot_def numeral_eq_Suc zero_mmap_def draw_slot_def mmap_random_size_def
        mmap_random_prot_def mmap_random_flags_def Let_def upd_mmap_def try_mmap_def draw_def
        index_ok_def call_mmap_def MAP_FAILED_def mapped_def success_def upd_stats_def log_line_def
        has_def upd_event_def count_mapped_def syscall_def count_syscall_def attempt_def activate_def
        ex_event_def)

lemma ex_mapped_slots:
  "mmaps ex_mapped ! 0 = zero_mmap\<lparr>m_active := True, m_addr := 0x10000, m_size := (1 + 128) * 4096,
     m_fd := 4, m_prot := PROT_READ OR PROT_WRITE, m_flags := MAP_SHARED\<rparr>"
  "length (mmaps ex_mapped) = 4" "event_data ex_mapped = event_data ex_state" "active_mmaps ex_mapped = 1"
  by (simp_all add: ex_mapped_table)

end
