(* ===== verification/FuzzTheorems.thy ===== *)
theory FuzzTheorems
  imports FuzzRuns
begin

text \<open>
  The properties of the fuzzer's table of mappings: the invariant over all runs, total random
  picks, idempotent unmapping, and what happens to a mapping whose event forgot it.
\<close>

section \<open>Properties\<close>

text \<open>
  C19. In every run of the fuzzer's steps on mappings (set up, unmap, read, trash, close an
  event, the random choice; any arguments, any order) from an empty table (of any size; the
  code has 1024 slots), \<open>active_mmaps\<close>
  is the number of active slots, every active slot has an address and a size, and no
  inactive slot has a mapping: no slot is unmapped twice and none is lost from the count.
\<close>

theorem mmap_table_invariant:
  assumes "mm_run e s s'" and "mmaps s = replicate n zero_mmap" and "active_mmaps s = 0"
    and "kernel_ok e" and "\<not> i_mmap (e_ignore e)"
  shows "active_mmaps s' = int (actives m_active (mmaps s')) \<and> (\<forall>m\<in>set (mmaps s'). slot_ok m)"
  using mm_run_maps_ok [OF assms(1) initial_maps_ok [OF assms(2,3)] assms(4,5)]
  by (simp add: maps_ok_def)

lemma ex_run: "mm_run ex_env ex_state ex_mapped"
  by (rule mm_run.Step [OF mm_run.Start mm_step.Setup [OF ex_setup]])

lemma ex_state_empty: "mmaps ex_state = replicate 4 zero_mmap" "active_mmaps ex_state = 0"
  by (simp_all add: ex_state_def)

theorem mmap_table_invariant_witness:
  "active_mmaps ex_mapped = int (actives m_active (mmaps ex_mapped)) \<and>
     list_all slot_ok (mmaps ex_mapped)"
  using mmap_table_invariant [OF ex_run ex_state_empty ex_env_ok(1,2)] by (simp add: list_all_iff)

text \<open>
  C20. In every such run a random pick of a mapping finds an active one whenever there is one:
  the loop of \<open>find_random_active_mmap\<close> never falls off the end of the table.
\<close>

theorem random_mmap_is_active:
  assumes "mm_run e s s'" and "mmaps s = replicate n zero_mmap" and "active_mmaps s = 0"
    and "kernel_ok e" and "\<not> i_mmap (e_ignore e)" and "rand_ok e"
    and "active_mmaps s' \<noteq> 0" and "find_random_active_mmap e s' = (i, s'')"
  shows "0 \<le> i \<and> nat i < length (mmaps s') \<and> m_active (mmaps s' ! nat i)"
proof -
  have "maps_ok s'"
    by (rule mm_run_maps_ok [OF assms(1) initial_maps_ok [OF assms(2,3)] assms(4,5)])
  then have count: "active_mmaps s' = int (actives m_active (mmaps s'))" by (simp add: maps_ok_def)
  with assms(7) have pos: "0 < active_mmaps s'" by simp
  with assms(8) have "i = pick_mmap (mmaps s') (e_rand e (rpos s') mod active_mmaps s')"
    by (auto simp: find_random_active_mmap_def draw_def)
  moreover have "0 \<le> e_rand e (rpos s')" using assms(6) by (simp add: rand_ok_def)
  ultimately show ?thesis using mm.pick_total [OF count pos] by blast
qed

theorem random_mmap_is_active_witness:
  "m_active (mmaps ex_mapped ! nat (fst (find_random_active_mmap ex_env ex_mapped)))"
  using random_mmap_is_active [OF ex_run ex_state_empty ex_env_ok]
  by (metis ex_mapped_slots(4) prod.exhaust_sel zero_neq_one)

text \<open>
  Unmapping is done once: a second \<open>unmap_mmap\<close> of the same slot makes no \<open>munmap\<close>
  call and leaves the table and the count of active mappings as they are.
\<close>

theorem unmap_mmap_once:
  assumes "unmap_mmap e i sg s = Some s1" and "unmap_mmap e i sg' s1 = Some s2"
  shows "sysno s2 = sysno s1 \<and> mmaps s2 = mmaps s1 \<and> active_mmaps s2 = active_mmaps s1"
proof -
  from assms(1) have i: "index_ok i (mmaps s)"
    by (auto simp: unmap_mmap_def Let_def split: if_splits)
  then have "m_addr (mmaps s1 ! nat i) = MAP_FAILED"
    using assms(1) by (cases "m_addr (mmaps s ! nat i) = MAP_FAILED")
      (auto simp: unmap_mmap_def Let_def index_ok_def mmaps_upd split: if_splits)
  with assms(2) show ?thesis
    by (auto simp: unmap_mmap_def Let_def count_syscall_def attempt_def upd_stats_def split: if_splits)
qed

theorem unmap_mmap_once_witness:
  "\<exists>s1 s2. unmap_mmap ex_env 0 False ex_mapped = Some s1 \<and> unmap_mmap ex_env 0 False s1 = Some s2 \<and>
     sysno s2 = sysno s1"
proof -
  have idx: "index_ok 0 (mmaps ex_mapped)" by (simp add: index_ok_def ex_mapped_slots)
  then obtain s1 where s1: "unmap_mmap ex_env 0 False ex_mapped = Some s1"
    by (fastforce simp: unmap_mmap_def Let_def)
  have "length (mmaps s1) = length (mmaps ex_mapped)"
    using s1 by (auto simp: unmap_mmap_def Let_def mmaps_upd split: if_splits)
  then have "index_ok 0 (mmaps s1)" by (simp add: index_ok_def ex_mapped_slots)
  then obtain s2 where s2: "unmap_mmap ex_env 0 False s1 = Some s2"
    by (fastforce simp: unmap_mmap_def Let_def)
  from s1 s2 unmap_mmap_once [OF s1 s2] show ?thesis by blast
qed

text \<open>
  C22. Closing an event unmaps whatever slot its \<open>mmap\<close> field names, and the field of an
  event that never had a mapping is 0 (or what an earlier event in the slot left): the
  mapping in that slot is destroyed although it belongs to another, still open event.
\<close>

theorem close_event_unmaps_foreign_slot:
  assumes "0 \<le> i" and "nat i < length (event_data s)" and "\<not> i_close (e_ignore e)"
    and "e_mmap (event_data s ! nat i) = int k" and "k < length (mmaps s)"
    and "m_addr (mmaps s ! k) \<noteq> MAP_FAILED"
  shows "\<exists>s'. close_event e i sg s = Some s' \<and> \<not> m_active (mmaps s' ! k) \<and>
     m_addr (mmaps s' ! k) = MAP_FAILED"
proof -
  obtain r s0 where dr: "draw e s = (r, s0)" by fastforce
  note df = draw_frame [OF dr]
  let ?s1 = "upd_event (nat i) (\<lambda>v. v\<lparr>e_active := False\<rparr>) s0"
  let ?v = "event_data ?s1 ! nat i"
  have v: "e_mmap ?v = int k" using assms(2,4) df by (simp add: upd_event_def)
  have un: "\<exists>s2. unmap_mmap e (int k) sg t = Some s2 \<and> \<not> m_active (mmaps s2 ! k) \<and>
      m_addr (mmaps s2 ! k) = MAP_FAILED" if "mmaps t = mmaps s" for t
    using that assms(5,6) by (auto simp: unmap_mmap_def Let_def index_ok_def mmaps_upd)
  have idx: "index_ok i (event_data s0)" using assms(1,2) df by (simp add: index_ok_def)
  have dc: "mmaps (do_close e fd sg t) = mmaps t" for fd t
    by (simp add: do_close_def Let_def)
  show ?thesis
  proof (cases "r mod 2 \<noteq> 0")
    case True
    from un [of ?s1] df obtain s2 where "unmap_mmap e (int k) sg ?s1 = Some s2"
      "\<not> m_active (mmaps s2 ! k)" "m_addr (mmaps s2 ! k) = MAP_FAILED" by auto
    then show ?thesis
      using assms(1,3) True idx by (simp add: close_event_def dr Let_def v dc)
  next
    case False
    have "mmaps (do_close e (e_fd ?v) sg ?s1) = mmaps s" using df by (simp add: dc)
    from un [OF this] obtain s2 where "unmap_mmap e (int k) sg (do_close e (e_fd ?v) sg ?s1) = Some s2"
      "\<not> m_active (mmaps s2 ! k)" "m_addr (mmaps s2 ! k) = MAP_FAILED" by auto
    then show ?thesis
      using assms(1,3) False idx by (simp add: close_event_def dr Let_def v)
  qed
qed

theorem close_event_unmaps_foreign_slot_witness:
  "\<exists>s'. close_event ex_env 1 False ex_mapped = Some s' \<and> m_active (mmaps ex_mapped ! 0) \<and>
     m_which_event (mmaps ex_mapped ! 0) = 0 \<and> \<not> m_active (mmaps s' ! 0)"
proof -
  have "e_mmap (event_data ex_mapped ! nat 1) = int 0" "nat 1 < length (event_data ex_mapped)"
    "\<not> i_close (e_ignore ex_env)" "m_addr (mmaps ex_mapped ! 0) \<noteq> MAP_FAILED"
    "0 < length (mmaps ex_mapped)" "0 \<le> (1::int)"
    by (simp_all add: ex_mapped_slots ex_state_def ex_event_def ex_env_def ex_skip_def MAP_FAILED_def)
  from close_event_unmaps_foreign_slot [OF this(6,2,3,1,5,4), of False]
  show ?thesis by (auto simp: ex_mapped_slots zero_mmap_def)
qed

text \<open>
  C23. The auxiliary mapping takes over the event's \<open>mmap\<close> field: after \<open>setup_mmap_aux\<close>
  succeeds for the mapping in slot \<open>p\<close>, the event names the new slot, which is not \<open>p\<close>, the
  other events are as they were, and slot \<open>p\<close> is still active. So when no other event named
  slot \<open>p\<close>, none does now: no closing of an event releases the main mapping any more.
\<close>

theorem aux_mapping_replaces_main:
  assumes "setup_mmap_aux e w p s = Some (0, s')" and "\<not> i_mmap (e_ignore e)"
    and "0 \<le> p" and "nat p < length (mmaps s)" and "m_active (mmaps s ! nat p)"
  shows "event_data s' = (event_data s)
       [nat w := (event_data s ! nat w)\<lparr>e_mmap := find_empty_mmap s\<rparr>] \<and>
     find_empty_mmap s \<noteq> p \<and> m_active (mmaps s' ! nat p) \<and>
     ((\<forall>i<length (event_data s). i \<noteq> nat w \<longrightarrow> e_mmap (event_data s ! i) \<noteq> p) \<longrightarrow>
        (\<forall>i<length (event_data s'). e_mmap (event_data s' ! i) \<noteq> p))"
proof -
  have ne: "\<not> find_empty_mmap s < 0"
    using assms(1) by (auto simp: setup_mmap_aux_def Let_def split: if_splits)
  let ?i = "nat (find_empty_mmap s)"
  note free = free_slot [OF refl ne]
  have diff: "?i \<noteq> nat p" using free(2) assms(5) by auto
  obtain sz prot flags s0 where ds: "draw_slot e ?i True s = (sz, prot, flags, s0)"
    by (metis prod_cases4)
  note fr = draw_slot_frame [OF ds]
  let ?s1 = "upd_mmap ?i (\<lambda>m. m\<lparr>m_parent_mmap := p\<rparr>) s0"
  let ?pm = "mmaps ?s1 ! nat p" and ?fd = "e_fd (event_data ?s1 ! nat w)"
  let ?s3 = "if m_addr ?pm \<noteq> 0 \<and> m_prot ?pm AND PROT_WRITE \<noteq> 0
    then set_aux_area (m_addr ?pm) (m_size ?pm) sz (attempt Kaux ?s1) else attempt Kaux ?s1"
  obtain a s4 where cm: "call_mmap e ?i 0 sz prot flags ?fd (m_size ?pm) ?s3 = (a, s4)"
    by fastforce
  note cf = call_mmap_frame [OF cm]
  have s3: "mmaps ?s3 = mmaps ?s1" "event_data ?s3 = event_data ?s1" by simp_all
  have idx: "index_ok w (event_data s)" and res:
    "s' = activate ?i (mapped e Kaux ?i w (\<lambda>m. m\<lparr>m_fd := ?fd\<rparr>) sz ?fd a s4)"
    using assms(1) ne assms(2) fr(3) unfolding setup_mmap_aux_def Let_def
    by (simp_all only: if_False ds prod.case cm split: if_splits) auto
  have "event_data s' = (event_data s)[nat w := (event_data s ! nat w)\<lparr>e_mmap := int ?i\<rparr>]"
    using cf(3) s3 fr(3) unfolding res by (simp add: mapped_def upd_event_def
        success_def upd_stats_def log_line_def count_mapped_def upd_mmap_def activate_def)
  then have ev: "event_data s' = (event_data s)
      [nat w := (event_data s ! nat w)\<lparr>e_mmap := find_empty_mmap s\<rparr>]"
    using ne by simp
  have new: "find_empty_mmap s \<noteq> p" using diff by auto
  have "mmaps s' ! nat p = mmaps s ! nat p"
    using cf(1) s3 fr(1) diff unfolding res by (simp add: mmaps_activate mapped_frame mmaps_upd)
  then have "m_active (mmaps s' ! nat p)" using assms(5) by simp
  moreover have "e_mmap (event_data s' ! i) \<noteq> p"
    if "\<forall>i<length (event_data s). i \<noteq> nat w \<longrightarrow> e_mmap (event_data s ! i) \<noteq> p"
      and "i < length (event_data s')" for i
    using that new unfolding ev by (cases "i = nat w") simp_all
  ultimately show ?thesis using ev new by blast
qed

text \<open>Event 1 has its mapping in slot 0, event 0 in slot 1.\<close>

definition ex_two :: fstate where
  "ex_two = ex_mapped\<lparr>mmaps := (mmaps ex_mapped)[1 := mmaps ex_mapped ! 0],
     event_data := [(ex_event 4)\<lparr>e_mmap := 1\<rparr>, ex_event 5]\<rparr>"

theorem aux_mapping_replaces_main_witness:
  "\<exists>s'. setup_mmap_aux ex_env 0 1 ex_two = Some (0, s') \<and> e_mmap (event_data ex_two ! 0) = 1 \<and>
     m_active (mmaps s' ! 1) \<and> (\<forall>i<2. e_mmap (event_data s' ! i) \<noteq> 1)"
proof -
  note two = ex_two_def ex_mapped_table ex_mapped_slots(3)
  have fe: "find_empty_mmap ex_two = 2"
    by (simp add: find_empty_mmap_def find_empty_slot_def two zero_mmap_def numeral_eq_Suc)
  have "map_option fst (setup_mmap_aux ex_env 0 1 ex_two) = Some 0"
    unfolding setup_mmap_aux_def Let_def fe
    by (simp add: two ex_env_def ex_skip_def draw_slot_def mmap_random_size_def
        mmap_random_prot_def mmap_random_flags_def Let_def mmaps_upd index_ok_def call_mmap_def
        MAP_FAILED_def split: prod.split)
  then obtain s' where s': "setup_mmap_aux ex_env 0 1 ex_two = Some (0, s')" by auto
  have here: "nat 1 < length (mmaps ex_two)" "m_active (mmaps ex_two ! nat 1)"
    "e_mmap (event_data ex_two ! 0) = 1" "length (event_data ex_two) = 2"
    "\<forall>i<length (event_data ex_two). i \<noteq> nat 0 \<longrightarrow> e_mmap (event_data ex_two ! i) \<noteq> 1"
    by (auto simp: two zero_mmap_def less_Suc_eq numeral_2_eq_2 ex_event_def)
  have main: "length (event_data s') = 2" "m_active (mmaps s' ! nat 1)"
    "\<forall>i<length (event_data s'). e_mmap (event_data s' ! i) \<noteq> 1"
    using aux_mapping_replaces_main [OF s' ex_env_ok(2) _ here(1,2)] here(4,5) by auto
  from main(2) have "m_active (mmaps s' ! 1)" by simp
  with main(1,3) here(3) s' show ?thesis by metis
qed

text \<open>
  The random choice sets up a mapping for a random active event without looking whether
  there is one: when no event is active and the draw is the first case, \<open>setup_mmap\<close> is
  called for event -1 and reads in front of the table (unless the table of mappings is full).
\<close>

theorem mmap_random_event_no_event:
  assumes "active_events s < 1" and "e_rand e (rpos s) mod 6 = 0" and "\<not> i_mmap (e_ignore e)"
    and "0 \<le> find_empty_mmap s"
  shows "mmap_random_event e ty s = None"
proof -
  obtain r s1 where dr: "draw e s = (r, s1)" by fastforce
  have r: "r mod 6 = 0" and fe: "find_empty_mmap s1 = find_empty_mmap s" "active_events s1 < 1"
    using dr assms(1,2) by (auto simp: draw_def find_empty_mmap_def)
  obtain sz prot flags s2 where ds: "draw_slot e (nat (find_empty_mmap s)) False s1 = (sz, prot, flags, s2)"
    by (metis prod_cases4)
  have "try_mmap e i (- 1) sz prot flags s2 = None" for i
    by (simp add: try_mmap_def Let_def index_ok_def split: prod.split)
  then have "setup_mmap e (- 1) s1 = None"
    using assms(3,4) by (simp add: setup_mmap_def Let_def fe ds)
  moreover have "find_random_active_event e s1 = (- 1, s1)"
    using fe(2) by (simp add: find_random_active_event_def)
  ultimately show ?thesis using r by (simp add: mmap_random_event_def dr Let_def)
qed

theorem mmap_random_event_no_event_witness:
  "mmap_random_event (ex_env\<lparr>e_rand := \<lambda>_. 6\<rparr>) 0 (ex_state\<lparr>active_events := 0\<rparr>) = None"
  by (rule mmap_random_event_no_event)
    (simp_all add: ex_state_def ex_env_def ex_skip_def find_empty_mmap_def find_empty_slot_def
      numeral_eq_Suc zero_mmap_def)

end
