(* ===== verification/FilterGen.thy ===== *)
theory FilterGen
  imports FuzzState "HOL-Library.State_Monad"
begin

text \<open>
  The random event filters of fuzzer/filter_address.c and fuzzer/filter_tracepoint.c, and
  \<open>fill_filter\<close> of fuzz_ioctl.c. The generators append to a static buffer: their state is the
  position in the random sequence and the text of the buffer.
\<close>

section \<open>Drawing and appending\<close>

type_synonym gst = "nat \<times> string"

definition roll :: "env \<Rightarrow> (gst, int) state" where
  "roll e = State (\<lambda>(p, buf). (e_rand e p, (p + 1, buf)))"

definition roll_mod :: "env \<Rightarrow> int \<Rightarrow> (gst, int) state" where
  "roll_mod e n = State (\<lambda>(p, buf). (e_rand e p mod n, (p + 1, buf)))"

definition strcat :: "string \<Rightarrow> (gst, unit) state" where
  "strcat t = State (\<lambda>(p, buf). ((), (p, buf @ t)))"

abbreviation skip :: "(gst, unit) state" where
  "skip \<equiv> State_Monad.return ()"

fun repeat_gen :: "nat \<Rightarrow> (gst, unit) state \<Rightarrow> (gst, unit) state" where
  "repeat_gen 0 m = skip"
| "repeat_gen (Suc n) m = do { m; repeat_gen n m }"

definition MAX_FILTER_SIZE :: nat where
  "MAX_FILTER_SIZE = 8192"

section \<open>filter_address.c\<close>

definition space_char :: "int \<Rightarrow> string" where
  "space_char r =
     (if r \<le> 30 then '' '' else if r = 31 then [char_of (13 :: nat)]
      else if r = 32 then [char_of (10 :: nat)] else if r = 33 then '','' else [char_of (9 :: nat)])"

definition ws_max :: "int \<Rightarrow> int" where
  "ws_max max_amount = (if max_amount = 0 then 1 else max_amount)"

definition addr_whitespace :: "env \<Rightarrow> int \<Rightarrow> (gst, unit) state" where
  "addr_whitespace e max_amount = do {
     amount \<leftarrow> roll_mod e (ws_max max_amount);
     repeat_gen (nat amount) (do { r \<leftarrow> roll_mod e 50; strcat (space_char r) })
   }"

text \<open>A 64-bit random number; the code leaves the order of its two draws open.\<close>

definition rand64 :: "env \<Rightarrow> (gst, u64) state" where
  "rand64 e = do {
     a \<leftarrow> roll e; b \<leftarrow> roll e;
     State_Monad.return (push_bit 32 (word_of_int a) OR word_of_int b)
   }"

text \<open>Case 4 has no \<open>break\<close>: it draws a number and returns 0.\<close>

definition get_kernel_address :: "env \<Rightarrow> (gst, u64) state" where
  "get_kernel_address e = do {
     r \<leftarrow> roll_mod e 6;
     if r = 0 then rand64 e
     else if r \<le> 3 then do { x \<leftarrow> roll e; State_Monad.return (0xffffffff00000000 OR word_of_int x) }
     else if r = 4 then do { _ \<leftarrow> roll e; State_Monad.return 0 }
     else State_Monad.return 0
   }"

definition get_size :: "env \<Rightarrow> (gst, u64) state" where
  "get_size e = do {
     r \<leftarrow> roll_mod e 5;
     if r = 0 then rand64 e
     else if r = 1 then do { x \<leftarrow> roll e; State_Monad.return (word_of_int x) }
     else if r = 2 then do { x \<leftarrow> roll e; State_Monad.return (word_of_int (x AND NOT 0xffff)) }
     else if r = 3 then do { x \<leftarrow> roll e; State_Monad.return (0xffffffff00000000 OR word_of_int x) }
     else State_Monad.return 0
   }"

definition get_path :: string where
  "get_path = ''/vmlinuz''"

definition show_oct :: "u64 \<Rightarrow> string" where
  "show_oct w = digits 8 (unat w)"

definition kernel_address :: "env \<Rightarrow> (gst, unit) state" where
  "kernel_address e = do {
     r \<leftarrow> roll_mod e 10;
     v \<leftarrow> get_kernel_address e;
     strcat (if r = 0 then show_nat (unat v) else if r = 1 then show_int (sint v)
             else if r = 2 then show_hex v else if r = 3 then show_oct v
             else ''0x'' @ show_hex v)
   }"

definition range_size :: "env \<Rightarrow> (gst, unit) state" where
  "range_size e = do {
     r \<leftarrow> roll_mod e 5;
     v \<leftarrow> get_size e;
     strcat (if r = 0 then ''/'' @ show_hex v else if r = 1 then ''/'' @ show_int (sint v)
             else if r = 2 then ''/0x'' @ show_hex v else ''/'' @ show_nat (unat v))
   }"

text \<open>The body of \<open>make_address_filter\<close> on its cleared buffer.\<close>

definition address_filter :: "env \<Rightarrow> int \<Rightarrow> (gst, unit) state" where
  "address_filter e max_whitespace = do {
     action \<leftarrow> roll_mod e 5;
     (if action = 0 then strcat ''filter'' else if action = 1 then strcat ''start''
      else if action = 2 then strcat ''stop'' else addr_whitespace e max_whitespace);
     addr_whitespace e max_whitespace;
     range_type \<leftarrow> roll_mod e 3;
     if range_type = 0 then addr_whitespace e max_whitespace
     else do {
       kernel_address e;
       sized \<leftarrow> roll_mod e 2;
       (if sized \<noteq> 0 then range_size e else skip);
       (if range_type = 2 then strcat (''@'' @ get_path) else skip)
     }
   }"

text \<open>The position in the random sequence, the text in \<open>filter_out\<close>.\<close>

definition make_address_filter :: "env \<Rightarrow> int \<Rightarrow> nat \<Rightarrow> nat \<times> string" where
  "make_address_filter e max_whitespace p = snd (run_state (address_filter e max_whitespace) (p, []))"

section \<open>filter_tracepoint.c\<close>

definition find_event :: "env \<Rightarrow> int \<Rightarrow> trace_event_t option" where
  "find_event e event = find (\<lambda>t. te_id t = event) (e_trace_events e)"

definition print_whitespace :: "env \<Rightarrow> int \<Rightarrow> (gst, unit) state" where
  "print_whitespace e max_amount = do {
     amount \<leftarrow> roll_mod e (ws_max max_amount);
     repeat_gen (nat amount)
       (do { r \<leftarrow> roll_mod e 2; strcat (if r = 0 then '' '' else [char_of (9 :: nat)]) })
   }"

definition comparisons :: "string list" where
  "comparisons = [''~'', ''!='', ''=='', ''<'', ''<='', ''>'', ''>='', ''&'']"

definition print_comparison :: "env \<Rightarrow> (gst, unit) state" where
  "print_comparison e = do { r \<leftarrow> roll_mod e 8; strcat (comparisons ! nat r) }"

definition print_bool :: "env \<Rightarrow> (gst, unit) state" where
  "print_bool e = do { r \<leftarrow> roll_mod e 2; strcat (if r = 0 then ''&&'' else ''||'') }"

definition FILTER_TYPE_STR :: int where
  "FILTER_TYPE_STR = 2"

definition quote :: char where
  "quote = char_of (34 :: nat)"

fun random_chars :: "env \<Rightarrow> nat \<Rightarrow> (gst, string) state" where
  "random_chars e 0 = State_Monad.return []"
| "random_chars e (Suc n) = do {
     r \<leftarrow> roll_mod e 254;
     cs \<leftarrow> random_chars e n;
     State_Monad.return (char_of (nat (r + 1)) # cs)
   }"

text \<open>The closing quote takes the place of the last random character.\<close>

definition quoted_string :: "env \<Rightarrow> (gst, string) state" where
  "quoted_string e = do {
     r \<leftarrow> roll_mod e 15;
     if r = 0 then State_Monad.return [quote]
     else if r \<le> 3 then do {
       n \<leftarrow> roll_mod e 256;
       cs \<leftarrow> random_chars e (nat n);
       State_Monad.return (if n = 0 then [quote] else quote # butlast cs @ [quote])
     }
     else State_Monad.return (quote # ''blah'' @ [quote])
   }"

definition star_string :: "env \<Rightarrow> string \<Rightarrow> (gst, string) state" where
  "star_string e str = do {
     r \<leftarrow> roll_mod e 10;
     if r = 0 then do {
       k \<leftarrow> roll_mod e (int (length str));
       State_Monad.return (str[nat k := CHR ''*''])
     }
     else if r = 1 then do {
       k \<leftarrow> roll_mod e (int (length str));
       State_Monad.return (take (nat k) str @ CHR ''*'' # [quote])
     }
     else State_Monad.return str
   }"

definition print_number :: "env \<Rightarrow> (gst, unit) state" where
  "print_number e = do {
     r \<leftarrow> roll_mod e 10;
     a \<leftarrow> roll e;
     if r = 0 then strcat (show_int a)
     else if r = 1 then do { b \<leftarrow> roll e; strcat (show_int a @ show_int b) }
     else if r = 2 then strcat (''0x'' @ show_hex (word_of_int a :: u32))
     else if r = 3 then strcat (''-'' @ show_int a)
     else strcat (show_int (a mod 1024))
   }"

definition print_value :: "env \<Rightarrow> int \<Rightarrow> bool \<Rightarrow> (gst, unit) state" where
  "print_value e type try_valid = do {
     as_string \<leftarrow> (if type = FILTER_TYPE_STR then State_Monad.return True
       else if try_valid then State_Monad.return False
       else do { r \<leftarrow> roll_mod e 5; State_Monad.return (r = 1) });
     if as_string then do {
       str \<leftarrow> quoted_string e;
       str' \<leftarrow> star_string e str;
       strcat str'
     }
     else print_number e
   }"

text \<open>The left or right side of an expression when the filter need not be valid.\<close>

definition random_side :: "env \<Rightarrow> trace_filter_t \<Rightarrow> (gst, unit) state" where
  "random_side e f = do {
     r \<leftarrow> roll_mod e 3;
     if r = 0 then strcat (tf_name f)
     else if r = 1 then do { t \<leftarrow> roll_mod e 2; print_value e t False }
     else skip
   }"

definition print_expression :: "env \<Rightarrow> trace_event_t \<Rightarrow> int \<Rightarrow> bool \<Rightarrow> (gst, unit) state" where
  "print_expression e event max_whitespace try_valid =
     (if te_filters event = [] then skip
      else do {
        k \<leftarrow> roll_mod e (int (length (te_filters event)));
        let f = te_filters event ! nat k;
        (if try_valid then strcat (tf_name f) else random_side e f);
        print_whitespace e max_whitespace;
        (if try_valid then print_comparison e
         else do { r \<leftarrow> roll_mod e 3; if r = 1 then print_comparison e else skip });
        print_whitespace e max_whitespace;
        (if try_valid then print_value e (tf_type f) True else random_side e f);
        print_whitespace e max_whitespace
      })"

text \<open>\<open>if (try_valid) m; else if (rand()%3==1) m;\<close>\<close>

definition maybe :: "env \<Rightarrow> bool \<Rightarrow> (gst, unit) state \<Rightarrow> (gst, unit) state" where
  "maybe e try_valid m =
     (if try_valid then m else do { r \<leftarrow> roll_mod e 3; if r = 1 then m else skip })"

definition open_levels :: "env \<Rightarrow> nat \<Rightarrow> int \<Rightarrow> bool \<Rightarrow> (gst, unit) state" where
  "open_levels e levels max_whitespace try_valid =
     repeat_gen levels (do {
       maybe e try_valid (strcat ''('');
       print_whitespace e max_whitespace;
       r \<leftarrow> roll_mod e 5;
       if r = 1 then strcat ''!'' else skip
     })"

text \<open>One round of the \<open>do\<close> loop behind the expression; \<open>last\<close> on level \<open>levels-1\<close>.\<close>

definition close_level :: "env \<Rightarrow> bool \<Rightarrow> int \<Rightarrow> bool \<Rightarrow> (gst, unit) state" where
  "close_level e last_level max_whitespace try_valid = do {
     maybe e try_valid (strcat '')'');
     print_whitespace e max_whitespace;
     (if last_level then skip else maybe e try_valid (print_bool e));
     print_whitespace e max_whitespace
   }"

fun expression_levels :: "env \<Rightarrow> trace_event_t \<Rightarrow> int \<Rightarrow> bool \<Rightarrow> nat \<Rightarrow> (gst, unit) state" where
  "expression_levels e event w v 0 = print_expression e event w v"
| "expression_levels e event w v (Suc l) = do {
     print_expression e event w v;
     close_level e (l = 0) w v;
     (if l = 0 then skip else expression_levels e event w v l)
   }"

definition tracepoint_filter :: "env \<Rightarrow> trace_event_t \<Rightarrow> int \<Rightarrow> int \<Rightarrow> bool \<Rightarrow> (gst, unit) state" where
  "tracepoint_filter e event max_levels max_whitespace try_valid = do {
     levels \<leftarrow> roll_mod e (max_levels + 1);
     print_whitespace e max_whitespace;
     open_levels e (nat levels) max_whitespace try_valid;
     expression_levels e event max_whitespace try_valid (nat levels)
   }"

text \<open>
  The static buffer is appended to and never cleared. \<open>None\<close>: the text does not fit the buffer
  any more. \<open>filter_out\<close> is left alone when the event is unknown or has no fields.
\<close>

definition make_tracepoint_filter ::
    "env \<Rightarrow> int \<Rightarrow> int \<Rightarrow> int \<Rightarrow> bool \<Rightarrow> string \<Rightarrow> gst \<Rightarrow> (string \<times> gst) option" where
  "make_tracepoint_filter e which max_levels max_whitespace try_valid filter_out s =
     (case find_event e which of
        None \<Rightarrow> Some (filter_out, s)
      | Some event \<Rightarrow>
          if te_filters event = [] then Some (filter_out, s)
          else (case snd (run_state (tracepoint_filter e event max_levels max_whitespace try_valid) s) of
                  (p, buf) \<Rightarrow> if length buf < MAX_FILTER_SIZE then Some (buf, (p, buf)) else None))"

section \<open>fill_filter\<close>

definition random_mess :: string where
  "random_mess = ''()&=!><~|''"

definition crazy_char :: "env \<Rightarrow> (gst, unit) state" where
  "crazy_char e = do {
     r \<leftarrow> roll_mod e 3;
     x \<leftarrow> roll e;
     strcat [if r = 0 then random_mess ! nat (x mod 9)
             else if r = 1 then char_of (nat (x mod 254 + 1))
             else char_of (nat (x mod 10 + 48))]
   }"

definition make_crazy_filter :: "env \<Rightarrow> nat \<Rightarrow> nat \<times> string" where
  "make_crazy_filter e p =
     snd (run_state (do { n \<leftarrow> roll_mod e (int MAX_FILTER_SIZE - 1); repeat_gen (nat n) (crazy_char e) })
            (p, []))"

text \<open>The filter text, the position in the random sequence and the static buffer of filter_tracepoint.c.\<close>

definition fill_filter :: "env \<Rightarrow> int \<Rightarrow> gst \<Rightarrow> (string \<times> gst) option" where
  "fill_filter e which s =
     (case s of (p, buf) \<Rightarrow>
      (let r = e_rand e p mod 30; p1 = p + 1 in
       if r = 0 then (case make_crazy_filter e p1 of (p2, t) \<Rightarrow> Some (t, (p2, buf)))
       else if r = 1 \<or> r = 2 then
         make_tracepoint_filter e which (e_rand e p1 mod 20) (e_rand e (p1 + 1) mod 20) False [] (p1 + 2, buf)
       else if r = 3 \<or> r = 4 then
         (case make_address_filter e (e_rand e p1 mod 20) (p1 + 1) of (p2, t) \<Rightarrow> Some (t, (p2, buf)))
       else if 10 \<le> r \<and> r \<le> 20 then
         (case make_address_filter e 1 p1 of (p2, t) \<Rightarrow> Some (t, (p2, buf)))
       else make_tracepoint_filter e which 4 1 True [] (p1, buf)))"

end
