(* ===== verification/FilterTheorems.thy ===== *)
theory FilterTheorems
  imports FilterGen FuzzRuns
begin

text \<open>
  How much text the filter generators append: at most a constant for address filters, whose
  buffer is cleared first; at least one character for valid tracepoint filters, whose buffer
  is never cleared.
\<close>

section \<open>Bounds on what a generator appends\<close>

definition at_most :: "nat \<Rightarrow> (gst, 'a) state \<Rightarrow> bool" where
  "at_most n = state_io_rel (\<lambda>s s'. \<exists>t. length t \<le> n \<and> snd s' = snd s @ t)"

definition at_least :: "nat \<Rightarrow> (gst, 'a) state \<Rightarrow> bool" where
  "at_least n = state_io_rel (\<lambda>s s'. \<exists>t. n \<le> length t \<and> snd s' = snd s @ t)"

named_theorems grow

lemma at_most_basic [grow]:
  "at_most n (State_Monad.return x)" "at_most n (roll e)" "at_most n (roll_mod e k)"
  "length t \<le> n \<Longrightarrow> at_most n (strcat t)"
  by (auto simp: at_most_def state_io_rel_def roll_def roll_mod_def strcat_def)

lemma at_least_basic [grow]:
  "at_least 0 (State_Monad.return x)" "at_least 0 (roll e)" "at_least 0 (roll_mod e k)"
  "n \<le> length t \<Longrightarrow> at_least n (strcat t)"
  by (auto simp: at_least_def state_io_rel_def roll_def roll_mod_def strcat_def)

lemma at_most_bind:
  assumes "at_most a m" and "\<And>x. at_most b (f x)" and "a + b \<le> n"
  shows "at_most n (State_Monad.bind m f)"
  unfolding at_most_def state_io_rel_def
proof
  fix s
  obtain x s1 where r1: "run_state m s = (x, s1)" by (cases "run_state m s")
  obtain y s2 where r2: "run_state (f x) s1 = (y, s2)" by (cases "run_state (f x) s1")
  from assms(1) r1 obtain t where "length t \<le> a" "snd s1 = snd s @ t"
    unfolding at_most_def by (auto dest: state_io_relD)
  moreover from assms(2) [of x] r2 obtain u where "length u \<le> b" "snd s2 = snd s1 @ u"
    unfolding at_most_def by (auto dest: state_io_relD)
  ultimately show "\<exists>t. length t \<le> n \<and> snd (snd (run_state (State_Monad.bind m f) s)) = snd s @ t"
    using r1 r2 assms(3) by (intro exI [of _ "t @ u"]) simp
qed

lemma at_least_bind:
  assumes "at_least a m" and "\<And>x. at_least b (f x)" and "n \<le> a + b"
  shows "at_least n (State_Monad.bind m f)"
  unfolding at_least_def state_io_rel_def
proof
  fix s
  obtain x s1 where r1: "run_state m s = (x, s1)" by (cases "run_state m s")
  obtain y s2 where r2: "run_state (f x) s1 = (y, s2)" by (cases "run_state (f x) s1")
  from assms(1) r1 obtain t where "a \<le> length t" "snd s1 = snd s @ t"
    unfolding at_least_def by (auto dest: state_io_relD)
  moreover from assms(2) [of x] r2 obtain u where "b \<le> length u" "snd s2 = snd s1 @ u"
    unfolding at_least_def by (auto dest: state_io_relD)
  ultimately show "\<exists>t. n \<le> length t \<and> snd (snd (run_state (State_Monad.bind m f) s)) = snd s @ t"
    using r1 r2 assms(3) by (intro exI [of _ "t @ u"]) simp
qed

lemma at_most_mono: "at_most a m \<Longrightarrow> a \<le> b \<Longrightarrow> at_most b m"
  unfolding at_most_def state_io_rel_def by (meson le_trans)

lemma at_least_weaken: "at_least a m \<Longrightarrow> at_least 0 m"
  unfolding at_least_def state_io_rel_def by blast

lemma at_most_repeat: "at_most 1 m \<Longrightarrow> at_most n (repeat_gen n m)"
  by (induction n) (auto intro: grow at_most_bind)

lemma at_least_repeat: "at_least 0 m \<Longrightarrow> at_least 0 (repeat_gen n m)"
  by (induction n) (auto intro: grow at_least_bind)

text \<open>The bind rules with the second part free of a bound of its own.\<close>

lemma at_most_roll:
  "(\<And>x. at_most n (f x)) \<Longrightarrow> at_most n (State_Monad.bind (roll e) f)"
  "(\<And>x. at_most n (f x)) \<Longrightarrow> at_most n (State_Monad.bind (roll_mod e k) f)"
  by (rule at_most_bind [of 0 _ n f n], simp_all add: grow)+

lemma at_least_seq:
  "at_least 0 m \<Longrightarrow> (\<And>x. at_least n (f x)) \<Longrightarrow> at_least n (State_Monad.bind m f)"
  by (rule at_least_bind [of 0 m n f n]) simp_all

lemma at_least_first:
  "at_least n m \<Longrightarrow> (\<And>x. at_least 0 (f x)) \<Longrightarrow> at_least n (State_Monad.bind m f)"
  by (rule at_least_bind [of n m 0 f n]) simp_all

lemma at_least_if:
  "at_least n a \<Longrightarrow> at_least n b \<Longrightarrow> at_least n (if c then a else b)"
  by simp

lemma at_most_if:
  "at_most n a \<Longrightarrow> at_most n b \<Longrightarrow> at_most n (if c then a else b)"
  by simp

section \<open>Lengths of numbers\<close>

lemma length_digits: "2 \<le> b \<Longrightarrow> n < b ^ k \<Longrightarrow> 0 < k \<Longrightarrow> length (digits b n) \<le> k"
proof (induction k arbitrary: n)
  case 0
  then show ?case by simp
next
  case (Suc k)
  show ?case
  proof (cases "n < b")
    case True
    then show ?thesis by (subst digits.simps) simp
  next
    case False
    then have "0 < k" using Suc.prems by (cases k) simp_all
    have "n div b < b ^ k" using Suc.prems by (simp add: less_mult_imp_div_less mult.commute)
    from Suc.IH [OF Suc.prems(1) this \<open>0 < k\<close>] False Suc.prems show ?thesis
      by (subst digits.simps) simp
  qed
qed

lemma length_show_word:
  fixes v :: u64
  shows "length (show_nat (unat v)) \<le> 20" "length (show_hex v) \<le> 16" "length (show_oct v) \<le> 22"
    "length (show_int (sint v)) \<le> 20"
proof -
  have v: "unat v < 2 ^ 64" using unsigned_less [of v] by simp
  then show "length (show_nat (unat v)) \<le> 20" unfolding show_nat_def by (intro length_digits) simp_all
  from v show "length (show_hex v) \<le> 16" unfolding show_hex_def by (intro length_digits) simp_all
  from v show "length (show_oct v) \<le> 22" unfolding show_oct_def by (intro length_digits) simp_all
  have "sint v < 2 ^ 63" "- (2 ^ 63) \<le> sint v"
    using sint_lt [of v] sint_ge [of v] by simp_all
  then have "nat (sint v) < 10 ^ 19" "nat (- sint v) < 10 ^ 19" by simp_all
  then have "length (digits 10 (nat (sint v))) \<le> 19" "length (digits 10 (nat (- sint v))) \<le> 19"
    by (auto intro!: length_digits)
  then show "length (show_int (sint v)) \<le> 20" unfolding show_int_def by simp
qed

section \<open>Address filters\<close>

lemma at_most_whitespace: "w \<le> 19 \<Longrightarrow> 0 \<le> w \<Longrightarrow> at_most 18 (addr_whitespace e w)"
proof -
  assume w: "w \<le> 19" "0 \<le> w"
  let ?m = "\<lambda>amount. repeat_gen (nat amount) (State_Monad.bind (roll_mod e 50) (\<lambda>r. strcat (space_char r)))"
  have body: "at_most 1 (State_Monad.bind (roll_mod e 50) (\<lambda>r. strcat (space_char r)))"
    by (intro at_most_roll grow) (simp add: space_char_def)
  show "at_most 18 (addr_whitespace e w)"
    unfolding at_most_def state_io_rel_def
  proof
    fix s :: gst
    obtain p buf where s: "s = (p, buf)" by fastforce
    let ?n = "e_rand e p mod ws_max w"
    have "0 < ws_max w" "ws_max w \<le> 19" using w by (auto simp: ws_max_def)
    then have "?n \<le> 18" using pos_mod_bound [of "ws_max w" "e_rand e p"] by linarith
    then have "at_most 18 (?m ?n)"
      using at_most_mono [OF at_most_repeat [OF body, of "nat ?n"]] by simp
    then show "\<exists>t. length t \<le> 18 \<and> snd (snd (run_state (addr_whitespace e w) s)) = snd s @ t"
      unfolding at_most_def state_io_rel_def addr_whitespace_def s
      by (simp add: roll_mod_def)
  qed
qed

lemma at_most_value:
  "at_most n (rand64 e)" "at_most n (get_kernel_address e)" "at_most n (get_size e)"
  unfolding rand64_def get_kernel_address_def get_size_def
  by (intro at_most_roll at_most_if grow)+

lemma at_most_kernel_address: "at_most 22 (kernel_address e)"
proof -
  have "length (if r = 0 then show_nat (unat v) else if r = 1 then show_int (sint v)
      else if r = 2 then show_hex v else if r = 3 then show_oct v else ''0x'' @ show_hex v) \<le> 22"
    for r :: int and v :: u64
    using length_show_word [of v] by simp
  then show ?thesis unfolding kernel_address_def
    by (intro at_most_roll at_most_bind [of 0 _ 22, OF at_most_value(2)] grow) simp_all
qed

lemma at_most_range_size: "at_most 21 (range_size e)"
proof -
  have "length (if r = 0 then ''/'' @ show_hex v else if r = 1 then ''/'' @ show_int (sint v)
      else if r = 2 then ''/0x'' @ show_hex v else ''/'' @ show_nat (unat v)) \<le> 21"
    for r :: int and v :: u64
    using length_show_word [of v] by simp
  then show ?thesis unfolding range_size_def
    by (intro at_most_roll at_most_bind [of 0 _ 21, OF at_most_value(3)] grow) simp_all
qed

lemma at_most_address_filter:
  assumes "w \<le> 19" and "0 \<le> w"
  shows "at_most 88 (address_filter e w)"
proof -
  note ws = at_most_whitespace [OF assms, of e]
  note [intro] = grow
  have action: "at_most 18 (if a = 0 then strcat ''filter'' else if a = 1 then strcat ''start''
      else if a = 2 then strcat ''stop'' else addr_whitespace e w)" for a :: int
    using ws by (simp add: grow)
  have sized: "at_most 21 (if c \<noteq> 0 then range_size e else skip)" for c :: int
    using at_most_range_size by (simp add: grow)
  have path: "at_most 9 (if c = 2 then strcat (''@'' @ get_path) else skip)" for c :: int
    by (simp add: grow get_path_def)
  have range: "at_most 52 (State_Monad.bind (kernel_address e) (\<lambda>_. State_Monad.bind (roll_mod e 2)
      (\<lambda>sized. State_Monad.bind (if sized \<noteq> 0 then range_size e else skip)
        (\<lambda>_. if r = 2 then strcat (''@'' @ get_path) else skip))))" for r :: int
    by (rule at_most_bind [OF at_most_kernel_address, of 30], rule at_most_roll,
        rule at_most_bind [OF sized path]) simp_all
  show ?thesis
    unfolding address_filter_def
    by (rule at_most_roll, rule at_most_bind [OF action, of 70], rule at_most_bind [OF ws, of 52],
        rule at_most_roll, rule at_most_if, rule at_most_mono [OF ws], simp, rule range) simp_all
qed

section \<open>Tracepoint filters\<close>

lemma at_least_print_comparison: "at_least 1 (print_comparison e)"
  unfolding at_least_def state_io_rel_def
proof
  fix s :: gst
  obtain p buf where s: "s = (p, buf)" by fastforce
  let ?r = "nat (e_rand e p mod 8)"
  have "\<forall>t\<in>set comparisons. 1 \<le> length t" by (simp add: comparisons_def)
  moreover have "?r < length comparisons" by (simp add: nat_less_iff comparisons_def)
  ultimately have "1 \<le> length (comparisons ! ?r)" by (metis nth_mem)
  then show "\<exists>t. 1 \<le> length t \<and> snd (snd (run_state (print_comparison e) s)) = snd s @ t"
    unfolding print_comparison_def s by (simp add: roll_mod_def strcat_def)
qed

lemma at_least_0:
  "at_least 0 (strcat t)" "at_least 0 (print_whitespace e w)" "at_least 0 (print_comparison e)"
  "at_least 0 (print_bool e)" "at_least 0 (random_chars e n)" "at_least 0 (quoted_string e)"
  "at_least 0 (star_string e str)" "at_least 0 (print_number e)" "at_least 0 (print_value e ty v)"
  "at_least 0 (random_side e f)"
proof -
  show cat: "at_least 0 (strcat t)" for t by (rule grow) simp
  show "at_least 0 (print_whitespace e w)"
    unfolding print_whitespace_def by (intro at_least_seq at_least_repeat grow cat)
  show "at_least 0 (print_comparison e)"
    by (rule at_least_weaken [OF at_least_print_comparison])
  show "at_least 0 (print_bool e)"
    unfolding print_bool_def by (intro at_least_seq grow cat)
  show chars: "at_least 0 (random_chars e n)" for n
    by (induction n) (auto intro: at_least_seq grow)
  show q: "at_least 0 (quoted_string e)"
    unfolding quoted_string_def by (intro at_least_seq at_least_if grow chars)
  show st: "at_least 0 (star_string e str)" for str
    unfolding star_string_def by (intro at_least_seq at_least_if grow)
  show n: "at_least 0 (print_number e)"
    unfolding print_number_def by (intro at_least_seq at_least_if grow cat)
  show v: "at_least 0 (print_value e ty v)" for ty v
    unfolding print_value_def by (intro at_least_seq at_least_if grow cat q st n)
  show "at_least 0 (random_side e f)"
    unfolding random_side_def by (intro at_least_seq at_least_if grow cat v)
qed

lemma at_least_maybe: "at_least 0 m \<Longrightarrow> at_least 0 (maybe e v m)"
  unfolding maybe_def by (intro at_least_seq at_least_if grow)

lemma at_least_print_expression:
  assumes "te_filters event \<noteq> []"
  shows "at_least (if v then 1 else 0) (print_expression e event w v)"
proof -
  have "at_least (if v then 1 else 0)
      (if v then print_comparison e else State_Monad.bind (roll_mod e 3) (\<lambda>r. if r = 1 then print_comparison e else skip))"
    using at_least_print_comparison at_least_0 by (auto intro!: at_least_seq grow)
  note cmp = this
  have name: "at_least 0 (if v then strcat (tf_name f) else random_side e f)"
    and rhs: "at_least 0 (if v then print_value e (tf_type f) True else random_side e f)" for f
    by (simp_all add: at_least_0)
  have rest: "at_least 0 (State_Monad.bind (print_whitespace e w) (\<lambda>_. State_Monad.bind
      (if v then print_value e (tf_type f) True else random_side e f) (\<lambda>_. print_whitespace e w)))" for f
    by (intro at_least_seq rhs at_least_0)
  show ?thesis
    unfolding print_expression_def Let_def using assms
    by (simp only: if_False)
      (rule at_least_seq [OF grow(7)], rule at_least_seq [OF name], rule at_least_seq [OF at_least_0(2)],
        rule at_least_first [OF cmp rest])
qed

lemma at_least_open_levels: "at_least 0 (open_levels e n w v)"
  unfolding open_levels_def
  by (intro at_least_repeat at_least_seq at_least_if at_least_maybe grow at_least_0)

lemma at_least_close_level: "at_least 0 (close_level e b w v)"
  unfolding close_level_def
  by (intro at_least_repeat at_least_seq at_least_if at_least_maybe grow at_least_0)

lemma at_least_expression_levels:
  assumes "te_filters event \<noteq> []"
  shows "at_least (if v then 1 else 0) (expression_levels e event w v n)"
proof (induction n)
  case 0
  from at_least_print_expression [OF assms] show ?case by simp
next
  case (Suc n)
  have "at_least 0 (if n = 0 then skip else expression_levels e event w v n)"
    using at_least_weaken [OF Suc] by (simp add: grow)
  then show ?case
    unfolding expression_levels.simps
    by (intro at_least_first at_least_print_expression assms at_least_seq [OF at_least_close_level])
qed

lemma at_least_tracepoint_filter:
  assumes "te_filters event \<noteq> []"
  shows "at_least (if v then 1 else 0) (tracepoint_filter e event l w v)"
  unfolding tracepoint_filter_def
  by (rule at_least_seq [OF grow(7)], rule at_least_seq [OF at_least_0(2)],
      rule at_least_seq [OF at_least_open_levels], rule at_least_expression_levels [OF assms])

lemma make_tracepoint_filter_grows:
  assumes "make_tracepoint_filter e which l w v out (p, buf) = Some (t, (p', buf'))"
    and "find_event e which = Some event" and "te_filters event \<noteq> []"
  shows "\<exists>u. (if v then 1 else 0) \<le> length u \<and> buf' = buf @ u \<and> t = buf'"
proof -
  from at_least_tracepoint_filter [OF assms(3)]
  have "\<exists>u. (if v then 1 else 0) \<le> length u \<and>
      snd (snd (run_state (tracepoint_filter e event l w v) (p, buf))) = buf @ u"
    unfolding at_least_def state_io_rel_def by auto
  with assms show ?thesis
    by (auto simp: make_tracepoint_filter_def split: prod.splits if_splits)
qed

text \<open>A sequence of calls, each with the whole buffer the one before it left.\<close>

fun tracepoint_calls :: "env \<Rightarrow> (int \<times> int \<times> int) list \<Rightarrow> gst \<Rightarrow> gst option" where
  "tracepoint_calls e [] s = Some s"
| "tracepoint_calls e ((which, l, w) # cs) s =
     (case make_tracepoint_filter e which l w True [] s of
        None \<Rightarrow> None
      | Some (t, s') \<Rightarrow> tracepoint_calls e cs s')"

fun_cases tracepoint_callsE: "tracepoint_calls e (c # cs) s = Some s'"

lemma tracepoint_calls_grow:
  assumes "tracepoint_calls e cs (p, buf) = Some (p', buf')"
    and "\<And>which l w. (which, l, w) \<in> set cs \<Longrightarrow> \<exists>ev. find_event e which = Some ev \<and> te_filters ev \<noteq> []"
  shows "length buf + length cs \<le> length buf' \<and> (cs \<noteq> [] \<longrightarrow> length buf' < MAX_FILTER_SIZE)"
  using assms
proof (induction cs arbitrary: p buf)
  case Nil
  then show ?case by simp
next
  case (Cons c cs)
  obtain which l w where c: "c = (which, l, w)" by (metis prod_cases3)
  with Cons.prems obtain ev where ev: "find_event e which = Some ev" "te_filters ev \<noteq> []" by fastforce
  from Cons.prems(1) c obtain t p1 b1 where
    m: "make_tracepoint_filter e which l w True [] (p, buf) = Some (t, (p1, b1))" and
    r: "tracepoint_calls e cs (p1, b1) = Some (p', buf')"
    by (auto split: option.splits)
  from make_tracepoint_filter_grows [OF m ev] have "Suc (length buf) \<le> length b1" by auto
  moreover have "length b1 < MAX_FILTER_SIZE"
    using m ev by (auto simp: make_tracepoint_filter_def split: prod.splits if_splits)
  moreover have "length b1 + length cs \<le> length buf' \<and> (cs \<noteq> [] \<longrightarrow> length buf' < MAX_FILTER_SIZE)"
    using Cons.IH [OF r] Cons.prems(2) by (meson list.set_intros(2))
  ultimately show ?case using r by (cases cs) auto
qed

section \<open>Properties\<close>

text \<open>
  C25. An address filter always fits: whatever the random numbers, \<open>make_address_filter\<close>
  builds at most 88 characters for the whitespace limits \<open>fill_filter\<close> passes (up to 19), far
  from the 8192 bytes of its buffer.
\<close>

theorem make_address_filter_fits:
  assumes "0 \<le> w" and "w \<le> 19"
  shows "length (snd (make_address_filter e w p)) \<le> 88 \<and> 88 < MAX_FILTER_SIZE"
proof -
  from at_most_address_filter [OF assms(2,1), of e]
  have "length (snd (snd (run_state (address_filter e w) (p, [])))) \<le> 88"
    unfolding at_most_def state_io_rel_def by (metis append_Nil snd_conv)
  then show ?thesis by (simp add: make_address_filter_def MAX_FILTER_SIZE_def)
qed

theorem make_address_filter_fits_witness:
  "length (snd (make_address_filter ex_env 19 0)) \<le> 88 \<and> 88 < MAX_FILTER_SIZE"
  by (rule make_address_filter_fits) simp_all

text \<open>
  C26. The buffer of the tracepoint filters is never cleared: every valid filter is appended to
  all the earlier ones, so 8192 calls for known events run over the end of the buffer whatever
  the random numbers are.
\<close>

theorem tracepoint_filters_overflow:
  assumes "\<And>which l w. (which, l, w) \<in> set cs \<Longrightarrow> \<exists>ev. find_event e which = Some ev \<and> te_filters ev \<noteq> []"
    and "MAX_FILTER_SIZE \<le> length buf + length cs" and "cs \<noteq> []"
  shows "tracepoint_calls e cs (p, buf) = None"
proof (cases "tracepoint_calls e cs (p, buf)")
  case None
  then show ?thesis .
next
  case (Some s)
  then obtain p' buf' where "tracepoint_calls e cs (p, buf) = Some (p', buf')" by (cases s) simp
  from tracepoint_calls_grow [OF this assms(1)] assms(2,3) show ?thesis by fastforce
qed

definition ex_tracepoint :: trace_event_t where
  "ex_tracepoint = \<lparr>te_id = 7, te_filters = [\<lparr>tf_type = 0, tf_name = ''common_pid''\<rparr>]\<rparr>"

theorem tracepoint_filters_overflow_witness:
  "tracepoint_calls (ex_env\<lparr>e_trace_events := [ex_tracepoint]\<rparr>) (replicate 8192 (7, 4, 1)) (0, []) = None"
  by (rule tracepoint_filters_overflow)
    (auto simp: find_event_def ex_tracepoint_def MAX_FILTER_SIZE_def)

end
