(* ===== verification/FuzzRandom.thy ===== *)
theory FuzzRandom
  imports FuzzMmap
begin

text \<open>
  The generators of fuzzer/fuzzer_random.c and \<open>create_ioctl\<close> of fuzz_ioctl.c: random
  arguments that favour the corner cases.
\<close>

section \<open>Drawing\<close>

definition roll1 :: "env \<Rightarrow> int gen" where
  "roll1 e p = (e_rand e p, p + 1)"

definition roll_below :: "env \<Rightarrow> int \<Rightarrow> int gen" where
  "roll_below e n p = (e_rand e p mod n, p + 1)"

text \<open>A generator run on the state of the fuzzer.\<close>

definition run_gen :: "'a gen \<Rightarrow> fstate \<Rightarrow> 'a \<times> fstate" where
  "run_gen g s = (case g (rpos s) of (x, p) \<Rightarrow> (x, s\<lparr>rpos := p\<rparr>))"

section \<open>fuzzer_random.c\<close>

definition rand_refresh :: "env \<Rightarrow> int gen" where
  "rand_refresh e p =
     (let k = e_rand e p mod 6 in
      if k = 0 then (0, p + 1)
      else if k = 1 then (1, p + 1)
      else if k = 2 then (- 1, p + 1)
      else if k = 3 then roll_below e 100 (p + 1)
      else if k = 4 then roll1 e (p + 1)
      else (1, p + 1))"

definition rand_period :: "env \<Rightarrow> int gen" where
  "rand_period e p =
     (if e_rand e p mod 2 \<noteq> 0 then roll1 e (p + 1)
      else (let k = e_rand e (p + 1) mod 8; q = p + 2 in
        if k = 0 then (0, q)
        else if k = 1 then (1, q)
        else if k = 2 then (- 1, q)
        else if k = 3 then roll_below e 100000 q
        else if k = 4 then roll1 e q
        else if k = 5 then roll_below e 256 q
        else if k = 6 then (case roll_below e 256 q of (x, q') \<Rightarrow> (- x, q'))
        else roll1 e q))"

definition PERF_IOC_FLAG_GROUP :: int where
  "PERF_IOC_FLAG_GROUP = 1"

definition rand_ioctl_arg :: "env \<Rightarrow> int gen" where
  "rand_ioctl_arg e p =
     (let k = e_rand e p mod 4 in
      if k = 0 then (0, p + 1)
      else if k = 1 then (PERF_IOC_FLAG_GROUP, p + 1)
      else if k = 2 then roll_below e 256 (p + 1)
      else roll1 e (p + 1))"

text \<open>
  \<open>O_RDONLY\<close>, \<open>WRONLY\<close>, \<open>RDWR\<close>, \<open>APPEND\<close>, \<open>ASYNC\<close>, \<open>CLOEXEC\<close>, \<open>CREAT\<close>, \<open>DIRECTORY\<close>,
  \<open>DSYNC\<close>, \<open>EXCL\<close>, \<open>NOCTTY\<close>, \<open>NOFOLLOW\<close>, \<open>NONBLOCK\<close>, \<open>SYNC\<close> and \<open>TRUNC\<close>. The file does not
  define \<open>_GNU_SOURCE\<close>, so the five flags under \<open>#ifdef\<close> are not there.
\<close>

definition open_flag_list :: "int list" where
  "open_flag_list = [0, 1, 2, 0x400, 0x2000, 0x80000, 0x40, 0x10000, 0x1000, 0x80, 0x100, 0x20000,
     0x800, 0x101000, 0x200]"

definition rand_open_flags :: "env \<Rightarrow> u64 gen" where
  "rand_open_flags e p =
     (let which = e_rand e p mod 3 in
      if which = 0 then (word_of_int (e_rand e (p + 1) mod 3), p + 2)
      else if which = 1 then
        (case maybe_flags e open_flag_list 0 (p + 1) of (v, q) \<Rightarrow> (word_of_int v, q))
      else (push_bit 32 (word_of_int (e_rand e (p + 1))) OR word_of_int (e_rand e (p + 2)), p + 3))"

section \<open>create_ioctl\<close>

text \<open>
  The fields go to bits 30, 8, 0 and 16 of an \<open>int\<close>, which is then made a \<open>long\<close>. The order in
  which the arguments of the call are drawn is the one they are written in.
\<close>

definition create_ioctl :: "int \<Rightarrow> int \<Rightarrow> int \<Rightarrow> int \<Rightarrow> int" where
  "create_ioctl dir ty nr sz =
     i32 (push_bit 30 dir OR push_bit 8 ty OR nr OR push_bit 16 sz)"

end
