(* ===== verification/FuzzCalls.thy ===== *)
theory FuzzCalls
  imports FuzzRandom FilterGen
begin

text \<open>
  The calls the fuzzer makes besides mappings, opening and ioctl: fuzz_read.c, fuzz_write.c,
  fuzz_poll.c, fuzz_prctl.c, fuzz_fork.c, fuzz_vsyscall.c, fuzz_affinity.c, fuzz_million.c and
  fuzz_access.c.
\<close>

section \<open>Outcomes\<close>

text \<open>
  A call returns, reads or writes outside an array, leaves the process with a status, leaves
  the parent (what runs on is a child in its endless loop), or is still going when the fuel
  runs out.
\<close>

datatype 'a outcome = Ret 'a | Fault | Exit int | Child | Spin

fun of_option :: "'a option \<Rightarrow> 'a outcome" where
  "of_option None = Fault"
| "of_option (Some x) = Ret x"

fun then_do :: "'a outcome \<Rightarrow> ('a \<Rightarrow> 'b outcome) \<Rightarrow> 'b outcome" where
  "then_do (Ret x) f = f x"
| "then_do Fault f = Fault"
| "then_do (Exit c) f = Exit c"
| "then_do Child f = Child"
| "then_do Spin f = Spin"

section \<open>read and write\<close>

definition MAX_READ_SIZE :: int where "MAX_READ_SIZE = 65536"
definition MAX_WRITE_SIZE :: int where "MAX_WRITE_SIZE = 65536"

text \<open>The size of a transfer: what the event asks for, a few words, bytes or words up to a limit.\<close>

definition transfer_size :: "env \<Rightarrow> int \<Rightarrow> int \<Rightarrow> int gen" where
  "transfer_size e event_size limit p =
     (let k = e_rand e p mod 4; r = e_rand e (p + 1) in
      if k = 0 then (event_size, p + 1)
      else if k = 1 then ((r mod 8) * 8, p + 2)
      else if k = 2 then (r mod limit, p + 2)
      else ((r mod limit) * 8, p + 2))"

definition read_random_event :: "env \<Rightarrow> fstate \<Rightarrow> fstate" where
  "read_random_event e s =
     (case find_random_active_event e s of (i, s1) \<Rightarrow>
      if i < 0 then s1
      else (let v = event_data s1 ! nat i in
        if e_fd v = 0 then s1
        else (case run_gen (transfer_size e (e_read_size v) MAX_READ_SIZE) s1 of (sz, s2) \<Rightarrow>
          (let s3 = count_syscall (attempt Kread s2) in
           if i_read (e_ignore e) then s3
           else (let result = k_read e (sysno s3) (e_fd v) sz; s4 = syscall s3 in
             if result > 0
             then log_line e TYPE_READ (words [''R'', show_int (e_fd v), show_int sz]) (success Kread s4)
             else s4)))))"

definition write_random_event :: "env \<Rightarrow> fstate \<Rightarrow> fstate" where
  "write_random_event e s =
     (case find_random_active_event e s of (i, s1) \<Rightarrow>
      if i < 0 then s1
      else (let v = event_data s1 ! nat i in
        if e_fd v = 0 then s1
        else (case run_gen (transfer_size e (e_read_size v) MAX_WRITE_SIZE) s1 of (sz, s2) \<Rightarrow>
           if i_write (e_ignore e) then s2
           else (let s3 = count_syscall (attempt Kwrite s2);
                     result = k_write e (sysno s3) (e_fd v) sz; s4 = syscall s3 in
             if result > 0
             then log_line e TYPE_WRITE (words [''W'', show_int (e_fd v), show_int sz]) (success Kwrite s4)
             else s4))))"

section \<open>poll\<close>

definition MAX_POLL_FDS :: int where "MAX_POLL_FDS = 128"
definition POLLIN :: int where "POLLIN = 1"

fun poll_fds :: "env \<Rightarrow> nat \<Rightarrow> fstate \<Rightarrow> (int list \<times> fstate) option" where
  "poll_fds e 0 s = Some ([], s)"
| "poll_fds e (Suc n) s =
     (case find_random_active_event e s of (i, s1) \<Rightarrow>
      if \<not> index_ok i (event_data s1) then None
      else map_option (\<lambda>(fds, s2). (e_fd (event_data s1 ! nat i) # fds, s2)) (poll_fds e n s1))"

definition poll_line :: "int list \<Rightarrow> int \<Rightarrow> string" where
  "poll_line fds timeout =
     words ([''p'', show_int (int (length fds))] @
       concat (map (\<lambda>fd. [show_int fd, show_hex (word_of_int POLLIN :: u32)]) fds) @ [show_int timeout])"

definition poll_random_event :: "env \<Rightarrow> fstate \<Rightarrow> fstate option" where
  "poll_random_event e s =
     (case run_gen (roll_below e MAX_POLL_FDS) s of (num_fds, s1) \<Rightarrow>
      map_option (\<lambda>(fds, s2).
        case run_gen (roll_below e 10) s2 of (timeout, s3) \<Rightarrow>
          if i_poll (e_ignore e) then s3
          else (let s4 = count_syscall (attempt Kpoll s3);
                    result = k_poll e (sysno s4) fds timeout; s5 = syscall s4 in
            if result > 0 then log_line e TYPE_POLL (poll_line fds timeout) (success Kpoll s5) else s5))
        (poll_fds e (nat num_fds) s1))"

section \<open>prctl\<close>

definition prctl_random_event :: "env \<Rightarrow> fstate \<Rightarrow> fstate" where
  "prctl_random_event e s =
     (case run_gen (roll_below e 2) (count_syscall (attempt Kprctl s)) of (type, s1) \<Rightarrow>
      if i_prctl (e_ignore e) then s1
      else (let enable = type \<noteq> 0; ret = k_prctl e (sysno s1) enable; s2 = syscall s1 in
        if ret = 0
        then success Kprctl (log_line e TYPE_PRCTL (words [''P'', if enable then ''1'' else ''0'']) s2)
        else s2))"

section \<open>fork\<close>

text \<open>The child loops over a million instructions until it is orphaned, and exits.\<close>

definition kill_child :: "fstate \<Rightarrow> fstate" where
  "kill_child s = syscall (syscall (s\<lparr>killed := killed s @ [forked_pid s]\<rparr>))"

definition count_fork_errno :: "nat \<Rightarrow> fstate \<Rightarrow> fstate" where
  "count_fork_errno en =
     upd_stats (\<lambda>t. t\<lparr>fork_errno_count := (fork_errno_count t)(en := fork_errno_count t en + 1)\<rparr>)"

definition fork_random_event :: "env \<Rightarrow> fstate \<Rightarrow> fstate outcome" where
  "fork_random_event e s =
     (if i_fork (e_ignore e) then Ret s
      else if already_forked s then
        Ret ((count_syscall (count_syscall (kill_child (log_line e TYPE_FORK ''F 0'' s))))
             \<lparr>already_forked := False\<rparr>)
      else (let s1 = log_line e TYPE_FORK ''F 1'' s in
        case k_fork e (sysno s1) of (pid, en) \<Rightarrow>
          (let s2 = (syscall s1)\<lparr>forked_pid := pid, forks := forks s1 @ [pid]\<rparr> in
           if pid = 0 then Child
           else (let s3 = attempt Kfork (count_syscall s2) in
             if pid = - 1
             then Ret ((if en < MAX_ERRNOS then count_fork_errno en s3 else s3)\<lparr>already_forked := False\<rparr>)
             else Ret ((success Kfork s3)\<lparr>already_forked := True\<rparr>)))))"

section \<open>vsyscall, affinity, a million instructions\<close>

text \<open>Without a vsyscall page \<open>ret\<close> is never assigned. The log line is formatted, not written.\<close>

definition vsyscall_random_event :: "env \<Rightarrow> fstate \<Rightarrow> fstate" where
  "vsyscall_random_event e s =
     (let s1 = count_syscall (attempt Kvsyscall s) in
      if i_vsyscall (e_ignore e) then s1
      else (case run_gen (roll_below e 3) s1 of (which, s2) \<Rightarrow>
        (let ret = (if e_vsyscall e then 0 else e_garbage e (sysno s2)) in
         if ret = 0 then success Kvsyscall s2 else s2)))"

definition MAX_CPUS :: nat where "MAX_CPUS = 1024"

text \<open>The processors up to \<open>n\<close> for which a draw is odd.\<close>

fun some_cpus :: "env \<Rightarrow> nat list \<Rightarrow> nat list gen" where
  "some_cpus e [] p = ([], p)"
| "some_cpus e (c # cs) p =
     (case some_cpus e cs (p + 1) of (xs, q) \<Rightarrow>
       (if e_rand e p mod 2 \<noteq> 0 then c # xs else xs, q))"

definition cpu_mask :: "env \<Rightarrow> int \<Rightarrow> nat list gen" where
  "cpu_mask e which_one p =
     (if which_one = 0 then ([nat (e_rand e p mod 4)], p + 1)
      else if which_one = 1 then ([nat (e_rand e p mod int MAX_CPUS)], p + 1)
      else if which_one = 2 then some_cpus e [0..<32] p
      else some_cpus e [0..<MAX_CPUS] p)"

definition affinity_line :: "int \<Rightarrow> nat list \<Rightarrow> string" where
  "affinity_line which_one cpus =
     concat (map (\<lambda>w. w @ '' '')
       ([''a'', show_int which_one, show_nat (length cpus)] @ map show_nat cpus))"

definition cpu_affinity_event :: "env \<Rightarrow> fstate \<Rightarrow> fstate" where
  "cpu_affinity_event e s =
     (case run_gen (roll_below e 4) s of (which_one, s1) \<Rightarrow>
      case run_gen (cpu_mask e which_one) s1 of (cpus, s2) \<Rightarrow>
      (let s3 = count_syscall (attempt Kaffinity s2) in
       if i_affinity (e_ignore e) then s3
       else (let result = k_setaffinity e (sysno s3) cpus; s4 = syscall s3 in
         if result = 0
         then log_line e TYPE_AFFINITY (affinity_line which_one cpus) (success Kaffinity s4)
         else s4)))"

definition run_a_million_instructions :: "fstate \<Rightarrow> fstate" where
  "run_a_million_instructions s = s"

section \<open>Files under /proc\<close>

definition MAX_FILES :: nat where "MAX_FILES = 5"
definition MAX_FILENAMES :: int where "MAX_FILENAMES = 6"
definition BUFFER_SIZE :: int where "BUFFER_SIZE = 9000"

text \<open>
  The number of bytes to write. The loop of the second kind draws its limit again in every
  round, so three rounds at most; what it returns is the length of the last number, or of an
  uninitialised string when there was none.
\<close>

fun last_number :: "env \<Rightarrow> nat \<Rightarrow> int \<Rightarrow> int \<Rightarrow> int gen" where
  "last_number e 0 i sz p = (sz, p)"
| "last_number e (Suc fuel) i sz p =
     (if i < e_rand e p mod 4
      then last_number e fuel (i + 1) (int (length (show_int (e_rand e (p + 1))))) (p + 2)
      else (sz, p + 1))"

definition setup_random_write_value :: "env \<Rightarrow> nat \<Rightarrow> int gen" where
  "setup_random_write_value e n p =
     (let type = e_rand e p mod 3 in
      if type = 0 then (if e_rand e (p + 1) mod 5 = 0 then 2 else 1, p + 2)
      else if type = 1 then last_number e 4 0 (e_garbage e n) (p + 1)
      else (let sz = e_rand e (p + 1) mod BUFFER_SIZE in (sz, p + 2 + nat sz)))"

text \<open>The slot the loop over \<open>open_fds\<close> stops at; it runs to \<open>TYPE_ACCESS\<close>, not to \<open>MAX_FILES\<close>.\<close>

definition free_file :: "int list \<Rightarrow> nat option" where
  "free_file fds = (if 0 \<in> set fds then Some (length (takeWhile (\<lambda>fd. fd \<noteq> 0) fds)) else None)"

definition access_line :: "int list \<Rightarrow> string" where
  "access_line ns = words (''A'' # map show_int ns)"

definition access_open :: "env \<Rightarrow> int \<Rightarrow> fstate \<Rightarrow> int \<times> fstate" where
  "access_open e which_file s =
     (case run_gen (rand_open_flags e) s of (flags, s1) \<Rightarrow>
       (k_open_file e (sysno s1) (nat which_file) flags, syscall s1))"

definition access_close :: "env \<Rightarrow> int \<Rightarrow> fstate \<Rightarrow> fstate" where
  "access_close e fd s = syscall s"

definition access_read :: "env \<Rightarrow> int \<Rightarrow> int \<Rightarrow> fstate \<Rightarrow> fstate" where
  "access_read e which_file read_size s =
     (if i_access (e_ignore e) then s
      else (case access_open e which_file s of (fd, s1) \<Rightarrow>
        if fd > 0 then
          (let result = k_read e (sysno s1) fd read_size;
               s2 = log_line e TYPE_ACCESS (access_line [0, which_file, read_size, result]) (syscall s1)
           in access_close e fd (if result > 0 then success Kaccess s2 else s2))
        else s1))"

definition access_write :: "env \<Rightarrow> int \<Rightarrow> fstate \<Rightarrow> fstate" where
  "access_write e which_file s =
     (case access_open e which_file s of (fd, s1) \<Rightarrow>
      if fd > 0 then
        (if i_access (e_ignore e) then access_close e fd s1
         else (case run_gen (setup_random_write_value e (sysno s1)) s1 of (sz, s2) \<Rightarrow>
           (let result = k_write e (sysno s2) fd sz;
                s3 = log_line e TYPE_ACCESS (access_line [1, which_file, sz, result]) (syscall s2)
            in access_close e fd (if result > 0 then success Kaccess s3 else s3))))
      else s1)"

definition access_keep :: "env \<Rightarrow> int \<Rightarrow> fstate \<Rightarrow> fstate option" where
  "access_keep e which_file s =
     (if open_files s < int MAX_FILES then
        (case access_open e which_file s of (fd, s1) \<Rightarrow>
         if fd \<ge> 0 then
           (case free_file (open_fds s1) of
              None \<Rightarrow> None
            | Some k \<Rightarrow> Some (log_line e TYPE_ACCESS (access_line [2, int k]) (success Kaccess
                (s1\<lparr>open_fds := (open_fds s1)[k := fd], open_files := open_files s1 + 1\<rparr>))))
         else Some s1)
      else Some s)"

definition access_drop :: "env \<Rightarrow> fstate \<Rightarrow> fstate" where
  "access_drop e s =
     (case run_gen (roll_below e (int MAX_FILES)) s of (k, s1) \<Rightarrow>
      (let fd = open_fds s1 ! nat k in
       if fd \<noteq> 0 then
         log_line e TYPE_ACCESS (access_line [3, k]) (success Kaccess
           ((access_close e fd s1)\<lparr>open_fds := (open_fds s1)[nat k := 0], open_files := open_files s1 - 1\<rparr>))
       else s1))"

definition access_random_file :: "env \<Rightarrow> fstate \<Rightarrow> fstate option" where
  "access_random_file e s =
     (case run_gen (roll_below e MAX_FILENAMES) (attempt Kaccess s) of (which_file, s1) \<Rightarrow>
      case run_gen (roll_below e BUFFER_SIZE) s1 of (read_size, s2) \<Rightarrow>
      case run_gen (roll_below e 4) s2 of (which, s3) \<Rightarrow>
        if which = 0 then Some (access_read e which_file read_size s3)
        else if which = 1 then Some (access_write e which_file s3)
        else if which = 2 then access_keep e which_file s3
        else Some (access_drop e s3))"

end
