(* ===== verification/FuzzIoctl.thy ===== *)
theory FuzzIoctl
  imports FuzzCalls
begin

text \<open>
  \<open>ioctl_random_event\<close> of fuzzer/fuzz_ioctl.c: fourteen kinds of requests, most of them on a
  random active event. The pointers passed to the kernel are parameters (\<open>e_ptr\<close>).
\<close>

section \<open>Requests\<close>

definition IOC_ENABLE :: int where "IOC_ENABLE = 0x2400"
definition IOC_DISABLE :: int where "IOC_DISABLE = 0x2401"
definition IOC_REFRESH :: int where "IOC_REFRESH = 0x2402"
definition IOC_RESET :: int where "IOC_RESET = 0x2403"
definition IOC_PERIOD :: int where "IOC_PERIOD = 0x40082404"
definition IOC_SET_OUTPUT :: int where "IOC_SET_OUTPUT = 0x2405"
definition IOC_SET_FILTER :: int where "IOC_SET_FILTER = 0x40082406"
definition IOC_ID :: int where "IOC_ID = 0x80082407"
definition IOC_SET_BPF :: int where "IOC_SET_BPF = 0x40042408"
definition IOC_PAUSE_OUTPUT :: int where "IOC_PAUSE_OUTPUT = 0x40042409"
definition IOC_QUERY_BPF :: int where "IOC_QUERY_BPF = 0xC008240A"
definition IOC_MODIFY_ATTRIBUTES :: int where "IOC_MODIFY_ATTRIBUTES = 0x4008240B"

section \<open>The call, its log line and its statistics\<close>

definition do_ioctl :: "env \<Rightarrow> int \<Rightarrow> int \<Rightarrow> u64 \<Rightarrow> fstate \<Rightarrow> int \<times> fstate" where
  "do_ioctl e fd req arg s =
     (k_ioctl e (sysno s) fd (word_of_int req) arg,
      (syscall s)\<lparr>ioctls := ioctls s @ [(fd, word_of_int req, arg)]\<rparr>)"

definition log_ioctl :: "env \<Rightarrow> int \<Rightarrow> int \<Rightarrow> string list \<Rightarrow> int \<Rightarrow> fstate \<Rightarrow> fstate" where
  "log_ioctl e fd req args result s =
     (if result \<ge> 0 then log_line e TYPE_IOCTL (words ([''I'', show_int fd, show_int req] @ args)) s else s)"

text \<open>
  A request either comes back early because ioctls are to be skipped, or is done, with its
  result and the kind it is counted under; \<open>None\<close> is an access outside a table.
\<close>

datatype ioctl_result = Skipped fstate | Done int u32 fstate

definition skip_or :: "env \<Rightarrow> fstate \<Rightarrow> ioctl_result option \<Rightarrow> ioctl_result option" where
  "skip_or e s r = (if i_ioctl (e_ignore e) then Some (Skipped s) else r)"

text \<open>A request on event \<open>i\<close>, logged with the arguments \<open>args\<close>.\<close>

definition request ::
    "env \<Rightarrow> u32 \<Rightarrow> int \<Rightarrow> int \<Rightarrow> u64 \<Rightarrow> string list \<Rightarrow> fstate \<Rightarrow> ioctl_result option" where
  "request e k i req arg args s =
     skip_or e s
       (if \<not> index_ok i (event_data s) then None
        else (let fd = e_fd (event_data s ! nat i) in
          case do_ioctl e fd req arg s of (result, s1) \<Rightarrow>
            Some (Done result k (log_ioctl e fd req args result s1))))"

text \<open>The requests that pass a drawn number and log it.\<close>

definition request_arg :: "env \<Rightarrow> u32 \<Rightarrow> int \<Rightarrow> int \<Rightarrow> int gen \<Rightarrow> fstate \<Rightarrow> ioctl_result option" where
  "request_arg e k i req g s =
     (case run_gen g s of (arg, s1) \<Rightarrow> request e k i req (word_of_int arg) [show_int arg] s1)"

section \<open>The kinds\<close>

definition ioctl_refresh :: "env \<Rightarrow> int \<Rightarrow> fstate \<Rightarrow> ioctl_result option" where
  "ioctl_refresh e i s =
     (case run_gen (rand_refresh e) s of (arg, s1) \<Rightarrow>
      skip_or e s1
       (if \<not> index_ok i (event_data s1) then None
        else (let fd = e_fd (event_data s1 ! nat i) in
          case do_ioctl e fd IOC_REFRESH (word_of_int arg) s1 of (result, s2) \<Rightarrow>
            (let s3 = (if result > 0 then upd_event (nat i) (\<lambda>v. v\<lparr>e_last_refresh := arg\<rparr>) s2 else s2)
             in Some (Done result 2 (log_ioctl e fd IOC_REFRESH [show_int arg] result s3))))))"

definition ioctl_period :: "env \<Rightarrow> int \<Rightarrow> fstate \<Rightarrow> ioctl_result option" where
  "ioctl_period e i s =
     (case run_gen (rand_period e) s of (arg, s1) \<Rightarrow>
      request e 4 i IOC_PERIOD (e_ptr e ''arg'') [show_int arg] s1)"

definition ioctl_set_output :: "env \<Rightarrow> int \<Rightarrow> fstate \<Rightarrow> ioctl_result option" where
  "ioctl_set_output e i s =
     (case find_random_active_event e s of (j, s1) \<Rightarrow>
      if \<not> index_ok j (event_data s1) then None
      else (case run_gen (roll_below e 10) s1 of (r, s2) \<Rightarrow>
        (let arg = (if r = 0 then - 1 else e_fd (event_data s1 ! nat j))
         in request e 5 i IOC_SET_OUTPUT (word_of_int arg) [show_int arg] s2)))"

definition ioctl_set_filter :: "env \<Rightarrow> int \<Rightarrow> fstate \<Rightarrow> ioctl_result option" where
  "ioctl_set_filter e i s =
     (case run_gen (roll_below e 2) s of (custom, s1) \<Rightarrow>
      case (if custom \<noteq> 0 then run_gen (roll1 e) s1 else (uint (e_ptr e ''filter''), s1)) of (arg, s2) \<Rightarrow>
      if \<not> index_ok i (event_data s2) then None
      else (case fill_filter e (i32 (uint (a_config (e_attr (event_data s2 ! nat i))))) (rpos s2, tp_filter s2) of
          None \<Rightarrow> None
        | Some (filter_text, (p, buf)) \<Rightarrow>
            request e 6 i IOC_SET_FILTER (word_of_int arg)
              [show_int custom, show_int (i64 arg), filter_text] (s2\<lparr>rpos := p, tp_filter := buf\<rparr>)))"

definition ioctl_id :: "env \<Rightarrow> int \<Rightarrow> fstate \<Rightarrow> ioctl_result option" where
  "ioctl_id e i s =
     (case run_gen (roll1 e) s of (arg, s1) \<Rightarrow>
      request e 7 i IOC_ID (e_ptr e ''id'') [show_int (k_event_id e (sysno s1))] s1)"

text \<open>
  The first call installs a kprobe and loads a program; a failure returns -1 this once, and the
  initial 0 of the static variable from then on.
\<close>

definition setup_bpf_fd :: "env \<Rightarrow> fstate \<Rightarrow> int \<times> fstate" where
  "setup_bpf_fd e s =
     (if kprobe_initialized s then (bpf_fd s, s)
      else (let s1 = s\<lparr>kprobe_initialized := True\<rparr> in
        case k_kprobe e (sysno s1) of (can_write, kid, prog) \<Rightarrow>
          if \<not> can_write then (- 1, s1)
          else (case kid of None \<Rightarrow> (- 1, s1)
             | Some k \<Rightarrow> (prog, (syscall s1)\<lparr>kprobe_id := k, bpf_fd := prog\<rparr>))))"

text \<open>The log prints the variable \<open>id\<close>, which is not initialised in this and the next kinds.\<close>

definition ioctl_set_bpf :: "env \<Rightarrow> int \<Rightarrow> fstate \<Rightarrow> ioctl_result option" where
  "ioctl_set_bpf e i s =
     (case run_gen (roll1 e) s of (_, s1) \<Rightarrow>
      if i_ioctl (e_ignore e) then Some (Skipped s1)
      else (case setup_bpf_fd e s1 of (fd, s2) \<Rightarrow>
        request e 8 i IOC_SET_BPF (word_of_int fd) [show_int (e_garbage e (sysno s2))] s2))"

definition pause_arg :: "env \<Rightarrow> int gen" where
  "pause_arg e p =
     (let r = e_rand e p mod 3 in if r = 2 then roll1 e (p + 1) else (r, p + 1))"

definition ioctl_garbage_id :: "env \<Rightarrow> u32 \<Rightarrow> int \<Rightarrow> int \<Rightarrow> fstate \<Rightarrow> ioctl_result option" where
  "ioctl_garbage_id e k req i s =
     (case run_gen (pause_arg e) s of (arg, s1) \<Rightarrow>
      request e k i req (word_of_int arg) [show_int (e_garbage e (sysno s1))] s1)"

definition attr_ptr :: "env \<Rightarrow> int \<Rightarrow> u64" where
  "attr_ptr e k = e_ptr e (''attr '' @ show_int k)"

text \<open>
  The three ways to modify attributes are three \<open>if\<close>s on \<open>custom\<close>, and the second one assigns
  to it: when the event it finds is number 2, the third way is taken as well.
\<close>

definition modify_breakpoint :: "env \<Rightarrow> int \<Rightarrow> int \<Rightarrow> fstate \<Rightarrow> (int \<times> fstate) option" where
  "modify_breakpoint e breakpoint_event k s =
     (if \<not> index_ok breakpoint_event (event_data s) \<or> \<not> index_ok k (event_data s) then None
      else Some (do_ioctl e (e_fd (event_data s ! nat breakpoint_event)) IOC_MODIFY_ATTRIBUTES (attr_ptr e k) s))"

definition modify_random :: "env \<Rightarrow> int \<Rightarrow> fstate \<Rightarrow> (int \<times> fstate) option" where
  "modify_random e any_event s =
     (case run_gen (roll1 e) s of (arg, s1) \<Rightarrow>
      if \<not> index_ok any_event (event_data s1) then None
      else Some (do_ioctl e (e_fd (event_data s1 ! nat any_event)) IOC_MODIFY_ATTRIBUTES (word_of_int arg) s1))"

definition ioctl_modify :: "env \<Rightarrow> int \<Rightarrow> int \<Rightarrow> fstate \<Rightarrow> ioctl_result option" where
  "ioctl_modify e any_event breakpoint_event s =
     skip_or e s
      (case run_gen (roll_below e 3) s of (custom, s1) \<Rightarrow>
       (let way1 = (if custom = 0
            then map_option (\<lambda>r. (custom, r)) (modify_breakpoint e breakpoint_event any_event s1)
            else if custom = 1 then (case find_random_active_breakpoint_event e s1 of (k, s2) \<Rightarrow>
              map_option (\<lambda>r. (k, r)) (modify_breakpoint e breakpoint_event k s2))
            else Some (custom, (0, s1)))
        in case way1 of None \<Rightarrow> None
         | Some (custom', (result', s3)) \<Rightarrow>
            (case (if custom' = 2 then modify_random e any_event s3 else Some (result', s3)) of
               None \<Rightarrow> None
             | Some (result, s4) \<Rightarrow>
                 if \<not> index_ok any_event (event_data s4) then None
                 else Some (Done result 11 (log_ioctl e (e_fd (event_data s4 ! nat any_event))
                   IOC_MODIFY_ATTRIBUTES [show_int (e_garbage e (sysno s4))] result s4)))))"

definition ioctl_raw :: "env \<Rightarrow> int \<Rightarrow> int \<Rightarrow> u64 \<Rightarrow> int \<Rightarrow> fstate \<Rightarrow> ioctl_result option" where
  "ioctl_raw e i req arg logged s =
     request e (word_of_int req) i req arg [show_int logged] s"

definition ioctl_random_perf :: "env \<Rightarrow> int \<Rightarrow> fstate \<Rightarrow> ioctl_result option" where
  "ioctl_random_perf e i s =
     (let r = (\<lambda>k. e_rand e (rpos s + k));
          arg = (if r 0 mod 2 \<noteq> 0 then create_ioctl (r 1 mod 3) 36 (r 2 mod 64) (r 3 mod 16)
                 else create_ioctl (r 1 mod 3) 36 (r 2) (r 3))
      in if r 4 mod 2 \<noteq> 0
         then ioctl_raw e i arg (word_of_int (r 5)) (r 5) (s\<lparr>rpos := rpos s + 8\<rparr>)
         else ioctl_raw e i arg (e_ptr e ''valid_ram'') (sint (e_ptr e ''valid_ram'')) (s\<lparr>rpos := rpos s + 5\<rparr>))"

definition ioctl_random_any :: "env \<Rightarrow> int \<Rightarrow> fstate \<Rightarrow> ioctl_result option" where
  "ioctl_random_any e i s =
     (let r = (\<lambda>k. e_rand e (rpos s + k))
      in ioctl_raw e i (create_ioctl (r 0) (r 1) (r 2) (r 3)) (word_of_int (r 4)) (r 4)
           (s\<lparr>rpos := rpos s + 5\<rparr>))"

definition ioctl_kind :: "env \<Rightarrow> int \<Rightarrow> int \<Rightarrow> int \<Rightarrow> int \<Rightarrow> fstate \<Rightarrow> ioctl_result option" where
  "ioctl_kind e type any_event sampling_event breakpoint_event s =
     (if type = 0 then request_arg e 0 any_event IOC_ENABLE (rand_ioctl_arg e) s
      else if type = 1 then request_arg e 1 any_event IOC_DISABLE (rand_ioctl_arg e) s
      else if type = 2 then ioctl_refresh e sampling_event s
      else if type = 3 then request_arg e 3 any_event IOC_RESET (rand_ioctl_arg e) s
      else if type = 4 then ioctl_period e sampling_event s
      else if type = 5 then ioctl_set_output e sampling_event s
      else if type = 6 then ioctl_set_filter e any_event s
      else if type = 7 then ioctl_id e any_event s
      else if type = 8 then ioctl_set_bpf e any_event s
      else if type = 9 then ioctl_garbage_id e 9 IOC_PAUSE_OUTPUT any_event s
      else if type = 10 then ioctl_garbage_id e 10 IOC_QUERY_BPF any_event s
      else if type = 11 then ioctl_modify e any_event breakpoint_event s
      else if type = 12 then ioctl_random_perf e any_event s
      else ioctl_random_any e any_event s)"

section \<open>ioctl_random_event\<close>

definition bump :: "nat \<Rightarrow> (nat \<Rightarrow> int) \<Rightarrow> nat \<Rightarrow> int" where
  "bump k f = f(k := f k + 1)"

definition count_ioctl :: "int \<Rightarrow> u32 \<Rightarrow> fstate \<Rightarrow> fstate" where
  "count_ioctl result type s =
     (let s1 = count_syscall (attempt Kioctl s);
          k = (if unat type > MAX_IOCTL_TYPE - 1 then MAX_IOCTL_TYPE - 1 else unat type)
      in if result \<ge> 0
         then upd_stats (\<lambda>t. t\<lparr>ioctl_type_success := bump k (ioctl_type_success t)\<rparr>) (success Kioctl s1)
         else upd_stats (\<lambda>t. t\<lparr>ioctl_type_fail := bump k (ioctl_type_fail t)\<rparr>) s1)"

definition ioctl_random_event :: "env \<Rightarrow> fstate \<Rightarrow> fstate option" where
  "ioctl_random_event e s =
     (case find_random_active_event e s of (any_event, s1) \<Rightarrow>
      case find_random_active_sampling_event e s1 of (sampling, s2) \<Rightarrow>
      case find_random_active_breakpoint_event e s2 of (breakpoint_event, s3) \<Rightarrow>
      case run_gen (roll_below e 4) s3 of (r, s4) \<Rightarrow>
      (let sampling_event = (if sampling < 0 \<or> r = 0 then any_event else sampling) in
       if any_event < 0 then Some s4
       else (case run_gen (roll_below e 14) s4 of (type, s5) \<Rightarrow>
         (case ioctl_kind e type any_event sampling_event breakpoint_event s5 of
            None \<Rightarrow> None
          | Some (Skipped s6) \<Rightarrow> Some s6
          | Some (Done result k s6) \<Rightarrow> Some (count_ioctl result k s6)))))"

end
