(* ===== verification/FuzzOpen.thy ===== *)
theory FuzzOpen
  imports FuzzIoctl PerfEvent
begin

text \<open>
  fuzzer/fuzz_open.c: opening a random event, retrying until one opens, and the nominal size of
  a read from it. \<open>sanitise\<close> and \<open>get_cpu\<close> are trinity's.
\<close>

section \<open>update_read_size\<close>

text \<open>All the flags of \<open>read_format\<close> are in its low half.\<close>

definition read_words :: "u32 \<Rightarrow> int \<Rightarrow> int" where
  "read_words rf number_in_group =
     (let times = b2i (has rf PERF_FORMAT_TOTAL_TIME_ENABLED) + b2i (has rf PERF_FORMAT_TOTAL_TIME_RUNNING)
      in if has rf PERF_FORMAT_GROUP
         then 1 + times + (1 + (b2i (has rf PERF_FORMAT_ID) + b2i (has rf PERF_FORMAT_LOST)) * number_in_group)
         else 1 + times + b2i (has rf PERF_FORMAT_ID) + b2i (has rf PERF_FORMAT_LOST))"

definition update_read_size :: "event_data_t \<Rightarrow> int" where
  "update_read_size v = read_words (ucast (a_read_format (e_attr v))) (e_number_in_group v) * 8"

section \<open>Errors\<close>

definition EPERM :: nat where "EPERM = 1"
definition ENOENT :: nat where "ENOENT = 2"
definition E2BIG :: nat where "E2BIG = 7"
definition EBADF :: nat where "EBADF = 9"
definition EAGAIN :: nat where "EAGAIN = 11"
definition EACCES :: nat where "EACCES = 13"
definition EFAULT :: nat where "EFAULT = 14"
definition EBUSY :: nat where "EBUSY = 16"
definition ENODEV :: nat where "ENODEV = 19"
definition EINVAL :: nat where "EINVAL = 22"
definition EMFILE :: nat where "EMFILE = 24"
definition ENOSPC :: nat where "ENOSPC = 28"
definition EOVERFLOW :: nat where "EOVERFLOW = 75"
definition EOPNOTSUPP :: nat where "EOPNOTSUPP = 95"

lemmas errno_defs = EPERM_def ENOENT_def E2BIG_def EBADF_def EAGAIN_def EACCES_def EFAULT_def
  EBUSY_def ENODEV_def EINVAL_def EMFILE_def ENOSPC_def EOVERFLOW_def EOPNOTSUPP_def

definition known_errno :: "nat \<Rightarrow> bool" where
  "known_errno en \<longleftrightarrow> en \<in> {EPERM, ENOENT, E2BIG, EBADF, EINVAL, EOPNOTSUPP, ENODEV, ENOSPC, EMFILE,
     EACCES, EBUSY, EAGAIN, EOVERFLOW, EFAULT}"

section \<open>One attempt\<close>

definition PERF_TYPE_TRACEPOINT :: u32 where "PERF_TYPE_TRACEPOINT = 2"

text \<open>The description of the event: trinity's arguments, perhaps a group leader, perhaps the kprobe.\<close>

definition describe :: "env \<Rightarrow> nat \<Rightarrow> fstate \<Rightarrow> (nat \<times> fstate) option" where
  "describe e i s =
     (case e_sanitise e (rpos s) of (args, p) \<Rightarrow>
      case e_get_cpu e p of (cpu, p') \<Rightarrow>
      case draw e (upd_event i (\<lambda>v. v\<lparr>e_attr := o_attr args, e_pid := o_pid args, e_cpu := cpu,
          e_group_fd := o_group_fd args, e_flags := o_flags args\<rparr>) (s\<lparr>rpos := p'\<rparr>)) of (r, s1) \<Rightarrow>
      (case (if r mod 4 = 2 then (case find_random_active_event e s1 of (j, s2) \<Rightarrow>
               if \<not> index_ok j (event_data s2) then None
               else Some (upd_event i (\<lambda>v. v\<lparr>e_group_fd := e_fd (event_data s2 ! nat j)\<rparr>) s2))
             else Some s1) of
         None \<Rightarrow> None
       | Some s3 \<Rightarrow>
           if a_type (o_attr args) = PERF_TYPE_TRACEPOINT
           then (case draw e s3 of (r', s4) \<Rightarrow>
             Some (o_trinity_type args, if r' mod 10 = 5
               then upd_event i (\<lambda>v. v\<lparr>e_attr := (e_attr v)\<lparr>a_config := word_of_int (kprobe_id s4)\<rparr>\<rparr>) s4
               else s4))
           else Some (o_trinity_type args, s3)))"

definition clamp_type :: "u32 \<Rightarrow> nat" where
  "clamp_type ty =
     (let t = sint ty in if t < 0 \<or> t > int MAX_OPEN_TYPE - 1 then MAX_OPEN_TYPE - 1 else nat t)"

definition count_open_success :: "nat \<Rightarrow> nat \<Rightarrow> fstate \<Rightarrow> fstate" where
  "count_open_success ty tri =
     upd_stats (\<lambda>t. t\<lparr>open_type_success := bump ty (open_type_success t),
                      open_trinity_type_success := bump tri (open_trinity_type_success t)\<rparr>)"

definition count_open_fail :: "nat \<Rightarrow> nat \<Rightarrow> nat \<Rightarrow> fstate \<Rightarrow> fstate" where
  "count_open_fail en ty tri s =
     (if en < MAX_ERRNOS
      then upd_stats (\<lambda>t. t\<lparr>open_errno_count := bump en (open_errno_count t),
             open_type_fail := bump ty (open_type_fail t),
             open_trinity_type_fail := bump tri (open_trinity_type_fail t)\<rparr>) s
      else s)"

text \<open>What an attempt leads to: an open event, a return, or another attempt.\<close>

datatype attempt_result = Opened int fstate | Gave_up fstate | Again fstate

definition open_attempt :: "env \<Rightarrow> nat \<Rightarrow> fstate \<Rightarrow> attempt_result outcome" where
  "open_attempt e i s =
     (case describe e i s of None \<Rightarrow> Fault
      | Some (tri, s1) \<Rightarrow>
        if i_open (e_ignore e) then Ret (Gave_up s1)
        else (let v = event_data s1 ! i; ty = clamp_type (a_type (e_attr v)) in
          case k_open e (sysno s1) (e_attr v) (e_pid v) (e_cpu v) (e_group_fd v) (e_flags v) of (fd, en) \<Rightarrow>
            (let s2 = count_syscall (attempt Kopen (syscall s1)) in
             if fd > 2 then Ret (Opened fd (count_open_success ty tri s2))
             else if fd \<ge> 0 then Exit 1
             else (let s3 = count_open_fail en ty tri s2 in
               if \<not> known_errno en then Exit 1
               else if en = EMFILE then Ret (Gave_up s3)
               else Ret (Again s3)))))"

text \<open>\<open>while(1)\<close>, with fuel; \<open>None\<close> in the result is the return without an event.\<close>

fun open_loop :: "env \<Rightarrow> nat \<Rightarrow> nat \<Rightarrow> fstate \<Rightarrow> (int option \<times> fstate) outcome" where
  "open_loop e i 0 s = Spin"
| "open_loop e i (Suc n) s =
     then_do (open_attempt e i s)
       (\<lambda>r. case r of Opened fd s1 \<Rightarrow> Ret (Some fd, s1) | Gave_up s1 \<Rightarrow> Ret (None, s1)
              | Again s1 \<Rightarrow> open_loop e i n s1)"

section \<open>What follows\<close>

text \<open>The member of a group updates the leader's entry; a leader that is not in the table is entry -1.\<close>

definition join_group :: "int \<Rightarrow> fstate \<Rightarrow> fstate option" where
  "join_group group_fd s =
     (if group_fd = - 1 then Some s
      else (let j = lookup_event s group_fd in
        if \<not> index_ok j (event_data s) then None
        else Some (upd_event (nat j) (\<lambda>v. v\<lparr>e_read_size := update_read_size v\<rparr>)
               (upd_event (nat j) (\<lambda>v. v\<lparr>e_number_in_group := e_number_in_group v + 1\<rparr>) s))))"

text \<open>The handler for overflow signals; the results of \<open>sigaction\<close> and \<open>fcntl\<close> are only printed.\<close>

definition setup_overflow :: "env \<Rightarrow> bool \<Rightarrow> int \<Rightarrow> fstate \<Rightarrow> fstate" where
  "setup_overflow e overflow_enabled fd s =
     (if \<not> overflow_enabled then s
      else (case draw e s of (r, s1) \<Rightarrow>
        if r mod 2 \<noteq> 0 \<and> \<not> i_overflow (e_ignore e)
        then log_line e TYPE_OVERFLOW (words [''o'', show_int fd]) s1 else s1))"

definition opened :: "env \<Rightarrow> nat \<Rightarrow> int \<Rightarrow> fstate \<Rightarrow> fstate" where
  "opened e i fd s =
     (let v = event_data s ! i;
          s1 = upd_stats (\<lambda>t. t\<lparr>current_open := current_open t + 1\<rparr>) (success Kopen s);
          s2 = log_line e TYPE_OPEN
                 (log_open_line fd (e_pid v) (e_cpu v) (e_group_fd v) (e_flags v) (e_attr v)) s1
      in (upd_event i (\<lambda>v. v\<lparr>e_fd := fd, e_active := True\<rparr>) s2)\<lparr>active_events := active_events s2 + 1\<rparr>)"

definition finish_open :: "env \<Rightarrow> bool \<Rightarrow> bool \<Rightarrow> nat \<Rightarrow> int \<Rightarrow> fstate \<Rightarrow> fstate option" where
  "finish_open e mmap_enabled overflow_enabled i fd s =
     (let s1 = opened e i fd s in
      case join_group (e_group_fd (event_data s1 ! i)) s1 of None \<Rightarrow> None
      | Some s2 \<Rightarrow>
         (case (if mmap_enabled then map_option snd (setup_mmap e (int i) s2) else Some s2) of
            None \<Rightarrow> None
          | Some s3 \<Rightarrow> Some
             (upd_event i (\<lambda>v. v\<lparr>e_read_size := update_read_size v\<rparr>)
               (upd_event i (\<lambda>v. v\<lparr>e_number_in_group := 1\<rparr>)
                 (setup_overflow e overflow_enabled fd s3)))))"

definition open_random_event :: "env \<Rightarrow> nat \<Rightarrow> bool \<Rightarrow> bool \<Rightarrow> fstate \<Rightarrow> fstate outcome" where
  "open_random_event e fuel mmap_enabled overflow_enabled s =
     (let i = find_empty_event (event_data s) in
      if i < 0 then Ret s
      else then_do (open_loop e (nat i) fuel
             (upd_event (nat i) (\<lambda>v. v\<lparr>e_overflows := 0, e_throttles := 0\<rparr>) s))
           (\<lambda>(r, s1). case r of None \<Rightarrow> Ret s1
              | Some fd \<Rightarrow> of_option (finish_open e mmap_enabled overflow_enabled (nat i) fd s1)))"

end
