(* ===== verification/ReadSizeTheorems.thy ===== *)
theory ReadSizeTheorems
  imports FuzzOpen RecordSpec
begin

text \<open>The nominal read size of the fuzzer against the layout the kernel reads out.\<close>

lemma length_opt_le64: "length (opt rf f (le64 v)) = (if has rf f then 8 else 0)"
  by (simp add: opt_def)

lemma length_group_values:
  "length (concat (map (\<lambda>(val, ident, lost). le64 val @ opt rf PERF_FORMAT_ID (le64 ident) @
       opt rf PERF_FORMAT_LOST (le64 lost)) vs))
     = length vs * (8 + (if has rf PERF_FORMAT_ID then 8 else 0) + (if has rf PERF_FORMAT_LOST then 8 else 0))"
  by (induction vs) (auto simp: length_opt_le64 algebra_simps)

text \<open>The values the kernel returns for an event: alone, or with its group.\<close>

fun kernel_reply :: "event_data_t \<Rightarrow> read_values \<Rightarrow> bool" where
  "kernel_reply v (RfSingle val en run ident lost) \<longleftrightarrow>
     \<not> has (ucast (a_read_format (e_attr v))) PERF_FORMAT_GROUP"
| "kernel_reply v (RfGroup en run vs) \<longleftrightarrow>
     has (ucast (a_read_format (e_attr v))) PERF_FORMAT_GROUP \<and> e_number_in_group v = int (length vs)"

text \<open>
  C27. \<open>update_read_size\<close> is the size of what the kernel returns for an event that is not read as
  a group. For a group it counts the identifiers of every member but the value of only one: it
  is 8 bytes short for each further member, and right for a group of one.
\<close>

theorem update_read_size_layout:
  assumes "kernel_reply v vals"
  shows "int (length (enc_read_values (ucast (a_read_format (e_attr v))) vals)) = update_read_size v +
     (if has (ucast (a_read_format (e_attr v))) PERF_FORMAT_GROUP then 8 * (e_number_in_group v - 1) else 0)"
proof (cases vals)
  case (RfSingle val en run ident lost)
  with assms show ?thesis
    by (simp add: update_read_size_def read_words_def Let_def length_opt_le64)
next
  case (RfGroup en run vs)
  with assms show ?thesis
    by (simp add: update_read_size_def read_words_def Let_def length_opt_le64 length_group_values algebra_simps)
qed

definition ex_group_event :: event_data_t where
  "ex_group_event = \<lparr>e_active = True, e_fd = 4, e_attr = \<lparr>a_type = 0, a_size = 0, a_config = 0, a_sample_period = 0,
     a_sample_type = 0, a_read_format = 0xC, a_bits = 0, a_wakeup_events = 0, a_bp_type = 0, a_config1 = 0,
     a_config2 = 0, a_branch_sample_type = 0, a_sample_regs_user = 0, a_sample_stack_user = 0,
     a_clockid = 0, a_sample_regs_intr = 0, a_aux_watermark = 0, a_sample_max_stack = 0,
     a_reserved_2 = 0, a_aux_sample_size = 0, a_aux_action = 0, a_sig_data = 0, a_config3 = 0,
     a_config4 = 0\<rparr>, e_pid = 0, e_cpu = 0, e_group_fd = - 1, e_flags = 0, e_read_size = 8,
     e_number_in_group = 2, e_mmap = 0, e_last_refresh = 0, e_overflows = 0, e_throttles = 0\<rparr>"

theorem update_read_size_layout_witness:
  "int (length (enc_read_values 0xC (RfGroup 0 0 [(1, 2, 0), (3, 4, 0)]))) = update_read_size ex_group_event + 8"
  using update_read_size_layout [of ex_group_event "RfGroup 0 0 [(1, 2, 0), (3, 4, 0)]"]
  by (simp add: ex_group_event_def has_def read_format_defs)

end
