(* ===== verification/FuzzSignals.thy ===== *)
theory FuzzSignals
  imports FuzzOpen
begin

text \<open>
  fuzzer/fuzz_overflow.c: the handler of overflow signals, with its throttling of signal
  storms, the handler of \<open>SIGIO\<close>, and the shutdown the watchdog of perf_fuzzer.c calls.
\<close>

section \<open>our_handler\<close>

definition MAX_THROTTLES :: int where "MAX_THROTTLES = 10"

text \<open>
  An event that overflowed too often is left disabled, and its descriptor is closed when that
  does not help; its entry stays active.
\<close>

definition throttle :: "env \<Rightarrow> nat \<Rightarrow> fstate \<Rightarrow> fstate" where
  "throttle e i s =
     (let s1 = (upd_event i (\<lambda>v. v\<lparr>e_overflows := 0, e_throttles := e_throttles v + 1\<rparr>) s)
                 \<lparr>h_next_refresh := 0\<rparr>
      in if e_throttles (event_data s1 ! i) > MAX_THROTTLES then syscall s1 else s1)"

definition refresh_event :: "env \<Rightarrow> nat \<Rightarrow> int \<Rightarrow> fstate \<Rightarrow> fstate option" where
  "refresh_event e i fd s =
     (case perf_mmap_read e (e_mmap (event_data s ! i)) s of None \<Rightarrow> None
      | Some (_, s1) \<Rightarrow>
          (case do_ioctl e fd IOC_REFRESH (word_of_int (h_next_refresh s1)) s1 of (ret, s2) \<Rightarrow>
             Some (if ret = 0 then upd_event i (\<lambda>v. v\<lparr>e_last_refresh := h_next_refresh s2\<rparr>) s2 else s2)))"

definition handle_overflow :: "env \<Rightarrow> int \<Rightarrow> int \<Rightarrow> fstate \<Rightarrow> fstate option" where
  "handle_overflow e fd i s =
     (if i < 0 then Some s
      else (let s1 = upd_event (nat i) (\<lambda>v. v\<lparr>e_overflows := e_overflows v + 1\<rparr>) s in
        if e_overflows (event_data s1 ! nat i) > 10000 then Some (throttle e (nat i) s1)
        else refresh_event e (nat i) fd s1))"

definition our_handler :: "env \<Rightarrow> int \<Rightarrow> fstate \<Rightarrow> fstate option" where
  "our_handler e fd s =
     (if already_handling s
      then Some (upd_stats (\<lambda>t. t\<lparr>already_overflows := already_overflows t + 1\<rparr>) s)
      else (let s1 = upd_stats (\<lambda>t. t\<lparr>overflows := overflows t + 1\<rparr>) (s\<lparr>already_handling := True\<rparr>) in
        case do_ioctl e fd IOC_DISABLE 0 s1 of (ret, s2) \<Rightarrow>
          if ret < 0
          then Some (s2\<lparr>last_fd := if fd \<noteq> last_fd s2 then fd else last_fd s2, already_handling := False\<rparr>)
          else map_option (\<lambda>s. s\<lparr>already_handling := False\<rparr>) (handle_overflow e fd (lookup_event s2 fd) s2)))"

section \<open>sigio_handler\<close>

definition SI_KERNEL :: u32 where "SI_KERNEL = 0x80"

text \<open>\<open>for(i=0;i<NUM_EVENTS;i++) if (event_data[i].active) close_event(i,1);\<close>\<close>

fun close_active :: "env \<Rightarrow> nat list \<Rightarrow> fstate \<Rightarrow> fstate option" where
  "close_active e [] s = Some s"
| "close_active e (i # is) s =
     (if e_active (event_data s ! i)
      then (case close_event e (int i) True s of None \<Rightarrow> None | Some s1 \<Rightarrow> close_active e is s1)
      else close_active e is s)"

definition sigio_handler :: "env \<Rightarrow> u32 \<Rightarrow> fstate \<Rightarrow> fstate option" where
  "sigio_handler e si_code s =
     map_option (upd_stats (\<lambda>t. t\<lparr>sigios := sigios t + 1\<rparr>))
       (if has si_code SI_KERNEL then close_active e [0..<length (event_data s)] s else Some s)"

section \<open>The watchdog\<close>

definition orderly_shutdown :: "fstate \<Rightarrow> fstate" where
  "orderly_shutdown s = (if already_forked s then kill_child s else s)"

text \<open>The handler clears the counter that the main loop counts up, and leaves when it is still clear.\<close>

definition alarm_handler :: "fstate \<Rightarrow> fstate outcome" where
  "alarm_handler s =
     (if watchdog_counter s = 0 then Exit 1 else Ret (s\<lparr>watchdog_counter := 0\<rparr>))"

end
