(* ===== verification/FuzzStats.thy ===== *)
theory FuzzStats
  imports FuzzOpen
begin

text \<open>
  fuzzer/fuzzer_stats.c: the names of errors, the summary that is printed, and the reset of the
  counters after it. The two floating-point numbers of the first line are parameters, printed.
\<close>

section \<open>Names\<close>

definition errno_names :: "(nat \<times> string) list" where
  "errno_names = [(EPERM, ''EPERM''), (ENOENT, ''ENOENT''), (E2BIG, ''E2BIG''), (EBADF, ''EBADF''),
     (EINVAL, ''EINVAL''), (EOPNOTSUPP, ''EOPNOTSUPP''), (ENODEV, ''ENODEV''), (ENOSPC, ''ENOSPC''),
     (EMFILE, ''EMFILE''), (EACCES, ''EACCES''), (EBUSY, ''EBUSY''), (EAGAIN, ''EAGAIN''),
     (EOVERFLOW, ''EOVERFLOW''), (EFAULT, ''EFAULT'')]"

definition print_errno_name :: "nat \<Rightarrow> string" where
  "print_errno_name en =
     (case map_of errno_names en of Some nm \<Rightarrow> nm | None \<Rightarrow> ''UNKNOWN '' @ show_nat en)"

definition open_type_names :: "string list" where
  "open_type_names = [''Hardware'', ''Software'', ''Tracepoint'', ''Cache'', ''Raw'', ''Breakpoint'',
     ''#6'', ''#7'', ''#8'', ''#9'', ''#10'', ''#11'', ''#12'', ''#13'', ''#14'', ''#15'', ''#16'', ''#17'', ''#18'', ''>19'']"

definition open_trinity_type_names :: "string list" where
  "open_trinity_type_names = [''Normal'', ''Sampling'', ''Global'', ''Random'']"

definition ioctl_type_names :: "string list" where
  "ioctl_type_names = [''ENABLE'', ''DISABLE'', ''REFRESH'', ''RESET'', ''PERIOD'', ''SET_OUTPUT'',
     ''SET_FILTER'', ''ID'', ''SET_BPF'', ''PAUSE_OUTPUT'', ''QUERY_BPF'', ''MOD_ATTR'', ''#12'', ''#13'',
     ''#14'', ''>14'']"

text \<open>\<open>strncpy\<close> to a row of 20 bytes.\<close>

definition stats_set_pmu_name :: "nat \<Rightarrow> string \<Rightarrow> string list \<Rightarrow> string list" where
  "stats_set_pmu_name which nm names = names[which := take 20 nm]"

section \<open>The summary\<close>

definition ratio :: "string \<Rightarrow> int \<Rightarrow> int \<Rightarrow> string" where
  "ratio nm good bad = ''('' @ nm @ '' '' @ show_int good @ ''/'' @ show_int (good + bad) @ '')''"

definition ratios :: "string list \<Rightarrow> (nat \<Rightarrow> int) \<Rightarrow> (nat \<Rightarrow> int) \<Rightarrow> string" where
  "ratios names good bad =
     concat (map (\<lambda>i. ratio (names ! i) (good i) (bad i)) [0..<length names])"

definition tally :: "fuzzer_stats \<Rightarrow> call \<Rightarrow> string" where
  "tally t k = show_int (successful t k) @ ''/'' @ show_int (attempts t k)"

definition errno_lines :: "(nat \<Rightarrow> int) \<Rightarrow> string list" where
  "errno_lines counts =
     concat (map (\<lambda>i. if counts i \<noteq> 0 then [print_errno_name i @ '' : '' @ show_int (counts i)] else [])
       [0..<MAX_ERRNOS])"

definition call_line :: "fuzzer_stats \<Rightarrow> string \<Rightarrow> call \<Rightarrow> string" where
  "call_line t nm k = nm @ '': '' @ tally t k @ '' Successful''"

definition paren :: "fuzzer_stats \<Rightarrow> string \<Rightarrow> call \<Rightarrow> string" where
  "paren t nm k = ''('' @ nm @ '' '' @ tally t k @ '')''"

definition summary_lines :: "string list \<Rightarrow> string \<Rightarrow> string \<Rightarrow> fuzzer_stats \<Rightarrow> string list" where
  "summary_lines type_names elapsed rate t =
     [''Iteration '' @ show_int (total_iterations t) @ '', '' @ show_int (total_syscalls t) @
        '' syscalls in '' @ elapsed @ '' s ('' @ rate @ '' k syscalls/s)'',
      ''Open attempts: '' @ show_int (attempts t Kopen) @ ''  Successful: '' @ show_int (successful t Kopen) @
        ''  Currently open: '' @ show_int (current_open t)] @
     errno_lines (open_errno_count t) @
     [''Trinity Type '' @ ratios open_trinity_type_names (open_trinity_type_success t) (open_trinity_type_fail t),
      ''Type '' @ ratios type_names (open_type_success t) (open_type_fail t),
      call_line t ''Close'' Kclose, call_line t ''Read'' Kread, call_line t ''Write'' Kwrite,
      call_line t ''Ioctl'' Kioctl @ '': '' @ ratios ioctl_type_names (ioctl_type_success t) (ioctl_type_fail t),
      call_line t ''Mmap'' Kmmap @ '': '' @ paren t ''MMAP'' Kmmap @ paren t ''TRASH'' Ktrash @
        paren t ''READ'' Kmmap_read @ paren t ''UNMAP'' Kunmap @ paren t ''AUX'' Kaux @
        paren t ''AUX_READ'' Kaux_read,
      call_line t ''Prctl'' Kprctl, call_line t ''Vsyscall'' Kvsyscall,
      call_line t ''Affinity'' Kaffinity, call_line t ''Fork'' Kfork] @
     (if successful t Kfork \<noteq> attempts t Kfork
      then [''FORK FAILURES: '' @ concat (errno_lines (fork_errno_count t))] else []) @
     [call_line t ''Poll'' Kpoll, call_line t ''Access'' Kaccess,
      ''Overflows: '' @ show_int (overflows t) @ ''  Recursive: '' @ show_int (already_overflows t),
      ''SIGIOs due to RT signal queue full: '' @ show_int (sigios t)]"

section \<open>The reset\<close>

definition clear_below :: "nat \<Rightarrow> (nat \<Rightarrow> int) \<Rightarrow> nat \<Rightarrow> int" where
  "clear_below n f k = (if k < n then 0 else f k)"

definition reset_stats :: "fuzzer_stats \<Rightarrow> fuzzer_stats" where
  "reset_stats t =
     t\<lparr>total_syscalls := 0, attempts := (\<lambda>_. 0), successful := (\<lambda>_. 0),
       overflows := 0, already_overflows := 0, sigios := 0,
       open_errno_count := clear_below MAX_ERRNOS (open_errno_count t),
       fork_errno_count := clear_below MAX_ERRNOS (fork_errno_count t),
       open_type_success := clear_below MAX_OPEN_TYPE (open_type_success t),
       open_type_fail := clear_below MAX_OPEN_TYPE (open_type_fail t),
       open_trinity_type_success := clear_below MAX_OPEN_TRINITY_TYPE (open_trinity_type_success t),
       open_trinity_type_fail := clear_below MAX_OPEN_TRINITY_TYPE (open_trinity_type_fail t),
       ioctl_type_success := clear_below MAX_IOCTL_TYPE (ioctl_type_success t),
       ioctl_type_fail := clear_below MAX_IOCTL_TYPE (ioctl_type_fail t)\<rparr>"

definition dump_summary ::
    "bool \<Rightarrow> string list \<Rightarrow> string \<Rightarrow> string \<Rightarrow> fuzzer_stats \<Rightarrow> string list \<times> fuzzer_stats" where
  "dump_summary print_values type_names elapsed rate t =
     (if print_values then summary_lines type_names elapsed rate t else [], reset_stats t)"

end
