(* ===== verification/FuzzLoop.thy ===== *)
theory FuzzLoop
  imports FuzzSignals FuzzStats
begin

text \<open>
  fuzzer/perf_fuzzer.c: the command line, what is announced to be fuzzed, and the main loop
  that picks one of thirteen calls, closes a stuck event, and stops or reports.
\<close>

section \<open>The command line\<close>

text \<open>The letters of \<open>-t\<close>.\<close>

definition type_letters :: "(char \<times> u32) list" where
  "type_letters =
     [(CHR ''O'', TYPE_OPEN), (CHR ''C'', TYPE_CLOSE), (CHR ''I'', TYPE_IOCTL), (CHR ''R'', TYPE_READ),
      (CHR ''M'', TYPE_MMAP), (CHR ''F'', TYPE_FORK), (CHR ''Q'', TYPE_TRASH_MMAP), (CHR ''W'', TYPE_WRITE),
      (CHR ''P'', TYPE_PRCTL), (CHR ''V'', TYPE_VSYSCALL), (CHR ''p'', TYPE_POLL), (CHR ''A'', TYPE_ACCESS),
      (CHR ''o'', TYPE_OVERFLOW), (CHR ''i'', TYPE_MILLION), (CHR ''a'', TYPE_AFFINITY)]"

definition letter_type :: "char \<Rightarrow> u32" where
  "letter_type c = (case map_of type_letters c of Some ty \<Rightarrow> ty | None \<Rightarrow> 0)"

definition parse_types :: "string \<Rightarrow> u32" where
  "parse_types arg = fold (\<lambda>c ty. ty OR letter_type c) arg 0"

definition default_types :: u32 where
  "default_types = TYPE_MMAP OR TYPE_OVERFLOW OR TYPE_OPEN OR TYPE_CLOSE OR TYPE_READ OR TYPE_WRITE OR
     TYPE_IOCTL OR TYPE_FORK OR TYPE_PRCTL OR TYPE_POLL OR TYPE_MILLION OR TYPE_ACCESS OR
     TYPE_TRASH_MMAP OR TYPE_VSYSCALL OR TYPE_AFFINITY"

definition TYPE_ALL :: u32 where
  "TYPE_ALL = 0xffffffff"

record settings =
  o_logging :: u32
  o_logfile :: "string option"
  o_seed :: int
  o_seed_specified :: bool
  o_stop_after :: int
  o_type :: u32

definition default_settings :: settings where
  "default_settings = \<lparr>o_logging = 0, o_logfile = None, o_seed = 0, o_seed_specified = False,
     o_stop_after = 0, o_type = default_types\<rparr>"

text \<open>What \<open>getopt\<close> yields, option by option; \<open>Inl\<close> is the status of an early exit.\<close>

fun parse_options :: "(char \<times> string) list \<Rightarrow> settings \<Rightarrow> int + settings" where
  "parse_options [] st = Inr st"
| "parse_options ((c, optarg) # os) st =
     (if c = CHR ''h'' \<or> c = CHR ''v'' then Inl 0
      else if c = CHR ''l'' then parse_options os (st\<lparr>o_logging := TYPE_ALL, o_logfile := Some optarg\<rparr>)
      else if c = CHR ''r'' then parse_options os (st\<lparr>o_seed := atoi optarg, o_seed_specified := True\<rparr>)
      else if c = CHR ''s'' then parse_options os (st\<lparr>o_stop_after := atoi optarg\<rparr>)
      else if c = CHR ''t'' then parse_options os (st\<lparr>o_type := parse_types optarg\<rparr>)
      else Inl 1)"

section \<open>What is announced\<close>

definition syscall_names :: "(u32 \<times> string) list" where
  "syscall_names =
     [(TYPE_MMAP, ''mmap''), (TYPE_OPEN, ''perf_event_open''), (TYPE_CLOSE, ''close''),
      (TYPE_READ, ''read''), (TYPE_WRITE, ''write''), (TYPE_IOCTL, ''ioctl''), (TYPE_FORK, ''fork''),
      (TYPE_PRCTL, ''prctl''), (TYPE_POLL, ''poll''), (TYPE_VSYSCALL, ''vsyscall''),
      (TYPE_AFFINITY, ''affinity'')]"

definition other_names :: "(u32 \<times> string) list" where
  "other_names =
     [(TYPE_OVERFLOW, ''signal-handler-on-overflow''), (TYPE_MILLION, ''busy-instruction-loop''),
      (TYPE_ACCESS, ''accessing-perf-proc-and-sys-files''), (TYPE_TRASH_MMAP, ''trashing-the-mmap-page'')]"

text \<open>The names on the line of what is done, and on the line of what is not, if it is printed.\<close>

definition announce :: "(u32 \<times> string) list \<Rightarrow> u32 \<Rightarrow> string list \<times> string list option" where
  "announce names ty =
     (let done = map snd (filter (\<lambda>(t, _). has ty t) names);
          missing = length (filter (\<lambda>(t, _). \<not> has ty t) names)
      in (done, if missing \<noteq> 0 then Some (map snd (filter (\<lambda>(t, _). \<not> has ty t) names)) else None))"

section \<open>The main loop\<close>

definition fuzz_action :: "env \<Rightarrow> nat \<Rightarrow> u32 \<Rightarrow> int \<Rightarrow> fstate \<Rightarrow> fstate outcome" where
  "fuzz_action e fuel ty k s =
     (if k = 0 then (if has ty TYPE_OPEN
        then open_random_event e fuel (has ty TYPE_MMAP) (has ty TYPE_OVERFLOW) s else Ret s)
      else if k = 1 then (if has ty TYPE_CLOSE then of_option (close_random_event e s) else Ret s)
      else if k = 2 then (if has ty TYPE_IOCTL then of_option (ioctl_random_event e s) else Ret s)
      else if k = 3 then Ret (if has ty TYPE_PRCTL then prctl_random_event e s else s)
      else if k = 4 then Ret (if has ty TYPE_READ then read_random_event e s else s)
      else if k = 5 then Ret (if has ty TYPE_WRITE then write_random_event e s else s)
      else if k = 6 then (if has ty TYPE_ACCESS then of_option (access_random_file e s) else Ret s)
      else if k = 7 then (if has ty TYPE_FORK then fork_random_event e s else Ret s)
      else if k = 8 then (if has ty TYPE_POLL then of_option (poll_random_event e s) else Ret s)
      else if k = 9 then (if has ty TYPE_MMAP then of_option (mmap_random_event e ty s) else Ret s)
      else if k = 10 then Ret (if has ty TYPE_VSYSCALL then vsyscall_random_event e s else s)
      else if k = 11 then Ret (if has ty TYPE_AFFINITY then cpu_affinity_event e s else s)
      else Ret (if has ty TYPE_MILLION then run_a_million_instructions s else s))"

definition close_stuck :: "env \<Rightarrow> fstate \<Rightarrow> fstate option" where
  "close_stuck e s =
     (if throttle_close_event s \<noteq> 0
      then map_option (\<lambda>s. s\<lparr>throttle_close_event := 0\<rparr>) (close_event e (throttle_close_event s) True s)
      else Some s)"

definition STATUS_UPDATE_INTERVAL :: int where "STATUS_UPDATE_INTERVAL = 10000"

datatype loop_result = Continue fstate | Stopped fstate

text \<open>The end of an iteration: the refresh values, the counters, and the stop or the report.\<close>

definition end_iteration :: "env \<Rightarrow> fstate \<Rightarrow> loop_result" where
  "end_iteration e s =
     (case run_gen (roll_below e 2) s of (nor, s1) \<Rightarrow>
      case run_gen (rand_refresh e) s1 of (nr, s2) \<Rightarrow>
      (let s3 = upd_stats (\<lambda>t. t\<lparr>total_iterations := total_iterations t + 1\<rparr>)
                  (s2\<lparr>next_overflow_refresh := nor, next_refresh := nr,
                      watchdog_counter := watchdog_counter s2 + 1\<rparr>)
       in if e_stop_after e \<noteq> 0 \<and> total_iterations (stats s3) \<ge> e_stop_after e
          then Stopped (orderly_shutdown (upd_stats reset_stats s3))
          else if total_iterations (stats s3) mod STATUS_UPDATE_INTERVAL = 0
          then Continue (upd_stats reset_stats s3)
          else Continue s3))"

definition main_iteration :: "env \<Rightarrow> nat \<Rightarrow> u32 \<Rightarrow> fstate \<Rightarrow> loop_result outcome" where
  "main_iteration e fuel ty s =
     (case draw e s of (r, s1) \<Rightarrow>
      then_do (fuzz_action e fuel ty (r mod 13) s1) (\<lambda>s2.
      then_do (of_option (close_stuck e s2)) (\<lambda>s3. Ret (end_iteration e s3))))"

text \<open>\<open>while(1)\<close>, with fuel for its iterations and for the attempts to open an event in each.\<close>

fun main_loop :: "env \<Rightarrow> nat \<Rightarrow> u32 \<Rightarrow> nat \<Rightarrow> fstate \<Rightarrow> fstate outcome" where
  "main_loop e fuel ty 0 s = Spin"
| "main_loop e fuel ty (Suc n) s =
     then_do (main_iteration e fuel ty s)
       (\<lambda>r. case r of Stopped s1 \<Rightarrow> Ret s1 | Continue s1 \<Rightarrow> main_loop e fuel ty n s1)"

text \<open>The tables at the start; every \<open>read_size\<close> is random.\<close>

definition init_events :: "env \<Rightarrow> event_data_t \<Rightarrow> nat \<Rightarrow> event_data_t list gen" where
  "init_events e zero n p =
     (map (\<lambda>i. zero\<lparr>e_active := False, e_fd := 0, e_read_size := e_rand e (p + i)\<rparr>) [0..<n], p + n)"

end
