(* ===== verification/FuzzObs.thy ===== *)
theory FuzzObs
  imports FuzzLoop FuzzInv
begin

text \<open>
  What the invariants of the fuzzer look at, as observers of its state, and the effect of the
  small steps on each observer: the events and the room for mappings (\<open>evw\<close>), the counters of
  a call (\<open>att\<close>, \<open>succ\<close>), and the rest (\<open>side\<close>).
\<close>

section \<open>Observers\<close>

definition evw :: "fstate \<Rightarrow> event_data_t list \<times> int \<times> nat" where
  "evw s = (event_data s, active_events s, length (mmaps s))"

definition att :: "call \<Rightarrow> fstate \<Rightarrow> int" where
  "att k s = attempts (stats s) k"

definition succ :: "call \<Rightarrow> fstate \<Rightarrow> int" where
  "succ k s = successful (stats s) k"

definition side :: "fstate \<Rightarrow> int list \<times> int \<times> bool \<times> int \<times> int list \<times> int list \<times> int \<times> int \<times> bool \<times> int" where
  "side s = (open_fds s, open_files s, already_forked s, forked_pid s, forks s, killed s, h_next_refresh s,
     throttle_close_event s, already_handling s, total_iterations (stats s))"

definition tab :: "fstate \<Rightarrow> our_mmap_t list \<times> int" where
  "tab s = (mmaps s, active_mmaps s)"

lemmas observer_defs = evw_def att_def succ_def side_def tab_def

section \<open>Small steps\<close>

lemma obs_record [simp]:
  "evw (s\<lparr>rpos := p\<rparr>) = evw s" "att k (s\<lparr>rpos := p\<rparr>) = att k s" "succ k (s\<lparr>rpos := p\<rparr>) = succ k s"
  "side (s\<lparr>rpos := p\<rparr>) = side s" "tab (s\<lparr>rpos := p\<rparr>) = tab s"
  "evw (s\<lparr>ioctls := c\<rparr>) = evw s" "att k (s\<lparr>ioctls := c\<rparr>) = att k s" "succ k (s\<lparr>ioctls := c\<rparr>) = succ k s"
  "side (s\<lparr>ioctls := c\<rparr>) = side s" "tab (s\<lparr>ioctls := c\<rparr>) = tab s"
  "evw (s\<lparr>tp_filter := c2\<rparr>) = evw s" "att k (s\<lparr>tp_filter := c2\<rparr>) = att k s"
  "succ k (s\<lparr>tp_filter := c2\<rparr>) = succ k s" "side (s\<lparr>tp_filter := c2\<rparr>) = side s"
  "tab (s\<lparr>tp_filter := c2\<rparr>) = tab s"
  by (simp_all add: observer_defs)

lemma obs_steps [simp]:
  "evw (attempt k s) = evw s" "side (attempt k s) = side s" "tab (attempt k s) = tab s"
  "succ j (attempt k s) = succ j s" "att j (attempt k s) = (if j = k then att j s + 1 else att j s)"
  "evw (success k s) = evw s" "side (success k s) = side s" "tab (success k s) = tab s"
  "att j (success k s) = att j s" "succ j (success k s) = (if j = k then succ j s + 1 else succ j s)"
  "evw (count_syscall s) = evw s" "side (count_syscall s) = side s" "tab (count_syscall s) = tab s"
  "att j (count_syscall s) = att j s" "succ j (count_syscall s) = succ j s"
  "evw (syscall s) = evw s" "side (syscall s) = side s" "tab (syscall s) = tab s"
  "att j (syscall s) = att j s" "succ j (syscall s) = succ j s"
  "evw (log_line e ty l s) = evw s" "side (log_line e ty l s) = side s" "tab (log_line e ty l s) = tab s"
  "att j (log_line e ty l s) = att j s" "succ j (log_line e ty l s) = succ j s"
  "evw (log_unless sg e ty l s) = evw s" "side (log_unless sg e ty l s) = side s"
  "tab (log_unless sg e ty l s) = tab s"
  "att j (log_unless sg e ty l s) = att j s" "succ j (log_unless sg e ty l s) = succ j s"
  by (simp_all add: observer_defs attempt_def success_def count_syscall_def upd_stats_def syscall_def
      log_line_def log_unless_def)

lemma obs_upd [simp]:
  "side (upd_event i f s) = side s" "att k (upd_event i f s) = att k s" "succ k (upd_event i f s) = succ k s"
  "tab (upd_event i f s) = tab s"
  "side (upd_mmap i g s) = side s" "att k (upd_mmap i g s) = att k s" "succ k (upd_mmap i g s) = succ k s"
  "evw (upd_mmap i g s) = evw s"
  "evw (upd_stats h s) = evw s" "tab (upd_stats h s) = tab s"
  by (simp_all add: observer_defs upd_event_def upd_mmap_def upd_stats_def)

lemma obs_upd_stats [simp]:
  "(\<And>t. attempts (h t) = attempts t) \<Longrightarrow> att k (upd_stats h s) = att k s"
  "(\<And>t. successful (h t) = successful t) \<Longrightarrow> succ k (upd_stats h s) = succ k s"
  "(\<And>t. total_iterations (h t) = total_iterations t) \<Longrightarrow> side (upd_stats h s) = side s"
  by (simp_all add: observer_defs upd_stats_def)

lemma iters_steps [simp]:
  "total_iterations (stats (attempt k s)) = total_iterations (stats s)"
  "total_iterations (stats (success k s)) = total_iterations (stats s)"
  "total_iterations (stats (count_syscall s)) = total_iterations (stats s)"
  "total_iterations (stats (syscall s)) = total_iterations (stats s)"
  "total_iterations (stats (log_line e ty l s)) = total_iterations (stats s)"
  by (simp_all add: attempt_def success_def count_syscall_def upd_stats_def syscall_def log_line_def)

lemma iters_side: "side s1 = side s \<Longrightarrow> total_iterations (stats s1) = total_iterations (stats s)"
  by (simp add: side_def)

text \<open>Drawing changes no observer.\<close>

definition same_obs :: "fstate \<Rightarrow> fstate \<Rightarrow> bool" where
  "same_obs s s1 \<longleftrightarrow> evw s1 = evw s \<and> side s1 = side s \<and> tab s1 = tab s \<and>
     (\<forall>k. att k s1 = att k s \<and> succ k s1 = succ k s)"

lemma same_obs_refl [simp]: "same_obs s s"
  by (simp add: same_obs_def)

lemma same_obs_trans: "same_obs s t \<Longrightarrow> same_obs t u \<Longrightarrow> same_obs s u"
  by (simp add: same_obs_def)

lemma same_obs_draws:
  "draw e s = (r, s1) \<Longrightarrow> same_obs s s1"
  "run_gen g s = (x, s1) \<Longrightarrow> same_obs s s1"
  "find_random_active_event e s = (i, s1) \<Longrightarrow> same_obs s s1"
  "find_random_active_sampling_event e s = (i, s1) \<Longrightarrow> same_obs s s1"
  "find_random_active_breakpoint_event e s = (i, s1) \<Longrightarrow> same_obs s s1"
  "find_random_active_mmap e s = (i, s1) \<Longrightarrow> same_obs s s1"
  by (auto simp: same_obs_def draw_def run_gen_def find_random_active_event_def
      find_random_active_sampling_event_def find_random_active_breakpoint_event_def
      find_random_active_mmap_def split: prod.splits if_splits)

section \<open>The invariant\<close>

text \<open>\<open>it\<close> is the number of iterations, which only the main loop counts.\<close>

definition ev_ok :: "fstate \<Rightarrow> bool" where
  "ev_ok s \<longleftrightarrow> active_events s = int (actives e_active (event_data s)) \<and>
     (\<forall>v\<in>set (event_data s). index_ok (e_mmap v) (mmaps s))"

definition stats_ok :: "fstate \<Rightarrow> bool" where
  "stats_ok s \<longleftrightarrow> (\<forall>k. succ k s \<le> att k s)"

definition files_ok :: "fstate \<Rightarrow> bool" where
  "files_ok s \<longleftrightarrow> length (open_fds s) = MAX_FILES \<and>
     int (length (filter (\<lambda>fd. fd \<noteq> 0) (open_fds s))) \<le> open_files s \<and> open_files s \<le> int MAX_FILES"

text \<open>
  The processes the calls of \<open>fork\<close> started; all of them are killed, in their order, but the
  one that is still running.
\<close>

definition started_children :: "fstate \<Rightarrow> int list" where
  "started_children s = filter (\<lambda>p. 0 < p) (forks s)"

definition fork_ok :: "fstate \<Rightarrow> bool" where
  "fork_ok s \<longleftrightarrow> (already_forked s \<longrightarrow> 0 < forked_pid s) \<and>
     started_children s = killed s @ (if already_forked s then [forked_pid s] else [])"

definition all_killed :: "fstate \<Rightarrow> bool" where
  "all_killed s \<longleftrightarrow> killed s = started_children s"

definition quiet_ok :: "fstate \<Rightarrow> bool" where
  "quiet_ok s \<longleftrightarrow> throttle_close_event s = 0 \<and> h_next_refresh s = 0"

definition fuzz_ok :: "int \<Rightarrow> fstate \<Rightarrow> bool" where
  "fuzz_ok it s \<longleftrightarrow> maps_ok s \<and> ev_ok s \<and> stats_ok s \<and> files_ok s \<and> fork_ok s \<and> quiet_ok s \<and>
     total_iterations (stats s) = it"

lemma ev_ok_cong: "evw s1 = evw s \<Longrightarrow> ev_ok s1 = ev_ok s"
  by (auto simp: ev_ok_def evw_def index_ok_def)

lemma side_cong:
  "side s1 = side s \<Longrightarrow> files_ok s1 = files_ok s" "side s1 = side s \<Longrightarrow> fork_ok s1 = fork_ok s"
  "side s1 = side s \<Longrightarrow> quiet_ok s1 = quiet_ok s"
  "side s1 = side s \<Longrightarrow> total_iterations (stats s1) = total_iterations (stats s)"
  by (auto simp: files_ok_def fork_ok_def started_children_def quiet_ok_def side_def)

lemma tab_cong: "tab s1 = tab s \<Longrightarrow> maps_ok s1 = maps_ok s"
  by (auto simp: maps_ok_def tab_def)

text \<open>A step that keeps the tables and the rest, and counts no success without an attempt.\<close>

lemma fuzz_ok_step:
  assumes "fuzz_ok it s" and "evw s1 = evw s" and "side s1 = side s" and "tab s1 = tab s"
    and "\<And>k. succ k s1 - succ k s \<le> att k s1 - att k s"
  shows "fuzz_ok it s1"
proof -
  have "stats_ok s1" unfolding stats_ok_def
  proof
    fix k
    have "succ k s \<le> att k s" using assms(1) by (simp add: fuzz_ok_def stats_ok_def)
    with assms(5) [of k] show "succ k s1 \<le> att k s1" by linarith
  qed
  with assms(1) show ?thesis
    using ev_ok_cong [OF assms(2)] side_cong [OF assms(3)] tab_cong [OF assms(4)]
    by (simp add: fuzz_ok_def)
qed

lemma fuzz_ok_same: "fuzz_ok it s \<Longrightarrow> same_obs s s1 \<Longrightarrow> fuzz_ok it s1"
  by (erule fuzz_ok_step) (simp_all add: same_obs_def)

lemma ev_ok_upd_event:
  assumes "ev_ok s" and "e_active (f (event_data s ! i)) = e_active (event_data s ! i)"
    and "i < length (event_data s) \<Longrightarrow> index_ok (e_mmap (f (event_data s ! i))) (mmaps s)"
  shows "ev_ok (upd_event i f s)"
proof (cases "i < length (event_data s)")
  case True
  let ?x = "f (event_data s ! i)"
  have "actives e_active ((event_data s)[i := ?x]) = actives e_active (event_data s)"
    by (rule actives_same [OF True assms(2)])
  moreover have "set ((event_data s)[i := ?x]) \<subseteq> insert ?x (set (event_data s))"
    by (rule set_update_subset_insert)
  ultimately show ?thesis
    using assms(1) assms(3) [OF True] by (auto simp: ev_ok_def upd_event_def)
next
  case False
  then have "upd_event i f s = s" by (cases s) (simp add: upd_event_def list_update_beyond)
  with assms(1) show ?thesis by simp
qed

lemma fuzz_ok_upd_event:
  assumes "fuzz_ok it s" and "\<And>v. e_active (f v) = e_active v" and "\<And>v. e_mmap (f v) = e_mmap v"
  shows "fuzz_ok it (upd_event i f s)"
proof -
  have "ev_ok (upd_event i f s)"
    using assms by (intro ev_ok_upd_event) (auto simp: fuzz_ok_def ev_ok_def)
  moreover have "maps_ok (upd_event i f s)" "stats_ok (upd_event i f s)" "files_ok (upd_event i f s)"
    "fork_ok (upd_event i f s)" "quiet_ok (upd_event i f s)"
    using assms(1) tab_cong [of "upd_event i f s" s] side_cong [of "upd_event i f s" s]
    by (simp_all add: fuzz_ok_def stats_ok_def)
  moreover have "total_iterations (stats (upd_event i f s)) = it"
    using assms(1) by (simp add: fuzz_ok_def upd_event_def)
  ultimately show ?thesis by (simp add: fuzz_ok_def)
qed

text \<open>A random pick among the active events is one of them.\<close>

lemma find_random_active_event_ok:
  assumes "fuzz_ok it s" and "rand_ok e" and "find_random_active_event e s = (i, s1)" and "\<not> i < 0"
  shows "nat i < length (event_data s1)" and "e_active (event_data s1 ! nat i)"
proof -
  from assms(3,4) obtain r where act: "\<not> active_events s < 1" and r: "draw e s = (r, s1)"
    and i: "i = pick_event (event_data s) (r mod active_events s)"
    by (auto simp: find_random_active_event_def split: if_splits prod.splits)
  have ev: "event_data s1 = event_data s" using r by (auto simp: draw_def)
  have "0 \<le> r" using r assms(2) by (auto simp: draw_def rand_ok_def)
  moreover have "active_events s = int (actives e_active (event_data s))"
    using assms(1) by (simp add: fuzz_ok_def ev_ok_def)
  ultimately show "nat i < length (event_data s1)" and "e_active (event_data s1 ! nat i)"
    using evt.pick_total [of "active_events s" "event_data s" r] act unfolding i ev by simp_all
qed

end
