(* ===== verification/FuzzCallsInv.thy ===== *)
theory FuzzCallsInv
  imports FuzzObs
begin

text \<open>The invariant of the fuzzer along the calls that leave its tables alone.\<close>

lemma read_fuzz_ok: "fuzz_ok it s \<Longrightarrow> fuzz_ok it (read_random_event e s)"
  by (erule fuzz_ok_step)
    (auto simp: read_random_event_def Let_def same_obs_def dest!: same_obs_draws split: prod.splits)

lemma write_fuzz_ok: "fuzz_ok it s \<Longrightarrow> fuzz_ok it (write_random_event e s)"
  by (erule fuzz_ok_step)
    (auto simp: write_random_event_def Let_def same_obs_def dest!: same_obs_draws split: prod.splits)

lemma poll_fds_same: "poll_fds e n s = Some (fds, s1) \<Longrightarrow> same_obs s s1"
proof (induction n arbitrary: s fds)
  case 0
  then show ?case by simp
next
  case (Suc n)
  obtain i t where f: "find_random_active_event e s = (i, t)" by fastforce
  with Suc.prems obtain fds' where "poll_fds e n t = Some (fds', s1)" by (auto split: if_splits)
  from Suc.IH [OF this] same_obs_draws(3) [OF f] show ?case by (metis same_obs_trans)
qed

lemma poll_fuzz_ok:
  assumes "fuzz_ok it s" and "poll_random_event e s = Some s'"
  shows "fuzz_ok it s'"
proof -
  obtain n s1 where r1: "run_gen (roll_below e MAX_POLL_FDS) s = (n, s1)" by fastforce
  from assms(2) obtain fds s2 where pf: "poll_fds e (nat n) s1 = Some (fds, s2)"
    by (auto simp: poll_random_event_def r1)
  obtain timeout s3 where r3: "run_gen (roll_below e 10) s2 = (timeout, s3)" by fastforce
  have "same_obs s s3"
    using same_obs_draws(2) [OF r1] poll_fds_same [OF pf] same_obs_draws(2) [OF r3]
    by (blast intro: same_obs_trans)
  moreover have "s' = (if i_poll (e_ignore e) then s3 else
      let s4 = count_syscall (attempt Kpoll s3); result = k_poll e (sysno s4) fds timeout; s5 = syscall s4
      in if result > 0 then log_line e TYPE_POLL (poll_line fds timeout) (success Kpoll s5) else s5)"
    using assms(2) by (simp add: poll_random_event_def r1 pf r3)
  ultimately show ?thesis
    by (intro fuzz_ok_step [OF assms(1)]) (auto simp: Let_def same_obs_def)
qed

lemma prctl_fuzz_ok: "fuzz_ok it s \<Longrightarrow> fuzz_ok it (prctl_random_event e s)"
  by (erule fuzz_ok_step)
    (auto simp: prctl_random_event_def Let_def same_obs_def dest!: same_obs_draws split: prod.splits)

lemma vsyscall_fuzz_ok: "fuzz_ok it s \<Longrightarrow> fuzz_ok it (vsyscall_random_event e s)"
  by (erule fuzz_ok_step)
    (auto simp: vsyscall_random_event_def Let_def same_obs_def dest!: same_obs_draws split: prod.splits)

lemma affinity_fuzz_ok: "fuzz_ok it s \<Longrightarrow> fuzz_ok it (cpu_affinity_event e s)"
  by (erule fuzz_ok_step)
    (auto simp: cpu_affinity_event_def Let_def same_obs_def dest!: same_obs_draws split: prod.splits)

section \<open>fork\<close>

text \<open>What the kernel returns to the parent is -1 or the number of a process.\<close>

definition fork_answers :: "env \<Rightarrow> bool" where
  "fork_answers e \<longleftrightarrow> (\<forall>t. - 1 \<le> fst (k_fork e t))"

lemma obs_fork_fields [simp]:
  "evw (s\<lparr>already_forked := b\<rparr>) = evw s" "att k (s\<lparr>already_forked := b\<rparr>) = att k s"
  "succ k (s\<lparr>already_forked := b\<rparr>) = succ k s" "tab (s\<lparr>already_forked := b\<rparr>) = tab s"
  "evw (s\<lparr>forked_pid := p\<rparr>) = evw s" "att k (s\<lparr>forked_pid := p\<rparr>) = att k s"
  "succ k (s\<lparr>forked_pid := p\<rparr>) = succ k s" "tab (s\<lparr>forked_pid := p\<rparr>) = tab s"
  "evw (s\<lparr>forks := ps\<rparr>) = evw s" "att k (s\<lparr>forks := ps\<rparr>) = att k s"
  "succ k (s\<lparr>forks := ps\<rparr>) = succ k s" "tab (s\<lparr>forks := ps\<rparr>) = tab s"
  "evw (kill_child s) = evw s" "att k (kill_child s) = att k s" "succ k (kill_child s) = succ k s"
  "tab (kill_child s) = tab s"
  "att k (count_fork_errno en s) = att k s" "succ k (count_fork_errno en s) = succ k s"
  by (simp_all add: observer_defs kill_child_def syscall_def count_fork_errno_def upd_stats_def)

text \<open>The parts of the state that only \<open>fork\<close> changes.\<close>

lemma fork_fields:
  "open_fds (kill_child s) = open_fds s" "open_files (kill_child s) = open_files s"
  "already_forked (kill_child s) = already_forked s"
  "killed (kill_child s) = killed s @ [forked_pid s]" "forks (kill_child s) = forks s" "forked_pid (kill_child s) = forked_pid s"
  "throttle_close_event (kill_child s) = throttle_close_event s"
  "h_next_refresh (kill_child s) = h_next_refresh s" "already_handling (kill_child s) = already_handling s"
  by (simp_all add: kill_child_def syscall_def)

lemma side_fields:
  assumes "side s1 = side s"
  shows "open_fds s1 = open_fds s" "open_files s1 = open_files s" "already_forked s1 = already_forked s"
    "forked_pid s1 = forked_pid s" "killed s1 = killed s" "forks s1 = forks s" "throttle_close_event s1 = throttle_close_event s"
    "h_next_refresh s1 = h_next_refresh s" "already_handling s1 = already_handling s"
  using assms by (simp_all add: side_def)


lemma fork_fuzz_ok:
  assumes "fuzz_ok it s" and "fork_answers e" and "fork_random_event e s = Ret s'"
  shows "fuzz_ok it s'"
proof -
  have tabs: "evw s' = evw s" "tab s' = tab s" "\<And>k. succ k s' - succ k s \<le> att k s' - att k s"
    using assms(3) by (auto simp: fork_random_event_def Let_def count_fork_errno_def obs_upd_stats
        split: if_splits prod.splits)
  have files: "open_fds s' = open_fds s" "open_files s' = open_files s"
    "throttle_close_event s' = throttle_close_event s" "h_next_refresh s' = h_next_refresh s"
    "already_handling s' = already_handling s"
    "total_iterations (stats s') = total_iterations (stats s)"
    using assms(3)
    by (auto simp: fork_random_event_def Let_def count_fork_errno_def upd_stats_def syscall_def
        success_def attempt_def count_syscall_def log_line_def kill_child_def split: if_splits prod.splits)
  have fork: "fork_ok s'"
  proof -
    note ok = assms(1) [unfolded fuzz_ok_def fork_ok_def started_children_def]
    have ans: "- 1 \<le> fst (k_fork e t)" for t using assms(2) by (simp add: fork_answers_def)
    show ?thesis
    proof (cases "already_forked s")
      case True
      with assms(3) ok show ?thesis
        by (auto simp: fork_ok_def started_children_def fork_random_event_def count_syscall_def
            upd_stats_def kill_child_def syscall_def log_line_def split: if_splits)
    next
      case False
      obtain pid en where k: "k_fork e (sysno (log_line e TYPE_FORK ''F 1'' s)) = (pid, en)" by fastforce
      have "pid = - 1 \<or> pid = 0 \<or> 0 < pid"
        using ans [of "sysno (log_line e TYPE_FORK ''F 1'' s)"] k by auto
      with assms(3) ok False k show ?thesis
        by (auto simp: fork_ok_def started_children_def fork_random_event_def Let_def
            count_syscall_def upd_stats_def attempt_def success_def count_fork_errno_def syscall_def log_line_def split: if_splits)
    qed
  qed
  have "stats_ok s'" unfolding stats_ok_def
  proof
    fix k show "succ k s' \<le> att k s'"
      using tabs(3) [of k] assms(1) by (simp add: fuzz_ok_def stats_ok_def) (metis add_le_cancel_left diff_add_cancel order_trans le_diff_eq)
  qed
  then show ?thesis
    using assms(1) ev_ok_cong [OF tabs(1)] tab_cong [OF tabs(2)] files fork
    by (simp add: fuzz_ok_def files_ok_def quiet_ok_def)
qed

end
