(* ===== verification/FuzzAccessInv.thy ===== *)
theory FuzzAccessInv
  imports FuzzCallsInv
begin

text \<open>
  The invariant along the accesses to files under /proc: there is always a free slot among the
  five when \<open>open_files\<close> says so.
\<close>

lemma obs_open_files [simp]:
  "evw (s\<lparr>open_fds := a, open_files := b\<rparr>) = evw s" "tab (s\<lparr>open_fds := a, open_files := b\<rparr>) = tab s"
  "att k (s\<lparr>open_fds := a, open_files := b\<rparr>) = att k s" "succ k (s\<lparr>open_fds := a, open_files := b\<rparr>) = succ k s"
  by (simp_all add: observer_defs)

lemma obs_access_close [simp]:
  "evw (access_close e fd s) = evw s" "tab (access_close e fd s) = tab s" "side (access_close e fd s) = side s"
  "att k (access_close e fd s) = att k s" "succ k (access_close e fd s) = succ k s"
  by (simp_all add: access_close_def)

lemma access_open_same: "access_open e w s = (fd, s1) \<Longrightarrow> same_obs s s1"
  by (auto simp: access_open_def same_obs_def dest!: same_obs_draws split: prod.splits)

text \<open>At most one success, of an access.\<close>

definition accessed :: "fstate \<Rightarrow> fstate \<Rightarrow> bool" where
  "accessed s s1 \<longleftrightarrow> evw s1 = evw s \<and> tab s1 = tab s \<and>
     total_iterations (stats s1) = total_iterations (stats s) \<and>
     (\<forall>k. att k s1 = att k s \<and> succ k s1 \<le> succ k s + (if k = Kaccess then 1 else 0))"

lemma access_read_obs: "accessed s (access_read e w n s) \<and> side (access_read e w n s) = side s"
  by (auto simp: accessed_def access_read_def Let_def same_obs_def intro!: iters_side
      dest!: access_open_same split: prod.splits)

lemma access_write_obs: "accessed s (access_write e w s) \<and> side (access_write e w s) = side s"
  by (auto simp: accessed_def access_write_def Let_def same_obs_def intro!: iters_side
      dest!: access_open_same same_obs_draws split: prod.splits)

lemma access_keep_obs:
  assumes "access_keep e w s = Some s1"
  shows "accessed s s1"
proof -
  obtain fd t where o: "access_open e w s = (fd, t)" by fastforce
  from access_open_same [OF o] have t: "same_obs s t" .
  then have "total_iterations (stats t) = total_iterations (stats s)"
    by (intro iters_side) (simp add: same_obs_def)
  with assms o show ?thesis
    using t by (auto simp: accessed_def access_keep_def same_obs_def split: if_splits option.splits)
qed

lemma access_drop_obs: "accessed s (access_drop e s)"
proof -
  obtain k t where r: "run_gen (roll_below e (int MAX_FILES)) s = (k, t)" by fastforce
  from same_obs_draws(2) [OF r] have "total_iterations (stats t) = total_iterations (stats s)"
    by (intro iters_side) (simp add: same_obs_def)
  with same_obs_draws(2) [OF r] show ?thesis
    by (auto simp: accessed_def access_drop_def r Let_def same_obs_def access_close_def)
qed

section \<open>The slots\<close>

definition used :: "int list \<Rightarrow> nat" where
  "used fds = length (filter (\<lambda>fd. fd \<noteq> 0) fds)"

lemma files_ok_used:
  "files_ok s \<longleftrightarrow> length (open_fds s) = MAX_FILES \<and> int (used (open_fds s)) \<le> open_files s \<and>
     open_files s \<le> int MAX_FILES"
  by (simp add: files_ok_def used_def)

lemma used_full:
  assumes "0 \<notin> set fds"
  shows "used fds = length fds"
proof -
  from assms have "filter (\<lambda>fd. fd \<noteq> 0) fds = fds" by (intro filter_True) auto
  then show ?thesis by (simp add: used_def)
qed

lemma free_file_room:
  assumes "used fds < length fds"
  shows "\<exists>k. free_file fds = Some k \<and> k < length fds \<and> fds ! k = 0"
proof -
  have z: "0 \<in> set fds" using assms used_full [of fds] by auto
  have "length (takeWhile (\<lambda>fd. fd \<noteq> 0) fds) < length fds"
  proof (rule ccontr)
    assume "\<not> ?thesis"
    then have "takeWhile (\<lambda>fd. fd \<noteq> 0) fds = fds"
      by (metis takeWhile_eq_take take_all not_less)
    then have "\<forall>fd\<in>set fds. fd \<noteq> 0" by (simp add: takeWhile_eq_all_conv)
    with z show False by blast
  qed
  moreover from nth_length_takeWhile [OF this] have "fds ! length (takeWhile (\<lambda>fd. fd \<noteq> 0) fds) = 0"
    by simp
  ultimately show ?thesis using z by (simp add: free_file_def)
qed

lemma free_file_zero: "free_file fds = Some k \<Longrightarrow> k < length fds \<and> fds ! k = 0"
proof -
  assume a: "free_file fds = Some k"
  then have "0 \<in> set fds" by (simp add: free_file_def split: if_splits)
  then have "used fds < length fds"
    unfolding used_def by (intro length_filter_less) auto
  from free_file_room [OF this] a show ?thesis by simp
qed

lemma access_keep_files:
  assumes "files_ok s" and "access_keep e w s = Some s1"
  shows "files_ok s1"
proof -
  obtain fd t where o: "access_open e w s = (fd, t)" by fastforce
  from access_open_same [OF o] have t: "open_fds t = open_fds s" "open_files t = open_files s"
    by (simp_all add: same_obs_def side_def)
  show ?thesis
  proof (cases "open_files s < int MAX_FILES \<and> fd \<ge> 0")
    case True
    with assms(2) o obtain k where k: "free_file (open_fds t) = Some k" and
      f: "open_fds s1 = (open_fds s)[k := fd]" "open_files s1 = open_files s + 1"
      by (auto simp: access_keep_def t log_line_def success_def upd_stats_def split: option.splits if_splits)
    from free_file_zero [OF k] t have kb: "k < length (open_fds s)" "open_fds s ! k = 0" by simp_all
    have "int (used ((open_fds s)[k := fd])) \<le> int (used (open_fds s)) + 1"
      using length_filter_update [of k "open_fds s" "\<lambda>fd. fd \<noteq> 0" fd] kb
      unfolding used_def by (simp split: if_splits)
    with assms(1) f True show ?thesis by (simp add: files_ok_used)
  next
    case False
    with assms(2) o have "s1 = s \<or> s1 = t" by (auto simp: access_keep_def split: if_splits)
    with assms(1) t show ?thesis by (auto simp: files_ok_used)
  qed
qed

lemma access_drop_files:
  assumes "files_ok s" shows "files_ok (access_drop e s)"
proof -
  obtain k t where r: "run_gen (roll_below e (int MAX_FILES)) s = (k, t)" by fastforce
  have t: "open_fds t = open_fds s" "open_files t = open_files s"
    using same_obs_draws(2) [OF r] by (simp_all add: same_obs_def side_def)
  have k: "nat k < length (open_fds s)" using r assms
    by (auto simp: run_gen_def roll_below_def files_ok_def MAX_FILES_def nat_less_iff)
  show ?thesis
  proof (cases "open_fds s ! nat k = 0")
    case True
    with assms show ?thesis by (simp add: access_drop_def r t files_ok_used)
  next
    case False
    from length_filter_update [OF k, of "\<lambda>fd. fd \<noteq> 0" 0] False
    have "used ((open_fds s)[nat k := 0]) + 1 = used (open_fds s)" by (simp add: used_def)
    with assms False show ?thesis
      by (simp add: access_drop_def r t files_ok_used log_line_def success_def upd_stats_def Let_def)
  qed
qed

definition rest :: "fstate \<Rightarrow> bool \<times> int \<times> int list \<times> int list \<times> int \<times> int \<times> bool" where
  "rest s = (already_forked s, forked_pid s, forks s, killed s, h_next_refresh s, throttle_close_event s,
     already_handling s)"

lemma rest_cong: "rest s1 = rest s \<Longrightarrow> fork_ok s1 = fork_ok s \<and> quiet_ok s1 = quiet_ok s"
  by (auto simp: rest_def fork_ok_def started_children_def quiet_ok_def)

lemma rest_side: "side s1 = side s \<Longrightarrow> rest s1 = rest s"
  by (simp add: rest_def side_def)

lemma rest_steps [simp]:
  "rest (s\<lparr>open_fds := a, open_files := b\<rparr>) = rest s" "rest (log_line e ty l s) = rest s"
  "rest (success k s) = rest s" "rest (access_close e fd s) = rest s"
  by (simp_all add: rest_def log_line_def success_def upd_stats_def access_close_def syscall_def)

lemma access_side_rest:
  "access_keep e w s = Some s1 \<Longrightarrow> fork_ok s1 = fork_ok s \<and> quiet_ok s1 = quiet_ok s"
  "fork_ok (access_drop e s) = fork_ok s \<and> quiet_ok (access_drop e s) = quiet_ok s"
proof -
  assume a: "access_keep e w s = Some s1"
  obtain fd t where o: "access_open e w s = (fd, t)" by fastforce
  have t: "rest t = rest s" using access_open_same [OF o] by (intro rest_side) (simp add: same_obs_def)
  have "rest s1 = rest s"
    using a o t by (auto simp: access_keep_def split: option.splits if_splits)
  then show "fork_ok s1 = fork_ok s \<and> quiet_ok s1 = quiet_ok s" by (rule rest_cong)
next
  obtain k t where r: "run_gen (roll_below e (int MAX_FILES)) s = (k, t)" by fastforce
  have t: "rest t = rest s" using same_obs_draws(2) [OF r] by (intro rest_side) (simp add: same_obs_def)
  have "rest (access_drop e s) = rest s"
    by (simp add: access_drop_def r Let_def t)
  then show "fork_ok (access_drop e s) = fork_ok s \<and> quiet_ok (access_drop e s) = quiet_ok s"
    by (rule rest_cong)
qed

lemma fuzz_ok_accessed:
  assumes "fuzz_ok it s0" and "same_obs (attempt Kaccess s0) s" and "accessed s s1"
    and "files_ok s1" and "fork_ok s1 = fork_ok s" and "quiet_ok s1 = quiet_ok s"
  shows "fuzz_ok it s1"
proof -
  have side: "side s = side s0" and evw: "evw s1 = evw s0" and tab: "tab s1 = tab s0"
    using assms(2,3) by (simp_all add: same_obs_def accessed_def)
  have "stats_ok s1" unfolding stats_ok_def
  proof
    fix k
    have "succ k s0 \<le> att k s0" using assms(1) by (simp add: fuzz_ok_def stats_ok_def)
    moreover have "succ k s1 \<le> succ k s + (if k = Kaccess then 1 else 0)" "att k s1 = att k s"
      using assms(3) by (simp_all add: accessed_def)
    moreover have "succ k s = succ k s0" "att k s = (if k = Kaccess then att k s0 + 1 else att k s0)"
      using assms(2) by (simp_all add: same_obs_def)
    ultimately show "succ k s1 \<le> att k s1" by (simp split: if_splits)
  qed
  moreover have "total_iterations (stats s1) = total_iterations (stats s0)"
    using assms(3) iters_side [OF side] by (simp add: accessed_def)
  ultimately show ?thesis
    using assms(1,4-6) ev_ok_cong [OF evw] tab_cong [OF tab] side_cong [OF side]
    by (simp add: fuzz_ok_def)
qed

lemma access_fuzz_ok:
  assumes "fuzz_ok it s" and "access_random_file e s = Some s'"
  shows "fuzz_ok it s'"
proof -
  obtain w s1 where r1: "run_gen (roll_below e MAX_FILENAMES) (attempt Kaccess s) = (w, s1)" by fastforce
  obtain n s2 where r2: "run_gen (roll_below e BUFFER_SIZE) s1 = (n, s2)" by fastforce
  obtain k s3 where r3: "run_gen (roll_below e 4) s2 = (k, s3)" by fastforce
  have same: "same_obs (attempt Kaccess s) s3"
    using same_obs_draws(2) [OF r1] same_obs_draws(2) [OF r2] same_obs_draws(2) [OF r3]
    by (blast intro: same_obs_trans)
  have f3: "files_ok s3"
    using assms(1) side_cong(1) [of s3 s] same by (simp add: same_obs_def fuzz_ok_def)
  note res = assms(2) [unfolded access_random_file_def r1 prod.case r2 r3]
  have "s' = access_read e w n s3 \<or> s' = access_write e w s3 \<or> access_keep e w s3 = Some s' \<or>
      s' = access_drop e s3"
    using res by (cases "k = 0"; cases "k = 1"; cases "k = 2"; simp)
  then consider (c0) "s' = access_read e w n s3" | (c1) "s' = access_write e w s3"
    | (c2) "access_keep e w s3 = Some s'" | (c3) "s' = access_drop e s3" by blast
  then show ?thesis
  proof cases
    case c0
    have "accessed s3 s'" "side s' = side s3" using access_read_obs [of s3 e w n] c0 by simp_all
    with f3 show ?thesis
      by (intro fuzz_ok_accessed [OF assms(1) same]) (simp_all only: side_cong [OF \<open>side s' = side s3\<close>])
  next
    case c1
    have "accessed s3 s'" "side s' = side s3" using access_write_obs [of s3 e w] c1 by simp_all
    with f3 show ?thesis
      by (intro fuzz_ok_accessed [OF assms(1) same]) (simp_all only: side_cong [OF \<open>side s' = side s3\<close>])
  next
    case c2
    from access_keep_obs [OF c2] access_keep_files [OF f3 c2] access_side_rest(1) [OF c2]
    show ?thesis by (intro fuzz_ok_accessed [OF assms(1) same]) blast+
  next
    case c3
    from access_drop_obs [of s3 e] access_drop_files [OF f3, of e] access_side_rest(2) [of e s3]
    show ?thesis unfolding c3 by (intro fuzz_ok_accessed [OF assms(1) same]) blast+
  qed
qed

text \<open>The loop over the slots never runs off the array.\<close>

lemma access_never_faults:
  assumes "fuzz_ok it s"
  shows "access_random_file e s \<noteq> None"
proof -
  obtain w s1 where r1: "run_gen (roll_below e MAX_FILENAMES) (attempt Kaccess s) = (w, s1)" by fastforce
  obtain n s2 where r2: "run_gen (roll_below e BUFFER_SIZE) s1 = (n, s2)" by fastforce
  obtain k s3 where r3: "run_gen (roll_below e 4) s2 = (k, s3)" by fastforce
  have same: "same_obs (attempt Kaccess s) s3"
    using same_obs_draws(2) [OF r1] same_obs_draws(2) [OF r2] same_obs_draws(2) [OF r3]
    by (blast intro: same_obs_trans)
  have f3: "files_ok s3"
    using assms side_cong(1) [of s3 s] same by (simp add: same_obs_def fuzz_ok_def)
  obtain fd t where o: "access_open e w s3 = (fd, t)" by fastforce
  have t: "open_fds t = open_fds s3" "open_files t = open_files s3"
    using access_open_same [OF o] by (simp_all add: same_obs_def side_def)
  have "free_file (open_fds t) \<noteq> None" if "open_files s3 < int MAX_FILES"
    using free_file_room [of "open_fds t"] f3 that t by (auto simp: files_ok_used)
  then have "access_keep e w s3 \<noteq> None"
    by (auto simp: access_keep_def o split: option.splits)
  then show ?thesis by (simp add: access_random_file_def r1 r2 r3)
qed

end
