(* ===== verification/FuzzTablesInv.thy ===== *)
theory FuzzTablesInv
  imports FuzzAccessInv
begin

text \<open>
  The invariant of the fuzzer along the operations on its tables: mappings and the closing of
  events.
\<close>

section \<open>Observers of the steps\<close>

lemma obs_mmap_steps [simp]:
  "side (activate i s) = side s" "evw (activate i s) = evw s" "att k (activate i s) = att k s"
  "succ k (activate i s) = succ k s"
  "side (count_mapped s) = side s" "evw (count_mapped s) = evw s" "att k (count_mapped s) = att k s"
  "succ k (count_mapped s) = succ k s"
  "side (set_aux_area a o1 z s) = side s" "evw (set_aux_area a o1 z s) = evw s"
  "att k (set_aux_area a o1 z s) = att k s" "succ k (set_aux_area a o1 z s) = succ k s"
  "side (set_tail a h s) = side s" "evw (set_tail a h s) = evw s" "att k (set_tail a h s) = att k s"
  "succ k (set_tail a h s) = succ k s"
  "side (set_aux_tail a h s) = side s" "evw (set_aux_tail a h s) = evw s"
  "att k (set_aux_tail a h s) = att k s" "succ k (set_aux_tail a h s) = succ k s"
  "side (s\<lparr>active_mmaps := n\<rparr>) = side s" "evw (s\<lparr>active_mmaps := n\<rparr>) = evw s"
  "att k (s\<lparr>active_mmaps := n\<rparr>) = att k s" "succ k (s\<lparr>active_mmaps := n\<rparr>) = succ k s"
  "side (s\<lparr>active_events := n\<rparr>) = side s" "tab (s\<lparr>active_events := n\<rparr>) = tab s"
  "att k (s\<lparr>active_events := n\<rparr>) = att k s" "succ k (s\<lparr>active_events := n\<rparr>) = succ k s"
  by (simp_all add: observer_defs activate_def upd_mmap_def count_mapped_def set_aux_area_def
      set_tail_def set_aux_tail_def)

lemma evw_upd_event: "evw s1 = evw s \<Longrightarrow> evw (upd_event i f s1) = evw (upd_event i f s)"
  by (auto simp: evw_def upd_event_def)

lemma obs_mapped [simp]:
  "side (mapped e k i w f sz fd a s) = side s" "att j (mapped e k i w f sz fd a s) = att j s"
  "succ j (mapped e k i w f sz fd a s) = (if j = k then succ j s + 1 else succ j s)"
  "evw (mapped e k i w f sz fd a s) = evw (upd_event (nat w) (\<lambda>v. v\<lparr>e_mmap := int i\<rparr>) s)"
  by (simp_all add: mapped_def) (simp add: evw_def upd_event_def count_mapped_def)

text \<open>The relation of a step to its state: the rest is kept, no success without an attempt.\<close>

definition step_of :: "fstate \<Rightarrow> fstate \<Rightarrow> bool" where
  "step_of s s1 \<longleftrightarrow> side s1 = side s \<and> (\<forall>k. succ k s1 - succ k s \<le> att k s1 - att k s)"

lemma step_of_trans: "step_of s t \<Longrightarrow> step_of t u \<Longrightarrow> step_of s u"
  unfolding step_of_def by (auto) (smt (verit))

lemma step_of_same: "same_obs s s1 \<Longrightarrow> step_of s s1"
  by (simp add: step_of_def same_obs_def)

lemma step_of_refl [simp]: "step_of s s"
  by (simp add: step_of_def)

lemma step_of_same_trans: "same_obs s t \<Longrightarrow> step_of t u \<Longrightarrow> step_of s u"
  by (blast intro: step_of_trans step_of_same)

lemma fuzz_ok_of_step:
  assumes "fuzz_ok it s" and "step_of s s1" and "ev_ok s1" and "maps_ok s1"
  shows "fuzz_ok it s1"
proof -
  have "stats_ok s1" unfolding stats_ok_def
  proof
    fix k
    have "succ k s \<le> att k s" using assms(1) by (simp add: fuzz_ok_def stats_ok_def)
    with assms(2) show "succ k s1 \<le> att k s1" by (smt (verit) step_of_def)
  qed
  with assms show ?thesis using side_cong [of s1 s] by (simp add: fuzz_ok_def step_of_def)
qed

lemma draw_slot_obs:
  assumes "draw_slot e i aux s = (sz, prot, flags, s1)"
  shows "evw s1 = evw s" "side s1 = side s" "att k s1 = att k s" "succ k s1 = succ k s"
  using assms by (auto simp: draw_slot_def split: prod.splits)

lemma call_mmap_obs:
  assumes "call_mmap e i addr sz prot flags fd o1 s = (a, s1)"
  shows "evw s1 = evw s" "side s1 = side s" "att k s1 = att k s" "succ k s1 = succ k s"
  using assms by (auto simp: call_mmap_def Let_def)

section \<open>Mappings\<close>

lemma ev_ok_mapped:
  assumes "ev_ok s" and "evw s1 = evw s" and "i < length (mmaps s)"
  shows "ev_ok (mapped e k i w f sz fd a s1)"
proof -
  have "ev_ok (upd_event (nat w) (\<lambda>v. v\<lparr>e_mmap := int i\<rparr>) s)"
    using assms(1,3) by (intro ev_ok_upd_event) (simp_all add: index_ok_def)
  then show ?thesis
    using ev_ok_cong [of "mapped e k i w f sz fd a s1" "upd_event (nat w) (\<lambda>v. v\<lparr>e_mmap := int i\<rparr>) s"]
      evw_upd_event [OF assms(2)] by simp
qed

lemma setup_mmap_aux_obs:
  assumes "setup_mmap_aux e w1 w2 s = Some (r, s')"
  shows "step_of s s'" and "ev_ok s \<Longrightarrow> ev_ok s'" and "length (mmaps s') = length (mmaps s)"
proof -
  have "step_of s s' \<and> (ev_ok s \<longrightarrow> ev_ok s') \<and> length (mmaps s') = length (mmaps s)"
  proof (cases "find_empty_mmap s < 0")
    case True
    with assms show ?thesis by (simp add: setup_mmap_aux_def)
  next
    case False
    let ?i = "nat (find_empty_mmap s)"
    note free = free_slot [OF refl False]
    obtain sz prot flags s0 where ds: "draw_slot e ?i True s = (sz, prot, flags, s0)"
      by (metis prod_cases4)
    let ?s1 = "upd_mmap ?i (\<lambda>m. m\<lparr>m_parent_mmap := w2\<rparr>) s0"
    let ?pm = "mmaps ?s1 ! nat w2" and ?fd = "e_fd (event_data ?s1 ! nat w1)"
    let ?s3 = "if m_addr ?pm \<noteq> 0 \<and> m_prot ?pm AND PROT_WRITE \<noteq> 0
      then set_aux_area (m_addr ?pm) (m_size ?pm) sz (attempt Kaux ?s1) else attempt Kaux ?s1"
    obtain a s4 where cm: "call_mmap e ?i 0 sz prot flags ?fd (m_size ?pm) ?s3 = (a, s4)"
      by fastforce
    have e1: "evw ?s1 = evw s" "side ?s1 = side s" "\<And>k. att k ?s1 = att k s" "\<And>k. succ k ?s1 = succ k s"
      using draw_slot_obs [OF ds] by simp_all
    have e4: "evw s4 = evw s" "side s4 = side s"
      "\<And>k. att k s4 = (if k = Kaux then att k s + 1 else att k s)" "\<And>k. succ k s4 = succ k s"
      using call_mmap_obs [OF cm] e1 by simp_all
    from assms have "s' = activate ?i ?s1 \<or> s' = s4 \<or>
        s' = activate ?i (mapped e Kaux ?i w1 (\<lambda>m. m\<lparr>m_fd := ?fd\<rparr>) sz ?fd a s4)"
      unfolding setup_mmap_aux_def Let_def using False
      by (simp only: if_False ds prod.case cm split: if_splits) simp_all
    then show ?thesis
    proof (elim disjE)
      assume s': "s' = activate ?i ?s1"
      have "evw s' = evw s" using e1 s' by simp
      then show ?thesis using e1 ev_ok_cong [of s' s]
        by (simp add: s' step_of_def) (simp add: evw_def mmaps_activate mmaps_upd)
    next
      assume s': "s' = s4"
      show ?thesis using e4 ev_ok_cong [of s' s] by (simp add: s' step_of_def) (simp add: evw_def)
    next
      assume s': "s' = activate ?i (mapped e Kaux ?i w1 (\<lambda>m. m\<lparr>m_fd := ?fd\<rparr>) sz ?fd a s4)"
      let ?m = "mapped e Kaux ?i w1 (\<lambda>m. m\<lparr>m_fd := ?fd\<rparr>) sz ?fd a s4"
      have "ev_ok s \<longrightarrow> ev_ok ?m" using ev_ok_mapped [OF _ e4(1) free(1)] by blast
      moreover have "ev_ok s' = ev_ok ?m" by (rule ev_ok_cong) (simp add: s')
      moreover have "length (mmaps s') = length (mmaps s)"
        using e4(1) by (simp add: s' mmaps_activate mapped_frame evw_def)
      ultimately show ?thesis using e4 by (simp add: s' step_of_def)
    qed
  qed
  then show "step_of s s'" and "ev_ok s \<Longrightarrow> ev_ok s'" and "length (mmaps s') = length (mmaps s)"
    by simp_all
qed

lemma try_mmap_obs:
  assumes "try_mmap e i w sz prot flags s = Some (ok, s')" and "i < length (mmaps s)"
  shows "step_of s s'" and "ev_ok s \<Longrightarrow> ev_ok s'" and "length (mmaps s') = length (mmaps s)"
proof -
  obtain r s2 where dr: "draw e s = (r, s2)" by fastforce
  let ?s3 = "count_syscall (attempt Kmmap s2)"
  let ?addr = "if r mod 20 = 0 then e_address e (rpos s2) else 0"
  let ?fd = "e_fd (event_data ?s3 ! nat w)"
  obtain a s4 where cm: "call_mmap e i ?addr sz prot flags ?fd 0 ?s3 = (a, s4)" by fastforce
  have e4: "evw s4 = evw s" "side s4 = side s"
    "\<And>k. att k s4 = (if k = Kmmap then att k s + 1 else att k s)" "\<And>k. succ k s4 = succ k s"
    using call_mmap_obs [OF cm] same_obs_draws(1) [OF dr] by (simp_all add: same_obs_def)
  let ?m = "mapped e Kmmap i w (\<lambda>m. m\<lparr>m_fd := ?fd, m_which_event := w\<rparr>) sz ?fd a s4"
  from assms(1) have res: "s' = s4 \<or> s' = ?m"
    unfolding try_mmap_def Let_def by (simp only: dr prod.case cm split: if_splits) simp_all
  have "step_of s s' \<and> (ev_ok s \<longrightarrow> ev_ok s') \<and> length (mmaps s') = length (mmaps s)"
    using res
  proof
    assume s': "s' = s4"
    show ?thesis using e4 ev_ok_cong [of s' s] by (simp add: s' step_of_def) (simp add: evw_def)
  next
    assume s': "s' = ?m"
    show ?thesis using e4 ev_ok_mapped [OF _ e4(1) assms(2)]
      by (simp add: s' step_of_def mapped_frame) (simp add: evw_def)
  qed
  then show "step_of s s'" and "ev_ok s \<Longrightarrow> ev_ok s'" and "length (mmaps s') = length (mmaps s)"
    by simp_all
qed

lemma setup_mmap_obs:
  assumes "setup_mmap e w s = Some (r, s')"
  shows "step_of s s' \<and> (ev_ok s \<longrightarrow> ev_ok s')"
proof (cases "find_empty_mmap s < 0")
  case True
  with assms show ?thesis by (simp add: setup_mmap_def)
next
  case False
  let ?i = "nat (find_empty_mmap s)"
  note free = free_slot [OF refl False]
  obtain sz prot flags s1 where ds: "draw_slot e ?i False s = (sz, prot, flags, s1)"
    by (metis prod_cases4)
  have e1: "step_of s s1" "ev_ok s1 = ev_ok s" "?i < length (mmaps s1)"
    using draw_slot_obs [OF ds] ev_ok_cong [of s1 s] free(1) by (simp_all add: step_of_def evw_def)
  obtain ok s5 where tm: "(if i_mmap (e_ignore e) then Some (True, s1)
      else try_mmap e ?i w sz prot flags s1) = Some (ok, s5)"
    using assms False by (auto simp: setup_mmap_def Let_def ds split: option.splits if_splits)
  have e5: "step_of s s5" "ev_ok s \<longrightarrow> ev_ok s5"
    using tm e1 try_mmap_obs [OF _ e1(3), of e w sz prot flags ok s5] step_of_trans
    by (auto split: if_splits)
  obtain q s6 where dr: "draw e (activate ?i s5) = (q, s6)" by fastforce
  have e6: "step_of s s6" "ev_ok s \<longrightarrow> ev_ok s6"
    using e5 same_obs_draws(1) [OF dr] ev_ok_cong [of s6 s5]
    by (simp_all add: step_of_def same_obs_def)
  from assms False tm have "s' = s5 \<or> s' = s6 \<or> (\<exists>q. setup_mmap_aux e w (find_empty_mmap s) s6 = Some (q, s'))"
    by (auto simp: setup_mmap_def Let_def ds dr split: if_splits)
  with e5 e6 setup_mmap_aux_obs(1,2) [of e w "find_empty_mmap s" s6 _ s'] show ?thesis
    by (blast intro: step_of_trans)
qed

lemma setup_mmap_fuzz_ok:
  assumes "fuzz_ok it s" and "kernel_ok e" and "\<not> i_mmap (e_ignore e)" and "setup_mmap e w s = Some (r, s')"
  shows "fuzz_ok it s'"
  using setup_mmap_obs [OF assms(4)] setup_mmap_maps_ok [OF _ assms(2-4)] assms(1)
  by (intro fuzz_ok_of_step [OF assms(1)]) (simp_all add: fuzz_ok_def)

lemma unmap_mmap_obs:
  assumes "unmap_mmap e i sg s = Some s'"
  shows "step_of s s' \<and> evw s' = evw s"
  using assms by (auto simp: unmap_mmap_def Let_def step_of_def split: if_splits)

lemma unmap_fuzz_ok:
  assumes "fuzz_ok it s" and "kernel_ok e" and "unmap_mmap e i sg s = Some s'"
  shows "fuzz_ok it s'"
  using unmap_mmap_obs [OF assms(3)] unmap_mmap_maps_ok [OF _ assms(2,3)] assms(1) ev_ok_cong [of s' s]
  by (intro fuzz_ok_of_step [OF assms(1)]) (simp_all add: fuzz_ok_def)

lemma perf_mmap_read_obs:
  assumes "perf_mmap_read e i s = Some (r, s')"
  shows "step_of s s' \<and> evw s' = evw s"
  using assms
  by (auto simp: perf_mmap_read_def perf_mmap_aux_read_def Let_def step_of_def split: if_splits)

lemma ioctls_steps [simp]:
  "ioctls (attempt k s) = ioctls s" "ioctls (success k s) = ioctls s" "ioctls (upd_mmap i f s) = ioctls s"
  "ioctls (set_tail a h s) = ioctls s" "ioctls (set_aux_tail a h s) = ioctls s"
  by (simp_all add: attempt_def success_def upd_stats_def upd_mmap_def set_tail_def set_aux_tail_def)

lemma perf_mmap_aux_read_ioctls: "perf_mmap_aux_read e i s = Some (h, s1) \<Longrightarrow> ioctls s1 = ioctls s"
  by (auto simp: perf_mmap_aux_read_def Let_def split: if_splits)

lemma perf_mmap_read_ioctls: "perf_mmap_read e i s = Some (h, s1) \<Longrightarrow> ioctls s1 = ioctls s"
  by (auto simp: perf_mmap_read_def Let_def perf_mmap_aux_read_ioctls split: if_splits)

lemma perf_mmap_read_fuzz_ok:
  assumes "fuzz_ok it s" and "perf_mmap_read e i s = Some (r, s')"
  shows "fuzz_ok it s'"
  using perf_mmap_read_obs [OF assms(2)] perf_mmap_read_maps_ok [OF _ assms(2)] assms(1) ev_ok_cong [of s' s]
  by (intro fuzz_ok_of_step [OF assms(1)]) (simp_all add: fuzz_ok_def)

lemma trash_fuzz_ok:
  assumes "fuzz_ok it s"
  shows "fuzz_ok it (trash_random_mmap e s)"
proof -
  obtain i s1 where f: "find_random_active_mmap e (attempt Ktrash s) = (i, s1)" by fastforce
  obtain r s2 where d: "draw e s1 = (r, s2)" by fastforce
  have "same_obs (attempt Ktrash s) s1" "same_obs s1 s2"
    using same_obs_draws(6) [OF f] same_obs_draws(1) [OF d] by simp_all
  then show ?thesis
    by (intro fuzz_ok_step [OF assms]) (simp_all add: trash_random_mmap_def f d Let_def same_obs_def)
qed

lemma mmap_random_fuzz_ok:
  assumes "fuzz_ok it s" and "kernel_ok e" and "\<not> i_mmap (e_ignore e)"
    and "mmap_random_event e ty s = Some s'"
  shows "fuzz_ok it s'"
proof -
  obtain r s1 where dr: "draw e s = (r, s1)" by fastforce
  obtain w s2 where fe: "find_random_active_event e s1 = (w, s2)" by fastforce
  obtain m s3 where fm: "find_random_active_mmap e s1 = (m, s3)" by fastforce
  have ok: "fuzz_ok it s1" "fuzz_ok it s2" "fuzz_ok it s3"
    using fuzz_ok_same assms(1) same_obs_draws(1) [OF dr] same_obs_draws(3) [OF fe] same_obs_draws(6) [OF fm]
    by blast+
  show ?thesis
    using assms(4) ok setup_mmap_fuzz_ok [OF ok(2) assms(2,3)] unmap_fuzz_ok [OF ok(3) assms(2)]
      perf_mmap_read_fuzz_ok [OF ok(3)] trash_fuzz_ok [OF ok(1)]
    unfolding mmap_random_event_def Let_def dr fe fm prod.case
    by (auto split: if_splits)
qed

section \<open>Closing\<close>

lemma do_close_obs [simp]:
  "evw (do_close e fd sg s) = evw s" "side (do_close e fd sg s) = side s" "tab (do_close e fd sg s) = tab s"
  "att k (do_close e fd sg s) = (if k = Kclose then att k s + 1 else att k s)"
  "succ k (do_close e fd sg s) =
     (if k = Kclose \<and> k_close e (sysno s) fd = 0 then succ k s + 1 else succ k s)"
  by (simp_all add: observer_defs do_close_def Let_def attempt_def success_def upd_stats_def
      syscall_def log_unless_def log_line_def)

lemma close_event_fuzz_ok:
  assumes "fuzz_ok it s" and "kernel_ok e" and "close_event e i sg s = Some s'"
    and "\<not> i < 0 \<Longrightarrow> nat i < length (event_data s) \<and> e_active (event_data s ! nat i)"
  shows "fuzz_ok it s'"
proof -
  obtain r s0 where dr: "draw e s = (r, s0)" by fastforce
  note same = same_obs_draws(1) [OF dr]
  show ?thesis
  proof (cases "i < 0 \<or> i_close (e_ignore e)")
    case True
    with assms(1,3) fuzz_ok_same [OF assms(1) same] show ?thesis
      by (auto simp: close_event_def dr split: if_splits)
  next
    case False
    let ?s1 = "upd_event (nat i) (\<lambda>v. v\<lparr>e_active := False\<rparr>) s0"
    let ?v = "event_data ?s1 ! nat i"
    have evs: "event_data s0 = event_data s" "active_events s0 = active_events s" "length (mmaps s0) = length (mmaps s)"
      using same by (simp_all add: same_obs_def evw_def)
    have i: "nat i < length (event_data s)" "e_active (event_data s ! nat i)"
      using assms(4) False by simp_all
    have "\<exists>s2. step_of s s2 \<and> evw s2 = evw ?s1 \<and> s' = s2\<lparr>active_events := active_events s2 - 1\<rparr>"
    proof -
      have st1: "step_of s ?s1" using same by (simp add: step_of_def same_obs_def)
      have dc: "step_of t (do_close e fd sg t)" for fd t by (simp add: step_of_def)
      from assms(3) False have "(\<exists>s2. unmap_mmap e (e_mmap ?v) sg ?s1 = Some s2 \<and>
          s' = (do_close e (e_fd ?v) sg s2)\<lparr>active_events := active_events (do_close e (e_fd ?v) sg s2) - 1\<rparr>) \<or>
        (\<exists>s2. unmap_mmap e (e_mmap ?v) sg (do_close e (e_fd ?v) sg ?s1) = Some s2 \<and>
          s' = s2\<lparr>active_events := active_events s2 - 1\<rparr>)"
        unfolding close_event_def Let_def dr prod.case by (simp only: if_False split: if_splits) auto
      then show ?thesis
      proof (elim disjE exE conjE)
        fix s2 assume "unmap_mmap e (e_mmap ?v) sg ?s1 = Some s2"
          "s' = (do_close e (e_fd ?v) sg s2)\<lparr>active_events := active_events (do_close e (e_fd ?v) sg s2) - 1\<rparr>"
        with unmap_mmap_obs st1 dc show ?thesis
          by (intro exI [of _ "do_close e (e_fd ?v) sg s2"]) (metis do_close_obs(1) step_of_trans)
      next
        fix s2 assume "unmap_mmap e (e_mmap ?v) sg (do_close e (e_fd ?v) sg ?s1) = Some s2"
          "s' = s2\<lparr>active_events := active_events s2 - 1\<rparr>"
        with unmap_mmap_obs st1 dc show ?thesis
          by (intro exI [of _ s2]) (metis do_close_obs(1) step_of_trans)
      qed
    qed
    then obtain s2 where s2: "step_of s s2" "evw s2 = evw ?s1" and s': "s' = s2\<lparr>active_events := active_events s2 - 1\<rparr>"
      by blast
    have ed: "event_data s' = (event_data s)[nat i := (event_data s ! nat i)\<lparr>e_active := False\<rparr>]"
      "active_events s' = active_events s - 1" "length (mmaps s') = length (mmaps s)"
      using s2(2) evs by (simp_all add: s' evw_def upd_event_def)
    have "ev_ok s'"
    proof -
      let ?x = "(event_data s ! nat i)\<lparr>e_active := False\<rparr>"
      have cnt: "Suc (actives e_active ((event_data s)[nat i := ?x])) = actives e_active (event_data s)"
        using i by (intro actives_clear) simp_all
      moreover have "set ((event_data s)[nat i := ?x]) \<subseteq> insert ?x (set (event_data s))"
        by (rule set_update_subset_insert)
      moreover have "event_data s ! nat i \<in> set (event_data s)" using i(1) by simp
      ultimately show ?thesis using assms(1) ed
        by (auto simp: fuzz_ok_def ev_ok_def index_ok_def simp flip: cnt)
    qed
    moreover have "step_of s s'" using s2(1) by (simp add: step_of_def s')
    moreover have "maps_ok s'" using close_event_maps_ok [OF _ assms(2,3)] assms(1) by (simp add: fuzz_ok_def)
    ultimately show ?thesis using fuzz_ok_of_step [OF assms(1)] by blast
  qed
qed

lemma close_event_length:
  assumes "close_event e i sg s = Some s'"
  shows "length (event_data s') = length (event_data s)"
proof -
  obtain r s0 where dr: "draw e s = (r, s0)" by fastforce
  have s0: "length (event_data s0) = length (event_data s)"
    using same_obs_draws(1) [OF dr] by (simp add: same_obs_def evw_def)
  have un: "unmap_mmap e j sg t = Some t' \<Longrightarrow> length (event_data t') = length (event_data t)" for j t t'
    using unmap_mmap_obs [of e j sg t t'] by (simp add: evw_def)
  have dc: "length (event_data (do_close e fd sg t)) = length (event_data t)" for fd t
    using do_close_obs(1) [of e fd sg t] by (simp add: evw_def)
  show ?thesis
    using assms s0 by (auto simp: close_event_def dr Let_def dc dest!: un split: if_splits)
      (simp_all add: upd_event_def)
qed

lemma close_random_fuzz_ok:
  assumes "fuzz_ok it s" and "kernel_ok e" and "rand_ok e" and "close_random_event e s = Some s'"
  shows "fuzz_ok it s'"
proof -
  obtain i s1 where f: "find_random_active_event e s = (i, s1)" by fastforce
  have "fuzz_ok it s1" using fuzz_ok_same [OF assms(1) same_obs_draws(3) [OF f]] .
  moreover from assms(4) f have "close_event e i False s1 = Some s'"
    by (simp add: close_random_event_def)
  ultimately show ?thesis
    using close_event_fuzz_ok [OF _ assms(2)] find_random_active_event_ok [OF assms(1,3) f] by blast
qed

end
