(* ===== verification/FuzzIoctlInv.thy ===== *)
theory FuzzIoctlInv
  imports FuzzTablesInv
begin

text \<open>The invariant of the fuzzer along ioctl requests and the opening of events.\<close>

section \<open>ioctl\<close>

fun state_of :: "ioctl_result \<Rightarrow> fstate" where
  "state_of (Skipped s) = s"
| "state_of (Done r k s) = s"

lemma do_ioctl_same: "do_ioctl e fd req arg s = (r, s1) \<Longrightarrow> same_obs s s1"
  by (auto simp: do_ioctl_def same_obs_def)

lemma log_ioctl_same: "same_obs s (log_ioctl e fd req args r s)"
  by (simp add: log_ioctl_def same_obs_def)

lemma skip_or_cases:
  assumes "skip_or e s r = Some x"
  shows "x = Skipped s \<or> r = Some x"
  using assms by (auto simp: skip_or_def split: if_splits)

lemma request_same:
  assumes "request e k i req arg args s = Some x"
  shows "same_obs s (state_of x)"
  using skip_or_cases [OF assms [unfolded request_def]]
proof
  let ?fd = "e_fd (event_data s ! nat i)"
  obtain r s1 where d: "do_ioctl e ?fd req arg s = (r, s1)" by fastforce
  assume "(if \<not> index_ok i (event_data s) then None else let fd = ?fd in
      case do_ioctl e fd req arg s of (result, s1) \<Rightarrow>
        Some (Done result k (log_ioctl e fd req args result s1))) = Some x"
  then have "state_of x = log_ioctl e ?fd req args r s1" using d by (auto split: if_splits)
  with do_ioctl_same [OF d] log_ioctl_same show ?thesis by (metis same_obs_trans)
qed simp

lemma request_after:
  assumes "same_obs s s1" and "request e k i req arg args s1 = Some x"
  shows "same_obs s (state_of x)"
  using assms request_same same_obs_trans by blast

lemma request_arg_same:
  assumes "request_arg e k i req g s = Some x"
  shows "same_obs s (state_of x)"
proof -
  obtain a s1 where r: "run_gen g s = (a, s1)" by fastforce
  from request_after [OF same_obs_draws(2) [OF r]] assms show ?thesis
    by (simp add: request_arg_def r)
qed

lemma ioctl_simple_same:
  "ioctl_period e i s = Some x \<Longrightarrow> same_obs s (state_of x)"
  "ioctl_id e i s = Some x \<Longrightarrow> same_obs s (state_of x)"
  "ioctl_garbage_id e k req i s = Some x \<Longrightarrow> same_obs s (state_of x)"
proof -
  obtain a s1 where r: "run_gen (rand_period e) s = (a, s1)" by fastforce
  show "ioctl_period e i s = Some x \<Longrightarrow> same_obs s (state_of x)"
    using request_after [OF same_obs_draws(2) [OF r]] by (simp add: ioctl_period_def r)
next
  obtain a s1 where r: "run_gen (roll1 e) s = (a, s1)" by fastforce
  show "ioctl_id e i s = Some x \<Longrightarrow> same_obs s (state_of x)"
    using request_after [OF same_obs_draws(2) [OF r]] by (simp add: ioctl_id_def r)
next
  obtain a s1 where r: "run_gen (pause_arg e) s = (a, s1)" by fastforce
  show "ioctl_garbage_id e k req i s = Some x \<Longrightarrow> same_obs s (state_of x)"
    using request_after [OF same_obs_draws(2) [OF r]] by (simp add: ioctl_garbage_id_def r)
qed

lemma ioctl_set_output_same:
  assumes "ioctl_set_output e i s = Some x"
  shows "same_obs s (state_of x)"
proof -
  obtain j s1 where f: "find_random_active_event e s = (j, s1)" by fastforce
  obtain r s2 where g: "run_gen (roll_below e 10) s1 = (r, s2)" by fastforce
  from assms f g obtain arg args where "request e 5 i IOC_SET_OUTPUT arg args s2 = Some x"
    by (auto simp: ioctl_set_output_def Let_def split: if_splits)
  from request_same [OF this] same_obs_draws(3) [OF f] same_obs_draws(2) [OF g]
  show ?thesis by (blast intro: same_obs_trans)
qed

lemma same_obs_filter: "same_obs s (s\<lparr>rpos := p, tp_filter := b\<rparr>)"
  by (simp add: same_obs_def observer_defs)

lemma ioctl_set_filter_same:
  assumes "ioctl_set_filter e i s = Some x"
  shows "same_obs s (state_of x)"
proof -
  obtain c s1 where r: "run_gen (roll_below e 2) s = (c, s1)" by fastforce
  obtain a s2 where g: "(if c \<noteq> 0 then run_gen (roll1 e) s1 else (uint (e_ptr e ''filter''), s1)) = (a, s2)"
    by fastforce
  have s2: "same_obs s1 s2" using g same_obs_draws(2) by (auto split: if_splits)
  from assms r g obtain t p b arg args where
    "request e 6 i IOC_SET_FILTER arg args (s2\<lparr>rpos := p, tp_filter := b\<rparr>) = Some x"
    by (auto simp: ioctl_set_filter_def split: if_splits option.splits prod.splits)
  from request_same [OF this] same_obs_draws(2) [OF r] s2 same_obs_filter
  show ?thesis by (blast intro: same_obs_trans)
qed

lemma setup_bpf_same: "setup_bpf_fd e s = (fd, s1) \<Longrightarrow> same_obs s s1"
  by (auto simp: setup_bpf_fd_def Let_def same_obs_def observer_defs syscall_def
      split: if_splits prod.splits option.splits)

lemma ioctl_set_bpf_same:
  assumes "ioctl_set_bpf e i s = Some x"
  shows "same_obs s (state_of x)"
proof -
  obtain c s1 where r: "run_gen (roll1 e) s = (c, s1)" by fastforce
  obtain fd s2 where b: "setup_bpf_fd e s1 = (fd, s2)" by fastforce
  have s2: "same_obs s s2" using same_obs_draws(2) [OF r] setup_bpf_same [OF b] by (rule same_obs_trans)
  show ?thesis
  proof (cases "i_ioctl (e_ignore e)")
    case True
    with assms r same_obs_draws(2) [OF r] show ?thesis by (auto simp: ioctl_set_bpf_def)
  next
    case False
    with assms r b show ?thesis using request_after [OF s2] by (simp add: ioctl_set_bpf_def)
  qed
qed

lemma modify_same:
  "modify_breakpoint e b k s = Some (r, s1) \<Longrightarrow> same_obs s s1"
  "modify_random e a s = Some (r, s1) \<Longrightarrow> same_obs s s1"
proof -
  show "modify_breakpoint e b k s = Some (r, s1) \<Longrightarrow> same_obs s s1"
    using do_ioctl_same by (auto simp: modify_breakpoint_def split: if_splits)
  obtain c t where r: "run_gen (roll1 e) s = (c, t)" by fastforce
  show "modify_random e a s = Some (r, s1) \<Longrightarrow> same_obs s s1"
    using do_ioctl_same [of e _ _ _ t r s1] same_obs_draws(2) [OF r]
    by (auto simp: modify_random_def r split: if_splits intro: same_obs_trans)
qed

lemma ioctl_modify_same:
  assumes "ioctl_modify e a b s = Some x"
  shows "same_obs s (state_of x)"
  using skip_or_cases [OF assms [unfolded ioctl_modify_def]]
proof
  obtain c s1 where r: "run_gen (roll_below e 3) s = (c, s1)" by fastforce
  obtain k s2 where f: "find_random_active_breakpoint_event e s1 = (k, s2)" by fastforce
  let ?way1 = "if c = 0 then map_option (\<lambda>r. (c, r)) (modify_breakpoint e b a s1)
     else if c = 1 then (case find_random_active_breakpoint_event e s1 of (k, s2) \<Rightarrow>
       map_option (\<lambda>r. (k, r)) (modify_breakpoint e b k s2)) else Some (c, (0, s1))"
  assume "(case run_gen (roll_below e 3) s of (custom, s1) \<Rightarrow>
       (let way1 = (if custom = 0
            then map_option (\<lambda>r. (custom, r)) (modify_breakpoint e b a s1)
            else if custom = 1 then (case find_random_active_breakpoint_event e s1 of (k, s2) \<Rightarrow>
              map_option (\<lambda>r. (k, r)) (modify_breakpoint e b k s2))
            else Some (custom, (0, s1)))
        in case way1 of None \<Rightarrow> None
         | Some (custom', (result', s3)) \<Rightarrow>
            (case (if custom' = 2 then modify_random e a s3 else Some (result', s3)) of
               None \<Rightarrow> None
             | Some (result, s4) \<Rightarrow>
                 if \<not> index_ok a (event_data s4) then None
                 else Some (Done result 11 (log_ioctl e (e_fd (event_data s4 ! nat a))
                   IOC_MODIFY_ATTRIBUTES [show_int (e_garbage e (sysno s4))] result s4))))) = Some x"
  then obtain c' r' s3 r4 s4 where
    w: "?way1 = Some (c', (r', s3))" and
    z: "(if c' = 2 then modify_random e a s3 else Some (r', s3)) = Some (r4, s4)" and
    x: "state_of x = log_ioctl e (e_fd (event_data s4 ! nat a)) IOC_MODIFY_ATTRIBUTES
          [show_int (e_garbage e (sysno s4))] r4 s4"
    unfolding r prod.case Let_def by (auto split: option.splits prod.splits if_splits)
  have "same_obs s1 s3" using w f same_obs_draws(5) [OF f] modify_same(1)
    by (auto split: if_splits intro: same_obs_trans)
  moreover have "same_obs s3 s4" using z modify_same(2) by (auto split: if_splits)
  ultimately show ?thesis using same_obs_draws(2) [OF r] log_ioctl_same unfolding x
    by (blast intro: same_obs_trans)
qed simp

lemma ioctl_raw_same:
  "ioctl_random_perf e i s = Some x \<Longrightarrow> same_obs s (state_of x)"
  "ioctl_random_any e i s = Some x \<Longrightarrow> same_obs s (state_of x)"
proof -
  have p: "same_obs s (s\<lparr>rpos := q\<rparr>)" for q by (simp add: same_obs_def)
  show "ioctl_random_perf e i s = Some x \<Longrightarrow> same_obs s (state_of x)"
    using request_after [OF p] by (auto simp: ioctl_random_perf_def ioctl_raw_def Let_def split: if_splits)
  show "ioctl_random_any e i s = Some x \<Longrightarrow> same_obs s (state_of x)"
    using request_after [OF p] by (auto simp: ioctl_random_any_def ioctl_raw_def Let_def)
qed

lemma ioctl_refresh_fuzz_ok:
  assumes "fuzz_ok it s" and "ioctl_refresh e i s = Some x"
  shows "fuzz_ok it (state_of x)"
proof -
  obtain arg s1 where r: "run_gen (rand_refresh e) s = (arg, s1)" by fastforce
  have ok1: "fuzz_ok it s1" by (rule fuzz_ok_same [OF assms(1) same_obs_draws(2) [OF r]])
  from skip_or_cases [OF assms(2) [unfolded ioctl_refresh_def r prod.case]] show ?thesis
  proof
    let ?fd = "e_fd (event_data s1 ! nat i)"
    obtain q s2 where d: "do_ioctl e ?fd IOC_REFRESH (word_of_int arg) s1 = (q, s2)" by fastforce
    have ok2: "fuzz_ok it s2" by (rule fuzz_ok_same [OF ok1 do_ioctl_same [OF d]])
    have ok3: "fuzz_ok it (if q > 0 then upd_event (nat i) (\<lambda>v. v\<lparr>e_last_refresh := arg\<rparr>) s2 else s2)"
      using ok2 fuzz_ok_upd_event [OF ok2] by simp
    assume "(if \<not> index_ok i (event_data s1) then None else let fd = ?fd in
        case do_ioctl e fd IOC_REFRESH (word_of_int arg) s1 of (result, s2) \<Rightarrow>
          let s3 = if result > 0 then upd_event (nat i) (\<lambda>v. v\<lparr>e_last_refresh := arg\<rparr>) s2 else s2
          in Some (Done result 2 (log_ioctl e fd IOC_REFRESH [show_int arg] result s3))) = Some x"
    then have "state_of x = log_ioctl e ?fd IOC_REFRESH [show_int arg] q
        (if q > 0 then upd_event (nat i) (\<lambda>v. v\<lparr>e_last_refresh := arg\<rparr>) s2 else s2)"
      using d by (auto simp: Let_def split: if_splits)
    with fuzz_ok_same [OF ok3 log_ioctl_same] show ?thesis by simp
  qed (simp add: ok1)
qed

lemma ioctl_kind_fuzz_ok:
  assumes "fuzz_ok it s" and "ioctl_kind e type a sm b s = Some x"
  shows "fuzz_ok it (state_of x)"
proof -
  consider "ioctl_refresh e sm s = Some x" | "same_obs s (state_of x)"
    using assms(2) unfolding ioctl_kind_def
    by (simp only: split: if_splits)
      (blast dest: request_arg_same ioctl_simple_same ioctl_set_output_same ioctl_set_filter_same
        ioctl_set_bpf_same ioctl_modify_same ioctl_raw_same)+
  then show ?thesis
    by cases (blast intro: ioctl_refresh_fuzz_ok [OF assms(1)] fuzz_ok_same [OF assms(1)])+
qed

lemma count_ioctl_fuzz_ok: "fuzz_ok it s \<Longrightarrow> fuzz_ok it (count_ioctl r k s)"
  by (erule fuzz_ok_step) (auto simp: count_ioctl_def Let_def obs_upd_stats)

lemma ioctl_fuzz_ok:
  assumes "fuzz_ok it s" and "ioctl_random_event e s = Some s'"
  shows "fuzz_ok it s'"
proof -
  obtain a s1 where f1: "find_random_active_event e s = (a, s1)" by fastforce
  obtain m s2 where f2: "find_random_active_sampling_event e s1 = (m, s2)" by fastforce
  obtain b s3 where f3: "find_random_active_breakpoint_event e s2 = (b, s3)" by fastforce
  obtain r s4 where f4: "run_gen (roll_below e 4) s3 = (r, s4)" by fastforce
  obtain t s5 where f5: "run_gen (roll_below e 14) s4 = (t, s5)" by fastforce
  have s4: "same_obs s s4"
    using same_obs_draws(3) [OF f1] same_obs_draws(4) [OF f2] same_obs_draws(5) [OF f3] same_obs_draws(2) [OF f4]
    by (blast intro: same_obs_trans)
  note ok4 = fuzz_ok_same [OF assms(1) s4] and ok5 = fuzz_ok_same [OF fuzz_ok_same [OF assms(1) s4] same_obs_draws(2) [OF f5]]
  let ?sm = "if m < 0 \<or> r = 0 then a else m"
  note res = assms(2) [unfolded ioctl_random_event_def f1 f2 f3 f4 f5 prod.case Let_def]
  show ?thesis
  proof (cases "a < 0")
    case True
    with res ok4 show ?thesis by simp
  next
    case False
    with res obtain x where x: "ioctl_kind e t a ?sm b s5 = Some x"
      by (auto simp del: if_split split: option.splits)
    have "s' = (case x of Skipped s6 \<Rightarrow> s6 | Done result k s6 \<Rightarrow> count_ioctl result k s6)"
      using res False x by (simp split: ioctl_result.splits)
    with ioctl_kind_fuzz_ok [OF ok5 x] show ?thesis
      by (auto intro: count_ioctl_fuzz_ok split: ioctl_result.splits)
  qed
qed

end
