(* ===== verification/FuzzOpenInv.thy ===== *)
theory FuzzOpenInv
  imports FuzzIoctlInv
begin

text \<open>
  The invariant of the fuzzer along the opening of an event: the slot stays free through the
  attempts and is taken once, when one of them succeeds.
\<close>

definition free_at :: "int \<Rightarrow> nat \<Rightarrow> fstate \<Rightarrow> bool" where
  "free_at it i s \<longleftrightarrow> fuzz_ok it s \<and> i < length (event_data s) \<and> \<not> e_active (event_data s ! i)"

lemma free_at_same: "free_at it i s \<Longrightarrow> same_obs s s1 \<Longrightarrow> free_at it i s1"
  using fuzz_ok_same [of it s s1] by (auto simp: free_at_def same_obs_def evw_def)

lemma event_data_upd_event:
  "event_data (upd_event i f s) = (event_data s)[i := f (event_data s ! i)]"
  by (simp add: upd_event_def)

lemma free_at_upd_event:
  assumes "free_at it i s" and "\<And>v. e_active (f v) = e_active v" and "\<And>v. e_mmap (f v) = e_mmap v"
  shows "free_at it i (upd_event j f s)"
  using assms fuzz_ok_upd_event [of it s f j]
  by (cases "i = j") (simp_all add: free_at_def event_data_upd_event)

lemma free_at_step:
  assumes "free_at it i s" and "evw s1 = evw s" and "side s1 = side s" and "tab s1 = tab s"
    and "\<And>k. succ k s1 - succ k s \<le> att k s1 - att k s"
  shows "free_at it i s1"
proof -
  have "event_data s1 = event_data s" using assms(2) by (simp add: evw_def)
  with assms fuzz_ok_step [of it s s1] show ?thesis by (simp add: free_at_def)
qed

lemma find_empty_free:
  assumes "fuzz_ok it s" and "\<not> find_empty_event (event_data s) < 0"
  shows "free_at it (nat (find_empty_event (event_data s))) s"
  using evt.empty_free [of "event_data s"] assms by (simp add: free_at_def)

section \<open>An attempt\<close>

lemma describe_free_at:
  assumes "free_at it i s" and "describe e i s = Some (tri, s')"
  shows "free_at it i s'"
proof -
  obtain args p where a: "e_sanitise e (rpos s) = (args, p)" by fastforce
  obtain cpu p' where c: "e_get_cpu e p = (cpu, p')" by fastforce
  let ?s0 = "upd_event i (\<lambda>v. v\<lparr>e_attr := o_attr args, e_pid := o_pid args, e_cpu := cpu,
          e_group_fd := o_group_fd args, e_flags := o_flags args\<rparr>) (s\<lparr>rpos := p'\<rparr>)"
  obtain r s1 where d: "draw e ?s0 = (r, s1)" by fastforce
  have "free_at it i (s\<lparr>rpos := p'\<rparr>)" using assms(1) by (rule free_at_same) (simp add: same_obs_def)
  then have "free_at it i ?s0" by (rule free_at_upd_event) simp_all
  then have ok1: "free_at it i s1" by (rule free_at_same [OF _ same_obs_draws(1) [OF d]])
  obtain j s2 where f: "find_random_active_event e s1 = (j, s2)" by fastforce
  have ok2: "free_at it i s2" by (rule free_at_same [OF ok1 same_obs_draws(3) [OF f]])
  from assms(2) obtain s3 where
    g: "(if r mod 4 = 2 then if \<not> index_ok j (event_data s2) then None
         else Some (upd_event i (\<lambda>v. v\<lparr>e_group_fd := e_fd (event_data s2 ! nat j)\<rparr>) s2) else Some s1) = Some s3"
    and rest: "(if a_type (o_attr args) = PERF_TYPE_TRACEPOINT
           then (case draw e s3 of (r', s4) \<Rightarrow>
             Some (o_trinity_type args, if r' mod 10 = 5
               then upd_event i (\<lambda>v. v\<lparr>e_attr := (e_attr v)\<lparr>a_config := word_of_int (kprobe_id s4)\<rparr>\<rparr>) s4
               else s4))
           else Some (o_trinity_type args, s3)) = Some (tri, s')"
    unfolding describe_def a prod.case c d f by (auto simp del: if_split split: option.splits)
  have ok3: "free_at it i s3"
    using g ok1 free_at_upd_event [OF ok2, of "\<lambda>v. v\<lparr>e_group_fd := e_fd (event_data s2 ! nat j)\<rparr>"]
    by (auto split: if_splits)
  obtain r' s4 where d4: "draw e s3 = (r', s4)" by fastforce
  have ok4: "free_at it i s4" by (rule free_at_same [OF ok3 same_obs_draws(1) [OF d4]])
  show ?thesis
    using rest ok3 ok4 free_at_upd_event [OF ok4, of "\<lambda>v. v\<lparr>e_attr := (e_attr v)\<lparr>a_config := word_of_int (kprobe_id s4)\<rparr>\<rparr>"]
    by (auto simp: d4 split: if_splits)
qed

lemma open_attempt_ok:
  assumes "free_at it i s" and "open_attempt e i s = Ret r"
  shows "case r of Opened fd s1 \<Rightarrow> free_at it i s1 \<and> succ Kopen s1 < att Kopen s1
     | Gave_up s1 \<Rightarrow> fuzz_ok it s1 | Again s1 \<Rightarrow> free_at it i s1"
proof -
  from assms(2) obtain tri s1 where d: "describe e i s = Some (tri, s1)"
    by (auto simp: open_attempt_def split: option.splits)
  note ok1 = describe_free_at [OF assms(1) d]
  let ?v = "event_data s1 ! i"
  let ?ty = "clamp_type (a_type (e_attr ?v))"
  obtain fd en where k: "k_open e (sysno s1) (e_attr ?v) (e_pid ?v) (e_cpu ?v) (e_group_fd ?v) (e_flags ?v) = (fd, en)"
    by fastforce
  let ?s2 = "count_syscall (attempt Kopen (syscall s1))"
  have ok2: "free_at it i (count_open_success ?ty tri ?s2)" "free_at it i (count_open_fail en ?ty tri ?s2)"
    by (rule free_at_step [OF ok1]; simp add: count_open_success_def count_open_fail_def obs_upd_stats)+
  have "succ Kopen s1 \<le> att Kopen s1" using ok1 by (simp add: free_at_def fuzz_ok_def stats_ok_def)
  then have "succ Kopen (count_open_success ?ty tri ?s2) < att Kopen (count_open_success ?ty tri ?s2)"
    by (simp add: count_open_success_def obs_upd_stats)
  with ok1 ok2 assms(2) show ?thesis
    by (auto simp: open_attempt_def d k Let_def free_at_def split: if_splits)
qed

lemma open_loop_ok:
  "open_loop e i n s = Ret (r, s') \<Longrightarrow> free_at it i s \<Longrightarrow>
     fuzz_ok it s' \<and> (r \<noteq> None \<longrightarrow> free_at it i s' \<and> succ Kopen s' < att Kopen s')"
proof (induction n arbitrary: s)
  case 0
  then show ?case by simp
next
  case (Suc n)
  from Suc.prems(1) obtain a where a: "open_attempt e i s = Ret a"
    by (cases "open_attempt e i s") auto
  note ok = open_attempt_ok [OF Suc.prems(2) a]
  show ?case
  proof (cases a)
    case (Opened fd s1)
    with Suc.prems(1) a ok show ?thesis by (auto simp: free_at_def)
  next
    case (Gave_up s1)
    with Suc.prems(1) a ok show ?thesis by auto
  next
    case (Again s1)
    with Suc.prems(1) a have "open_loop e i n s1 = Ret (r, s')" by simp
    from Suc.IH [OF this] ok Again show ?thesis by simp
  qed
qed

section \<open>After the attempts\<close>

lemma opened_ok:
  assumes "free_at it i s" and "succ Kopen s < att Kopen s"
  shows "fuzz_ok it (opened e i fd s)"
proof -
  let ?s = "opened e i fd s"
  let ?x = "(event_data s ! i)\<lparr>e_fd := fd, e_active := True\<rparr>"
  have i: "i < length (event_data s)" "\<not> e_active (event_data s ! i)" and ok: "fuzz_ok it s"
    using assms(1) by (simp_all add: free_at_def)
  have obs: "side ?s = side s" "tab ?s = tab s" "att k ?s = att k s"
    "succ k ?s = (if k = Kopen then succ k s + 1 else succ k s)" for k
    by (simp_all add: opened_def Let_def)
  have ev: "event_data ?s = (event_data s)[i := ?x]" "active_events ?s = active_events s + 1" "mmaps ?s = mmaps s"
    by (simp_all add: opened_def Let_def upd_event_def log_line_def upd_stats_def success_def)
  have "ev_ok ?s"
  proof -
    have "actives e_active ((event_data s)[i := ?x]) = Suc (actives e_active (event_data s))"
      using i by (intro actives_set) simp_all
    moreover have "set ((event_data s)[i := ?x]) \<subseteq> insert ?x (set (event_data s))"
      by (rule set_update_subset_insert)
    moreover have "event_data s ! i \<in> set (event_data s)" using i(1) by simp
    ultimately show ?thesis using ok ev by (auto simp: fuzz_ok_def ev_ok_def index_ok_def)
  qed
  moreover have "stats_ok ?s"
    using ok assms(2) obs by (simp add: fuzz_ok_def stats_ok_def)
  ultimately show ?thesis
    using ok side_cong [OF obs(1)] tab_cong [OF obs(2)] by (simp add: fuzz_ok_def)
qed

lemma join_group_ok:
  assumes "fuzz_ok it s" and "join_group g s = Some s'"
  shows "fuzz_ok it s'"
proof -
  let ?j = "nat (lookup_event s g)"
  have "fuzz_ok it (upd_event ?j (\<lambda>v. v\<lparr>e_number_in_group := e_number_in_group v + 1\<rparr>) s)"
    using assms(1) by (rule fuzz_ok_upd_event) simp_all
  then have "fuzz_ok it (upd_event ?j (\<lambda>v. v\<lparr>e_read_size := update_read_size v\<rparr>)
      (upd_event ?j (\<lambda>v. v\<lparr>e_number_in_group := e_number_in_group v + 1\<rparr>) s))"
    by (rule fuzz_ok_upd_event) simp_all
  with assms show ?thesis by (auto simp: join_group_def Let_def split: if_splits)
qed

lemma setup_overflow_same: "same_obs s (setup_overflow e ov fd s)"
proof -
  obtain r s1 where d: "draw e s = (r, s1)" by fastforce
  from same_obs_draws(1) [OF d] show ?thesis by (simp add: setup_overflow_def d same_obs_def)
qed

lemma finish_open_ok:
  assumes "free_at it i s" and "succ Kopen s < att Kopen s" and "kernel_ok e" and "\<not> i_mmap (e_ignore e)"
    and "finish_open e mm ov i fd s = Some s'"
  shows "fuzz_ok it s'"
proof -
  note ok1 = opened_ok [OF assms(1,2), of e fd]
  from assms(5) obtain s2 where j: "join_group (e_group_fd (event_data (opened e i fd s) ! i)) (opened e i fd s) = Some s2"
    by (auto simp: finish_open_def Let_def split: option.splits)
  note ok2 = join_group_ok [OF ok1 j]
  from assms(5) j obtain s3 where
    m: "(if mm then map_option snd (setup_mmap e (int i) s2) else Some s2) = Some s3" and
    s': "s' = upd_event i (\<lambda>v. v\<lparr>e_read_size := update_read_size v\<rparr>)
               (upd_event i (\<lambda>v. v\<lparr>e_number_in_group := 1\<rparr>) (setup_overflow e ov fd s3))"
    by (auto simp: finish_open_def Let_def split: option.splits)
  have "fuzz_ok it s3"
    using m ok2 setup_mmap_fuzz_ok [OF ok2 assms(3,4)] by (auto split: if_splits)
  then have "fuzz_ok it (setup_overflow e ov fd s3)" by (rule fuzz_ok_same [OF _ setup_overflow_same])
  then have "fuzz_ok it (upd_event i (\<lambda>v. v\<lparr>e_number_in_group := 1\<rparr>) (setup_overflow e ov fd s3))"
    by (rule fuzz_ok_upd_event) simp_all
  then show ?thesis unfolding s' by (rule fuzz_ok_upd_event) simp_all
qed

lemma open_fuzz_ok:
  assumes "fuzz_ok it s" and "kernel_ok e" and "\<not> i_mmap (e_ignore e)"
    and "open_random_event e fuel mm ov s = Ret s'"
  shows "fuzz_ok it s'"
proof (cases "find_empty_event (event_data s) < 0")
  case True
  with assms(1,4) show ?thesis by (simp add: open_random_event_def)
next
  case False
  let ?i = "nat (find_empty_event (event_data s))"
  let ?s0 = "upd_event ?i (\<lambda>v. v\<lparr>e_overflows := 0, e_throttles := 0\<rparr>) s"
  have ok0: "free_at it ?i ?s0"
    by (rule free_at_upd_event [OF find_empty_free [OF assms(1) False]]) simp_all
  from assms(4) False obtain r s1 where l: "open_loop e ?i fuel ?s0 = Ret (r, s1)"
    by (cases "open_loop e ?i fuel ?s0") (auto simp: open_random_event_def Let_def)
  note ok1 = open_loop_ok [OF l ok0]
  show ?thesis
  proof (cases r)
    case None
    with assms(4) False l ok1 show ?thesis by (simp add: open_random_event_def Let_def)
  next
    case (Some fd)
    with assms(4) False l have "of_option (finish_open e mm ov ?i fd s1) = Ret s'"
      by (simp add: open_random_event_def Let_def)
    then have "finish_open e mm ov ?i fd s1 = Some s'"
      by (cases "finish_open e mm ov ?i fd s1") simp_all
    with finish_open_ok [of it ?i s1 e mm ov fd s'] ok1 Some assms(2,3) show ?thesis by simp
  qed
qed

section \<open>Closing all active events\<close>

lemma close_active_ok:
  assumes "fuzz_ok it s" and "kernel_ok e" and "close_active e js s = Some s'"
    and "\<forall>i\<in>set js. i < length (event_data s)"
  shows "fuzz_ok it s'"
  using assms(1,3,4)
proof (induction js arbitrary: s)
  case Nil
  then show ?case by simp
next
  case (Cons i js)
  show ?case
  proof (cases "e_active (event_data s ! i)")
    case True
    with Cons.prems(2) obtain s1 where c: "close_event e (int i) True s = Some s1"
      and r: "close_active e js s1 = Some s'" by (auto split: option.splits)
    have ok1: "fuzz_ok it s1" using Cons.prems(3) True
      by (intro close_event_fuzz_ok [OF Cons.prems(1) assms(2) c]) simp
    have "length (event_data s1) = length (event_data s)"
      by (rule close_event_length [OF c])
    with Cons.prems(3) show ?thesis by (intro Cons.IH [OF ok1 r]) simp
  next
    case False
    with Cons show ?thesis by simp
  qed
qed

end
