(* ===== verification/FuzzLoopInv.thy ===== *)
theory FuzzLoopInv
  imports FuzzOpenInv
begin

text \<open>
  The invariant of the fuzzer along whole iterations of its main loop and along its signal
  handlers, and the runs made of them.
\<close>

section \<open>Signal handlers\<close>

lemma fuzz_ok_handling [simp]:
  "fuzz_ok it (s\<lparr>already_handling := b\<rparr>) = fuzz_ok it s"
  "fuzz_ok it (s\<lparr>last_fd := f\<rparr>) = fuzz_ok it s"
  "fuzz_ok it (s\<lparr>watchdog_counter := w\<rparr>) = fuzz_ok it s"
  by (auto simp: fuzz_ok_def maps_ok_def ev_ok_def stats_ok_def files_ok_def fork_ok_def started_children_def quiet_ok_def
      att_def succ_def)

lemma upd_stats_fuzz_ok:
  "(\<And>t. attempts (h t) = attempts t) \<Longrightarrow> (\<And>t. successful (h t) = successful t) \<Longrightarrow>
     (\<And>t. total_iterations (h t) = total_iterations t) \<Longrightarrow> fuzz_ok it (upd_stats h s) = fuzz_ok it s"
proof -
  assume "\<And>t. attempts (h t) = attempts t" "\<And>t. successful (h t) = successful t"
    and it: "\<And>t. total_iterations (h t) = total_iterations t"
  then have "stats_ok (upd_stats h s) = stats_ok s" by (simp add: stats_ok_def)
  moreover have "ev_ok (upd_stats h s) = ev_ok s" "maps_ok (upd_stats h s) = maps_ok s"
    by (rule ev_ok_cong tab_cong; simp)+
  moreover have sd: "side (upd_stats h s) = side s" using it by simp
  ultimately show ?thesis by (simp only: fuzz_ok_def side_cong [OF sd])
qed

lemma throttle_fuzz_ok:
  assumes "fuzz_ok it s"
  shows "fuzz_ok it (throttle e i s)"
proof -
  let ?s = "upd_event i (\<lambda>v. v\<lparr>e_overflows := 0, e_throttles := e_throttles v + 1\<rparr>) s"
  have ok: "fuzz_ok it ?s" by (rule fuzz_ok_upd_event [OF assms]) simp_all
  then have ok1: "fuzz_ok it (?s\<lparr>h_next_refresh := 0\<rparr>)"
    by (auto simp: fuzz_ok_def maps_ok_def ev_ok_def stats_ok_def files_ok_def fork_ok_def started_children_def quiet_ok_def
        att_def succ_def)
  moreover have "fuzz_ok it (syscall (?s\<lparr>h_next_refresh := 0\<rparr>))"
    by (rule fuzz_ok_step [OF ok1]) simp_all
  ultimately show ?thesis by (simp add: throttle_def Let_def)
qed

lemma refresh_event_cases:
  assumes "refresh_event e i fd s = Some s'"
  obtains h s1 ret s2 where "perf_mmap_read e (e_mmap (event_data s ! i)) s = Some (h, s1)"
    and "do_ioctl e fd IOC_REFRESH (word_of_int (h_next_refresh s1)) s1 = (ret, s2)"
    and "s' = (if ret = 0 then upd_event i (\<lambda>v. v\<lparr>e_last_refresh := h_next_refresh s2\<rparr>) s2 else s2)"
  using assms by (auto simp del: if_split simp: refresh_event_def split: option.splits prod.splits)

lemma refresh_event_fuzz_ok:
  assumes "fuzz_ok it s" and "refresh_event e i fd s = Some s'"
  shows "fuzz_ok it s'"
proof -
  from assms(2) obtain h s1 ret s2 where
    r: "perf_mmap_read e (e_mmap (event_data s ! i)) s = Some (h, s1)"
    and d: "do_ioctl e fd IOC_REFRESH (word_of_int (h_next_refresh s1)) s1 = (ret, s2)"
    and s': "s' = (if ret = 0 then upd_event i (\<lambda>v. v\<lparr>e_last_refresh := h_next_refresh s2\<rparr>) s2 else s2)"
    by (rule refresh_event_cases)
  have ok2: "fuzz_ok it s2"
    by (rule fuzz_ok_same [OF perf_mmap_read_fuzz_ok [OF assms(1) r] do_ioctl_same [OF d]])
  then show ?thesis using fuzz_ok_upd_event [OF ok2] s' by simp
qed

lemma handle_overflow_fuzz_ok:
  assumes "fuzz_ok it s" and "handle_overflow e fd i s = Some s'"
  shows "fuzz_ok it s'"
proof -
  have ok: "fuzz_ok it (upd_event (nat i) (\<lambda>v. v\<lparr>e_overflows := e_overflows v + 1\<rparr>) s)"
    by (rule fuzz_ok_upd_event [OF assms(1)]) simp_all
  show ?thesis
    using assms throttle_fuzz_ok [OF ok] refresh_event_fuzz_ok [OF ok]
    by (auto simp: handle_overflow_def Let_def split: if_splits)
qed

lemma our_handler_fuzz_ok:
  assumes "fuzz_ok it s" and "our_handler e fd s = Some s'"
  shows "fuzz_ok it s'"
proof -
  let ?s1 = "upd_stats (\<lambda>t. t\<lparr>overflows := overflows t + 1\<rparr>) (s\<lparr>already_handling := True\<rparr>)"
  have ok1: "fuzz_ok it ?s1" using assms(1) by (simp add: upd_stats_fuzz_ok)
  obtain ret s2 where d: "do_ioctl e fd IOC_DISABLE 0 ?s1 = (ret, s2)" by fastforce
  have ok2: "fuzz_ok it s2" by (rule fuzz_ok_same [OF ok1 do_ioctl_same [OF d]])
  show ?thesis
    using assms ok2 handle_overflow_fuzz_ok [OF ok2]
    by (auto simp: our_handler_def Let_def d upd_stats_fuzz_ok split: if_splits)
qed

lemma sigio_fuzz_ok:
  assumes "fuzz_ok it s" and "kernel_ok e" and "sigio_handler e c s = Some s'"
  shows "fuzz_ok it s'"
proof -
  from assms(3) obtain t where
    t: "(if has c SI_KERNEL then close_active e [0..<length (event_data s)] s else Some s) = Some t" and
    s': "s' = upd_stats (\<lambda>t. t\<lparr>sigios := sigios t + 1\<rparr>) t"
    by (auto simp: sigio_handler_def split: if_splits)
  have "fuzz_ok it t"
    using t assms(1) close_active_ok [OF assms(1,2), of "[0..<length (event_data s)]" t]
    by (auto split: if_splits)
  then show ?thesis by (simp add: s' upd_stats_fuzz_ok)
qed

lemma alarm_fuzz_ok: "fuzz_ok it s \<Longrightarrow> alarm_handler s = Ret s' \<Longrightarrow> fuzz_ok it s'"
  by (auto simp: alarm_handler_def split: if_splits)

section \<open>An iteration\<close>

definition env_ok :: "env \<Rightarrow> bool" where
  "env_ok e \<longleftrightarrow> kernel_ok e \<and> \<not> i_mmap (e_ignore e) \<and> rand_ok e \<and> fork_answers e"

lemma of_option_Ret [simp]: "of_option x = Ret y \<longleftrightarrow> x = Some y"
  by (cases x) simp_all

lemma fuzz_action_ok:
  assumes "fuzz_ok it s" and "env_ok e" and "fuzz_action e fuel ty k s = Ret s'"
  shows "fuzz_ok it s'"
proof -
  note env = assms(2) [unfolded env_ok_def]
  note ok = read_fuzz_ok write_fuzz_ok prctl_fuzz_ok vsyscall_fuzz_ok affinity_fuzz_ok
  have "k = 0 \<or> k = 1 \<or> k = 2 \<or> k = 6 \<or> k = 7 \<or> k = 8 \<or> k = 9 \<or> k \<notin> {0, 1, 2, 6, 7, 8, 9}"
    by blast
  then show ?thesis
    using assms(1,3) env
    by (elim disjE)
      (auto simp: fuzz_action_def run_a_million_instructions_def split: if_splits
        intro: ok open_fuzz_ok close_random_fuzz_ok ioctl_fuzz_ok access_fuzz_ok fork_fuzz_ok
          poll_fuzz_ok mmap_random_fuzz_ok)
qed

lemma close_stuck_quiet: "fuzz_ok it s \<Longrightarrow> close_stuck e s = Some s"
  by (simp add: close_stuck_def fuzz_ok_def quiet_ok_def)

lemma reset_iterations [simp]: "total_iterations (reset_stats t) = total_iterations t"
  by (simp add: reset_stats_def)

lemma reset_fuzz_ok: "fuzz_ok it s \<Longrightarrow> fuzz_ok it (upd_stats reset_stats s)"
proof -
  assume ok: "fuzz_ok it s"
  let ?s = "upd_stats reset_stats s"
  have "ev_ok ?s = ev_ok s" "files_ok ?s = files_ok s" "fork_ok ?s = fork_ok s" "quiet_ok ?s = quiet_ok s"
    "maps_ok ?s = maps_ok s"
    by (rule ev_ok_cong side_cong tab_cong; simp)+
  moreover have "stats_ok ?s"
    by (simp add: stats_ok_def att_def succ_def upd_stats_def reset_stats_def)
  moreover have "total_iterations (stats ?s) = total_iterations (stats s)"
    by (simp add: upd_stats_def)
  ultimately show ?thesis using ok by (simp add: fuzz_ok_def)
qed

text \<open>Counting an iteration.\<close>

lemma next_iteration:
  assumes "fuzz_ok it s"
  shows "fuzz_ok (it + 1) (upd_stats (\<lambda>t. t\<lparr>total_iterations := total_iterations t + 1\<rparr>) s)"
proof -
  let ?s = "upd_stats (\<lambda>t. t\<lparr>total_iterations := total_iterations t + 1\<rparr>) s"
  have "ev_ok ?s = ev_ok s" "maps_ok ?s = maps_ok s" by (rule ev_ok_cong tab_cong; simp)+
  moreover have "files_ok ?s = files_ok s" "fork_ok ?s = fork_ok s" "quiet_ok ?s = quiet_ok s"
    by (auto simp: files_ok_def fork_ok_def started_children_def quiet_ok_def upd_stats_def)
  moreover have "stats_ok ?s = stats_ok s" by (simp add: stats_ok_def)
  moreover have "total_iterations (stats ?s) = total_iterations (stats s) + 1" by (simp add: upd_stats_def)
  ultimately show ?thesis using assms by (simp add: fuzz_ok_def)
qed

lemma shutdown_killed: "fork_ok s \<Longrightarrow> all_killed (orderly_shutdown s)"
  by (auto simp: orderly_shutdown_def fork_ok_def all_killed_def started_children_def fork_fields)

lemma fuzz_ok_refresh_fields [simp]:
  "fuzz_ok it (s\<lparr>next_overflow_refresh := a\<rparr>) = fuzz_ok it s" "fuzz_ok it (s\<lparr>next_refresh := b\<rparr>) = fuzz_ok it s"
  by (auto simp: fuzz_ok_def maps_ok_def ev_ok_def stats_ok_def files_ok_def fork_ok_def started_children_def quiet_ok_def
      att_def succ_def)

lemma end_iteration_ok:
  assumes "fuzz_ok it s"
  shows "case end_iteration e s of Continue s' \<Rightarrow> fuzz_ok (it + 1) s' | Stopped s' \<Rightarrow> all_killed s'"
proof -
  obtain a s1 where r1: "run_gen (roll_below e 2) s = (a, s1)" by fastforce
  obtain b s2 where r2: "run_gen (rand_refresh e) s1 = (b, s2)" by fastforce
  have ok2: "fuzz_ok it s2"
    using fuzz_ok_same [OF fuzz_ok_same [OF assms same_obs_draws(2) [OF r1]] same_obs_draws(2) [OF r2]] .
  let ?s3 = "upd_stats (\<lambda>t. t\<lparr>total_iterations := total_iterations t + 1\<rparr>)
      (s2\<lparr>next_overflow_refresh := a, next_refresh := b, watchdog_counter := watchdog_counter s2 + 1\<rparr>)"
  have ok3: "fuzz_ok (it + 1) ?s3" using ok2 by (intro next_iteration) simp
  have "all_killed (orderly_shutdown (upd_stats reset_stats ?s3))"
    using reset_fuzz_ok [OF ok3] by (intro shutdown_killed) (simp add: fuzz_ok_def)
  with ok3 reset_fuzz_ok [OF ok3] show ?thesis
    by (simp add: end_iteration_def r1 r2 Let_def)
qed

lemma main_iteration_ok:
  assumes "fuzz_ok it s" and "env_ok e" and "main_iteration e fuel ty s = Ret r"
  shows "case r of Continue s' \<Rightarrow> fuzz_ok (it + 1) s' | Stopped s' \<Rightarrow> all_killed s'"
proof -
  obtain k s1 where d: "draw e s = (k, s1)" by fastforce
  have ok1: "fuzz_ok it s1" by (rule fuzz_ok_same [OF assms(1) same_obs_draws(1) [OF d]])
  from assms(3) obtain s2 where a: "fuzz_action e fuel ty (k mod 13) s1 = Ret s2"
    by (cases "fuzz_action e fuel ty (k mod 13) s1") (auto simp: main_iteration_def d)
  note ok2 = fuzz_action_ok [OF ok1 assms(2) a]
  from assms(3) have "r = end_iteration e s2"
    by (simp add: main_iteration_def d a close_stuck_quiet [OF ok2])
  with end_iteration_ok [OF ok2, of e] show ?thesis by simp
qed

section \<open>Runs\<close>

text \<open>
  An iteration of the main loop, or a signal handler between two of them. The handlers of the
  code may also run in the middle of an iteration, which is not modelled.
\<close>

inductive fuzz_step :: "env \<Rightarrow> u32 \<Rightarrow> fstate \<Rightarrow> fstate \<Rightarrow> bool" for e ty where
  Iterate: "main_iteration e fuel ty s = Ret (Continue s') \<Longrightarrow> fuzz_step e ty s s'"
| Overflow: "our_handler e fd s = Some s' \<Longrightarrow> fuzz_step e ty s s'"
| Sigio: "sigio_handler e code s = Some s' \<Longrightarrow> fuzz_step e ty s s'"
| Alarm: "alarm_handler s = Ret s' \<Longrightarrow> fuzz_step e ty s s'"

inductive_simps fuzz_step_simps: "fuzz_step e ty s s'"

inductive fuzz_run :: "env \<Rightarrow> u32 \<Rightarrow> fstate \<Rightarrow> fstate \<Rightarrow> bool" for e ty where
  Start: "fuzz_run e ty s s"
| Step: "fuzz_run e ty s s' \<Longrightarrow> fuzz_step e ty s' s'' \<Longrightarrow> fuzz_run e ty s s''"

lemma fuzz_step_ok:
  assumes "fuzz_step e ty s s'" and "fuzz_ok it s" and "env_ok e"
  shows "\<exists>it'. fuzz_ok it' s'"
  using assms(1) unfolding fuzz_step_simps
proof (elim disjE exE)
  fix fuel assume "main_iteration e fuel ty s = Ret (Continue s')"
  from main_iteration_ok [OF assms(2,3) this] show ?thesis by auto
next
  fix fd assume "our_handler e fd s = Some s'"
  then show ?thesis using our_handler_fuzz_ok [OF assms(2)] by blast
next
  fix code assume "sigio_handler e code s = Some s'"
  from sigio_fuzz_ok [OF assms(2) _ this] assms(3) show ?thesis by (auto simp: env_ok_def)
next
  assume "alarm_handler s = Ret s'"
  then show ?thesis using alarm_fuzz_ok [OF assms(2)] by blast
qed

lemma fuzz_run_ok: "fuzz_run e ty s s' \<Longrightarrow> fuzz_ok it s \<Longrightarrow> env_ok e \<Longrightarrow> \<exists>it'. fuzz_ok it' s'"
  by (induction rule: fuzz_run.induct) (blast intro: fuzz_step_ok)+

text \<open>The state \<open>main\<close> enters the loop with, for tables of any size (100000 events and 1024 mappings in the code).\<close>

definition started :: "env \<Rightarrow> event_data_t \<Rightarrow> our_mmap_t \<Rightarrow> nat \<Rightarrow> nat \<Rightarrow> fstate \<Rightarrow> bool" where
  "started e zero_event zero_map n m s \<longleftrightarrow>
     (\<exists>p. event_data s = fst (init_events e zero_event n p)) \<and> e_mmap zero_event = 0 \<and>
     mmaps s = replicate m zero_map \<and> 0 < m \<and> \<not> m_active zero_map \<and> m_size zero_map = 0 \<and>
     active_events s = 0 \<and> active_mmaps s = 0 \<and>
     (\<forall>k. attempts (stats s) k = 0 \<and> successful (stats s) k = 0) \<and>
     open_fds s = replicate MAX_FILES 0 \<and> open_files s = 0 \<and> \<not> already_forked s \<and> forks s = [] \<and> killed s = [] \<and>
     throttle_close_event s = 0 \<and> h_next_refresh s = 0"

lemma actives_none: "(\<And>x. x \<in> set xs \<Longrightarrow> \<not> act x) \<Longrightarrow> actives act xs = 0"
  by (auto simp: actives_def)

lemma started_ok:
  assumes "started e z zm n m s"
  shows "fuzz_ok (total_iterations (stats s)) s"
proof -
  from assms obtain p where ev: "event_data s = fst (init_events e z n p)" by (auto simp: started_def)
  have "\<not> e_active v \<and> e_mmap v = 0" if "v \<in> set (event_data s)" for v
    using that assms unfolding ev by (auto simp: init_events_def started_def)
  then have "actives e_active (event_data s) = 0" "\<forall>v\<in>set (event_data s). index_ok (e_mmap v) (mmaps s)"
    using assms by (auto simp: started_def index_ok_def intro!: actives_none)
  moreover have "actives m_active (mmaps s) = 0"
    using assms by (intro actives_none) (auto simp: started_def)
  ultimately show ?thesis
    using assms by (auto simp: started_def fuzz_ok_def maps_ok_def ev_ok_def stats_ok_def files_ok_def
        fork_ok_def started_children_def quiet_ok_def att_def succ_def slot_ok_def)
qed

end
