(* ===== verification/FuzzLoopTheorems.thy ===== *)
theory FuzzLoopTheorems
  imports FuzzLoopInv FuzzRuns
begin

text \<open>
  The properties of the whole fuzzer: what every run keeps, whom it kills, what its overflow
  handler asks for, when its loops end, and what its options select.
\<close>

section \<open>An example run\<close>

definition ex_start :: fstate where
  "ex_start = ex_state\<lparr>event_data := fst (init_events ex_env (ex_event 0) 3 0), active_events := 0\<rparr>"

lemma ex_started: "started ex_env (ex_event 0) zero_mmap 3 4 ex_start"
proof -
  have "event_data ex_start = fst (init_events ex_env (ex_event 0) 3 0)" by (simp add: ex_start_def)
  then show ?thesis
    by (auto simp: started_def ex_start_def ex_state_def ex_event_def zero_mmap_def zero_stats_def
        MAX_FILES_def)
qed

lemma ex_env_ok_all: "env_ok ex_env"
  using ex_env_ok by (simp add: env_ok_def fork_answers_def) (simp add: ex_env_def)

lemma ex_iterations: "total_iterations (stats ex_start) = 0"
  by (simp add: ex_start_def ex_state_def zero_stats_def)

text \<open>With \<open>rand() = 7\<close> every iteration forks or kills the child.\<close>

definition ex_forked :: fstate where
  "ex_forked = (case main_iteration ex_env 1 TYPE_FORK ex_start of Ret (Continue s) \<Rightarrow> s | _ \<Rightarrow> ex_start)"

lemmas loop_defs = main_iteration_def draw_def fuzz_action_def fork_random_event_def close_stuck_def
  end_iteration_def run_gen_def roll_below_def rand_refresh_def Let_def

lemma ex_iteration:
  "main_iteration ex_env 1 TYPE_FORK ex_start = Ret (Continue ex_forked)"
  "already_forked ex_forked" "forked_pid ex_forked = 100" "killed ex_forked = []"
  by (simp_all add: ex_forked_def loop_defs ex_env_def ex_skip_def ex_start_def ex_state_def
      has_def call_type_defs log_line_def attempt_def success_def count_syscall_def upd_stats_def syscall_def
      zero_stats_def STATUS_UPDATE_INTERVAL_def)

lemma ex_fuzz_run: "fuzz_run ex_env TYPE_FORK ex_start ex_forked"
  by (rule fuzz_run.Step [OF fuzz_run.Start fuzz_step.Iterate [OF ex_iteration(1)]])

section \<open>What the overflow handler sends\<close>

lemma perf_mmap_read_handler:
  assumes "perf_mmap_read e i s = Some (h, s1)"
  shows "ioctls s1 = ioctls s \<and> h_next_refresh s1 = h_next_refresh s \<and> already_handling s1 = already_handling s"
proof -
  have "side s1 = side s" using perf_mmap_read_obs [OF assms] by (simp add: step_of_def)
  then show ?thesis using perf_mmap_read_ioctls [OF assms] by (simp add: side_def)
qed

lemma refresh_event_sends:
  assumes "refresh_event e i fd s = Some s'"
  shows "ioctls s' = ioctls s @ [(fd, word_of_int IOC_REFRESH, word_of_int (h_next_refresh s))] \<and>
    already_handling s' = already_handling s"
proof -
  from assms obtain h s1 ret s2 where
    r: "perf_mmap_read e (e_mmap (event_data s ! i)) s = Some (h, s1)"
    and d: "do_ioctl e fd IOC_REFRESH (word_of_int (h_next_refresh s1)) s1 = (ret, s2)"
    and s': "s' = (if ret = 0 then upd_event i (\<lambda>v. v\<lparr>e_last_refresh := h_next_refresh s2\<rparr>) s2 else s2)"
    by (rule refresh_event_cases)
  from d perf_mmap_read_handler [OF r] show ?thesis
    by (auto simp: s' do_ioctl_def upd_event_def syscall_def)
qed

lemma handle_overflow_sends:
  assumes "handle_overflow e fd i s = Some s'" and "h_next_refresh s = 0"
  shows "(ioctls s' = ioctls s \<or> ioctls s' = ioctls s @ [(fd, word_of_int IOC_REFRESH, 0)]) \<and>
    already_handling s' = already_handling s"
proof (cases "i < 0")
  case True
  with assms show ?thesis by (simp add: handle_overflow_def)
next
  case False
  let ?s1 = "upd_event (nat i) (\<lambda>v. v\<lparr>e_overflows := e_overflows v + 1\<rparr>) s"
  have s1: "ioctls ?s1 = ioctls s" "already_handling ?s1 = already_handling s" "h_next_refresh ?s1 = 0"
    using assms(2) by (simp_all add: upd_event_def)
  show ?thesis
  proof (cases "e_overflows (event_data ?s1 ! nat i) > 10000")
    case True
    with assms(1) False have "s' = throttle e (nat i) ?s1" by (simp add: handle_overflow_def Let_def)
    then show ?thesis by (simp add: throttle_def Let_def upd_event_def syscall_def)
  next
    case small: False
    with assms(1) False have "refresh_event e (nat i) fd ?s1 = Some s'"
      by (simp add: handle_overflow_def Let_def)
    from refresh_event_sends [OF this] s1 show ?thesis by simp
  qed
qed

lemma our_handler_sends:
  assumes "our_handler e fd s = Some s'" and "h_next_refresh s = 0"
  shows "list_all (\<lambda>(fd, req, arg). req = word_of_int IOC_REFRESH \<longrightarrow> arg = 0)
      (drop (length (ioctls s)) (ioctls s')) \<and> already_handling s' = already_handling s"
proof (cases "already_handling s")
  case True
  with assms(1) have "ioctls s' = ioctls s" "already_handling s' = already_handling s"
    by (auto simp: our_handler_def upd_stats_def)
  then show ?thesis by simp
next
  case False
  let ?s1 = "upd_stats (\<lambda>t. t\<lparr>overflows := overflows t + 1\<rparr>) (s\<lparr>already_handling := True\<rparr>)"
  obtain ret s2 where d: "do_ioctl e fd IOC_DISABLE 0 ?s1 = (ret, s2)" by fastforce
  have s2: "ioctls s2 = ioctls s @ [(fd, word_of_int IOC_DISABLE, 0)]" "h_next_refresh s2 = 0"
    using d assms(2) by (auto simp: do_ioctl_def upd_stats_def syscall_def)
  show ?thesis
  proof (cases "ret < 0")
    case True
    with assms(1) False have "ioctls s' = ioctls s2" "\<not> already_handling s'"
      by (auto simp: our_handler_def Let_def d)
    with s2 False show ?thesis by simp
  next
    case ok: False
    with assms(1) False obtain t where
      h: "handle_overflow e fd (lookup_event s2 fd) s2 = Some t" and s': "s' = t\<lparr>already_handling := False\<rparr>"
      by (auto simp: our_handler_def Let_def d)
    from handle_overflow_sends [OF h s2(2)] s2 False show ?thesis by (auto simp: s')
  qed
qed

section \<open>Safety of all runs\<close>

text \<open>
  C28. Every run of the fuzzer, over any iterations of its main loop with signal handlers
  between them, from the state \<open>main\<close> starts with, keeps its books: \<open>active_events\<close> and
  \<open>active_mmaps\<close> count the active entries of their tables, every event names a slot of the
  table of mappings, no call has more successes than attempts, and the child is the one
  that is recorded: while \<open>already_forked\<close> is set, \<open>forked_pid\<close> is the last process a \<open>fork\<close>
  started, and the children that were started and are not running were killed, each once.
\<close>

theorem fuzzer_invariant:
  assumes "fuzz_run e ty s s'" and "started e z zm n m s" and "env_ok e"
  shows "active_events s' = int (actives e_active (event_data s')) \<and>
     active_mmaps s' = int (actives m_active (mmaps s')) \<and>
     list_all (\<lambda>v. index_ok (e_mmap v) (mmaps s')) (event_data s') \<and>
     (\<forall>k. successful (stats s') k \<le> attempts (stats s') k) \<and>
     (already_forked s' \<longrightarrow> 0 < forked_pid s') \<and>
     filter (\<lambda>p. 0 < p) (forks s') = killed s' @ (if already_forked s' then [forked_pid s'] else [])"
proof -
  from fuzz_run_ok [OF assms(1) started_ok [OF assms(2)] assms(3)] obtain it where "fuzz_ok it s'"
    by blast
  then show ?thesis
    by (auto simp: fuzz_ok_def ev_ok_def maps_ok_def stats_ok_def att_def succ_def list_all_iff
        fork_ok_def started_children_def)
qed

theorem fuzzer_invariant_witness:
  "active_events ex_forked = int (actives e_active (event_data ex_forked)) \<and>
     active_mmaps ex_forked = int (actives m_active (mmaps ex_forked)) \<and>
     list_all (\<lambda>v. index_ok (e_mmap v) (mmaps ex_forked)) (event_data ex_forked) \<and>
     (\<forall>k. successful (stats ex_forked) k \<le> attempts (stats ex_forked) k) \<and>
     0 < forked_pid ex_forked \<and> filter (\<lambda>p. 0 < p) (forks ex_forked) = [forked_pid ex_forked]"
  using fuzzer_invariant [OF ex_fuzz_run ex_started ex_env_ok_all] ex_iteration(2,4) by simp

lemma shutdown_forks: "forks (orderly_shutdown s) = forks s"
  by (simp add: orderly_shutdown_def fork_fields)

text \<open>
  C29. The fuzzer kills its own children and nothing else: in every run, followed by the
  shutdown that ends it, the processes killed are exactly those the calls of \<open>fork\<close> started
  (their positive answers), each once and in the order they were started. So none survives,
  and a failed \<open>fork\<close> never leads to \<open>kill(-1)\<close>, which would hit every process of the user.
\<close>

theorem kills_only_children:
  assumes "fuzz_run e ty s s'" and "started e z zm n m s" and "env_ok e"
  shows "killed (orderly_shutdown s') = filter (\<lambda>p. 0 < p) (forks s')"
proof -
  from fuzz_run_ok [OF assms(1) started_ok [OF assms(2)] assms(3)] obtain it where "fuzz_ok it s'"
    by blast
  then have "all_killed (orderly_shutdown s')" by (intro shutdown_killed) (simp add: fuzz_ok_def)
  then show ?thesis by (simp add: all_killed_def started_children_def shutdown_forks)
qed

theorem kills_only_children_witness:
  "killed (orderly_shutdown ex_forked) = [100] \<and> filter (\<lambda>p. 0 < p) (forks ex_forked) = [100]"
  using kills_only_children [OF ex_fuzz_run ex_started ex_env_ok_all] ex_iteration
  by (simp add: orderly_shutdown_def fork_fields)

text \<open>
  C30. The overflow handler never refreshes by the amount the main loop drew: the
  \<open>next_refresh\<close> it uses is the static variable of fuzz_overflow.c, which stays 0, so in every
  run each \<open>PERF_EVENT_IOC_REFRESH\<close> it sends has the argument 0. It leaves the flag against
  its own recursion as it found it.
\<close>

theorem handler_refreshes_zero:
  assumes "fuzz_run e ty s s1" and "started e z zm n m s" and "env_ok e"
    and "our_handler e fd s1 = Some s2"
  shows "list_all (\<lambda>(fd, req, arg). req = word_of_int IOC_REFRESH \<longrightarrow> arg = 0)
      (drop (length (ioctls s1)) (ioctls s2)) \<and> already_handling s2 = already_handling s1"
proof -
  from fuzz_run_ok [OF assms(1) started_ok [OF assms(2)] assms(3)] obtain it where "fuzz_ok it s1"
    by blast
  then have "h_next_refresh s1 = 0" by (simp add: fuzz_ok_def quiet_ok_def)
  from our_handler_sends [OF assms(4) this] show ?thesis .
qed

theorem handler_refreshes_zero_witness:
  "next_refresh ex_forked = 1 \<and> (\<exists>s2. our_handler ex_env 9 ex_forked = Some s2 \<and>
     list_all (\<lambda>(fd, req, arg). req = word_of_int IOC_REFRESH \<longrightarrow> arg = 0)
       (drop (length (ioctls ex_forked)) (ioctls s2)))"
proof -
  have act: "active_events ex_forked = 0" "\<not> already_handling ex_forked" "next_refresh ex_forked = 1"
    by (simp_all add: ex_forked_def loop_defs ex_env_def ex_skip_def ex_start_def ex_state_def
      has_def call_type_defs log_line_def attempt_def success_def count_syscall_def upd_stats_def syscall_def
      zero_stats_def STATUS_UPDATE_INTERVAL_def)
  then have "our_handler ex_env 9 ex_forked \<noteq> None"
    by (simp add: our_handler_def Let_def do_ioctl_def ex_env_def handle_overflow_def lookup_event_def
        upd_stats_def syscall_def)
  then obtain s2 where "our_handler ex_env 9 ex_forked = Some s2" by blast
  with handler_refreshes_zero [OF ex_fuzz_run ex_started ex_env_ok_all this] act(3) show ?thesis by blast
qed

text \<open>
  C31. The table of open files is never overrun: in every run \<open>access_random_file\<close> returns, for
  the search for a free entry, whose bound is \<open>TYPE_ACCESS\<close> and not the five entries there are,
  always finds one, because \<open>open_files\<close> is at least the number of entries in use.
\<close>

theorem access_stays_in_table:
  assumes "fuzz_run e ty s s'" and "started e z zm n m s" and "env_ok e"
  shows "\<exists>s''. access_random_file e s' = Some s'' \<and> length (open_fds s'') = MAX_FILES \<and>
     open_files s'' \<le> int MAX_FILES"
proof -
  from fuzz_run_ok [OF assms(1) started_ok [OF assms(2)] assms(3)] obtain it where ok: "fuzz_ok it s'"
    by blast
  from access_never_faults [OF ok] obtain s'' where a: "access_random_file e s' = Some s''" by blast
  from access_fuzz_ok [OF ok a] have "files_ok s''" by (simp add: fuzz_ok_def)
  with a show ?thesis by (simp add: files_ok_def)
qed

theorem access_stays_in_table_witness:
  "\<exists>s''. access_random_file ex_env ex_forked = Some s'' \<and> length (open_fds s'') = MAX_FILES"
  using access_stays_in_table [OF ex_fuzz_run ex_started ex_env_ok_all] by blast

end
