(* ===== verification/FuzzEndTheorems.thy ===== *)
theory FuzzEndTheorems
  imports FuzzLoopTheorems
begin

text \<open>
  When the loops of the fuzzer end, and what its options select.
\<close>

section \<open>The attempts to open an event\<close>

text \<open>An answer that ends the attempts: a descriptor, no more descriptors, or an unknown error.\<close>

definition final_answer :: "int \<times> nat \<Rightarrow> bool" where
  "final_answer r \<longleftrightarrow> 0 \<le> fst r \<or> snd r = EMFILE \<or> \<not> known_errno (snd r)"

definition opens_within :: "env \<Rightarrow> nat \<Rightarrow> bool" where
  "opens_within e n \<longleftrightarrow>
     (\<forall>t. \<exists>j<n. \<forall>a pid cpu g f. final_answer (k_open e (t + j) a pid cpu g f))"

lemma describe_sysno:
  assumes "describe e i s = Some (tri, s')"
  shows "sysno s' = sysno s"
  using assms
  by (auto simp: describe_def draw_def upd_event_def find_random_active_event_def
      split: prod.splits if_splits)

lemma open_attempt_again:
  assumes "open_attempt e i s = Ret (Again s')"
  shows "sysno s' = sysno s + 1 \<and> (\<exists>a pid cpu g f. \<not> final_answer (k_open e (sysno s) a pid cpu g f))"
proof -
  from assms obtain tri s1 where d: "describe e i s = Some (tri, s1)"
    by (auto simp: open_attempt_def split: option.splits)
  let ?v = "event_data s1 ! i"
  obtain fd en where k: "k_open e (sysno s1) (e_attr ?v) (e_pid ?v) (e_cpu ?v) (e_group_fd ?v) (e_flags ?v) = (fd, en)"
    by fastforce
  let ?ty = "clamp_type (a_type (e_attr ?v))"
  let ?s3 = "count_open_fail en ?ty tri (count_syscall (attempt Kopen (syscall s1)))"
  from assms have "\<not> i_open (e_ignore e)" "\<not> fd > 2" "\<not> fd \<ge> 0" "known_errno en" "en \<noteq> EMFILE" "s' = ?s3"
    by (auto simp: open_attempt_def d k Let_def split: if_splits)
  moreover have "sysno ?s3 = sysno s1 + 1"
    by (simp add: count_open_fail_def count_syscall_def attempt_def upd_stats_def syscall_def)
  ultimately show ?thesis
    using describe_sysno [OF d] k by (auto simp: final_answer_def) (metis fst_conv snd_conv)
qed

lemma open_attempt_not_spin: "open_attempt e i s \<noteq> Spin"
  by (auto simp: open_attempt_def Let_def split: option.splits prod.splits)

lemma open_loop_ends:
  assumes "j < n" and "\<And>a pid cpu g f. final_answer (k_open e (sysno s + j) a pid cpu g f)"
  shows "open_loop e i n s \<noteq> Spin"
  using assms
proof (induction n arbitrary: s j)
  case 0
  then show ?case by simp
next
  case (Suc n)
  show ?case
  proof (cases "\<exists>s'. open_attempt e i s = Ret (Again s')")
    case True
    then obtain s' where a: "open_attempt e i s = Ret (Again s')" by blast
    note again = open_attempt_again [OF a]
    with Suc.prems(2) have "j \<noteq> 0" by (metis add.right_neutral)
    then obtain j' where j: "j = Suc j'" by (cases j) simp_all
    have "open_loop e i n s' \<noteq> Spin"
      using Suc.prems again by (intro Suc.IH [of j']) (simp_all add: j)
    then show ?thesis by (simp add: a)
  next
    case False
    with open_attempt_not_spin [of e i s] show ?thesis
      by (cases "open_attempt e i s") (auto split: attempt_result.splits)
  qed
qed

lemma open_random_ends:
  assumes "opens_within e n"
  shows "open_random_event e n mm ov s \<noteq> Spin"
proof -
  let ?i = "nat (find_empty_event (event_data s))"
  let ?s0 = "upd_event ?i (\<lambda>v. v\<lparr>e_overflows := 0, e_throttles := 0\<rparr>) s"
  from assms obtain j where "j < n" "\<And>a pid cpu g f. final_answer (k_open e (sysno ?s0 + j) a pid cpu g f)"
    unfolding opens_within_def by blast
  then have ns: "open_loop e ?i n ?s0 \<noteq> Spin" by (rule open_loop_ends)
  have of: "of_option x \<noteq> Spin" for x :: "fstate option" by (cases x) simp_all
  show ?thesis
    using ns by (cases "open_loop e ?i n ?s0") (auto simp: open_random_event_def Let_def of split: option.splits)
qed

section \<open>The main loop\<close>

lemma fuzz_action_ends:
  assumes "opens_within e n"
  shows "fuzz_action e n ty k s \<noteq> Spin"
proof -
  have of: "of_option x \<noteq> Spin" for x :: "fstate option" by (cases x) simp_all
  have fork: "fork_random_event e s \<noteq> Spin"
    by (auto simp: fork_random_event_def Let_def split: prod.splits)
  show ?thesis
    unfolding fuzz_action_def using of fork open_random_ends [OF assms] by simp
qed

lemma main_iteration_ends:
  assumes "opens_within e n"
  shows "main_iteration e n ty s \<noteq> Spin"
proof -
  obtain k s1 where d: "draw e s = (k, s1)" by fastforce
  have of: "then_do (of_option x) (\<lambda>s. Ret (end_iteration e s)) \<noteq> Spin" for x
    by (cases x) simp_all
  show ?thesis
    using fuzz_action_ends [OF assms, of ty "k mod 13" s1]
    by (cases "fuzz_action e n ty (k mod 13) s1") (simp_all add: main_iteration_def d of)
qed

lemma end_iteration_stops:
  assumes "fuzz_ok it s" and "e_stop_after e \<noteq> 0"
  shows "case end_iteration e s of Continue s' \<Rightarrow> it + 1 < e_stop_after e
     | Stopped s' \<Rightarrow> total_iterations (stats s') = it + 1 \<and> e_stop_after e \<le> it + 1"
proof -
  obtain a s1 where r1: "run_gen (roll_below e 2) s = (a, s1)" by fastforce
  obtain b s2 where r2: "run_gen (rand_refresh e) s1 = (b, s2)" by fastforce
  have "fuzz_ok it s2"
    using fuzz_ok_same [OF fuzz_ok_same [OF assms(1) same_obs_draws(2) [OF r1]] same_obs_draws(2) [OF r2]] .
  then have it: "total_iterations (stats s2) = it" by (simp add: fuzz_ok_def)
  let ?s3 = "upd_stats (\<lambda>t. t\<lparr>total_iterations := total_iterations t + 1\<rparr>)
      (s2\<lparr>next_overflow_refresh := a, next_refresh := b, watchdog_counter := watchdog_counter s2 + 1\<rparr>)"
  have it3: "total_iterations (stats ?s3) = it + 1" using it by (simp add: upd_stats_def)
  have sd: "total_iterations (stats (orderly_shutdown (upd_stats reset_stats t))) = total_iterations (stats t)" for t
    by (simp add: orderly_shutdown_def kill_child_def syscall_def upd_stats_def)
  show ?thesis
    using assms(2) it3 by (simp add: end_iteration_def r1 r2 Let_def sd del: One_nat_def)
qed

lemma main_iteration_stops:
  assumes "fuzz_ok it s" and "env_ok e" and "e_stop_after e \<noteq> 0" and "main_iteration e fuel ty s = Ret r"
  shows "case r of Continue s' \<Rightarrow> it + 1 < e_stop_after e
     | Stopped s' \<Rightarrow> total_iterations (stats s') = it + 1 \<and> e_stop_after e \<le> it + 1"
proof -
  obtain k s1 where d: "draw e s = (k, s1)" by fastforce
  have ok1: "fuzz_ok it s1" by (rule fuzz_ok_same [OF assms(1) same_obs_draws(1) [OF d]])
  from assms(4) obtain s2 where a: "fuzz_action e fuel ty (k mod 13) s1 = Ret s2"
    by (cases "fuzz_action e fuel ty (k mod 13) s1") (auto simp: main_iteration_def d)
  note ok2 = fuzz_action_ok [OF ok1 assms(2) a]
  from assms(4) have "r = end_iteration e s2"
    by (simp add: main_iteration_def d a close_stuck_quiet [OF ok2])
  with end_iteration_stops [OF ok2 assms(3)] show ?thesis by simp
qed

lemma main_loop_ends:
  assumes "opens_within e m" and "env_ok e" and "0 < e_stop_after e"
  shows "fuzz_ok it s \<Longrightarrow> it < e_stop_after e \<Longrightarrow> e_stop_after e - it \<le> int n \<Longrightarrow>
     main_loop e m ty n s \<noteq> Spin \<and>
     (\<forall>s'. main_loop e m ty n s = Ret s' \<longrightarrow> total_iterations (stats s') = e_stop_after e)"
proof (induction n arbitrary: it s)
  case 0
  then show ?case by simp
next
  case (Suc n)
  show ?case
  proof (cases "main_iteration e m ty s")
    case (Ret r)
    note st = main_iteration_stops [OF Suc.prems(1) assms(2) _ Ret]
    show ?thesis
    proof (cases r)
      case (Continue s1)
      have "fuzz_ok (it + 1) s1" using main_iteration_ok [OF Suc.prems(1) assms(2) Ret] Continue by simp
      from Suc.IH [OF this] st assms(3) Suc.prems(3) Continue Ret show ?thesis by auto
    next
      case (Stopped s1)
      with st assms(3) Suc.prems(2) Ret show ?thesis by simp
    qed
  next
    case Spin
    with main_iteration_ends [OF assms(1), of ty s] show ?thesis by simp
  qed simp_all
qed

text \<open>
  C32. With \<open>-s\<close> the fuzzer ends: if the kernel answers every \<open>m\<close>-th attempt to open an event
  with a descriptor or an error that ends the attempts, then that much fuel for each
  iteration and \<open>stop_after\<close> iterations are enough, and when the loop comes to its end (and
  not to the child of a \<open>fork\<close> or a fault) it has counted exactly the iterations asked for.
\<close>

theorem main_loop_stops:
  assumes "opens_within e m" and "env_ok e" and "0 < e_stop_after e"
    and "started e z zm k l s" and "total_iterations (stats s) = 0" and "nat (e_stop_after e) \<le> n"
  shows "main_loop e m ty n s \<noteq> Spin \<and>
     (\<forall>s'. main_loop e m ty n s = Ret s' \<longrightarrow> total_iterations (stats s') = e_stop_after e)"
  using main_loop_ends [OF assms(1-3), of 0 s n] started_ok [OF assms(4)] assms(3,5,6) by simp

lemma ex_loop: "\<exists>s'. main_loop ex_env 1 TYPE_FORK 3 ex_start = Ret s'"
  by (simp add: numeral_3_eq_3 loop_defs ex_env_def ex_skip_def ex_start_def ex_state_def
      has_def call_type_defs log_line_def attempt_def success_def count_syscall_def upd_stats_def syscall_def
      zero_stats_def STATUS_UPDATE_INTERVAL_def kill_child_def)

theorem main_loop_stops_witness:
  "\<exists>s'. main_loop ex_env 1 TYPE_FORK 3 ex_start = Ret s' \<and> total_iterations (stats s') = 3"
proof -
  have "opens_within ex_env 1" by (simp add: opens_within_def final_answer_def ex_env_def)
  moreover have "e_stop_after ex_env = 3" by (simp add: ex_env_def)
  ultimately show ?thesis
    using main_loop_stops [OF _ ex_env_ok_all _ ex_started ex_iterations, of 1 3] ex_loop by auto
qed

section \<open>Groups\<close>

lemma scan_fd_none: "(\<And>v. v \<in> set vs \<Longrightarrow> \<not> (e_active v \<and> e_fd v = g)) \<Longrightarrow> scan_fd vs k g = - 1"
  by (induction vs k g rule: scan_fd.induct) auto

text \<open>
  An event opened into a group whose leader is not in the table (it was closed, or the
  number is one of trinity's) updates the entry in front of the table: \<open>lookup_event\<close> returns
  -1 and the result is used as an index.
\<close>

theorem open_unknown_leader:
  assumes "i < length (event_data s)" and "e_group_fd (event_data s ! i) = g" and "g \<noteq> - 1" and "g \<noteq> fd"
    and "\<And>v. v \<in> set (event_data s) \<Longrightarrow> e_active v \<Longrightarrow> e_fd v \<noteq> g"
  shows "finish_open e mm ov i fd s = None"
proof -
  let ?s1 = "opened e i fd s"
  let ?x = "(event_data s ! i)\<lparr>e_fd := fd, e_active := True\<rparr>"
  have ev: "event_data ?s1 = (event_data s)[i := ?x]"
    by (simp add: opened_def Let_def upd_event_def log_line_def upd_stats_def success_def)
  have g: "e_group_fd (event_data ?s1 ! i) = g" using assms(1,2) by (simp add: ev)
  have "\<not> (e_active v \<and> e_fd v = g)" if "v \<in> set (event_data ?s1)" for v
  proof -
    from that have "v = ?x \<or> v \<in> set (event_data s)"
      using set_update_subset_insert [of "event_data s" i ?x] unfolding ev by blast
    with assms(4,5) show ?thesis by auto
  qed
  then have "scan_fd (event_data ?s1) 0 g = - 1" by (rule scan_fd_none)
  then have "lookup_event ?s1 g = - 1" by (simp add: lookup_event_def)
  then have "join_group g ?s1 = None" using assms(3) by (simp add: join_group_def index_ok_def)
  then show ?thesis by (simp add: finish_open_def Let_def g)
qed

theorem open_unknown_leader_witness:
  "finish_open ex_env True True 0 9 (ex_state\<lparr>event_data := [(ex_event 4)\<lparr>e_active := False, e_group_fd := 77\<rparr>]\<rparr>) = None"
  by (rule open_unknown_leader [where g = 77]) (simp_all add: ex_event_def)

section \<open>The types of calls\<close>

lemma letters_distinct:
  "list_all (\<lambda>(c, ty). list_all (\<lambda>(d, u). has u ty = (c = d)) type_letters) type_letters"
  by (simp add: type_letters_def call_type_defs has_def)

lemma letter_has:
  assumes "map_of type_letters c = Some ty"
  shows "has (letter_type d) ty \<longleftrightarrow> c = d"
proof (cases "map_of type_letters d")
  case None
  with assms show ?thesis by (auto simp: letter_type_def has_def)
next
  case (Some u)
  from map_of_SomeD [OF assms] map_of_SomeD [OF Some] letters_distinct
  have "has u ty = (c = d)" by (fastforce simp: list_all_iff)
  with Some show ?thesis by (simp add: letter_type_def)
qed

lemma fold_letters:
  "map_of type_letters c = Some ty \<Longrightarrow>
     has (fold (\<lambda>d t. t OR letter_type d) str t0) ty \<longleftrightarrow> has t0 ty \<or> c \<in> set str"
  by (induction str arbitrary: t0) (auto simp: has_or letter_has)

text \<open>
  \<open>-t\<close> selects exactly the calls whose letters it names, in any order and however often,
  unknown letters left aside; all fifteen letters together are the default.
\<close>

theorem parse_types_selects:
  assumes "map_of type_letters c = Some ty"
  shows "(has (parse_types arg) ty \<longleftrightarrow> c \<in> set arg) \<and> parse_types ''OCIRMFQWPVpAoia'' = default_types"
proof
  show "has (parse_types arg) ty \<longleftrightarrow> c \<in> set arg"
    using fold_letters [OF assms, of arg 0] by (simp add: parse_types_def has_def)
  show "parse_types ''OCIRMFQWPVpAoia'' = default_types"
    by (simp add: parse_types_def letter_type_def type_letters_def default_types_def call_type_defs)
qed

theorem parse_types_selects_witness:
  "has (parse_types ''MO?O'') TYPE_OPEN \<and> \<not> has (parse_types ''MM'') TYPE_OPEN"
proof -
  have "map_of type_letters CHR ''O'' = Some TYPE_OPEN" by (simp add: type_letters_def)
  from parse_types_selects [OF this] show ?thesis by simp
qed

end
