(* ===== verification/Replay.thy ===== *)
theory Replay
  imports FuzzIoctl
begin

text \<open>
  fuzzer/replay_log.c: the log of the fuzzer is read line by line, and every call it records is
  made again on the descriptors this process gets. A call is recorded in the state, and the
  kernel's answer to it is a function of the calls made before.
\<close>

section \<open>Calls and state\<close>

datatype sys_call =
    Sys_mmap int int | Sys_munmap int int | Sys_memset int int int
  | Sys_open perf_event_attr int int int u64 | Sys_close int
  | Sys_ioctl int int int | Sys_ioctl_ptr int int int | Sys_read int int
  | Sys_fopen nat bool | Sys_fread nat int | Sys_fwrite nat string
  | Sys_affinity "nat list" | Sys_prctl bool | Sys_poll "(int \<times> int) list" int int
  | Sys_fork | Sys_kill int | Sys_waitpid int | Sys_fcntl int

definition FD_REMAP_SIZE :: int where "FD_REMAP_SIZE = 2048"

record event_type =
  fd_remap :: int
  mmap_remap :: int
  map_size :: int

record rstate =
  r_event :: "event_type list"
  fd_overflows :: "int list"
  fd_throttles :: "int list"
  r_error :: bool
  original_pid :: int
  child_pid :: int
  cpu_set :: "nat list"
  line_num :: int
  replayed :: int
  total_lines :: int
  calls :: "sys_call list"

text \<open>\<open>r_stack\<close> is what an uninitialised variable holds, by line and position in the format.\<close>

record renv =
  r_answer :: "nat \<Rightarrow> sys_call \<Rightarrow> int"
  r_getpid :: int
  r_stack :: "int \<Rightarrow> nat \<Rightarrow> int"

definition do_call :: "renv \<Rightarrow> sys_call \<Rightarrow> rstate \<Rightarrow> int \<times> rstate" where
  "do_call e c s = (r_answer e (length (calls s)) c, s\<lparr>calls := calls s @ [c]\<rparr>)"

definition upd_slot :: "int \<Rightarrow> (event_type \<Rightarrow> event_type) \<Rightarrow> rstate \<Rightarrow> rstate" where
  "upd_slot fd f s = s\<lparr>r_event := (r_event s)[nat fd := f (r_event s ! nat fd)]\<rparr>"

definition slot :: "rstate \<Rightarrow> int \<Rightarrow> event_type" where
  "slot s fd = r_event s ! nat fd"

text \<open>The arguments of a line, behind its first character.\<close>

definition args_of :: "renv \<Rightarrow> rstate \<Rightarrow> conv list \<Rightarrow> string \<Rightarrow> nat \<Rightarrow> int" where
  "args_of e s = scanned (r_stack e (line_num s))"

text \<open>An access to the table at \<open>fd\<close>, which may lie outside it.\<close>

definition in_table :: "int \<Rightarrow> rstate \<Rightarrow> rstate outcome \<Rightarrow> rstate outcome" where
  "in_table fd s r = (if index_ok fd (r_event s) then r else Fault)"

section \<open>Mappings\<close>

definition replay_mmap :: "renv \<Rightarrow> string \<Rightarrow> rstate \<Rightarrow> rstate outcome" where
  "replay_mmap e line s =
     (let a = args_of e s [C_d, C_d, C_llx] line; sz = a 0; fd = a 1 in
      in_table fd s
        (if fd_remap (slot s fd) = - 1 then Ret s
         else (let s1 = upd_slot fd (\<lambda>x. x\<lparr>mmap_remap := MAP_FAILED, map_size := 0\<rparr>) s in
           case do_call e (Sys_mmap sz (fd_remap (slot s fd))) s1 of (data, s2) \<Rightarrow>
             Ret (if data = MAP_FAILED then s2\<lparr>r_error := True\<rparr>
                  else upd_slot fd (\<lambda>x. x\<lparr>mmap_remap := data, map_size := sz\<rparr>) s2))))"

definition replay_trash :: "renv \<Rightarrow> string \<Rightarrow> rstate \<Rightarrow> rstate outcome" where
  "replay_trash e line s =
     (let a = args_of e s [C_d, C_d, C_d] line; v = a 0; sz = a 1; fd = a 2 in
      in_table fd s
        (let m = mmap_remap (slot s fd) in
         if fd_remap (slot s fd) = - 1 \<or> m = MAP_FAILED \<or> m = 0 then Ret s
         else Ret (snd (do_call e (Sys_memset m v sz) s))))"

text \<open>The mapping of a closed descriptor is left alone, whether it is valid or not.\<close>

definition replay_munmap :: "renv \<Rightarrow> string \<Rightarrow> rstate \<Rightarrow> rstate outcome" where
  "replay_munmap e line s =
     (let a = args_of e s [C_d, C_d] line; fd = a 0; sz = a 1 in
      in_table fd s
        (if fd_remap (slot s fd) = - 1 then Ret s
         else (let m = mmap_remap (slot s fd); s1 = upd_slot fd (\<lambda>x. x\<lparr>mmap_remap := MAP_FAILED\<rparr>) s in
           if map_size (slot s fd) \<noteq> sz \<or> m = MAP_FAILED then Ret s1
           else (case do_call e (Sys_munmap m sz) s1 of (result, s2) \<Rightarrow>
             Ret (if result < 0 then s2\<lparr>r_error := True\<rparr> else s2)))))"

section \<open>Events\<close>

text \<open>The tables behind a successful open; the bounds let one index too many through.\<close>

definition remember_open :: "int \<Rightarrow> int \<Rightarrow> rstate \<Rightarrow> rstate outcome" where
  "remember_open orig_fd fd s =
     (if orig_fd > FD_REMAP_SIZE then Ret (s\<lparr>r_error := True\<rparr>)
      else in_table orig_fd s
        (let s1 = upd_slot orig_fd (\<lambda>x. x\<lparr>fd_remap := fd, mmap_remap := MAP_FAILED\<rparr>) s in
         if fd > FD_REMAP_SIZE then Ret (s1\<lparr>r_error := True\<rparr>)
         else if \<not> index_ok fd (fd_overflows s1) then Fault
         else Ret (s1\<lparr>fd_overflows := (fd_overflows s1)[nat fd := 0],
                      fd_throttles := (fd_throttles s1)[nat fd := 0]\<rparr>)))"

definition replay_open :: "renv \<Rightarrow> string \<Rightarrow> rstate \<Rightarrow> rstate outcome" where
  "replay_open e line s =
     (case parse_open_event line zero_pe of None \<Rightarrow> Fault
      | Some (orig_fd, pid, cpu, group_fd, flags, pe) \<Rightarrow>
        if group_fd \<noteq> - 1 \<and> \<not> index_ok group_fd (r_event s) then Fault
        else (case do_call e (Sys_open pe (if pid = original_pid s then r_getpid e else pid) cpu
                (if group_fd = - 1 then - 1 else fd_remap (slot s group_fd)) flags) s of (fd, s1) \<Rightarrow>
          if fd < 0 then Ret (s1\<lparr>r_error := True\<rparr>) else remember_open orig_fd fd s1))"

definition replay_close :: "renv \<Rightarrow> string \<Rightarrow> rstate \<Rightarrow> rstate outcome" where
  "replay_close e line s =
     (case scan_convs [C_d] (drop 1 line) of [] \<Rightarrow> Ret s
      | fd # _ \<Rightarrow> in_table fd s
         (if fd_remap (slot s fd) = - 1 then Ret s
          else Ret (upd_slot fd (\<lambda>x. x\<lparr>fd_remap := - 1\<rparr>)
                 (snd (do_call e (Sys_close (fd_remap (slot s fd))) s)))))"

text \<open>
  The request is read into an \<open>int\<close>, and so are the labels it is compared with. Two requests
  pass the address of a variable: of the period, and of one the kernel writes the id to.
\<close>

definition replay_ioctl_call :: "int \<Rightarrow> int \<Rightarrow> int \<Rightarrow> rstate \<Rightarrow> sys_call option" where
  "replay_ioctl_call fd arg arg2 s =
     (if arg = i32 IOC_SET_OUTPUT then
        (if arg2 = - 1 then Some (Sys_ioctl (fd_remap (slot s fd)) arg arg2)
         else if \<not> index_ok arg2 (r_event s) then None
         else Some (Sys_ioctl (fd_remap (slot s fd)) arg (fd_remap (slot s arg2))))
      else if arg = i32 IOC_ID then Some (Sys_ioctl_ptr (fd_remap (slot s fd)) arg 0)
      else if arg = i32 IOC_PERIOD then Some (Sys_ioctl_ptr (fd_remap (slot s fd)) arg arg2)
      else Some (Sys_ioctl (fd_remap (slot s fd)) arg arg2))"

definition replay_ioctl :: "renv \<Rightarrow> string \<Rightarrow> rstate \<Rightarrow> rstate outcome" where
  "replay_ioctl e line s =
     (let a = args_of e s [C_d, C_d, C_lld] line; fd = a 0 in
      in_table fd s
        (case replay_ioctl_call fd (a 1) (a 2) s of None \<Rightarrow> Fault
         | Some c \<Rightarrow> (case do_call e c s of (result, s1) \<Rightarrow>
             Ret (if result < 0 then s1\<lparr>r_error := True\<rparr> else s1))))"

text \<open>The size is compared as an unsigned number.\<close>

definition replay_read :: "renv \<Rightarrow> string \<Rightarrow> rstate \<Rightarrow> rstate outcome" where
  "replay_read e line s =
     (let a = args_of e s [C_d, C_d] line; fd = a 0; sz = a 1 in
      if sz < 0 \<or> sz > MAX_READ_SIZE * 8 then Ret (s\<lparr>r_error := True\<rparr>)
      else in_table fd s
        (case do_call e (Sys_read (fd_remap (slot s fd)) sz) s of (result, s1) \<Rightarrow>
          Ret (if result < 0 then s1\<lparr>r_error := True\<rparr> else s1)))"

section \<open>Files, processors, prctl, poll, fork\<close>

text \<open>What is read goes to a buffer of 2048 bytes, up to the size in the log.\<close>

definition replay_access :: "renv \<Rightarrow> string \<Rightarrow> rstate \<Rightarrow> rstate outcome" where
  "replay_access e line s =
     (let a = args_of e s [C_d, C_d, C_lld, C_d] line; type = a 0; which = a 1; sz = a 2 in
      if which > MAX_FILENAMES then Exit 0
      else if which < 0 \<or> which = MAX_FILENAMES then Fault
      else (let w = nat which in
        case do_call e (Sys_fopen w (type \<noteq> 0)) s of (ok, s1) \<Rightarrow>
          if ok = 0 then Ret s1
          else if type = 0 then
            (case do_call e (Sys_fread w sz) s1 of (got, s2) \<Rightarrow> if got > 2048 then Fault else Ret s2)
          else Ret (snd (do_call e (Sys_fwrite w (show_int sz @ newline)) s1))))"

text \<open>
  \<open>CPU_SET_S\<close> compares with the size it is given in bytes; the kinds 2 and 3 pass the number
  of processors, and a bit outside the allocated set is written.
\<close>

definition set_cpu :: "int \<Rightarrow> int \<Rightarrow> nat list \<Rightarrow> nat list option" where
  "set_cpu bytes cpu cs =
     (if cpu < 0 \<or> cpu div 8 \<ge> bytes then Some cs
      else if cpu \<ge> int MAX_CPUS then None else Some (nat cpu # cs))"

fun set_cpus :: "int list \<Rightarrow> nat list \<Rightarrow> nat list option" where
  "set_cpus [] cs = Some cs"
| "set_cpus (c # rest) cs =
     (case set_cpu (int MAX_CPUS) c cs of None \<Rightarrow> None | Some cs1 \<Rightarrow> set_cpus rest cs1)"

definition cpus_of :: "renv \<Rightarrow> rstate \<Rightarrow> int \<Rightarrow> int \<Rightarrow> int list \<Rightarrow> nat list option" where
  "cpus_of e s which_one num_set cpus =
     (let cpu = (\<lambda>j. if j < length cpus then cpus ! j else r_stack e (line_num s) j) in
      if which_one = 0 \<or> which_one = 1 then set_cpu (int MAX_CPUS div 8) (cpu 0) []
      else if which_one = 2 \<or> which_one = 3 then
        (if num_set > int MAX_CPUS then None else set_cpus (map cpu [0..<nat num_set]) [])
      else Some (cpu_set s))"

definition delimiter :: "char \<Rightarrow> bool" where
  "delimiter c \<longleftrightarrow> c = CHR '' '' \<or> c = char_of (10 :: nat)"

definition replay_affinity :: "renv \<Rightarrow> string \<Rightarrow> rstate \<Rightarrow> rstate outcome" where
  "replay_affinity e line s =
     (case tokens delimiter line of
        _ # which_one # num_set # cpus \<Rightarrow>
          if length cpus > MAX_CPUS then Fault
          else (case cpus_of e s (atoi which_one) (atoi num_set) (map atoi cpus) of None \<Rightarrow> Fault
            | Some cs \<Rightarrow> Ret (snd (do_call e (Sys_affinity cs) (s\<lparr>cpu_set := cs\<rparr>))))
      | _ \<Rightarrow> Ret s)"

definition replay_prctl :: "renv \<Rightarrow> string \<Rightarrow> rstate \<Rightarrow> rstate outcome" where
  "replay_prctl e line s =
     (let vs = scan_convs [C_d] (drop 1 line); enable = (vs \<noteq> [] \<and> hd vs \<noteq> 0)
      in Ret (snd (do_call e (Sys_prctl enable) s)))"

text \<open>The pairs up to the end of the line, and the words left behind them.\<close>

fun poll_pairs :: "nat \<Rightarrow> string list \<Rightarrow> (int \<times> int) list \<times> string list" where
  "poll_pairs 0 ws = ([], ws)"
| "poll_pairs (Suc n) (a # b # ws) =
     (case poll_pairs n ws of (ps, rest) \<Rightarrow> ((atoi a, atoi b) # ps, rest))"
| "poll_pairs (Suc n) ws = ([], [])"

definition replay_poll :: "renv \<Rightarrow> string \<Rightarrow> rstate \<Rightarrow> rstate outcome" where
  "replay_poll e line s =
     (let n = args_of e s [C_d] line 0 in
      case poll_pairs (nat n) (drop 2 (tokens (\<lambda>c. c = CHR '' '') line)) of (ps, rest) \<Rightarrow>
        if length ps > nat MAX_POLL_FDS then Fault
        else Ret (snd (do_call e (Sys_poll ps n (if rest = [] then 0 else atoi (hd rest))) s)))"

text \<open>\<open>forked_pid\<close> keeps what \<open>fork\<close> returned, also when it failed, and after the child is gone.\<close>

definition replay_fork :: "renv \<Rightarrow> string \<Rightarrow> rstate \<Rightarrow> rstate outcome" where
  "replay_fork e line s =
     (let vs = scan_convs [C_d] (drop 1 line); enable = (vs \<noteq> [] \<and> hd vs \<noteq> 0) in
      if enable then
        (case do_call e Sys_fork s of (pid, s1) \<Rightarrow>
           if pid = 0 then Child else Ret (s1\<lparr>child_pid := pid\<rparr>))
      else Ret (snd (do_call e (Sys_waitpid (child_pid s)) (snd (do_call e (Sys_kill (child_pid s)) s)))))"

definition replay_overflow :: "renv \<Rightarrow> string \<Rightarrow> rstate \<Rightarrow> rstate outcome" where
  "replay_overflow e line s =
     (let fd = args_of e s [C_d] line 0 in
      in_table fd s
        (let c = Sys_fcntl (fd_remap (slot s fd)); f = (\<lambda>s. snd (do_call e c s)) in Ret (f (f (f s)))))"

section \<open>Signals\<close>

definition REPLAY_MAX_THROTTLES :: int where "REPLAY_MAX_THROTTLES = 20"

text \<open>The signal names a descriptor of this process; all three tables are indexed with it.\<close>

definition replay_handler :: "renv \<Rightarrow> int \<Rightarrow> rstate \<Rightarrow> rstate outcome" where
  "replay_handler e fd s =
     (case do_call e (Sys_ioctl fd (i32 IOC_DISABLE) 0) s of (_, s1) \<Rightarrow>
      if \<not> index_ok fd (fd_overflows s1) then Fault
      else (let i = nat fd; n = fd_overflows s1 ! i + 1 in
        if n > 10000 then
          (let t = fd_throttles s1 ! i + 1;
               s2 = s1\<lparr>fd_overflows := (fd_overflows s1)[i := 0], fd_throttles := (fd_throttles s1)[i := t]\<rparr>
           in if t > REPLAY_MAX_THROTTLES
              then (let s3 = snd (do_call e (Sys_close fd) s2)
                    in in_table fd s3 (Ret (upd_slot fd (\<lambda>x. x\<lparr>fd_remap := - 1\<rparr>) s3)))
              else Ret s2)
        else Ret (snd (do_call e (Sys_ioctl fd (i32 IOC_REFRESH) 1)
               (s1\<lparr>fd_overflows := (fd_overflows s1)[i := n]\<rparr>)))))"

section \<open>The main loop\<close>

definition REPLAY_OPEN :: u32 where "REPLAY_OPEN = 0x0001"
definition REPLAY_CLOSE :: u32 where "REPLAY_CLOSE = 0x0002"
definition REPLAY_IOCTL :: u32 where "REPLAY_IOCTL = 0x0004"
definition REPLAY_READ :: u32 where "REPLAY_READ = 0x0008"
definition REPLAY_MMAP :: u32 where "REPLAY_MMAP = 0x0010"
definition REPLAY_MUNMAP :: u32 where "REPLAY_MUNMAP = 0x0020"
definition REPLAY_PRCTL :: u32 where "REPLAY_PRCTL = 0x0040"
definition REPLAY_FORK :: u32 where "REPLAY_FORK = 0x0080"
definition REPLAY_POLL :: u32 where "REPLAY_POLL = 0x0100"
definition REPLAY_SEED :: u32 where "REPLAY_SEED = 0x0200"
definition REPLAY_OVERFLOW :: u32 where "REPLAY_OVERFLOW = 0x0400"
definition REPLAY_TRASH_MMAP :: u32 where "REPLAY_TRASH_MMAP = 0x0800"
definition REPLAY_ACCESS :: u32 where "REPLAY_ACCESS = 0x1000"
definition REPLAY_AFFINITY :: u32 where "REPLAY_AFFINITY = 0x2000"
definition REPLAY_ALL :: u32 where "REPLAY_ALL = 0xffff"

lemmas replay_type_defs = REPLAY_OPEN_def REPLAY_CLOSE_def REPLAY_IOCTL_def REPLAY_READ_def
  REPLAY_MMAP_def REPLAY_MUNMAP_def REPLAY_PRCTL_def REPLAY_FORK_def REPLAY_POLL_def
  REPLAY_SEED_def REPLAY_OVERFLOW_def REPLAY_TRASH_MMAP_def REPLAY_ACCESS_def REPLAY_AFFINITY_def

definition replay_if :: "u32 \<Rightarrow> u32 \<Rightarrow> (rstate \<Rightarrow> rstate outcome) \<Rightarrow> rstate \<Rightarrow> rstate outcome" where
  "replay_if which ty f s =
     (if has which ty then then_do (f s) (\<lambda>s1. Ret (s1\<lparr>replayed := replayed s1 + 1\<rparr>)) else Ret s)"

text \<open>
  A line of an affinity falls through to the case of a close, on the line as \<open>strtok\<close> left it:
  cut at the first delimiter if it was split, and whole if affinities are not replayed.
\<close>

definition replay_line :: "renv \<Rightarrow> u32 \<Rightarrow> string \<Rightarrow> rstate \<Rightarrow> rstate outcome" where
  "replay_line e which line s =
     (if line = [] then Ret s
      else if hd line = CHR ''A'' then replay_if which REPLAY_ACCESS (replay_access e line) s
      else if hd line = CHR ''a'' then
        then_do (replay_if which REPLAY_AFFINITY (replay_affinity e line) s)
          (replay_if which REPLAY_CLOSE (replay_close e
             (if has which REPLAY_AFFINITY then takeWhile (\<lambda>c. \<not> delimiter c) line else line)))
      else if hd line = CHR ''C'' then replay_if which REPLAY_CLOSE (replay_close e line) s
      else if hd line = CHR ''F'' then replay_if which REPLAY_FORK (replay_fork e line) s
      else if hd line = CHR ''G'' then
        Ret (case scan_convs [C_d] (drop 1 line) of [] \<Rightarrow> s | p # _ \<Rightarrow> s\<lparr>original_pid := p\<rparr>)
      else if hd line = CHR ''I'' then replay_if which REPLAY_IOCTL (replay_ioctl e line) s
      else if hd line = CHR ''M'' then replay_if which REPLAY_MMAP (replay_mmap e line) s
      else if hd line = CHR ''O'' then replay_if which REPLAY_OPEN (replay_open e line) s
      else if hd line = CHR ''o'' then replay_if which REPLAY_OVERFLOW (replay_overflow e line) s
      else if hd line = CHR ''P'' then replay_if which REPLAY_PRCTL (replay_prctl e line) s
      else if hd line = CHR ''p'' then replay_if which REPLAY_POLL (replay_poll e line) s
      else if hd line = CHR ''Q'' then replay_if which REPLAY_TRASH_MMAP (replay_trash e line) s
      else if hd line = CHR ''q'' then Exit 1
      else if hd line = CHR ''R'' then replay_if which REPLAY_READ (replay_read e line) s
      else if hd line = CHR ''U'' then replay_if which REPLAY_MUNMAP (replay_munmap e line) s
      else Ret s)"

text \<open>The lines \<open>fgets\<close> returns for a file: up to a newline, or as much as the buffer holds.\<close>

definition BUFSIZ :: nat where "BUFSIZ = 8192"

definition fgets_len :: "string \<Rightarrow> nat" where
  "fgets_len cs = min (BUFSIZ - 1) (length (takeWhile (\<lambda>c. c \<noteq> char_of (10 :: nat)) cs) + 1)"

function read_lines :: "string \<Rightarrow> string list" where
  "read_lines [] = []"
| "read_lines (c # cs) =
     take (fgets_len (c # cs)) (c # cs) # read_lines (drop (fgets_len (c # cs)) (c # cs))"
  by pat_completeness auto

termination
  by (relation "measure length") (simp_all add: fgets_len_def BUFSIZ_def)

text \<open>Lines before \<open>skip\<close> are not replayed, except for the first two; \<open>stop\<close> bounds the others.\<close>

fun replay_lines :: "renv \<Rightarrow> u32 \<Rightarrow> int \<Rightarrow> int \<Rightarrow> string list \<Rightarrow> rstate \<Rightarrow> rstate outcome" where
  "replay_lines e which skip_to stop [] s = Ret s"
| "replay_lines e which skip_to stop (l # ls) s =
     (let s1 = s\<lparr>line_num := line_num s + 1\<rparr> in
      if line_num s1 > 2 \<and> line_num s1 < skip_to then replay_lines e which skip_to stop ls s1
      else then_do (replay_line e which l s1) (\<lambda>s2.
        let s3 = s2\<lparr>total_lines := total_lines s2 + 1\<rparr> in
        if stop \<noteq> 0 \<and> total_lines s3 > stop then Ret s3 else replay_lines e which skip_to stop ls s3))"

definition replay_start :: rstate where
  "replay_start = \<lparr>r_event = replicate (nat FD_REMAP_SIZE) \<lparr>fd_remap = - 1, mmap_remap = MAP_FAILED, map_size = 0\<rparr>,
     fd_overflows = replicate (nat FD_REMAP_SIZE) 0, fd_throttles = replicate (nat FD_REMAP_SIZE) 0,
     r_error = False, original_pid = - 1, child_pid = 0, cpu_set = [], line_num = 0, replayed = 0,
     total_lines = 0, calls = []\<rparr>"

definition replay_end :: "renv \<Rightarrow> rstate \<Rightarrow> rstate" where
  "replay_end e s = (if child_pid s \<noteq> 0 then snd (do_call e (Sys_kill (child_pid s)) s) else s)"

definition replay_log :: "renv \<Rightarrow> u32 \<Rightarrow> int \<Rightarrow> int \<Rightarrow> string \<Rightarrow> rstate outcome" where
  "replay_log e which skip_to stop file =
     then_do (replay_lines e which skip_to stop (read_lines file) replay_start) (\<lambda>s. Ret (replay_end e s))"

section \<open>The command line\<close>

definition replay_letters :: "(char \<times> u32) list" where
  "replay_letters =
     [(CHR ''O'', REPLAY_OPEN), (CHR ''o'', REPLAY_OVERFLOW), (CHR ''C'', REPLAY_CLOSE),
      (CHR ''I'', REPLAY_IOCTL), (CHR ''R'', REPLAY_READ), (CHR ''M'', REPLAY_MMAP),
      (CHR ''U'', REPLAY_MUNMAP), (CHR ''P'', REPLAY_PRCTL), (CHR ''F'', REPLAY_FORK), (CHR ''p'', REPLAY_POLL)]"

definition replay_types :: "string \<Rightarrow> u32" where
  "replay_types arg =
     fold (\<lambda>c ty. case map_of replay_letters c of Some t \<Rightarrow> ty OR t | None \<Rightarrow> ty) arg 0"

record roptions =
  ro_which :: u32
  ro_skip :: int
  ro_stop :: int
  ro_file :: "string option"

text \<open>\<open>-r\<close> without an argument reads the null pointer behind the arguments.\<close>

fun replay_options :: "string list \<Rightarrow> roptions \<Rightarrow> roptions outcome" where
  "replay_options [] ro = Ret ro"
| "replay_options (a # as) ro =
     (if a \<noteq> [] \<and> hd a = CHR ''-'' then
        (let c = (if length a > 1 then a ! 1 else char_of (0 :: nat)) in
         if c = CHR ''p'' then (case as of [] \<Rightarrow> Ret ro | v # rest \<Rightarrow>
           replay_options rest (ro\<lparr>ro_stop := (case scan_dec v of Some (n, _) \<Rightarrow> n | None \<Rightarrow> 0)\<rparr>))
         else if c = CHR ''s'' then (case as of [] \<Rightarrow> Ret ro | v # rest \<Rightarrow>
           replay_options rest (ro\<lparr>ro_skip := (case scan_dec v of Some (n, _) \<Rightarrow> n | None \<Rightarrow> 0)\<rparr>))
         else if c = CHR ''r'' then (case as of [] \<Rightarrow> Fault | v # rest \<Rightarrow>
           replay_options rest (ro\<lparr>ro_which := replay_types v\<rparr>))
         else Exit 1)
      else replay_options as (ro\<lparr>ro_file := Some a\<rparr>))"

end
