(* ===== verification/ReplayTheorems.thy ===== *)
theory ReplayTheorems
  imports Replay AttrTheorems FuzzRuns FuzzOpen
begin

text \<open>
  The log and its replay together: a logged open or ioctl is made again, on the descriptors of
  the replaying process; and where the replay departs from the log.
\<close>

section \<open>Lines\<close>

lemma words_Cons: "ws \<noteq> [] \<Longrightarrow> words (w # ws) = w @ '' '' @ words ws"
  by (simp add: words_def)

lemma words_single [simp]: "words [w] = w"
  by (simp add: words_def)

text \<open>The text \<open>w\<close> of a field is read as \<open>v\<close>, whatever comes behind it.\<close>

definition reads :: "conv \<Rightarrow> string \<times> int \<Rightarrow> bool" where
  "reads c f \<longleftrightarrow> (\<forall>rest. at_end rest \<longrightarrow> scan_conv c (fst f @ rest) = Some (snd f, rest))"

definition int32 :: "int \<Rightarrow> bool" where
  "int32 i \<longleftrightarrow> - (2 ^ 31) \<le> i \<and> i < 2 ^ 31"

definition int64 :: "int \<Rightarrow> bool" where
  "int64 i \<longleftrightarrow> - (2 ^ 63) \<le> i \<and> i < 2 ^ 63"

lemma int32_i32 [simp]: "int32 i \<Longrightarrow> i32 i = i"
  by (simp add: int32_def i32_id)

lemma int32_64: "int32 i \<Longrightarrow> int64 i"
  by (simp add: int32_def int64_def)

lemma reads_int [intro]:
  "int64 v \<Longrightarrow> reads C_d (show_int v, i32 v)" "int64 v \<Longrightarrow> reads C_lld (show_int v, v)"
  using at_end_stops by (auto simp: reads_def int64_def scan_d_def scan_dec_show_int)

lemma reads_d [intro]: "int32 v \<Longrightarrow> reads C_d (show_int v, v)"
  using reads_int(1) [of v] int32_64 [of v] by simp

lemma scan_words:
  assumes "list_all2 reads cs fs" and "at_end rest"
  shows "scan_convs cs (words (map fst fs) @ rest) = map snd fs"
proof -
  have "scan_convs cs (sp @ words (map fst fs) @ rest) = map snd fs" if "sp = [] \<or> sp = '' ''" for sp
    using assms(1) that
  proof (induction arbitrary: sp rule: list_all2_induct)
    case Nil
    then show ?case by simp
  next
    case (Cons c cs f fs)
    have drop: "scan_conv c (sp @ t) = scan_conv c t" for t
      using Cons.prems scan_conv_space by auto
    show ?case
    proof (cases "fs = []")
      case True
      with Cons show ?thesis using assms(2) by (simp add: drop reads_def)
    next
      case False
      then have "words (map fst (f # fs)) = fst f @ '' '' @ words (map fst fs)"
        by (simp add: words_Cons)
      moreover have "at_end ('' '' @ words (map fst fs) @ rest)" by simp
      ultimately show ?thesis
        using Cons.IH [of "'' ''"] Cons.hyps(1) by (simp add: drop reads_def)
    qed
  qed
  from this [of "[]"] show ?thesis by simp
qed

text \<open>The arguments of a logged line, behind its letter.\<close>

lemma scan_line:
  assumes "list_all2 reads cs fs" and "ws = [c] # map fst fs" and "fs \<noteq> []" and "at_end rest"
  shows "scan_convs cs (drop 1 (words ws @ rest)) = map snd fs"
proof -
  have "drop 1 (words ws @ rest) = '' '' @ words (map fst fs) @ rest"
    using assms(2,3) by (simp add: words_Cons)
  moreover have "scan_convs cs ('' '' @ t) = scan_convs cs t" for t
    by (cases cs) (simp_all add: scan_conv_space [simplified])
  ultimately show ?thesis using scan_words [OF assms(1,4)] by simp
qed

section \<open>Opening\<close>

text \<open>The descriptor a logged one stands for.\<close>

definition remapped :: "rstate \<Rightarrow> int \<Rightarrow> int" where
  "remapped s fd = (if fd = - 1 then - 1 else fd_remap (slot s fd))"

definition tables_ok :: "rstate \<Rightarrow> bool" where
  "tables_ok s \<longleftrightarrow> length (r_event s) = nat FD_REMAP_SIZE \<and> length (fd_overflows s) = nat FD_REMAP_SIZE \<and>
     length (fd_throttles s) = nat FD_REMAP_SIZE"

lemma in_table_ok: "tables_ok s \<Longrightarrow> index_ok fd (r_event s) \<longleftrightarrow> 0 \<le> fd \<and> fd < FD_REMAP_SIZE"
  by (auto simp: tables_ok_def index_ok_def FD_REMAP_SIZE_def)

lemma index_ok_update [simp]: "index_ok i (xs[j := x]) = index_ok i xs"
  by (simp add: index_ok_def)

lemma slot_upd:
  "index_ok fd (r_event s) \<Longrightarrow> 0 \<le> j \<Longrightarrow> slot (upd_slot fd f s) j = (if j = fd then f (slot s fd) else slot s j)"
  by (auto simp: slot_def upd_slot_def index_ok_def nth_list_update nat_eq_iff2)

lemma do_call_simps [simp]:
  "do_call e c s = (r_answer e (length (calls s)) c, s\<lparr>calls := calls s @ [c]\<rparr>)"
  by (simp add: do_call_def)

lemma slot_calls [simp]: "slot (s\<lparr>calls := c\<rparr>) = slot s" "slot (s\<lparr>replayed := n\<rparr>) = slot s"
  by (simp_all add: slot_def fun_eq_iff)

lemma hd_open_line: "log_open_line fd pid cpu g flags a \<noteq> [] \<and> hd (log_open_line fd pid cpu g flags a) = CHR ''O''"
  by (simp add: log_open_line_def)

lemma remember_open_ok:
  assumes "tables_ok s" and "0 \<le> fd" "fd < FD_REMAP_SIZE" and "0 \<le> k" "k < FD_REMAP_SIZE"
  obtains t where "remember_open fd k s = Ret t" and "calls t = calls s" and "tables_ok t"
    and "fd_remap (slot t fd) = k" and "\<And>j. 0 \<le> j \<Longrightarrow> j \<noteq> fd \<Longrightarrow> slot t j = slot s j"
proof -
  let ?s1 = "upd_slot fd (\<lambda>x. x\<lparr>fd_remap := k, mmap_remap := MAP_FAILED\<rparr>) s"
  let ?t = "?s1\<lparr>fd_overflows := (fd_overflows ?s1)[nat k := 0], fd_throttles := (fd_throttles ?s1)[nat k := 0]\<rparr>"
  have idx: "index_ok fd (r_event s)" using assms by (simp add: in_table_ok)
  have "remember_open fd k s = Ret ?t"
    using assms idx
    by (simp add: remember_open_def in_table_def Let_def upd_slot_def tables_ok_def index_ok_def FD_REMAP_SIZE_def)
  moreover have "calls ?t = calls s" by (simp add: upd_slot_def)
  moreover have "tables_ok ?t" using assms(1) by (simp add: tables_ok_def upd_slot_def)
  moreover have "slot ?t = slot ?s1" by (simp add: slot_def fun_eq_iff)
  then have "fd_remap (slot ?t fd) = k" "\<And>j. 0 \<le> j \<Longrightarrow> j \<noteq> fd \<Longrightarrow> slot ?t j = slot s j"
    using slot_upd [OF idx] assms(2) by simp_all
  ultimately show thesis using that by blast
qed

text \<open>
  C35. The fuzzer and the replayer agree on an opened event: when the line the fuzzer logs for
  it is replayed, the kernel is called with the same attributes (all that are logged), cpu and
  flags, with the descriptor that stands for the group leader, and with the pid of the
  replaying process where the fuzzer used its own; the logged descriptor then stands for the
  new one, and no other descriptor changes.
\<close>

theorem replay_repeats_open:
  assumes "has (e_logging e) TYPE_OPEN" and "v = event_data s ! i"
    and "int32 (e_pid v)" and "int32 (e_cpu v)" and "0 \<le> fd" "fd < FD_REMAP_SIZE"
    and "e_group_fd v = - 1 \<or> 0 \<le> e_group_fd v \<and> e_group_fd v < FD_REMAP_SIZE"
    and "tables_ok r" and "has which REPLAY_OPEN"
    and "c = Sys_open (restored (e_attr v) zero_pe)
           (if e_pid v = original_pid r then r_getpid re else e_pid v) (e_cpu v) (remapped r (e_group_fd v)) (e_flags v)"
    and "k = r_answer re (length (calls r)) c" and "0 \<le> k" "k < FD_REMAP_SIZE"
  shows "\<exists>line t. flog (opened e i fd s) = flog s @ [line] \<and> replay_line re which line r = Ret t \<and>
     calls t = calls r @ [c] \<and> remapped t fd = k \<and> (\<forall>j. 0 \<le> j \<and> j \<noteq> fd \<longrightarrow> slot t j = slot r j)"
proof -
  let ?line = "log_open_line fd (e_pid v) (e_cpu v) (e_group_fd v) (e_flags v) (e_attr v)"
  have log: "flog (opened e i fd s) = flog s @ [?line]"
    using assms(1,2) by (simp add: opened_def Let_def log_line_def upd_event_def upd_stats_def success_def)
  have small: "i32 fd = fd" "i32 (e_group_fd v) = e_group_fd v"
    using assms(5-7) by (auto simp: i32_id FD_REMAP_SIZE_def)
  let ?r = "r\<lparr>calls := calls r @ [c]\<rparr>"
  have "tables_ok ?r" using assms(8) by (simp add: tables_ok_def)
  then obtain t where t: "remember_open fd k ?r = Ret t" "calls t = calls ?r"
      "fd_remap (slot t fd) = k" "\<And>j. 0 \<le> j \<Longrightarrow> j \<noteq> fd \<Longrightarrow> slot t j = slot ?r j"
    using remember_open_ok [of ?r fd k] assms(5,6,12,13) by metis
  have "replay_open re ?line r = Ret t"
    using assms(3,4,7,8,10-12) t(1)
    by (auto simp: replay_open_def parse_log_open_line small in_table_ok remapped_def)
  then have "replay_line re which ?line r = Ret (t\<lparr>replayed := replayed t + 1\<rparr>)"
    using assms(9) hd_open_line by (simp add: replay_line_def replay_if_def)
  moreover have "remapped (t\<lparr>replayed := n\<rparr>) fd = k" for n
    using t(3) assms(5) by (simp add: remapped_def)
  ultimately show ?thesis using log t(2,4) by auto
qed

definition ex_renv :: renv where
  "ex_renv = \<lparr>r_answer = (\<lambda>n c. 40), r_getpid = 77, r_stack = (\<lambda>l i. 0)\<rparr>"

lemma replay_start_ok [simp]: "tables_ok replay_start"
  by (simp add: tables_ok_def replay_start_def)

lemma start_simps:
  "calls replay_start = []" "original_pid replay_start = - 1"
  "0 \<le> fd \<Longrightarrow> fd < 2048 \<Longrightarrow> fd_remap (slot replay_start fd) = - 1"
  by (simp_all add: replay_start_def slot_def FD_REMAP_SIZE_def)

theorem replay_repeats_open_witness:
  "\<exists>line t. flog (opened (ex_env\<lparr>e_logging := TYPE_OPEN\<rparr>) 0 9 (ex_state\<lparr>event_data := [ex_event 4]\<rparr>))
       = flog (ex_state\<lparr>event_data := [ex_event 4]\<rparr>) @ [line]
     \<and> replay_line ex_renv REPLAY_ALL line replay_start = Ret t
     \<and> calls t = calls replay_start @ [Sys_open (restored (e_attr (ex_event 4)) zero_pe)
           (e_pid (ex_event 4)) (e_cpu (ex_event 4)) (- 1) (e_flags (ex_event 4))]
     \<and> remapped t 9 = 40 \<and> (\<forall>j. 0 \<le> j \<and> j \<noteq> 9 \<longrightarrow> slot t j = slot replay_start j)"
  by (rule replay_repeats_open [where v = "ex_event 4"])
    (simp_all add: ex_event_def has_def TYPE_OPEN_def REPLAY_OPEN_def REPLAY_ALL_def int32_def
      FD_REMAP_SIZE_def ex_renv_def remapped_def start_simps)

section \<open>Requests\<close>

lemma i32_word: "(word_of_int (i32 req) :: u32) = word_of_int req"
  by (rule bit_word_eqI) (simp add: bit_simps i32_def)

text \<open>What is left behind by a request that is made, succeeds and is logged.\<close>

lemma request_logged:
  assumes "\<not> i_ioctl (e_ignore e)" and "has (e_logging e) TYPE_IOCTL"
    and "request e k i req arg args s = Some (Done result k' s')" and "0 \<le> result"
  shows "\<exists>v\<in>set (event_data s). ioctls s' = ioctls s @ [(e_fd v, word_of_int req, arg)] \<and>
    flog s' = flog s @ [words ([''I'', show_int (e_fd v), show_int req] @ args)]"
proof -
  let ?v = "event_data s ! nat i"
  from assms have i: "index_ok i (event_data s)"
    by (auto simp: request_def skip_or_def split: if_splits)
  then have "?v \<in> set (event_data s)" by (simp add: index_ok_def)
  with assms i show ?thesis
    by (intro bexI [of _ ?v])
      (auto simp: request_def skip_or_def do_ioctl_def log_ioctl_def log_line_def syscall_def Let_def)
qed

text \<open>A line that starts like a logged request is replayed as the call its number asks for.\<close>

lemma line_replayed:
  assumes "tables_ok r" and "has which REPLAY_IOCTL" and "0 \<le> fd" "fd < FD_REMAP_SIZE"
    and "int64 req" and "int64 n" and "at_end rest" and "replay_ioctl_call fd (i32 req) n r = Some c"
  shows "\<exists>t. replay_line re which (words [''I'', show_int fd, show_int req, show_int n] @ rest) r = Ret t \<and>
    calls t = calls r @ [c]"
proof -
  let ?line = "words [''I'', show_int fd, show_int req, show_int n] @ rest"
  have "int32 fd" using assms(3,4) by (simp add: int32_def FD_REMAP_SIZE_def)
  then have "scan_convs [C_d, C_d, C_lld] (drop 1 ?line)
      = map snd [(show_int fd, fd), (show_int req, i32 req), (show_int n, n)]"
    using assms(5-7) by (intro scan_line) auto
  then have args: "args_of re r [C_d, C_d, C_lld] ?line 0 = fd" "args_of re r [C_d, C_d, C_lld] ?line 1 = i32 req"
      "args_of re r [C_d, C_d, C_lld] ?line 2 = n"
    by (simp_all add: args_of_def scanned_def)
  have "index_ok fd (r_event r)" using in_table_ok [OF assms(1)] assms(3,4) by simp
  then obtain t where t: "replay_ioctl re ?line r = Ret t" "calls t = calls r @ [c]"
    using assms(8) by (auto simp: replay_ioctl_def args [simplified] Let_def in_table_def)
  have "replay_line re which ?line r = Ret (t\<lparr>replayed := replayed t + 1\<rparr>)"
    using t(1) assms(2) by (simp add: replay_line_def replay_if_def words_Cons)
  with t(2) show ?thesis by simp
qed

text \<open>
  The call that repeats a request for the replaying process: a descriptor in the argument is
  translated too, and a new period is passed by its address.
\<close>

definition repeated :: "rstate \<Rightarrow> int \<Rightarrow> int \<Rightarrow> int \<Rightarrow> sys_call" where
  "repeated r fd req n =
     (if req = IOC_PERIOD then Sys_ioctl_ptr (fd_remap (slot r fd)) (i32 req) n
      else if req = IOC_SET_OUTPUT then Sys_ioctl (fd_remap (slot r fd)) (i32 req) (remapped r n)
      else Sys_ioctl (fd_remap (slot r fd)) (i32 req) n)"

text \<open>The requests of the kinds 0 to 5.\<close>

definition numbered_requests :: "int list" where
  "numbered_requests = [IOC_ENABLE, IOC_DISABLE, IOC_REFRESH, IOC_RESET, IOC_PERIOD, IOC_SET_OUTPUT]"

lemmas request_numbers = IOC_ENABLE_def IOC_DISABLE_def IOC_REFRESH_def IOC_RESET_def IOC_PERIOD_def
  IOC_SET_OUTPUT_def IOC_ID_def

lemma i32_nonneg: "0 \<le> x \<Longrightarrow> x < 2147483648 \<Longrightarrow> i32 x = x"
  by (rule i32_id) simp_all

lemma i32_id_request: "i32 IOC_ID = - 2146950137"
  by (simp add: i32_def IOC_ID_def signed_take_bit_eq_take_bit_shift take_bit_eq_mod)

lemma repeated_call:
  assumes "req \<in> set numbered_requests" and "tables_ok r"
    and "req = IOC_SET_OUTPUT \<Longrightarrow> n = - 1 \<or> 0 \<le> n \<and> n < FD_REMAP_SIZE"
  shows "replay_ioctl_call fd (i32 req) n r = Some (repeated r fd req n)"
proof -
  have "0 \<le> req \<and> req < 2147483648 \<and> req \<noteq> - 2146950137"
    using assms(1) by (auto simp: numbered_requests_def request_numbers)
  moreover have "i32 IOC_PERIOD = IOC_PERIOD" "i32 IOC_SET_OUTPUT = IOC_SET_OUTPUT"
    by (simp_all add: request_numbers i32_nonneg)
  moreover have "IOC_PERIOD \<noteq> IOC_SET_OUTPUT" by (simp add: request_numbers)
  ultimately show ?thesis
    using assms(3) in_table_ok [OF assms(2), of n]
    by (auto simp: replay_ioctl_call_def repeated_def remapped_def i32_id_request i32_nonneg)
qed

text \<open>The drawn arguments are small.\<close>

definition rand_31 :: "env \<Rightarrow> bool" where
  "rand_31 e \<longleftrightarrow> (\<forall>p. 0 \<le> e_rand e p \<and> e_rand e p < 2 ^ 31)"

lemma drawn_int64:
  assumes "rand_31 e"
  shows "run_gen (rand_ioctl_arg e) s = (n, s1) \<Longrightarrow> int64 n"
    and "run_gen (rand_refresh e) s = (n, s1) \<Longrightarrow> int64 n"
    and "run_gen (rand_period e) s = (n, s1) \<Longrightarrow> int64 n"
proof -
  have r: "0 \<le> e_rand e p" "e_rand e p < 2 ^ 31" for p using assms by (simp_all add: rand_31_def)
  have small: "int64 (e_rand e p)" for p using r [of p] by (simp add: int64_def)
  have mods: "int64 (e_rand e p mod k)" "int64 (- (e_rand e p mod k))" if "0 < k" "k < 1000000" for p k
  proof -
    have "0 \<le> e_rand e p mod k" "e_rand e p mod k < k" using that by simp_all
    with that show "int64 (e_rand e p mod k)" "int64 (- (e_rand e p mod k))"
      by (simp_all add: int64_def)
  qed
  have const: "int64 0" "int64 1" "int64 (- 1)" by (simp_all add: int64_def)
  note gens = roll1_def roll_below_def run_gen_def Let_def PERF_IOC_FLAG_GROUP_def
  show "run_gen (rand_ioctl_arg e) s = (n, s1) \<Longrightarrow> int64 n"
    using small mods const by (auto simp: rand_ioctl_arg_def gens split: if_splits)
  show "run_gen (rand_refresh e) s = (n, s1) \<Longrightarrow> int64 n"
    using small mods const by (auto simp: rand_refresh_def gens split: if_splits)
  show "run_gen (rand_period e) s = (n, s1) \<Longrightarrow> int64 n"
    using small mods const by (auto simp: rand_period_def gens split: if_splits)
qed

lemma drawn_same:
  "run_gen g s = (n, s1) \<Longrightarrow> event_data s1 = event_data s \<and> flog s1 = flog s \<and> ioctls s1 = ioctls s"
  "find_random_active_event e s = (i, s1) \<Longrightarrow> event_data s1 = event_data s \<and> flog s1 = flog s \<and> ioctls s1 = ioctls s"
  by (auto simp: run_gen_def find_random_active_event_def draw_def split: prod.splits if_splits)

text \<open>What a kind of request does and logs, when it is one of the first six.\<close>

definition logged_as :: "env \<Rightarrow> fstate \<Rightarrow> fstate \<Rightarrow> int \<Rightarrow> int \<Rightarrow> int \<Rightarrow> bool" where
  "logged_as e s s' fd req n \<longleftrightarrow>
     ioctls s' = ioctls s @ [(fd, word_of_int req, if req = IOC_PERIOD then e_ptr e ''arg'' else word_of_int n)] \<and>
     flog s' = flog s @ [words [''I'', show_int fd, show_int req, show_int n]]"

lemma request_logged_as:
  assumes "\<not> i_ioctl (e_ignore e)" and "has (e_logging e) TYPE_IOCTL"
    and "request e k i req arg [show_int n] s1 = Some (Done result k' s')" and "0 \<le> result"
    and "arg = (if req = IOC_PERIOD then e_ptr e ''arg'' else word_of_int n)"
    and "event_data s1 = event_data s \<and> flog s1 = flog s \<and> ioctls s1 = ioctls s"
  shows "\<exists>v\<in>set (event_data s). logged_as e s s' (e_fd v) req n"
  using request_logged [OF assms(1-4)] assms(5,6) by (simp add: logged_as_def)

text \<open>The descriptors of the events, which \<open>fds_ok\<close> keeps in the table of the replayer.\<close>

definition fds_ok :: "fstate \<Rightarrow> bool" where
  "fds_ok s \<longleftrightarrow> (\<forall>v\<in>set (event_data s). 0 \<le> e_fd v \<and> e_fd v < FD_REMAP_SIZE)"

definition drawn_arg :: "int \<Rightarrow> int \<Rightarrow> bool" where
  "drawn_arg req n \<longleftrightarrow> int64 n \<and> (req = IOC_SET_OUTPUT \<longrightarrow> n = - 1 \<or> 0 \<le> n \<and> n < FD_REMAP_SIZE)"

lemma drawn_argI: "int64 n \<Longrightarrow> req \<noteq> IOC_SET_OUTPUT \<Longrightarrow> drawn_arg req n"
  by (simp add: drawn_arg_def)

lemma arg_kind_logged:
  assumes "\<not> i_ioctl (e_ignore e)" and "has (e_logging e) TYPE_IOCTL" and "rand_31 e"
    and "request_arg e k i req (rand_ioctl_arg e) s = Some (Done result k' s')" and "0 \<le> result"
    and "req \<noteq> IOC_PERIOD" and "req \<noteq> IOC_SET_OUTPUT"
  shows "\<exists>v\<in>set (event_data s). \<exists>n. drawn_arg req n \<and> logged_as e s s' (e_fd v) req n"
proof -
  obtain n s1 where g: "run_gen (rand_ioctl_arg e) s = (n, s1)" by fastforce
  with assms(4) have "request e k i req (word_of_int n) [show_int n] s1 = Some (Done result k' s')"
    by (simp add: request_arg_def)
  from request_logged_as [OF assms(1,2) this assms(5) _ drawn_same(1) [OF g]] assms(6)
    drawn_argI [OF drawn_int64(1) [OF assms(3) g] assms(7)]
  show ?thesis by auto
qed

lemma refresh_logged:
  assumes "\<not> i_ioctl (e_ignore e)" and "has (e_logging e) TYPE_IOCTL" and "rand_31 e"
    and "ioctl_refresh e i s = Some (Done result k s')" and "0 \<le> result"
  shows "\<exists>v\<in>set (event_data s). \<exists>n. drawn_arg IOC_REFRESH n \<and> logged_as e s s' (e_fd v) IOC_REFRESH n"
proof -
  obtain n s1 where g: "run_gen (rand_refresh e) s = (n, s1)" by fastforce
  note same = drawn_same(1) [OF g]
  let ?v = "event_data s1 ! nat i"
  from assms(1,4) have i: "index_ok i (event_data s1)"
    by (auto simp: ioctl_refresh_def g skip_or_def split: if_splits)
  then have "?v \<in> set (event_data s)" using same by (simp add: index_ok_def)
  moreover have "drawn_arg IOC_REFRESH n"
    using drawn_int64(2) [OF assms(3) g] by (simp add: drawn_arg_def request_numbers)
  moreover have "logged_as e s s' (e_fd ?v) IOC_REFRESH n"
    using assms i same by (auto simp: logged_as_def request_numbers ioctl_refresh_def g skip_or_def do_ioctl_def
        log_ioctl_def log_line_def syscall_def upd_event_def Let_def)
  ultimately show ?thesis by blast
qed

lemma period_logged:
  assumes "\<not> i_ioctl (e_ignore e)" and "has (e_logging e) TYPE_IOCTL" and "rand_31 e"
    and "ioctl_period e i s = Some (Done result k s')" and "0 \<le> result"
  shows "\<exists>v\<in>set (event_data s). \<exists>n. drawn_arg IOC_PERIOD n \<and> logged_as e s s' (e_fd v) IOC_PERIOD n"
proof -
  obtain n s1 where g: "run_gen (rand_period e) s = (n, s1)" by fastforce
  with assms(4) have "request e 4 i IOC_PERIOD (e_ptr e ''arg'') [show_int n] s1 = Some (Done result k s')"
    by (simp add: ioctl_period_def)
  from request_logged_as [OF assms(1,2) this assms(5) _ drawn_same(1) [OF g]]
    drawn_argI [OF drawn_int64(3) [OF assms(3) g], of IOC_PERIOD]
  show ?thesis by (auto simp: request_numbers)
qed

lemma output_logged:
  assumes "\<not> i_ioctl (e_ignore e)" and "has (e_logging e) TYPE_IOCTL" and "fds_ok s"
    and "ioctl_set_output e i s = Some (Done result k s')" and "0 \<le> result"
  shows "\<exists>v\<in>set (event_data s). \<exists>n. drawn_arg IOC_SET_OUTPUT n \<and> logged_as e s s' (e_fd v) IOC_SET_OUTPUT n"
proof -
  obtain j s1 where f: "find_random_active_event e s = (j, s1)" by fastforce
  obtain b s2 where g: "run_gen (roll_below e 10) s1 = (b, s2)" by fastforce
  note same = drawn_same(2) [OF f] drawn_same(1) [OF g]
  let ?n = "if b = 0 then - 1 else e_fd (event_data s1 ! nat j)"
  from assms(4) have j: "index_ok j (event_data s1)"
    and r: "request e 5 i IOC_SET_OUTPUT (word_of_int ?n) [show_int ?n] s2 = Some (Done result k s')"
    by (auto simp: ioctl_set_output_def f g Let_def split: if_splits)
  from j have "event_data s1 ! nat j \<in> set (event_data s)" using same by (simp add: index_ok_def)
  then have n: "?n = - 1 \<or> 0 \<le> ?n \<and> ?n < FD_REMAP_SIZE" using assms(3) by (simp add: fds_ok_def)
  then have "drawn_arg IOC_SET_OUTPUT ?n" by (auto simp: drawn_arg_def int64_def FD_REMAP_SIZE_def)
  moreover have "\<exists>v\<in>set (event_data s). logged_as e s s' (e_fd v) IOC_SET_OUTPUT ?n"
    by (rule request_logged_as [OF assms(1,2) r assms(5)]) (use same in \<open>simp_all add: request_numbers\<close>)
  ultimately show ?thesis by blast
qed

lemma kind_logged:
  assumes "\<not> i_ioctl (e_ignore e)" and "has (e_logging e) TYPE_IOCTL" and "rand_31 e" and "fds_ok s"
    and "type \<in> {0..5}" and "ioctl_kind e type any sampling bp s = Some (Done result k s')" and "0 \<le> result"
  shows "\<exists>v\<in>set (event_data s). \<exists>n. drawn_arg (numbered_requests ! nat type) n \<and>
    logged_as e s s' (e_fd v) (numbered_requests ! nat type) n"
proof -
  note args = arg_kind_logged [OF assms(1-3) _ assms(7)]
  have no: "IOC_ENABLE \<noteq> IOC_PERIOD" "IOC_ENABLE \<noteq> IOC_SET_OUTPUT" "IOC_DISABLE \<noteq> IOC_PERIOD"
    "IOC_DISABLE \<noteq> IOC_SET_OUTPUT" "IOC_RESET \<noteq> IOC_PERIOD" "IOC_RESET \<noteq> IOC_SET_OUTPUT"
    by (simp_all add: request_numbers)
  have "type = 0 \<or> type = 1 \<or> type = 2 \<or> type = 3 \<or> type = 4 \<or> type = 5" using assms(5) by auto
  then show ?thesis
    using assms(6) args [OF _ no(1,2)] args [OF _ no(3,4)] args [OF _ no(5,6)]
      refresh_logged [OF assms(1-3) _ assms(7)] period_logged [OF assms(1-3) _ assms(7)]
      output_logged [OF assms(1,2,4) _ assms(7)]
    by (elim disjE) (simp_all add: ioctl_kind_def numbered_requests_def numeral_eq_Suc)
qed

text \<open>
  C36. The fuzzer and the replayer agree on the requests of the kinds 0 to 5 (enable, disable,
  refresh, reset, period, set output): when such a request succeeds and is logged, replaying
  its line makes the same request on the descriptor that stands for the event, with the same
  drawn number. A new period is passed by its address in both, and a descriptor to redirect
  the output to is translated. The request number is read into an \<open>int\<close> with the same 32 bits.
  The other kinds do not have this property: the line of a filter has a flag in front of its
  argument (\<open>filter_replays_flag\<close>), the kinds 8 to 11 log an uninitialised variable
  (\<open>pause_replays_garbage\<close>), and the last two draw the number of the request as well.
\<close>

theorem replay_repeats_ioctl:
  assumes "\<not> i_ioctl (e_ignore e)" and "has (e_logging e) TYPE_IOCTL" and "rand_31 e" and "fds_ok s"
    and "type \<in> {0..5}" and "ioctl_kind e type any sampling bp s = Some (Done result k s')" and "0 \<le> result"
    and "tables_ok r" and "has which REPLAY_IOCTL"
  shows "\<exists>v\<in>set (event_data s). \<exists>req n line t. req = numbered_requests ! nat type \<and>
     ioctls s' = ioctls s @ [(e_fd v, word_of_int req, if req = IOC_PERIOD then e_ptr e ''arg'' else word_of_int n)] \<and>
     flog s' = flog s @ [line] \<and> replay_line re which line r = Ret t \<and>
     calls t = calls r @ [repeated r (e_fd v) req n] \<and> (word_of_int (i32 req) :: u32) = word_of_int req"
proof -
  let ?req = "numbered_requests ! nat type"
  from kind_logged [OF assms(1-7)] obtain v n where v: "v \<in> set (event_data s)"
    and n: "drawn_arg ?req n" and l: "logged_as e s s' (e_fd v) ?req n" by blast
  have req: "?req \<in> set numbered_requests"
    using assms(5) by (intro nth_mem) (auto simp: numbered_requests_def)
  then have r64: "int64 ?req" by (auto simp: numbered_requests_def request_numbers int64_def)
  have fd: "0 \<le> e_fd v" "e_fd v < FD_REMAP_SIZE" using assms(4) v by (simp_all add: fds_ok_def)
  have "replay_ioctl_call (e_fd v) (i32 ?req) n r = Some (repeated r (e_fd v) ?req n)"
    using n by (intro repeated_call [OF req assms(8)]) (simp add: drawn_arg_def)
  from line_replayed [OF assms(8,9) fd r64 _ at_end_simps(1) this, of re] n
  obtain t where "replay_line re which (words [''I'', show_int (e_fd v), show_int ?req, show_int n]) r = Ret t"
    "calls t = calls r @ [repeated r (e_fd v) ?req n]"
    by (auto simp: drawn_arg_def)
  with v l i32_word show ?thesis unfolding logged_as_def by blast
qed

lemma ex_output:
  "\<exists>result k s'. ioctl_kind (ex_env\<lparr>e_logging := TYPE_IOCTL\<rparr>) 5 0 1 0 ex_state = Some (Done result k s') \<and> 0 \<le> result"
  by (simp add: ioctl_kind_def ioctl_set_output_def find_random_active_event_def draw_def run_gen_def
      roll_below_def request_def skip_or_def do_ioctl_def index_ok_def ex_env_def ex_skip_def ex_state_def
      ex_event_def pick_event_def numeral_eq_Suc Let_def)

theorem replay_repeats_ioctl_witness:
  "\<exists>result k s' v n line t. ioctl_kind (ex_env\<lparr>e_logging := TYPE_IOCTL\<rparr>) 5 0 1 0 ex_state = Some (Done result k s') \<and>
     v \<in> set (event_data ex_state) \<and> ioctls s' = ioctls ex_state @ [(e_fd v, word_of_int IOC_SET_OUTPUT, word_of_int n)] \<and>
     flog s' = flog ex_state @ [line] \<and> replay_line ex_renv REPLAY_ALL line replay_start = Ret t \<and>
     calls t = calls replay_start @ [Sys_ioctl (fd_remap (slot replay_start (e_fd v))) (i32 IOC_SET_OUTPUT)
       (remapped replay_start n)]"
proof -
  let ?e = "ex_env\<lparr>e_logging := TYPE_IOCTL\<rparr>"
  have env: "\<not> i_ioctl (e_ignore ?e)" "has (e_logging ?e) TYPE_IOCTL" "rand_31 ?e" "fds_ok ex_state"
    "has REPLAY_ALL REPLAY_IOCTL"
    by (simp_all add: ex_env_def ex_skip_def has_def TYPE_IOCTL_def rand_31_def fds_ok_def ex_state_def
        ex_event_def FD_REMAP_SIZE_def REPLAY_IOCTL_def REPLAY_ALL_def)
  obtain result k s' where k: "ioctl_kind ?e 5 0 1 0 ex_state = Some (Done result k s')" "0 \<le> result"
    using ex_output by blast
  have "(5::int) \<in> {0..5}" "IOC_SET_OUTPUT \<noteq> IOC_PERIOD" "numbered_requests ! nat 5 = IOC_SET_OUTPUT"
    by (simp_all add: numbered_requests_def request_numbers numeral_eq_Suc)
  with replay_repeats_ioctl [OF env(1-4) _ k replay_start_ok env(5), of ex_renv] k
  show ?thesis by (fastforce simp: repeated_def)
qed

section \<open>Requests that are not repeated\<close>

text \<open>
  The line of a filter has a flag in front of the argument, and the replayer reads the flag:
  the request is made with 0 or 1 where the fuzzer passed the address of a text or a random number.
\<close>

theorem filter_replays_flag:
  assumes "\<not> i_ioctl (e_ignore e)" and "has (e_logging e) TYPE_IOCTL" and "fds_ok s"
    and "ioctl_kind e 6 any sampling bp s = Some (Done result k s')" and "0 \<le> result"
    and "tables_ok r" and "has which REPLAY_IOCTL"
  shows "\<exists>v\<in>set (event_data s). \<exists>arg flag line t.
     ioctls s' = ioctls s @ [(e_fd v, word_of_int IOC_SET_FILTER, arg)] \<and> flog s' = flog s @ [line] \<and>
     replay_line re which line r = Ret t \<and> flag \<in> {0, 1} \<and>
     calls t = calls r @ [Sys_ioctl (fd_remap (slot r (e_fd v))) (i32 IOC_SET_FILTER) flag]"
proof -
  obtain flag s1 where g: "run_gen (roll_below e 2) s = (flag, s1)" by fastforce
  obtain arg s2 where h: "(if flag \<noteq> 0 then run_gen (roll1 e) s1 else (uint (e_ptr e ''filter''), s1)) = (arg, s2)"
    by fastforce
  have flag: "flag = 0 \<or> flag = 1" using g by (auto simp: run_gen_def roll_below_def)
  have same: "event_data s2 = event_data s \<and> flog s2 = flog s \<and> ioctls s2 = ioctls s"
    using drawn_same(1) [OF g] h drawn_same(1) [of "roll1 e" s1] by (auto split: if_splits)
  from assms(4) obtain filter_text p buf where
    q: "request e 6 any IOC_SET_FILTER (word_of_int arg) [show_int flag, show_int (i64 arg), filter_text]
      (s2\<lparr>rpos := p, tp_filter := buf\<rparr>) = Some (Done result k s')"
    by (auto simp: ioctl_kind_def ioctl_set_filter_def g h split: if_splits option.splits prod.splits)
  from request_logged [OF assms(1,2) q assms(5)] same obtain v where v: "v \<in> set (event_data s)"
    "ioctls s' = ioctls s @ [(e_fd v, word_of_int IOC_SET_FILTER, word_of_int arg)]"
    "flog s' = flog s @ [words [''I'', show_int (e_fd v), show_int IOC_SET_FILTER, show_int flag, show_int (i64 arg), filter_text]]"
    by auto
  let ?rest = "'' '' @ words [show_int (i64 arg), filter_text]"
  have line: "words [''I'', show_int (e_fd v), show_int IOC_SET_FILTER, show_int flag, show_int (i64 arg), filter_text]
    = words [''I'', show_int (e_fd v), show_int IOC_SET_FILTER, show_int flag] @ ?rest"
    by (simp add: words_Cons)
  have fd: "0 \<le> e_fd v" "e_fd v < FD_REMAP_SIZE" using assms(3) v(1) by (simp_all add: fds_ok_def)
  have "int64 IOC_SET_FILTER" "int64 flag" "at_end ?rest"
    using flag by (auto simp: int64_def IOC_SET_FILTER_def)
  moreover have "replay_ioctl_call (e_fd v) (i32 IOC_SET_FILTER) flag r
      = Some (Sys_ioctl (fd_remap (slot r (e_fd v))) (i32 IOC_SET_FILTER) flag)"
    by (simp add: replay_ioctl_call_def request_numbers IOC_SET_FILTER_def i32_nonneg i32_id_request [unfolded IOC_ID_def])
  ultimately obtain t where "replay_line re which (words [''I'', show_int (e_fd v), show_int IOC_SET_FILTER, show_int flag] @ ?rest) r = Ret t"
    "calls t = calls r @ [Sys_ioctl (fd_remap (slot r (e_fd v))) (i32 IOC_SET_FILTER) flag]"
    using line_replayed [OF assms(6,7) fd] by blast
  with v line flag show ?thesis by auto
qed

text \<open>The request to pause the output is logged with what an uninitialised variable holds.\<close>

theorem pause_replays_garbage:
  assumes "\<not> i_ioctl (e_ignore e)" and "has (e_logging e) TYPE_IOCTL" and "fds_ok s"
    and "ioctl_kind e 9 any sampling bp s = Some (Done result k s')" and "0 \<le> result"
    and "tables_ok r" and "has which REPLAY_IOCTL" and "\<forall>t. e_garbage e t = g" and "int64 g"
  shows "\<exists>v\<in>set (event_data s). \<exists>arg line t.
     ioctls s' = ioctls s @ [(e_fd v, word_of_int IOC_PAUSE_OUTPUT, word_of_int arg)] \<and> flog s' = flog s @ [line] \<and>
     arg = fst (pause_arg e (rpos s)) \<and> replay_line re which line r = Ret t \<and>
     calls t = calls r @ [Sys_ioctl (fd_remap (slot r (e_fd v))) (i32 IOC_PAUSE_OUTPUT) g]"
proof -
  obtain arg s1 where g: "run_gen (pause_arg e) s = (arg, s1)" by fastforce
  then have arg: "arg = fst (pause_arg e (rpos s))" by (auto simp: run_gen_def split: prod.splits)
  from assms(4,8) have "request e 9 any IOC_PAUSE_OUTPUT (word_of_int arg) [show_int g] s1 = Some (Done result k s')"
    by (simp add: ioctl_kind_def ioctl_garbage_id_def g)
  from request_logged [OF assms(1,2) this assms(5)] drawn_same(1) [OF g] obtain v where v: "v \<in> set (event_data s)"
    "ioctls s' = ioctls s @ [(e_fd v, word_of_int IOC_PAUSE_OUTPUT, word_of_int arg)]"
    "flog s' = flog s @ [words [''I'', show_int (e_fd v), show_int IOC_PAUSE_OUTPUT, show_int g]]"
    by auto
  have fd: "0 \<le> e_fd v" "e_fd v < FD_REMAP_SIZE" using assms(3) v(1) by (simp_all add: fds_ok_def)
  have "int64 IOC_PAUSE_OUTPUT" by (simp add: int64_def IOC_PAUSE_OUTPUT_def)
  moreover have "replay_ioctl_call (e_fd v) (i32 IOC_PAUSE_OUTPUT) g r
      = Some (Sys_ioctl (fd_remap (slot r (e_fd v))) (i32 IOC_PAUSE_OUTPUT) g)"
    by (simp add: replay_ioctl_call_def request_numbers IOC_PAUSE_OUTPUT_def i32_nonneg i32_id_request [unfolded IOC_ID_def])
  ultimately obtain t where "replay_line re which (words [''I'', show_int (e_fd v), show_int IOC_PAUSE_OUTPUT, show_int g]) r = Ret t"
    "calls t = calls r @ [Sys_ioctl (fd_remap (slot r (e_fd v))) (i32 IOC_PAUSE_OUTPUT) g]"
    using line_replayed [OF assms(6,7) fd _ assms(9) at_end_simps(1), of IOC_PAUSE_OUTPUT] by auto
  with v arg show ?thesis by blast
qed

section \<open>Where the replay departs from the log\<close>

lemma has_fold:
  "has (fold (\<lambda>c ty. case m c of Some t \<Rightarrow> ty OR t | None \<Rightarrow> ty) cs ty) f \<longleftrightarrow>
     has ty f \<or> (\<exists>c\<in>set cs. case m c of Some t \<Rightarrow> has t f | None \<Rightarrow> False)"
  by (induction cs arbitrary: ty) (auto simp: has_or split: option.splits)

lemma replay_types_has:
  "has (replay_types arg) f \<longleftrightarrow> (\<exists>c\<in>set arg. case map_of replay_letters c of Some t \<Rightarrow> has t f | None \<Rightarrow> False)"
  unfolding replay_types_def has_fold by (simp add: has_def)

lemma no_affinity: "\<not> has (replay_types arg) REPLAY_AFFINITY"
proof -
  have "\<not> has t REPLAY_AFFINITY" if "map_of replay_letters c = Some t" for c t
    using map_of_SomeD [OF that] by (auto simp: replay_letters_def replay_type_defs has_def)
  then show ?thesis by (auto simp: replay_types_has split: option.splits)
qed

lemma letter_close: "CHR ''C'' \<in> set arg \<Longrightarrow> has (replay_types arg) REPLAY_CLOSE"
  unfolding replay_types_has by (rule bexI [of _ "CHR ''C''"]) (simp_all add: replay_letters_def replay_type_defs has_def)

lemma affinity_words: "\<exists>rest. affinity_line k cs @ newline = ''a '' @ show_int k @ '' '' @ rest"
  by (simp add: affinity_line_def)

text \<open>
  With \<open>-r\<close> the replay of affinities cannot be selected, and the missing \<open>break\<close> behind
  it is taken on the whole line: the line of an affinity closes the descriptor whose number is
  the kind of the affinity.
\<close>

theorem replay_affinity_closes:
  assumes "CHR ''C'' \<in> set arg" and "0 \<le> kind" "kind < 4" and "tables_ok r"
    and "fd_remap (slot r kind) \<noteq> - 1"
  shows "\<exists>t. replay_line re (replay_types arg) (affinity_line kind cpus @ newline) r = Ret t \<and>
     calls t = calls r @ [Sys_close (fd_remap (slot r kind))] \<and> fd_remap (slot t kind) = - 1"
proof -
  let ?line = "affinity_line kind cpus @ newline"
  obtain rest where rest: "?line = ''a '' @ show_int kind @ '' '' @ rest"
    using affinity_words by blast
  have kind: "int32 kind" using assms(2,3) by (simp add: int32_def)
  then have "scan_d (show_int kind @ '' '' @ rest) = Some (kind, '' '' @ rest)"
    using reads_d [OF kind] by (simp add: reads_def)
  then have scan: "scan_convs [C_d] (drop 1 ?line) = [kind]"
    unfolding rest using scan_conv_space [of C_d "show_int kind @ '' '' @ rest"] by simp
  have idx: "index_ok kind (r_event r)"
    using in_table_ok [OF assms(4)] assms(2,3) by (simp add: FD_REMAP_SIZE_def)
  let ?t = "upd_slot kind (\<lambda>x. x\<lparr>fd_remap := - 1\<rparr>) (r\<lparr>calls := calls r @ [Sys_close (fd_remap (slot r kind))]\<rparr>)"
  have "replay_close re ?line r = Ret ?t"
    unfolding replay_close_def scan using assms(5) idx by (simp add: in_table_def)
  moreover have "hd ?line = CHR ''a''" "?line \<noteq> []" unfolding rest by simp_all
  ultimately have "replay_line re (replay_types arg) ?line r = Ret (?t\<lparr>replayed := replayed ?t + 1\<rparr>)"
    using no_affinity letter_close [OF assms(1)]
    by (simp add: replay_line_def replay_if_def del: append_is_Nil_conv)
  moreover have "fd_remap (slot ?t kind) = - 1" using slot_upd [of kind] idx assms(2) by simp
  moreover have "calls ?t = calls r @ [Sys_close (fd_remap (slot r kind))]" by (simp add: upd_slot_def)
  ultimately show ?thesis by simp
qed

definition ex_open :: rstate where
  "ex_open = upd_slot 3 (\<lambda>x. x\<lparr>fd_remap := 40\<rparr>) replay_start"

lemma ex_open_ok: "tables_ok ex_open" "fd_remap (slot ex_open 3) = 40"
  using replay_start_ok slot_upd [of 3 replay_start 3] in_table_ok [OF replay_start_ok, of 3]
  by (simp_all add: ex_open_def tables_ok_def upd_slot_def FD_REMAP_SIZE_def)

theorem replay_affinity_closes_witness:
  "\<exists>t. replay_line ex_renv (replay_types ''OC'') (affinity_line 3 [0, 5] @ newline) ex_open = Ret t \<and>
     calls t = calls ex_open @ [Sys_close (fd_remap (slot ex_open 3))] \<and> fd_remap (slot t 3) = - 1"
  by (rule replay_affinity_closes) (simp_all add: ex_open_ok)

text \<open>
  C38. The replayer does what the fuzzer takes care not to do: when its own \<open>fork\<close> fails, the
  line that ends the child of the log sends a kill to process -1, that is to every process of
  the user, and waits for it.
\<close>

theorem replay_kills_all:
  assumes "has which REPLAY_FORK" and "r_answer re (length (calls r)) Sys_fork = - 1"
  shows "\<exists>t. replay_lines re which 0 0 [''F 1'', ''F 0''] r = Ret t \<and>
     calls t = calls r @ [Sys_fork, Sys_kill (- 1), Sys_waitpid (- 1)]"
proof -
  have "scan_convs [C_d] '' 1'' = [1]" "scan_convs [C_d] '' 0'' = [0]"
    by (simp_all add: scan_d_def scan_dec_def skip_ws_def scan_sign_def is_space_def is_digit_def
        clamp64_def digit_val_def i32_id horner_Cons)
  with assms show ?thesis
    by (simp add: replay_line_def replay_if_def replay_fork_def Let_def)
qed

theorem replay_kills_all_witness:
  "\<exists>t. replay_lines (ex_renv\<lparr>r_answer := \<lambda>n c. - 1\<rparr>) REPLAY_ALL 0 0 [''F 1'', ''F 0''] replay_start = Ret t \<and>
     calls t = calls replay_start @ [Sys_fork, Sys_kill (- 1), Sys_waitpid (- 1)]"
  by (rule replay_kills_all) (simp_all add: has_def REPLAY_ALL_def REPLAY_FORK_def)

end
