(* ===== verification/ReplayInv.thy ===== *)
theory ReplayInv
  imports ReplayTheorems
begin

text \<open>
  The descriptors a replay acts on: in every reachable state each slot of the table is empty or
  holds a descriptor that an open of this process returned, and every call on a descriptor was
  made on such a one, or, where the code does not look, on -1.
\<close>

section \<open>Own descriptors\<close>

fun is_open :: "sys_call \<Rightarrow> bool" where
  "is_open (Sys_open a p c g f) = True"
| "is_open _ = False"

definition own :: "renv \<Rightarrow> sys_call list \<Rightarrow> int \<Rightarrow> bool" where
  "own e cs fd \<longleftrightarrow> 0 \<le> fd \<and> (\<exists>j<length cs. is_open (cs ! j) \<and> r_answer e j (cs ! j) = fd)"

text \<open>A call on a descriptor: closing and mapping look for -1 first, the others do not.\<close>

fun acts_ok :: "renv \<Rightarrow> sys_call list \<Rightarrow> sys_call \<Rightarrow> bool" where
  "acts_ok e cs (Sys_mmap sz fd) = own e cs fd"
| "acts_ok e cs (Sys_close fd) = own e cs fd"
| "acts_ok e cs (Sys_ioctl fd r a) = (fd = - 1 \<or> own e cs fd)"
| "acts_ok e cs (Sys_ioctl_ptr fd r a) = (fd = - 1 \<or> own e cs fd)"
| "acts_ok e cs (Sys_read fd n) = (fd = - 1 \<or> own e cs fd)"
| "acts_ok e cs (Sys_fcntl fd) = (fd = - 1 \<or> own e cs fd)"
| "acts_ok e cs (Sys_open a p c g f) = (g = - 1 \<or> own e cs g)"
| "acts_ok e cs _ = True"

definition calls_ok :: "renv \<Rightarrow> sys_call list \<Rightarrow> bool" where
  "calls_ok e cs \<longleftrightarrow> (\<forall>j<length cs. acts_ok e (take j cs) (cs ! j))"

definition replay_ok :: "renv \<Rightarrow> rstate \<Rightarrow> bool" where
  "replay_ok e s \<longleftrightarrow> calls_ok e (calls s) \<and>
     (\<forall>x\<in>set (r_event s). fd_remap x = - 1 \<or> own e (calls s) (fd_remap x))"

lemma own_snoc [intro]: "own e cs fd \<Longrightarrow> own e (cs @ [c]) fd"
  by (auto simp: own_def nth_append intro: less_SucI)

lemma own_open: "is_open c \<Longrightarrow> 0 \<le> r_answer e (length cs) c \<Longrightarrow> own e (cs @ [c]) (r_answer e (length cs) c)"
  by (auto simp: own_def nth_append intro!: exI [of _ "length cs"])

lemma calls_ok_snoc [simp]: "calls_ok e (cs @ [c]) \<longleftrightarrow> calls_ok e cs \<and> acts_ok e cs c"
  by (auto simp: calls_ok_def nth_append less_Suc_eq)

lemma replay_ok_call:
  "replay_ok e s \<Longrightarrow> acts_ok e (calls s) c \<Longrightarrow> replay_ok e (s\<lparr>calls := calls s @ [c]\<rparr>)"
  by (auto simp: replay_ok_def)

lemma replay_ok_frame:
  "calls t = calls s \<Longrightarrow> r_event t = r_event s \<Longrightarrow> replay_ok e t = replay_ok e s"
  by (simp add: replay_ok_def)

lemma replay_ok_fields [simp]:
  "replay_ok e (s\<lparr>r_error := b\<rparr>) = replay_ok e s" "replay_ok e (s\<lparr>replayed := n\<rparr>) = replay_ok e s"
  "replay_ok e (s\<lparr>child_pid := n\<rparr>) = replay_ok e s" "replay_ok e (s\<lparr>cpu_set := q\<rparr>) = replay_ok e s"
  "replay_ok e (s\<lparr>original_pid := n\<rparr>) = replay_ok e s" "replay_ok e (s\<lparr>line_num := n\<rparr>) = replay_ok e s"
  "replay_ok e (s\<lparr>total_lines := n\<rparr>) = replay_ok e s" "replay_ok e (s\<lparr>fd_overflows := xs\<rparr>) = replay_ok e s"
  "replay_ok e (s\<lparr>fd_throttles := xs\<rparr>) = replay_ok e s"
  by (simp_all add: replay_ok_def)

lemma replay_ok_upd:
  assumes "replay_ok e s" and "\<And>x. fd_remap (f x) = fd_remap x \<or> fd_remap (f x) = - 1 \<or> own e (calls s) (fd_remap (f x))"
  shows "replay_ok e (upd_slot fd f s)"
proof -
  have "fd_remap x = - 1 \<or> own e (calls s) (fd_remap x)" if "x \<in> set ((r_event s)[nat fd := f (r_event s ! nat fd)])" for x
  proof (cases "nat fd < length (r_event s)")
    case True
    then have "r_event s ! nat fd \<in> set (r_event s)" by simp
    moreover from that have "x = f (r_event s ! nat fd) \<or> x \<in> set (r_event s)"
      using set_update_subset_insert by fastforce
    ultimately show ?thesis using assms by (metis replay_ok_def)
  next
    case False
    with that assms(1) show ?thesis by (simp add: replay_ok_def list_update_beyond)
  qed
  with assms(1) show ?thesis by (simp add: replay_ok_def upd_slot_def)
qed

lemma replay_ok_slot:
  assumes "replay_ok e s" and "index_ok fd (r_event s)"
  shows "fd_remap (slot s fd) = - 1 \<or> own e (calls s) (fd_remap (slot s fd))"
  using assms by (simp add: replay_ok_def slot_def index_ok_def)

fun acts_all :: "renv \<Rightarrow> sys_call list \<Rightarrow> sys_call list \<Rightarrow> bool" where
  "acts_all e cs [] = True"
| "acts_all e cs (d # ds) = (acts_ok e cs d \<and> acts_all e (cs @ [d]) ds)"

lemma own_append: "own e cs fd \<Longrightarrow> own e (cs @ ds) fd"
  by (induction ds rule: rev_induct) (auto dest: own_snoc simp flip: append_assoc)

text \<open>Several calls at once, with the table left alone.\<close>

lemma replay_ok_calls:
  assumes "replay_ok e s" and "calls t = calls s @ ds" and "r_event t = r_event s" and "acts_all e (calls s) ds"
  shows "replay_ok e t"
proof -
  have "calls_ok e (cs @ ds)" if "calls_ok e cs" "acts_all e cs ds" for cs
    using that
  proof (induction ds arbitrary: cs)
    case (Cons d ds)
    from Cons.IH [of "cs @ [d]"] Cons.prems show ?case by simp
  qed simp
  with assms show ?thesis by (auto simp: replay_ok_def own_append)
qed

lemma calls_upd [simp]: "calls (upd_slot fd f s) = calls s"
  by (simp add: upd_slot_def)

lemma index_upd [simp]: "index_ok i (r_event (upd_slot fd f s)) = index_ok i (r_event s)"
  by (simp add: upd_slot_def)

lemmas replay_simps = in_table_def Let_def
lemma replay_ok_call':
  "replay_ok e s \<Longrightarrow> cs = calls s \<Longrightarrow> acts_ok e cs c \<Longrightarrow> replay_ok e (s\<lparr>calls := cs @ [c]\<rparr>)"
  by (simp add: replay_ok_call)

lemmas replay_rules = replay_ok_upd replay_ok_call'

lemma live_own:
  "replay_ok e s \<Longrightarrow> index_ok fd (r_event s) \<Longrightarrow> fd_remap (slot s fd) \<noteq> - 1 \<Longrightarrow> own e (calls s) (fd_remap (slot s fd))"
  using replay_ok_slot by blast

section \<open>The lines\<close>

lemma ok_mmap: "replay_ok e s \<Longrightarrow> replay_mmap e line s = Ret t \<Longrightarrow> replay_ok e t"
  by (auto simp: replay_mmap_def replay_simps intro!: replay_rules live_own split: if_splits)

lemma ok_trash: "replay_ok e s \<Longrightarrow> replay_trash e line s = Ret t \<Longrightarrow> replay_ok e t"
  by (auto simp: replay_trash_def replay_simps intro!: replay_rules split: if_splits)

lemma ok_munmap: "replay_ok e s \<Longrightarrow> replay_munmap e line s = Ret t \<Longrightarrow> replay_ok e t"
  by (auto simp: replay_munmap_def replay_simps intro!: replay_rules split: if_splits)

lemma ok_remember:
  "replay_ok e s \<Longrightarrow> own e (calls s) fd \<Longrightarrow> remember_open orig_fd fd s = Ret t \<Longrightarrow> replay_ok e t"
  by (auto simp: remember_open_def replay_simps intro!: replay_rules split: if_splits)

lemma ok_open: "replay_ok e s \<Longrightarrow> replay_open e line s = Ret t \<Longrightarrow> replay_ok e t"
  using replay_ok_slot [of e s]
  by (auto simp: replay_open_def replay_simps intro!: replay_rules own_open elim!: ok_remember [rotated 2]
      split: if_splits option.splits)

lemma ok_close: "replay_ok e s \<Longrightarrow> replay_close e line s = Ret t \<Longrightarrow> replay_ok e t"
  by (auto simp: replay_close_def replay_simps intro!: replay_rules live_own split: if_splits list.splits)

lemma ok_ioctl_call:
  "replay_ok e s \<Longrightarrow> index_ok fd (r_event s) \<Longrightarrow> replay_ioctl_call fd arg arg2 s = Some c \<Longrightarrow> acts_ok e (calls s) c"
  using replay_ok_slot [of e s fd]
  by (auto simp: replay_ioctl_call_def split: if_splits)

lemma ok_ioctl: "replay_ok e s \<Longrightarrow> replay_ioctl e line s = Ret t \<Longrightarrow> replay_ok e t"
  by (auto simp: replay_ioctl_def replay_simps intro!: replay_rules elim: ok_ioctl_call split: if_splits option.splits)

lemma ok_read: "replay_ok e s \<Longrightarrow> replay_read e line s = Ret t \<Longrightarrow> replay_ok e t"
  using replay_ok_slot [of e s]
  by (auto simp: replay_read_def replay_simps intro!: replay_rules split: if_splits)

lemma ok_access: "replay_ok e s \<Longrightarrow> replay_access e line s = Ret t \<Longrightarrow> replay_ok e t"
  by (auto simp: replay_access_def replay_simps intro!: replay_rules elim!: replay_ok_calls split: if_splits)

lemma ok_affinity: "replay_ok e s \<Longrightarrow> replay_affinity e line s = Ret t \<Longrightarrow> replay_ok e t"
  using replay_ok_call [of e "s\<lparr>cpu_set := cs\<rparr>" "Sys_affinity cs" for cs]
  by (auto simp: replay_affinity_def split: if_splits option.splits list.splits)

lemma ok_prctl: "replay_ok e s \<Longrightarrow> replay_prctl e line s = Ret t \<Longrightarrow> replay_ok e t"
  by (auto simp: replay_prctl_def replay_simps intro!: replay_rules)

lemma ok_poll: "replay_ok e s \<Longrightarrow> replay_poll e line s = Ret t \<Longrightarrow> replay_ok e t"
  by (auto simp: replay_poll_def replay_simps intro!: replay_rules split: if_splits prod.splits)

lemma ok_fork: "replay_ok e s \<Longrightarrow> replay_fork e line s = Ret t \<Longrightarrow> replay_ok e t"
  by (auto simp: replay_fork_def replay_simps intro!: replay_rules elim!: replay_ok_calls split: if_splits)

lemma ok_overflow: "replay_ok e s \<Longrightarrow> replay_overflow e line s = Ret t \<Longrightarrow> replay_ok e t"
  using replay_ok_slot [of e s "args_of e s [C_d] line 0"]
  by (auto simp: replay_overflow_def replay_simps own_append elim!: replay_ok_calls split: if_splits)

section \<open>Steps and runs\<close>

lemmas ok_lines = ok_mmap ok_trash ok_munmap ok_open ok_close ok_ioctl ok_read ok_access ok_affinity
  ok_prctl ok_poll ok_fork ok_overflow

lemma then_do_Ret: "then_do m f = Ret x \<longleftrightarrow> (\<exists>y. m = Ret y \<and> f y = Ret x)"
  by (cases m) simp_all

lemma ok_if:
  "replay_if which ty f s = Ret t \<Longrightarrow> replay_ok e s \<Longrightarrow> (\<And>u. f s = Ret u \<Longrightarrow> replay_ok e u) \<Longrightarrow> replay_ok e t"
  by (auto simp: replay_if_def then_do_Ret split: if_splits)

lemma ok_line:
  assumes "replay_ok e s" and "replay_line e which line s = Ret t"
  shows "replay_ok e t"
proof (cases "line \<noteq> [] \<and> hd line = CHR ''a''")
  case True
  with assms(2) obtain u where u: "replay_if which REPLAY_AFFINITY (replay_affinity e line) s = Ret u"
      "\<exists>l. replay_if which REPLAY_CLOSE (replay_close e l) u = Ret t"
    by (auto simp: replay_line_def then_do_Ret)
  from ok_if [OF u(1) assms(1)] have "replay_ok e u" using ok_affinity assms(1) by blast
  with u(2) ok_close show ?thesis by (blast intro: ok_if)
next
  case False
  with assms show ?thesis
    unfolding replay_line_def
    by (auto split: if_splits list.splits elim!: ok_if intro: ok_lines)
qed

lemma ok_handler:
  assumes "replay_ok e s" and "own e (calls s) fd" and "replay_handler e fd s = Ret t"
  shows "replay_ok e t"
proof -
  have own: "own e (calls s @ cs) fd" for cs using own_append [OF assms(2)] .
  have step: "replay_ok e u"
    if "calls u = calls s @ Sys_ioctl fd (i32 IOC_DISABLE) 0 # cs" "r_event u = r_event s"
      "cs \<in> {[], [Sys_close fd], [Sys_ioctl fd (i32 IOC_REFRESH) 1]}" for u cs
    using replay_ok_calls [OF assms(1) that(1,2)] that(3) own assms(2) by auto
  show ?thesis
    using assms(3)
    by (auto simp: replay_handler_def replay_simps intro!: replay_ok_upd intro: step split: if_splits)
qed

inductive replay_reach :: "renv \<Rightarrow> u32 \<Rightarrow> rstate \<Rightarrow> bool" for e which where
  at_start: "replay_reach e which replay_start"
| a_line: "replay_reach e which s \<Longrightarrow> replay_line e which line (s\<lparr>line_num := n\<rparr>) = Ret t \<Longrightarrow> replay_reach e which t"
| a_signal: "replay_reach e which s \<Longrightarrow> own e (calls s) fd \<Longrightarrow> replay_handler e fd s = Ret t \<Longrightarrow> replay_reach e which t"

lemma replay_start_own: "replay_ok e replay_start"
  by (auto simp: replay_ok_def replay_start_def calls_ok_def)

text \<open>
  C39. In every state the replayer reaches, with its lines and the overflow signals in any
  order, a slot is empty or holds a descriptor an open of this process returned, and every call
  made so far was on a descriptor opened before it: it never closes or maps anything else, and
  the only other descriptor it acts on is -1.
\<close>

theorem replay_own_descriptors:
  assumes "replay_reach e which s"
  shows "calls_ok e (calls s) \<and> list_all (\<lambda>x. fd_remap x = - 1 \<or> own e (calls s) (fd_remap x)) (r_event s)"
proof -
  from assms have "replay_ok e s"
  proof induction
    case at_start
    show ?case by (rule replay_start_own)
  next
    case (a_line s line n t)
    then show ?case using ok_line [of e "s\<lparr>line_num := n\<rparr>"] by simp
  next
    case (a_signal s fd t)
    then show ?case by (blast intro: ok_handler)
  qed
  then show ?thesis by (simp add: replay_ok_def list_all_iff)
qed

text \<open>A run that opens an event.\<close>

lemma ex_reach:
  "\<exists>s. replay_reach ex_renv REPLAY_ALL s \<and> calls s = [Sys_open (restored zero_attr zero_pe) 0 0 (- 1) 0]
     \<and> fd_remap (slot s 9) = 40"
proof -
  let ?line = "log_open_line 9 0 0 (- 1) 0 zero_attr"
  let ?r = "replay_start\<lparr>line_num := 1\<rparr>"
  let ?c = "Sys_open (restored zero_attr zero_pe) 0 0 (- 1) 0"
  have "tables_ok (?r\<lparr>calls := [?c]\<rparr>)" using replay_start_ok by (simp add: tables_ok_def)
  then obtain t where t: "remember_open 9 40 (?r\<lparr>calls := [?c]\<rparr>) = Ret t" "calls t = [?c]" "fd_remap (slot t 9) = 40"
    using remember_open_ok [of "?r\<lparr>calls := [?c]\<rparr>" 9 40] by (auto simp: FD_REMAP_SIZE_def)
  have "replay_open ex_renv ?line ?r = Ret t"
    using t(1) by (simp add: replay_open_def parse_log_open_line i32_id ex_renv_def start_simps)
  then have "replay_line ex_renv REPLAY_ALL ?line ?r = Ret (t\<lparr>replayed := replayed t + 1\<rparr>)"
    using hd_open_line by (simp add: replay_line_def replay_if_def has_def REPLAY_ALL_def REPLAY_OPEN_def)
  from a_line [OF at_start this] t(2,3) show ?thesis by fastforce
qed

theorem replay_own_descriptors_witness:
  "\<exists>s. replay_reach ex_renv REPLAY_ALL s \<and> fd_remap (slot s 9) = 40 \<and> calls_ok ex_renv (calls s) \<and>
     list_all (\<lambda>x. fd_remap x = - 1 \<or> own ex_renv (calls s) (fd_remap x)) (r_event s)"
  using ex_reach replay_own_descriptors by blast

end
