(* ===== verification/ActiveEvents.thy ===== *)
theory ActiveEvents
  imports Replay
begin

text \<open>
  fuzzer/active_events.c: which events of a log are open and enabled at its end. Nothing is
  replayed; the tool follows the lines in two tables indexed with the logged descriptors.
\<close>

section \<open>The tables\<close>

definition MAX_EVENTS :: int where "MAX_EVENTS = 8192"

record event_info_t =
  i_opened :: bool
  i_enabled :: bool
  i_mapped :: bool
  i_signal_handler :: bool
  i_pid :: int
  i_cpu :: int
  i_group_fd :: int
  i_flags :: u64
  i_attr :: perf_event_attr

record mmap_info_t =
  mi_valid :: bool
  mi_size :: int

record astate =
  event_info :: "event_info_t list"
  mmap_info :: "mmap_info_t list"
  a_original_pid :: int
  replay_syscalls :: int
  total_syscalls_read :: int

definition upd_info :: "int \<Rightarrow> (event_info_t \<Rightarrow> event_info_t) \<Rightarrow> astate \<Rightarrow> astate" where
  "upd_info fd f s = s\<lparr>event_info := (event_info s)[nat fd := f (event_info s ! nat fd)]\<rparr>"

definition upd_map :: "int \<Rightarrow> (mmap_info_t \<Rightarrow> mmap_info_t) \<Rightarrow> astate \<Rightarrow> astate" where
  "upd_map fd f s = s\<lparr>mmap_info := (mmap_info s)[nat fd := f (mmap_info s ! nat fd)]\<rparr>"

definition in_events :: "int \<Rightarrow> astate \<Rightarrow> astate outcome \<Rightarrow> astate outcome" where
  "in_events fd s r = (if index_ok fd (event_info s) \<and> index_ok fd (mmap_info s) then r else Fault)"

section \<open>The lines\<close>

text \<open>\<open>g\<close> is what uninitialised variables hold.\<close>

definition active_mmap :: "(nat \<Rightarrow> int) \<Rightarrow> string \<Rightarrow> astate \<Rightarrow> astate outcome" where
  "active_mmap g line s =
     (let a = scanned g [C_d, C_d] line; sz = a 0; fd = a 1 in
      in_events fd s
        (if \<not> i_opened (event_info s ! nat fd) then Ret s
         else Ret (upd_map fd (\<lambda>m. m\<lparr>mi_size := sz, mi_valid := True\<rparr>)
                (upd_info fd (\<lambda>v. v\<lparr>i_mapped := True\<rparr>) s))))"

definition active_munmap :: "(nat \<Rightarrow> int) \<Rightarrow> string \<Rightarrow> astate \<Rightarrow> astate outcome" where
  "active_munmap g line s =
     (let fd = scanned g [C_d, C_d] line 0 in
      in_events fd s
        (if \<not> mi_valid (mmap_info s ! nat fd) then Ret s
         else Ret (upd_map fd (\<lambda>m. m\<lparr>mi_valid := False, mi_size := 0\<rparr>) s)))"

text \<open>The bit fields that are copied, by name.\<close>

definition copied_bits :: "string list" where
  "copied_bits = [''disabled'', ''inherit'', ''pinned'', ''exclusive'', ''exclude_user'', ''exclude_kernel'',
     ''exclude_hv'', ''exclude_idle'', ''mmap'', ''comm'', ''freq'', ''inherit_stat'', ''enable_on_exec'',
     ''task'', ''watermark'', ''precise_ip'', ''mmap_data'', ''sample_id_all'', ''exclude_host'',
     ''exclude_guest'', ''exclude_callchain_user'', ''exclude_callchain_kernel'', ''mmap2'']"

definition copy_bits :: "u64 \<Rightarrow> u64 \<Rightarrow> u64" where
  "copy_bits src dst =
     fold (\<lambda>(nm, pos, w) b. if nm \<in> set copied_bits then put_bits pos w (get_bits pos w src) b else b) attr_bits dst"

definition copy_attr :: "perf_event_attr \<Rightarrow> perf_event_attr \<Rightarrow> perf_event_attr" where
  "copy_attr pe a =
     a\<lparr>a_type := a_type pe, a_size := a_size pe, a_config := a_config pe,
       a_sample_period := a_sample_period pe, a_sample_type := a_sample_type pe,
       a_read_format := a_read_format pe, a_wakeup_events := a_wakeup_events pe,
       a_bp_type := a_bp_type pe, a_config1 := a_config1 pe, a_config2 := a_config2 pe,
       a_branch_sample_type := a_branch_sample_type pe, a_sample_regs_user := a_sample_regs_user pe,
       a_sample_stack_user := a_sample_stack_user pe, a_bits := copy_bits (a_bits pe) (a_bits a)\<rparr>"

text \<open>The structure that is parsed into is not initialised; \<open>junk\<close> is what it holds.\<close>

definition active_open :: "perf_event_attr \<Rightarrow> string \<Rightarrow> astate \<Rightarrow> astate outcome" where
  "active_open junk line s =
     (case parse_open_event line junk of None \<Rightarrow> Fault
      | Some (fd, pid, cpu, group_fd, flags, pe) \<Rightarrow>
        if fd < 0 \<or> fd \<ge> MAX_EVENTS then Ret s
        else in_events fd s (Ret (upd_info fd
          (\<lambda>v. v\<lparr>i_pid := pid, i_cpu := cpu, i_group_fd := group_fd, i_flags := flags,
                 i_attr := copy_attr pe (i_attr v), i_opened := True,
                 i_enabled := (get_bits 12 1 (a_bits pe) \<noteq> 0), i_mapped := False,
                 i_signal_handler := False\<rparr>) s)))"

definition active_close :: "(nat \<Rightarrow> int) \<Rightarrow> string \<Rightarrow> astate \<Rightarrow> astate outcome" where
  "active_close g line s =
     (let fd = scanned g [C_d] line 0 in
      in_events fd s
        (if \<not> i_opened (event_info s ! nat fd) then Ret s
         else Ret (upd_info fd (\<lambda>v. v\<lparr>i_opened := False, i_enabled := False, i_mapped := False,
                i_signal_handler := False\<rparr>) s)))"

text \<open>Whether the event is open is not looked at.\<close>

definition active_ioctl :: "(nat \<Rightarrow> int) \<Rightarrow> string \<Rightarrow> astate \<Rightarrow> astate outcome" where
  "active_ioctl g line s =
     (let a = scanned g [C_d, C_d, C_d] line; fd = a 0; req = a 1 in
      if req = i32 IOC_ENABLE then in_events fd s (Ret (upd_info fd (\<lambda>v. v\<lparr>i_enabled := True\<rparr>) s))
      else if req = i32 IOC_DISABLE then in_events fd s (Ret (upd_info fd (\<lambda>v. v\<lparr>i_enabled := False\<rparr>) s))
      else Ret s)"

definition active_prctl :: "string \<Rightarrow> astate \<Rightarrow> astate outcome" where
  "active_prctl line s =
     (let enable = (scanned (\<lambda>_. 0) [C_d] line 0 \<noteq> 0) in
      Ret (s\<lparr>event_info := map (\<lambda>v. if i_opened v then v\<lparr>i_enabled := enable\<rparr> else v) (event_info s)\<rparr>))"

definition active_overflow :: "(nat \<Rightarrow> int) \<Rightarrow> string \<Rightarrow> astate \<Rightarrow> astate outcome" where
  "active_overflow g line s =
     (let fd = scanned g [C_d] line 0 in
      in_events fd s (Ret (upd_info fd (\<lambda>v. v\<lparr>i_signal_handler := True\<rparr>) s)))"

section \<open>The main loop\<close>

definition followed :: "astate outcome \<Rightarrow> astate outcome" where
  "followed r = then_do r (\<lambda>s. Ret (s\<lparr>replay_syscalls := replay_syscalls s + 1\<rparr>))"

text \<open>\<open>REPLAY_ALL\<close> selects everything: there is no option that changes it.\<close>

definition active_line :: "(nat \<Rightarrow> int) \<Rightarrow> perf_event_attr \<Rightarrow> string \<Rightarrow> astate \<Rightarrow> astate outcome" where
  "active_line g junk line s =
     (if line = [] then Ret s
      else if hd line = CHR ''C'' then followed (active_close g line s)
      else if hd line = CHR ''G'' then
        Ret (s\<lparr>a_original_pid := scanned (\<lambda>_. a_original_pid s) [C_d] line 0\<rparr>)
      else if hd line = CHR ''I'' then followed (active_ioctl g line s)
      else if hd line = CHR ''M'' then followed (active_mmap g line s)
      else if hd line = CHR ''O'' then followed (active_open junk line s)
      else if hd line = CHR ''o'' then followed (active_overflow g line s)
      else if hd line = CHR ''P'' then followed (active_prctl line s)
      else if hd line = CHR ''U'' then followed (active_munmap g line s)
      else if hd line = CHR ''q'' then Exit 1
      else if hd line \<in> {CHR ''F'', CHR ''V'', CHR ''p'', CHR ''Q'', CHR ''R''} then followed (Ret s)
      else Ret s)"

fun active_lines :: "(nat \<Rightarrow> nat \<Rightarrow> int) \<Rightarrow> (nat \<Rightarrow> perf_event_attr) \<Rightarrow> nat \<Rightarrow> string list \<Rightarrow> astate \<Rightarrow> astate outcome" where
  "active_lines g junk n [] s = Ret s"
| "active_lines g junk n (l # ls) s =
     then_do (active_line (g n) (junk n) l s)
       (\<lambda>s1. active_lines g junk (Suc n) ls (s1\<lparr>total_syscalls_read := total_syscalls_read s1 + 1\<rparr>))"

definition active_start :: astate where
  "active_start = \<lparr>event_info = replicate (nat MAX_EVENTS) \<lparr>i_opened = False, i_enabled = False, i_mapped = False,
       i_signal_handler = False, i_pid = 0, i_cpu = 0, i_group_fd = 0, i_flags = 0, i_attr = zero_pe\<rparr>,
     mmap_info = replicate (nat MAX_EVENTS) \<lparr>mi_valid = False, mi_size = 0\<rparr>,
     a_original_pid = - 1, replay_syscalls = 0, total_syscalls_read = 0\<rparr>"

section \<open>The report\<close>

definition total_opened :: "astate \<Rightarrow> nat" where
  "total_opened s = length (filter i_opened (event_info s))"

definition total_active :: "astate \<Rightarrow> nat" where
  "total_active s = length (filter i_enabled (event_info s))"

text \<open>The descriptors whose attributes are printed.\<close>

definition listed :: "(event_info_t \<Rightarrow> bool) \<Rightarrow> astate \<Rightarrow> nat list" where
  "listed P s = filter (\<lambda>i. P (event_info s ! i)) [0..<length (event_info s)]"

end
