(* ===== verification/ActiveTheorems.thy ===== *)
theory ActiveTheorems
  imports ActiveEvents ReplayInv
begin

text \<open>
  What active_events reports against what its log says: the tables implement the set of open
  descriptors, and that of the enabled ones as far as a request or a \<open>prctl\<close> decided it; for an
  event nothing has touched since it was opened the report looks at the wrong bit.
\<close>

section \<open>Events of a log, and the lines they are written as\<close>

datatype log_event =
    Log_open int int int int u64 perf_event_attr
  | Log_close int | Log_enable int int | Log_disable int int | Log_prctl bool

fun line_of :: "log_event \<Rightarrow> string" where
  "line_of (Log_open fd pid cpu g flags a) = log_open_line fd pid cpu g flags a"
| "line_of (Log_close fd) = words [''C'', show_int fd]"
| "line_of (Log_enable fd arg) = words [''I'', show_int fd, show_int IOC_ENABLE, show_int arg]"
| "line_of (Log_disable fd arg) = words [''I'', show_int fd, show_int IOC_DISABLE, show_int arg]"
| "line_of (Log_prctl on) = words [''P'', show_int (b2i on)]"

text \<open>
  Descriptors are ones of the table, and a request is for one event: the lowest bit of its
  argument (\<open>PERF_IOC_FLAG_GROUP\<close>), which asks for the whole group, is not set.
\<close>

definition fd_ok :: "int \<Rightarrow> bool" where
  "fd_ok fd \<longleftrightarrow> 0 \<le> fd \<and> fd < MAX_EVENTS"

fun event_ok :: "log_event \<Rightarrow> bool" where
  "event_ok (Log_open fd pid cpu g flags a) = fd_ok fd"
| "event_ok (Log_close fd) = fd_ok fd"
| "event_ok (Log_enable fd arg) = (fd_ok fd \<and> int64 arg \<and> even arg)"
| "event_ok (Log_disable fd arg) = (fd_ok fd \<and> int64 arg \<and> even arg)"
| "event_ok (Log_prctl on) = True"

section \<open>The abstract state\<close>

text \<open>
  The open descriptors, the enabled ones, and those no request has changed since they were
  opened, as perf_event.h has it: an event is enabled from the start unless \<open>disabled\<close> (bit 0)
  is set, and a request changes an open event only. (\<open>enable_on_exec\<close>, bit 12, does nothing
  before the next \<open>exec\<close>.)
\<close>

type_synonym abs_events = "int set \<times> int set \<times> int set"

fun abs_step :: "log_event \<Rightarrow> abs_events \<Rightarrow> abs_events" where
  "abs_step (Log_open fd pid cpu g flags a) (opn, ena, new) =
     (insert fd opn, if bit (a_bits a) 0 then ena - {fd} else insert fd ena, insert fd new)"
| "abs_step (Log_close fd) (opn, ena, new) = (opn - {fd}, ena - {fd}, new - {fd})"
| "abs_step (Log_enable fd arg) (opn, ena, new) =
     (if fd \<in> opn then (opn, insert fd ena, new - {fd}) else (opn, ena, new))"
| "abs_step (Log_disable fd arg) (opn, ena, new) =
     (if fd \<in> opn then (opn, ena - {fd}, new - {fd}) else (opn, ena, new))"
| "abs_step (Log_prctl on) (opn, ena, new) = (opn, if on then opn else {}, {})"

text \<open>A log of the fuzzer: requests are made on open events.\<close>

fun requested :: "log_event \<Rightarrow> int set" where
  "requested (Log_enable fd arg) = {fd}"
| "requested (Log_disable fd arg) = {fd}"
| "requested ev = {}"

fun on_open_events :: "log_event list \<Rightarrow> abs_events \<Rightarrow> bool" where
  "on_open_events [] st \<longleftrightarrow> True"
| "on_open_events (ev # evs) st \<longleftrightarrow> requested ev \<subseteq> fst st \<and> on_open_events evs (abs_step ev st)"

definition fds_of :: "(event_info_t \<Rightarrow> bool) \<Rightarrow> astate \<Rightarrow> int set" where
  "fds_of P s = {fd. fd_ok fd \<and> P (event_info s ! nat fd)}"

definition sized :: "astate \<Rightarrow> bool" where
  "sized s \<longleftrightarrow> length (event_info s) = nat MAX_EVENTS \<and> length (mmap_info s) = nat MAX_EVENTS"

lemma index_sized: "sized s \<Longrightarrow> index_ok fd (event_info s) = fd_ok fd" "sized s \<Longrightarrow> index_ok fd (mmap_info s) = fd_ok fd"
  by (auto simp: sized_def index_ok_def fd_ok_def MAX_EVENTS_def)

lemma fd_ok_int32: "fd_ok fd \<Longrightarrow> int32 fd"
  by (simp add: fd_ok_def int32_def MAX_EVENTS_def)

lemma sized_upd [simp]: "sized (upd_info fd f s) = sized s" "sized (s\<lparr>replay_syscalls := n\<rparr>) = sized s"
  "sized (s\<lparr>total_syscalls_read := n\<rparr>) = sized s"
  by (simp_all add: sized_def upd_info_def)

lemma fds_fields [simp]: "fds_of P (s\<lparr>replay_syscalls := n\<rparr>) = fds_of P s"
  "fds_of P (s\<lparr>total_syscalls_read := n\<rparr>) = fds_of P s"
  by (simp_all add: fds_of_def)

text \<open>The tables stand for an abstract state.\<close>

definition stands_for :: "astate \<Rightarrow> abs_events \<Rightarrow> bool" where
  "stands_for s st \<longleftrightarrow> (case st of (opn, ena, new) \<Rightarrow> sized s \<and> fds_of i_opened s = opn \<and>
     fds_of i_enabled s - new = ena - new \<and> fds_of i_enabled s \<subseteq> opn \<and> ena \<subseteq> opn \<and> new \<subseteq> opn)"

text \<open>An update of one entry puts its descriptor in the set or takes it out.\<close>

lemma fds_upd:
  assumes "sized s" and "fd_ok fd"
  shows "fds_of P (upd_info fd f s) =
     (if P (f (event_info s ! nat fd)) then insert fd (fds_of P s) else fds_of P s - {fd})"
proof -
  have "event_info (upd_info fd f s) ! nat j = (if j = fd then f (event_info s ! nat fd) else event_info s ! nat j)"
    if "fd_ok j" for j
    using that assms by (auto simp: upd_info_def sized_def nth_list_update fd_ok_def nat_eq_iff2)
  then show ?thesis using assms(2) by (auto simp: fds_of_def split: if_splits)
qed

lemma mem_fds: "fd_ok fd \<Longrightarrow> fd \<in> fds_of P s \<longleftrightarrow> P (event_info s ! nat fd)"
  by (simp add: fds_of_def)

section \<open>Each line\<close>

lemma scan_one:
  assumes "fd_ok fd"
  shows "scanned g [C_d] (words [[c], show_int fd]) 0 = fd"
  using scan_line [of "[C_d]" "[(show_int fd, fd)]" _ c "[]"] reads_d [OF fd_ok_int32 [OF assms]]
  by (simp add: scanned_def)

lemma scan_three:
  assumes "fd_ok fd" and "int64 req" and "int64 arg"
  shows "scanned g [C_d, C_d, C_d] (words [''I'', show_int fd, show_int req, show_int arg]) 0 = fd"
    and "scanned g [C_d, C_d, C_d] (words [''I'', show_int fd, show_int req, show_int arg]) 1 = i32 req"
proof -
  have "scan_convs [C_d, C_d, C_d] (drop 1 (words [''I'', show_int fd, show_int req, show_int arg] @ []))
      = map snd [(show_int fd, fd), (show_int req, i32 req), (show_int arg, i32 arg)]"
    using assms fd_ok_int32 by (intro scan_line) auto
  then show "scanned g [C_d, C_d, C_d] (words [''I'', show_int fd, show_int req, show_int arg]) 0 = fd"
    and "scanned g [C_d, C_d, C_d] (words [''I'', show_int fd, show_int req, show_int arg]) 1 = i32 req"
    by (simp_all add: scanned_def)
qed

lemma enable_bit: "get_bits 12 1 b \<noteq> 0 \<longleftrightarrow> bit b 12" for b :: u64
proof -
  have "take_bit 1 (drop_bit 12 b) = of_bool (bit b 12)"
    by (simp add: take_bit_eq_mod bit_iff_odd_drop_bit mod_2_eq_odd)
  then show ?thesis by (simp add: get_bits_def)
qed

lemma restored_bit: "bit (a_bits (restored a pe)) 12 = bit (a_bits a) 12"
  by (simp add: restored_def bit_simps)

definition refines :: "log_event \<Rightarrow> abs_events \<Rightarrow> astate outcome \<Rightarrow> bool" where
  "refines ev st r \<longleftrightarrow> (\<exists>t. r = Ret t \<and> stands_for t (abs_step ev st))"

lemma refines_followed [simp]: "refines ev st r \<Longrightarrow> refines ev st (followed r)"
  by (auto simp: refines_def followed_def stands_for_def)

lemmas line_simps = in_events_def index_sized fds_upd mem_fds Let_def

lemma stands_sized: "stands_for s st \<Longrightarrow> sized s"
  by (auto simp: stands_for_def)

lemma refines_open:
  assumes "stands_for s st" and "fd_ok fd"
  shows "refines (Log_open fd pid cpu grp flags a) st (active_open junk (log_open_line fd pid cpu grp flags a) s)"
proof -
  have "i32 fd = fd" "0 \<le> fd" "fd < MAX_EVENTS" using fd_ok_int32 [OF assms(2)] assms(2) by (simp_all add: fd_ok_def)
  with assms stands_sized [OF assms(1)] show ?thesis
    by (cases st) (auto simp: stands_for_def refines_def active_open_def parse_log_open_line line_simps
        enable_bit [simplified] restored_bit)
qed

lemma refines_close:
  assumes "stands_for s st" and "fd_ok fd"
  shows "refines (Log_close fd) st (active_close g (words [''C'', show_int fd]) s)"
proof (cases "i_opened (event_info s ! nat fd)")
  case True
  with assms stands_sized [OF assms(1)] show ?thesis
    by (cases st) (auto simp: stands_for_def refines_def active_close_def scan_one line_simps)
next
  case False
  with assms(2) have "fd \<notin> fds_of i_opened s" by (simp add: mem_fds)
  with assms stands_sized [OF assms(1)] False show ?thesis
    by (cases st) (auto simp: stands_for_def refines_def active_close_def scan_one in_events_def index_sized Let_def)
qed

lemma ioc_small: "int64 IOC_ENABLE" "int64 IOC_DISABLE" "i32 IOC_ENABLE = 0x2400" "i32 IOC_DISABLE = 0x2401"
  by (simp_all add: int64_def IOC_ENABLE_def IOC_DISABLE_def i32_id)

lemma refines_ioctl:
  assumes "stands_for s st" and "fd_ok fd" and "int64 arg" and "fd \<in> fst st"
  shows "refines (Log_enable fd arg) st (active_ioctl g (line_of (Log_enable fd arg)) s)"
    and "refines (Log_disable fd arg) st (active_ioctl g (line_of (Log_disable fd arg)) s)"
proof -
  note scan = scan_three [OF assms(2) ioc_small(1) assms(3)] scan_three [OF assms(2) ioc_small(2) assms(3)]
  have opn: "i_opened (event_info s ! nat fd)"
    using assms by (cases st) (auto simp: stands_for_def fds_of_def)
  show "refines (Log_enable fd arg) st (active_ioctl g (line_of (Log_enable fd arg)) s)"
    using assms stands_sized [OF assms(1)] scan opn
    by (cases st) (auto simp: stands_for_def refines_def active_ioctl_def ioc_small line_simps)
  show "refines (Log_disable fd arg) st (active_ioctl g (line_of (Log_disable fd arg)) s)"
    using assms stands_sized [OF assms(1)] scan opn
    by (cases st) (auto simp: stands_for_def refines_def active_ioctl_def ioc_small line_simps)
qed

lemma refines_prctl:
  assumes "stands_for s st"
  shows "refines (Log_prctl on) st (active_prctl (words [''P'', show_int (b2i on)]) s)"
proof -
  have "fd_ok (b2i on)" by (simp add: fd_ok_def MAX_EVENTS_def)
  from scan_one [OF this] have scan: "scanned g [C_d] (words [''P'', show_int (b2i on)]) 0 = b2i on" for g .
  let ?t = "s\<lparr>event_info := map (\<lambda>v. if i_opened v then v\<lparr>i_enabled := on\<rparr> else v) (event_info s)\<rparr>"
  have "fd_ok fd \<Longrightarrow> nat fd < length (event_info s)" for fd
    using stands_sized [OF assms] by (auto simp: fd_ok_def sized_def)
  then have "fds_of i_opened ?t = fds_of i_opened s"
    "fds_of i_enabled ?t = (if on then fds_of i_enabled s \<union> fds_of i_opened s else fds_of i_enabled s - fds_of i_opened s)"
    by (auto simp: fds_of_def split: if_splits)
  moreover have "sized ?t" using stands_sized [OF assms] by (simp add: sized_def)
  moreover have "active_prctl (words [''P'', show_int (b2i on)]) s = Ret ?t"
    unfolding active_prctl_def scan Let_def by (simp cong: if_cong)
  ultimately show ?thesis
    using assms by (cases st) (auto simp: refines_def stands_for_def)
qed

lemma refines_line:
  assumes "stands_for s st" and "event_ok ev" and "requested ev \<subseteq> fst st"
  shows "refines ev st (active_line g junk (line_of ev) s)"
proof (cases ev)
  case (Log_open fd pid cpu grp flags a)
  then show ?thesis using refines_open [OF assms(1)] assms(2) hd_open_line by (simp add: active_line_def)
next
  case (Log_close fd)
  then show ?thesis using refines_close [OF assms(1)] assms(2) by (simp add: active_line_def words_Cons)
next
  case (Log_enable fd arg)
  then show ?thesis using refines_ioctl(1) [OF assms(1)] assms(2,3) by (simp add: active_line_def words_Cons)
next
  case (Log_disable fd arg)
  then show ?thesis using refines_ioctl(2) [OF assms(1)] assms(2,3) by (simp add: active_line_def words_Cons)
next
  case (Log_prctl on)
  then show ?thesis using refines_prctl [OF assms(1)] by (simp add: active_line_def words_Cons)
qed

section \<open>A whole log\<close>

lemma active_lines_refine:
  assumes "stands_for s st" and "list_all event_ok evs" and "on_open_events evs st"
  shows "\<exists>t. active_lines g junk n (map line_of evs) s = Ret t \<and> stands_for t (fold abs_step evs st)"
  using assms
proof (induction evs arbitrary: s st n)
  case Nil
  then show ?case by simp
next
  case (Cons ev evs)
  then obtain t where t: "active_line (g n) (junk n) (line_of ev) s = Ret t" "stands_for t (abs_step ev st)"
    using refines_line [of s st ev "g n" "junk n"] by (auto simp: refines_def)
  let ?t = "t\<lparr>total_syscalls_read := total_syscalls_read t + 1\<rparr>"
  have "stands_for ?t (abs_step ev st)" using t(2) by (auto simp: stands_for_def)
  from Cons.IH [OF this, of "Suc n"] Cons.prems(2,3) t(1) show ?case by simp
qed

lemma stands_start: "stands_for active_start ({}, {}, {})"
  by (auto simp: stands_for_def sized_def active_start_def fds_of_def fd_ok_def MAX_EVENTS_def)

lemma fds_image:
  assumes "sized s"
  shows "fds_of P s = int ` {i. i < length (event_info s) \<and> P (event_info s ! i)}"
proof (rule set_eqI)
  fix fd
  have len: "int (length (event_info s)) = MAX_EVENTS"
    using assms by (simp add: sized_def MAX_EVENTS_def)
  show "fd \<in> fds_of P s \<longleftrightarrow> fd \<in> int ` {i. i < length (event_info s) \<and> P (event_info s ! i)}"
  proof
    assume "fd \<in> fds_of P s"
    with len have "fd = int (nat fd)" "nat fd < length (event_info s)" "P (event_info s ! nat fd)"
      by (auto simp: fds_of_def fd_ok_def)
    then show "fd \<in> int ` {i. i < length (event_info s) \<and> P (event_info s ! i)}" by blast
  next
    assume "fd \<in> int ` {i. i < length (event_info s) \<and> P (event_info s ! i)}"
    with len show "fd \<in> fds_of P s" by (auto simp: fds_of_def fd_ok_def)
  qed
qed

lemma total_card:
  assumes "sized s"
  shows "card (fds_of P s) = length (filter P (event_info s))"
  by (simp add: fds_image [OF assms] card_image length_filter_conv_card)

text \<open>
  C40. The report of active_events against the log, for a log of opens, closes, enables,
  disables and \<open>prctl\<close> calls on descriptors of its table, with requests for single events that
  are open. The tool ends normally; the number of open descriptors and their list are exact;
  the list of enabled ones is right for every descriptor that a request or a \<open>prctl\<close> has
  touched since it was opened, so when there is no other, the number is exact as well. (For
  the others see \<open>open_reports_wrong_bit\<close>.)
\<close>

theorem active_report_refines:
  assumes "list_all event_ok evs" and "on_open_events evs ({}, {}, {})"
    and "fold abs_step evs ({}, {}, {}) = (opn, ena, new)"
  shows "\<exists>t. active_lines g junk 0 (map line_of evs) active_start = Ret t \<and>
     total_opened t = card opn \<and> int ` set (listed i_opened t) = opn \<and>
     int ` set (listed i_enabled t) - new = ena - new \<and> (new = {} \<longrightarrow> total_active t = card ena)"
proof -
  obtain t where t: "active_lines g junk 0 (map line_of evs) active_start = Ret t" "stands_for t (opn, ena, new)"
    using active_lines_refine [OF stands_start assms(1,2)] assms(3) by metis
  note sz = stands_sized [OF t(2)]
  have "int ` set (listed P t) = fds_of P t" for P
    unfolding fds_image [OF sz] by (rule arg_cong [where f = "image int"]) (auto simp: listed_def)
  with t total_card [OF sz, symmetric] show ?thesis
    by (intro exI [of _ t]) (auto simp: stands_for_def total_opened_def total_active_def)
qed

definition ex_log :: "log_event list" where
  "ex_log = [Log_open 5 0 0 (- 1) 0 zero_attr, Log_open 6 0 0 (- 1) 0 zero_attr, Log_disable 6 0, Log_enable 5 2,
     Log_open 7 0 0 (- 1) 0 zero_attr, Log_close 7]"

theorem active_report_refines_witness:
  "\<exists>t. active_lines (\<lambda>n i. 0) (\<lambda>n. zero_attr) 0 (map line_of ex_log) active_start = Ret t \<and>
     total_opened t = 2 \<and> int ` set (listed i_opened t) = {5, 6} \<and>
     int ` set (listed i_enabled t) = {5} \<and> total_active t = 1"
proof -
  have "list_all event_ok ex_log" "on_open_events ex_log ({}, {}, {})"
    by (simp_all add: ex_log_def fd_ok_def MAX_EVENTS_def int64_def)
  moreover have "fold abs_step ex_log ({}, {}, {}) = ({5, 6}, {5}, {})"
    by (auto simp: ex_log_def zero_attr_def)
  ultimately show ?thesis using active_report_refines [of ex_log _ _ _ "\<lambda>n i. 0" "\<lambda>n. zero_attr"] by fastforce
qed

text \<open>
  An event that was only opened is reported as enabled when \<open>enable_on_exec\<close> is set, whatever
  \<open>disabled\<close> says; it is enabled when \<open>disabled\<close> is not set.
\<close>

theorem open_reports_wrong_bit:
  assumes "fd_ok fd"
  shows "\<exists>t. active_lines g junk 0 [line_of (Log_open fd pid cpu grp flags a)] active_start = Ret t \<and>
     (i_enabled (event_info t ! nat fd) \<longleftrightarrow> bit (a_bits a) 12) \<and>
     (fd \<in> fst (snd (abs_step (Log_open fd pid cpu grp flags a) ({}, {}, {}))) \<longleftrightarrow> \<not> bit (a_bits a) 0)"
proof -
  have "i32 fd = fd" "0 \<le> fd" "fd < MAX_EVENTS" using fd_ok_int32 [OF assms] assms by (simp_all add: fd_ok_def)
  moreover have "length (event_info active_start) = nat MAX_EVENTS" by (simp add: active_start_def)
  ultimately show ?thesis
    using assms stands_sized [OF stands_start] hd_open_line
    by (simp add: active_line_def followed_def active_open_def parse_log_open_line in_events_def index_sized
        enable_bit [simplified] restored_bit upd_info_def)
qed

text \<open>A request on a descriptor that is not open counts as well.\<close>

theorem enable_unopened_counts:
  assumes "fd_ok fd" and "int64 arg"
  shows "\<exists>t. active_lines g junk 0 [line_of (Log_enable fd arg)] active_start = Ret t \<and>
     i_enabled (event_info t ! nat fd) \<and> \<not> i_opened (event_info t ! nat fd)"
proof -
  have "nat fd < nat MAX_EVENTS" "0 \<le> fd" using assms(1) by (auto simp: fd_ok_def MAX_EVENTS_def)
  then show ?thesis
    using scan_three [OF assms(1) ioc_small(1) assms(2)] stands_sized [OF stands_start] assms(1)
    by (simp add: active_line_def words_Cons followed_def active_ioctl_def ioc_small in_events_def index_sized
        upd_info_def Let_def) (simp add: active_start_def)
qed

end
