(* ===== verification/DataRecord.thy ===== *)
theory DataRecord
  imports ParseRecord
begin

text \<open>
  \<open>parse_perf_record\<close> of perf_data_fuzzer/parse_record.c: the decoder of one record of a
  perf.data file. Its file began as a copy of lib/parse_record.c and decodes the records
  of the kernel by the same statements, so those are the definitions of theory ParseRecord
  with nothing quiet, no values to validate, raw data of no known kind and an empty
  register mask. New are the records that the perf tool writes itself.
\<close>

section \<open>The header\<close>

definition data_record_names :: "(u32 \<times> string) list" where
  "data_record_names =
     [(1, ''PERF_RECORD_MMAP''), (2, ''PERF_RECORD_LOST''), (3, ''PERF_RECORD_COMM''),
      (4, ''PERF_RECORD_EXIT''), (5, ''PERF_RECORD_THROTTLE''), (6, ''PERF_RECORD_UNTHROTTLE''),
      (7, ''PERF_RECORD_FORK''), (8, ''PERF_RECORD_READ''), (10, ''PERF_RECORD_MMAP2''),
      (11, ''PERF_RECORD_AUX''), (12, ''PERF_RECORD_ITRACE_START''),
      (13, ''PERF_RECORD_LOST_SAMPLES''), (14, ''PERF_RECORD_SWITCH''),
      (15, ''PERF_RECORD_SWITCH_CPU_WIDE''), (16, ''PERF_RECORD_NAMESPACES''),
      (17, ''PERF_RECORD_KSYMBOL''), (18, ''PERF_RECORD_BPF_EVENT''),
      (64, ''PERF_RECORD_HEADER_ATTR''), (65, ''PERF_RECORD_HEADER_EVENT_TYPE''),
      (66, ''PERF_RECORD_HEADER_TRACING_DATA''), (67, ''PERF_RECORD_HEADER_BUILD_ID''),
      (68, ''PERF_RECORD_FINISHED_ROUND''), (69, ''PERF_RECORD_ID_INDEX''),
      (70, ''PERF_RECORD_AUXTRACE_INFO''), (71, ''PERF_RECORD_AUXTRACE''),
      (72, ''PERF_RECORD_AUXTRACE_ERROR''), (73, ''PERF_RECORD_THREAD_MAP''),
      (74, ''PERF_RECORD_CPU_MAP''), (75, ''PERF_RECORD_STAT_CONFIG''),
      (76, ''PERF_RECORD_STAT''), (77, ''PERF_RECORD_STAT_ROUND''),
      (78, ''PERF_RECORD_EVENT_UPDATE''), (79, ''PERF_RECORD_TIME_CONV''),
      (80, ''PERF_RECORD_HEADER_FEATURE''), (81, ''PERF_RECORD_COMPRESSED'')]"

text \<open>The function prints a \<open>sample_type\<close> of its own, which is 0.\<close>

definition data_record_name :: "u32 \<Rightarrow> out" where
  "data_record_name t =
     (if t = PERF_RECORD_SAMPLE then Pr ''PERF_RECORD_SAMPLE [%x]'' [0]
      else case map_of data_record_names t of
        Some name \<Rightarrow> Pr name []
      | None \<Rightarrow> Pr ''UNKNOWN %d'' [sint t])"

definition print_data_header :: "u32 \<Rightarrow> u16 \<Rightarrow> u16 \<Rightarrow> out list" where
  "print_data_header t misc sz =
     [data_record_name t, Pr '', MISC=%d ('' [uint misc], cpumode_name misc] @
     misc_flags t misc @ [Pr ''), Size=%d'' [uint sz]]"

section \<open>The record\<close>

definition PERF_RECORD_FINISHED_ROUND :: u32 where "PERF_RECORD_FINISHED_ROUND = 68"
definition PERF_RECORD_TIME_CONV :: u32 where "PERF_RECORD_TIME_CONV = 79"

definition get64_pr :: "string \<Rightarrow> sect" where
  "get64_pr label data off = do {
     v \<leftarrow> get_uint64 data off; Some ([Pr label [sint v]], off + 8) }"

definition parse_finished_round :: sect where
  "parse_finished_round = seqs [get64_pr ''Type: %ld'', get64_pr ''Time: %ld'']"

definition parse_time_conv :: sect where
  "parse_time_conv = seqs
     [get64_pr ''Time shift: %ld'', get64_pr ''Time mult: %ld'', get64_pr ''Time zero: %ld'']"

definition parse_data_body :: "parse_cfg \<Rightarrow> u32 \<Rightarrow> u16 \<Rightarrow> sect" where
  "parse_data_body cfg t sz =
     (if t = PERF_RECORD_LOST then parse_lost False
      else if t = PERF_RECORD_COMM then parse_comm False sz
      else if t = PERF_RECORD_FORK then parse_fork False
      else if t = PERF_RECORD_MMAP then parse_mmap False sz
      else if t = PERF_RECORD_MMAP2 then parse_mmap2 False sz
      else if t = PERF_RECORD_EXIT then parse_exit False
      else if t = PERF_RECORD_THROTTLE \<or> t = PERF_RECORD_UNTHROTTLE then parse_throttle False
      else if t = PERF_RECORD_SAMPLE then parse_sample cfg
      else if t = PERF_RECORD_AUX then parse_aux False
      else if t = PERF_RECORD_ITRACE_START then parse_itrace_start False
      else if t = PERF_RECORD_LOST_SAMPLES then parse_lost_samples False
      else if t = PERF_RECORD_SWITCH then parse_switch False
      else if t = PERF_RECORD_SWITCH_CPU_WIDE then parse_switch_cpu_wide False
      else if t = PERF_RECORD_FINISHED_ROUND then parse_finished_round
      else if t = PERF_RECORD_TIME_CONV then parse_time_conv
      else (\<lambda>data off. Some ([Pr ''Unknown type %d'' [sint t]], uint sz)))"

text \<open>What is printed, and the size that is returned, which is the one of the header.\<close>

definition data_cfg :: "u32 \<Rightarrow> u32 \<Rightarrow> string list \<Rightarrow> parse_cfg" where
  "data_cfg sample_type read_format names =
     \<lparr>c_sample_type = sample_type, c_read_format = read_format, c_reg_mask = 0,
      c_validate = None, c_quiet = False, c_raw_type = 0, c_reg_names = names\<rparr>"

definition parse_perf_record ::
    "string list \<Rightarrow> u8 list \<Rightarrow> u32 \<Rightarrow> u32 \<Rightarrow> (out list \<times> int) option" where
  "parse_perf_record names data sample_type read_format = do {
     t \<leftarrow> get_uint32 data 0;
     misc \<leftarrow> get_uint16 data 4;
     sz \<leftarrow> get_uint16 data 6;
     (os, _) \<leftarrow> parse_data_body (data_cfg sample_type read_format names) t sz data 8;
     Some (print_data_header t misc sz @ os, uint sz) }"

end
