(* ===== verification/PerfData.thy ===== *)
theory PerfData
  imports DataRecord
begin

text \<open>
  perf_data_fuzzer/perf_data_dump.c, the dumper of a perf.data file: the header, the table
  of feature sections with one reader per feature, the attributes and the records; and
  \<open>get_string\<close> of data_read.c. White-space of the printed text is not modelled, and the
  printer of the attributes (perf_attr_print.c) is the event that hands it their bytes.

  Every reader fills a local buffer from the file. What such a buffer held before is
  arbitrary: the environment names its bytes. An access outside a buffer is \<open>None\<close>.
\<close>

section \<open>The file\<close>

record perf_file_section =
  fs_offset :: u64
  fs_size :: u64

record perf_header =
  ph_magic :: "u8 list"
  ph_size :: u64
  ph_attr_size :: u64
  ph_attrs :: perf_file_section
  ph_data :: perf_file_section
  ph_event_types :: perf_file_section
  ph_flags :: u64
  ph_flags1 :: "u64 list"

text \<open>
  The file, the largest offset its file system lets \<open>lseek\<close> go to, the register names of
  the host, and the bytes of the local variables before they are written: \<open>section\<close> of
  \<open>dump_section_offset\<close> and the buffers of the readers, for each round of the loop over
  the flags, and the buffers of \<open>dump_attributes\<close> and \<open>dump_data\<close>.
\<close>

record dump_env =
  d_file :: "u8 list"
  d_max_seek :: int
  d_reg_names :: "string list"
  d_old_section :: "nat \<Rightarrow> nat \<Rightarrow> u8"
  d_old_data :: "nat \<Rightarrow> nat \<Rightarrow> u8"
  d_old_string :: "nat \<Rightarrow> nat \<Rightarrow> nat \<Rightarrow> u8"
  d_old_attr :: "nat \<Rightarrow> u8"
  d_old_record :: "nat \<Rightarrow> u8"

record dump_state =
  ds_header :: perf_header
  ds_big_endian :: bool
  ds_nr_cpus :: u32
  ds_sample_type :: u32
  ds_read_format :: u32
  ds_pos :: int

definition SECTION_BUFFER_SIZE :: nat where "SECTION_BUFFER_SIZE = 4096"
definition MAX_ATTR_SIZE :: nat where "MAX_ATTR_SIZE = 4096"
definition MAX_RECORD_SIZE :: nat where "MAX_RECORD_SIZE = 16384"

definition buffer :: "nat \<Rightarrow> (nat \<Rightarrow> u8) \<Rightarrow> u8 list" where
  "buffer n f = map f [0..<n]"

text \<open>
  \<open>read(fd,buf,n)\<close> at a position: what it returns, the new position and the buffer. A
  negative count becomes a \<open>size_t\<close> above \<open>SSIZE_MAX\<close>, which the kernel refuses.
\<close>

definition read_fd :: "u8 list \<Rightarrow> int \<Rightarrow> int \<Rightarrow> u8 list \<Rightarrow> (int \<times> int \<times> u8 list) option" where
  "read_fd file pos n buf =
     (let bs = take (nat n) (drop (nat pos) file) in
      if n < 0 then Some (- 1, pos, buf)
      else if length bs \<le> length buf
      then Some (int (length bs), pos + int (length bs), bs @ drop (length bs) buf)
      else None)"

text \<open>\<open>lseek(fd,off,SEEK_SET)\<close>: what it returns and the new position.\<close>

definition seek_set :: "dump_env \<Rightarrow> int \<Rightarrow> int \<Rightarrow> int \<times> int" where
  "seek_set e pos off = (if 0 \<le> off \<and> off \<le> d_max_seek e then (off, off) else (- 1, pos))"

section \<open>The header\<close>

definition le64_at :: "u8 list \<Rightarrow> nat \<Rightarrow> u64" where
  "le64_at bs k = bytes_to_word (take 8 (drop k bs))"

definition le32_at :: "u8 list \<Rightarrow> nat \<Rightarrow> u32" where
  "le32_at bs k = bytes_to_word (take 4 (drop k bs))"

definition le16_at :: "u8 list \<Rightarrow> nat \<Rightarrow> u16" where
  "le16_at bs k = bytes_to_word (take 2 (drop k bs))"

definition section_of :: "u8 list \<Rightarrow> nat \<Rightarrow> perf_file_section" where
  "section_of bs k = \<lparr>fs_offset = le64_at bs k, fs_size = le64_at bs (k + 8)\<rparr>"

definition PERF_HEADER_SIZE :: nat where "PERF_HEADER_SIZE = 104"

definition header_of :: "u8 list \<Rightarrow> perf_header" where
  "header_of bs =
     \<lparr>ph_magic = take 8 bs, ph_size = le64_at bs 8, ph_attr_size = le64_at bs 16,
      ph_attrs = section_of bs 24, ph_data = section_of bs 40, ph_event_types = section_of bs 56,
      ph_flags = le64_at bs 72, ph_flags1 = [le64_at bs 80, le64_at bs 88, le64_at bs 96]\<rparr>"

text \<open>The bytes of the structures, as a writer hands them to \<open>write\<close>.\<close>

definition enc_section :: "perf_file_section \<Rightarrow> u8 list" where
  "enc_section sec = le64 (fs_offset sec) @ le64 (fs_size sec)"

definition enc_header :: "perf_header \<Rightarrow> u8 list" where
  "enc_header h =
     ph_magic h @ le64 (ph_size h) @ le64 (ph_attr_size h) @ enc_section (ph_attrs h) @
     enc_section (ph_data h) @ enc_section (ph_event_types h) @ le64 (ph_flags h) @
     concat (map le64 (ph_flags1 h))"

definition ascii :: "string \<Rightarrow> u8 list" where
  "ascii cs = map of_char cs"

abbreviation until_nul :: "u8 list \<Rightarrow> u8 list" where
  "until_nul bs \<equiv> takeWhile (\<lambda>b. b \<noteq> 0) bs"

definition print_header :: "perf_header \<Rightarrow> out list" where
  "print_header h =
     [PrS ''HEADER: valid magic %s'' (until_nul (ph_magic h)), Pr ''version %d'' [2],
      Pr ''header size: %ld'' [sint (ph_size h)],
      Pr ''attribute size: %ld'' [sint (ph_attr_size h)],
      Pr ''attribute_section:'' [],
      Pr ''%ld bytes at offset %ld'' [sint (fs_size (ph_attrs h)), sint (fs_offset (ph_attrs h))],
      Pr ''data_section:'' [],
      Pr ''%ld bytes at offset %ld'' [sint (fs_size (ph_data h)), sint (fs_offset (ph_data h))],
      Pr ''event_types_section:'' [],
      Pr ''%ld bytes at offset %ld''
        [sint (fs_size (ph_event_types h)), sint (fs_offset (ph_event_types h))],
      Pr ''flags: 0x%lx'' [uint (ph_flags h)]]"

text \<open>The loop over the reserved flags: the first one set, if any.\<close>

fun reserved_flag :: "int \<Rightarrow> u64 list \<Rightarrow> out option" where
  "reserved_flag i [] = None"
| "reserved_flag i (w # ws) =
     (if w \<noteq> 0 then Some (Pr ''Unknown flags1[%d]=0x%lx '' [i, uint w]) else reserved_flag (i + 1) ws)"

definition dump_header :: "dump_env \<Rightarrow> dump_state \<Rightarrow> (out list \<times> int \<times> dump_state) option" where
  "dump_header e s = do {
     (result, pos, bs) \<leftarrow> read_fd (d_file e) (ds_pos s) (int PERF_HEADER_SIZE)
       (replicate PERF_HEADER_SIZE 0);
     let h = header_of bs;
         s1 = s\<lparr>ds_header := h, ds_pos := pos\<rparr>;
         magic = ph_magic h;
         version = sint (magic ! 7) - 48
     in if result < int PERF_HEADER_SIZE then Some ([Er ''Could not read header'' []], - 1, s1)
        else if take 7 magic \<noteq> ascii ''PERFILE'' then
          (if take 7 (tl magic) = ascii ''ELIFREP''
           then Some ([Er ''Unsupported endianess!'' []], - 1, s1\<lparr>ds_big_endian := True\<rparr>)
           else Some ([Er ''Unknown magic'' []], - 1, s1))
        else let s2 = s1\<lparr>ds_big_endian := False\<rparr> in
          if version \<noteq> 2
          then Some ([Er ''Unsupported magic version %d'' [version]], - 1, s2)
        else if ph_size h \<noteq> of_nat PERF_HEADER_SIZE
          then Some (take 2 (print_header h) @ [Er ''Unexpected header size %ld!'' [sint (ph_size h)]],
                     - 1, s2)
        else (case reserved_flag 0 (ph_flags1 h) of
            Some m \<Rightarrow> Some (print_header h @ [m], - 1, s2)
          | None \<Rightarrow> Some (print_header h, 0, s2)) }"

section \<open>Pieces of a feature section\<close>

text \<open>
  A piece of a reader: from its string buffers, the data of the section and the offset, it
  yields what it prints, the offset it leaves and the string buffers.
\<close>

type_synonym part = "(nat \<Rightarrow> u8 list) \<Rightarrow> u8 list \<Rightarrow> int \<Rightarrow> (out list \<times> int \<times> (nat \<Rightarrow> u8 list)) option"

definition put :: "out list \<Rightarrow> part" where
  "put os bufs data off = Some (os, off, bufs)"

definition u32_then :: "(u32 \<Rightarrow> part) \<Rightarrow> part" where
  "u32_then f bufs data off = do { v \<leftarrow> get_uint32 data off; f v bufs data (off + 4) }"

definition u64_then :: "(u64 \<Rightarrow> part) \<Rightarrow> part" where
  "u64_then f bufs data off = do { v \<leftarrow> get_uint64 data off; f v bufs data (off + 8) }"

text \<open>\<open>offset+=n\<close> for a \<open>uint32_t n\<close> and an \<open>int offset\<close>.\<close>

definition advance :: "u32 \<Rightarrow> part" where
  "advance n bufs data off = Some ([], i32 (off + uint n), bufs)"

text \<open>
  \<open>get_string\<close>: the length that was read plus 4, and the string buffer, of which only as
  many bytes are written as the string has.
\<close>

definition get_string :: "u8 list \<Rightarrow> int \<Rightarrow> u8 list \<Rightarrow> (u32 \<times> u8 list) option" where
  "get_string data off str = do {
     len \<leftarrow> get_uint32 data off;
     bs \<leftarrow> rd_bytes (unat len) data (off + 4);
     if length bs \<le> length str then Some (4 + len, bs @ drop (length bs) str) else None }"

text \<open>\<open>length=get_string(data,offset,buf); offset+=length;\<close> into the buffer \<open>k\<close>.\<close>

definition string_then :: "nat \<Rightarrow> (u32 \<Rightarrow> part) \<Rightarrow> part" where
  "string_then k f bufs data off = do {
     (n, str) \<leftarrow> get_string data off (bufs k);
     f n (bufs(k := str)) data (i32 (off + uint n)) }"

text \<open>A \<open>%s\<close> of the buffer \<open>k\<close>, which runs on until it finds a NUL.\<close>

definition put_string :: "string \<Rightarrow> nat \<Rightarrow> part" where
  "put_string label k bufs data off = do {
     str \<leftarrow> cstr (bufs k); Some ([PrS label str], off, bufs) }"

fun parts :: "part list \<Rightarrow> part" where
  "parts [] bufs data off = Some ([], off, bufs)"
| "parts (p # ps) bufs data off = do {
     (os, off1, bufs1) \<leftarrow> p bufs data off;
     (os', off2, bufs2) \<leftarrow> parts ps bufs1 data off1;
     Some (os @ os', off2, bufs2) }"

text \<open>
  \<open>for(i=0;i<n;i++)\<close>: every round reads some bytes, so a count that does not fit the
  \<open>int i\<close> leaves the buffer long before \<open>i\<close> overflows.
\<close>

fun rounds :: "nat \<Rightarrow> int \<Rightarrow> (int \<Rightarrow> part) \<Rightarrow> part" where
  "rounds 0 i f bufs data off = Some ([], off, bufs)"
| "rounds (Suc n) i f bufs data off = do {
     (os, off1, bufs1) \<leftarrow> f i bufs data off;
     (os', off2, bufs2) \<leftarrow> rounds n (i + 1) f bufs1 data off1;
     Some (os @ os', off2, bufs2) }"

declare parts.simps [simp del] rounds.simps [simp del]

text \<open>\<open>if (offset>=len) return 0;\<close> in front of the rest of a reader.\<close>

definition unless_past :: "int \<Rightarrow> part \<Rightarrow> part" where
  "unless_past len p bufs data off = (if len \<le> off then Some ([], off, bufs) else p bufs data off)"

end
