(* ===== verification/PerfSections.thy ===== *)
theory PerfSections
  imports PerfData
begin

text \<open>
  The readers of the feature sections, one per \<open>read_section_*\<close> of
  perf_data_fuzzer/perf_data_dump.c, and \<open>dump_section\<close>, which chooses among them.
\<close>

section \<open>Loading a section\<close>

text \<open>
  What every reader begins with: a section larger than its buffer is refused, then its
  bytes are read. The result is what is printed, the value returned and the position.
\<close>

definition load_section ::
    "dump_env \<Rightarrow> nat \<Rightarrow> int \<Rightarrow> int \<Rightarrow> out \<Rightarrow> out \<Rightarrow> (u8 list \<Rightarrow> (out list \<times> 'a) option) \<Rightarrow> 'a \<Rightarrow>
     (out list \<times> int \<times> int \<times> 'a) option" where
  "load_section e which pos len too_big unread body dflt =
     (if int SECTION_BUFFER_SIZE < len then Some ([too_big], - 1, pos, dflt)
      else do {
        (result, pos', data) \<leftarrow> read_fd (d_file e) pos len (buffer SECTION_BUFFER_SIZE (d_old_data e which));
        if result \<noteq> len then Some ([unread], - 1, pos', dflt)
        else do { (os, v) \<leftarrow> body data; Some (os, 0, pos', v) } })"

definition run_part :: "dump_env \<Rightarrow> nat \<Rightarrow> part \<Rightarrow> u8 list \<Rightarrow> (out list \<times> unit) option" where
  "run_part e which p data =
     map_option (\<lambda>(os, _, _). (os, ()))
       (p (\<lambda>k. buffer SECTION_BUFFER_SIZE (d_old_string e which k)) data 0)"

definition load_part ::
    "dump_env \<Rightarrow> nat \<Rightarrow> int \<Rightarrow> int \<Rightarrow> out \<Rightarrow> out \<Rightarrow> part \<Rightarrow> (out list \<times> int \<times> int) option" where
  "load_part e which pos len too_big unread p =
     map_option (\<lambda>(os, ret, pos', _). (os, ret, pos'))
       (load_section e which pos len too_big unread (run_part e which p) ())"

section \<open>The readers\<close>

text \<open>The structure laid over the buffer: 36 bytes, then the name.\<close>

definition build_id_body :: "u8 list \<Rightarrow> (out list \<times> unit) option" where
  "build_id_body data = do {
     name \<leftarrow> cstr (drop 36 data);
     Some ([Pr ''Type: %d, Misc %hd, Size: %hd''
              [sint (le32_at data 0), sint (le16_at data 4), sint (le16_at data 6)],
            Pr ''Pid: %d'' [sint (le32_at data 8)], Pr ''Build Id: '' []] @
           map (\<lambda>i. Pr ''%02x'' [uint (data ! (12 + i))]) [0..<24] @
           [PrS ''Filename: %s'' name], ()) }"

definition read_section_build_id ::
    "dump_env \<Rightarrow> nat \<Rightarrow> int \<Rightarrow> int \<Rightarrow> (out list \<times> int \<times> int) option" where
  "read_section_build_id e which pos len =
     map_option (\<lambda>(os, ret, pos', _). (os, ret, pos'))
       (load_section e which pos len (Er ''build_id too big...'' [])
         (Er ''Couldn't read build_id header!'' []) build_id_body ())"

text \<open>The number of available processors is kept for the topology.\<close>

definition nrcpus_body :: "u8 list \<Rightarrow> (out list \<times> u32 option) option" where
  "nrcpus_body data = do {
     available \<leftarrow> get_uint32 data 0;
     online \<leftarrow> get_uint32 data 4;
     Some ([Pr ''CPUs available: %d, CPUs online: %d'' [sint available, sint online]],
           Some available) }"

definition read_section_nrcpus ::
    "dump_env \<Rightarrow> nat \<Rightarrow> int \<Rightarrow> int \<Rightarrow> (out list \<times> int \<times> int \<times> u32 option) option" where
  "read_section_nrcpus e which pos len =
     load_section e which pos len (Er ''ncrpus too big...'' [])
       (Er ''Couldn't read cpus header!'' []) nrcpus_body None"

definition string_part :: "string \<Rightarrow> part" where
  "string_part name = string_then 0 (\<lambda>length. parts
     [put [Pr ''Length: %d'' [i32 (uint length) - 4]], put_string (name @ '': %s'') 0])"

definition read_section_string ::
    "dump_env \<Rightarrow> nat \<Rightarrow> int \<Rightarrow> int \<Rightarrow> string \<Rightarrow> (out list \<times> int \<times> int) option" where
  "read_section_string e which pos len name =
     load_part e which pos len (Er ''String length too big!'' [])
       (Er (''Couldn't read '' @ name @ '' header!'') []) (string_part name)"

text \<open>One string of a list, with its number.\<close>

definition numbered_string :: "int \<Rightarrow> part" where
  "numbered_string i = string_then 0 (\<lambda>_. parts [put [Pr ''%d: '' [i]], put_string ''%s'' 0])"

definition string_list_part :: part where
  "string_list_part = u32_then (\<lambda>number. parts
     [put [Pr ''Contains %d strings'' [sint number]],
      rounds (unat number) 0 numbered_string])"

definition read_section_string_list ::
    "dump_env \<Rightarrow> nat \<Rightarrow> int \<Rightarrow> int \<Rightarrow> string \<Rightarrow> (out list \<times> int \<times> int) option" where
  "read_section_string_list e which pos len name =
     load_part e which pos len (Er ''String list %d size too big!'' [len])
       (Er (''Couldn't read '' @ name @ '' header!'') []) string_list_part"

definition u64_part :: "string \<Rightarrow> part" where
  "u64_part name = u64_then (\<lambda>value. put [Pr (name @ '': %ld'') [sint value]])"

definition read_section_u64 ::
    "dump_env \<Rightarrow> nat \<Rightarrow> int \<Rightarrow> int \<Rightarrow> string \<Rightarrow> (out list \<times> int \<times> int) option" where
  "read_section_u64 e which pos len name =
     (if len \<noteq> 8 then Some ([Er ''U64 size wrong!'' []], - 1, pos)
      else load_part e which pos len (Er ''U64 size wrong!'' [])
        (Er (''Couldn't read '' @ name @ '' header!'') []) (u64_part name))"

definition event_part :: "u32 \<Rightarrow> int \<Rightarrow> part" where
  "event_part attr_size i = parts
     [put [Pr ''Event data: TODO'' []], advance attr_size,
      u32_then (\<lambda>nr_ids. parts
        [put [Pr ''Event %d, Ids %d'' [i, sint nr_ids]],
         string_then 0 (\<lambda>_. parts
           [put_string ''Name: %s'' 0, put [Pr ''Ids: '' []],
            rounds (unat nr_ids) 0 (\<lambda>j. u64_then (\<lambda>id. put [Pr ''%lx '' [uint id]]))])])]"

definition event_desc_part :: part where
  "event_desc_part = u32_then (\<lambda>nr. u32_then (\<lambda>attr_size. parts
     [put [Pr ''Number of events: %d, each size %d bytes'' [sint nr, sint attr_size]],
      rounds (unat nr) 0 (event_part attr_size)]))"

definition read_section_event_desc ::
    "dump_env \<Rightarrow> nat \<Rightarrow> int \<Rightarrow> int \<Rightarrow> (out list \<times> int \<times> int) option" where
  "read_section_event_desc e which pos len =
     load_part e which pos len (Er ''event desc size too big...'' [])
       (Er ''Couldn't read event_desc header!'' []) event_desc_part"

text \<open>A list of strings of the topology; its count is an \<open>int\<close> here.\<close>

definition topology_list :: "string \<Rightarrow> part" where
  "topology_list label = u32_then (\<lambda>nr. parts
     [put [Pr label [sint nr]], rounds (nat (sint nr)) 0 numbered_string])"

definition cpu_topology_part :: "u32 \<Rightarrow> int \<Rightarrow> part" where
  "cpu_topology_part nr_cpus_avail len = parts
     [topology_list ''Cores: %d'', topology_list ''Threads: %d'',
      unless_past len (parts
        [rounds (unat nr_cpus_avail) 0 (\<lambda>i. u32_then (\<lambda>core_id. u32_then (\<lambda>socket_id.
           put [Pr ''%d: core_id=%d, socket_id=%d'' [i, sint core_id, sint socket_id]]))),
         unless_past len (parts
           [topology_list ''Dies: %d'',
            rounds (unat nr_cpus_avail) 0 (\<lambda>i. u32_then (\<lambda>die_id.
              put [Pr ''%d: die_id=%d'' [i, sint die_id]]))])])]"

definition read_section_cpu_topology ::
    "dump_env \<Rightarrow> u32 \<Rightarrow> nat \<Rightarrow> int \<Rightarrow> int \<Rightarrow> (out list \<times> int \<times> int) option" where
  "read_section_cpu_topology e nr_cpus_avail which pos len =
     load_part e which pos len (Er ''CPU topo Size too big...'' [])
       (Er ''Couldn't read cpu_topo header!'' []) (cpu_topology_part nr_cpus_avail len)"

definition numa_node_part :: "int \<Rightarrow> part" where
  "numa_node_part i = u32_then (\<lambda>nodenr. u64_then (\<lambda>mem_total. u64_then (\<lambda>mem_free.
     string_then 0 (\<lambda>_. parts
       [put [Pr ''Node %d: '' [i]], put_string ''%s'' 0,
        put [Pr ''#%d, RAM total %ld, Ram Free %ld''
               [sint nodenr, sint mem_total, sint mem_free]]]))))"

definition numa_topology_part :: part where
  "numa_topology_part = u32_then (\<lambda>nodes. parts
     [put [Pr ''Nodes: %d'' [sint nodes]], rounds (unat nodes) 0 numa_node_part])"

definition read_section_numa_topology ::
    "dump_env \<Rightarrow> nat \<Rightarrow> int \<Rightarrow> int \<Rightarrow> (out list \<times> int \<times> int) option" where
  "read_section_numa_topology e which pos len =
     load_part e which pos len (Er ''NUMA topo Size too big...'' [])
       (Er ''Couldn't read cpu_numa header!'' []) numa_topology_part"

definition pmu_part :: "int \<Rightarrow> part" where
  "pmu_part i = u32_then (\<lambda>type. string_then 0 (\<lambda>_. parts
     [put [Pr ''PMU %d: Type=%d, '' [i, sint type]], put_string ''%s'' 0]))"

definition pmu_mappings_part :: part where
  "pmu_mappings_part = u32_then (\<lambda>nr. parts
     [put [Pr ''PMUs: %d'' [sint nr]], rounds (unat nr) 0 pmu_part])"

definition read_section_pmu_mappings ::
    "dump_env \<Rightarrow> nat \<Rightarrow> int \<Rightarrow> int \<Rightarrow> (out list \<times> int \<times> int) option" where
  "read_section_pmu_mappings e which pos len =
     load_part e which pos len (Er ''PMU Size too big...'' [])
       (Er ''Couldn't read pmu_mapping header!'' []) pmu_mappings_part"

definition cache_level_part :: "int \<Rightarrow> part" where
  "cache_level_part i = u32_then (\<lambda>level. u32_then (\<lambda>line_size. u32_then (\<lambda>sets. u32_then (\<lambda>ways.
     string_then 0 (\<lambda>_. string_then 1 (\<lambda>_. string_then 2 (\<lambda>_. parts
       [put [Pr ''Cache %d: '' [i]], put_string ''Type=%s'' 0, put_string ''Size=%s'' 1,
        put_string ''Map=%s'' 2,
        put [Pr ''Level %d, Line_Size: %d, Sets: %d, Ways: %d''
               [sint level, sint line_size, sint sets, sint ways]]])))))))"

definition cache_part :: part where
  "cache_part = u32_then (\<lambda>version. u32_then (\<lambda>levels. parts
     [put [Pr ''Cache Header Version: %d, Levels: %d'' [sint version, sint levels]],
      rounds (unat levels) 0 cache_level_part]))"

definition read_section_cache ::
    "dump_env \<Rightarrow> nat \<Rightarrow> int \<Rightarrow> int \<Rightarrow> (out list \<times> int \<times> int) option" where
  "read_section_cache e which pos len =
     load_part e which pos len (Er ''Cache Size too big...'' [])
       (Er ''Couldn't read cache header!'' []) cache_part"

definition sample_time_part :: part where
  "sample_time_part = u64_then (\<lambda>begin_time. u64_then (\<lambda>end_time. put
     [Pr ''Sample Time:'' [],
      Pr ''Begin: %lu (%lx)'' [uint begin_time, uint begin_time],
      Pr ''End  : %lu (%lx)'' [uint end_time, uint end_time]]))"

definition read_section_sample_time ::
    "dump_env \<Rightarrow> nat \<Rightarrow> int \<Rightarrow> int \<Rightarrow> (out list \<times> int \<times> int) option" where
  "read_section_sample_time e which pos len =
     load_part e which pos len (Er ''Sample Time too big...'' [])
       (Er ''Couldn't read sample time header!'' []) sample_time_part"

definition bitmap_out :: "u64 \<Rightarrow> out list" where
  "bitmap_out w = Pr ''%lx: '' [uint w] #
     map (\<lambda>k. Pr ''%d '' [int k]) (filter (\<lambda>k. bit w k) [0..<64])"

definition memory_node_part :: "int \<Rightarrow> part" where
  "memory_node_part i = u64_then (\<lambda>node_id. u64_then (\<lambda>sz. u64_then (\<lambda>bitmap_size. parts
     [put [Pr ''%d: Node=%ld Size=%ld'' [i, sint node_id, sint sz],
           Pr ''Bitmap size: %ld'' [sint bitmap_size]],
      rounds (unat (bitmap_size div 64 + 1)) 0 (\<lambda>j. u64_then (\<lambda>w. put (bitmap_out w)))])))"

definition sample_topology_part :: part where
  "sample_topology_part = u64_then (\<lambda>version. u64_then (\<lambda>block_size. u64_then (\<lambda>count. parts
     [put [Pr ''Sample Topology:'' [], Pr ''Version: %lu'' [uint version],
           Pr ''Block size: %lu (0x%lx)'' [uint block_size, uint block_size],
           Pr ''%ld Nodes:'' [sint count]],
      rounds (unat count) 0 memory_node_part])))"

definition read_section_sample_topology ::
    "dump_env \<Rightarrow> nat \<Rightarrow> int \<Rightarrow> int \<Rightarrow> (out list \<times> int \<times> int) option" where
  "read_section_sample_topology e which pos len =
     load_part e which pos len (Er ''Sample topology too big...'' [])
       (Er ''Couldn't read sample topology header!'' []) sample_topology_part"

end
