(* ===== verification/PerfDump.thy ===== *)
theory PerfDump
  imports PerfSections
begin

text \<open>
  The rest of perf_data_fuzzer/perf_data_dump.c: \<open>dump_section\<close> and the loop over the
  feature flags, the attributes, the loop over the records, and \<open>main\<close>.
\<close>

section \<open>One feature section\<close>

definition section_names :: "string list" where
  "section_names =
     [''HEADER_RESERVED'', ''HEADER_TRACING_DATA'', ''HEADER_BUILD_ID'', ''HEADER_HOSTNAME'',
      ''HEADER_OSRELEASE'', ''HEADER_VERSION'', ''HEADER_ARCH'', ''HEADER_NRCPUS'',
      ''HEADER_CPUDESC'', ''HEADER_CPUID'', ''HEADER_TOTAL_MEM'', ''HEADER_CMDLINE'',
      ''HEADER_EVENT_DESC'', ''HEADER_CPU_TOPOLOGY'', ''HEADER_NUMA_TOPOLOGY'',
      ''HEADER_BRANCH_STACK'', ''HEADER_PMU_MAPPINGS'', ''HEADER_GROUP_DESC'',
      ''HEADER_AUXTRACE'', ''HEADER_STAT'', ''HEADER_CACHE'', ''HEADER_SAMPLE_TIME'',
      ''HEADER_SAMPLE_TOPOLOGY'', ''HEADER_CLOCKID'', ''HEADER_DIR_FORMAT'',
      ''HEADER_BPF_PROG_INFO'', ''HEADER_BPF_BTF'', ''HEADER_COMPRESSED'']"

text \<open>The array has 256 entries; the others are \<open>NULL\<close>, which \<open>printf\<close> shows as \<open>(null)\<close>.\<close>

definition section_title :: "nat \<Rightarrow> out list" where
  "section_title which =
     [Pr ''Flag section %d'' [int which],
      Pr (if which < length section_names then section_names ! which else ''(null)'') []]"

text \<open>The switch: what is printed, the result, the position and a new number of processors.\<close>

definition keep_cpus :: "(out list \<times> int \<times> int) option \<Rightarrow> (out list \<times> int \<times> int \<times> u32 option) option" where
  "keep_cpus r = map_option (\<lambda>(os, ret, pos). (os, ret, pos, None)) r"

definition read_section ::
    "dump_env \<Rightarrow> u32 \<Rightarrow> nat \<Rightarrow> int \<Rightarrow> int \<Rightarrow> (out list \<times> int \<times> int \<times> u32 option) option" where
  "read_section e nr_cpus_avail which pos len =
     (if which = 2 then keep_cpus (read_section_build_id e which pos len)
      else if which = 3 then keep_cpus (read_section_string e which pos len ''hostname'')
      else if which = 4 then keep_cpus (read_section_string e which pos len ''OS release'')
      else if which = 5 then keep_cpus (read_section_string e which pos len ''Version'')
      else if which = 6 then keep_cpus (read_section_string e which pos len ''Arch'')
      else if which = 7 then read_section_nrcpus e which pos len
      else if which = 8 then keep_cpus (read_section_string e which pos len ''CPU Description'')
      else if which = 9 then keep_cpus (read_section_string e which pos len ''CPU ID'')
      else if which = 10 then keep_cpus (read_section_u64 e which pos len ''Total memory (kB)'')
      else if which = 11 then keep_cpus (read_section_string_list e which pos len ''Cmdline'')
      else if which = 12 then keep_cpus (read_section_event_desc e which pos len)
      else if which = 13 then keep_cpus (read_section_cpu_topology e nr_cpus_avail which pos len)
      else if which = 14 then keep_cpus (read_section_numa_topology e which pos len)
      else if which = 16 then keep_cpus (read_section_pmu_mappings e which pos len)
      else if which = 20 then keep_cpus (read_section_cache e which pos len)
      else if which = 21 then keep_cpus (read_section_sample_time e which pos len)
      else if which = 22 then keep_cpus (read_section_sample_topology e which pos len)
      else Some ([Er ''Invalid section!'' []], - 1, pos, None))"

definition dump_section ::
    "dump_env \<Rightarrow> nat \<Rightarrow> int \<Rightarrow> int \<Rightarrow> dump_state \<Rightarrow> (out list \<times> int \<times> dump_state) option" where
  "dump_section e which offset len s =
     (let old_offset = ds_pos s;
          pos = snd (seek_set e (ds_pos s) offset)
      in do {
        (os, result, pos', cpus) \<leftarrow> read_section e (ds_nr_cpus s) which pos len;
        let s1 = (case cpus of None \<Rightarrow> s | Some n \<Rightarrow> s\<lparr>ds_nr_cpus := n\<rparr>)
        in if result < 0 then Some (section_title which @ os, result, s1\<lparr>ds_pos := pos'\<rparr>)
           else Some (section_title which @ os, 0, s1\<lparr>ds_pos := old_offset\<rparr>) })"

section \<open>The table of sections\<close>

text \<open>
  The entry of the table at the position: what is printed, the offset, the size as the
  \<open>int\<close> it is stored in, and the state. A short read leaves old bytes in the entry; a read
  of 16 bytes into a variable does not fail.
\<close>

definition dump_section_offset ::
    "dump_env \<Rightarrow> nat \<Rightarrow> dump_state \<Rightarrow> (out list \<times> int \<times> int \<times> dump_state) option" where
  "dump_section_offset e i s = do {
     (result, pos, bs) \<leftarrow> read_fd (d_file e) (ds_pos s) 16 (buffer 16 (d_old_section e i));
     let sec = section_of bs 0
     in Some ([Pr ''%ld bytes at offset 0x%lx'' [sint (fs_size sec), uint (fs_offset sec)]],
              sint (fs_offset sec), i32 (uint (fs_size sec)), s\<lparr>ds_pos := pos\<rparr>) }"

fun flag_loop ::
    "dump_env \<Rightarrow> nat list \<Rightarrow> int \<Rightarrow> dump_state \<Rightarrow> (out list \<times> int \<times> dump_state) option" where
  "flag_loop e [] result s = Some ([], result, s)"
| "flag_loop e (i # is) result s =
     (if bit (ph_flags (ds_header s)) i then do {
        (os1, offset, len, s1) \<leftarrow> dump_section_offset e i s;
        if offset = - 1 then Some (os1, - 1, s1)
        else do {
          (os2, r, s2) \<leftarrow> dump_section e i offset len s1;
          if r < 0 then Some (os1 @ os2, r, s2)
          else do {
            (os3, r', s3) \<leftarrow> flag_loop e is r s2;
            Some (os1 @ os2 @ os3, r', s3) } } }
      else flag_loop e is result s)"

text \<open>The result of \<open>lseek\<close> is stored in an \<open>int\<close> before it is tested.\<close>

definition dump_flag_sections :: "dump_env \<Rightarrow> dump_state \<Rightarrow> (out list \<times> int \<times> dump_state) option" where
  "dump_flag_sections e s =
     (let d = ph_data (ds_header s);
          (r, pos) = seek_set e (ds_pos s) (sint (fs_offset d + fs_size d));
          result = i32 r;
          s1 = s\<lparr>ds_pos := pos\<rparr>
      in if result < 0
         then Some ([Pr ''FLAGS sections:'' [], Er ''Trouble seeking!'' []], - 1, s1)
         else map_option (\<lambda>(os, ret, s2). (Pr ''FLAGS sections:'' [] # os, ret, s2))
                (flag_loop e [0..<64] result s1))"

section \<open>The attributes\<close>

text \<open>
  Only the first attribute is shown: \<open>perf_pretty_print_attr\<close> gets the bytes that were read.
  Its \<open>sample_type\<close> is at byte 24, its \<open>read_format\<close> at byte 32; both become an \<open>int\<close>. The
  printer is shown by the structure it is given.
\<close>

definition ATTR_STRUCT_SIZE :: nat where "ATTR_STRUCT_SIZE = 144"

definition dump_attributes :: "dump_env \<Rightarrow> dump_state \<Rightarrow> (out list \<times> int \<times> dump_state) option" where
  "dump_attributes e s =
     (let a = ph_attrs (ds_header s);
          (r, pos) = seek_set e (ds_pos s) (sint (fs_offset a));
          title = [Pr ''Attribute section:'' []]
      in if i32 r < 0 then Some (title @ [Er ''Trouble seeking!'' []], - 1, s\<lparr>ds_pos := pos\<rparr>)
         else if int MAX_ATTR_SIZE < uint (fs_size a)
         then Some (title @ [Er ''Error! attr too big %ld > %d''
                               [sint (fs_size a), int MAX_ATTR_SIZE]], - 1, s\<lparr>ds_pos := pos\<rparr>)
         else do {
           (result, pos', raw_attr) \<leftarrow>
             read_fd (d_file e) pos (uint (fs_size a)) (buffer MAX_ATTR_SIZE (d_old_attr e));
           Some (title @ [PrS ''perf_pretty_print_attr'' (take ATTR_STRUCT_SIZE raw_attr)], 0,
                 s\<lparr>ds_pos := pos', ds_sample_type := ucast (le64_at raw_attr 24),
                   ds_read_format := ucast (le64_at raw_attr 32)\<rparr>) })"

section \<open>The records\<close>

text \<open>
  The \<open>while(offset<header.data.size)\<close> loop; each round reads into the same buffer at the
  offset of the record and goes on by the size the record claims. It may run forever
  (\<open>None\<close>), or stop at an access outside the buffer (\<open>Fault\<close>).
\<close>

partial_function (option) data_loop ::
    "dump_env \<Rightarrow> dump_state \<Rightarrow> int \<Rightarrow> u8 list \<Rightarrow> int \<Rightarrow> out list \<Rightarrow> run option" where
  "data_loop e s offset buf pos acc =
     (let d = ph_data (ds_header s) in
      if offset < uint (fs_size d) then
        (let pos1 = snd (seek_set e pos (sint (fs_offset d + word_of_int offset))) in
         case read_fd (d_file e) pos1 (int MAX_RECORD_SIZE) buf of
           None \<Rightarrow> Some Fault
         | Some (result, pos2, data) \<Rightarrow>
             if result < 0 then Some (Done (acc @ [Er ''Couldn't read data header!'' []]) (- 1))
             else (case parse_perf_record (d_reg_names e) data (ds_sample_type s) (ds_read_format s) of
                None \<Rightarrow> Some Fault
              | Some (os, len) \<Rightarrow>
                  if len < 0 then Some (Done (acc @ os @ [Er ''Error parsing data!'' []]) (- 1))
                  else data_loop e s (offset + len) data pos2 (acc @ os)))
      else Some (Done acc 0))"

definition dump_data :: "dump_env \<Rightarrow> dump_state \<Rightarrow> run option" where
  "dump_data e s =
     (let (r, pos) = seek_set e (ds_pos s) (sint (fs_offset (ph_data (ds_header s)))) in
      if i32 r < 0
      then Some (Done [Pr ''DATA section:'' [], Er ''Trouble seeking!'' []] (- 1))
      else data_loop e s 0 (buffer MAX_RECORD_SIZE (d_old_record e)) pos
             [Pr ''DATA section:'' []])"

section \<open>main\<close>

definition zero_section :: perf_file_section where
  "zero_section = \<lparr>fs_offset = 0, fs_size = 0\<rparr>"

definition dump_start :: dump_state where
  "dump_start =
     \<lparr>ds_header = \<lparr>ph_magic = replicate 8 0, ph_size = 0, ph_attr_size = 0, ph_attrs = zero_section,
        ph_data = zero_section, ph_event_types = zero_section, ph_flags = 0,
        ph_flags1 = [0, 0, 0]\<rparr>,
      ds_big_endian = False, ds_nr_cpus = 0, ds_sample_type = 0, ds_read_format = 0, ds_pos = 0\<rparr>"

text \<open>One part of \<open>main\<close> after the others: a negative result ends the program with -1.\<close>

definition and_then ::
    "(out list \<times> int \<times> dump_state) option \<Rightarrow> (out list \<Rightarrow> dump_state \<Rightarrow> run option) \<Rightarrow> run option" where
  "and_then r f = (case r of None \<Rightarrow> Some Fault
     | Some (os, ret, s) \<Rightarrow> (if ret < 0 then Some (Done os (- 1)) else f os s))"

definition after :: "out list \<Rightarrow> run option \<Rightarrow> run option" where
  "after os r = map_option (\<lambda>x. case x of Fault \<Rightarrow> Fault
     | Done os' ret \<Rightarrow> Done (os @ os') (if ret < 0 then - 1 else ret)) r"

definition perf_data_dump :: "dump_env \<Rightarrow> run option" where
  "perf_data_dump e =
     after [PrS ''Attempting to dump %s'' (ascii ''perf.data'')]
       (and_then (dump_header e dump_start) (\<lambda>os s. after os
          (and_then (dump_flag_sections e s) (\<lambda>os s. after os
             (and_then (dump_attributes e s) (\<lambda>os s. after os (dump_data e s)))))))"

end
