(* ===== verification/PerfDataSpec.thy ===== *)
theory PerfDataSpec
  imports PerfDump StreamSpec
begin

text \<open>
  What a perf.data file means: the feature sections as data, their layout as the comments
  of perf_data_dump.c document it, what the dumper is meant to print for each, and the law
  that each reader reads exactly the documented bytes.
\<close>

section \<open>The law of a piece\<close>

text \<open>
  The string buffers have their size, and those \<open>H\<close> names hold the string it gives.
\<close>

definition hold :: "(nat \<rightharpoonup> u8 list) \<Rightarrow> (nat \<Rightarrow> u8 list) \<Rightarrow> bool" where
  "hold H bufs \<longleftrightarrow>
     (\<forall>k. length (bufs k) = SECTION_BUFFER_SIZE \<and> (\<forall>str. H k = Some str \<longrightarrow> cstr (bufs k) = Some str))"

text \<open>
  Where \<open>bs\<close> stands at \<open>off\<close> in the data of a section, the piece reads exactly \<open>bs\<close>, prints
  \<open>os\<close> and keeps the strings.
\<close>

definition piece_reads :: "(nat \<rightharpoonup> u8 list) \<Rightarrow> int \<Rightarrow> part \<Rightarrow> u8 list \<Rightarrow> out list \<Rightarrow> bool" where
  "piece_reads H off p bs os \<longleftrightarrow>
     (\<forall>bufs data. at data off bs \<longrightarrow> length data = SECTION_BUFFER_SIZE \<longrightarrow> hold H bufs \<longrightarrow>
        (\<exists>bufs'. p bufs data off = Some (os, off + int (length bs), bufs') \<and> hold H bufs'))"

named_theorems reads_intros

lemma readsI:
  "(\<And>bufs data. at data off bs \<Longrightarrow> length data = SECTION_BUFFER_SIZE \<Longrightarrow> hold H bufs \<Longrightarrow>
      \<exists>bufs'. p bufs data off = Some (os, off + int (length bs), bufs') \<and> hold H bufs') \<Longrightarrow>
   piece_reads H off p bs os"
  by (simp add: piece_reads_def)

lemma readsD:
  "piece_reads H off p bs os \<Longrightarrow> at data off bs \<Longrightarrow> length data = SECTION_BUFFER_SIZE \<Longrightarrow> hold H bufs \<Longrightarrow>
   \<exists>bufs'. p bufs data off = Some (os, off + int (length bs), bufs') \<and> hold H bufs'"
  by (simp add: piece_reads_def)

lemma reads_small: "(length bs \<le> SECTION_BUFFER_SIZE \<Longrightarrow> piece_reads H off p bs os) \<Longrightarrow> piece_reads H off p bs os"
  using at_bound at_nonneg unfolding piece_reads_def by fastforce

lemma reads_put [reads_intros]: "piece_reads H off (put os) [] os"
  by (simp add: piece_reads_def put_def)

lemma reads_u32 [reads_intros]:
  "piece_reads H (off + 4) (f v) bs os \<Longrightarrow> piece_reads H off (u32_then f) (le32 v @ bs) os"
  unfolding piece_reads_def u32_then_def
  by (auto simp: at_append_iff g32.rd_at add.assoc)

lemma reads_u64 [reads_intros]:
  "piece_reads H (off + 8) (f v) bs os \<Longrightarrow> piece_reads H off (u64_then f) (le64 v @ bs) os"
  unfolding piece_reads_def u64_then_def
  by (auto simp: at_append_iff g64.rd_at add.assoc)

lemma reads_u32_last: "piece_reads H (off + 4) (f v) [] os \<Longrightarrow> piece_reads H off (u32_then f) (le32 v) os"
  using reads_u32 [of H off f v "[]"] by simp

lemma reads_u64_last: "piece_reads H (off + 8) (f v) [] os \<Longrightarrow> piece_reads H off (u64_then f) (le64 v) os"
  using reads_u64 [of H off f v "[]"] by simp

lemma i32_offset: "0 \<le> x \<Longrightarrow> x \<le> int SECTION_BUFFER_SIZE \<Longrightarrow> i32 x = x"
  by (rule i32_id) (simp_all add: SECTION_BUFFER_SIZE_def)

lemma reads_advance [reads_intros]:
  assumes "uint n = int (length bs)"
  shows "piece_reads H off (advance n) bs []"
proof (rule readsI)
  fix bufs data
  assume "at data off bs" "length data = SECTION_BUFFER_SIZE" "hold H bufs"
  moreover from this have "i32 (off + uint n) = off + int (length bs)"
    using at_bound at_nonneg assms by (intro trans [OF i32_offset]) fastforce+
  ultimately show "\<exists>bufs'. advance n bufs data off = Some ([], off + int (length bs), bufs') \<and> hold H bufs'"
    by (simp add: advance_def)
qed

lemma reads_parts_Nil [reads_intros]: "piece_reads H off (parts []) [] []"
  by (simp add: piece_reads_def parts.simps)

lemma reads_parts_Cons [reads_intros]:
  assumes "piece_reads H off p bs os" and "piece_reads H (off + int (length bs)) (parts ps) cs os'"
  shows "piece_reads H off (parts (p # ps)) (bs @ cs) (os @ os')"
  unfolding piece_reads_def
proof (intro allI impI)
  fix bufs data
  assume a: "at data off (bs @ cs)" and n: "length data = SECTION_BUFFER_SIZE" and h: "hold H bufs"
  from a have b: "at data off bs" and c: "at data (off + int (length bs)) cs"
    by (simp_all add: at_append_iff)
  from readsD [OF assms(1) b n h] obtain bufs1
    where 1: "p bufs data off = Some (os, off + int (length bs), bufs1)" and h1: "hold H bufs1" by blast
  from readsD [OF assms(2) c n h1] obtain bufs2
    where 2: "parts ps bufs1 data (off + int (length bs))
        = Some (os', off + int (length bs) + int (length cs), bufs2)" and h2: "hold H bufs2" by blast
  show "\<exists>bufs'. parts (p # ps) bufs data off
      = Some (os @ os', off + int (length (bs @ cs)), bufs') \<and> hold H bufs'"
    using 1 2 h2 by (simp add: parts.simps add.assoc)
qed

lemma reads_one: "piece_reads H off p bs os \<Longrightarrow> piece_reads H off (parts [p]) bs os"
  using reads_parts_Cons [OF _ reads_parts_Nil, of H off p bs os] by simp

lemma reads_two:
  "piece_reads H off p bs os \<Longrightarrow> piece_reads H (off + int (length bs)) (parts (q # ps)) cs os' \<Longrightarrow>
   piece_reads H off (parts (p # q # ps)) (bs @ cs) (os @ os')"
  by (rule reads_parts_Cons)

lemma reads_emit: "piece_reads H off (parts (q # ps)) cs os' \<Longrightarrow> piece_reads H off (parts (put os # q # ps)) cs (os @ os')"
  using reads_parts_Cons [OF reads_put, of H off "q # ps" cs os' os] by simp

text \<open>What a loop prints: each element with its number.\<close>

fun numbered :: "(int \<Rightarrow> 'a \<Rightarrow> out list) \<Rightarrow> int \<Rightarrow> 'a list \<Rightarrow> out list" where
  "numbered p i [] = []"
| "numbered p i (v # vs) = p i v @ numbered p (i + 1) vs"

lemma reads_rounds:
  assumes "n = length vs" and "\<And>i v off. v \<in> set vs \<Longrightarrow> piece_reads H off (f i) (e v) (p i v)"
  shows "piece_reads H off (rounds n i f) (concat (map e vs)) (numbered p i vs)"
  using assms
proof (induction vs arbitrary: n i off)
  case Nil
  then show ?case by (simp add: piece_reads_def rounds.simps)
next
  case (Cons v vs)
  then have "piece_reads H off (parts [f i, rounds (length vs) (i + 1) f]) (e v @ concat (map e vs))
      (p i v @ numbered p (i + 1) vs)"
    by (intro reads_two reads_one) simp_all
  moreover have "parts [f i, rounds m (i + 1) f] = rounds (Suc m) i f" for m
    by (intro ext) (simp add: parts.simps rounds.simps bind_eq_Some_conv split: option.splits bind_splits)
  ultimately show ?case using Cons.prems(1) by simp
qed

section \<open>Strings\<close>

definition count32 :: "'a list \<Rightarrow> u8 list" where
  "count32 xs = le32 (of_nat (length xs))"

definition enc_string :: "u8 list \<Rightarrow> u8 list" where
  "enc_string cs = count32 cs @ cs"

lemma length_enc_string [simp]: "length (enc_string cs) = 4 + length cs"
  by (simp add: enc_string_def count32_def)

lemma unat_count: "length xs \<le> SECTION_BUFFER_SIZE \<Longrightarrow> unat (of_nat (length xs) :: u32) = length xs"
  by (simp add: SECTION_BUFFER_SIZE_def unat_of_nat take_bit_nat_eq_self)

lemma sint_count_small: "length xs \<le> SECTION_BUFFER_SIZE \<Longrightarrow> sint (of_nat (length xs) :: u32) = int (length xs)"
  using sint_count32 [of "length xs"] by (simp add: SECTION_BUFFER_SIZE_def)

lemma cstr_append: "cstr cs = Some str \<Longrightarrow> cstr (cs @ ds) = Some str"
  by (auto simp: cstr_def split: if_splits)

lemma hold_upd:
  assumes "hold H bufs" and "cstr cs = Some str" and "length cs \<le> SECTION_BUFFER_SIZE"
  shows "hold (H(k \<mapsto> str)) (bufs(k := cs @ drop (length cs) (bufs k)))"
  using assms by (auto simp: hold_def cstr_append)

lemma hold_weaken:
  assumes "hold (H(k \<mapsto> str)) bufs" and "H k = None"
  shows "hold H bufs"
  unfolding hold_def
proof (intro allI conjI impI)
  fix j
  show "length (bufs j) = SECTION_BUFFER_SIZE" using assms(1) by (simp add: hold_def)
  fix s assume s: "H j = Some s"
  with assms(2) have "j \<noteq> k" by auto
  with s assms(1) show "cstr (bufs j) = Some s" by (simp add: hold_def)
qed

lemma reads_string [reads_intros]:
  assumes "H k = None" and "cstr cs = Some str"
    and "piece_reads (H(k \<mapsto> str)) (off + int (length (enc_string cs))) (f (4 + of_nat (length cs))) bs os"
  shows "piece_reads H off (string_then k f) (enc_string cs @ bs) os"
  unfolding piece_reads_def
proof (intro allI impI)
  fix bufs data
  assume a: "at data off (enc_string cs @ bs)" and n: "length data = SECTION_BUFFER_SIZE" and h: "hold H bufs"
  let ?str = "cs @ drop (length cs) (bufs k)"
  let ?off = "off + int (length (enc_string cs))"
  from a have lens: "at data off (le32 (of_nat (length cs)))" and str: "at data (off + 4) cs"
    and rest: "at data ?off bs"
    by (simp_all add: enc_string_def count32_def at_append_iff add.assoc)
  have small: "length cs \<le> SECTION_BUFFER_SIZE" "0 \<le> off" "?off \<le> int SECTION_BUFFER_SIZE"
    using at_bound [OF str] at_nonneg [OF lens] at_bound [OF a] n by auto
  have len: "uint (4 + of_nat (length cs) :: u32) = int (length (enc_string cs))"
    using small(1) by (simp add: SECTION_BUFFER_SIZE_def uint_word_ariths unsigned_of_nat take_bit_int_eq_self take_bit_nat_eq_self)
  have "get_string data off (bufs k) = Some (4 + of_nat (length cs), ?str)"
    using small h unfolding get_string_def
    by (simp add: g32.rd_at [OF lens] unat_count rd_bytes_at [OF str] hold_def)
  moreover have "i32 ?off = ?off" using small by (intro i32_offset) auto
  ultimately have "string_then k f bufs data off
      = f (4 + of_nat (length cs)) (bufs(k := ?str)) data ?off"
    unfolding string_then_def by (simp only: Option.bind.bind_lunit prod.case len)
  moreover obtain bufs' where "f (4 + of_nat (length cs)) (bufs(k := ?str)) data ?off
      = Some (os, ?off + int (length bs), bufs')" and "hold (H(k \<mapsto> str)) bufs'"
    using readsD [OF assms(3) rest n hold_upd [OF h assms(2) small(1)]] by blast
  ultimately show "\<exists>bufs'. string_then k f bufs data off
      = Some (os, off + int (length (enc_string cs @ bs)), bufs') \<and> hold H bufs'"
    using hold_weaken assms(1) by (auto simp: add.assoc)
qed

lemma reads_string_last:
  "H k = None \<Longrightarrow> cstr cs = Some str \<Longrightarrow>
   piece_reads (H(k \<mapsto> str)) (off + int (length (enc_string cs))) (f (4 + of_nat (length cs))) [] os \<Longrightarrow>
   piece_reads H off (string_then k f) (enc_string cs) os"
  using reads_string [of H k cs str off f "[]"] by simp

lemma reads_put_string [reads_intros]:
  "H k = Some str \<Longrightarrow> piece_reads H off (put_string label k) [] [PrS label str]"
  by (auto simp: piece_reads_def put_string_def hold_def)

lemma reads_show:
  "H k = Some str \<Longrightarrow> piece_reads H off (parts (q # ps)) cs os \<Longrightarrow>
   piece_reads H off (parts (put_string label k # q # ps)) cs ([PrS label str] @ os)"
  using reads_parts_Cons [OF reads_put_string, of H k str off "q # ps" cs os label] by simp

end
