(* ===== verification/FeatureSpec.thy ===== *)
theory FeatureSpec
  imports PerfDataSpec
begin

text \<open>
  The feature sections of a perf.data file: as data, as the bytes the comments of
  perf_data_dump.c document, and as what is printed; and the law of each reader.
\<close>

section \<open>Features as data\<close>

datatype topology_rest =
    Revision1
  | Revision2 "(u32 \<times> u32) list"
  | Revision3 "(u32 \<times> u32) list" "u8 list list" "u32 list"

datatype feature =
    FBuildId u32 u16 u16 u32 "u8 list" "u8 list"
  | FString "u8 list"
  | FNrCpus u32 u32
  | FU64 u64
  | FStrings "u8 list list"
  | FEvents u32 "(u8 list \<times> u8 list \<times> u64 list) list"
  | FTopology "u8 list list" "u8 list list" topology_rest
  | FNuma "(u32 \<times> u64 \<times> u64 \<times> u8 list) list"
  | FPmus "(u32 \<times> u8 list) list"
  | FCache u32 "(u32 \<times> u32 \<times> u32 \<times> u32 \<times> u8 list \<times> u8 list \<times> u8 list) list"
  | FTime u64 u64
  | FMemory u64 u64 "(u64 \<times> u64 \<times> u64 \<times> u64 list) list"

section \<open>The documented layout\<close>

definition count64 :: "'a list \<Rightarrow> u8 list" where
  "count64 xs = le64 (of_nat (length xs))"

definition enc_strings :: "u8 list list \<Rightarrow> u8 list" where
  "enc_strings ss = count32 ss @ concat (map enc_string ss)"

definition enc_cpus :: "(u32 \<times> u32) list \<Rightarrow> u8 list" where
  "enc_cpus cs = concat (map (\<lambda>(core, socket). le32 core @ le32 socket) cs)"

fun enc_rest :: "topology_rest \<Rightarrow> u8 list" where
  "enc_rest Revision1 = []"
| "enc_rest (Revision2 cs) = enc_cpus cs"
| "enc_rest (Revision3 cs dies ids) = enc_cpus cs @ enc_strings dies @ concat (map le32 ids)"

fun enc_event :: "u8 list \<times> u8 list \<times> u64 list \<Rightarrow> u8 list" where
  "enc_event (attr, name, ids) = attr @ count32 ids @ enc_string name @ concat (map le64 ids)"

fun enc_numa :: "u32 \<times> u64 \<times> u64 \<times> u8 list \<Rightarrow> u8 list" where
  "enc_numa (nodenr, mem, avail, cpus) = le32 nodenr @ le64 mem @ le64 avail @ enc_string cpus"

fun enc_pmu :: "u32 \<times> u8 list \<Rightarrow> u8 list" where
  "enc_pmu (type, name) = le32 type @ enc_string name"

fun enc_level :: "u32 \<times> u32 \<times> u32 \<times> u32 \<times> u8 list \<times> u8 list \<times> u8 list \<Rightarrow> u8 list" where
  "enc_level (level, line, sets, ways, type, sz, mp) =
     le32 level @ le32 line @ le32 sets @ le32 ways @ enc_string type @ enc_string sz @ enc_string mp"

fun enc_node :: "u64 \<times> u64 \<times> u64 \<times> u64 list \<Rightarrow> u8 list" where
  "enc_node (node, sz, bits, ws) = le64 node @ le64 sz @ le64 bits @ concat (map le64 ws)"

fun enc_feature :: "feature \<Rightarrow> u8 list" where
  "enc_feature (FBuildId type misc sz pid build name) =
     le32 type @ le16 misc @ le16 sz @ le32 pid @ build @ name"
| "enc_feature (FString cs) = enc_string cs"
| "enc_feature (FNrCpus available online) = le32 available @ le32 online"
| "enc_feature (FU64 v) = le64 v"
| "enc_feature (FStrings ss) = enc_strings ss"
| "enc_feature (FEvents attr_size evs) = count32 evs @ le32 attr_size @ concat (map enc_event evs)"
| "enc_feature (FTopology cores threads rest) = enc_strings cores @ enc_strings threads @ enc_rest rest"
| "enc_feature (FNuma nodes) = count32 nodes @ concat (map enc_numa nodes)"
| "enc_feature (FPmus pmus) = count32 pmus @ concat (map enc_pmu pmus)"
| "enc_feature (FCache version levels) = le32 version @ count32 levels @ concat (map enc_level levels)"
| "enc_feature (FTime b e) = le64 b @ le64 e"
| "enc_feature (FMemory version block nodes) =
     le64 version @ le64 block @ count64 nodes @ concat (map enc_node nodes)"

section \<open>What is printed\<close>

definition show_numbered :: "int \<Rightarrow> u8 list \<Rightarrow> out list" where
  "show_numbered i cs = [Pr ''%d: '' [i], PrS ''%s'' (until_nul cs)]"

definition show_strings :: "string \<Rightarrow> u8 list list \<Rightarrow> out list" where
  "show_strings label ss = Pr label [int (length ss)] # numbered show_numbered 0 ss"

definition show_cpus :: "(u32 \<times> u32) list \<Rightarrow> out list" where
  "show_cpus cs = numbered (\<lambda>i (core, socket).
     [Pr ''%d: core_id=%d, socket_id=%d'' [i, sint core, sint socket]]) 0 cs"

fun show_rest :: "topology_rest \<Rightarrow> out list" where
  "show_rest Revision1 = []"
| "show_rest (Revision2 cs) = show_cpus cs"
| "show_rest (Revision3 cs dies ids) = show_cpus cs @ show_strings ''Dies: %d'' dies @
     numbered (\<lambda>i die. [Pr ''%d: die_id=%d'' [i, sint die]]) 0 ids"

fun show_event :: "int \<Rightarrow> u8 list \<times> u8 list \<times> u64 list \<Rightarrow> out list" where
  "show_event i (attr, name, ids) =
     [Pr ''Event data: TODO'' [], Pr ''Event %d, Ids %d'' [i, int (length ids)],
      PrS ''Name: %s'' (until_nul name), Pr ''Ids: '' []] @
     map (\<lambda>ident. Pr ''%lx '' [uint ident]) ids"

fun show_numa :: "int \<Rightarrow> u32 \<times> u64 \<times> u64 \<times> u8 list \<Rightarrow> out list" where
  "show_numa i (nodenr, mem, avail, cpus) =
     [Pr ''Node %d: '' [i], PrS ''%s'' (until_nul cpus),
      Pr ''#%d, RAM total %ld, Ram Free %ld'' [sint nodenr, sint mem, sint avail]]"

fun show_pmu :: "int \<Rightarrow> u32 \<times> u8 list \<Rightarrow> out list" where
  "show_pmu i (type, name) =
     [Pr ''PMU %d: Type=%d, '' [i, sint type], PrS ''%s'' (until_nul name)]"

fun show_level :: "int \<Rightarrow> u32 \<times> u32 \<times> u32 \<times> u32 \<times> u8 list \<times> u8 list \<times> u8 list \<Rightarrow> out list" where
  "show_level i (level, line, sets, ways, type, sz, mp) =
     [Pr ''Cache %d: '' [i], PrS ''Type=%s'' (until_nul type), PrS ''Size=%s'' (until_nul sz),
      PrS ''Map=%s'' (until_nul mp),
      Pr ''Level %d, Line_Size: %d, Sets: %d, Ways: %d'' [sint level, sint line, sint sets, sint ways]]"

fun show_node :: "int \<Rightarrow> u64 \<times> u64 \<times> u64 \<times> u64 list \<Rightarrow> out list" where
  "show_node i (node, sz, bits, ws) =
     [Pr ''%d: Node=%ld Size=%ld'' [i, sint node, sint sz], Pr ''Bitmap size: %ld'' [sint bits]] @
     concat (map bitmap_out ws)"

definition string_label :: "nat \<Rightarrow> string" where
  "string_label which =
     (if which = 3 then ''hostname'' else if which = 4 then ''OS release''
      else if which = 5 then ''Version'' else if which = 6 then ''Arch''
      else if which = 8 then ''CPU Description'' else ''CPU ID'')"

fun show_feature :: "nat \<Rightarrow> feature \<Rightarrow> out list" where
  "show_feature which (FBuildId type misc sz pid build name) =
     [Pr ''Type: %d, Misc %hd, Size: %hd'' [sint type, sint misc, sint sz],
      Pr ''Pid: %d'' [sint pid], Pr ''Build Id: '' []] @
     map (\<lambda>b. Pr ''%02x'' [uint b]) build @ [PrS ''Filename: %s'' (until_nul name)]"
| "show_feature which (FString cs) =
     [Pr ''Length: %d'' [int (length cs)], PrS (string_label which @ '': %s'') (until_nul cs)]"
| "show_feature which (FNrCpus available online) =
     [Pr ''CPUs available: %d, CPUs online: %d'' [sint available, sint online]]"
| "show_feature which (FU64 v) = [Pr ''Total memory (kB): %ld'' [sint v]]"
| "show_feature which (FStrings ss) = show_strings ''Contains %d strings'' ss"
| "show_feature which (FEvents attr_size evs) =
     Pr ''Number of events: %d, each size %d bytes'' [int (length evs), sint attr_size] #
     numbered show_event 0 evs"
| "show_feature which (FTopology cores threads rest) =
     show_strings ''Cores: %d'' cores @ show_strings ''Threads: %d'' threads @ show_rest rest"
| "show_feature which (FNuma nodes) = Pr ''Nodes: %d'' [int (length nodes)] # numbered show_numa 0 nodes"
| "show_feature which (FPmus pmus) = Pr ''PMUs: %d'' [int (length pmus)] # numbered show_pmu 0 pmus"
| "show_feature which (FCache version levels) =
     Pr ''Cache Header Version: %d, Levels: %d'' [sint version, int (length levels)] #
     numbered show_level 0 levels"
| "show_feature which (FTime b e) =
     [Pr ''Sample Time:'' [], Pr ''Begin: %lu (%lx)'' [uint b, uint b],
      Pr ''End  : %lu (%lx)'' [uint e, uint e]]"
| "show_feature which (FMemory version block nodes) =
     [Pr ''Sample Topology:'' [], Pr ''Version: %lu'' [uint version],
      Pr ''Block size: %lu (0x%lx)'' [uint block, uint block],
      Pr ''%ld Nodes:'' [int (length nodes)]] @ numbered show_node 0 nodes"

section \<open>Well-formed features\<close>

abbreviation text_ok :: "u8 list \<Rightarrow> bool" where
  "text_ok cs \<equiv> 0 \<in> set cs"

fun rest_ok :: "u32 \<Rightarrow> topology_rest \<Rightarrow> bool" where
  "rest_ok n Revision1 \<longleftrightarrow> True"
| "rest_ok n (Revision2 cs) \<longleftrightarrow> length cs = unat n"
| "rest_ok n (Revision3 cs dies ids) \<longleftrightarrow>
     length cs = unat n \<and> (\<forall>d\<in>set dies. text_ok d) \<and> length ids = unat n"

text \<open>
  The feature belongs to the section \<open>which\<close>, its strings end, and its lists have the length
  that other parts of the file announce: \<open>n\<close> is the number of available processors.
\<close>

fun feature_shape :: "u32 \<Rightarrow> nat \<Rightarrow> feature \<Rightarrow> bool" where
  "feature_shape n which (FBuildId type misc sz pid build name) \<longleftrightarrow>
     which = 2 \<and> length build = 24 \<and> text_ok name"
| "feature_shape n which (FString cs) \<longleftrightarrow> which \<in> {3, 4, 5, 6, 8, 9} \<and> text_ok cs"
| "feature_shape n which (FNrCpus available online) \<longleftrightarrow> which = 7"
| "feature_shape n which (FU64 v) \<longleftrightarrow> which = 10"
| "feature_shape n which (FStrings ss) \<longleftrightarrow> which = 11 \<and> (\<forall>cs\<in>set ss. text_ok cs)"
| "feature_shape n which (FEvents attr_size evs) \<longleftrightarrow>
     which = 12 \<and> (\<forall>(attr, name, ids)\<in>set evs. length attr = unat attr_size \<and> text_ok name)"
| "feature_shape n which (FTopology cores threads rest) \<longleftrightarrow>
     which = 13 \<and> (\<forall>cs\<in>set cores. text_ok cs) \<and> (\<forall>cs\<in>set threads. text_ok cs) \<and> rest_ok n rest"
| "feature_shape n which (FNuma nodes) \<longleftrightarrow>
     which = 14 \<and> (\<forall>(nodenr, mem, avail, cpus)\<in>set nodes. text_ok cpus)"
| "feature_shape n which (FPmus pmus) \<longleftrightarrow> which = 16 \<and> (\<forall>(type, name)\<in>set pmus. text_ok name)"
| "feature_shape n which (FCache version levels) \<longleftrightarrow>
     which = 20 \<and> (\<forall>(level, line, sets, ways, type, sz, mp)\<in>set levels.
       text_ok type \<and> text_ok sz \<and> text_ok mp)"
| "feature_shape n which (FTime b e) \<longleftrightarrow> which = 21"
| "feature_shape n which (FMemory version block nodes) \<longleftrightarrow>
     which = 22 \<and> (\<forall>(node, sz, bits, ws)\<in>set nodes. length ws = unat (bits div 64) + 1)"

definition feature_ok :: "u32 \<Rightarrow> nat \<Rightarrow> feature \<Rightarrow> bool" where
  "feature_ok n which f \<longleftrightarrow> feature_shape n which f \<and> length (enc_feature f) \<le> SECTION_BUFFER_SIZE"

section \<open>Lists with a count in front\<close>

lemma length_concat_ge:
  "(\<And>v. v \<in> set vs \<Longrightarrow> 0 < length (e v)) \<Longrightarrow> length vs \<le> length (concat (map e vs))"
proof (induction vs)
  case Nil
  then show ?case by simp
next
  case (Cons v vs)
  then have "Suc 0 \<le> length (e v)" "length vs \<le> length (concat (map e vs))"
    by (simp_all add: Suc_leI)
  then have "Suc 0 + length vs \<le> length (e v) + length (concat (map e vs))" by (rule add_le_mono)
  then show ?case by simp
qed

lemma reads_counted32:
  assumes "\<And>v. v \<in> set vs \<Longrightarrow> 0 < length (e v)"
    and "\<And>i v off. v \<in> set vs \<Longrightarrow> piece_reads H off (f i) (e v) (p i v)"
    and "\<And>nr. head nr = os (sint nr)"
  shows "piece_reads H off (u32_then (\<lambda>nr. parts [put (head nr), rounds (unat nr) 0 f]))
           (count32 vs @ concat (map e vs)) (os (int (length vs)) @ numbered p 0 vs)"
proof (rule reads_small)
  assume "length (count32 vs @ concat (map e vs)) \<le> SECTION_BUFFER_SIZE"
  moreover have "length vs \<le> length (concat (map e vs))" using assms(1) by (rule length_concat_ge)
  ultimately have n: "length vs \<le> SECTION_BUFFER_SIZE" by simp
  show ?thesis
    unfolding count32_def
    by (rule reads_u32, unfold unat_count [OF n] assms(3) sint_count_small [OF n])
      (rule reads_emit reads_one reads_rounds refl assms(2) | assumption)+
qed

end
