(* ===== verification/FeatureLaws.thy ===== *)
theory FeatureLaws
  imports FeatureSpec
begin

text \<open>
  The law of each reader of theory PerfSections: on a well-formed feature it reads exactly
  its bytes and prints what theory FeatureSpec says.
\<close>

lemma reads_cong: "piece_reads H off p bs os \<Longrightarrow> bs = bs' \<Longrightarrow> os = os' \<Longrightarrow> piece_reads H off p bs' os'"
  by simp

lemmas reads_rules = reads_emit reads_show reads_one reads_two reads_put reads_advance
  reads_u64 reads_u64_last reads_u32 reads_u32_last reads_string reads_string_last reads_put_string

lemma reads_numbered:
  assumes "text_ok cs" and "H 0 = None"
  shows "piece_reads H off (numbered_string i) (enc_string cs) (show_numbered i cs)"
proof -
  have "piece_reads H off (numbered_string i) (enc_string cs) ([Pr ''%d: '' [i]] @ [PrS ''%s'' (until_nul cs)])"
    unfolding numbered_string_def
    by (rule reads_rules cstr_ok assms fun_upd_same)+
  then show ?thesis by (simp add: show_numbered_def)
qed

lemma enc_nonempty [simp]:
  "le32 a \<noteq> []" "le64 b \<noteq> []" "count32 xs \<noteq> []" "enc_string cs \<noteq> []"
  using length_le(2) [of a] length_le(3) [of b]
  by (auto simp: enc_string_def count32_def simp flip: length_0_conv)

text \<open>A list of strings; in the topology its count is read as an \<open>int\<close>.\<close>

lemma reads_strings:
  assumes "\<forall>cs\<in>set ss. text_ok cs" and "H 0 = None"
  shows "piece_reads H off (u32_then (\<lambda>nr. parts [put [Pr label [sint nr]], rounds (unat nr) 0 numbered_string]))
           (enc_strings ss) (show_strings label ss)"
proof -
  have "piece_reads H off (u32_then (\<lambda>nr. parts [put [Pr label [sint nr]], rounds (unat nr) 0 numbered_string]))
           (count32 ss @ concat (map enc_string ss))
           ([Pr label [int (length ss)]] @ numbered show_numbered 0 ss)"
    by (rule reads_counted32 [where os = "\<lambda>n. [Pr label [n]]"])
      (use assms reads_numbered in auto)
  then show ?thesis by (simp add: enc_strings_def show_strings_def)
qed

lemma reads_topology_list:
  assumes "\<forall>cs\<in>set ss. text_ok cs" and "H 0 = None"
  shows "piece_reads H off (topology_list label) (enc_strings ss) (show_strings label ss)"
proof (rule reads_small)
  assume "length (enc_strings ss) \<le> SECTION_BUFFER_SIZE"
  moreover have "length ss \<le> length (concat (map enc_string ss))"
    by (rule length_concat_ge) simp
  ultimately have n: "length ss \<le> SECTION_BUFFER_SIZE" by (simp add: enc_strings_def)
  then have "unat (of_nat (length ss) :: u32) = nat (sint (of_nat (length ss) :: u32))"
    by (simp add: unat_count sint_count_small)
  with reads_strings [where H = H, OF assms, of off label] show ?thesis
    unfolding topology_list_def enc_strings_def count32_def piece_reads_def u32_then_def
    by (fastforce simp: at_append_iff g32.rd_at)
qed

section \<open>Events, nodes, units, caches\<close>

lemma reads_event:
  assumes "length attr = unat attr_size" and "text_ok name" and "H 0 = None"
  shows "piece_reads H off (event_part attr_size i) (enc_event (attr, name, ids)) (show_event i (attr, name, ids))"
proof (rule reads_small)
  assume "length (enc_event (attr, name, ids)) \<le> SECTION_BUFFER_SIZE"
  moreover have "length ids \<le> length (concat (map le64 ids))" by (rule length_concat_ge) simp
  ultimately have n: "length ids \<le> SECTION_BUFFER_SIZE" by simp
  have loop: "piece_reads H' off' (rounds (unat (of_nat (length ids) :: u32)) 0
      (\<lambda>j. u64_then (\<lambda>ident. put [Pr ''%lx '' [uint ident]])))
      (concat (map le64 ids)) (map (\<lambda>ident. Pr ''%lx '' [uint ident]) ids)" for H' off'
  proof -
    have "numbered (\<lambda>j ident. [Pr ''%lx '' [uint ident]]) j ids = map (\<lambda>ident. Pr ''%lx '' [uint ident]) ids"
      for j by (induction ids arbitrary: j) simp_all
    moreover have "piece_reads H' off' (rounds (unat (of_nat (length ids) :: u32)) 0
      (\<lambda>j. u64_then (\<lambda>ident. put [Pr ''%lx '' [uint ident]])))
      (concat (map le64 ids)) (numbered (\<lambda>j ident. [Pr ''%lx '' [uint ident]]) 0 ids)"
      by (rule reads_rounds [OF unat_count [OF n]]) (rule reads_rules)+
    ultimately show ?thesis by simp
  qed
  have "piece_reads H off (event_part attr_size i)
      (attr @ count32 ids @ enc_string name @ concat (map le64 ids))
      ([Pr ''Event data: TODO'' []] @ [] @
       [Pr ''Event %d, Ids %d'' [i, sint (of_nat (length ids) :: u32)]] @
       [PrS ''Name: %s'' (until_nul name)] @ [Pr ''Ids: '' []] @
       map (\<lambda>ident. Pr ''%lx '' [uint ident]) ids)"
    unfolding event_part_def count32_def
    by (rule reads_emit reads_show reads_two [OF reads_advance] reads_one reads_u32 reads_string
        cstr_ok assms loop fun_upd_same | simp add: assms(1))+
  then show ?thesis by (simp add: sint_count_small [OF n])
qed

lemma reads_numa:
  assumes "text_ok cpus" and "H 0 = None"
  shows "piece_reads H off (numa_node_part i) (enc_numa (nodenr, mem, avail, cpus))
           (show_numa i (nodenr, mem, avail, cpus))"
proof -
  have "piece_reads H off (numa_node_part i) (enc_numa (nodenr, mem, avail, cpus))
      ([Pr ''Node %d: '' [i]] @ [PrS ''%s'' (until_nul cpus)] @
       [Pr ''#%d, RAM total %ld, Ram Free %ld'' [sint nodenr, sint mem, sint avail]])"
    unfolding numa_node_part_def enc_numa.simps
    by (rule reads_rules cstr_ok assms fun_upd_same)+
  then show ?thesis by simp
qed

lemma reads_pmu:
  assumes "text_ok name" and "H 0 = None"
  shows "piece_reads H off (pmu_part i) (enc_pmu (type, name)) (show_pmu i (type, name))"
proof -
  have "piece_reads H off (pmu_part i) (enc_pmu (type, name))
      ([Pr ''PMU %d: Type=%d, '' [i, sint type]] @ [PrS ''%s'' (until_nul name)])"
    unfolding pmu_part_def enc_pmu.simps
    by (rule reads_rules cstr_ok assms fun_upd_same)+
  then show ?thesis by simp
qed

lemma reads_level:
  assumes "text_ok type" "text_ok sz" "text_ok mp"
  shows "piece_reads Map.empty off (cache_level_part i) (enc_level (level, line, sets, ways, type, sz, mp))
           (show_level i (level, line, sets, ways, type, sz, mp))"
proof -
  have "piece_reads Map.empty off (cache_level_part i) (enc_level (level, line, sets, ways, type, sz, mp))
      ([Pr ''Cache %d: '' [i]] @ [PrS ''Type=%s'' (until_nul type)] @
       [PrS ''Size=%s'' (until_nul sz)] @ [PrS ''Map=%s'' (until_nul mp)] @
       [Pr ''Level %d, Line_Size: %d, Sets: %d, Ways: %d'' [sint level, sint line, sint sets, sint ways]])"
    unfolding cache_level_part_def enc_level.simps
    by (rule reads_rules cstr_ok assms | simp)+
  then show ?thesis by simp
qed

lemma reads_node:
  assumes "length ws = unat (bits div 64) + 1"
  shows "piece_reads H off (memory_node_part i) (enc_node (node, sz, bits, ws))
           (show_node i (node, sz, bits, ws))"
proof -
  have "unat (bits div 64 + 1) = unat (bits div 64) + 1"
  proof -
    have "unat bits < 2 ^ 64" using unsigned_less [of bits] by simp
    then show ?thesis by (simp add: unat_word_ariths unat_div)
  qed
  with assms have n: "unat (bits div 64 + 1) = length ws" by simp
  have "numbered (\<lambda>j. bitmap_out) j ws = concat (map bitmap_out ws)" for j
    by (induction ws arbitrary: j) simp_all
  moreover have "piece_reads H' off' (rounds (unat (bits div 64 + 1)) 0 (\<lambda>j. u64_then (\<lambda>w. put (bitmap_out w))))
      (concat (map le64 ws)) (numbered (\<lambda>j. bitmap_out) 0 ws)" for H' off'
    by (rule reads_rounds [OF n]) (rule reads_rules)+
  ultimately have loop: "piece_reads H' off' (rounds (unat (bits div 64 + 1)) 0 (\<lambda>j. u64_then (\<lambda>w. put (bitmap_out w))))
      (concat (map le64 ws)) (concat (map bitmap_out ws))" for H' off'
    by simp
  show ?thesis
    unfolding memory_node_part_def enc_node.simps show_node.simps
    by (rule reads_rules loop)+
qed

section \<open>The topology of the processors\<close>

lemma reads_unless_past:
  "(off < len \<Longrightarrow> piece_reads H off p bs os) \<Longrightarrow> (len \<le> off \<Longrightarrow> bs = [] \<and> os = []) \<Longrightarrow>
   piece_reads H off (unless_past len p) bs os"
  unfolding piece_reads_def unless_past_def by (auto simp: not_le)

lemma reads_cpus:
  assumes "length cs = unat n"
  shows "piece_reads H off (rounds (unat n) 0 (\<lambda>i. u32_then (\<lambda>core_id. u32_then (\<lambda>socket_id.
           put [Pr ''%d: core_id=%d, socket_id=%d'' [i, sint core_id, sint socket_id]]))))
           (enc_cpus cs) (show_cpus cs)"
  unfolding enc_cpus_def show_cpus_def
  by (rule reads_rounds) (use assms in \<open>auto intro!: reads_rules\<close>)

lemma reads_dies:
  assumes "\<forall>cs\<in>set dies. text_ok cs" and "length ids = unat n" and "H 0 = None"
  shows "piece_reads H off (parts [topology_list ''Dies: %d'', rounds (unat n) 0 (\<lambda>i. u32_then (\<lambda>die_id.
           put [Pr ''%d: die_id=%d'' [i, sint die_id]]))])
           (enc_strings dies @ concat (map le32 ids))
           (show_strings ''Dies: %d'' dies @
            numbered (\<lambda>i die. [Pr ''%d: die_id=%d'' [i, sint die]]) 0 ids)"
proof (rule reads_two [OF reads_topology_list])
  show "piece_reads H (off + int (length (enc_strings dies))) (parts [rounds (unat n) 0 (\<lambda>i. u32_then (\<lambda>die_id.
           put [Pr ''%d: die_id=%d'' [i, sint die_id]]))])
      (concat (map le32 ids)) (numbered (\<lambda>i die. [Pr ''%d: die_id=%d'' [i, sint die]]) 0 ids)"
    by (rule reads_one, rule reads_rounds) (use assms in \<open>auto intro!: reads_rules\<close>)
qed (use assms in simp_all)

lemma reads_rest:
  assumes "rest_ok n rest" and "off + int (length (enc_rest rest)) = len" and "H 0 = None"
  shows "piece_reads H off (unless_past len (parts
        [rounds (unat n) 0 (\<lambda>i. u32_then (\<lambda>core_id. u32_then (\<lambda>socket_id.
           put [Pr ''%d: core_id=%d, socket_id=%d'' [i, sint core_id, sint socket_id]]))),
         unless_past len (parts
           [topology_list ''Dies: %d'',
            rounds (unat n) 0 (\<lambda>i. u32_then (\<lambda>die_id.
              put [Pr ''%d: die_id=%d'' [i, sint die_id]]))])]))
      (enc_rest rest) (show_rest rest)"
proof (cases rest)
  case Revision1
  with assms show ?thesis by (intro reads_unless_past) simp_all
next
  case (Revision2 cs)
  with assms have n: "length cs = unat n" by simp
  have "cs = []" if "len \<le> off" using that assms(2) Revision2 n
    by (cases cs) (auto simp: enc_cpus_def)
  moreover have "piece_reads H off (parts
        [rounds (unat n) 0 (\<lambda>i. u32_then (\<lambda>core_id. u32_then (\<lambda>socket_id.
           put [Pr ''%d: core_id=%d, socket_id=%d'' [i, sint core_id, sint socket_id]]))),
         unless_past len (parts
           [topology_list ''Dies: %d'',
            rounds (unat n) 0 (\<lambda>i. u32_then (\<lambda>die_id.
              put [Pr ''%d: die_id=%d'' [i, sint die_id]]))])])
      (enc_cpus cs @ []) (show_cpus cs @ [])"
    by (rule reads_two [OF reads_cpus [OF n]], rule reads_one, rule reads_unless_past)
      (use assms(2) Revision2 in simp_all)
  ultimately show ?thesis
    unfolding Revision2 by (intro reads_unless_past) (auto simp: enc_cpus_def show_cpus_def)
next
  case (Revision3 cs dies ids)
  with assms have n: "length cs = unat n" "length ids = unat n" "\<forall>d\<in>set dies. text_ok d" by simp_all
  have "4 \<le> int (length (enc_strings dies))" by (simp add: enc_strings_def count32_def)
  with assms(2) Revision3 have lt: "off < len" "off + int (length (enc_cpus cs)) < len" by simp_all
  have "piece_reads H off (parts
        [rounds (unat n) 0 (\<lambda>i. u32_then (\<lambda>core_id. u32_then (\<lambda>socket_id.
           put [Pr ''%d: core_id=%d, socket_id=%d'' [i, sint core_id, sint socket_id]]))),
         unless_past len (parts
           [topology_list ''Dies: %d'',
            rounds (unat n) 0 (\<lambda>i. u32_then (\<lambda>die_id.
              put [Pr ''%d: die_id=%d'' [i, sint die_id]]))])])
      (enc_cpus cs @ enc_strings dies @ concat (map le32 ids))
      (show_cpus cs @ show_strings ''Dies: %d'' dies @
         numbered (\<lambda>i die. [Pr ''%d: die_id=%d'' [i, sint die]]) 0 ids)"
    by (rule reads_two [OF reads_cpus [OF n(1)]], rule reads_one, rule reads_unless_past,
        rule reads_dies) (use n assms(2,3) lt Revision3 in simp_all)
  then show ?thesis
    unfolding Revision3 enc_rest.simps show_rest.simps
    by (rule reads_unless_past) (use lt in simp_all)
qed

end
