(* ===== verification/DumpLaws.thy ===== *)
theory DumpLaws
  imports FeatureLaws
begin

text \<open>
  A feature section of the file is dumped as theory FeatureSpec shows it, whatever the
  buffers of the readers held before.
\<close>

section \<open>Loading a section\<close>

lemma length_buffer [simp]: "length (buffer n f) = n"
  by (simp add: buffer_def)

lemma read_fd_at:
  assumes "at file pos bs" and "length bs \<le> length buf"
  shows "read_fd file pos (int (length bs)) buf
           = Some (int (length bs), pos + int (length bs), bs @ drop (length bs) buf)"
  using assms by (simp add: read_fd_def at_def)

lemma load_at:
  assumes "at (d_file e) pos bs" and "length bs \<le> SECTION_BUFFER_SIZE"
  shows "load_section e which pos (int (length bs)) too_big unread body d
           = map_option (\<lambda>(os, v). (os, 0, pos + int (length bs), v))
               (body (bs @ drop (length bs) (buffer SECTION_BUFFER_SIZE (d_old_data e which))))"
  using assms(2) unfolding load_section_def
  by (simp add: read_fd_at [OF assms(1)] map_option_case bind_eq_Some_conv split: option.splits)

lemma hold_empty: "hold Map.empty (\<lambda>k. buffer SECTION_BUFFER_SIZE (f k))"
  by (simp add: hold_def)

lemma load_part_at:
  assumes "piece_reads Map.empty 0 p bs os" and "at (d_file e) pos bs" and "length bs \<le> SECTION_BUFFER_SIZE"
  shows "load_part e which pos (int (length bs)) too_big unread p = Some (os, 0, pos + int (length bs))"
proof -
  let ?data = "bs @ drop (length bs) (buffer SECTION_BUFFER_SIZE (d_old_data e which))"
  have "at ?data 0 bs" "length ?data = SECTION_BUFFER_SIZE"
    using assms(3) by (simp_all add: at_def)
  then obtain bufs' where "p (\<lambda>k. buffer SECTION_BUFFER_SIZE (d_old_string e which k)) ?data 0
      = Some (os, 0 + int (length bs), bufs')"
    using readsD [OF assms(1) _ _ hold_empty] by blast
  then show ?thesis
    unfolding load_part_def load_at [OF assms(2,3)] by (simp add: run_part_def)
qed

section \<open>The readers of a feature\<close>

definition new_cpus :: "feature \<Rightarrow> u32 option" where
  "new_cpus f = (case f of FNrCpus available online \<Rightarrow> Some available | _ \<Rightarrow> None)"

lemma reads_string_part:
  assumes "text_ok cs" and "length (enc_string cs) \<le> SECTION_BUFFER_SIZE"
  shows "piece_reads Map.empty 0 (string_part name) (enc_string cs)
           [Pr ''Length: %d'' [int (length cs)], PrS (name @ '': %s'') (until_nul cs)]"
proof -
  have len: "uint (4 + of_nat (length cs) :: u32) = 4 + int (length cs)"
    using assms(2) by (simp add: SECTION_BUFFER_SIZE_def uint_word_ariths unsigned_of_nat
        take_bit_int_eq_self take_bit_nat_eq_self)
  have "piece_reads Map.empty 0 (string_part name) (enc_string cs)
      ([Pr ''Length: %d'' [i32 (uint (4 + of_nat (length cs) :: u32)) - 4]] @
       [PrS (name @ '': %s'') (until_nul cs)])"
    unfolding string_part_def by (rule reads_rules cstr_ok assms | simp)+
  moreover have "i32 (4 + int (length cs)) = 4 + int (length cs)"
    using assms(2) by (intro i32_offset) simp_all
  ultimately show ?thesis by (simp add: len)
qed

text \<open>The readers that print a count and then the elements.\<close>

lemma reads_lists:
  "\<forall>cs\<in>set ss. text_ok cs \<Longrightarrow> piece_reads Map.empty 0 string_list_part (enc_feature (FStrings ss))
     (show_feature which (FStrings ss))"
  "\<forall>(nodenr, mem, avail, cpus)\<in>set nodes. text_ok cpus \<Longrightarrow>
     piece_reads Map.empty 0 numa_topology_part (enc_feature (FNuma nodes)) (show_feature which (FNuma nodes))"
  "\<forall>(type, name)\<in>set pmus. text_ok name \<Longrightarrow>
     piece_reads Map.empty 0 pmu_mappings_part (enc_feature (FPmus pmus)) (show_feature which (FPmus pmus))"
proof -
  assume "\<forall>cs\<in>set ss. text_ok cs"
  then show "piece_reads Map.empty 0 string_list_part (enc_feature (FStrings ss)) (show_feature which (FStrings ss))"
    unfolding string_list_part_def by (simp add: reads_strings)
next
  assume ok: "\<forall>(nodenr, mem, avail, cpus)\<in>set nodes. text_ok cpus"
  have "piece_reads Map.empty 0 numa_topology_part (count32 nodes @ concat (map enc_numa nodes))
      ([Pr ''Nodes: %d'' [int (length nodes)]] @ numbered show_numa 0 nodes)"
    unfolding numa_topology_part_def
    by (rule reads_counted32 [where os = "\<lambda>n. [Pr ''Nodes: %d'' [n]]"])
      (use ok reads_numa in auto)
  then show "piece_reads Map.empty 0 numa_topology_part (enc_feature (FNuma nodes)) (show_feature which (FNuma nodes))"
    by simp
next
  assume ok: "\<forall>(type, name)\<in>set pmus. text_ok name"
  have "piece_reads Map.empty 0 pmu_mappings_part (count32 pmus @ concat (map enc_pmu pmus))
      ([Pr ''PMUs: %d'' [int (length pmus)]] @ numbered show_pmu 0 pmus)"
    unfolding pmu_mappings_part_def
    by (rule reads_counted32 [where os = "\<lambda>n. [Pr ''PMUs: %d'' [n]]"])
      (use ok reads_pmu in auto)
  then show "piece_reads Map.empty 0 pmu_mappings_part (enc_feature (FPmus pmus)) (show_feature which (FPmus pmus))"
    by simp
qed

lemma reads_cache:
  assumes "\<forall>(level, line, sets, ways, type, sz, mp)\<in>set levels. text_ok type \<and> text_ok sz \<and> text_ok mp"
  shows "piece_reads Map.empty 0 cache_part (enc_feature (FCache version levels))
           (show_feature which (FCache version levels))"
proof -
  have "piece_reads Map.empty 0 cache_part (le32 version @ count32 levels @ concat (map enc_level levels))
      ([Pr ''Cache Header Version: %d, Levels: %d'' [sint version, int (length levels)]] @
       numbered show_level 0 levels)"
    unfolding cache_part_def
    by (rule reads_u32, rule reads_counted32
        [where os = "\<lambda>n. [Pr ''Cache Header Version: %d, Levels: %d'' [sint version, n]]"])
      (use assms reads_level in auto)
  then show ?thesis by simp
qed

text \<open>The counts of the events and of the memory nodes have other fields around them.\<close>

lemma reads_events:
  assumes "\<forall>(attr, name, ids)\<in>set evs. length attr = unat attr_size \<and> text_ok name"
  shows "piece_reads Map.empty 0 event_desc_part (enc_feature (FEvents attr_size evs))
           (show_feature which (FEvents attr_size evs))"
proof (rule reads_small)
  assume "length (enc_feature (FEvents attr_size evs)) \<le> SECTION_BUFFER_SIZE"
  moreover have "length evs \<le> length (concat (map enc_event evs))" by (rule length_concat_ge) auto
  ultimately have n: "length evs \<le> SECTION_BUFFER_SIZE" by simp
  have "piece_reads Map.empty 0 event_desc_part (count32 evs @ le32 attr_size @ concat (map enc_event evs))
      ([Pr ''Number of events: %d, each size %d bytes''
          [sint (of_nat (length evs) :: u32), sint attr_size]] @ numbered show_event 0 evs)"
    unfolding event_desc_part_def count32_def
    by (rule reads_u32 reads_emit reads_one)+ (rule reads_rounds [OF unat_count [OF n]],
        use assms reads_event in auto)
  then show ?thesis by (simp add: sint_count_small [OF n])
qed

lemma reads_memory:
  assumes "\<forall>(node, sz, bits, ws)\<in>set nodes. length ws = unat (bits div 64) + 1"
  shows "piece_reads Map.empty 0 sample_topology_part (enc_feature (FMemory version block nodes))
           (show_feature which (FMemory version block nodes))"
proof (rule reads_small)
  assume "length (enc_feature (FMemory version block nodes)) \<le> SECTION_BUFFER_SIZE"
  moreover have "length nodes \<le> length (concat (map enc_node nodes))" by (rule length_concat_ge) auto
  ultimately have n: "length nodes \<le> SECTION_BUFFER_SIZE" by simp
  then have n64: "unat (of_nat (length nodes) :: u64) = length nodes"
    "sint (of_nat (length nodes) :: u64) = int (length nodes)"
    using sint_count [of "length nodes"]
    by (simp_all add: SECTION_BUFFER_SIZE_def unat_of_nat take_bit_nat_eq_self)
  have "piece_reads Map.empty 0 sample_topology_part
      (le64 version @ le64 block @ count64 nodes @ concat (map enc_node nodes))
      ([Pr ''Sample Topology:'' [], Pr ''Version: %lu'' [uint version],
        Pr ''Block size: %lu (0x%lx)'' [uint block, uint block],
        Pr ''%ld Nodes:'' [sint (of_nat (length nodes) :: u64)]] @ numbered show_node 0 nodes)"
    unfolding sample_topology_part_def count64_def
    by (rule reads_u64 reads_emit reads_one)+ (rule reads_rounds [OF n64(1)],
        use assms reads_node in auto)
  then show ?thesis by (simp add: n64)
qed

lemma reads_topology:
  assumes "\<forall>cs\<in>set cores. text_ok cs" and "\<forall>cs\<in>set threads. text_ok cs" and "rest_ok n rest"
    and "len = int (length (enc_feature (FTopology cores threads rest)))"
  shows "piece_reads Map.empty 0 (cpu_topology_part n len) (enc_feature (FTopology cores threads rest))
           (show_feature which (FTopology cores threads rest))"
  unfolding cpu_topology_part_def enc_feature.simps show_feature.simps
  by (rule reads_two reads_one reads_topology_list reads_rest assms | simp add: assms(4))+

lemma reads_time:
  "piece_reads Map.empty 0 sample_time_part (enc_feature (FTime b e)) (show_feature which (FTime b e))"
  unfolding sample_time_part_def enc_feature.simps show_feature.simps by (rule reads_rules)+

lemma reads_u64_part:
  "piece_reads Map.empty 0 (u64_part ''Total memory (kB)'') (enc_feature (FU64 v)) (show_feature which (FU64 v))"
proof -
  have "piece_reads Map.empty 0 (u64_part ''Total memory (kB)'') (le64 v)
      [Pr (''Total memory (kB)'' @ '': %ld'') [sint v]]"
    unfolding u64_part_def by (rule reads_rules)+
  then show ?thesis by simp
qed

end
