(* ===== verification/DumpSections.thy ===== *)
theory DumpSections
  imports DumpLaws
begin

text \<open>
  The feature sections of a file with their table, as bytes and as what is printed, and
  the law of the loop over the flags.
\<close>

section \<open>One section\<close>

lemma read_section_part:
  assumes "piece_reads Map.empty 0 p (enc_feature f) (show_feature which f)"
    and "at (d_file e) pos (enc_feature f)" and "length (enc_feature f) \<le> SECTION_BUFFER_SIZE"
  shows "keep_cpus (load_part e which pos (int (length (enc_feature f))) too_big unread p)
           = Some (show_feature which f, 0, pos + int (length (enc_feature f)), None)"
  by (simp add: load_part_at [OF assms] keep_cpus_def)

lemma build_id_ok:
  assumes "length build = 24" and "text_ok name"
  shows "build_id_body (enc_feature (FBuildId type misc sz pid build name) @ rest)
           = Some (show_feature which (FBuildId type misc sz pid build name), ())"
proof -
  let ?data = "le32 type @ le16 misc @ le16 sz @ le32 pid @ build @ name @ rest"
  have fields: "le32_at ?data 0 = type" "le16_at ?data 4 = misc" "le16_at ?data 6 = sz"
    "le32_at ?data 8 = pid"
    by (simp_all add: le32_at_def le16_at_def)
  have "map (\<lambda>i. Pr ''%02x'' [uint (?data ! (12 + i))]) [0..<24]
      = map (\<lambda>i. Pr ''%02x'' [uint (build ! i)]) [0..<length build]"
    using assms(1) by (intro map_cong) (simp_all add: nth_append)
  also have "\<dots> = map (\<lambda>b. Pr ''%02x'' [uint b]) build"
    by (rule nth_equalityI) simp_all
  finally have build: "map (\<lambda>i. Pr ''%02x'' [uint (?data ! (12 + i))]) [0..<24]
      = map (\<lambda>b. Pr ''%02x'' [uint b]) build" .
  have "drop 36 ?data = name @ rest" using assms(1) by simp
  then have "cstr (drop 36 ?data) = Some (until_nul name)"
    by (simp add: cstr_append [OF cstr_ok [OF assms(2)]])
  with fields build show ?thesis by (simp add: build_id_body_def)
qed

lemma nrcpus_ok:
  "nrcpus_body (enc_feature (FNrCpus available online) @ rest)
     = Some (show_feature which (FNrCpus available online), Some available)"
proof -
  have "at (le32 available @ le32 online @ rest) 0 (le32 available @ le32 online)"
    using at_self [of "[]" "le32 available @ le32 online" rest] by simp
  then have "get_uint32 (le32 available @ le32 online @ rest) 0 = Some available"
    "get_uint32 (le32 available @ le32 online @ rest) 4 = Some online"
    by (auto simp: at_append_iff g32.rd_at)
  then show ?thesis by (simp add: nrcpus_body_def)
qed

lemma read_section_ok:
  assumes "feature_ok n which f" and "at (d_file e) pos (enc_feature f)"
  shows "read_section e n which pos (int (length (enc_feature f)))
           = Some (show_feature which f, 0, pos + int (length (enc_feature f)), new_cpus f)"
proof -
  from assms(1) have shape: "feature_shape n which f" and size: "length (enc_feature f) \<le> SECTION_BUFFER_SIZE"
    by (simp_all add: feature_ok_def)
  note part = read_section_part [OF _ assms(2) size]
  note body = load_at [OF assms(2) size]
  show ?thesis
  proof (cases f)
    case (FBuildId type misc sz pid build name)
    with shape show ?thesis
      by (simp add: body [unfolded FBuildId] build_id_ok [where which = 2] read_section_def read_section_build_id_def keep_cpus_def new_cpus_def
          del: enc_feature.simps show_feature.simps)
  next
    case (FString cs)
    with shape have cs: "text_ok cs" by simp
    have "piece_reads Map.empty 0 (string_part (string_label which)) (enc_feature f) (show_feature which f)"
      using reads_string_part [OF cs, of "string_label which"] size FString by simp
    from part [OF this] shape FString show ?thesis
      by (auto simp add: read_section_def read_section_string_def string_label_def new_cpus_def
          simp del: enc_feature.simps show_feature.simps)
  next
    case (FNrCpus available online)
    with shape show ?thesis
      by (simp add: body [unfolded FNrCpus] nrcpus_ok [where which = 7] read_section_def read_section_nrcpus_def new_cpus_def
          del: enc_feature.simps show_feature.simps)
  next
    case (FU64 v)
    with shape have "int (length (enc_feature f)) = 8" "which = 10" by simp_all
    with part [OF reads_u64_part [of v which, folded FU64]] FU64 show ?thesis
      by (simp add: read_section_def read_section_u64_def new_cpus_def
          del: enc_feature.simps show_feature.simps)
  qed (use shape size assms(2) in \<open>auto simp add: read_section_def read_section_string_list_def
        read_section_event_desc_def read_section_cpu_topology_def read_section_numa_topology_def
        read_section_pmu_mappings_def read_section_cache_def read_section_sample_time_def
        read_section_sample_topology_def new_cpus_def
        simp del: enc_feature.simps show_feature.simps
        intro!: read_section_part reads_lists reads_cache reads_events reads_memory reads_topology reads_time\<close>)
qed

section \<open>The table and its sections\<close>

type_synonym features = "(nat \<times> feature) list"

fun enc_table :: "nat \<Rightarrow> features \<Rightarrow> u8 list" where
  "enc_table off [] = []"
| "enc_table off ((i, f) # fs) =
     le64 (of_nat off) @ le64 (of_nat (length (enc_feature f))) @
     enc_table (off + length (enc_feature f)) fs"

fun enc_features :: "features \<Rightarrow> u8 list" where
  "enc_features [] = []"
| "enc_features ((i, f) # fs) = enc_feature f @ enc_features fs"

fun show_features :: "nat \<Rightarrow> features \<Rightarrow> out list" where
  "show_features off [] = []"
| "show_features off ((i, f) # fs) =
     Pr ''%ld bytes at offset 0x%lx'' [int (length (enc_feature f)), int off] #
     section_title i @ show_feature i f @ show_features (off + length (enc_feature f)) fs"

text \<open>The number of available processors is the one of the section read before.\<close>

fun features_ok :: "u32 \<Rightarrow> features \<Rightarrow> bool" where
  "features_ok n [] \<longleftrightarrow> True"
| "features_ok n ((i, f) # fs) \<longleftrightarrow>
     feature_ok n i f \<and> features_ok (case new_cpus f of None \<Rightarrow> n | Some m \<Rightarrow> m) fs"

lemma length_enc_table [simp]: "length (enc_table off fs) = 16 * length fs"
  by (induction fs arbitrary: off) auto

lemma section_of_entry:
  "section_of (le64 a @ le64 b @ rest) 0 = \<lparr>fs_offset = a, fs_size = b\<rparr>"
  by (simp add: section_of_def le64_at_def)

lemma word64_nat:
  assumes "n < 2 ^ 31"
  shows "sint (of_nat n :: u64) = int n" and "uint (of_nat n :: u64) = int n"
    and "i32 (int n) = int n" and "unat (of_nat n :: u64) = n"
  using sint_count [OF assms] assms
  by (simp_all add: i32_id unat_of_nat unsigned_of_nat take_bit_nat_eq_self)

lemma dump_section_offset_at:
  assumes "at (d_file e) (ds_pos s) (enc_section sec)"
  shows "dump_section_offset e i s
    = Some ([Pr ''%ld bytes at offset 0x%lx'' [sint (fs_size sec), uint (fs_offset sec)]],
            sint (fs_offset sec), i32 (uint (fs_size sec)), s\<lparr>ds_pos := ds_pos s + 16\<rparr>)"
proof -
  have "read_fd (d_file e) (ds_pos s) 16 (buffer 16 (d_old_section e i))
      = Some (16, ds_pos s + 16, enc_section sec)"
    using read_fd_at [OF assms, of "buffer 16 (d_old_section e i)"] by (simp add: enc_section_def)
  then show ?thesis
    unfolding dump_section_offset_def
    using section_of_entry [of "fs_offset sec" "fs_size sec" "[]"] by (simp add: enc_section_def)
qed

text \<open>Only the low half of a size reaches the readers.\<close>

lemma i32_low_half:
  assumes "k < 2 ^ 31" and "n < 2 ^ 31"
  shows "i32 (uint (of_nat (k * 2 ^ 32 + n) :: u64)) = int n"
proof -
  have u: "uint (of_nat m :: u64) = int m" if "m < 2 ^ 64" for m
    using that by (simp add: unsigned_of_nat take_bit_nat_eq_self)
  have "k * 2 ^ 32 + n < 2 ^ 64" using assms by simp
  from u [OF this] have "uint (of_nat (k * 2 ^ 32 + n) :: u64) = int n + int k * 2 ^ 32" by simp
  moreover have "(int n + int k * 2 ^ 32 + 2 ^ 31) mod 2 ^ 32 = int n + 2 ^ 31"
  proof -
    have "(int n + 2 ^ 31 + int k * 2 ^ 32) mod 2 ^ 32 = (int n + 2 ^ 31) mod 2 ^ 32"
      by (rule mod_mult_self1)
    also have "\<dots> = int n + 2 ^ 31" using assms(2) by simp
    finally show ?thesis by (simp add: algebra_simps)
  qed
  ultimately show ?thesis
    by (simp add: i32_def signed_take_bit_eq_take_bit_shift take_bit_eq_mod)
qed

lemma dump_section_offset_ok:
  assumes "at (d_file e) (ds_pos s) (le64 (of_nat a) @ le64 (of_nat b))"
    and "a < 2 ^ 31" and "b < 2 ^ 31"
  shows "dump_section_offset e i s
           = Some ([Pr ''%ld bytes at offset 0x%lx'' [int b, int a]], int a, int b,
                   s\<lparr>ds_pos := ds_pos s + 16\<rparr>)"
proof -
  have "read_fd (d_file e) (ds_pos s) 16 (buffer 16 (d_old_section e i))
      = Some (16, ds_pos s + 16, le64 (of_nat a) @ le64 (of_nat b))"
    using read_fd_at [OF assms(1), of "buffer 16 (d_old_section e i)"] by simp
  then show ?thesis
    unfolding dump_section_offset_def
    using section_of_entry [of "of_nat a" "of_nat b" "[]"] assms(2,3) by (simp add: word64_nat)
qed

lemma dump_section_ok:
  assumes "feature_ok (ds_nr_cpus s) i f" and "at (d_file e) off (enc_feature f)"
    and "off \<le> d_max_seek e"
  shows "dump_section e i off (int (length (enc_feature f))) s
           = Some (section_title i @ show_feature i f, 0,
               s\<lparr>ds_nr_cpus := case new_cpus f of None \<Rightarrow> ds_nr_cpus s | Some m \<Rightarrow> m\<rparr>)"
  using read_section_ok [OF assms(1,2)] assms(3) at_nonneg [OF assms(2)]
  by (simp add: dump_section_def seek_set_def split: option.splits)

lemma flag_loop_ok:
  assumes "map fst fs = filter (bit (ph_flags (ds_header s))) is"
    and "at (d_file e) (ds_pos s) (enc_table off fs)" and "at (d_file e) (int off) (enc_features fs)"
    and "features_ok (ds_nr_cpus s) fs" and "off + length (enc_features fs) < 2 ^ 31"
    and "int off + int (length (enc_features fs)) \<le> d_max_seek e" and "0 \<le> r"
  shows "\<exists>r' n p. flag_loop e is r s
           = Some (show_features off fs, r', s\<lparr>ds_nr_cpus := n, ds_pos := p\<rparr>) \<and> 0 \<le> r'"
  using assms
proof (induction "is" arbitrary: fs off s r)
  case Nil
  then have "fs = []" by simp
  moreover have "s = s\<lparr>ds_nr_cpus := ds_nr_cpus s, ds_pos := ds_pos s\<rparr>" by simp
  ultimately show ?case using Nil.prems(7) by (metis flag_loop.simps(1) show_features.simps(1))
next
  case (Cons i "is")
  show ?case
  proof (cases "bit (ph_flags (ds_header s)) i")
    case False
    with Cons.prems Cons.IH [OF _ Cons.prems(2-7)] show ?thesis by simp
  next
    case True
    with Cons.prems(1) obtain f gs where fs: "fs = (i, f) # gs"
      and gs: "map fst gs = filter (bit (ph_flags (ds_header s))) is"
      by (cases fs) auto
    let ?n = "length (enc_feature f)"
    let ?s1 = "s\<lparr>ds_pos := ds_pos s + 16\<rparr>"
    let ?s2 = "?s1\<lparr>ds_nr_cpus := case new_cpus f of None \<Rightarrow> ds_nr_cpus ?s1 | Some m \<Rightarrow> m\<rparr>"
    have entry: "at (d_file e) (ds_pos s) (le64 (of_nat off) @ le64 (of_nat ?n))"
      and table: "at (d_file e) (ds_pos s + 16) (enc_table (off + ?n) gs)"
      and body: "at (d_file e) (int off) (enc_feature f)"
      and bodies: "at (d_file e) (int (off + ?n)) (enc_features gs)"
      using Cons.prems(2,3) unfolding fs by (auto simp: at_append_iff add.assoc)
    note head = dump_section_offset_ok [OF entry, of i]
    have sec: "dump_section e i (int off) (int ?n) ?s1 = Some (section_title i @ show_feature i f, 0, ?s2)"
      using Cons.prems(4,6) by (intro dump_section_ok body) (simp_all add: fs)
    obtain r' n p where rest: "flag_loop e is 0 ?s2
        = Some (show_features (off + ?n) gs, r', ?s2\<lparr>ds_nr_cpus := n, ds_pos := p\<rparr>)" "0 \<le> r'"
      using Cons.IH [of gs ?s2 "off + ?n" 0] gs table bodies Cons.prems(4-6)
      by (auto simp: fs split: option.splits)
    show ?thesis
      using True head sec rest Cons.prems(5) by (auto simp: fs)
  qed
qed

end
