(* ===== verification/DumpTheorems.thy ===== *)
theory DumpTheorems
  imports DumpSections
begin

text \<open>
  A whole perf.data file: as data, as bytes and as what the dumper prints; and the
  theorems on \<open>perf_data_dump\<close>.
\<close>

section \<open>The records\<close>

definition show_data_record :: "parse_cfg \<Rightarrow> u16 \<times> perf_record \<Rightarrow> out list" where
  "show_data_record cfg mr = (case mr of (misc, r) \<Rightarrow>
     print_data_header (record_type r) misc (word_of_int (int (record_size cfg r))) @
     show_body cfg r)"

text \<open>
  A record the dumper can follow: it fits the buffer, and unlike the reader of the ring
  buffer the dumper gets past a \<open>PERF_RECORD_READ\<close>, whose size it knows.
\<close>

definition data_record_ok :: "parse_cfg \<Rightarrow> u16 \<times> perf_record \<Rightarrow> bool" where
  "data_record_ok cfg mr \<longleftrightarrow> record_size cfg (snd mr) \<le> MAX_RECORD_SIZE \<and>
     (record_type (snd mr) = PERF_RECORD_READ \<or> body_ok cfg (snd mr))"

lemma record_ok_data:
  "data_record_ok cfg (misc, r) \<Longrightarrow> record_type r \<noteq> PERF_RECORD_READ \<Longrightarrow> record_ok cfg (misc, r)"
  by (simp add: data_record_ok_def record_ok_def MAX_RECORD_SIZE_def)

text \<open>The fuzzer's copy of the switch decodes a record of the kernel as the library does.\<close>

lemma parse_data_body_eq:
  assumes "rd16 data 6 = Some sz" and "\<not> c_quiet cfg"
    and "t \<noteq> PERF_RECORD_FINISHED_ROUND" and "t \<noteq> PERF_RECORD_TIME_CONV"
  shows "parse_data_body cfg t sz data 8 = parse_body cfg (uint sz) 0 t data 8"
  using assms unfolding parse_data_body_def parse_body_def by (simp add: say_def)

lemma record_type_small: "record_type r \<noteq> PERF_RECORD_FINISHED_ROUND" "record_type r \<noteq> PERF_RECORD_TIME_CONV"
  by (cases r; simp add: record_type_defs PERF_RECORD_FINISHED_ROUND_def PERF_RECORD_TIME_CONV_def)+

lemma parse_data_record:
  assumes "at data 0 (enc_record cfg mr)" and "data_record_ok cfg mr"
    and cfg: "cfg = data_cfg st rf names"
  shows "parse_perf_record names data st rf
           = Some (show_data_record cfg mr, int (length (enc_record cfg mr)))"
proof -
  obtain misc r where mr: "mr = (misc, r)" by (cases mr)
  have sz: "record_size cfg r < 2 ^ 16"
    using assms(2) by (simp add: mr data_record_ok_def MAX_RECORD_SIZE_def)
  let ?sz = "word_of_int (int (record_size cfg r)) :: u16"
  note rec = record_at [OF assms(1) [unfolded mr], simplified]
  have q: "\<not> c_quiet cfg" by (simp add: cfg data_cfg_def)
  have eq: "parse_data_body cfg (record_type r) ?sz data 8 = parse_body cfg (uint ?sz) 0 (record_type r) data 8"
    using rec(3) q record_type_small by (intro parse_data_body_eq) simp_all
  have "\<exists>off. parse_data_body cfg (record_type r) ?sz data 8 = Some (show_body cfg r, off)"
  proof (cases "record_type r = PERF_RECORD_READ")
    case True
    then obtain pid tid vals where "r = RRead pid tid vals"
      by (cases r) (simp_all add: record_type_defs)
    with q show ?thesis
      by (simp add: parse_data_body_def record_type_defs PERF_RECORD_FINISHED_ROUND_def
          PERF_RECORD_TIME_CONV_def say_def)
  next
    case False
    from parse_body_ok [OF assms(1) [unfolded mr] record_ok_data [OF assms(2) [unfolded mr] False]] eq
    show ?thesis by simp
  qed
  then obtain off where "parse_data_body cfg (record_type r) ?sz data 8 = Some (show_body cfg r, off)" ..
  then show ?thesis
    unfolding parse_perf_record_def get_uint32_eq_rd32 get_uint16_eq_rd16 cfg [symmetric]
    using rec uint_record_size [OF sz]
    by (simp add: mr show_data_record_def length_enc_record)
qed

lemma read_fd_window:
  assumes "at file pos xs" and "length xs \<le> length buf"
  obtains n pos' data where "read_fd file pos (int (length buf)) buf = Some (int n, pos', data)"
    and "at data 0 xs" and "length data = length buf"
proof -
  let ?bs = "take (length buf) (drop (nat pos) file)"
  have n: "length ?bs \<le> length buf" by simp
  have le: "length xs \<le> length ?bs"
    using assms by (auto simp: at_def nat_le_eq_zle)
  have "take (length xs) ?bs = xs"
    using assms by (simp add: at_def min_absorb1)
  with le have "at (?bs @ drop (length ?bs) buf) 0 xs" by (simp add: at_def)
  moreover have "read_fd file pos (int (length buf)) buf
      = Some (int (length ?bs), pos + int (length ?bs), ?bs @ drop (length ?bs) buf)"
    using n by (simp add: read_fd_def)
  ultimately show ?thesis using that n by simp
qed

lemma data_loop_stop: "uint (fs_size (ph_data (ds_header s))) \<le> off \<Longrightarrow> data_loop e s off buf pos acc = Some (Done acc 0)"
  by (simp add: data_loop.simps Let_def)

lemma data_loop_step:
  assumes "off < uint (fs_size (ph_data (ds_header s)))"
    and "seek_set e pos (sint (fs_offset (ph_data (ds_header s)) + word_of_int off)) = (at_pos, at_pos)"
    and "read_fd (d_file e) at_pos (int MAX_RECORD_SIZE) buf = Some (int n, pos', data)"
    and "parse_perf_record (d_reg_names e) data (ds_sample_type s) (ds_read_format s) = Some (os, int len)"
  shows "data_loop e s off buf pos acc = data_loop e s (off + int len) data pos' (acc @ os)"
  using assms by (subst data_loop.simps) (simp add: Let_def)

abbreviation state_cfg :: "dump_env \<Rightarrow> dump_state \<Rightarrow> parse_cfg" where
  "state_cfg e s \<equiv> data_cfg (ds_sample_type s) (ds_read_format s) (d_reg_names e)"

text \<open>The loop gets past the records of a stream, whatever stands behind them.\<close>

lemma data_loop_prefix:
  assumes "\<forall>mr\<in>set rs. data_record_ok (state_cfg e s) mr"
    and "at (d_file e) (int (base + off)) (enc_stream (state_cfg e s) rs)"
    and "fs_offset (ph_data (ds_header s)) = of_nat base" and "base + off + length (enc_stream (state_cfg e s) rs) < 2 ^ 31"
    and "int (off + length (enc_stream (state_cfg e s) rs)) \<le> uint (fs_size (ph_data (ds_header s)))"
    and "int (base + off + length (enc_stream (state_cfg e s) rs)) \<le> d_max_seek e"
    and "length buf = MAX_RECORD_SIZE"
  shows "\<exists>buf' pos'. length buf' = MAX_RECORD_SIZE \<and>
    data_loop e s (int off) buf pos acc
      = data_loop e s (int (off + length (enc_stream (state_cfg e s) rs))) buf' pos'
          (acc @ concat (map (show_data_record (state_cfg e s)) rs))"
  using assms
proof (induction rs arbitrary: off buf pos acc)
  case Nil
  then show ?case by auto
next
  case (Cons mr rs)
  let ?cfg = "state_cfg e s"
  let ?n = "length (enc_record ?cfg mr)"
  from Cons.prems(1,2) have here: "at (d_file e) (int (base + off)) (enc_record ?cfg mr)"
    and ok: "data_record_ok ?cfg mr"
    and rest: "at (d_file e) (int (base + (off + ?n))) (enc_stream ?cfg rs)"
    by (simp_all add: at_append_iff add.assoc)
  have "?n \<le> length buf" using ok Cons.prems(7) by (simp add: data_record_ok_def length_enc_record)
  from read_fd_window [OF here this] Cons.prems(7) obtain k pos' data
    where rd: "read_fd (d_file e) (int (base + off)) (int MAX_RECORD_SIZE) buf = Some (int k, pos', data)"
      and at: "at data 0 (enc_record ?cfg mr)" and len: "length data = MAX_RECORD_SIZE" by metis
  have pos: "8 \<le> ?n" by (simp add: length_enc_record record_size_def)
  have "sint (of_nat base + word_of_int (int off) :: u64) = int (base + off)"
    using word64_nat(1) [of "base + off"] Cons.prems(4) by simp
  with Cons.prems(3,6) have seek: "seek_set e pos (sint (fs_offset (ph_data (ds_header s)) + word_of_int (int off)))
      = (int (base + off), int (base + off))" by (simp add: seek_set_def)
  have lt: "int off < uint (fs_size (ph_data (ds_header s)))"
    using pos Cons.prems(5) unfolding list.map concat.simps length_append of_nat_add by linarith
  note step = data_loop_step [OF lt seek rd parse_data_record [OF at ok refl], of acc]
  from Cons.IH [OF _ rest Cons.prems(3) _ _ _ len, of pos' "acc @ show_data_record ?cfg mr"]
    Cons.prems(1,4-6) show ?case
    by (simp add: step add.assoc)
qed

section \<open>The file\<close>

record perf_file =
  pf_attr_size :: u64
  pf_event_types :: perf_file_section
  pf_pad :: "u8 list"       \<comment> \<open>between the header and the attributes\<close>
  pf_attr :: "u8 list"
  pf_records :: "(u16 \<times> perf_record) list"
  pf_features :: features
  pf_tail :: "u8 list"      \<comment> \<open>behind everything\<close>

definition file_cfg :: "string list \<Rightarrow> perf_file \<Rightarrow> parse_cfg" where
  "file_cfg names f =
     data_cfg (ucast (le64_at (pf_attr f) 24)) (ucast (le64_at (pf_attr f) 32)) names"

abbreviation file_stream :: "string list \<Rightarrow> perf_file \<Rightarrow> u8 list" where
  "file_stream names f \<equiv> enc_stream (file_cfg names f) (pf_records f)"

definition attr_at :: "perf_file \<Rightarrow> nat" where
  "attr_at f = 104 + length (pf_pad f)"

definition data_at :: "perf_file \<Rightarrow> nat" where
  "data_at f = attr_at f + length (pf_attr f)"

definition table_at :: "string list \<Rightarrow> perf_file \<Rightarrow> nat" where
  "table_at names f = data_at f + length (file_stream names f)"

definition features_at :: "string list \<Rightarrow> perf_file \<Rightarrow> nat" where
  "features_at names f = table_at names f + 16 * length (pf_features f)"

fun flags_of :: "features \<Rightarrow> u64" where
  "flags_of [] = 0"
| "flags_of ((i, f) # fs) = push_bit i 1 OR flags_of fs"

definition file_header :: "string list \<Rightarrow> perf_file \<Rightarrow> perf_header" where
  "file_header names f =
     \<lparr>ph_magic = ascii ''PERFILE2'', ph_size = 104, ph_attr_size = pf_attr_size f,
      ph_attrs = \<lparr>fs_offset = of_nat (attr_at f), fs_size = of_nat (length (pf_attr f))\<rparr>,
      ph_data = \<lparr>fs_offset = of_nat (data_at f), fs_size = of_nat (length (file_stream names f))\<rparr>,
      ph_event_types = pf_event_types f, ph_flags = flags_of (pf_features f), ph_flags1 = [0, 0, 0]\<rparr>"

definition enc_file :: "string list \<Rightarrow> perf_file \<Rightarrow> u8 list" where
  "enc_file names f =
     enc_header (file_header names f) @ pf_pad f @ pf_attr f @ file_stream names f @
     enc_table (features_at names f) (pf_features f) @ enc_features (pf_features f) @ pf_tail f"

definition show_perf_file :: "string list \<Rightarrow> perf_file \<Rightarrow> out list" where
  "show_perf_file names f =
     [PrS ''Attempting to dump %s'' (ascii ''perf.data'')] @ print_header (file_header names f) @
     [Pr ''FLAGS sections:'' []] @ show_features (features_at names f) (pf_features f) @
     [Pr ''Attribute section:'' [], PrS ''perf_pretty_print_attr'' (take ATTR_STRUCT_SIZE (pf_attr f))] @
     [Pr ''DATA section:'' []] @
     concat (map (show_data_record (file_cfg names f)) (pf_records f))"

definition file_ok :: "string list \<Rightarrow> perf_file \<Rightarrow> bool" where
  "file_ok names f \<longleftrightarrow>
     ATTR_STRUCT_SIZE \<le> length (pf_attr f) \<and> length (pf_attr f) \<le> MAX_ATTR_SIZE \<and>
     sorted_wrt (<) (map fst (pf_features f)) \<and> features_ok 0 (pf_features f) \<and>
     (\<forall>mr\<in>set (pf_records f). data_record_ok (file_cfg names f) mr) \<and>
     length (enc_file names f) < 2 ^ 31"

section \<open>The parts of main on such a file\<close>

lemma header_of_enc:
  assumes "length (ph_magic h) = 8" and "ph_flags1 h = [a, b, c]"
  shows "header_of (enc_header h) = h" and "length (enc_header h) = PERF_HEADER_SIZE"
  using assms
  by (cases h; simp add: header_of_def enc_header_def enc_section_def le64_at_def section_of_def
      PERF_HEADER_SIZE_def)+

lemma file_header_enc:
  "header_of (enc_header (file_header names f)) = file_header names f"
  "length (enc_header (file_header names f)) = PERF_HEADER_SIZE"
  by (rule header_of_enc [where a = 0 and b = 0 and c = 0]; simp add: file_header_def ascii_def)+

lemma dump_header_ok:
  assumes "at (d_file e) 0 (enc_header (file_header names f))" and "ds_pos s = 0"
  shows "dump_header e s = Some (print_header (file_header names f), 0,
           s\<lparr>ds_header := file_header names f, ds_pos := 104, ds_big_endian := False\<rparr>)"
proof -
  have rd: "read_fd (d_file e) (ds_pos s) (int PERF_HEADER_SIZE) (replicate PERF_HEADER_SIZE 0)
      = Some (104, 104, enc_header (file_header names f))"
    using read_fd_at [OF assms(1), of "replicate PERF_HEADER_SIZE 0"] assms(2)
    by (simp add: file_header_enc(2)) (simp add: PERF_HEADER_SIZE_def)
  have "ph_magic (file_header names f) = ascii ''PERFILE2''" "ph_size (file_header names f) = 104"
    "ph_flags1 (file_header names f) = [0, 0, 0]"
    by (simp_all add: file_header_def)
  then show ?thesis
    unfolding dump_header_def rd Option.bind.bind_lunit prod.case file_header_enc(1) Let_def
    by (simp add: ascii_def PERF_HEADER_SIZE_def)
qed

lemma bit_flags_of: "bit (flags_of fs) k \<longleftrightarrow> k < 64 \<and> k \<in> fst ` set fs"
  by (induction fs rule: flags_of.induct) (auto simp: bit_simps bit_1_iff)

lemma features_below: "features_ok n fs \<Longrightarrow> (i, f) \<in> set fs \<Longrightarrow> i < 64"
proof (induction n fs rule: features_ok.induct)
  case (2 n j g fs)
  then show ?case by (cases g) (auto simp: feature_ok_def split: option.splits)
qed simp

lemma flags_filter:
  assumes "sorted_wrt (<) (map fst fs)" and "features_ok n fs"
  shows "map fst fs = filter (bit (flags_of fs)) [0..<64]"
proof (rule sorted_distinct_set_unique)
  show "sorted (map fst fs)" "distinct (map fst fs)"
    using assms(1) by (simp_all add: strict_sorted_iff)
  show "set (map fst fs) = set (filter (bit (flags_of fs)) [0..<64])"
    using features_below [OF assms(2)] by (auto simp: bit_flags_of)
  show "sorted (filter (bit (flags_of fs)) [0..<64])" by (rule sorted_wrt_filter) simp
qed simp_all

lemma dump_flags_ok:
  assumes "file_ok names f" and "d_file e = enc_file names f"
    and "int (length (enc_file names f)) \<le> d_max_seek e"
    and "ds_header s = file_header names f" and "ds_nr_cpus s = 0"
  shows "\<exists>ret n p. dump_flag_sections e s
           = Some (Pr ''FLAGS sections:'' [] # show_features (features_at names f) (pf_features f), ret,
               s\<lparr>ds_nr_cpus := n, ds_pos := p\<rparr>) \<and> 0 \<le> ret"
proof -
  let ?pre = "enc_header (file_header names f) @ pf_pad f @ pf_attr f @ file_stream names f"
  let ?table = "enc_table (features_at names f) (pf_features f)"
  have pre: "length ?pre = table_at names f" "length (?pre @ ?table) = features_at names f"
    by (simp_all add: table_at_def data_at_def attr_at_def features_at_def file_header_enc PERF_HEADER_SIZE_def)
  have table: "at (d_file e) (int (table_at names f)) ?table"
    and bodies: "at (d_file e) (int (features_at names f)) (enc_features (pf_features f))"
    using at_self [of ?pre ?table "enc_features (pf_features f) @ pf_tail f"]
      at_self [of "?pre @ ?table" "enc_features (pf_features f)" "pf_tail f"]
    unfolding assms(2) enc_file_def pre by simp_all
  have total: "features_at names f + length (enc_features (pf_features f)) \<le> length (enc_file names f)"
    using arg_cong [OF pre(2), of "\<lambda>n. n + length (enc_features (pf_features f))"]
    by (simp add: enc_file_def)
  have small: "length (enc_file names f) < 2 ^ 31" using assms(1) by (simp add: file_ok_def)
  have at: "table_at names f \<le> features_at names f" by (simp add: features_at_def)
  have "data_at f + length (file_stream names f) = table_at names f" by (simp add: table_at_def)
  then have "(of_nat (data_at f) + of_nat (length (file_stream names f)) :: u64) = of_nat (table_at names f)"
    by (metis of_nat_add)
  then have seek: "seek_set e (ds_pos s) (sint (fs_offset (ph_data (ds_header s)) + fs_size (ph_data (ds_header s))))
      = (int (table_at names f), int (table_at names f))"
    using total small at assms(3) by (simp add: assms(4) file_header_def word64_nat seek_set_def)
  have "i32 (int (table_at names f)) = int (table_at names f)"
    using word64_nat(3) [of "table_at names f"] total small at by simp
  moreover have "\<exists>r' n p. flag_loop e [0..<64] (int (table_at names f)) (s\<lparr>ds_pos := int (table_at names f)\<rparr>)
      = Some (show_features (features_at names f) (pf_features f), r',
              s\<lparr>ds_pos := int (table_at names f)\<rparr>\<lparr>ds_nr_cpus := n, ds_pos := p\<rparr>) \<and> 0 \<le> r'"
    using assms(1,3,5) flags_filter [of "pf_features f" 0] table bodies total small
    by (intro flag_loop_ok) (simp_all add: assms(4) file_header_def file_ok_def)
  ultimately show ?thesis
    unfolding dump_flag_sections_def Let_def seek prod.case by auto
qed

lemma dump_attributes_ok:
  assumes "file_ok names f" and "d_file e = enc_file names f"
    and "int (length (enc_file names f)) \<le> d_max_seek e" and "ds_header s = file_header names f"
  shows "\<exists>p. dump_attributes e s
           = Some ([Pr ''Attribute section:'' [],
                    PrS ''perf_pretty_print_attr'' (take ATTR_STRUCT_SIZE (pf_attr f))], 0,
               s\<lparr>ds_pos := p, ds_sample_type := ucast (le64_at (pf_attr f) 24),
                 ds_read_format := ucast (le64_at (pf_attr f) 32)\<rparr>)"
proof -
  let ?pre = "enc_header (file_header names f) @ pf_pad f"
  let ?n = "length (pf_attr f)"
  let ?raw = "pf_attr f @ drop ?n (buffer MAX_ATTR_SIZE (d_old_attr e))"
  have pre: "length ?pre = attr_at f" by (simp add: attr_at_def file_header_enc PERF_HEADER_SIZE_def)
  have at: "at (d_file e) (int (attr_at f)) (pf_attr f)"
    using at_self [of ?pre "pf_attr f"] unfolding assms(2) enc_file_def pre by simp
  have n: "?n \<le> MAX_ATTR_SIZE" "144 \<le> ?n"
    and small: "length (enc_file names f) < 2 ^ 31"
    using assms(1) by (simp_all add: file_ok_def ATTR_STRUCT_SIZE_def)
  have total: "attr_at f \<le> length (enc_file names f)"
    using at_bound [OF at] unfolding assms(2) by simp
  have seek: "seek_set e (ds_pos s) (sint (fs_offset (ph_attrs (ds_header s))))
      = (int (attr_at f), int (attr_at f))" "i32 (int (attr_at f)) = int (attr_at f)"
    using total small assms(3) by (simp_all add: assms(4) file_header_def word64_nat seek_set_def)
  have size: "uint (fs_size (ph_attrs (ds_header s))) = int ?n"
    using n(1) by (simp add: assms(4) file_header_def word64_nat MAX_ATTR_SIZE_def)
  have rd: "read_fd (d_file e) (int (attr_at f)) (int ?n) (buffer MAX_ATTR_SIZE (d_old_attr e))
      = Some (int ?n, int (attr_at f) + int ?n, ?raw)"
    using read_fd_at [OF at] n(1) by simp
  have fields: "le64_at ?raw 24 = le64_at (pf_attr f) 24" "le64_at ?raw 32 = le64_at (pf_attr f) 32"
    "take ATTR_STRUCT_SIZE ?raw = take ATTR_STRUCT_SIZE (pf_attr f)"
    using n(2) by (simp_all add: le64_at_def ATTR_STRUCT_SIZE_def)
  show ?thesis
    unfolding dump_attributes_def Let_def seek prod.case size rd Option.bind.bind_lunit fields
    using n(1) by auto
qed

lemma dump_data_ok:
  assumes "file_ok names f" and "d_file e = enc_file names f"
    and "int (length (enc_file names f)) \<le> d_max_seek e" and "ds_header s = file_header names f"
    and "state_cfg e s = file_cfg names f"
  shows "dump_data e s
           = Some (Done (Pr ''DATA section:'' [] #
               concat (map (show_data_record (file_cfg names f)) (pf_records f))) 0)"
proof -
  let ?pre = "enc_header (file_header names f) @ pf_pad f @ pf_attr f"
  let ?n = "length (file_stream names f)"
  have pre: "length ?pre = data_at f"
    by (simp add: data_at_def attr_at_def file_header_enc PERF_HEADER_SIZE_def)
  have at: "at (d_file e) (int (data_at f)) (file_stream names f)"
    using at_self [of ?pre "file_stream names f"] unfolding assms(2) enc_file_def pre by simp
  have small: "length (enc_file names f) < 2 ^ 31" using assms(1) by (simp add: file_ok_def)
  have total: "data_at f + ?n \<le> length (enc_file names f)"
    using at_bound [OF at] unfolding assms(2) by simp
  have seek: "seek_set e (ds_pos s) (sint (fs_offset (ph_data (ds_header s))))
      = (int (data_at f), int (data_at f))" "i32 (int (data_at f)) = int (data_at f)"
    using total small assms(3) by (simp_all add: assms(4) file_header_def word64_nat seek_set_def)
  have size: "uint (fs_size (ph_data (ds_header s))) = int ?n"
    using total small by (simp add: assms(4) file_header_def word64_nat)
  obtain buf pos where "data_loop e s 0 (buffer MAX_RECORD_SIZE (d_old_record e)) (int (data_at f))
        [Pr ''DATA section:'' []]
      = data_loop e s (int ?n) buf pos
          ([Pr ''DATA section:'' []] @ concat (map (show_data_record (file_cfg names f)) (pf_records f)))"
    using data_loop_prefix [where rs = "pf_records f" and e = e and s = s and base = "data_at f"
        and off = 0 and buf = "buffer MAX_RECORD_SIZE (d_old_record e)" and pos = "int (data_at f)"
        and acc = "[Pr ''DATA section:'' []]"] assms(1,3) at total small size
    unfolding assms(5) by (auto simp: file_ok_def assms(4) file_header_def)
  then show ?thesis
    unfolding dump_data_def Let_def seek prod.case by (simp add: data_loop_stop size)
qed

section \<open>The theorems\<close>

text \<open>
  C16. A perf.data file is dumped as it was written: for every header, attribute, list of
  records and list of features that fit the format, the dumper run on the bytes of the file
  returns 0 and prints the header, each feature with its place, the first attribute and
  each record in order, whatever its buffers held before.
\<close>

theorem perf_data_roundtrip:
  assumes "file_ok (d_reg_names e) f" and "d_file e = enc_file (d_reg_names e) f"
    and "int (length (enc_file (d_reg_names e) f)) \<le> d_max_seek e"
  shows "perf_data_dump e = Some (Done (show_perf_file (d_reg_names e) f) 0)"
proof -
  let ?names = "d_reg_names e"
  let ?s = "dump_start\<lparr>ds_header := file_header ?names f, ds_pos := 104, ds_big_endian := False\<rparr>"
  have "at (d_file e) 0 (enc_header (file_header ?names f))"
    using at_self [of "[]" "enc_header (file_header ?names f)"] unfolding assms(2) enc_file_def by simp
  then have header: "dump_header e dump_start = Some (print_header (file_header ?names f), 0, ?s)"
    by (rule dump_header_ok) (simp add: dump_start_def)
  obtain ret n p where flags: "dump_flag_sections e ?s
      = Some (Pr ''FLAGS sections:'' [] # show_features (features_at ?names f) (pf_features f), ret,
              ?s\<lparr>ds_nr_cpus := n, ds_pos := p\<rparr>)" and ret: "0 \<le> ret"
    using dump_flags_ok [OF assms, of ?s] by (auto simp: dump_start_def)
  obtain q where attrs: "dump_attributes e (?s\<lparr>ds_nr_cpus := n, ds_pos := p\<rparr>)
      = Some ([Pr ''Attribute section:'' [],
               PrS ''perf_pretty_print_attr'' (take ATTR_STRUCT_SIZE (pf_attr f))], 0,
          ?s\<lparr>ds_nr_cpus := n, ds_pos := q, ds_sample_type := ucast (le64_at (pf_attr f) 24),
            ds_read_format := ucast (le64_at (pf_attr f) 32)\<rparr>)"
    using dump_attributes_ok [OF assms, of "?s\<lparr>ds_nr_cpus := n, ds_pos := p\<rparr>"] by auto
  have data: "dump_data e (?s\<lparr>ds_nr_cpus := n, ds_pos := q, ds_sample_type := ucast (le64_at (pf_attr f) 24),
            ds_read_format := ucast (le64_at (pf_attr f) 32)\<rparr>)
      = Some (Done (Pr ''DATA section:'' [] #
               concat (map (show_data_record (file_cfg ?names f)) (pf_records f))) 0)"
    by (rule dump_data_ok [OF assms]) (simp_all add: file_cfg_def)
  show ?thesis
    unfolding perf_data_dump_def header and_then_def option.case prod.case flags attrs data
    using ret by (simp add: flags attrs data after_def show_perf_file_def)
qed

definition example_env :: "u8 list \<Rightarrow> dump_env" where
  "example_env bytes =
     \<lparr>d_file = bytes, d_max_seek = 2 ^ 40, d_reg_names = reg_names_x86_64,
      d_old_section = \<lambda>_ _. 0, d_old_data = \<lambda>_ _. 0xcc, d_old_string = \<lambda>_ _ _. 0xdd,
      d_old_attr = \<lambda>_. 0, d_old_record = \<lambda>_. 0\<rparr>"

definition example_file :: perf_file where
  "example_file =
     \<lparr>pf_attr_size = 144, pf_event_types = zero_section, pf_pad = replicate 8 0,
      pf_attr = replicate 24 0 @ le64 7 @ replicate 112 0,
      pf_records = [(2, RComm 5 6 [97, 98, 0, 0]), (1, RExit 1 2 3 4 5)],
      pf_features =
        [(3, FString [104, 105, 0]), (7, FNrCpus 2 2),
         (13, FTopology [[48, 0]] [[48, 0], [49, 0]] (Revision3 [(0, 0), (1, 0)] [[48, 0]] [0, 0])),
         (16, FPmus [(4, [99, 112, 117, 0])])],
      pf_tail = []\<rparr>"

lemma example_file_ok: "file_ok names example_file"
proof -
  have "length (enc_file names example_file) < 2 ^ 31"
    by (simp add: enc_file_def file_header_enc PERF_HEADER_SIZE_def)
      (simp add: example_file_def enc_record_def enc_strings_def enc_cpus_def count32_def)
  moreover have "features_ok 0 (pf_features example_file)"
    by (simp add: example_file_def feature_ok_def new_cpus_def SECTION_BUFFER_SIZE_def enc_strings_def
        enc_cpus_def count32_def)
  ultimately show ?thesis
    by (simp add: file_ok_def) (simp add: example_file_def ATTR_STRUCT_SIZE_def MAX_ATTR_SIZE_def
        data_record_ok_def MAX_RECORD_SIZE_def record_size_def)
qed

theorem perf_data_roundtrip_witness:
  "perf_data_dump (example_env (enc_file reg_names_x86_64 example_file))
     = Some (Done (show_perf_file reg_names_x86_64 example_file) 0)"
proof -
  have small: "length (enc_file reg_names_x86_64 example_file) < 2 ^ 31"
    using example_file_ok by (simp add: file_ok_def)
  let ?e = "example_env (enc_file reg_names_x86_64 example_file)"
  have "file_ok (d_reg_names ?e) example_file" "d_file ?e = enc_file (d_reg_names ?e) example_file"
    "int (length (enc_file (d_reg_names ?e) example_file)) \<le> d_max_seek ?e"
    using small by (simp_all add: example_env_def example_file_ok)
  from perf_data_roundtrip [OF this] show ?thesis by (simp add: example_env_def)
qed

section \<open>A loop that does not end\<close>

lemma data_loop_moves:
  assumes "\<And>buf pos. length buf = MAX_RECORD_SIZE \<Longrightarrow> \<exists>at_pos n pos' data os.
      seek_set e pos (sint (fs_offset (ph_data (ds_header s)) + word_of_int off)) = (at_pos, at_pos) \<and>
      read_fd (d_file e) at_pos (int MAX_RECORD_SIZE) buf = Some (int n, pos', data) \<and>
      length data = MAX_RECORD_SIZE \<and>
      parse_perf_record (d_reg_names e) data (ds_sample_type s) (ds_read_format s) = Some (os, 0)"
    and "off < uint (fs_size (ph_data (ds_header s)))"
    and "data_loop e' s' off' buf pos acc = Some r"
  shows "(e', s', off') \<noteq> (e, s, off) \<or> length buf \<noteq> MAX_RECORD_SIZE"
  using assms(3)
proof (rule data_loop.raw_induct
    [where P = "\<lambda>e' s' off' buf pos acc r. (e', s', off') \<noteq> (e, s, off) \<or> length buf \<noteq> MAX_RECORD_SIZE",
      rotated])
  fix loop :: "dump_env \<Rightarrow> dump_state \<Rightarrow> int \<Rightarrow> u8 list \<Rightarrow> int \<Rightarrow> out list \<Rightarrow> run option"
    and e' s' off' buf pos acc r
  assume IH: "\<And>e' s' off' buf pos acc r. loop e' s' off' buf pos acc = Some r \<Longrightarrow>
      (e', s', off') \<noteq> (e, s, off) \<or> length buf \<noteq> MAX_RECORD_SIZE"
    and step: "(let d = ph_data (ds_header s') in
      if off' < uint (fs_size d) then
        (let pos1 = snd (seek_set e' pos (sint (fs_offset d + word_of_int off'))) in
         case read_fd (d_file e') pos1 (int MAX_RECORD_SIZE) buf of
           None \<Rightarrow> Some Fault
         | Some (result, pos2, data) \<Rightarrow>
             if result < 0 then Some (Done (acc @ [Er ''Couldn't read data header!'' []]) (- 1))
             else (case parse_perf_record (d_reg_names e') data (ds_sample_type s') (ds_read_format s') of
                None \<Rightarrow> Some Fault
              | Some (os, len) \<Rightarrow>
                  if len < 0 then Some (Done (acc @ os @ [Er ''Error parsing data!'' []]) (- 1))
                  else loop e' s' (off' + len) data pos2 (acc @ os)))
      else Some (Done acc 0)) = Some r"
  show "(e', s', off') \<noteq> (e, s, off) \<or> length buf \<noteq> MAX_RECORD_SIZE"
  proof (rule ccontr)
    assume "\<not> ?thesis"
    then have args: "e' = e" "s' = s" "off' = off" and len: "length buf = MAX_RECORD_SIZE" by simp_all
    from assms(1) [OF len, of pos] obtain at_pos n pos' data os
      where "seek_set e pos (sint (fs_offset (ph_data (ds_header s)) + word_of_int off)) = (at_pos, at_pos)"
        "read_fd (d_file e) at_pos (int MAX_RECORD_SIZE) buf = Some (int n, pos', data)"
        and data: "length data = MAX_RECORD_SIZE"
        and "parse_perf_record (d_reg_names e) data (ds_sample_type s) (ds_read_format s) = Some (os, 0)"
      by blast
    with step assms(2) have "loop e s off data pos' (acc @ os) = Some r"
      unfolding args by (simp add: Let_def)
    from IH [OF this] data show False by simp
  qed
qed

lemma parse_empty_record:
  assumes "at data 0 (le32 t @ le16 misc @ le16 0)"
    and "67 < t" and "t \<noteq> PERF_RECORD_FINISHED_ROUND" and "t \<noteq> PERF_RECORD_TIME_CONV"
  shows "\<exists>os. parse_perf_record names data st rf = Some (os, 0)"
proof -
  from assms(1) have rd: "rd32 data 0 = Some t" "rd16 data 4 = Some misc" "rd16 data 6 = Some 0"
    by (auto simp: at_append_iff c32.rd_at c16.rd_at)
  have "t \<noteq> 1 \<and> t \<noteq> 2 \<and> t \<noteq> 3 \<and> t \<noteq> 4 \<and> t \<noteq> 5 \<and> t \<noteq> 6 \<and> t \<noteq> 7 \<and> t \<noteq> 8 \<and> t \<noteq> 9 \<and> t \<noteq> 10 \<and>
      t \<noteq> 11 \<and> t \<noteq> 12 \<and> t \<noteq> 13 \<and> t \<noteq> 14 \<and> t \<noteq> 15"
    using assms(2) by auto
  then have "parse_data_body cfg t 0 data 8 = Some ([Pr ''Unknown type %d'' [sint t]], 0)" for cfg
    using assms(3,4) by (simp add: parse_data_body_def record_type_defs)
  with rd show ?thesis
    by (simp add: parse_perf_record_def get_uint32_eq_rd32 get_uint16_eq_rd16)
qed

text \<open>
  C18. The dumper does not stop on a record that claims to have no bytes: behind any records
  it can follow, a record of the perf tool whose size field is 0 is read again and again.
\<close>

theorem zero_size_record_hangs:
  assumes "\<forall>mr\<in>set rs. data_record_ok (state_cfg e s) mr"
    and "at (d_file e) (int base) (enc_stream (state_cfg e s) rs @ le32 t @ le16 misc @ le16 0)"
    and "67 < t" and "t \<noteq> PERF_RECORD_FINISHED_ROUND" and "t \<noteq> PERF_RECORD_TIME_CONV"
    and "fs_offset (ph_data (ds_header s)) = of_nat base"
    and "base + length (enc_stream (state_cfg e s) rs) < 2 ^ 31"
    and "int (length (enc_stream (state_cfg e s) rs)) < uint (fs_size (ph_data (ds_header s)))"
    and "int (base + length (enc_stream (state_cfg e s) rs)) \<le> d_max_seek e"
  shows "dump_data e s = None"
proof -
  let ?n = "length (enc_stream (state_cfg e s) rs)"
  have stream: "at (d_file e) (int (base + 0)) (enc_stream (state_cfg e s) rs)"
    and empty: "at (d_file e) (int (base + ?n)) (le32 t @ le16 misc @ le16 0)"
    using assms(2) by (simp_all add: at_append_iff)
  have seek: "seek_set e pos (sint (of_nat base + word_of_int (int ?n) :: u64)) = (int (base + ?n), int (base + ?n))"
    for pos using word64_nat(1) [of "base + ?n"] assms(7,9) by (simp add: seek_set_def)
  have stuck: "data_loop e s (int ?n) buf pos acc = None" if len: "length buf = MAX_RECORD_SIZE" for buf pos acc
  proof (cases "data_loop e s (int ?n) buf pos acc")
    case (Some r)
    have "(e, s, int ?n) \<noteq> (e, s, int ?n) \<or> length buf \<noteq> MAX_RECORD_SIZE"
    proof (rule data_loop_moves [OF _ assms(8) Some])
      fix buf :: "u8 list" and pos
      assume b: "length buf = MAX_RECORD_SIZE"
      then have "length (le32 t @ le16 misc @ le16 0) \<le> length buf" by (simp add: MAX_RECORD_SIZE_def)
      from read_fd_window [OF empty this] b parse_empty_record [OF _ assms(3-5)] seek
      show "\<exists>at_pos n pos' data os.
          seek_set e pos (sint (fs_offset (ph_data (ds_header s)) + word_of_int (int ?n))) = (at_pos, at_pos) \<and>
          read_fd (d_file e) at_pos (int MAX_RECORD_SIZE) buf = Some (int n, pos', data) \<and>
          length data = MAX_RECORD_SIZE \<and>
          parse_perf_record (d_reg_names e) data (ds_sample_type s) (ds_read_format s) = Some (os, 0)"
        unfolding assms(6) by metis
    qed
    with len show ?thesis by simp
  qed simp
  have start: "seek_set e (ds_pos s) (sint (of_nat base :: u64)) = (int base, int base)" "i32 (int base) = int base"
    using assms(7,9) by (simp_all add: word64_nat seek_set_def)
  obtain buf' pos' where "length buf' = MAX_RECORD_SIZE"
    and "data_loop e s 0 (buffer MAX_RECORD_SIZE (d_old_record e)) (int base) [Pr ''DATA section:'' []]
      = data_loop e s (int ?n) buf' pos'
          ([Pr ''DATA section:'' []] @ concat (map (show_data_record (state_cfg e s)) rs))"
    using data_loop_prefix [OF assms(1) stream assms(6), where buf = "buffer MAX_RECORD_SIZE (d_old_record e)"
        and pos = "int base" and acc = "[Pr ''DATA section:'' []]"] assms(7-9) by auto
  with stuck show ?thesis
    unfolding dump_data_def Let_def assms(6) start prod.case by simp
qed

theorem zero_size_record_hangs_witness:
  "dump_data (example_env (le32 80 @ le16 0 @ le16 0))
     (dump_start\<lparr>ds_header := (ds_header dump_start)\<lparr>ph_data := \<lparr>fs_offset = 0, fs_size = 8\<rparr>\<rparr>\<rparr>) = None"
  by (rule zero_size_record_hangs [where rs = "[]" and base = 0 and t = 80 and misc = 0])
    (simp_all add: example_env_def at_def PERF_RECORD_FINISHED_ROUND_def PERF_RECORD_TIME_CONV_def)

section \<open>Bad entries of the table\<close>

lemma load_refused:
  assumes "0 < len" and "int SECTION_BUFFER_SIZE < len \<or> int (length (d_file e)) < pos + len" and "0 \<le> pos"
    and "too_big = Er m1 v1" and "unread = Er m2 v2"
  shows "\<exists>m v pos'. load_section e which pos len too_big unread body d = Some ([Er m v], - 1, pos', d)"
proof (cases "int SECTION_BUFFER_SIZE < len")
  case True
  then show ?thesis by (simp add: load_section_def assms(4))
next
  case False
  let ?bs = "take (nat len) (drop (nat pos) (d_file e))"
  have "length ?bs \<le> length (buffer SECTION_BUFFER_SIZE (d_old_data e which))" using False by simp
  moreover have "int (length ?bs) \<noteq> len" using False assms(1-3) by (auto simp: min_def)
  ultimately show ?thesis
    using False assms(1) by (simp add: load_section_def read_fd_def assms(5) Let_def del: length_take)
qed

lemma load_part_refused:
  assumes "0 < len" and "int SECTION_BUFFER_SIZE < len \<or> int (length (d_file e)) < pos + len" and "0 \<le> pos"
    and "too_big = Er m1 v1" and "unread = Er m2 v2"
  shows "\<exists>m v pos'. load_part e which pos len too_big unread p = Some ([Er m v], - 1, pos')"
  using load_refused [OF assms, of which "run_part e which p" "()"] by (auto simp: load_part_def)

lemmas reader_defs = read_section_string_def read_section_string_list_def read_section_event_desc_def
  read_section_cpu_topology_def read_section_numa_topology_def read_section_pmu_mappings_def
  read_section_cache_def read_section_sample_time_def read_section_sample_topology_def

lemma read_section_refused:
  assumes "0 < len" and "int SECTION_BUFFER_SIZE < len \<or> int (length (d_file e)) < pos + len" and "0 \<le> pos"
  shows "\<exists>m v pos'. read_section e n which pos len = Some ([Er m v], - 1, pos', None)"
proof -
  have part: "\<exists>m v pos'. keep_cpus (load_part e which pos len (Er m1 v1) (Er m2 v2) p)
      = Some ([Er m v], - 1, pos', None)" for which m1 v1 m2 v2 p
    using load_part_refused [OF assms refl refl, of which m1 v1 m2 v2 p] by (auto simp: keep_cpus_def)
  have u64: "\<exists>m v pos'. keep_cpus (read_section_u64 e which pos len name) = Some ([Er m v], - 1, pos', None)"
    for which name
    using part [of which] by (cases "len = 8") (simp_all add: read_section_u64_def keep_cpus_def)
  have build: "\<exists>m v pos'. keep_cpus (read_section_build_id e which pos len) = Some ([Er m v], - 1, pos', None)"
    for which
    using load_refused [OF assms refl refl, of which _ _ _ _ build_id_body "()"]
    unfolding read_section_build_id_def by (fastforce simp: keep_cpus_def)
  have cpus: "\<exists>m v pos'. read_section_nrcpus e which pos len = Some ([Er m v], - 1, pos', None)" for which
    unfolding read_section_nrcpus_def by (rule load_refused [OF assms refl refl])
  show ?thesis
    unfolding read_section_def reader_defs
    using part u64 build cpus by (simp add: keep_cpus_def split del: if_split) (auto simp: keep_cpus_def)
qed



text \<open>
  The upper half of the size is lost: a section whose size is that of its feature and a
  multiple of 4294967296 more, which no file here has, is read and accepted as if it had
  the small size.
\<close>

theorem huge_section_accepted:
  assumes "bit (ph_flags (ds_header s)) i" and "feature_ok (ds_nr_cpus s) i f"
    and "at (d_file e) (ds_pos s) (le64 (of_nat off) @ le64 (of_nat (k * 2 ^ 32 + length (enc_feature f))))"
    and "at (d_file e) (int off) (enc_feature f)" and "int off \<le> d_max_seek e"
    and "off < 2 ^ 31" and "k < 2 ^ 31" and "length (enc_feature f) < 2 ^ 31"
  shows "\<exists>os s'. flag_loop e [i] 0 s = Some (os, 0, s')"
proof -
  have size: "i32 (uint (of_nat (k * 2 ^ 32 + length (enc_feature f)) :: u64)) = int (length (enc_feature f))"
    using assms(7,8) by (rule i32_low_half)
  have off: "sint (of_nat off :: u64) = int off" using word64_nat(1) [OF assms(6)] .
  note entry = dump_section_offset_at [of e s "\<lparr>fs_offset = of_nat off,
      fs_size = of_nat (k * 2 ^ 32 + length (enc_feature f))\<rparr>" i]
  let ?s1 = "s\<lparr>ds_pos := ds_pos s + 16\<rparr>"
  have "feature_ok (ds_nr_cpus ?s1) i f" using assms(2) by simp
  from dump_section_ok [OF this assms(4,5)] entry assms(1,3) size off show ?thesis
    by (simp add: enc_section_def)
qed

theorem huge_section_accepted_witness:
  "\<exists>os s'. flag_loop (example_env (le64 16 @ le64 4294967304 @ le64 7)) [10] 0
     (dump_start\<lparr>ds_header := (ds_header dump_start)\<lparr>ph_flags := 1024\<rparr>\<rparr>) = Some (os, 0, s')"
proof -
  have flag: "bit (1024 :: u64) 10" by (simp add: bit_iff_odd)
  show ?thesis
    by (rule huge_section_accepted [where f = "FU64 7" and off = 16 and k = 1])
      (simp_all add: flag example_env_def dump_start_def at_def feature_ok_def SECTION_BUFFER_SIZE_def)
qed

text \<open>
  A length of -1 in the table is neither too big nor, as \<open>read\<close> fails with -1, a short read:
  the reader shows what its buffer held before.
\<close>

lemma length_minus_one_accepted:
  "read_section_nrcpus e which pos (- 1) = map_option (\<lambda>(os, v). (os, 0, pos, v))
     (nrcpus_body (buffer SECTION_BUFFER_SIZE (d_old_data e which)))"
  by (simp add: read_section_nrcpus_def load_section_def read_fd_def map_option_case
      bind_eq_Some_conv split: option.splits)

text \<open>
  Only as much of the string buffer is written as the string has: a string of a list that
  brings no NUL is shown with the end of the one before it.
\<close>

lemma string_keeps_old_tail:
  "get_string (le32 2 @ [120, 121]) 0 [97, 98, 99, 100, 0] = Some (6, [120, 121, 99, 100, 0])"
proof -
  have lens: "at (le32 2 @ [120, 121]) 0 (le32 2)" and str: "at (le32 2 @ [120, 121]) (0 + 4) [120, 121]"
    using at_self [of "[]" "le32 2" "[120, 121]"] at_self [of "le32 2" "[120, 121]" "[]"] by simp_all
  show ?thesis
    by (simp add: get_string_def g32.rd_at [OF lens] rd_bytes_at [OF str, simplified])
qed

end
