(* ===== verification/CCode.thy ===== *)
theory CCode
  imports Replay
begin

text \<open>
  The C that fuzzer/log_to_code.c and fuzzer/perf_attr_print.c write: its constants (the
  enumerators of include/perf_event.h and include/hw_breakpoint.h), expressions and statements,
  the text of each, and what a statement does when the program that holds it runs. A call of
  the program is recorded as in the replay, and answered by the same kernel.
\<close>

section \<open>Constants\<close>

definition type_enum :: "(string \<times> u64) list" where
  "type_enum =
     [(''PERF_TYPE_HARDWARE'', 0), (''PERF_TYPE_SOFTWARE'', 1), (''PERF_TYPE_TRACEPOINT'', 2),
      (''PERF_TYPE_HW_CACHE'', 3), (''PERF_TYPE_RAW'', 4), (''PERF_TYPE_BREAKPOINT'', 5)]"

definition hw_enum :: "(string \<times> u64) list" where
  "hw_enum =
     [(''PERF_COUNT_HW_CPU_CYCLES'', 0), (''PERF_COUNT_HW_INSTRUCTIONS'', 1),
      (''PERF_COUNT_HW_CACHE_REFERENCES'', 2), (''PERF_COUNT_HW_CACHE_MISSES'', 3),
      (''PERF_COUNT_HW_BRANCH_INSTRUCTIONS'', 4), (''PERF_COUNT_HW_BRANCH_MISSES'', 5),
      (''PERF_COUNT_HW_BUS_CYCLES'', 6), (''PERF_COUNT_HW_STALLED_CYCLES_FRONTEND'', 7),
      (''PERF_COUNT_HW_STALLED_CYCLES_BACKEND'', 8), (''PERF_COUNT_HW_REF_CPU_CYCLES'', 9)]"

definition cache_enum :: "(string \<times> u64) list" where
  "cache_enum =
     [(''PERF_COUNT_HW_CACHE_L1D'', 0), (''PERF_COUNT_HW_CACHE_L1I'', 1), (''PERF_COUNT_HW_CACHE_LL'', 2),
      (''PERF_COUNT_HW_CACHE_DTLB'', 3), (''PERF_COUNT_HW_CACHE_ITLB'', 4), (''PERF_COUNT_HW_CACHE_BPU'', 5),
      (''PERF_COUNT_HW_CACHE_NODE'', 6)]"

definition cache_op_enum :: "(string \<times> u64) list" where
  "cache_op_enum =
     [(''PERF_COUNT_HW_CACHE_OP_READ'', 0), (''PERF_COUNT_HW_CACHE_OP_WRITE'', 1),
      (''PERF_COUNT_HW_CACHE_OP_PREFETCH'', 2)]"

definition cache_result_enum :: "(string \<times> u64) list" where
  "cache_result_enum =
     [(''PERF_COUNT_HW_CACHE_RESULT_ACCESS'', 0), (''PERF_COUNT_HW_CACHE_RESULT_MISS'', 1)]"

definition sw_enum :: "(string \<times> u64) list" where
  "sw_enum =
     [(''PERF_COUNT_SW_CPU_CLOCK'', 0), (''PERF_COUNT_SW_TASK_CLOCK'', 1), (''PERF_COUNT_SW_PAGE_FAULTS'', 2),
      (''PERF_COUNT_SW_CONTEXT_SWITCHES'', 3), (''PERF_COUNT_SW_CPU_MIGRATIONS'', 4),
      (''PERF_COUNT_SW_PAGE_FAULTS_MIN'', 5), (''PERF_COUNT_SW_PAGE_FAULTS_MAJ'', 6),
      (''PERF_COUNT_SW_ALIGNMENT_FAULTS'', 7), (''PERF_COUNT_SW_EMULATION_FAULTS'', 8),
      (''PERF_COUNT_SW_DUMMY'', 9), (''PERF_COUNT_SW_BPF_OUTPUT'', 10), (''PERF_COUNT_SW_CGROUP_SWITCHES'', 11)]"

definition sample_enum :: "(string \<times> u64) list" where
  "sample_enum =
     [(''PERF_SAMPLE_IP'', 0x1), (''PERF_SAMPLE_TID'', 0x2), (''PERF_SAMPLE_TIME'', 0x4),
      (''PERF_SAMPLE_ADDR'', 0x8), (''PERF_SAMPLE_READ'', 0x10), (''PERF_SAMPLE_CALLCHAIN'', 0x20),
      (''PERF_SAMPLE_ID'', 0x40), (''PERF_SAMPLE_CPU'', 0x80), (''PERF_SAMPLE_PERIOD'', 0x100),
      (''PERF_SAMPLE_STREAM_ID'', 0x200), (''PERF_SAMPLE_RAW'', 0x400),
      (''PERF_SAMPLE_BRANCH_STACK'', 0x800), (''PERF_SAMPLE_REGS_USER'', 0x1000),
      (''PERF_SAMPLE_STACK_USER'', 0x2000), (''PERF_SAMPLE_WEIGHT'', 0x4000),
      (''PERF_SAMPLE_DATA_SRC'', 0x8000), (''PERF_SAMPLE_IDENTIFIER'', 0x10000),
      (''PERF_SAMPLE_TRANSACTION'', 0x20000), (''PERF_SAMPLE_REGS_INTR'', 0x40000),
      (''PERF_SAMPLE_PHYS_ADDR'', 0x80000), (''PERF_SAMPLE_AUX'', 0x100000), (''PERF_SAMPLE_CGROUP'', 0x200000),
      (''PERF_SAMPLE_DATA_PAGE_SIZE'', 0x400000), (''PERF_SAMPLE_CODE_PAGE_SIZE'', 0x800000),
      (''PERF_SAMPLE_WEIGHT_STRUCT'', 0x1000000)]"

definition branch_enum :: "(string \<times> u64) list" where
  "branch_enum =
     [(''PERF_SAMPLE_BRANCH_USER'', 0x1), (''PERF_SAMPLE_BRANCH_KERNEL'', 0x2), (''PERF_SAMPLE_BRANCH_HV'', 0x4),
      (''PERF_SAMPLE_BRANCH_ANY'', 0x8), (''PERF_SAMPLE_BRANCH_ANY_CALL'', 0x10),
      (''PERF_SAMPLE_BRANCH_ANY_RETURN'', 0x20), (''PERF_SAMPLE_BRANCH_IND_CALL'', 0x40),
      (''PERF_SAMPLE_BRANCH_ABORT_TX'', 0x80), (''PERF_SAMPLE_BRANCH_IN_TX'', 0x100),
      (''PERF_SAMPLE_BRANCH_NO_TX'', 0x200), (''PERF_SAMPLE_BRANCH_COND'', 0x400),
      (''PERF_SAMPLE_BRANCH_CALL_STACK'', 0x800), (''PERF_SAMPLE_BRANCH_IND_JUMP'', 0x1000),
      (''PERF_SAMPLE_BRANCH_CALL'', 0x2000), (''PERF_SAMPLE_BRANCH_NO_FLAGS'', 0x4000),
      (''PERF_SAMPLE_BRANCH_NO_CYCLES'', 0x8000), (''PERF_SAMPLE_BRANCH_TYPE_SAVE'', 0x10000),
      (''PERF_SAMPLE_BRANCH_HW_INDEX'', 0x20000), (''PERF_SAMPLE_BRANCH_PRIV_SAVE'', 0x40000),
      (''PERF_SAMPLE_BRANCH_COUNTERS'', 0x80000)]"

definition format_enum :: "(string \<times> u64) list" where
  "format_enum =
     [(''PERF_FORMAT_TOTAL_TIME_ENABLED'', 0x1), (''PERF_FORMAT_TOTAL_TIME_RUNNING'', 0x2),
      (''PERF_FORMAT_ID'', 0x4), (''PERF_FORMAT_GROUP'', 0x8), (''PERF_FORMAT_LOST'', 0x10)]"

definition flag_enum :: "(string \<times> u64) list" where
  "flag_enum =
     [(''PERF_FLAG_FD_NO_GROUP'', 0x1), (''PERF_FLAG_FD_OUTPUT'', 0x2), (''PERF_FLAG_PID_CGROUP'', 0x4),
      (''PERF_FLAG_FD_CLOEXEC'', 0x8)]"

definition bp_enum :: "(string \<times> u64) list" where
  "bp_enum =
     [(''HW_BREAKPOINT_EMPTY'', 0), (''HW_BREAKPOINT_R'', 1), (''HW_BREAKPOINT_W'', 2),
      (''HW_BREAKPOINT_RW'', 3), (''HW_BREAKPOINT_X'', 4), (''HW_BREAKPOINT_INVALID'', 7)]"

definition c_enums :: "(string \<times> u64) list list" where
  "c_enums = [type_enum, hw_enum, cache_enum, cache_op_enum, cache_result_enum, sw_enum, sample_enum,
     branch_enum, format_enum, flag_enum, bp_enum]"

lemmas enum_defs = type_enum_def hw_enum_def cache_enum_def cache_op_enum_def cache_result_enum_def
  sw_enum_def sample_enum_def branch_enum_def format_enum_def flag_enum_def bp_enum_def

text \<open>What the compiler takes a name for; \<open>None\<close> for an undeclared one.\<close>

definition c_const :: "string \<Rightarrow> u64 option" where
  "c_const = map_of (concat c_enums)"

lemma distinct_consts: "distinct (map fst (concat c_enums))"
  by (rule distinct_by_last, unfold c_enums_def enum_defs concat.simps append_Cons append_Nil list.map fst_conv)
    code_simp

lemma c_const_enum: "en \<in> set c_enums \<Longrightarrow> (n, v) \<in> set en \<Longrightarrow> c_const n = Some v"
  using map_of_is_SomeI [OF distinct_consts] by (auto simp: c_const_def)

section \<open>Expressions\<close>

text \<open>
  The forms of numbers are those of the formats \<open>%d\<close>, \<open>0x%x\<close>, \<open>0x%llxULL\<close> and \<open>%lldULL\<close>;
  the last two forms join names and numbers.
\<close>

datatype c_exp =
    E_name string | E_dec int | E_xint u32 | E_hex u64 | E_ull int
  | E_or c_exp c_exp | E_cache c_exp c_exp c_exp

fun show_exp :: "c_exp \<Rightarrow> string" where
  "show_exp (E_name n) = n"
| "show_exp (E_dec i) = show_int i"
| "show_exp (E_xint w) = ''0x'' @ show_hex w"
| "show_exp (E_hex w) = ''0x'' @ show_hex w @ ''ULL''"
| "show_exp (E_ull i) = show_int i @ ''ULL''"
| "show_exp (E_or a b) = show_exp a @ ''|'' @ show_exp b"
| "show_exp (E_cache a b c) =
     show_exp a @ '' | ( '' @ show_exp b @ '' << 8) | ( '' @ show_exp c @ '' << 16 )''"

text \<open>
  The value at 64 bits; a negative number is the two's complement, and so is the negation of an
  unsigned one. What it is assigned to keeps the low bits.
\<close>

fun eval_exp :: "c_exp \<Rightarrow> u64 option" where
  "eval_exp (E_name n) = c_const n"
| "eval_exp (E_dec i) = Some (word_of_int i)"
| "eval_exp (E_xint w) = Some (ucast w)"
| "eval_exp (E_hex w) = Some w"
| "eval_exp (E_ull i) = Some (word_of_int i)"
| "eval_exp (E_or a b) = do { x \<leftarrow> eval_exp a; y \<leftarrow> eval_exp b; Some (x OR y) }"
| "eval_exp (E_cache a b c) =
     do { x \<leftarrow> eval_exp a; y \<leftarrow> eval_exp b; z \<leftarrow> eval_exp c; Some (x OR push_bit 8 y OR push_bit 16 z) }"

section \<open>Fields of the attributes\<close>

text \<open>The members of a union are two names of one field.\<close>

definition attr_fields :: "(string \<times> (u64 \<Rightarrow> perf_event_attr \<Rightarrow> perf_event_attr)) list" where
  "attr_fields =
     [(''type'', \<lambda>v a. a\<lparr>a_type := ucast v\<rparr>), (''size'', \<lambda>v a. a\<lparr>a_size := ucast v\<rparr>),
      (''config'', \<lambda>v a. a\<lparr>a_config := v\<rparr>), (''sample_period'', \<lambda>v a. a\<lparr>a_sample_period := v\<rparr>),
      (''sample_freq'', \<lambda>v a. a\<lparr>a_sample_period := v\<rparr>), (''sample_type'', \<lambda>v a. a\<lparr>a_sample_type := v\<rparr>),
      (''read_format'', \<lambda>v a. a\<lparr>a_read_format := v\<rparr>),
      (''wakeup_events'', \<lambda>v a. a\<lparr>a_wakeup_events := ucast v\<rparr>),
      (''wakeup_watermark'', \<lambda>v a. a\<lparr>a_wakeup_events := ucast v\<rparr>),
      (''bp_type'', \<lambda>v a. a\<lparr>a_bp_type := ucast v\<rparr>), (''bp_addr'', \<lambda>v a. a\<lparr>a_config1 := v\<rparr>),
      (''config1'', \<lambda>v a. a\<lparr>a_config1 := v\<rparr>), (''bp_len'', \<lambda>v a. a\<lparr>a_config2 := v\<rparr>),
      (''config2'', \<lambda>v a. a\<lparr>a_config2 := v\<rparr>),
      (''branch_sample_type'', \<lambda>v a. a\<lparr>a_branch_sample_type := v\<rparr>),
      (''sample_regs_user'', \<lambda>v a. a\<lparr>a_sample_regs_user := v\<rparr>),
      (''sample_stack_user'', \<lambda>v a. a\<lparr>a_sample_stack_user := ucast v\<rparr>),
      (''clockid'', \<lambda>v a. a\<lparr>a_clockid := ucast v\<rparr>),
      (''sample_regs_intr'', \<lambda>v a. a\<lparr>a_sample_regs_intr := v\<rparr>),
      (''aux_watermark'', \<lambda>v a. a\<lparr>a_aux_watermark := ucast v\<rparr>),
      (''sample_max_stack'', \<lambda>v a. a\<lparr>a_sample_max_stack := ucast v\<rparr>),
      (''aux_sample_size'', \<lambda>v a. a\<lparr>a_aux_sample_size := ucast v\<rparr>)]"

definition set_field :: "string \<Rightarrow> u64 \<Rightarrow> perf_event_attr \<Rightarrow> perf_event_attr option" where
  "set_field f v a =
     (case map_of attr_bits f of Some (pos, w) \<Rightarrow> Some (a\<lparr>a_bits := put_bits pos w (uint v) (a_bits a)\<rparr>)
      | None \<Rightarrow> map_option (\<lambda>g. g v a) (map_of attr_fields f))"

section \<open>Statements\<close>

datatype io_arg = A_num int | A_group int | A_fd int
datatype io_request = R_name string | R_num int

text \<open>
  \<open>S_text\<close> has no effect. The text behind an assignment begins with its semicolon. The pid of
  an open is \<open>None\<close> for \<open>getpid()\<close>. \<open>S_kill\<close> waits for the child, too.
\<close>

datatype c_stmt =
    S_text string
  | S_clear int
  | S_assign int string c_exp string
  | S_open int "int option" int int c_exp u64
  | S_mmap int int | S_trash int int int | S_munmap int int
  | S_close int
  | S_ioctl int io_request io_arg | S_period int | S_ioctl_period int | S_ioctl_id int
  | S_read int int
  | S_prctl bool
  | S_pollfd int int int | S_poll int int
  | S_read_file nat int | S_write_file nat int
  | S_affinity int
  | S_fork | S_kill
  | S_overflow int

definition ioctl_enum :: "(string \<times> int) list" where
  "ioctl_enum =
     [(''PERF_EVENT_IOC_ENABLE'', IOC_ENABLE), (''PERF_EVENT_IOC_DISABLE'', IOC_DISABLE),
      (''PERF_EVENT_IOC_REFRESH'', IOC_REFRESH), (''PERF_EVENT_IOC_RESET'', IOC_RESET),
      (''PERF_EVENT_IOC_PERIOD'', IOC_PERIOD), (''PERF_EVENT_IOC_SET_OUTPUT'', IOC_SET_OUTPUT),
      (''PERF_EVENT_IOC_SET_FILTER'', IOC_SET_FILTER), (''PERF_EVENT_IOC_ID'', IOC_ID)]"

definition code_filenames :: "string list" where
  "code_filenames =
     [''/proc/sys/kernel/perf_cpu_time_max_percent'', ''/proc/sys/kernel/perf_event_paranoid'',
      ''/proc/sys/kernel/perf_event_max_sample_rate'', ''/proc/sys/kernel/perf_event_max_stack'',
      ''/proc/sys/kernel/perf_event_mlock_kb'', ''/proc/sys/kernel/nmi_watchdog'']"

definition tab :: string where "tab = [CHR 0x09]"
definition quote :: string where "quote = [CHR 0x22]"

fun show_arg :: "io_arg \<Rightarrow> string" where
  "show_arg (A_num i) = show_int i"
| "show_arg (A_group i) = ''PERF_IOC_FLAG_GROUP | '' @ show_int i"
| "show_arg (A_fd i) = ''fd['' @ show_int i @ '']''"

fun show_request :: "io_request \<Rightarrow> string" where
  "show_request (R_name n) = n"
| "show_request (R_num i) = show_int i"

text \<open>A line of the text: indented by tabs, ended by a newline.\<close>

definition ln :: "nat \<Rightarrow> string list \<Rightarrow> string" where
  "ln n ws = concat (replicate n tab) @ concat ws @ newline"

definition show_open :: "int \<Rightarrow> int option \<Rightarrow> int \<Rightarrow> int \<Rightarrow> c_exp \<Rightarrow> u64 \<Rightarrow> string" where
  "show_open fd pid cpu group_fd e flags =
     ln 1 [''fd['', show_int fd, '']=perf_event_open(&pe['', show_int fd, ''],''] @
     ln 4 (case pid of None \<Rightarrow> [''getpid(), /* current thread */'']
           | Some p \<Rightarrow> [show_int p, '', ''] @
               (if p = 0 then [''/* current thread */''] else if p = - 1 then [''/* all processes */'']
                else [''/* Only pid '', show_int p, '' */''])) @
     ln 4 ([show_int cpu, '', ''] @
       (if cpu \<ge> 0 then [''/* Only cpu '', show_int cpu, '' */'']
        else if cpu = - 1 then [''/* all cpus */''] else [''/* Unknown setting? */''])) @
     ln 4 (if group_fd = - 1 then [''-1, /* New Group Leader */'']
           else [''fd['', show_int group_fd, ''], /* '', show_int group_fd, '' is group leader */'']) @
     ln 4 [show_exp e, '' /*'', show_hex flags, ''*/ '', '');'']"

definition show_overflow :: "int \<Rightarrow> string" where
  "show_overflow fd =
     ln 1 [''memset(&sa, 0, sizeof(struct sigaction));''] @ ln 1 [''sa.sa_sigaction = our_handler;''] @
     ln 1 [''sa.sa_flags = SA_SIGINFO;''] @ ln 1 [''if (sigaction( SIGRTMIN+2, &sa, NULL) < 0) {''] @
     ln 2 [''printf('', quote, ''Error setting up signal handler'', [CHR 0x5C], ''n'', quote, '');''] @ ln 1 [''}''] @
     ln 1 [''fcntl(fd['', show_int fd, ''], F_SETFL, O_RDWR|O_NONBLOCK|O_ASYNC);''] @
     ln 1 [''fcntl(fd['', show_int fd, ''], F_SETSIG, SIGRTMIN+2);''] @
     ln 1 [''fcntl(fd['', show_int fd, ''], F_SETOWN,getpid());'']"

definition show_file :: "nat \<Rightarrow> string \<Rightarrow> nat \<Rightarrow> string list \<Rightarrow> string" where
  "show_file which mode tabs ws =
     ln 1 [''fff=fopen('', quote, code_filenames ! which, quote, '','', quote, mode, quote, '');''] @
     ln tabs [''if (fff!=NULL) {''] @ ln 2 ws @ ln 2 [''fclose(fff);''] @ ln 1 [''}'']"

fun show_stmt :: "c_stmt \<Rightarrow> string" where
  "show_stmt (S_text t) = t"
| "show_stmt (S_clear fd) = ln 1 [''memset(&pe['', show_int fd, ''],0,sizeof(struct perf_event_attr));'']"
| "show_stmt (S_assign fd f e t) = tab @ ''pe['' @ show_int fd @ ''].'' @ f @ ''='' @ show_exp e @ t"
| "show_stmt (S_open fd pid cpu group_fd e flags) = show_open fd pid cpu group_fd e flags"
| "show_stmt (S_mmap fd sz) = ln 1 [''mmap_result['', show_int fd, '']=mmap(NULL, '', show_int sz,
     '',PROT_READ|PROT_WRITE, MAP_SHARED,fd['', show_int fd, ''], 0);'']"
| "show_stmt (S_trash fd v sz) = ln 1 [''if (mmap_result['', show_int fd, '']>0) memset(mmap_result['', show_int fd,
     ''],'', show_int v, '','', show_int sz, '');'']"
| "show_stmt (S_munmap fd sz) = ln 1 [''munmap(mmap_result['', show_int fd, ''], '', show_int sz, '');'']"
| "show_stmt (S_close fd) = ln 1 [''close(fd['', show_int fd, '']);'']"
| "show_stmt (S_ioctl fd r a) = ln 1 [''ioctl(fd['', show_int fd, ''],'', show_request r, '','', show_arg a, '');'']"
| "show_stmt (S_period v) = ln 1 [''period='', show_int v, '';'']"
| "show_stmt (S_ioctl_period fd) = ln 1 [''ioctl(fd['', show_int fd, ''],PERF_EVENT_IOC_PERIOD,&period);'']"
| "show_stmt (S_ioctl_id fd) = ln 1 [''ioctl(fd['', show_int fd, ''],PERF_EVENT_IOC_ID,&id);'']"
| "show_stmt (S_read fd sz) = ln 1 [''read(fd['', show_int fd, ''],data,'', show_int sz, '');'']"
| "show_stmt (S_prctl on) =
     ln 1 [if on then ''prctl(PR_TASK_PERF_EVENTS_ENABLE);'' else ''prctl(PR_TASK_PERF_EVENTS_DISABLE);'']"
| "show_stmt (S_pollfd i fd ev) = ln 1 [''pollfds['', show_int i, ''].fd=fd['', show_int fd, '']; pollfds['', show_int i,
     ''].events='', show_int ev, '';'']"
| "show_stmt (S_poll n timeout) = ln 1 [''poll(pollfds,'', show_int n, '','', show_int timeout, '');'']"
| "show_stmt (S_read_file w sz) = show_file w ''r'' 1 [''result=fread(buffer,sizeof(char),'', show_int sz, '',fff);'']"
| "show_stmt (S_write_file w v) =
     show_file w ''w'' 2 [''result=fprintf(fff,'', quote, ''%lld'', quote, '','', show_int v, ''ULL);'']"
| "show_stmt (S_affinity cpu) = ln 1 [''CPU_ZERO_S(set_size,cpu_mask);''] @
     ln 1 [''CPU_SET_S('', show_int cpu, '',set_size,cpu_mask);''] @ ln 0 [''/* pid=0 means current thread */''] @
     ln 1 [''sched_setaffinity(0,max_cpus,cpu_mask);'']"
| "show_stmt S_fork = ln 1 [''forked_pid=fork();''] @ ln 1 [''if (forked_pid==0) while(1);'']"
| "show_stmt S_kill = ln 1 [''kill(forked_pid,SIGKILL);''] @ ln 1 [''waitpid(forked_pid, &status, 0);'']"
| "show_stmt (S_overflow fd) = show_overflow fd"

section \<open>Running the program\<close>

definition NUM_VALUES :: int where "NUM_VALUES = 1024"

text \<open>The static variables of the program that a call depends on, and the calls it made.\<close>

record cstate =
  c_fd :: "int list"
  c_pe :: "perf_event_attr list"
  c_mmap :: "int list"
  c_pollfds :: "(int \<times> int) list"
  c_period :: int
  c_forked :: int
  c_calls :: "sys_call list"

definition c_start :: cstate where
  "c_start = \<lparr>c_fd = replicate (nat NUM_VALUES) (- 1), c_pe = replicate (nat NUM_VALUES) zero_pe,
     c_mmap = replicate (nat NUM_VALUES) 0, c_pollfds = replicate (nat MAX_POLL_FDS) (0, 0), c_period = 0,
     c_forked = 0, c_calls = []\<rparr>"

definition c_call :: "renv \<Rightarrow> sys_call \<Rightarrow> cstate \<Rightarrow> int \<times> cstate" where
  "c_call e k c = (r_answer e (length (c_calls c)) k, c\<lparr>c_calls := c_calls c @ [k]\<rparr>)"

text \<open>An access to the tables at \<open>fd\<close>.\<close>

definition in_values :: "int \<Rightarrow> cstate outcome \<Rightarrow> cstate outcome" where
  "in_values fd r = (if 0 \<le> fd \<and> fd < NUM_VALUES then r else Fault)"

fun arg_value :: "cstate \<Rightarrow> io_arg \<Rightarrow> int option" where
  "arg_value c (A_num i) = Some i"
| "arg_value c (A_group i) = Some (1 OR i)"
| "arg_value c (A_fd i) = (if 0 \<le> i \<and> i < NUM_VALUES then Some (c_fd c ! nat i) else None)"

text \<open>The number of a request, of which the kernel takes 32 bits.\<close>

fun request_value :: "io_request \<Rightarrow> int option" where
  "request_value (R_name n) = map_option i32 (map_of ioctl_enum n)"
| "request_value (R_num i) = Some (i32 i)"

text \<open>
  \<open>Fault\<close> is an access outside a table, or a program that does not compile. A pointer is not
  negative when it is compared with 0.
\<close>

fun exec_stmt :: "renv \<Rightarrow> c_stmt \<Rightarrow> cstate \<Rightarrow> cstate outcome" where
  "exec_stmt e (S_text t) c = Ret c"
| "exec_stmt e (S_clear fd) c = in_values fd (Ret (c\<lparr>c_pe := (c_pe c)[nat fd := zero_pe]\<rparr>))"
| "exec_stmt e (S_assign fd f x t) c = in_values fd
     (then_do (of_option (do { v \<leftarrow> eval_exp x; set_field f v (c_pe c ! nat fd) }))
       (\<lambda>a. Ret (c\<lparr>c_pe := (c_pe c)[nat fd := a]\<rparr>)))"
| "exec_stmt e (S_open fd pid cpu group_fd x flags) c = in_values fd
     (if group_fd \<noteq> - 1 \<and> \<not> (0 \<le> group_fd \<and> group_fd < NUM_VALUES) then Fault
      else then_do (of_option (eval_exp x)) (\<lambda>v.
        case c_call e (Sys_open (c_pe c ! nat fd) (case pid of None \<Rightarrow> r_getpid e | Some p \<Rightarrow> p) cpu
            (if group_fd = - 1 then - 1 else c_fd c ! nat group_fd) v) c of (k, c1) \<Rightarrow>
          Ret (c1\<lparr>c_fd := (c_fd c1)[nat fd := k]\<rparr>)))"
| "exec_stmt e (S_mmap fd sz) c = in_values fd
     (case c_call e (Sys_mmap sz (c_fd c ! nat fd)) c of (data, c1) \<Rightarrow>
        Ret (c1\<lparr>c_mmap := (c_mmap c1)[nat fd := data]\<rparr>))"
| "exec_stmt e (S_trash fd v sz) c = in_values fd
     (if c_mmap c ! nat fd = 0 then Ret c else Ret (snd (c_call e (Sys_memset (c_mmap c ! nat fd) v sz) c)))"
| "exec_stmt e (S_munmap fd sz) c = in_values fd (Ret (snd (c_call e (Sys_munmap (c_mmap c ! nat fd) sz) c)))"
| "exec_stmt e (S_close fd) c = in_values fd (Ret (snd (c_call e (Sys_close (c_fd c ! nat fd)) c)))"
| "exec_stmt e (S_ioctl fd r a) c = in_values fd
     (then_do (of_option (do { req \<leftarrow> request_value r; v \<leftarrow> arg_value c a; Some (req, v) })) (\<lambda>(req, v).
        Ret (snd (c_call e (Sys_ioctl (c_fd c ! nat fd) req v) c))))"
| "exec_stmt e (S_period v) c = Ret (c\<lparr>c_period := v\<rparr>)"
| "exec_stmt e (S_ioctl_period fd) c = in_values fd
     (Ret (snd (c_call e (Sys_ioctl_ptr (c_fd c ! nat fd) (i32 IOC_PERIOD) (c_period c)) c)))"
| "exec_stmt e (S_ioctl_id fd) c = in_values fd
     (Ret (snd (c_call e (Sys_ioctl_ptr (c_fd c ! nat fd) (i32 IOC_ID) 0) c)))"
| "exec_stmt e (S_read fd sz) c = in_values fd
     (case c_call e (Sys_read (c_fd c ! nat fd) sz) c of (got, c1) \<Rightarrow>
        if got > MAX_READ_SIZE * 8 then Fault else Ret c1)"
| "exec_stmt e (S_prctl on) c = Ret (snd (c_call e (Sys_prctl on) c))"
| "exec_stmt e (S_pollfd i fd ev) c = in_values fd
     (if 0 \<le> i \<and> i < MAX_POLL_FDS then Ret (c\<lparr>c_pollfds := (c_pollfds c)[nat i := (c_fd c ! nat fd, ev)]\<rparr>) else Fault)"
| "exec_stmt e (S_poll n timeout) c =
     Ret (snd (c_call e (Sys_poll (take (nat n) (c_pollfds c)) n timeout) c))"
| "exec_stmt e (S_read_file w sz) c =
     (case c_call e (Sys_fopen w False) c of (ok, c1) \<Rightarrow>
        if ok = 0 then Ret c1
        else (case c_call e (Sys_fread w sz) c1 of (got, c2) \<Rightarrow> if got > 2048 then Fault else Ret c2))"
| "exec_stmt e (S_write_file w v) c =
     (case c_call e (Sys_fopen w True) c of (ok, c1) \<Rightarrow>
        if ok = 0 then Ret c1 else Ret (snd (c_call e (Sys_fwrite w (show_int v)) c1)))"
| "exec_stmt e (S_affinity cpu) c =
     then_do (of_option (set_cpu (int MAX_CPUS div 8) cpu [])) (\<lambda>cs. Ret (snd (c_call e (Sys_affinity cs) c)))"
| "exec_stmt e S_fork c =
     (case c_call e Sys_fork c of (pid, c1) \<Rightarrow> if pid = 0 then Child else Ret (c1\<lparr>c_forked := pid\<rparr>))"
| "exec_stmt e S_kill c =
     Ret (snd (c_call e (Sys_waitpid (c_forked c)) (snd (c_call e (Sys_kill (c_forked c)) c))))"
| "exec_stmt e (S_overflow fd) c = in_values fd
     (let k = Sys_fcntl (c_fd c ! nat fd); f = (\<lambda>c. snd (c_call e k c)) in Ret (f (f (f c))))"

fun exec_stmts :: "renv \<Rightarrow> c_stmt list \<Rightarrow> cstate \<Rightarrow> cstate outcome" where
  "exec_stmts e [] c = Ret c"
| "exec_stmts e (s # ss) c = then_do (exec_stmt e s c) (exec_stmts e ss)"

lemma exec_append: "exec_stmts e (ss @ ts) c = then_do (exec_stmts e ss c) (exec_stmts e ts)"
proof (induction ss arbitrary: c)
  case Nil
  then show ?case by simp
next
  case (Cons s ss)
  then show ?case by (cases "exec_stmt e s c") simp_all
qed

end
