(* ===== verification/TracepointNames.thy ===== *)
theory TracepointNames
  imports Prelude
begin

text \<open>
  The switch of \<open>perf_pretty_print_tracepoint\<close> in fuzzer/perf_attr_print.c: the names it knows for
  the numbers of tracepoints, in the order of its cases. The cases that \<open>#if 0\<close> leaves out are
  left out here.
\<close>

definition block_ext3_tracepoints :: "(int \<times> string) list" where
  "block_ext3_tracepoints =
     [(440, ''block_bio_backmerge''), (442, ''block_bio_bounce''), (441, ''block_bio_complete''),
      (439, ''block_bio_frontmerge''), (438, ''block_bio_queue''), (432, ''block/block_bio_remap''),
      (448, ''block/block_dirty_buffer''), (437, ''block/block_getrq''), (435, ''block/block_plug''),
      (447, ''block/block_rq_abort''), (445, ''block/block_rq_complete''),
      (444, ''block/block_rq_insert''), (443, ''block/block_rq_issue''),
      (431, ''block/block_rq_remap''), (446, ''block/block_rq_requeue''),
      (436, ''block/block_sleeprq''), (433, ''block/block_split''),
      (449, ''block/block_touch_buffer''), (434, ''block/block_unplug''),
      (192, ''ext3/ext3_allocate_blocks''), (208, ''ext3/ext3_allocate_inode''),
      (185, ''ext3/ext3_alloc_new_reservation''), (181, ''ext3/ext3_direct_IO_enter''),
      (180, ''ext3/ext3_direct_IO_exit''), (194, ''ext3/ext3_discard_blocks''),
      (186, ''ext3/ext3_discard_reservation''), (206, ''ext3/ext3_drop_inode''),
      (207, ''ext3/ext3_evict_inode''), (183, ''ext3/ext3_forget''), (191, ''ext3/ext3_free_blocks''),
      (210, ''ext3/ext3_free_inode''), (175, ''ext3/ext3_get_blocks_enter''),
      (174, ''ext3/ext3_get_blocks_exit''), (195, ''ext3/ext3_invalidatepage''),
      (201, ''ext3/ext3_journalled_write_end''), (198, ''ext3/ext3_journalled_writepage''),
      (173, ''ext3/ext3_load_inode''), (205, ''ext3/ext3_mark_inode_dirty''),
      (203, ''ext3/ext3_ordered_write_end''), (200, ''ext3/ext3_ordered_writepage''),
      (182, ''ext3/ext3_read_block_bitmap''), (197, ''ext3/ext3_readpage''),
      (196, ''ext3/ext3_releasepage''), (193, ''ext3/ext3_request_blocks''),
      (209, ''ext3/ext3_request_inode''), (184, ''ext3/ext3_reserved''),
      (187, ''ext3/ext3_rsv_window_add''), (190, ''ext3/ext3_sync_file_enter''),
      (189, ''ext3/ext3_sync_file_exit''), (188, ''ext3/ext3_sync_fs''),
      (177, ''ext3/ext3_truncate_enter''), (176, ''ext3/ext3_truncate_exit''),
      (179, ''ext3/ext3_unlink_enter''), (178, ''ext3/ext3_unlink_exit''),
      (202, ''ext3/ext3_writeback_write_end''), (199, ''ext3/ext3_writeback_writepage''),
      (204, ''ext3/ext3_write_begin''), (270, ''ext4/ext4_allocate_blocks''),
      (297, ''ext4/ext4_allocate_inode'')]"

definition ext4_tracepoints :: "(int \<times> string) list" where
  "ext4_tracepoints =
     [(215, ''ext4/ext4_es_find_delayed_extent_range_exit''), (228, ''ext4/ext4_ext_in_cache''),
      (237, ''ext4/ext4_ext_load_extent''), (241, ''ext4/ext4_ext_map_blocks_enter''),
      (239, ''ext4/ext4_ext_map_blocks_exit''), (229, ''ext4/ext4_ext_put_in_cache''),
      (220, ''ext4/ext4_ext_remove_space_done''), (221, ''ext4/ext4_ext_remove_space''),
      (222, ''ext4/ext4_ext_rm_idx''), (223, ''ext4/ext4_ext_rm_leaf''),
      (225, ''ext4/ext4_ext_show_extent''), (250, ''ext4/ext4_fallocate_enter''),
      (249, ''ext4/ext4_fallocate_exit''), (227, ''ext4/ext4_find_delalloc_range''),
      (260, ''ext4/ext4_forget''), (269, ''ext4/ext4_free_blocks''), (299, ''ext4/ext4_free_inode''),
      (230, ''ext4/ext4_get_implied_cluster_alloc_exit''),
      (226, ''ext4/ext4_get_reserved_cluster_alloc''), (240, ''ext4/ext4_ind_map_blocks_enter''),
      (238, ''ext4/ext4_ind_map_blocks_exit''), (280, ''ext4/ext4_invalidatepage''),
      (279, ''ext4/ext4_journalled_invalidatepage''), (289, ''ext4/ext4_journalled_write_end''),
      (235, ''ext4/ext4_journal_start''), (234, ''ext4/ext4_journal_start_reserved''),
      (253, ''ext4/ext4_load_inode_bitmap''), (236, ''ext4/ext4_load_inode''),
      (294, ''ext4/ext4_mark_inode_dirty''), (264, ''ext4/ext4_mballoc_alloc''),
      (262, ''ext4/ext4_mballoc_discard''), (261, ''ext4/ext4_mballoc_free''),
      (263, ''ext4/ext4_mballoc_prealloc''), (256, ''ext4/ext4_mb_bitmap_load''),
      (255, ''ext4/ext4_mb_buddy_bitmap_load''), (272, ''ext4/ext4_mb_discard_preallocations''),
      (276, ''ext4/ext4_mb_new_group_pa''), (277, ''ext4/ext4_mb_new_inode_pa''),
      (274, ''ext4/ext4_mb_release_group_pa''), (275, ''ext4/ext4_mb_release_inode_pa''),
      (248, ''ext4/ext4_punch_hole''), (254, ''ext4/ext4_read_block_bitmap_load'')]"

definition more_ext4_tracepoints :: "(int \<times> string) list" where
  "more_ext4_tracepoints =
     [(244, ''ext4/ext4_truncate_exit''), (247, ''ext4/ext4_unlink_enter''),
      (246, ''ext4/ext4_unlink_exit''), (292, ''ext4/ext4_write_begin''),
      (290, ''ext4/ext4_write_end''), (283, ''ext4/ext4_writepage''), (287, ''ext4/ext4_writepages''),
      (284, ''ext4/ext4_writepages_result''), (115, ''filemap/mm_filemap_add_to_page_cache''),
      (116, ''filemap/mm_filemap_delete_from_page_cache''), (1, ''ftrace/function''),
      (451, ''gpio/gpio_direction''), (450, ''gpio/gpio_value''), (47, ''irq/irq_handler_entry''),
      (46, ''irq/irq_handler_exit''), (45, ''irq/softirq_entry''), (44, ''irq/softirq_exit''),
      (43, ''irq/softirq_raise''), (23, ''irq_vectors/call_function_entry''),
      (22, ''irq_vectors/call_function_exit''), (21, ''irq_vectors/call_function_single_entry''),
      (20, ''irq_vectors/call_function_single_exit''), (29, ''irq_vectors/error_apic_entry''),
      (28, ''irq_vectors/error_apic_exit''), (25, ''irq_vectors/irq_work_entry''),
      (24, ''irq_vectors/irq_work_exit''), (35, ''irq_vectors/local_timer_entry''),
      (34, ''irq_vectors/local_timer_exit''), (33, ''irq_vectors/reschedule_entry''),
      (32, ''irq_vectors/reschedule_exit''), (31, ''irq_vectors/spurious_apic_entry''),
      (30, ''irq_vectors/spurious_apic_exit''), (17, ''irq_vectors/thermal_apic_entry''),
      (16, ''irq_vectors/thermal_apic_exit''), (19, ''irq_vectors/threshold_apic_entry''),
      (18, ''irq_vectors/threshold_apic_exit''), (27, ''irq_vectors/x86_platform_ipi_entry''),
      (26, ''irq_vectors/x86_platform_ipi_exit'')]"

definition irq_tracepoints :: "(int \<times> string) list" where
  "irq_tracepoints =
     [(142, ''kmem/kfree''), (146, ''kmem/kmalloc''), (144, ''kmem/kmalloc_node''),
      (145, ''kmem/kmem_cache_alloc''), (143, ''kmem/kmem_cache_alloc_node''),
      (141, ''kmem/kmem_cache_free''), (135, ''kmem/mm_page_alloc_extfrag''),
      (138, ''kmem/mm_page_alloc''), (137, ''kmem/mm_page_alloc_zone_locked''),
      (139, ''kmem/mm_page_free_batched''), (140, ''kmem/mm_page_free''),
      (136, ''kmem/mm_page_pcpu_drain''), (40, ''mce/mce_record''), (147, ''migrate/mm_migrate_pages'')]"

definition nfs_tracepoints :: "(int \<times> string) list" where
  "nfs_tracepoints =
     [(425, ''nfs4/nfs4_create_session''), (405, ''nfs4/nfs4_delegreturn_exit''),
      (386, ''nfs4/nfs4_delegreturn''), (384, ''nfs4/nfs4_lookup_root''), (428, ''nfs4/nfs4_renew''),
      (347, ''nfs/nfs_atomic_open_enter''), (369, ''nfs/nfs_refresh_inode_enter''),
      (368, ''nfs/nfs_refresh_inode_exit''), (337, ''nfs/nfs_remove_enter''),
      (336, ''nfs/nfs_remove_exit'')]"

definition power_tracepoints :: "(int \<times> string) list" where
  "power_tracepoints =
     [(36, ''nmi/nmi_handler''), (117, ''oom/oom_score_adj_update''),
      (118, ''pagemap/mm_lru_activate''), (119, ''pagemap/mm_lru_insertion''),
      (103, ''power/clock_disable''), (104, ''power/clock_enable''), (102, ''power/clock_set_rate''),
      (109, ''power/cpu_frequency''), (110, ''power/cpu_idle''),
      (107, ''power/device_pm_report_time''), (94, ''power/dev_pm_qos_add_request''),
      (92, ''power/dev_pm_qos_remove_request''), (93, ''power/dev_pm_qos_update_request''),
      (108, ''power/machine_suspend''), (100, ''power/pm_qos_add_request''),
      (98, ''power/pm_qos_remove_request''), (95, ''power/pm_qos_update_flags''),
      (99, ''power/pm_qos_update_request''), (97, ''power/pm_qos_update_request_timeout''),
      (96, ''power/pm_qos_update_target''), (101, ''power/power_domain_target''),
      (106, ''power/wakeup_source_activate''), (105, ''power/wakeup_source_deactivate''),
      (86, ''printk/console''), (463, ''random/credit_entropy_bits''),
      (461, ''random/extract_entropy''), (460, ''random/extract_entropy_user''),
      (462, ''random/get_random_bytes''), (465, ''random/mix_pool_bytes''),
      (464, ''random/mix_pool_bytes_nolock''), (452, ''ras/aer_event''),
      (39, ''raw_syscalls/sys_enter''), (38, ''raw_syscalls/sys_exit''), (67, ''rcu/rcu_utilization'')]"

definition sched_tracepoints :: "(int \<times> string) list" where
  "sched_tracepoints =
     [(455, ''regulator/regulator_disable_complete''), (456, ''regulator/regulator_disable''),
      (457, ''regulator/regulator_enable_complete''), (458, ''regulator/regulator_enable_delay''),
      (459, ''regulator/regulator_enable''), (453, ''regulator/regulator_set_voltage_complete''),
      (454, ''regulator/regulator_set_voltage''), (112, ''rpm/rpm_idle''), (113, ''rpm/rpm_resume''),
      (111, ''rpm/rpm_return_int''), (114, ''rpm/rpm_suspend''), (72, ''sched/sched_stat_sleep''),
      (73, ''sched/sched_stat_wait''), (81, ''sched/sched_switch''), (77, ''sched/sched_wait_task''),
      (83, ''sched/sched_wakeup''), (82, ''sched/sched_wakeup_new''),
      (483, ''scsi/scsi_dispatch_cmd_done''), (484, ''scsi/scsi_dispatch_cmd_error''),
      (485, ''scsi/scsi_dispatch_cmd_start''), (482, ''scsi/scsi_dispatch_cmd_timeout''),
      (481, ''scsi/scsi_eh_wakeup''), (61, ''signal/signal_deliver''), (62, ''signal/signal_generate'')]"

definition signal_tracepoints :: "(int \<times> string) list" where
  "signal_tracepoints =
     [(508, ''sunrpc/rpc_bind_status''), (509, ''sunrpc/rpc_call_status''),
      (507, ''sunrpc/rpc_connect_status''), (498, ''sunrpc/rpc_socket_close''),
      (500, ''sunrpc/rpc_socket_connect''), (499, ''sunrpc/rpc_socket_reset_connection''),
      (497, ''sunrpc/rpc_socket_shutdown''), (501, ''sunrpc/rpc_socket_state_change''),
      (506, ''sunrpc/rpc_task_begin''), (504, ''sunrpc/rpc_task_complete''),
      (505, ''sunrpc/rpc_task_run_action''), (503, ''sunrpc/rpc_task_sleep''),
      (502, ''sunrpc/rpc_task_wakeup''), (42, ''task/task_newtask''), (41, ''task/task_rename''),
      (51, ''timer/hrtimer_cancel''), (53, ''timer/hrtimer_expire_entry''),
      (52, ''timer/hrtimer_expire_exit''), (55, ''timer/hrtimer_init''), (54, ''timer/hrtimer_start''),
      (49, ''timer/itimer_expire''), (50, ''timer/itimer_state''), (48, ''timer/tick_stop''),
      (56, ''timer/timer_cancel''), (58, ''timer/timer_expire_entry''),
      (57, ''timer/timer_expire_exit''), (60, ''timer/timer_init''), (59, ''timer/timer_start''),
      (486, ''udp/udp_fail_queue_rcv_skb''), (124, ''vmscan/mm_shrink_slab_end''),
      (125, ''vmscan/mm_shrink_slab_start''), (131, ''vmscan/mm_vmscan_direct_reclaim_begin''),
      (128, ''vmscan/mm_vmscan_direct_reclaim_end''), (134, ''vmscan/mm_vmscan_kswapd_sleep''),
      (133, ''vmscan/mm_vmscan_kswapd_wake''), (123, ''vmscan/mm_vmscan_lru_isolate''),
      (120, ''vmscan/mm_vmscan_lru_shrink_inactive''), (122, ''vmscan/mm_vmscan_memcg_isolate''),
      (130, ''vmscan/mm_vmscan_memcg_reclaim_begin''), (127, ''vmscan/mm_vmscan_memcg_reclaim_end''),
      (129, ''vmscan/mm_vmscan_memcg_softlimit_reclaim_begin''),
      (126, ''vmscan/mm_vmscan_memcg_softlimit_reclaim_end''),
      (132, ''vmscan/mm_vmscan_wakeup_kswapd''), (121, ''vmscan/mm_vmscan_writepage''),
      (37, ''vsyscall/emulate_vsyscall''), (65, ''workqueue/workqueue_activate_work''),
      (63, ''workqueue/workqueue_execute_end''), (64, ''workqueue/workqueue_execute_start''),
      (66, ''workqueue/workqueue_queue_work''), (153, ''writeback/balance_dirty_pages''),
      (154, ''writeback/bdi_dirty_ratelimit''), (155, ''writeback/global_dirty_state''),
      (157, ''writeback/wbc_writepage''), (159, ''writeback/writeback_bdi_register''),
      (158, ''writeback/writeback_bdi_unregister''), (151, ''writeback/writeback_congestion_wait''),
      (170, ''writeback/writeback_dirty_inode'')]"

definition writeback_tracepoints :: "(int \<times> string) list" where
  "writeback_tracepoints =
     [(169, ''writeback/writeback_write_inode_start''), (164, ''writeback/writeback_written'')]"

definition tracepoint_cases :: "(int \<times> string) list" where
  "tracepoint_cases = block_ext3_tracepoints @ ext4_tracepoints @ more_ext4_tracepoints @ irq_tracepoints @
     nfs_tracepoints @ power_tracepoints @ sched_tracepoints @ signal_tracepoints @ writeback_tracepoints"

lemmas tracepoint_defs = tracepoint_cases_def block_ext3_tracepoints_def ext4_tracepoints_def more_ext4_tracepoints_def irq_tracepoints_def nfs_tracepoints_def power_tracepoints_def sched_tracepoints_def signal_tracepoints_def writeback_tracepoints_def

text \<open>The number is an \<open>int\<close>, compared as an unsigned one.\<close>

definition perf_pretty_print_tracepoint :: "int \<Rightarrow> string" where
  "perf_pretty_print_tracepoint n =
     (case map_of tracepoint_cases (n mod 2 ^ 32) of Some name \<Rightarrow> name | None \<Rightarrow> ''Unknown'')"

text \<open>The name is written inside a comment, which it does not end.\<close>

definition plain_name :: "string \<Rightarrow> bool" where
  "plain_name name = list_all (\<lambda>c. c \<noteq> CHR ''*'') name"

lemma tracepoint_cases_plain: "list_all (\<lambda>(i, name). plain_name name) tracepoint_cases"
  by code_simp

lemma tracepoint_no_star: "CHR ''*'' \<notin> set (perf_pretty_print_tracepoint n)"
  using tracepoint_cases_plain
  by (auto simp: perf_pretty_print_tracepoint_def plain_name_def list_all_iff dest: map_of_SomeD split: option.splits)

end
