(* ===== verification/AttrPrint.thy ===== *)
theory AttrPrint
  imports CCode TracepointNames
begin

text \<open>
  fuzzer/perf_attr_print.c: the attributes of an event, and the call that opens it, written as C.
  Everything is written to one stream: the callers that generate or show code pass \<open>stdout\<close>, on
  which one semicolon of \<open>perf_pretty_print_config\<close> goes whatever the stream. The copy of the
  file in perf_data_fuzzer knows fewer fields; its two functions that differ are at the end.
\<close>

section \<open>Names and bit masks\<close>

text \<open>The names of an enumeration that a function knows, with their values.\<close>

definition pick :: "(string \<times> u64) list \<Rightarrow> string list \<Rightarrow> (string \<times> u64) list" where
  "pick en ns = map (\<lambda>n. (n, the (map_of en n))) ns"

text \<open>A \<open>switch\<close> that prints the name of the value, or else the number.\<close>

definition name_or :: "c_exp \<Rightarrow> (string \<times> u64) list \<Rightarrow> u64 \<Rightarrow> c_exp" where
  "name_or e ns v = (case find (\<lambda>(n, m). m = v) ns of Some (n, m) \<Rightarrow> E_name n | None \<Rightarrow> e)"

text \<open>
  A chain of tests: the name of a mask that is set is printed and its bits are cleared, and the
  function returns when nothing is left; what is left at the end is printed as a number. Some
  tests look at the whole value instead of what is left of it.
\<close>

fun peel :: "(u64 \<Rightarrow> c_exp) \<Rightarrow> u64 \<Rightarrow> (string \<times> u64 \<times> bool) list \<Rightarrow> u64 \<Rightarrow> c_exp" where
  "peel number whole [] v = number v"
| "peel number whole ((n, m, of_whole) # ns) v =
     (if (if of_whole then whole else v) AND m \<noteq> 0 then
        (let left = v AND NOT m in
         if left = 0 then E_name n else E_or (E_name n) (peel number whole ns left))
      else peel number whole ns v)"

definition tests :: "bool \<Rightarrow> (string \<times> u64) list \<Rightarrow> (string \<times> u64 \<times> bool) list" where
  "tests of_whole = map (\<lambda>(n, m). (n, m, of_whole))"

definition perf_pretty_print_flags :: "u64 \<Rightarrow> c_exp" where
  "perf_pretty_print_flags flags =
     (if flags = 0 then E_dec 0
      else peel E_hex flags
        (tests False (pick flag_enum [''PERF_FLAG_FD_NO_GROUP'', ''PERF_FLAG_FD_OUTPUT'']) @
         tests True (pick flag_enum [''PERF_FLAG_PID_CGROUP'', ''PERF_FLAG_FD_CLOEXEC''])) flags)"

section \<open>Type and config\<close>

definition perf_pretty_print_type :: "u32 \<Rightarrow> c_exp" where
  "perf_pretty_print_type ty =
     name_or (E_dec (i32 (uint ty)))
       (pick type_enum [''PERF_TYPE_HARDWARE'', ''PERF_TYPE_SOFTWARE'', ''PERF_TYPE_TRACEPOINT'',
          ''PERF_TYPE_HW_CACHE'', ''PERF_TYPE_RAW'', ''PERF_TYPE_BREAKPOINT'']) (ucast ty)"

text \<open>The upper part of the config is shifted as a signed number.\<close>

definition perf_pretty_print_cache :: "u64 \<Rightarrow> c_exp" where
  "perf_pretty_print_cache config =
     (let cache_id = config AND 0xff; op_id = drop_bit 8 config AND 0xff;
          result_id = signed_drop_bit 16 config in
      E_cache
        (name_or (E_hex cache_id)
          (pick cache_enum [''PERF_COUNT_HW_CACHE_L1D'', ''PERF_COUNT_HW_CACHE_L1I'', ''PERF_COUNT_HW_CACHE_LL'',
             ''PERF_COUNT_HW_CACHE_DTLB'', ''PERF_COUNT_HW_CACHE_ITLB'', ''PERF_COUNT_HW_CACHE_BPU'',
             ''PERF_COUNT_HW_CACHE_NODE'']) cache_id)
        (name_or (E_hex op_id)
          (pick cache_op_enum [''PERF_COUNT_HW_CACHE_OP_READ'', ''PERF_COUNT_HW_CACHE_OP_WRITE'',
             ''PERF_COUNT_HW_CACHE_OP_PREFETCH'']) op_id)
        (name_or (E_hex result_id)
          (pick cache_result_enum [''PERF_COUNT_HW_CACHE_RESULT_ACCESS'', ''PERF_COUNT_HW_CACHE_RESULT_MISS''])
          result_id))"

definition hw_names :: "(string \<times> u64) list" where
  "hw_names = pick hw_enum
     [''PERF_COUNT_HW_CPU_CYCLES'', ''PERF_COUNT_HW_INSTRUCTIONS'', ''PERF_COUNT_HW_CACHE_REFERENCES'',
      ''PERF_COUNT_HW_CACHE_MISSES'', ''PERF_COUNT_HW_BRANCH_INSTRUCTIONS'', ''PERF_COUNT_HW_BRANCH_MISSES'',
      ''PERF_COUNT_HW_BUS_CYCLES'', ''PERF_COUNT_HW_STALLED_CYCLES_FRONTEND'',
      ''PERF_COUNT_HW_STALLED_CYCLES_BACKEND'', ''PERF_COUNT_HW_REF_CPU_CYCLES'']"

definition sw_names :: "(string \<times> u64) list" where
  "sw_names = pick sw_enum
     [''PERF_COUNT_SW_CPU_CLOCK'', ''PERF_COUNT_SW_TASK_CLOCK'', ''PERF_COUNT_SW_PAGE_FAULTS'',
      ''PERF_COUNT_SW_CONTEXT_SWITCHES'', ''PERF_COUNT_SW_CPU_MIGRATIONS'', ''PERF_COUNT_SW_PAGE_FAULTS_MIN'',
      ''PERF_COUNT_SW_PAGE_FAULTS_MAJ'', ''PERF_COUNT_SW_ALIGNMENT_FAULTS'',
      ''PERF_COUNT_SW_EMULATION_FAULTS'', ''PERF_COUNT_SW_DUMMY'']"

text \<open>
  The expression, and what is written behind it; a tracepoint is named in a comment. The types
  are those of hardware and software events, caches and tracepoints.
\<close>

definition perf_pretty_print_config :: "u32 \<Rightarrow> u64 \<Rightarrow> c_exp \<times> string" where
  "perf_pretty_print_config ty config =
     (if ty = 0 then (name_or (E_hex config) hw_names config, '';'')
      else if ty = 1 then (name_or (E_hex config) sw_names config, '';'')
      else if ty = 3 then (perf_pretty_print_cache config, '';'')
      else if ty = 2 then (E_hex config,
        ''; /* '' @ show_int (uint (config AND 0xffffffff)) @ '' '' @
          perf_pretty_print_tracepoint (i32 (uint config)) @ '' */'')
      else (E_hex config, '';''))"

section \<open>Sample types, formats, breakpoints\<close>

definition sample_names :: "(string \<times> u64) list" where
  "sample_names = pick sample_enum
     [''PERF_SAMPLE_IP'', ''PERF_SAMPLE_TID'', ''PERF_SAMPLE_TIME'', ''PERF_SAMPLE_ADDR'', ''PERF_SAMPLE_READ'',
      ''PERF_SAMPLE_CALLCHAIN'', ''PERF_SAMPLE_ID'', ''PERF_SAMPLE_CPU'', ''PERF_SAMPLE_PERIOD'',
      ''PERF_SAMPLE_STREAM_ID'', ''PERF_SAMPLE_RAW'', ''PERF_SAMPLE_BRANCH_STACK'', ''PERF_SAMPLE_REGS_USER'',
      ''PERF_SAMPLE_STACK_USER'', ''PERF_SAMPLE_WEIGHT'', ''PERF_SAMPLE_DATA_SRC'',
      ''PERF_SAMPLE_IDENTIFIER'', ''PERF_SAMPLE_TRANSACTION'']"

definition perf_pretty_print_sample_type :: "u64 \<Rightarrow> c_exp" where
  "perf_pretty_print_sample_type sample_type =
     (if sample_type = 0 then E_dec 0 else peel E_hex sample_type (tests False sample_names) sample_type)"

definition branch_names :: "(string \<times> u64) list" where
  "branch_names = pick branch_enum
     [''PERF_SAMPLE_BRANCH_USER'', ''PERF_SAMPLE_BRANCH_KERNEL'', ''PERF_SAMPLE_BRANCH_HV'',
      ''PERF_SAMPLE_BRANCH_ANY'', ''PERF_SAMPLE_BRANCH_ANY_CALL'', ''PERF_SAMPLE_BRANCH_ANY_RETURN'',
      ''PERF_SAMPLE_BRANCH_IND_CALL'', ''PERF_SAMPLE_BRANCH_IND_JUMP'', ''PERF_SAMPLE_BRANCH_ABORT_TX'',
      ''PERF_SAMPLE_BRANCH_IN_TX'', ''PERF_SAMPLE_BRANCH_NO_TX'', ''PERF_SAMPLE_BRANCH_COND'']"

definition perf_pretty_print_branch_sample_type :: "u64 \<Rightarrow> c_exp" where
  "perf_pretty_print_branch_sample_type branch_sample_type =
     (if branch_sample_type = 0 then E_dec 0
      else peel E_hex branch_sample_type (tests False branch_names) branch_sample_type)"

definition data_format_names :: "(string \<times> u64) list" where
  "data_format_names = pick format_enum
     [''PERF_FORMAT_TOTAL_TIME_ENABLED'', ''PERF_FORMAT_TOTAL_TIME_RUNNING'', ''PERF_FORMAT_ID'',
      ''PERF_FORMAT_GROUP'']"

definition format_names :: "(string \<times> u64) list" where
  "format_names = data_format_names @ pick format_enum [''PERF_FORMAT_LOST'']"

definition perf_pretty_print_read_format :: "u64 \<Rightarrow> c_exp" where
  "perf_pretty_print_read_format read_format =
     peel E_hex read_format (tests False format_names) read_format"

definition perf_pretty_print_breakpoint_type :: "u32 \<Rightarrow> c_exp" where
  "perf_pretty_print_breakpoint_type bp_type =
     (if bp_type = 0 then E_name ''HW_BREAKPOINT_EMPTY''
      else peel (\<lambda>v. E_xint (ucast v)) (ucast bp_type)
        (tests False (pick bp_enum [''HW_BREAKPOINT_R'', ''HW_BREAKPOINT_W'', ''HW_BREAKPOINT_X''])) (ucast bp_type))"

section \<open>An event\<close>

text \<open>Assignments end with a semicolon, some with a comment behind it.\<close>

definition semicolon :: string where "semicolon = '';'' @ newline"

definition comment :: "string \<Rightarrow> string" where
  "comment t = ''; /*'' @ t @ ''*/'' @ newline"

definition assign_if :: "bool \<Rightarrow> int \<Rightarrow> string \<Rightarrow> c_exp \<Rightarrow> c_stmt list" where
  "assign_if b fd f e = (if b then [S_assign fd f e semicolon] else [])"

text \<open>The four values of \<open>precise_ip\<close>; the other bit fields have one bit and are left out when clear.\<close>

definition skid :: "int \<Rightarrow> string" where
  "skid v = (if v = 0 then '' arbitrary skid '' else if v = 1 then '' constant skid ''
     else if v = 2 then '' request zero skid '' else '' must have zero skid '')"

definition print_bits :: "int \<Rightarrow> u64 \<Rightarrow> (string \<times> nat \<times> nat) list \<Rightarrow> c_stmt list" where
  "print_bits fd bits fs = concat (map (\<lambda>(f, pos, w).
     let v = get_bits pos w bits in
     if f = ''precise_ip'' then [S_assign fd f (E_dec v) (comment (skid v))]
     else assign_if (v \<noteq> 0) fd f (E_dec v)) fs)"

definition attr_flag :: "nat \<Rightarrow> perf_event_attr \<Rightarrow> bool" where
  "attr_flag pos a \<longleftrightarrow> get_bits pos 1 (a_bits a) \<noteq> 0"

definition print_head :: "int \<Rightarrow> perf_event_attr \<Rightarrow> c_stmt list" where
  "print_head fd a =
     [S_text newline, S_clear fd, S_assign fd ''type'' (perf_pretty_print_type (a_type a)) semicolon] @
     assign_if (a_size a \<noteq> 0) fd ''size'' (E_dec (i32 (uint (a_size a)))) @
     (case perf_pretty_print_config (a_type a) (a_config a) of (e, t) \<Rightarrow> [S_assign fd ''config'' e (t @ newline)]) @
     assign_if (a_sample_period a \<noteq> 0) fd (if attr_flag 10 a then ''sample_freq'' else ''sample_period'')
       (E_hex (a_sample_period a)) @
     [S_assign fd ''sample_type'' (perf_pretty_print_sample_type (a_sample_type a))
        (comment ('' '' @ show_hex (a_sample_type a) @ '' ''))]"

definition print_wakeup :: "int \<Rightarrow> perf_event_attr \<Rightarrow> c_stmt list" where
  "print_wakeup fd a =
     [S_assign fd (if attr_flag 14 a then ''wakeup_watermark'' else ''wakeup_events'')
        (E_dec (i32 (uint (a_wakeup_events a)))) semicolon]"

definition print_breakpoint :: "int \<Rightarrow> perf_event_attr \<Rightarrow> c_stmt list" where
  "print_breakpoint fd a =
     (if a_bp_type a = 0 then
        [S_assign fd ''bp_type'' (E_name ''HW_BREAKPOINT_EMPTY'') semicolon] @
        assign_if (a_config1 a \<noteq> 0) fd ''config1'' (E_hex (a_config1 a)) @
        assign_if (a_config2 a \<noteq> 0) fd ''config2'' (E_hex (a_config2 a))
      else
        [S_assign fd ''bp_type'' (perf_pretty_print_breakpoint_type (a_bp_type a))
           (comment (show_int (i32 (uint (a_bp_type a))))),
         S_assign fd ''bp_addr'' (E_hex (a_config1 a)) semicolon,
         S_assign fd ''bp_len'' (E_hex (a_config2 a)) semicolon]) @
     assign_if (a_branch_sample_type a \<noteq> 0) fd ''branch_sample_type''
       (perf_pretty_print_branch_sample_type (a_branch_sample_type a)) @
     assign_if (a_sample_regs_user a \<noteq> 0) fd ''sample_regs_user'' (E_ull (i64 (uint (a_sample_regs_user a))))"

definition print_tail :: "int \<Rightarrow> perf_event_attr \<Rightarrow> c_stmt list" where
  "print_tail fd a =
     assign_if (a_sample_stack_user a \<noteq> 0) fd ''sample_stack_user'' (E_xint (a_sample_stack_user a)) @
     assign_if (a_clockid a \<noteq> 0) fd ''clockid'' (E_dec (i32 (uint (a_clockid a)))) @
     assign_if (a_sample_regs_intr a \<noteq> 0) fd ''sample_regs_intr'' (E_ull (i64 (uint (a_sample_regs_intr a)))) @
     assign_if (a_aux_watermark a \<noteq> 0) fd ''aux_watermark'' (E_dec (i32 (uint (a_aux_watermark a)))) @
     assign_if (a_sample_max_stack a \<noteq> 0) fd ''sample_max_stack''
       (E_dec (signed_take_bit 15 (uint (a_sample_max_stack a)))) @
     assign_if (a_aux_sample_size a \<noteq> 0) fd ''aux_sample_size'' (E_dec (i32 (uint (a_aux_sample_size a))))"

definition perf_pretty_print_attr :: "int \<Rightarrow> perf_event_attr \<Rightarrow> c_stmt list" where
  "perf_pretty_print_attr fd a =
     print_head fd a @
     [S_assign fd ''read_format'' (perf_pretty_print_read_format (a_read_format a))
        (comment ('' '' @ show_hex (a_read_format a) @ '' ''))] @
     print_bits fd (a_bits a) attr_bits @ print_wakeup fd a @ print_breakpoint fd a @ print_tail fd a @
     [S_text newline]"

text \<open>The statements that open an event; the pid of the logging process stands for the own one.\<close>

definition perf_pretty_print_event ::
    "int \<Rightarrow> int \<Rightarrow> perf_event_attr \<Rightarrow> int \<Rightarrow> int \<Rightarrow> int \<Rightarrow> u64 \<Rightarrow> c_stmt list" where
  "perf_pretty_print_event fd own_pid a pid cpu group_fd flags =
     S_text (ln 0 [''/* fd = '', show_int fd, '' */'']) # perf_pretty_print_attr fd a @
     [S_open fd (if pid = own_pid then None else Some pid) cpu group_fd (perf_pretty_print_flags flags) flags,
      S_text newline]"

text \<open>One line of a list of events.\<close>

definition perf_pretty_print_event_short :: "int \<Rightarrow> perf_event_attr \<Rightarrow> string" where
  "perf_pretty_print_event_short fd a =
     show_int fd @ '':'' @ tab @ show_exp (perf_pretty_print_type (a_type a)) @ '', '' @
     (if a_type a = PERF_TYPE_BREAKPOINT then
        show_exp (perf_pretty_print_breakpoint_type (a_bp_type a)) @
        '', addr=0x'' @ show_hex (a_config1 a) @ '', len=0x'' @ show_hex (a_config2 a) @ newline
      else (case perf_pretty_print_config (a_type a) (a_config a) of (e, t) \<Rightarrow> show_exp e @ t @ newline))"

section \<open>Mappings\<close>

text \<open>Each name has a space behind it. \<open>MAP_FILE\<close> is 0 and never printed.\<close>

definition flag_words :: "(string \<times> u32) list \<Rightarrow> u32 \<Rightarrow> string" where
  "flag_words ns v = concat (map (\<lambda>(n, m). if v AND m \<noteq> 0 then n @ '' '' else []) ns)"

definition perf_pretty_print_mmap_prot :: "u32 \<Rightarrow> string" where
  "perf_pretty_print_mmap_prot prot =
     (if prot = 0 then ''PROT_NONE''
      else flag_words [(''PROT_READ'', 1), (''PROT_WRITE'', 2), (''PROT_EXEC'', 4)] prot)"

definition perf_pretty_print_mmap_flags :: "u32 \<Rightarrow> string" where
  "perf_pretty_print_mmap_flags flags = flag_words
     [(''MAP_SHARED'', 1), (''MAP_PRIVATE'', 2), (''MAP_32BIT'', 0x40), (''MAP_ANONYMOUS'', 0x20),
      (''MAP_DENYWRITE'', 0x800), (''MAP_EXECUTABLE'', 0x1000), (''MAP_FILE'', 0), (''MAP_FIXED'', 0x10),
      (''MAP_GROWSDOWN'', 0x100), (''MAP_HUGETLB'', 0x40000), (''MAP_LOCKED'', 0x2000),
      (''MAP_NONBLOCK'', 0x10000), (''MAP_NORESERVE'', 0x4000), (''MAP_POPULATE'', 0x8000),
      (''MAP_STACK'', 0x20000)] flags"

section \<open>The copy of perf_data_fuzzer\<close>

definition data_print_read_format :: "u64 \<Rightarrow> c_exp" where
  "data_print_read_format read_format =
     peel E_hex read_format (tests False data_format_names) read_format"

text \<open>The bit fields end with \<open>comm_exec\<close>, the fields with \<open>sample_stack_user\<close>, printed as \<open>%d\<close>.\<close>

definition data_print_attr :: "int \<Rightarrow> perf_event_attr \<Rightarrow> c_stmt list" where
  "data_print_attr fd a =
     print_head fd a @
     [S_assign fd ''read_format'' (data_print_read_format (a_read_format a))
        (comment ('' '' @ show_hex (a_read_format a) @ '' ''))] @
     print_bits fd (a_bits a) (take 24 attr_bits) @ print_wakeup fd a @ print_breakpoint fd a @
     assign_if (a_sample_stack_user a \<noteq> 0) fd ''sample_stack_user'' (E_dec (i32 (uint (a_sample_stack_user a)))) @
     [S_text newline]"

end
