(* ===== verification/LogToCode.thy ===== *)
theory LogToCode
  imports AttrPrint
begin

text \<open>
  fuzzer/log_to_code.c: each line of a log becomes the C statements that make its call. The
  generated program holds the descriptors it opens under the numbers of the log.
\<close>

text \<open>
  \<open>l_stack\<close> is what an uninitialised variable holds, by line and position in the format;
  messages on \<open>stderr\<close> are left out.
\<close>

record lstate =
  l_pid :: int
  l_line :: int
  l_syscalls :: int

type_synonym lstack = "int \<Rightarrow> nat \<Rightarrow> int"

definition code_args :: "lstack \<Rightarrow> lstate \<Rightarrow> conv list \<Rightarrow> string \<Rightarrow> nat \<Rightarrow> int" where
  "code_args st l = scanned (st (l_line l))"

section \<open>Lines of the log\<close>

definition code_mmap :: "lstack \<Rightarrow> string \<Rightarrow> lstate \<Rightarrow> c_stmt list" where
  "code_mmap st line l = (let a = code_args st l [C_d, C_d] line in [S_mmap (a 1) (a 0)])"

definition code_trash :: "lstack \<Rightarrow> string \<Rightarrow> lstate \<Rightarrow> c_stmt list" where
  "code_trash st line l = (let a = code_args st l [C_d, C_d, C_d] line in [S_trash (a 2) (a 0) (a 1)])"

definition code_munmap :: "lstack \<Rightarrow> string \<Rightarrow> lstate \<Rightarrow> c_stmt list" where
  "code_munmap st line l = (let a = code_args st l [C_d, C_d] line in [S_munmap (a 0) (a 1)])"

text \<open>The structure that is filled in is on the stack, and not cleared.\<close>

definition code_open :: "perf_event_attr \<Rightarrow> string \<Rightarrow> lstate \<Rightarrow> c_stmt list outcome" where
  "code_open stack_pe line l =
     (case parse_open_event line stack_pe of None \<Rightarrow> Fault
      | Some (orig_fd, pid, cpu, group_fd, flags, pe) \<Rightarrow>
        Ret (perf_pretty_print_event orig_fd (l_pid l) pe pid cpu group_fd flags @ [S_text newline]))"

definition code_close :: "lstack \<Rightarrow> string \<Rightarrow> lstate \<Rightarrow> c_stmt list" where
  "code_close st line l = [S_close (code_args st l [C_d] line 0)]"

text \<open>The argument is an \<open>int\<close> here; with its lowest bit set the name of the flag is put before it.\<close>

definition ioctl_arg_print :: "int \<Rightarrow> io_arg" where
  "ioctl_arg_print arg2 = (let arg = i32 arg2 in if arg AND 1 \<noteq> 0 then A_group arg else A_num arg)"

definition code_ioctl :: "lstack \<Rightarrow> string \<Rightarrow> lstate \<Rightarrow> c_stmt list" where
  "code_ioctl st line l =
     (let a = code_args st l [C_d, C_d, C_lld] line; fd = a 0; arg = a 1; arg2 = a 2 in
      if arg = i32 IOC_ENABLE then [S_ioctl fd (R_name ''PERF_EVENT_IOC_ENABLE'') (ioctl_arg_print arg2)]
      else if arg = i32 IOC_DISABLE then [S_ioctl fd (R_name ''PERF_EVENT_IOC_DISABLE'') (ioctl_arg_print arg2)]
      else if arg = i32 IOC_REFRESH then [S_ioctl fd (R_name ''PERF_EVENT_IOC_REFRESH'') (A_num arg2)]
      else if arg = i32 IOC_RESET then [S_ioctl fd (R_name ''PERF_EVENT_IOC_RESET'') (ioctl_arg_print arg2)]
      else if arg = i32 IOC_PERIOD then [S_period arg2, S_ioctl_period fd]
      else if arg = i32 IOC_SET_OUTPUT then
        [S_ioctl fd (R_name ''PERF_EVENT_IOC_SET_OUTPUT'') (if arg2 = - 1 then A_num arg2 else A_fd arg2)]
      else if arg = i32 IOC_SET_FILTER then [S_ioctl fd (R_name ''PERF_EVENT_IOC_SET_FILTER'') (A_num arg2)]
      else if arg = i32 IOC_ID then [S_ioctl_id fd]
      else [S_ioctl fd (R_num arg) (A_num arg2)])"

definition code_read :: "lstack \<Rightarrow> string \<Rightarrow> lstate \<Rightarrow> c_stmt list" where
  "code_read st line l = (let a = code_args st l [C_d, C_d] line in [S_read (a 0) (a 1)])"

definition code_prctl :: "string \<Rightarrow> c_stmt list" where
  "code_prctl line = (let vs = scan_convs [C_d] (drop 1 line) in [S_prctl (vs \<noteq> [] \<and> hd vs \<noteq> 0)])"

text \<open>A truncated line leaves its pairs, but no call.\<close>

definition code_poll :: "lstack \<Rightarrow> string \<Rightarrow> lstate \<Rightarrow> c_stmt list outcome" where
  "code_poll st line l =
     (let n = code_args st l [C_d] line 0 in
      case poll_pairs (nat n) (drop 2 (tokens (\<lambda>c. c = CHR '' '') line)) of (ps, rest) \<Rightarrow>
        if length ps > nat MAX_POLL_FDS then Fault
        else Ret (map (\<lambda>i. S_pollfd (int i) (fst (ps ! i)) (snd (ps ! i))) [0..<length ps] @
          (if rest = [] then [S_text (ln 1 [''/* poll() truncated */''])] else [S_poll n (atoi (hd rest))])))"

text \<open>Every type but 0 is a write.\<close>

definition code_access :: "lstack \<Rightarrow> string \<Rightarrow> lstate \<Rightarrow> c_stmt list outcome" where
  "code_access st line l =
     (let a = code_args st l [C_d, C_d, C_lld, C_d] line; type = a 0; which = a 1; sz = a 2 in
      if which \<ge> MAX_FILENAMES then Exit 1
      else if which < 0 then Fault
      else Ret [if type = 0 then S_read_file (nat which) sz else S_write_file (nat which) sz])"

definition code_affinity :: "lstack \<Rightarrow> string \<Rightarrow> lstate \<Rightarrow> c_stmt list outcome" where
  "code_affinity st line l =
     (case tokens delimiter line of
        _ # which_one # num_set # cpus \<Rightarrow>
          if length cpus > MAX_CPUS then Fault
          else Ret [S_text (ln 1 [''set_size=CPU_ALLOC_SIZE(max_cpus);'']),
            if atoi which_one = 0
            then S_affinity (case cpus of [] \<Rightarrow> st (l_line l) 0 | c # _ \<Rightarrow> atoi c)
            else S_text (ln 0 [''/* AFFINITY TYPE '', show_int (atoi which_one), '' NOT IMPLEMENTED */''])]
      | _ \<Rightarrow> Ret [])"

definition code_fork :: "string \<Rightarrow> c_stmt list" where
  "code_fork line = (let vs = scan_convs [C_d] (drop 1 line) in if vs \<noteq> [] \<and> hd vs \<noteq> 0 then [S_fork] else [S_kill])"

definition code_overflow :: "lstack \<Rightarrow> string \<Rightarrow> lstate \<Rightarrow> c_stmt list" where
  "code_overflow st line l = [S_overflow (code_args st l [C_d] line 0)]"

section \<open>The main loop\<close>

definition counted :: "c_stmt list outcome \<Rightarrow> lstate \<Rightarrow> (c_stmt list \<times> lstate) outcome" where
  "counted r l = then_do r (\<lambda>ss. Ret (ss, l\<lparr>l_syscalls := l_syscalls l + 1\<rparr>))"

definition code_line :: "lstack \<Rightarrow> perf_event_attr \<Rightarrow> string \<Rightarrow> lstate \<Rightarrow> (c_stmt list \<times> lstate) outcome" where
  "code_line st pe line l =
     (if line = [] then Ret ([], l)
      else if hd line = CHR ''A'' then counted (code_access st line l) l
      else if hd line = CHR ''a'' then counted (code_affinity st line l) l
      else if hd line = CHR ''C'' then counted (Ret (code_close st line l)) l
      else if hd line = CHR ''F'' then counted (Ret (code_fork line)) l
      else if hd line = CHR ''G'' then
        Ret ([], case scan_convs [C_d] (drop 1 line) of [] \<Rightarrow> l | p # _ \<Rightarrow> l\<lparr>l_pid := p\<rparr>)
      else if hd line = CHR ''I'' then counted (Ret (code_ioctl st line l)) l
      else if hd line = CHR ''M'' then counted (Ret (code_mmap st line l)) l
      else if hd line = CHR ''O'' then counted (code_open pe line l) l
      else if hd line = CHR ''o'' then counted (Ret (code_overflow st line l)) l
      else if hd line = CHR ''P'' then counted (Ret (code_prctl line)) l
      else if hd line = CHR ''p'' then counted (code_poll st line l) l
      else if hd line = CHR ''Q'' then counted (Ret (code_trash st line l)) l
      else if hd line = CHR ''R'' then counted (Ret (code_read st line l)) l
      else if hd line = CHR ''r'' then
        Ret ([S_text (ln 0 [''/* /proc/sys/kernel/perf_event_max_sample_rate was '',
          show_int (code_args st l [C_d] line 0), '' */''])], l)
      else if hd line = CHR ''S'' then
        Ret ([S_text (ln 0 [''/* Random Seed was '', show_int (code_args st l [C_d] line 0), '' */''])], l)
      else if hd line = CHR ''U'' then counted (Ret (code_munmap st line l)) l
      else Ret ([], l))"

text \<open>Each line is numbered in a comment.\<close>

fun code_lines ::
    "lstack \<Rightarrow> perf_event_attr \<Rightarrow> string list \<Rightarrow> lstate \<Rightarrow> (c_stmt list \<times> lstate) outcome" where
  "code_lines st pe [] l = Ret ([], l)"
| "code_lines st pe (line # ls) l =
     (let l1 = l\<lparr>l_line := l_line l + 1\<rparr> in
      then_do (code_line st pe line l1) (\<lambda>(ss, l2).
      then_do (code_lines st pe ls l2) (\<lambda>(ts, l3).
        Ret (S_text (ln 0 [''/* '', show_int (l_line l1), '' */'']) # ss @ ts, l3))))"

definition code_start :: lstate where
  "code_start = \<lparr>l_pid = - 1, l_line = 0, l_syscalls = 0\<rparr>"

section \<open>The program\<close>

text \<open>The lines before the calls, each with the tabs before it.\<close>

definition code_prologue :: "(nat \<times> string) list" where
  "code_prologue =
     [(0, ''#define _GNU_SOURCE 1''), (0, ''#include <stdio.h>''), (0, ''#include <unistd.h>''),
      (0, ''#include <fcntl.h>''), (0, ''#include <string.h>''), (0, ''#include <signal.h>''),
      (0, ''#include <sys/mman.h>''), (0, ''#include <sys/syscall.h>''),
      (0, ''#include <sys/ioctl.h>''), (0, ''#include <sys/prctl.h>''), (0, ''#include <sys/wait.h>''),
      (0, ''#include <poll.h>''), (0, ''#include <sched.h>''),
      (0, ''#include <linux/hw_breakpoint.h>''), (0, ''#include <linux/perf_event.h>''), (0, ''''),
      (0, ''static int fd[1024];''), (0, ''static struct perf_event_attr pe[1024];''),
      (0, ''static char *mmap_result[1024];''), (0, ''#define MAX_READ_SIZE 65536''),
      (0, ''static long long data[MAX_READ_SIZE];''), (0, ''''), (0, ''#define MAX_POLL_FDS 128''),
      (0, ''static struct pollfd pollfds[MAX_POLL_FDS];''), (0, ''''), (0, ''static long long id;''),
      (0, ''static long long period;''), (0, ''''), (0, ''static int status;''),
      (0, ''static int forked_pid;''), (0, ''''), (0, ''static struct sigaction sa;''),
      (0, ''static int overflows=0;''), (0, ''static int sigios=0;''), (0, ''''), (0, ''FILE *fff;''),
      (0, ''static int result;''), (0, ''static long long size;''), (0, ''static char buffer[2048];''),
      (0, ''''), (0, ''static void our_handler(int signum, siginfo_t *info, void *uc) {''),
      (1, ''int fd = info->si_fd;''), (1, ''int ret;''), (0, ''''), (1, ''overflows++;''),
      (1, ''ioctl(fd,PERF_EVENT_IOC_DISABLE,0);''), (1, ''if (sigios) return;''),
      (1, ''ret=ioctl(fd, PERF_EVENT_IOC_REFRESH,1);''), (0, ''}''), (0, ''''),
      (0, ''int perf_event_open(struct perf_event_attr *hw_event_uptr,''),
      (1, ''pid_t pid, int cpu, int group_fd, unsigned long flags) {''), (0, ''''),
      (1, ''return syscall(__NR_perf_event_open,hw_event_uptr, pid, cpu,''),
      (2, ''group_fd, flags);''), (0, ''}''), (0, ''''), (0, ''int main(int argc, char **argv) {''),
      (0, ''''), (1, ''int i;''), (1, ''for(i=0;i<1024;i++) fd[i]=-1;''), (0, ''''),
      (0, ''#define MAX_CPUS 1024''), (0, ''static cpu_set_t *cpu_mask;''),
      (0, ''int max_cpus=MAX_CPUS;''), (0, ''size_t set_size;''),
      (0, ''cpu_mask=CPU_ALLOC(max_cpus);'')]"

definition code_header :: "string \<Rightarrow> string" where
  "code_header name = ln 0 [''/* log_to_code output from '', name, '' */''] @
     ln 0 [''/* by Vince Weaver <vincent.weaver _at_ maine.edu> */''] @ newline @
     concat (map (\<lambda>(n, t). ln n [t]) code_prologue)"

definition code_footer :: "lstate \<Rightarrow> string" where
  "code_footer l = newline @ newline @ ln 1 [''/* Replayed '', show_int (l_syscalls l), '' syscalls */''] @
     ln 1 [''return 0;''] @ ln 0 [''}'']"

definition log_to_code :: "lstack \<Rightarrow> perf_event_attr \<Rightarrow> string \<Rightarrow> string \<Rightarrow> string outcome" where
  "log_to_code st pe name file =
     then_do (code_lines st pe (read_lines file) code_start) (\<lambda>(ss, l).
       Ret (code_header name @ concat (map show_stmt ss) @ code_footer l))"

section \<open>filter_log\<close>

text \<open>fuzzer/filter_log.c: a log without the lines that begin with one letter.\<close>

definition filter_log :: "char \<Rightarrow> string \<Rightarrow> string" where
  "filter_log k file = concat (filter (\<lambda>l. hd l \<noteq> k) (read_lines file))"

end
