(* ===== verification/AttrPrintTheorems.thy ===== *)
theory AttrPrintTheorems
  imports LogToCode ReplayTheorems
begin

text \<open>
  The C that is printed for an attribute structure means that structure: every name is declared
  with the value it was printed for, every expression has the value of the field, and running
  the assignments gives back the attributes.
\<close>

section \<open>Names\<close>

definition declared :: "(string \<times> u64) list \<Rightarrow> bool" where
  "declared ns \<longleftrightarrow> (\<forall>(n, v) \<in> set ns. c_const n = Some v)"

lemma declared_simps [simp]: "declared (xs @ ys) \<longleftrightarrow> declared xs \<and> declared ys"
  by (auto simp: declared_def)

lemma declared_pick:
  assumes "en \<in> set c_enums" and "list_all (\<lambda>n. map_of en n \<noteq> None) ns"
  shows "declared (pick en ns)"
proof -
  have "c_const n = Some (the (map_of en n))" if "n \<in> set ns" for n
    using assms(2) that c_const_enum [OF assms(1) map_of_SomeD] by (auto simp: list_all_iff)
  then show ?thesis by (auto simp: declared_def pick_def)
qed

lemma in_c_enums:
  "type_enum \<in> set c_enums" "hw_enum \<in> set c_enums" "cache_enum \<in> set c_enums" "cache_op_enum \<in> set c_enums"
  "cache_result_enum \<in> set c_enums" "sw_enum \<in> set c_enums" "sample_enum \<in> set c_enums"
  "branch_enum \<in> set c_enums" "format_enum \<in> set c_enums" "flag_enum \<in> set c_enums" "bp_enum \<in> set c_enums"
  by (simp_all add: c_enums_def)

lemma declared_hw: "declared hw_names"
  unfolding hw_names_def by (rule declared_pick [OF in_c_enums(2)]) (simp add: hw_enum_def)

lemma declared_sw: "declared sw_names"
  unfolding sw_names_def by (rule declared_pick [OF in_c_enums(6)]) (simp add: sw_enum_def)

lemma declared_sample: "declared sample_names"
  unfolding sample_names_def by (rule declared_pick [OF in_c_enums(7)]) (simp add: sample_enum_def)

lemma declared_branch: "declared branch_names"
  unfolding branch_names_def by (rule declared_pick [OF in_c_enums(8)]) (simp add: branch_enum_def)

lemma declared_formats: "declared format_names" "declared data_format_names"
  unfolding format_names_def data_format_names_def declared_simps
  by (intro conjI declared_pick [OF in_c_enums(9)]; simp add: format_enum_def)+

lemma name_or_value:
  assumes "declared ns"
  shows "eval_exp (name_or e ns v) = Some v \<or> name_or e ns v = e"
  using assms
  by (auto simp: name_or_def declared_def split: option.splits dest!: find_Some_iff [THEN iffD1] nth_mem)

section \<open>Masks\<close>

definition one_bit :: "u64 \<Rightarrow> bool" where
  "one_bit m \<longleftrightarrow> (\<exists>k. m = 2 ^ k)"

definition single_bits :: "(string \<times> u64) list \<Rightarrow> bool" where
  "single_bits ns \<longleftrightarrow> (\<forall>(n, m) \<in> set ns. one_bit m)"

lemma split_mask:
  fixes v :: u64
  assumes "v AND 2 ^ k \<noteq> 0"
  shows "2 ^ k OR (v AND NOT (2 ^ k)) = v"
proof -
  from assms obtain i where "bit (v AND 2 ^ k) i" by (auto simp: bit_eq_iff)
  then have "bit v k" by (auto simp: bit_simps)
  then show ?thesis by (intro bit_word_eqI) (auto simp: bit_simps)
qed

text \<open>A test of the whole value tests what is left, too, when the masks before it are other bits.\<close>

fun apart :: "(string \<times> u64 \<times> bool) list \<Rightarrow> bool" where
  "apart [] \<longleftrightarrow> True"
| "apart ((n, m, w) # ns) \<longleftrightarrow> (\<forall>(n', m', w') \<in> set ns. w' \<longrightarrow> m AND m' = 0) \<and> apart ns"

lemma apart_bits: "m AND m' = 0 \<Longrightarrow> \<not> (bit m i \<and> bit m' i)" for m m' :: u64
proof
  assume zero: "m AND m' = 0" and "bit m i \<and> bit m' i"
  then have "bit (m AND m') i" unfolding bit_and_iff by simp
  then show False unfolding zero by simp
qed

lemma peel_value:
  assumes "\<forall>(n, m, w) \<in> set ns. c_const n = Some m \<and> one_bit m \<and> (w \<longrightarrow> whole AND m = v AND m)"
    and "apart ns" and "\<And>x. x AND v = x \<Longrightarrow> eval_exp (number x) = Some x"
  shows "eval_exp (peel number whole ns v) = Some v"
  using assms
proof (induction number whole ns v rule: peel.induct)
  case (1 number whole v)
  then show ?case by simp
next
  case (2 number whole n m w ns v)
  have test: "(if w then whole else v) AND m = v AND m" using 2(3) by auto
  obtain k where m: "m = 2 ^ k" "c_const n = Some m" using 2(3) by (auto simp: one_bit_def)
  show ?case
  proof (cases "v AND m = 0")
    case True
    then show ?thesis using 2 test by auto
  next
    case False
    let ?left = "v AND NOT m"
    have all: "m OR ?left = v" using split_mask [of v k] False m by simp
    have pres: "whole AND m' = ?left AND m'" if "(n', m', True) \<in> set ns" for n' m'
    proof -
      have "m AND m' = 0" using 2(4) that by auto
      from apart_bits [OF this] have "?left AND m' = v AND m'"
        by (intro bit_word_eqI) (auto simp: bit_simps)
      then show ?thesis using 2(3) that by auto
    qed
    have sub: "x AND v = x" if "x AND ?left = x" for x
    proof -
      have "(x AND ?left) AND v = x AND ?left" by (intro bit_word_eqI) (auto simp: bit_simps)
      with that show ?thesis by simp
    qed
    have IH: "eval_exp (peel number whole ns ?left) = Some ?left" if "?left \<noteq> 0"
    proof (rule 2(1))
      show "(if w then whole else v) AND m \<noteq> 0" using test False by simp
      show "\<forall>(n, m, w) \<in> set ns. c_const n = Some m \<and> one_bit m \<and> (w \<longrightarrow> whole AND m = ?left AND m)"
        using 2(3) pres by auto
    qed (use 2(4,5) sub that in auto)
    show ?thesis
      using False test IH m(2) all by (auto simp: Let_def)
  qed
qed

lemma peel_tests:
  assumes "declared ns" and "single_bits ns" and "\<And>x. x AND v = x \<Longrightarrow> eval_exp (number x) = Some x"
  shows "eval_exp (peel number w (tests False ns) v) = Some v"
proof (rule peel_value)
  show "apart (tests False ns)"
    by (induction ns) (auto simp: tests_def)
qed (use assms in \<open>auto simp: tests_def declared_def single_bits_def\<close>)


section \<open>Expressions\<close>

lemma single_bits_powers:
  assumes "map snd ns = map (\<lambda>k. 2 ^ k) ks"
  shows "single_bits ns"
proof -
  have "snd ` set ns = (\<lambda>k. 2 ^ k) ` set ks" using arg_cong [OF assms, of set] by simp
  then show ?thesis unfolding single_bits_def one_bit_def by force
qed

lemma single_sample: "single_bits sample_names"
  by (rule single_bits_powers [of _ "[0..<18]"]) (simp add: sample_names_def pick_def sample_enum_def upt_rec)

lemma single_branch: "single_bits branch_names"
  by (rule single_bits_powers [of _ "[0, 1, 2, 3, 4, 5, 6, 12, 7, 8, 9, 10]"])
    (simp add: branch_names_def pick_def branch_enum_def)

lemma single_formats: "single_bits format_names" "single_bits data_format_names"
  by (rule single_bits_powers [of _ "[0, 1, 2, 3, 4]"] single_bits_powers [of _ "[0, 1, 2, 3]"];
      simp add: format_names_def data_format_names_def pick_def format_enum_def)+

lemma eval_sample_type: "eval_exp (perf_pretty_print_sample_type v) = Some v"
  by (simp add: perf_pretty_print_sample_type_def peel_tests declared_sample single_sample)

lemma eval_branch: "eval_exp (perf_pretty_print_branch_sample_type v) = Some v"
  by (simp add: perf_pretty_print_branch_sample_type_def peel_tests declared_branch single_branch)

lemma eval_read_format:
  "eval_exp (perf_pretty_print_read_format v) = Some v" "eval_exp (data_print_read_format v) = Some v"
  by (simp_all add: perf_pretty_print_read_format_def data_print_read_format_def peel_tests declared_formats single_formats)

lemma ucast_32: "ucast (ucast v :: u64) = (v :: u32)" "(x :: u64) AND ucast v = x \<Longrightarrow> ucast (ucast x :: u32) = x"
proof -
  show "ucast (ucast v :: u64) = (v :: u32)" by (rule bit_word_eqI) (simp add: bit_simps)
  assume x: "x AND ucast v = x"
  have "bit x i \<Longrightarrow> i < 32" for i
    using arg_cong [OF x, of "\<lambda>x. bit x i"] by (auto simp: bit_simps dest: bit_imp_le_length)
  then show "ucast (ucast x :: u32) = x" by (intro bit_word_eqI) (auto simp: bit_simps)
qed

lemma eval_breakpoint: "eval_exp (perf_pretty_print_breakpoint_type v) = Some (ucast v)"
proof (cases "v = 0")
  case True
  have "(''HW_BREAKPOINT_EMPTY'', 0) \<in> set bp_enum" by (simp add: bp_enum_def)
  with True show ?thesis using c_const_enum [OF in_c_enums(11)] by (simp add: perf_pretty_print_breakpoint_type_def)
next
  case False
  let ?ns = "pick bp_enum [''HW_BREAKPOINT_R'', ''HW_BREAKPOINT_W'', ''HW_BREAKPOINT_X'']"
  have "declared ?ns" by (rule declared_pick [OF in_c_enums(11)]) (simp add: bp_enum_def)
  moreover have "single_bits ?ns"
    by (rule single_bits_powers [of _ "[0, 1, 2]"]) (simp add: pick_def bp_enum_def)
  moreover have "eval_exp (E_xint (ucast x)) = Some x" if "x AND ucast v = x" for x
    using ucast_32(2) [OF that] by simp
  ultimately show ?thesis
    using False peel_tests [of ?ns "ucast v" "\<lambda>v. E_xint (ucast v)" "ucast v"]
    by (simp add: perf_pretty_print_breakpoint_type_def)
qed

lemma eval_flags: "eval_exp (perf_pretty_print_flags v) = Some v"
proof (cases "v = 0")
  case True
  then show ?thesis by (simp add: perf_pretty_print_flags_def)
next
  case False
  let ?a = "pick flag_enum [''PERF_FLAG_FD_NO_GROUP'', ''PERF_FLAG_FD_OUTPUT'']"
  let ?b = "pick flag_enum [''PERF_FLAG_PID_CGROUP'', ''PERF_FLAG_FD_CLOEXEC'']"
  have "declared (?a @ ?b)"
    unfolding declared_simps by (intro conjI declared_pick [OF in_c_enums(10)]; simp add: flag_enum_def)
  moreover have "single_bits (?a @ ?b)"
    by (rule single_bits_powers [of _ "[0, 1, 2, 3]"]) (simp add: pick_def flag_enum_def)
  ultimately have "\<forall>(n, m, w) \<in> set (tests False ?a @ tests True ?b).
      c_const n = Some m \<and> one_bit m \<and> (w \<longrightarrow> v AND m = v AND m)"
    by (auto simp: declared_def single_bits_def tests_def)
  moreover have "apart (tests False ?a @ tests True ?b)"
    by (simp add: pick_def tests_def flag_enum_def)
  ultimately have "eval_exp (peel E_hex v (tests False ?a @ tests True ?b) v) = Some v"
    by (rule peel_value) simp
  with False show ?thesis by (simp add: perf_pretty_print_flags_def)
qed

lemma eval_cache: "eval_exp (perf_pretty_print_cache v) = Some v"
proof -
  have name: "eval_exp (name_or (E_hex x) ns x) = Some x" if "declared ns" for ns x
    using name_or_value [OF that, of "E_hex x" x] by auto
  have "v = take_bit 8 v OR push_bit 8 (take_bit 8 (drop_bit 8 v)) OR push_bit 16 (signed_drop_bit 16 v)"
  proof (rule bit_word_eqI)
    fix i assume "i < LENGTH(64)"
    then show "bit v i = bit (take_bit 8 v OR push_bit 8 (take_bit 8 (drop_bit 8 v)) OR push_bit 16 (signed_drop_bit 16 v)) i"
      by (cases "i < 16") (auto simp: bit_simps)
  qed
  then have "v = (v AND 0xff) OR push_bit 8 (drop_bit 8 v AND 0xff) OR push_bit 16 (signed_drop_bit 16 v)"
    by (simp add: take_bit_eq_mask mask_eq_exp_minus_1)
  moreover have "declared (pick cache_enum [''PERF_COUNT_HW_CACHE_L1D'', ''PERF_COUNT_HW_CACHE_L1I'',
      ''PERF_COUNT_HW_CACHE_LL'', ''PERF_COUNT_HW_CACHE_DTLB'', ''PERF_COUNT_HW_CACHE_ITLB'',
      ''PERF_COUNT_HW_CACHE_BPU'', ''PERF_COUNT_HW_CACHE_NODE''])"
    by (rule declared_pick [OF in_c_enums(3)]) (simp add: cache_enum_def)
  moreover have "declared (pick cache_op_enum [''PERF_COUNT_HW_CACHE_OP_READ'', ''PERF_COUNT_HW_CACHE_OP_WRITE'',
      ''PERF_COUNT_HW_CACHE_OP_PREFETCH''])"
    by (rule declared_pick [OF in_c_enums(4)]) (simp add: cache_op_enum_def)
  moreover have "declared (pick cache_result_enum [''PERF_COUNT_HW_CACHE_RESULT_ACCESS'', ''PERF_COUNT_HW_CACHE_RESULT_MISS''])"
    by (rule declared_pick [OF in_c_enums(5)]) (simp add: cache_result_enum_def)
  ultimately show ?thesis
    by (simp add: perf_pretty_print_cache_def Let_def name or.assoc)
qed

lemma eval_config: "eval_exp (fst (perf_pretty_print_config ty v)) = Some v"
  using name_or_value [OF declared_hw, of "E_hex v" v] name_or_value [OF declared_sw, of "E_hex v" v]
  by (auto simp: perf_pretty_print_config_def eval_cache)

lemma signed_value:
  "ucast (word_of_int (i32 (uint v)) :: u64) = (v :: u32)"
  "word_of_int (i64 (uint w)) = (w :: u64)"
  "ucast (word_of_int (signed_take_bit 15 (uint x)) :: u64) = (x :: u16)"
  by (rule bit_word_eqI; simp add: bit_simps i32_def i64_def bit_uint_iff)+

lemma eval_type: "\<exists>v. eval_exp (perf_pretty_print_type ty) = Some v \<and> ucast v = ty"
proof -
  let ?ns = "pick type_enum [''PERF_TYPE_HARDWARE'', ''PERF_TYPE_SOFTWARE'', ''PERF_TYPE_TRACEPOINT'',
     ''PERF_TYPE_HW_CACHE'', ''PERF_TYPE_RAW'', ''PERF_TYPE_BREAKPOINT'']"
  have "declared ?ns" by (rule declared_pick [OF in_c_enums(1)]) (simp add: type_enum_def)
  from name_or_value [OF this, of "E_dec (i32 (uint ty))" "ucast ty"] show ?thesis
    by (auto simp: perf_pretty_print_type_def ucast_32 signed_value)
qed

section \<open>Fields\<close>

lemma distinct_field_names: "distinct (map fst attr_bits @ map fst attr_fields)"
  by (rule distinct_by_last, unfold attr_bits_def attr_fields_def list.map fst_conv append_Cons append_Nil) code_simp

lemma distinct_attr_bits: "distinct (map fst attr_bits)" and distinct_attr_fields: "distinct (map fst attr_fields)"
  using distinct_field_names by simp_all

lemma set_bit_field:
  "(f, pos, w) \<in> set attr_bits \<Longrightarrow> set_field f v a = Some (a\<lparr>a_bits := put_bits pos w (uint v) (a_bits a)\<rparr>)"
  using map_of_is_SomeI [OF distinct_attr_bits] by (simp add: set_field_def)

lemma set_plain_field: "(f, g) \<in> set attr_fields \<Longrightarrow> set_field f v a = Some (g v a)"
proof -
  assume f: "(f, g) \<in> set attr_fields"
  then have "map_of attr_fields f = Some g" using map_of_is_SomeI [OF distinct_attr_fields] by blast
  moreover have "map_of attr_bits f = None"
    using distinct_field_names f by (force simp: map_of_eq_None_iff)
  ultimately show ?thesis by (simp add: set_field_def)
qed

lemma set_fields [simp]:
  "set_field ''type'' v a = Some (a\<lparr>a_type := ucast v\<rparr>)" "set_field ''size'' v a = Some (a\<lparr>a_size := ucast v\<rparr>)"
  "set_field ''config'' v a = Some (a\<lparr>a_config := v\<rparr>)"
  "set_field ''sample_period'' v a = Some (a\<lparr>a_sample_period := v\<rparr>)"
  "set_field ''sample_freq'' v a = Some (a\<lparr>a_sample_period := v\<rparr>)"
  "set_field ''sample_type'' v a = Some (a\<lparr>a_sample_type := v\<rparr>)"
  "set_field ''read_format'' v a = Some (a\<lparr>a_read_format := v\<rparr>)"
  "set_field ''wakeup_events'' v a = Some (a\<lparr>a_wakeup_events := ucast v\<rparr>)"
  "set_field ''wakeup_watermark'' v a = Some (a\<lparr>a_wakeup_events := ucast v\<rparr>)"
  "set_field ''bp_type'' v a = Some (a\<lparr>a_bp_type := ucast v\<rparr>)"
  "set_field ''bp_addr'' v a = Some (a\<lparr>a_config1 := v\<rparr>)" "set_field ''config1'' v a = Some (a\<lparr>a_config1 := v\<rparr>)"
  "set_field ''bp_len'' v a = Some (a\<lparr>a_config2 := v\<rparr>)" "set_field ''config2'' v a = Some (a\<lparr>a_config2 := v\<rparr>)"
  "set_field ''branch_sample_type'' v a = Some (a\<lparr>a_branch_sample_type := v\<rparr>)"
  "set_field ''sample_regs_user'' v a = Some (a\<lparr>a_sample_regs_user := v\<rparr>)"
  "set_field ''sample_stack_user'' v a = Some (a\<lparr>a_sample_stack_user := ucast v\<rparr>)"
  "set_field ''clockid'' v a = Some (a\<lparr>a_clockid := ucast v\<rparr>)"
  "set_field ''sample_regs_intr'' v a = Some (a\<lparr>a_sample_regs_intr := v\<rparr>)"
  "set_field ''aux_watermark'' v a = Some (a\<lparr>a_aux_watermark := ucast v\<rparr>)"
  "set_field ''sample_max_stack'' v a = Some (a\<lparr>a_sample_max_stack := ucast v\<rparr>)"
  "set_field ''aux_sample_size'' v a = Some (a\<lparr>a_aux_sample_size := ucast v\<rparr>)"
  by (rule set_plain_field; simp add: attr_fields_def)+

section \<open>Running assignments\<close>

text \<open>What statements on one structure do to it.\<close>

fun run_attr :: "c_stmt list \<Rightarrow> perf_event_attr \<Rightarrow> perf_event_attr option" where
  "run_attr [] a = Some a"
| "run_attr (S_text t # ss) a = run_attr ss a"
| "run_attr (S_clear fd # ss) a = run_attr ss zero_pe"
| "run_attr (S_assign fd f x t # ss) a = do { v \<leftarrow> eval_exp x; b \<leftarrow> set_field f v a; run_attr ss b }"
| "run_attr (s # ss) a = None"

fun on_attr :: "int \<Rightarrow> c_stmt \<Rightarrow> bool" where
  "on_attr fd (S_text t) \<longleftrightarrow> True"
| "on_attr fd (S_clear k) \<longleftrightarrow> k = fd"
| "on_attr fd (S_assign k f x t) \<longleftrightarrow> k = fd"
| "on_attr fd s \<longleftrightarrow> False"

lemma exec_run_attr:
  assumes "list_all (on_attr fd) ss" and "run_attr ss (c_pe c ! nat fd) = Some a"
    and "0 \<le> fd" "fd < NUM_VALUES" "length (c_pe c) = nat NUM_VALUES"
  shows "exec_stmts e ss c = Ret (c\<lparr>c_pe := (c_pe c)[nat fd := a]\<rparr>)"
  using assms
proof (induction ss arbitrary: c)
  case Nil
  then show ?case by auto
next
  case (Cons s ss)
  have idx: "nat fd < length (c_pe c)" using Cons.prems(3-5) by (simp add: NUM_VALUES_def)
  note IH = Cons.IH [OF _ _ Cons.prems(3,4)]
  show ?case
  proof (cases s)
    case (S_text t)
    then show ?thesis using Cons by simp
  next
    case (S_clear k)
    then show ?thesis
      using Cons.prems idx by (simp add: in_values_def IH)
  next
    case (S_assign k f x t)
    then show ?thesis
      using Cons.prems idx by (auto simp: in_values_def IH bind_eq_Some_conv)
  qed (use Cons.prems(1) in simp_all)
qed

lemma run_if:
  assumes "eval_exp e = Some v" and "set_field f v a = Some b" and "\<not> p \<Longrightarrow> b = a"
  shows "run_attr (assign_if p fd f e @ r) a = run_attr r b"
  using assms by (auto simp: assign_if_def)

lemma get_bits_int:
  assumes "(f, pos, w) \<in> set attr_bits"
  shows "uint (word_of_int (get_bits pos w b) :: u64) = get_bits pos w b"
  by (simp add: get_bits_def)

lemma put_zero:
  assumes "\<And>i. pos \<le> i \<Longrightarrow> i < pos + w \<Longrightarrow> \<not> bit b i" and "v = 0"
  shows "put_bits pos w v b = b"
  unfolding put_bits_def using assms by (intro bit_word_eqI) (auto simp: bit_simps)

lemma run_bits:
  assumes "contiguous lo fs hi" and "set fs \<subseteq> set attr_bits" and "hi \<le> 64"
    and "\<And>i. lo \<le> i \<Longrightarrow> i < hi \<Longrightarrow> \<not> bit (a_bits x) i"
  shows "run_attr (print_bits fd src fs @ r) x = run_attr r (x\<lparr>a_bits :=
     fold (\<lambda>((nm, pos, w), v) b. put_bits pos w v b)
       (zip fs (map (\<lambda>(nm, pos, w). get_bits pos w src) fs)) (a_bits x)\<rparr>)"
  using assms
proof (induction lo fs hi arbitrary: x rule: contiguous.induct)
  case (1 a e)
  then show ?case by (simp add: print_bits_def)
next
  case (2 a f pos w fs e)
  let ?v = "get_bits pos w src"
  let ?x = "x\<lparr>a_bits := put_bits pos w ?v (a_bits x)\<rparr>"
  have f: "(f, pos, w) \<in> set attr_bits" and ae: "a + w \<le> e" "pos = a"
    using 2(2,3) contiguous_le by auto
  have set: "set_field f (word_of_int ?v) x = Some ?x"
    using set_bit_field [OF f] get_bits_int [OF f] by simp
  have skip: "?x = x" if "?v = 0"
    using put_zero [of pos w "a_bits x" ?v] 2(5) that ae by simp
  have "run_attr (print_bits fd src ((f, pos, w) # fs) @ r) x = run_attr (print_bits fd src fs @ r) ?x"
  proof (cases "f = ''precise_ip''")
    case True
    then show ?thesis using set by (simp add: print_bits_def Let_def)
  next
    case False
    then show ?thesis
      using run_if [OF _ set, of "E_dec ?v" "?v \<noteq> 0" fd] skip by (simp add: print_bits_def Let_def)
  qed
  moreover have "\<not> bit (a_bits ?x) i" if "a + w \<le> i" "i < e" for i
    using bit_put [of i pos w src "a_bits x"] 2(4,5) that ae by simp
  ultimately show ?case using 2 by simp
qed

lemma run_all_bits:
  assumes "a_bits x = 0"
  shows "run_attr (print_bits fd src attr_bits @ r) x = run_attr r (x\<lparr>a_bits := src AND mask 38\<rparr>)"
  using run_bits [OF attr_bits_contiguous, of x fd src r] store_get_bits [of src 0] assms
  by (simp add: store_bits_def)

lemma run_head:
  "run_attr (print_head fd a @ r) x = run_attr r (zero_pe\<lparr>a_type := a_type a, a_size := a_size a,
     a_config := a_config a, a_sample_period := a_sample_period a, a_sample_type := a_sample_type a\<rparr>)"
proof -
  obtain ty where ty: "eval_exp (perf_pretty_print_type (a_type a)) = Some ty" "ucast ty = a_type a"
    using eval_type by blast
  obtain e t where cfg: "perf_pretty_print_config (a_type a) (a_config a) = (e, t)" by fastforce
  then have e: "eval_exp e = Some (a_config a)" using eval_config by (metis fst_conv)
  let ?y = "zero_pe\<lparr>a_type := a_type a\<rparr>"
  have size: "run_attr (assign_if (a_size a \<noteq> 0) fd ''size'' (E_dec (i32 (uint (a_size a)))) @ q) ?y
      = run_attr q (?y\<lparr>a_size := a_size a\<rparr>)" for q
    by (rule run_if [OF eval_exp.simps(2)]) (simp_all add: signed_value zero_pe_def)
  let ?z = "?y\<lparr>a_size := a_size a, a_config := a_config a\<rparr>"
  have period: "run_attr (assign_if (a_sample_period a \<noteq> 0) fd
        (if attr_flag 10 a then ''sample_freq'' else ''sample_period'') (E_hex (a_sample_period a)) @ q) ?z
      = run_attr q (?z\<lparr>a_sample_period := a_sample_period a\<rparr>)" for q
    by (rule run_if) (simp_all add: zero_pe_def)
  show ?thesis
    by (simp add: print_head_def ty cfg e size period eval_sample_type)
qed

lemma run_wakeup: "run_attr (print_wakeup fd a @ r) x = run_attr r (x\<lparr>a_wakeup_events := a_wakeup_events a\<rparr>)"
  by (simp add: print_wakeup_def signed_value)

lemma run_breakpoint:
  assumes "a_config1 x = 0" "a_config2 x = 0" "a_branch_sample_type x = 0" "a_sample_regs_user x = 0"
  shows "run_attr (print_breakpoint fd a @ r) x = run_attr r (x\<lparr>a_bp_type := a_bp_type a, a_config1 := a_config1 a,
     a_config2 := a_config2 a, a_branch_sample_type := a_branch_sample_type a,
     a_sample_regs_user := a_sample_regs_user a\<rparr>)"
proof -
  let ?y = "x\<lparr>a_bp_type := a_bp_type a\<rparr>"
  have c1: "run_attr (assign_if (a_config1 a \<noteq> 0) fd ''config1'' (E_hex (a_config1 a)) @ q) ?y
      = run_attr q (?y\<lparr>a_config1 := a_config1 a\<rparr>)" for q
    by (rule run_if) (use assms in simp_all)
  let ?y1 = "?y\<lparr>a_config1 := a_config1 a\<rparr>"
  have c2: "run_attr (assign_if (a_config2 a \<noteq> 0) fd ''config2'' (E_hex (a_config2 a)) @ q) ?y1
      = run_attr q (?y1\<lparr>a_config2 := a_config2 a\<rparr>)" for q
    by (rule run_if) (use assms in simp_all)
  let ?z = "?y1\<lparr>a_config2 := a_config2 a\<rparr>"
  have br: "run_attr (assign_if (a_branch_sample_type a \<noteq> 0) fd ''branch_sample_type''
        (perf_pretty_print_branch_sample_type (a_branch_sample_type a)) @ q) ?z
      = run_attr q (?z\<lparr>a_branch_sample_type := a_branch_sample_type a\<rparr>)" for q
    by (rule run_if [OF eval_branch]) (use assms in simp_all)
  let ?z1 = "?z\<lparr>a_branch_sample_type := a_branch_sample_type a\<rparr>"
  have regs: "run_attr (assign_if (a_sample_regs_user a \<noteq> 0) fd ''sample_regs_user''
        (E_ull (i64 (uint (a_sample_regs_user a)))) @ q) ?z1
      = run_attr q (?z1\<lparr>a_sample_regs_user := a_sample_regs_user a\<rparr>)" for q
    by (rule run_if [OF eval_exp.simps(5)]) (use assms in \<open>simp_all add: signed_value\<close>)
  have bp0: "a_bp_type a = 0 \<Longrightarrow> c_const ''HW_BREAKPOINT_EMPTY'' = Some (0 :: u64)"
    by (rule c_const_enum [OF in_c_enums(11)]) (simp add: bp_enum_def)
  show ?thesis
    using c1 c2 br regs bp0
    by (cases "a_bp_type a = 0") (simp_all add: print_breakpoint_def eval_breakpoint ucast_32)
qed

lemma run_tail:
  assumes "a_sample_stack_user x = 0" "a_clockid x = 0" "a_sample_regs_intr x = 0" "a_aux_watermark x = 0"
    "a_sample_max_stack x = 0" "a_aux_sample_size x = 0"
  shows "run_attr (print_tail fd a @ r) x = run_attr r (x\<lparr>a_sample_stack_user := a_sample_stack_user a,
     a_clockid := a_clockid a, a_sample_regs_intr := a_sample_regs_intr a, a_aux_watermark := a_aux_watermark a,
     a_sample_max_stack := a_sample_max_stack a, a_aux_sample_size := a_aux_sample_size a\<rparr>)"
proof -
  let ?x1 = "x\<lparr>a_sample_stack_user := a_sample_stack_user a\<rparr>"
  let ?x2 = "?x1\<lparr>a_clockid := a_clockid a\<rparr>"
  let ?x3 = "?x2\<lparr>a_sample_regs_intr := a_sample_regs_intr a\<rparr>"
  let ?x4 = "?x3\<lparr>a_aux_watermark := a_aux_watermark a\<rparr>"
  let ?x5 = "?x4\<lparr>a_sample_max_stack := a_sample_max_stack a\<rparr>"
  have "run_attr (assign_if (a_sample_stack_user a \<noteq> 0) fd ''sample_stack_user''
        (E_xint (a_sample_stack_user a)) @ q) x = run_attr q ?x1" for q
    by (rule run_if [OF eval_exp.simps(3)]) (use assms in \<open>simp_all add: ucast_32\<close>)
  moreover have "run_attr (assign_if (a_clockid a \<noteq> 0) fd ''clockid'' (E_dec (i32 (uint (a_clockid a)))) @ q) ?x1
      = run_attr q ?x2" for q
    by (rule run_if [OF eval_exp.simps(2)]) (use assms in \<open>simp_all add: signed_value\<close>)
  moreover have "run_attr (assign_if (a_sample_regs_intr a \<noteq> 0) fd ''sample_regs_intr''
        (E_ull (i64 (uint (a_sample_regs_intr a)))) @ q) ?x2 = run_attr q ?x3" for q
    by (rule run_if [OF eval_exp.simps(5)]) (use assms in \<open>simp_all add: signed_value\<close>)
  moreover have "run_attr (assign_if (a_aux_watermark a \<noteq> 0) fd ''aux_watermark''
        (E_dec (i32 (uint (a_aux_watermark a)))) @ q) ?x3 = run_attr q ?x4" for q
    by (rule run_if [OF eval_exp.simps(2)]) (use assms in \<open>simp_all add: signed_value\<close>)
  moreover have "run_attr (assign_if (a_sample_max_stack a \<noteq> 0) fd ''sample_max_stack''
        (E_dec (signed_take_bit 15 (uint (a_sample_max_stack a)))) @ q) ?x4 = run_attr q ?x5" for q
    by (rule run_if [OF eval_exp.simps(2)]) (use assms in \<open>simp_all add: signed_value\<close>)
  moreover have "run_attr (assign_if (a_aux_sample_size a \<noteq> 0) fd ''aux_sample_size''
        (E_dec (i32 (uint (a_aux_sample_size a)))) @ q) ?x5
      = run_attr q (?x5\<lparr>a_aux_sample_size := a_aux_sample_size a\<rparr>)" for q
    by (rule run_if [OF eval_exp.simps(2)]) (use assms in \<open>simp_all add: signed_value\<close>)
  ultimately show ?thesis by (simp add: print_tail_def)
qed

section \<open>The round trip\<close>

lemma run_print_attr: "run_attr (perf_pretty_print_attr fd a) x = Some (restored a zero_pe)"
proof -
  let ?head = "zero_pe\<lparr>a_type := a_type a, a_size := a_size a, a_config := a_config a,
     a_sample_period := a_sample_period a, a_sample_type := a_sample_type a\<rparr>"
  have "run_attr (perf_pretty_print_attr fd a) x
      = run_attr (print_bits fd (a_bits a) attr_bits @ print_wakeup fd a @ print_breakpoint fd a @
          print_tail fd a @ [S_text newline]) (?head\<lparr>a_read_format := a_read_format a\<rparr>)"
    by (simp add: perf_pretty_print_attr_def run_head eval_read_format)
  also have "\<dots> = Some (restored a zero_pe)"
    by (simp add: run_all_bits run_wakeup run_breakpoint run_tail zero_pe_def restored_def)
  finally show ?thesis .
qed

lemma print_attr_on: "list_all (on_attr fd) (perf_pretty_print_attr fd a)"
  by (auto simp: perf_pretty_print_attr_def print_head_def print_bits_def print_wakeup_def print_breakpoint_def
      print_tail_def assign_if_def list_all_iff Let_def split: prod.splits if_splits)

lemma exec_print_attr:
  assumes "0 \<le> fd" "fd < NUM_VALUES" "length (c_pe c) = nat NUM_VALUES"
  shows "exec_stmts e (perf_pretty_print_attr fd a) c = Ret (c\<lparr>c_pe := (c_pe c)[nat fd := restored a zero_pe]\<rparr>)"
  by (rule exec_run_attr [OF print_attr_on run_print_attr assms])

text \<open>
  What is written behind an assignment is its semicolon and at most one comment, which ends
  where the line does.
\<close>

definition clean_end :: "string \<Rightarrow> bool" where
  "clean_end t \<longleftrightarrow> t = semicolon \<or> (\<exists>u. t = ''; /*'' @ u @ ''*/'' @ newline \<and> CHR ''*'' \<notin> set u)"

fun ends_clean :: "c_stmt \<Rightarrow> bool" where
  "ends_clean (S_assign fd f x t) \<longleftrightarrow> clean_end t"
| "ends_clean s \<longleftrightarrow> True"

lemma no_star: "CHR ''*'' \<notin> set (show_int i)" "CHR ''*'' \<notin> set (show_hex w)" "CHR ''*'' \<notin> set (skid v)"
proof -
  have "\<not> is_xdigit CHR ''*''" "\<not> is_digit CHR ''*''" by (simp_all add: is_xdigit_def is_digit_def)
  then show "CHR ''*'' \<notin> set (show_int i)" "CHR ''*'' \<notin> set (show_hex w)"
    using digits10_is_digit [of "CHR ''*''"] digits16_is_xdigit [of "CHR ''*''"]
    by (auto simp: show_int_def show_hex_def)
  show "CHR ''*'' \<notin> set (skid v)" by (simp add: skid_def)
qed

lemma clean_comment: "CHR ''*'' \<notin> set u \<Longrightarrow> clean_end (comment u)"
  by (auto simp: clean_end_def comment_def)

lemma config_ends_clean: "clean_end (snd (perf_pretty_print_config ty v) @ newline)"
proof (cases "ty = 2")
  case True
  let ?u = "'' '' @ show_int (uint (v AND 0xffffffff)) @ '' '' @ perf_pretty_print_tracepoint (i32 (uint v)) @ '' ''"
  have "snd (perf_pretty_print_config ty v) @ newline = ''; /*'' @ ?u @ ''*/'' @ newline"
    using True by (simp add: perf_pretty_print_config_def)
  moreover have "CHR ''*'' \<notin> set ?u" using no_star tracepoint_no_star by simp
  ultimately show ?thesis unfolding clean_end_def by blast
next
  case False
  then show ?thesis by (simp add: perf_pretty_print_config_def clean_end_def semicolon_def)
qed

lemma print_attr_clean: "list_all ends_clean (perf_pretty_print_attr fd a)"
proof -
  have semi: "clean_end semicolon" by (simp add: clean_end_def)
  have "ends_clean s" if "s \<in> set (assign_if b fd f x)" for s b f x
    using that semi by (auto simp: assign_if_def split: if_splits)
  moreover have "ends_clean s" if "s \<in> set (print_bits fd b fs)" for s b fs
    using that semi clean_comment no_star(3)
    by (auto simp: print_bits_def assign_if_def Let_def split: if_splits)
  moreover have "clean_end (comment (CHR '' '' # show_hex w @ '' ''))" for w :: u64
    using no_star by (intro clean_comment) simp
  moreover obtain x t where cfg: "perf_pretty_print_config (a_type a) (a_config a) = (x, t)" by fastforce
  moreover have "clean_end (t @ newline)" using config_ends_clean [of "a_type a" "a_config a"] cfg by simp
  ultimately show ?thesis
    using semi clean_comment no_star
    by (auto simp: perf_pretty_print_attr_def print_head_def print_wakeup_def print_breakpoint_def print_tail_def
        list_all_iff)
qed

text \<open>
  C10. What \<open>perf_pretty_print_attr\<close> writes is a C text for the attributes: running its
  assignments on any structure, whatever it held, leaves in the table at that index the
  attributes that were printed (all the fields the log holds), and changes nothing else.
\<close>

theorem printed_attr_restored:
  assumes "0 \<le> fd" "fd < NUM_VALUES" and "length (c_pe c) = nat NUM_VALUES"
  shows "exec_stmts e (perf_pretty_print_attr fd a) c = Ret (c\<lparr>c_pe := (c_pe c)[nat fd := restored a zero_pe]\<rparr>)"
  by (rule exec_print_attr [OF assms])

theorem printed_attr_restored_witness:
  "exec_stmts ex_renv (perf_pretty_print_attr 3 (zero_pe\<lparr>a_type := 3, a_config := 0x10102, a_bits := 0x8401, a_bp_type := 3\<rparr>)) c_start
     = Ret (c_start\<lparr>c_pe := (c_pe c_start)[nat 3 := restored
         (zero_pe\<lparr>a_type := 3, a_config := 0x10102, a_bits := 0x8401, a_bp_type := 3\<rparr>) zero_pe]\<rparr>)"
  by (rule printed_attr_restored) (simp_all add: NUM_VALUES_def c_start_def)

text \<open>
  The copy of perf_data_fuzzer loses what it does not know: the bit fields behind \<open>comm_exec\<close>
  and the fields behind \<open>sample_stack_user\<close>.
\<close>

lemma data_attr_loses:
  "run_attr (data_print_attr fd a) x = Some (zero_pe\<lparr>a_type := a_type a, a_size := a_size a, a_config := a_config a,
     a_sample_period := a_sample_period a, a_sample_type := a_sample_type a, a_read_format := a_read_format a,
     a_bits := a_bits a AND mask 25, a_wakeup_events := a_wakeup_events a, a_bp_type := a_bp_type a,
     a_config1 := a_config1 a, a_config2 := a_config2 a, a_branch_sample_type := a_branch_sample_type a,
     a_sample_regs_user := a_sample_regs_user a, a_sample_stack_user := a_sample_stack_user a\<rparr>)"
proof -
  let ?fs = "take 24 attr_bits"
  let ?bits = "fold (\<lambda>((nm, pos, w), v) b. put_bits pos w v b)
    (zip ?fs (map (\<lambda>(nm, pos, w). get_bits pos w (a_bits a)) ?fs)) 0"
  have part: "contiguous 0 ?fs 25" by (simp add: attr_bits_def)
  have "?bits = a_bits a AND mask 25"
  proof (rule bit_word_eqI)
    fix i assume "i < LENGTH(64)"
    then show "bit ?bits i = bit (a_bits a AND mask 25) i"
      using fold_put [OF part, of i "a_bits a" 0] by (auto simp: bit_and_iff bit_mask_iff)
  qed
  then have bits: "run_attr (print_bits fd (a_bits a) ?fs @ q) y = run_attr q (y\<lparr>a_bits := a_bits a AND mask 25\<rparr>)"
    if "a_bits y = 0" for q y
    using run_bits [OF part, of y fd "a_bits a" q] that set_take_subset [of 24 attr_bits] by auto
  have stack: "run_attr (assign_if (a_sample_stack_user a \<noteq> 0) fd ''sample_stack_user''
      (E_dec (i32 (uint (a_sample_stack_user a)))) @ q) y = run_attr q (y\<lparr>a_sample_stack_user := a_sample_stack_user a\<rparr>)"
    if "a_sample_stack_user y = 0" for q y
    by (rule run_if [OF eval_exp.simps(2)]) (use that in \<open>simp_all add: signed_value\<close>)
  show ?thesis
    by (simp add: data_print_attr_def run_head eval_read_format bits run_wakeup run_breakpoint stack zero_pe_def)
qed

end
