(* ===== verification/CodeSim.thy ===== *)
theory CodeSim
  imports AttrPrintTheorems
begin

text \<open>
  The generated program and the replay, line by line: a relation between the tables of the two,
  and for every kind of line that what the program does for it keeps the relation to what the
  replay does.
\<close>

section \<open>The relation\<close>

definition small :: "int \<Rightarrow> bool" where
  "small fd \<longleftrightarrow> 0 \<le> fd \<and> fd < NUM_VALUES"

text \<open>A logged descriptor that stands for one of the replaying process.\<close>

definition live :: "rstate \<Rightarrow> int \<Rightarrow> bool" where
  "live r fd \<longleftrightarrow> small fd \<and> fd_remap (slot r fd) \<noteq> - 1"

definition c_ok :: "cstate \<Rightarrow> bool" where
  "c_ok c \<longleftrightarrow> length (c_fd c) = nat NUM_VALUES \<and> length (c_pe c) = nat NUM_VALUES \<and>
     length (c_mmap c) = nat NUM_VALUES"

text \<open>
  The program keeps what the replay forgets: a closed descriptor, an address that was unmapped.
\<close>

definition same_slot :: "cstate \<Rightarrow> int \<Rightarrow> event_type \<Rightarrow> bool" where
  "same_slot c j x \<longleftrightarrow> fd_remap x \<noteq> - 1 \<longrightarrow> c_fd c ! nat j = fd_remap x \<and>
     (mmap_remap x \<noteq> MAP_FAILED \<longrightarrow> c_mmap c ! nat j = mmap_remap x)"

text \<open>
  What the replay writes to a file ends a line; the program leaves the newline out. All other
  calls are the same.
\<close>

fun ended_line :: "sys_call \<Rightarrow> sys_call" where
  "ended_line (Sys_fwrite w written) = Sys_fwrite w (written @ newline)"
| "ended_line k = k"

definition sim :: "rstate \<Rightarrow> int \<Rightarrow> cstate \<Rightarrow> bool" where
  "sim r pid c \<longleftrightarrow> tables_ok r \<and> c_ok c \<and> calls r = map ended_line (c_calls c) \<and> pid = original_pid r \<and>
     c_forked c = child_pid r \<and> (\<forall>j. small j \<longrightarrow> same_slot c j (slot r j))"

lemma small_index: "tables_ok r \<Longrightarrow> small fd \<Longrightarrow> index_ok fd (r_event r)"
  by (simp add: in_table_ok small_def NUM_VALUES_def FD_REMAP_SIZE_def)

lemma tables_ok_simps [simp]:
  "tables_ok (r\<lparr>calls := k\<rparr>) = tables_ok r" "tables_ok (r\<lparr>child_pid := p\<rparr>) = tables_ok r"
  "tables_ok (r\<lparr>line_num := n\<rparr>) = tables_ok r" "tables_ok (r\<lparr>replayed := n\<rparr>) = tables_ok r"
  "tables_ok (r\<lparr>total_lines := n\<rparr>) = tables_ok r" "tables_ok (r\<lparr>cpu_set := cs\<rparr>) = tables_ok r"
  "tables_ok (r\<lparr>original_pid := p\<rparr>) = tables_ok r" "tables_ok (upd_slot fd f r) = tables_ok r"
  by (simp_all add: tables_ok_def upd_slot_def)

lemma slot_simps [simp]:
  "slot (r\<lparr>child_pid := p\<rparr>) = slot r" "slot (r\<lparr>line_num := n\<rparr>) = slot r" "slot (r\<lparr>total_lines := n\<rparr>) = slot r"
  "slot (r\<lparr>cpu_set := cs\<rparr>) = slot r" "slot (r\<lparr>original_pid := p\<rparr>) = slot r"
  by (simp_all add: slot_def fun_eq_iff)

lemma upd_slot_simps [simp]:
  "calls (upd_slot fd f r) = calls r" "original_pid (upd_slot fd f r) = original_pid r"
  "child_pid (upd_slot fd f r) = child_pid r" "r_error (upd_slot fd f r) = r_error r"
  by (simp_all add: upd_slot_def)

lemma c_ok_simps [simp]:
  "c_ok (c\<lparr>c_calls := k\<rparr>) = c_ok c" "c_ok (c\<lparr>c_forked := p\<rparr>) = c_ok c" "c_ok (c\<lparr>c_period := v\<rparr>) = c_ok c"
  "c_ok (c\<lparr>c_fd := (c_fd c)[i := d]\<rparr>) = c_ok c" "c_ok (c\<lparr>c_mmap := (c_mmap c)[i := d]\<rparr>) = c_ok c"
  "c_ok (c\<lparr>c_pe := (c_pe c)[i := a]\<rparr>) = c_ok c"
  by (simp_all add: c_ok_def)

lemma same_slot_simps [simp]:
  "same_slot (c\<lparr>c_calls := k\<rparr>) = same_slot c" "same_slot (c\<lparr>c_forked := p\<rparr>) = same_slot c"
  "same_slot (c\<lparr>c_period := v\<rparr>) = same_slot c" "same_slot (c\<lparr>c_pe := ps\<rparr>) = same_slot c"
  by (simp_all add: same_slot_def fun_eq_iff)

lemma c_call_simps [simp]:
  "c_call e k c = (r_answer e (length (c_calls c)) k, c\<lparr>c_calls := c_calls c @ [k]\<rparr>)"
  by (simp add: c_call_def)

lemma sim_calls: "sim r pid c \<Longrightarrow> length (c_calls c) = length (calls r)"
  by (simp add: sim_def)

lemma sim_live: "sim r pid c \<Longrightarrow> live r fd \<Longrightarrow> c_fd c ! nat fd = fd_remap (slot r fd)"
  by (simp add: sim_def live_def same_slot_def)

text \<open>Both make one more call.\<close>

lemma sim_call: "sim r pid c \<Longrightarrow> ended_line k = k \<Longrightarrow> sim (r\<lparr>calls := calls r @ [k]\<rparr>) pid (c\<lparr>c_calls := c_calls c @ [k]\<rparr>)"
  by (simp add: sim_def)

lemma in_values_small: "small fd \<Longrightarrow> in_values fd x = x"
  by (simp add: in_values_def small_def)

section \<open>Arguments\<close>

text \<open>At least \<open>n\<close> arguments can be read from the line.\<close>

definition has_args :: "conv list \<Rightarrow> nat \<Rightarrow> string \<Rightarrow> bool" where
  "has_args cs n line \<longleftrightarrow> n \<le> length (scan_convs cs (drop 1 line))"

lemma args_read: "has_args cs n line \<Longrightarrow> i < n \<Longrightarrow> scanned st cs line i = scan_convs cs (drop 1 line) ! i"
  by (simp add: has_args_def scanned_def Let_def)

lemma scan_convs_append:
  "n \<le> length (scan_convs cs s) \<Longrightarrow>
     n \<le> length (scan_convs (cs @ ds) s) \<and> (\<forall>i<n. scan_convs (cs @ ds) s ! i = scan_convs cs s ! i)"
proof (induction cs arbitrary: s n)
  case Nil
  then show ?case by simp
next
  case (Cons k cs)
  show ?case
  proof (cases "scan_conv k s")
    case None
    with Cons.prems show ?thesis by simp
  next
    case (Some p)
    obtain v t where p: "p = (v, t)" by fastforce
    show ?thesis
    proof (cases n)
      case 0
      then show ?thesis by simp
    next
      case (Suc m)
      then show ?thesis
        using Some p Cons.prems Cons.IH [of m t] by (auto simp: nth_Cons split: nat.splits)
    qed
  qed
qed

section \<open>Line by line\<close>

lemma codes: "i32 IOC_ENABLE = 0x2400" "i32 IOC_DISABLE = 0x2401" "i32 IOC_REFRESH = 0x2402" "i32 IOC_RESET = 0x2403"
  "i32 IOC_PERIOD = 0x40082404" "i32 IOC_SET_OUTPUT = 0x2405" "i32 IOC_SET_FILTER = 0x40082406"
  by (simp_all add: i32_id IOC_ENABLE_def IOC_DISABLE_def IOC_REFRESH_def IOC_RESET_def IOC_PERIOD_def
      IOC_SET_OUTPUT_def IOC_SET_FILTER_def)

lemma code_id: "i32 IOC_ID = - 0x7FF7DBF9"
  by code_simp

lemma names: "map_of ioctl_enum ''PERF_EVENT_IOC_ENABLE'' = Some IOC_ENABLE"
  "map_of ioctl_enum ''PERF_EVENT_IOC_DISABLE'' = Some IOC_DISABLE"
  "map_of ioctl_enum ''PERF_EVENT_IOC_REFRESH'' = Some IOC_REFRESH"
  "map_of ioctl_enum ''PERF_EVENT_IOC_RESET'' = Some IOC_RESET"
  "map_of ioctl_enum ''PERF_EVENT_IOC_SET_OUTPUT'' = Some IOC_SET_OUTPUT"
  "map_of ioctl_enum ''PERF_EVENT_IOC_SET_FILTER'' = Some IOC_SET_FILTER"
  by (simp_all add: ioctl_enum_def)

lemma sim_close:
  assumes "sim r pid c" and "has_args [C_d] 1 line" and "live r (scan_convs [C_d] (drop 1 line) ! 0)"
    and "replay_close e line r = Ret t"
  shows "\<exists>c'. exec_stmts e (code_close st line l) c = Ret c' \<and> sim t pid c'"
proof -
  obtain fd where scan: "scan_convs [C_d] (drop 1 line) = [fd]"
    using assms(2) by (auto simp: has_args_def split: option.splits)
  with assms(3) have fd: "live r fd" "small fd" by (simp_all add: live_def)
  have idx: "index_ok fd (r_event r)" using assms(1) fd(2) small_index by (simp add: sim_def)
  let ?k = "Sys_close (fd_remap (slot r fd))"
  let ?r = "r\<lparr>calls := calls r @ [?k]\<rparr>"
  have t: "t = upd_slot fd (\<lambda>x. x\<lparr>fd_remap := - 1\<rparr>) ?r"
    using assms(4) fd(1) idx scan by (simp add: replay_close_def live_def in_table_def)
  have code: "code_args st l [C_d] line 0 = fd"
    using args_read [OF assms(2), of 0] scan by (simp add: code_args_def)
  have "exec_stmts e (code_close st line l) c = Ret (c\<lparr>c_calls := c_calls c @ [?k]\<rparr>)"
    using fd sim_live [OF assms(1)] by (simp add: code_close_def code in_values_small)
  moreover have "sim t pid (c\<lparr>c_calls := c_calls c @ [?k]\<rparr>)"
    using sim_call [OF assms(1), of ?k] slot_upd [of fd ?r] idx
    by (auto simp: sim_def t small_def same_slot_def)
  ultimately show ?thesis by blast
qed

lemma sim_ioctl:
  assumes "sim r pid c" and "has_args [C_d, C_d, C_lld] 3 line" and "a = (!) (scan_convs [C_d, C_d, C_lld] (drop 1 line))"
    and "live r (a 0)" and "int32 (a 1)"
    and "a 1 \<in> {i32 IOC_ENABLE, i32 IOC_DISABLE, i32 IOC_RESET} \<longrightarrow> int32 (a 2)"
    and "a 1 = i32 IOC_SET_OUTPUT \<longrightarrow> a 2 = - 1 \<or> live r (a 2)"
    and "replay_ioctl e line r = Ret t" and "\<not> r_error t"
  shows "\<exists>c'. exec_stmts e (code_ioctl st line l) c = Ret c' \<and> sim t pid c'"
proof -
  have args: "args_of e r [C_d, C_d, C_lld] line i = a i" "code_args st l [C_d, C_d, C_lld] line i = a i" if "i < 3" for i
    using args_read [OF assms(2) that] assms(3) by (simp_all add: args_of_def code_args_def)
  have fd: "small (a 0)" "c_fd c ! nat (a 0) = fd_remap (slot r (a 0))"
    using assms(1,4) sim_live by (simp_all add: live_def)
  have idx: "index_ok (a 0) (r_event r)" using assms(1) fd(1) small_index by (simp add: sim_def)
  obtain k where k: "replay_ioctl_call (a 0) (a 1) (a 2) r = Some k"
    using assms(8) idx by (auto simp: replay_ioctl_def args Let_def in_table_def split: option.splits)
  have t: "t = r\<lparr>calls := calls r @ [k]\<rparr>"
    using assms(8,9) idx k by (auto simp: replay_ioctl_def args Let_def in_table_def split: if_splits)
  have group: "arg_value c (ioctl_arg_print v) = Some v" if "int32 v" for v
  proof (cases "v AND 1 = 0")
    case True
    then show ?thesis using that by (simp add: ioctl_arg_print_def)
  next
    case False
    then have "odd v" by (simp add: and_one_eq mod2_eq_if split: if_splits)
    then have "1 OR v = v" by (simp add: one_or_eq)
    then show ?thesis using False that by (simp add: ioctl_arg_print_def)
  qed
  have out: "arg_value c (if a 2 = - 1 then A_num (a 2) else A_fd (a 2))
      = Some (if a 2 = - 1 then a 2 else fd_remap (slot r (a 2)))" if "a 2 = - 1 \<or> live r (a 2)"
    using that sim_live [OF assms(1)] by (auto simp: live_def small_def)
  let ?k = "\<lambda>v. Sys_ioctl (fd_remap (slot r (a 0))) (a 1) v"
  let ?exec = "exec_stmts e (code_ioctl st line l) c"
  have run: "exec_stmts e [S_ioctl (a 0) q v] c = Ret (c\<lparr>c_calls := c_calls c @ [?k w]\<rparr>)"
    if "request_value q = Some (a 1)" "arg_value c v = Some w" for q v w
    using that fd by (simp add: in_values_small)
  note code = code_ioctl_def [of st line l] args(2) [of 0, simplified] args(2) [of 1, simplified]
    args(2) [of 2, simplified] Let_def codes code_id
  note call = k [unfolded replay_ioctl_call_def codes code_id]
  have "?exec = Ret (c\<lparr>c_calls := c_calls c @ [k]\<rparr>) \<or> (\<exists>v. ?exec = Ret (c\<lparr>c_period := v, c_calls := c_calls c @ [k]\<rparr>))"
  proof -
    consider (flag) n where "a 1 = i32 n" "n \<in> {IOC_ENABLE, IOC_DISABLE, IOC_RESET}" | (refresh) "a 1 = i32 IOC_REFRESH"
      | (filter) "a 1 = i32 IOC_SET_FILTER" | (redirect) "a 1 = i32 IOC_SET_OUTPUT" | (ident) "a 1 = i32 IOC_ID"
      | (period) "a 1 = i32 IOC_PERIOD"
      | (other) "a 1 \<notin> {i32 IOC_ENABLE, i32 IOC_DISABLE, i32 IOC_RESET, i32 IOC_REFRESH, i32 IOC_SET_FILTER,
          i32 IOC_SET_OUTPUT, i32 IOC_ID, i32 IOC_PERIOD}"
      by blast
    then show ?thesis
    proof cases
      case (flag n)
      then have "arg_value c (ioctl_arg_print (a 2)) = Some (a 2)" "k = ?k (a 2)"
        using assms(6) group call by (auto simp: codes code_id)
      with flag show ?thesis
        by (elim insertE emptyE; simp add: code names run del: exec_stmts.simps)
    next
      case refresh
      with call show ?thesis by (simp add: code names run del: exec_stmts.simps)
    next
      case filter
      with call show ?thesis by (simp add: code names run del: exec_stmts.simps)
    next
      case redirect
      then have v: "a 2 = - 1 \<or> live r (a 2)" using assms(7) by simp
      have "k = ?k (if a 2 = - 1 then a 2 else fd_remap (slot r (a 2)))"
        using call redirect by (auto simp: codes code_id split: if_splits)
      with redirect out [OF v] show ?thesis
        by (cases "a 2 = - 1") (simp_all add: code names run del: exec_stmts.simps)
    next
      case ident
      with call fd show ?thesis by (simp add: code in_values_small)
    next
      case period
      with call fd show ?thesis by (auto simp: code in_values_small)
    next
      case other
      with call assms(5) show ?thesis by (simp add: code run codes code_id del: exec_stmts.simps)
    qed
  qed
  moreover have "ended_line k = k" using k by (auto simp: replay_ioctl_call_def split: if_splits)
  ultimately show ?thesis using sim_call [OF assms(1), of k] t by (auto simp: sim_def)
qed

lemma slot_twice:
  assumes "tables_ok r" and "small fd"
  shows "small j \<Longrightarrow> slot (upd_slot fd f r) j = (if j = fd then f (slot r fd) else slot r j)"
  using slot_upd [of fd r j f] small_index [OF assms] by (simp add: small_def)

lemma sim_mmap:
  assumes "sim r pid c" and "live r fd" and "replay_mmap e line r = Ret t" and "\<not> r_error t"
    and "args_of e r [C_d, C_d, C_llx] line 0 = sz" "args_of e r [C_d, C_d, C_llx] line (Suc 0) = fd"
    and "code_args st l [C_d, C_d] line 0 = sz" "code_args st l [C_d, C_d] line (Suc 0) = fd"
  shows "\<exists>c'. exec_stmts e (code_mmap st line l) c = Ret c' \<and> sim t pid c'"
proof -
  have fd: "small fd" "fd_remap (slot r fd) \<noteq> - 1" "tables_ok r" using assms(1,2) by (simp_all add: live_def sim_def)
  let ?k = "Sys_mmap sz (fd_remap (slot r fd))"
  let ?data = "r_answer e (length (calls r)) ?k"
  let ?s1 = "upd_slot fd (\<lambda>x. x\<lparr>mmap_remap := MAP_FAILED, map_size := 0\<rparr>) r"
  let ?s2 = "?s1\<lparr>calls := calls r @ [?k]\<rparr>"
  have t: "t = upd_slot fd (\<lambda>x. x\<lparr>mmap_remap := ?data, map_size := sz\<rparr>) ?s2"
    using assms(3-6) fd small_index by (auto simp: replay_mmap_def Let_def in_table_def split: if_splits)
  let ?c = "c\<lparr>c_calls := c_calls c @ [?k], c_mmap := (c_mmap c)[nat fd := ?data]\<rparr>"
  have "exec_stmts e (code_mmap st line l) c = Ret ?c"
    using assms(7,8) fd sim_live [OF assms(1,2)] sim_calls [OF assms(1)] by (simp add: code_mmap_def Let_def in_values_small)
  moreover have "sim t pid ?c"
    using assms(1) slot_twice [of ?s2 fd] slot_twice [OF fd(3,1)] fd
    by (auto simp: sim_def t same_slot_def small_def c_ok_def nth_list_update nat_eq_iff2)
  ultimately show ?thesis by blast
qed

lemma sim_trash:
  assumes "sim r pid c" and "small fd" and "replay_trash e line r = Ret t" and "calls t \<noteq> calls r"
    and "args_of e r [C_d, C_d, C_d] line 0 = v" "args_of e r [C_d, C_d, C_d] line (Suc 0) = sz"
      "args_of e r [C_d, C_d, C_d] line 2 = fd"
    and "code_args st l [C_d, C_d, C_d] line 0 = v" "code_args st l [C_d, C_d, C_d] line (Suc 0) = sz"
      "code_args st l [C_d, C_d, C_d] line 2 = fd"
  shows "\<exists>c'. exec_stmts e (code_trash st line l) c = Ret c' \<and> sim t pid c'"
proof -
  have idx: "index_ok fd (r_event r)" using assms(1,2) small_index by (simp add: sim_def)
  have ok: "fd_remap (slot r fd) \<noteq> - 1" "mmap_remap (slot r fd) \<noteq> MAP_FAILED" "mmap_remap (slot r fd) \<noteq> 0"
    using assms(3-7) idx by (auto simp: replay_trash_def Let_def in_table_def split: if_splits)
  let ?k = "Sys_memset (mmap_remap (slot r fd)) v sz"
  have t: "t = r\<lparr>calls := calls r @ [?k]\<rparr>"
    using assms(3-7) ok idx by (simp add: replay_trash_def Let_def in_table_def)
  have "c_mmap c ! nat fd = mmap_remap (slot r fd)" using assms(1,2) ok by (auto simp: sim_def same_slot_def)
  then have "exec_stmts e (code_trash st line l) c = Ret (c\<lparr>c_calls := c_calls c @ [?k]\<rparr>)"
    using ok assms(2,8-10) by (simp add: code_trash_def Let_def in_values_small)
  then show ?thesis using sim_call [OF assms(1), of ?k] t by auto
qed

lemma sim_munmap:
  assumes "sim r pid c" and "small fd" and "replay_munmap e line r = Ret t" and "calls t \<noteq> calls r" and "\<not> r_error t"
    and "args_of e r [C_d, C_d] line 0 = fd" "args_of e r [C_d, C_d] line (Suc 0) = sz"
    and "code_args st l [C_d, C_d] line 0 = fd" "code_args st l [C_d, C_d] line (Suc 0) = sz"
  shows "\<exists>c'. exec_stmts e (code_munmap st line l) c = Ret c' \<and> sim t pid c'"
proof -
  have idx: "index_ok fd (r_event r)" "tables_ok r" using assms(1,2) small_index by (simp_all add: sim_def)
  have ok: "fd_remap (slot r fd) \<noteq> - 1" "mmap_remap (slot r fd) \<noteq> MAP_FAILED" "map_size (slot r fd) = sz"
    using assms(3,4,6,7) idx by (auto simp: replay_munmap_def Let_def in_table_def split: if_splits)
  let ?k = "Sys_munmap (mmap_remap (slot r fd)) sz"
  have t: "t = upd_slot fd (\<lambda>x. x\<lparr>mmap_remap := MAP_FAILED\<rparr>) r\<lparr>calls := calls r @ [?k]\<rparr>"
    using assms(3,5-7) ok idx by (auto simp: replay_munmap_def Let_def in_table_def split: if_splits)
  have "c_mmap c ! nat fd = mmap_remap (slot r fd)" using assms(1,2) ok by (auto simp: sim_def same_slot_def)
  then have "exec_stmts e (code_munmap st line l) c = Ret (c\<lparr>c_calls := c_calls c @ [?k]\<rparr>)"
    using assms(2,8,9) by (simp add: code_munmap_def Let_def in_values_small)
  moreover have "sim t pid (c\<lparr>c_calls := c_calls c @ [?k]\<rparr>)"
    using assms(1) slot_twice [OF idx(2) assms(2)] by (auto simp: sim_def t same_slot_def)
  ultimately show ?thesis by blast
qed

text \<open>A read does not return more than was asked for.\<close>

definition reads_bounded :: "renv \<Rightarrow> bool" where
  "reads_bounded e \<longleftrightarrow> (\<forall>n fd sz. 0 \<le> sz \<longrightarrow> r_answer e n (Sys_read fd sz) \<le> sz)"

lemma sim_read:
  assumes "sim r pid c" and "live r fd" and "replay_read e line r = Ret t" and "\<not> r_error t" and "reads_bounded e"
    and "args_of e r [C_d, C_d] line 0 = fd" "args_of e r [C_d, C_d] line (Suc 0) = sz"
    and "code_args st l [C_d, C_d] line 0 = fd" "code_args st l [C_d, C_d] line (Suc 0) = sz"
  shows "\<exists>c'. exec_stmts e (code_read st line l) c = Ret c' \<and> sim t pid c'"
proof -
  have fd: "small fd" "index_ok fd (r_event r)" using assms(1,2) small_index by (simp_all add: sim_def live_def)
  let ?k = "Sys_read (fd_remap (slot r fd)) sz"
  have sz: "0 \<le> sz" "sz \<le> MAX_READ_SIZE * 8" and t: "t = r\<lparr>calls := calls r @ [?k]\<rparr>"
    using assms(3,4,6,7) fd by (auto simp: replay_read_def Let_def in_table_def split: if_splits)
  have "r_answer e (length (calls r)) ?k \<le> MAX_READ_SIZE * 8"
    using assms(5) sz unfolding reads_bounded_def by (meson order_trans)
  then have "exec_stmts e (code_read st line l) c = Ret (c\<lparr>c_calls := c_calls c @ [?k]\<rparr>)"
    using assms(8,9) fd sim_live [OF assms(1,2)] sim_calls [OF assms(1)] by (simp add: code_read_def Let_def in_values_small)
  then show ?thesis using sim_call [OF assms(1), of ?k] t by auto
qed

lemma sim_overflow:
  assumes "sim r pid c" and "live r fd" and "replay_overflow e line r = Ret t"
    and "args_of e r [C_d] line 0 = fd" "code_args st l [C_d] line 0 = fd"
  shows "\<exists>c'. exec_stmts e (code_overflow st line l) c = Ret c' \<and> sim t pid c'"
proof -
  have fd: "small fd" "index_ok fd (r_event r)" using assms(1,2) small_index by (simp_all add: sim_def live_def)
  let ?k = "Sys_fcntl (fd_remap (slot r fd))"
  have t: "t = r\<lparr>calls := calls r @ [?k, ?k, ?k]\<rparr>"
    using assms(3,4) fd by (simp add: replay_overflow_def Let_def in_table_def)
  have "exec_stmts e (code_overflow st line l) c = Ret (c\<lparr>c_calls := c_calls c @ [?k, ?k, ?k]\<rparr>)"
    using assms(5) fd sim_live [OF assms(1,2)] by (simp add: code_overflow_def Let_def in_values_small)
  then show ?thesis using assms(1) t by (auto simp: sim_def)
qed

lemma sim_prctl:
  assumes "sim r pid c" and "replay_prctl e line r = Ret t"
  shows "\<exists>c'. exec_stmts e (code_prctl line) c = Ret c' \<and> sim t pid c'"
  using assms(2) sim_call [OF assms(1)] by (auto simp: replay_prctl_def code_prctl_def Let_def)

lemma sim_fork:
  assumes "sim r pid c" and "replay_fork e line r = Ret t"
  shows "\<exists>c'. exec_stmts e (code_fork line) c = Ret c' \<and> sim t pid c'"
  using assms by (auto simp: replay_fork_def code_fork_def Let_def sim_def same_slot_def split: if_splits)

lemma sim_access:
  assumes "sim r pid c" and "replay_access e line r = Ret t"
    and "args_of e r [C_d, C_d, C_lld, C_d] line 0 = ty" "args_of e r [C_d, C_d, C_lld, C_d] line (Suc 0) = w"
      "args_of e r [C_d, C_d, C_lld, C_d] line 2 = sz"
    and "code_args st l [C_d, C_d, C_lld, C_d] line 0 = ty" "code_args st l [C_d, C_d, C_lld, C_d] line (Suc 0) = w"
      "code_args st l [C_d, C_d, C_lld, C_d] line 2 = sz"
  shows "\<exists>ss c'. code_access st line l = Ret ss \<and> exec_stmts e ss c = Ret c' \<and> sim t pid c'"
proof -
  have w: "0 \<le> w" "w < MAX_FILENAMES" using assms(2-4) by (auto simp: replay_access_def Let_def split: if_splits)
  let ?ss = "[if ty = 0 then S_read_file (nat w) sz else S_write_file (nat w) sz]"
  have "code_access st line l = Ret ?ss" using assms(6-8) w by (simp add: code_access_def Let_def)
  moreover have "\<exists>c'. exec_stmts e ?ss c = Ret c' \<and> sim t pid c'"
    using assms(1-5) w by (auto simp: replay_access_def Let_def sim_def same_slot_def split: if_splits)
  ultimately show ?thesis by blast
qed

lemma sim_affinity:
  assumes "sim r pid c" and "replay_affinity e line r = Ret t" and "calls t \<noteq> calls r"
    and "tokens delimiter line = lt # kind # num # cpu # cpus" and "atoi kind = 0"
  shows "\<exists>ss c'. code_affinity st line l = Ret ss \<and> exec_stmts e ss c = Ret c' \<and> sim t pid c'"
proof -
  have len: "length (cpu # cpus) \<le> MAX_CPUS" using assms(2,4) by (auto simp: replay_affinity_def split: if_splits)
  then obtain cs where cs: "set_cpu (int MAX_CPUS div 8) (atoi cpu) [] = Some cs"
      "t = r\<lparr>cpu_set := cs, calls := calls r @ [Sys_affinity cs]\<rparr>"
    using assms(2,4,5) by (auto simp: replay_affinity_def cpus_of_def Let_def split: option.splits)
  then show ?thesis
    using assms(1,4,5) len by (auto simp: code_affinity_def sim_def same_slot_def)
qed

section \<open>Opening\<close>

text \<open>
  The structure a line is read into does not matter, if the line is complete: the replay reads
  it into zeros, the translator into what is on its stack.
\<close>

lemma bit_put_any:
  assumes "i < 64"
  shows "bit (put_bits pos w v b) i \<longleftrightarrow>
     (if pos \<le> i \<and> i < pos + w then bit (word_of_int v :: u64) (i - pos) else bit b i)"
  unfolding put_bits_def using assms by (auto simp: bit_simps)

lemma fold_put_any:
  assumes "contiguous lo fs hi" and "length vs = length fs" and "i < 64"
  shows "bit (fold (\<lambda>((nm, pos, w), v) b. put_bits pos w v b) (zip fs vs) b) i \<longleftrightarrow>
     (if lo \<le> i \<and> i < hi then bit (fold (\<lambda>((nm, pos, w), v) b. put_bits pos w v b) (zip fs vs) b') i else bit b i)"
  using assms
proof (induction lo fs hi arbitrary: vs b b' rule: contiguous.induct)
  case (1 lo hi)
  then show ?case by auto
next
  case (2 lo nm pos w fs hi)
  from 2(3) obtain v vs' where vs: "vs = v # vs'" "length vs' = length fs" by (auto simp: length_Suc_conv)
  have part: "contiguous (lo + w) fs hi" "lo + w \<le> hi" "pos = lo" using 2(2) contiguous_le by auto
  let ?f = "\<lambda>b. fold (\<lambda>((nm, pos, w), v) b. put_bits pos w v b) (zip fs vs') b"
  have IH: "bit (?f x) i \<longleftrightarrow> (if lo + w \<le> i \<and> i < hi then bit (?f y) i else bit x i)" for x y
    using 2(1) part(1) vs(2) 2(4) by blast
  have "bit (?f (put_bits pos w v x)) i \<longleftrightarrow>
      (if lo + w \<le> i \<and> i < hi then bit (?f 0) i else bit (put_bits pos w v x) i)" for x
    by (rule IH)
  then show ?case using part bit_put_any [OF 2(4)] vs(1) by (auto split: if_splits)
qed

lemma store_bits_any:
  assumes "length vs = 37"
  shows "store_bits vs b AND mask 38 = store_bits vs 0"
proof (rule bit_word_eqI)
  fix i assume "i < LENGTH(64)"
  then have i: "i < 64" by simp
  have len: "length vs = length attr_bits" using assms length_attr_bits by simp
  show "bit (store_bits vs b AND mask 38) i = bit (store_bits vs 0) i"
    using fold_put_any [OF attr_bits_contiguous len i, of b 0] fold_put_any [OF attr_bits_contiguous len i, of 0 0] i
    unfolding store_bits_def by (auto simp: bit_and_iff bit_mask_iff split: if_splits)
qed

lemma parse_complete:
  assumes "has_args (open_convs @ attr_convs) 60 line"
  obtains fd pid cpu g flags a0 a1 where "parse_open_event line zero_pe = Some (fd, pid, cpu, g, flags, a0)"
    and "parse_open_event line pe = Some (fd, pid, cpu, g, flags, a1)" and "restored a1 zero_pe = a0"
    and "fd = scan_convs (open_convs @ attr_convs) (drop 1 line) ! 0"
    and "g = scan_convs (open_convs @ attr_convs) (drop 1 line) ! 3"
proof -
  define vs where "vs = scan_convs (open_convs @ attr_convs) (drop 1 line)"
  have len: "60 \<le> length vs" using assms by (simp add: has_args_def vs_def)
  have asg: "assigned vs i old = word_of_int (vs ! i)" if "i < 60" for i and old :: "'a::len word"
    using len that by (simp add: assigned_def)
  have "length (take 37 (drop 11 vs)) = 37" using len by simp
  from store_bits_any [OF this] have bits: "store_bits (take 37 (drop 11 vs)) (a_bits pe) AND mask 38
      = store_bits (take 37 (drop 11 vs)) 0" .
  note parse = parse_open_event_def [of line, folded vs_def]
  show thesis
    by (rule that [unfolded vs_def [symmetric]]; use len bits in \<open>simp add: parse Let_def asg zero_pe_def restored_def\<close>)
qed

lemma sim_open:
  assumes "sim r (l_pid l) c" and "has_args (open_convs @ attr_convs) 60 line"
    and "small (scan_convs (open_convs @ attr_convs) (drop 1 line) ! 0)"
    and "g = scan_convs (open_convs @ attr_convs) (drop 1 line) ! 3" and "g = - 1 \<or> live r g"
    and "replay_open e line r = Ret t" and "\<not> r_error t"
  shows "\<exists>ss c'. code_open pe line l = Ret ss \<and> exec_stmts e ss c = Ret c' \<and> sim t (l_pid l) c'"
proof -
  obtain fd pid cpu flags a0 a1 where parse: "parse_open_event line zero_pe = Some (fd, pid, cpu, g, flags, a0)"
      "parse_open_event line pe = Some (fd, pid, cpu, g, flags, a1)" and a: "restored a1 zero_pe = a0" and fd: "small fd"
    using parse_complete [OF assms(2), of pe] assms(3,4) by metis
  have own: "l_pid l = original_pid r" and ok: "tables_ok r" "c_ok c" using assms(1) by (simp_all add: sim_def)
  have g: "g \<noteq> - 1 \<Longrightarrow> small g \<and> index_ok g (r_event r) \<and> c_fd c ! nat g = fd_remap (slot r g)"
    using assms(1,5) small_index ok sim_live by (auto simp: live_def)
  define k where "k = Sys_open a0 (if pid = original_pid r then r_getpid e else pid) cpu
    (if g = - 1 then - 1 else fd_remap (slot r g)) flags"
  define new where "new = r_answer e (length (calls r)) k"
  let ?r = "r\<lparr>calls := calls r @ [k]\<rparr>"
  have rem: "remember_open fd new ?r = Ret t"
    using assms(6,7) g parse(1) by (auto simp: replay_open_def Let_def k_def new_def split: if_splits)
  have "\<not> new > FD_REMAP_SIZE"
    using rem assms(7) fd by (auto simp: remember_open_def in_table_def Let_def small_def split: if_splits)
  then obtain xs ys where t: "t = upd_slot fd (\<lambda>x. x\<lparr>fd_remap := new, mmap_remap := MAP_FAILED\<rparr>) ?r\<lparr>fd_overflows := xs, fd_throttles := ys\<rparr>"
      and len: "length xs = length (fd_overflows r)" "length ys = length (fd_throttles r)"
    using rem assms(7) fd by (auto simp: remember_open_def in_table_def Let_def upd_slot_def split: if_splits)
  let ?ss = "perf_pretty_print_event fd (l_pid l) a1 pid cpu g flags @ [S_text newline]"
  have ss: "code_open pe line l = Ret ?ss" using parse(2) by (simp add: code_open_def)
  let ?c = "c\<lparr>c_pe := (c_pe c)[nat fd := a0], c_calls := c_calls c @ [k], c_fd := (c_fd c)[nat fd := new]\<rparr>"
  have idx: "nat fd < length (c_pe c)" "nat fd < length (c_fd c)"
    using ok fd by (auto simp: c_ok_def small_def NUM_VALUES_def nat_less_iff)
  have attr: "exec_stmts e (perf_pretty_print_attr fd a1) c = Ret (c\<lparr>c_pe := (c_pe c)[nat fd := a0]\<rparr>)"
    using exec_print_attr [of fd c e a1] fd ok a by (simp add: small_def c_ok_def)
  have call: "exec_stmt e (S_open fd (if pid = l_pid l then None else Some pid) cpu g (perf_pretty_print_flags flags) flags)
      (c\<lparr>c_pe := (c_pe c)[nat fd := a0]\<rparr>) = Ret ?c"
    using g fd idx sim_calls [OF assms(1)] own
    by (cases "g = - 1"; cases "pid = l_pid l")
      (simp_all add: in_values_small eval_flags k_def [symmetric] new_def small_def k_def)
  have "exec_stmts e ?ss c = Ret ?c"
    using call by (simp add: perf_pretty_print_event_def exec_append attr del: exec_stmt.simps(4))
  moreover have "slot t j = (if j = fd then (slot r fd)\<lparr>fd_remap := new, mmap_remap := MAP_FAILED\<rparr> else slot r j)"
    if "small j" for j
    using slot_twice [of ?r fd j "\<lambda>x. x\<lparr>fd_remap := new, mmap_remap := MAP_FAILED\<rparr>"] ok fd that
    by (simp add: t slot_def)
  moreover have "tables_ok t" "calls t = calls r @ [k]" "original_pid t = original_pid r" "child_pid t = child_pid r"
    using ok len by (simp_all add: t tables_ok_def upd_slot_def)
  moreover have "ended_line k = k" by (simp add: k_def)
  ultimately have "sim t (l_pid l) ?c"
    using assms(1) idx fd by (auto simp: sim_def same_slot_def small_def c_ok_def nth_list_update nat_eq_iff2)
  then show ?thesis using ss \<open>exec_stmts e ?ss c = Ret ?c\<close> by blast
qed

end
