(* ===== verification/CodeTheorems.thy ===== *)
theory CodeTheorems
  imports CodeSim
begin

text \<open>
  The generated program and the replay: on a log that is replayed without an error and without
  a skipped line, the program makes the calls of the replay, in the same order and with the same
  arguments, but for the newline of a write. Where it departs from the replay, and what filter_log leaves of a log.
\<close>

section \<open>Whole logs\<close>

text \<open>
  The lines whose call the two programs make in the same way. The descriptors are ones the
  program has room for, and stand for an open event where they are used; a request to enable,
  disable or reset has a 32-bit argument. The translator has no code for other affinities than
  to one processor, and the replay polls other descriptors.
\<close>

definition alike :: "rstate \<Rightarrow> string \<Rightarrow> bool" where
  "alike r line \<longleftrightarrow>
     (let arg = (\<lambda>cs i. scan_convs cs (drop 1 line) ! i); k = hd line in
      line \<noteq> [] \<and>
      (if k = CHR ''A'' then has_args [C_d, C_d, C_lld, C_d] 3 line
       else if k = CHR ''a'' then
         (case tokens delimiter line of lt # kind # num # cpu # cpus \<Rightarrow> lt = ''a'' \<and> atoi kind = 0 | _ \<Rightarrow> False)
       else if k = CHR ''C'' then has_args [C_d] 1 line \<and> live r (arg [C_d] 0)
       else if k = CHR ''I'' then has_args [C_d, C_d, C_lld] 3 line \<and> live r (arg [C_d, C_d, C_lld] 0) \<and>
         int32 (arg [C_d, C_d, C_lld] 1) \<and>
         (arg [C_d, C_d, C_lld] 1 \<in> {i32 IOC_ENABLE, i32 IOC_DISABLE, i32 IOC_RESET} \<longrightarrow> int32 (arg [C_d, C_d, C_lld] 2)) \<and>
         (arg [C_d, C_d, C_lld] 1 = i32 IOC_SET_OUTPUT \<longrightarrow>
            arg [C_d, C_d, C_lld] 2 = - 1 \<or> live r (arg [C_d, C_d, C_lld] 2))
       else if k = CHR ''M'' then has_args [C_d, C_d] 2 line \<and> live r (arg [C_d, C_d] 1)
       else if k = CHR ''O'' then has_args (open_convs @ attr_convs) 60 line \<and>
         small (arg (open_convs @ attr_convs) 0) \<and>
         (arg (open_convs @ attr_convs) 3 = - 1 \<or> live r (arg (open_convs @ attr_convs) 3))
       else if k = CHR ''o'' then has_args [C_d] 1 line \<and> live r (arg [C_d] 0)
       else if k = CHR ''Q'' then has_args [C_d, C_d, C_d] 3 line \<and> small (arg [C_d, C_d, C_d] 2)
       else if k = CHR ''R'' then has_args [C_d, C_d] 2 line \<and> live r (arg [C_d, C_d] 0)
       else if k = CHR ''U'' then has_args [C_d, C_d] 2 line \<and> small (arg [C_d, C_d] 0)
       else k \<in> {CHR ''F'', CHR ''G'', CHR ''P'', CHR ''r'', CHR ''S''}))"

text \<open>The lines that hold no call.\<close>

definition silent :: "string \<Rightarrow> bool" where
  "silent line \<longleftrightarrow> hd line \<in> {CHR ''G'', CHR ''r'', CHR ''S''}"

lemma replay_if_all:
  assumes "replay_if REPLAY_ALL ty f r = Ret t" and "has REPLAY_ALL ty"
  obtains s where "f r = Ret s" and "t = s\<lparr>replayed := replayed s + 1\<rparr>"
  using assms by (cases "f r") (auto simp: replay_if_def)

lemma has_all [simp]:
  "has REPLAY_ALL REPLAY_ACCESS" "has REPLAY_ALL REPLAY_AFFINITY" "has REPLAY_ALL REPLAY_CLOSE"
  "has REPLAY_ALL REPLAY_FORK" "has REPLAY_ALL REPLAY_IOCTL" "has REPLAY_ALL REPLAY_MMAP"
  "has REPLAY_ALL REPLAY_OPEN" "has REPLAY_ALL REPLAY_OVERFLOW" "has REPLAY_ALL REPLAY_PRCTL"
  "has REPLAY_ALL REPLAY_READ" "has REPLAY_ALL REPLAY_TRASH_MMAP" "has REPLAY_ALL REPLAY_MUNMAP"
  by (simp_all add: has_def REPLAY_ALL_def replay_type_defs)

lemma sim_counters [simp]:
  "sim (r\<lparr>replayed := n\<rparr>) pid c = sim r pid c" "sim (r\<lparr>line_num := n\<rparr>) pid c = sim r pid c"
  "sim (r\<lparr>total_lines := n\<rparr>) pid c = sim r pid c"
  by (simp_all add: sim_def)

lemma counted_Ret: "counted (Ret ss) l = Ret (ss, l\<lparr>l_syscalls := l_syscalls l + 1\<rparr>)"
  by (simp add: counted_def)

text \<open>What the translation of a line does, stated of its letter.\<close>

definition follows :: "renv \<Rightarrow> lstack \<Rightarrow> perf_event_attr \<Rightarrow> string \<Rightarrow> lstate \<Rightarrow> cstate \<Rightarrow> rstate \<Rightarrow> bool" where
  "follows e st pe line l c t \<longleftrightarrow>
     (\<exists>ss l' c'. code_line st pe line l = Ret (ss, l') \<and> exec_stmts e ss c = Ret c' \<and> sim t (l_pid l') c' \<and>
        l_line l' = l_line l)"

lemma follows_Ret:
  assumes "code_line st pe line l = counted (Ret ss) l" and "\<exists>c'. exec_stmts e ss c = Ret c' \<and> sim t (l_pid l) c'"
  shows "follows e st pe line l c t"
  using assms by (auto simp: follows_def counted_Ret)

lemma follows_outcome:
  assumes "code_line st pe line l = counted r l"
    and "\<exists>ss c'. r = Ret ss \<and> exec_stmts e ss c = Ret c' \<and> sim t (l_pid l) c'"
  shows "follows e st pe line l c t"
  using assms by (auto simp: follows_def counted_Ret)

lemma args_both:
  assumes "has_args cs n line" and "i < n"
  shows "args_of e r cs line i = scan_convs cs (drop 1 line) ! i" "code_args st l cs line i = scan_convs cs (drop 1 line) ! i"
  using args_read [OF assms] by (simp_all add: args_of_def code_args_def)

lemma args_longer:
  assumes "has_args [C_d, C_d] 2 line" and "i < 2"
  shows "args_of e r [C_d, C_d, C_llx] line i = scan_convs [C_d, C_d] (drop 1 line) ! i"
proof -
  have "has_args [C_d, C_d, C_llx] 2 line" "scan_convs [C_d, C_d, C_llx] (drop 1 line) ! i = scan_convs [C_d, C_d] (drop 1 line) ! i"
    using scan_convs_append [of 2 "[C_d, C_d]" "drop 1 line" "[C_llx]"] assms by (simp_all add: has_args_def)
  then show ?thesis using args_both(1) assms(2) by metis
qed

lemma tokens_first: "tokens P cs = t # ts \<Longrightarrow> cs \<noteq> [] \<Longrightarrow> \<not> P (hd cs) \<Longrightarrow> takeWhile (\<lambda>c. \<not> P c) cs = t"
proof (induction P cs arbitrary: t ts rule: tokens.induct)
  case (1 P)
  then show ?case by simp
next
  case (2 P c cs)
  then show ?case by (cases cs) (auto split: list.splits if_splits)
qed

lemma line_followed:
  assumes sim: "sim r (l_pid l) c" and alike: "alike r line" and replay: "replay_line e REPLAY_ALL line r = Ret t"
    and clean: "\<not> r_error t" and call: "calls t \<noteq> calls r \<or> silent line" and bound: "reads_bounded e"
  shows "follows e st pe line l c t"
proof -
  have ne: "line \<noteq> []" using alike by (simp add: alike_def Let_def)
  note al = alike [unfolded alike_def Let_def]
  note rp = replay [unfolded replay_line_def]
  note cl = code_line_def [of st pe line l]
  have moved: "calls s \<noteq> calls r" "\<not> r_error s" if "t = s\<lparr>replayed := n\<rparr>" "\<not> silent line" for s n
    using call clean that by auto
  consider "hd line = CHR ''A''" | "hd line = CHR ''a''" | "hd line = CHR ''C''" | "hd line = CHR ''I''"
    | "hd line = CHR ''M''" | "hd line = CHR ''O''" | "hd line = CHR ''o''" | "hd line = CHR ''Q''"
    | "hd line = CHR ''R''" | "hd line = CHR ''U''" | "hd line = CHR ''F''" | "hd line = CHR ''P''" | "silent line"
    using al by (auto simp: silent_def split: if_splits)
  then show ?thesis
  proof cases
    case 1
    then obtain s where s: "replay_access e line r = Ret s" "t = s\<lparr>replayed := replayed s + 1\<rparr>"
      using rp ne by (auto elim: replay_if_all)
    have "\<exists>ss c'. code_access st line l = Ret ss \<and> exec_stmts e ss c = Ret c' \<and> sim s (l_pid l) c'"
      by (rule sim_access [OF sim s(1)]) (use 1 al in \<open>auto simp: args_both\<close>)
    then show ?thesis using 1 ne unfolding s(2) by (intro follows_outcome) (simp_all add: cl)
  next
    case 2
    then obtain kind num cpu cpus where tk: "tokens delimiter line = ''a'' # kind # num # cpu # cpus" "atoi kind = 0"
      using al by (auto split: list.splits)
    have "CHR ''a'' \<noteq> char_of (10 :: nat)" by code_simp
    then have "\<not> delimiter (hd line)" using 2 by (simp add: delimiter_def)
    then have cut: "takeWhile (\<lambda>c. \<not> delimiter c) line = ''a''" using tokens_first [OF tk(1)] ne by blast
    have "replay_close e ''a'' x = Ret x" for x
      by (simp add: replay_close_def scan_d_def scan_dec_def skip_ws_def scan_sign_def)
    then obtain s n where s: "replay_affinity e line r = Ret s" "t = s\<lparr>replayed := n\<rparr>"
      using rp ne 2 cut by (cases "replay_affinity e line r") (auto simp: replay_if_def)
    have "calls s \<noteq> calls r" using moved [OF s(2)] 2 by (simp add: silent_def)
    from sim_affinity [OF sim s(1) this tk] show ?thesis using 2 ne unfolding s(2)
      by (intro follows_outcome) (simp_all add: cl)
  next
    case 3
    then obtain s where s: "replay_close e line r = Ret s" "t = s\<lparr>replayed := replayed s + 1\<rparr>"
      using rp ne by (auto elim: replay_if_all)
    have step: "calls s \<noteq> calls r" "\<not> r_error s" using moved [OF s(2)] 3 by (simp_all add: silent_def)
    have "\<exists>c'. exec_stmts e (code_close st line l) c = Ret c' \<and> sim s (l_pid l) c'"
      by (rule sim_close [OF sim _ _ s(1)]) (use 3 al step bound in \<open>auto simp: \<close>)
    then show ?thesis using 3 ne unfolding s(2) by (intro follows_Ret [of _ _ _ _ "code_close st line l"]) (simp_all add: cl)
  next
    case 4
    then obtain s where s: "replay_ioctl e line r = Ret s" "t = s\<lparr>replayed := replayed s + 1\<rparr>"
      using rp ne by (auto elim: replay_if_all)
    have step: "calls s \<noteq> calls r" "\<not> r_error s" using moved [OF s(2)] 4 by (simp_all add: silent_def)
    have "\<exists>c'. exec_stmts e (code_ioctl st line l) c = Ret c' \<and> sim s (l_pid l) c'"
      by (rule sim_ioctl [OF sim _ refl _ _ _ _ s(1)]) (use 4 al step bound in \<open>auto simp: \<close>)
    then show ?thesis using 4 ne unfolding s(2) by (intro follows_Ret [of _ _ _ _ "code_ioctl st line l"]) (simp_all add: cl)
  next
    case 5
    then obtain s where s: "replay_mmap e line r = Ret s" "t = s\<lparr>replayed := replayed s + 1\<rparr>"
      using rp ne by (auto elim: replay_if_all)
    have step: "calls s \<noteq> calls r" "\<not> r_error s" using moved [OF s(2)] 5 by (simp_all add: silent_def)
    have "\<exists>c'. exec_stmts e (code_mmap st line l) c = Ret c' \<and> sim s (l_pid l) c'"
      by (rule sim_mmap [OF sim _ s(1) _ _ _ args_both(2) args_both(2)]) (use 5 al step bound in \<open>auto simp: args_longer\<close>)
    then show ?thesis using 5 ne unfolding s(2) by (intro follows_Ret [of _ _ _ _ "code_mmap st line l"]) (simp_all add: cl)
  next
    case 6
    then obtain s where s: "replay_open e line r = Ret s" "t = s\<lparr>replayed := replayed s + 1\<rparr>"
      using rp ne by (auto elim: replay_if_all)
    have step: "\<not> r_error s" using moved [OF s(2)] 6 by (simp add: silent_def)
    have "\<exists>ss c'. code_open pe line l = Ret ss \<and> exec_stmts e ss c = Ret c' \<and> sim s (l_pid l) c'"
      by (rule sim_open [OF sim _ _ refl _ s(1)]) (use 6 al step in auto)
    then show ?thesis using 6 ne unfolding s(2) by (intro follows_outcome) (simp_all add: cl)
  next
    case 7
    then obtain s where s: "replay_overflow e line r = Ret s" "t = s\<lparr>replayed := replayed s + 1\<rparr>"
      using rp ne by (auto elim: replay_if_all)
    have step: "calls s \<noteq> calls r" "\<not> r_error s" using moved [OF s(2)] 7 by (simp_all add: silent_def)
    have "\<exists>c'. exec_stmts e (code_overflow st line l) c = Ret c' \<and> sim s (l_pid l) c'"
      by (rule sim_overflow [OF sim _ s(1) args_both(1) args_both(2)]) (use 7 al step bound in \<open>auto simp: \<close>)
    then show ?thesis using 7 ne unfolding s(2) by (intro follows_Ret [of _ _ _ _ "code_overflow st line l"]) (simp_all add: cl)
  next
    case 8
    then obtain s where s: "replay_trash e line r = Ret s" "t = s\<lparr>replayed := replayed s + 1\<rparr>"
      using rp ne by (auto elim: replay_if_all)
    have step: "calls s \<noteq> calls r" "\<not> r_error s" using moved [OF s(2)] 8 by (simp_all add: silent_def)
    have "\<exists>c'. exec_stmts e (code_trash st line l) c = Ret c' \<and> sim s (l_pid l) c'"
      by (rule sim_trash [OF sim _ s(1) _ args_both(1) args_both(1) args_both(1) args_both(2) args_both(2) args_both(2)]) (use 8 al step bound in \<open>auto simp: \<close>)
    then show ?thesis using 8 ne unfolding s(2) by (intro follows_Ret [of _ _ _ _ "code_trash st line l"]) (simp_all add: cl)
  next
    case 9
    then obtain s where s: "replay_read e line r = Ret s" "t = s\<lparr>replayed := replayed s + 1\<rparr>"
      using rp ne by (auto elim: replay_if_all)
    have step: "calls s \<noteq> calls r" "\<not> r_error s" using moved [OF s(2)] 9 by (simp_all add: silent_def)
    have "\<exists>c'. exec_stmts e (code_read st line l) c = Ret c' \<and> sim s (l_pid l) c'"
      by (rule sim_read [OF sim _ s(1) _ _ args_both(1) args_both(1) args_both(2) args_both(2)]) (use 9 al step bound in \<open>auto simp: \<close>)
    then show ?thesis using 9 ne unfolding s(2) by (intro follows_Ret [of _ _ _ _ "code_read st line l"]) (simp_all add: cl)
  next
    case 10
    then obtain s where s: "replay_munmap e line r = Ret s" "t = s\<lparr>replayed := replayed s + 1\<rparr>"
      using rp ne by (auto elim: replay_if_all)
    have step: "calls s \<noteq> calls r" "\<not> r_error s" using moved [OF s(2)] 10 by (simp_all add: silent_def)
    have "\<exists>c'. exec_stmts e (code_munmap st line l) c = Ret c' \<and> sim s (l_pid l) c'"
      by (rule sim_munmap [OF sim _ s(1) _ _ args_both(1) args_both(1) args_both(2) args_both(2)]) (use 10 al step bound in \<open>auto simp: \<close>)
    then show ?thesis using 10 ne unfolding s(2) by (intro follows_Ret [of _ _ _ _ "code_munmap st line l"]) (simp_all add: cl)
  next
    case 11
    then obtain s where s: "replay_fork e line r = Ret s" "t = s\<lparr>replayed := replayed s + 1\<rparr>"
      using rp ne by (auto elim: replay_if_all)
    have step: "calls s \<noteq> calls r" "\<not> r_error s" using moved [OF s(2)] 11 by (simp_all add: silent_def)
    have "\<exists>c'. exec_stmts e (code_fork line) c = Ret c' \<and> sim s (l_pid l) c'"
      by (rule sim_fork [OF sim s(1)])
    then show ?thesis using 11 ne unfolding s(2) by (intro follows_Ret [of _ _ _ _ "code_fork line"]) (simp_all add: cl)
  next
    case 12
    then obtain s where s: "replay_prctl e line r = Ret s" "t = s\<lparr>replayed := replayed s + 1\<rparr>"
      using rp ne by (auto elim: replay_if_all)
    have step: "calls s \<noteq> calls r" "\<not> r_error s" using moved [OF s(2)] 12 by (simp_all add: silent_def)
    have "\<exists>c'. exec_stmts e (code_prctl line) c = Ret c' \<and> sim s (l_pid l) c'"
      by (rule sim_prctl [OF sim s(1)])
    then show ?thesis using 12 ne unfolding s(2) by (intro follows_Ret [of _ _ _ _ "code_prctl line"]) (simp_all add: cl)
  next
    case 13
    then show ?thesis
      using rp ne sim
      by (auto simp: silent_def follows_def cl sim_def same_slot_def split: list.splits)
  qed
qed

text \<open>A log the replay gets through: every line is alike, makes its call, and no error is set.\<close>

fun clean_log :: "renv \<Rightarrow> string list \<Rightarrow> rstate \<Rightarrow> bool" where
  "clean_log e [] r \<longleftrightarrow> True"
| "clean_log e (line # ls) r \<longleftrightarrow>
     (let r1 = r\<lparr>line_num := line_num r + 1\<rparr> in
      alike r1 line \<and>
      (case replay_line e REPLAY_ALL line r1 of
         Ret t \<Rightarrow> \<not> r_error t \<and> (calls t \<noteq> calls r \<or> silent line) \<and>
           clean_log e ls (t\<lparr>total_lines := total_lines t + 1\<rparr>)
       | _ \<Rightarrow> False))"

lemma log_followed:
  assumes "sim r (l_pid l) c" and "clean_log e ls r" and "reads_bounded e"
  shows "\<exists>ss l' c' t. code_lines st pe ls l = Ret (ss, l') \<and> replay_lines e REPLAY_ALL 0 0 ls r = Ret t \<and>
     exec_stmts e ss c = Ret c' \<and> sim t (l_pid l') c'"
  using assms(1,2)
proof (induction ls arbitrary: r l c)
  case Nil
  then show ?case by auto
next
  case (Cons line ls)
  let ?r = "r\<lparr>line_num := line_num r + 1\<rparr>"
  let ?l = "l\<lparr>l_line := l_line l + 1\<rparr>"
  from Cons.prems(2) obtain t where t: "alike ?r line" "replay_line e REPLAY_ALL line ?r = Ret t" "\<not> r_error t"
      "calls t \<noteq> calls ?r \<or> silent line" "clean_log e ls (t\<lparr>total_lines := total_lines t + 1\<rparr>)"
    by (auto simp: Let_def split: outcome.splits)
  have sim: "sim ?r (l_pid ?l) c" using Cons.prems(1) by simp
  obtain ss l1 c1 where line: "code_line st pe line ?l = Ret (ss, l1)" "exec_stmts e ss c = Ret c1" "sim t (l_pid l1) c1"
    using line_followed [OF sim t(1-4) assms(3), of st pe] by (auto simp: follows_def)
  obtain ts l2 c2 u where rest: "code_lines st pe ls l1 = Ret (ts, l2)"
      "replay_lines e REPLAY_ALL 0 0 ls (t\<lparr>total_lines := total_lines t + 1\<rparr>) = Ret u"
      "exec_stmts e ts c1 = Ret c2" "sim u (l_pid l2) c2"
    using Cons.IH [of "t\<lparr>total_lines := total_lines t + 1\<rparr>" l1 c1] t(5) line(3) by auto
  have "code_lines st pe (line # ls) l
      = Ret (S_text (ln 0 [''/* '', show_int (l_line ?l), '' */'']) # ss @ ts, l2)"
    using line(1) rest(1) by (simp add: Let_def)
  moreover have "replay_lines e REPLAY_ALL 0 0 (line # ls) r = Ret u"
    using t(2) rest(2) by (auto simp: Let_def)
  moreover have "exec_stmts e (S_text (ln 0 [''/* '', show_int (l_line ?l), '' */'']) # ss @ ts) c = Ret c2"
    using line(2) rest(3) by (simp add: exec_append)
  ultimately show ?case using rest(4) by blast
qed

lemma sim_start: "sim replay_start (l_pid code_start) c_start"
proof -
  have "fd_remap (slot replay_start j) = - 1" if "small j" for j
    using that start_simps(3) [of j] by (simp add: small_def NUM_VALUES_def)
  then show ?thesis
    by (simp add: sim_def same_slot_def c_ok_def c_start_def code_start_def start_simps)
      (simp add: replay_start_def)
qed


lemma takeWhile_line: "\<forall>c\<in>set l. P c \<Longrightarrow> \<not> P d \<Longrightarrow> takeWhile P (l @ d # r) = l"
  by (induction l) auto

lemma read_lines_line:
  assumes "\<forall>c\<in>set l. c \<noteq> char_of (10 :: nat)" and "length l < BUFSIZ - 1"
  shows "read_lines (l @ newline @ r) = (l @ newline) # read_lines r"
proof -
  obtain c cs where ne: "l @ newline @ r = c # cs" by (cases l) (auto simp: newline_def)
  have "takeWhile (\<lambda>c. c \<noteq> char_of (10 :: nat)) (l @ newline @ r) = l"
    using takeWhile_line [of l "\<lambda>c. c \<noteq> char_of (10 :: nat)" "char_of 10"] assms(1) by (simp add: newline_def)
  then have "fgets_len (l @ newline @ r) = min (BUFSIZ - 1) (length l + 1)" unfolding fgets_len_def by (simp only:)
  then have "fgets_len (l @ newline @ r) = length l + 1" using assms(2) by simp
  then show ?thesis unfolding ne read_lines.simps unfolding ne [symmetric] by (simp add: newline_def)
qed

lemma read_lines_last:
  assumes "\<forall>c\<in>set l. c \<noteq> char_of (10 :: nat)" and "length l < BUFSIZ - 1" and "l \<noteq> []"
  shows "read_lines l = [l]"
proof -
  obtain c cs where ne: "l = c # cs" using assms(3) by (cases l) auto
  have "takeWhile (\<lambda>c. c \<noteq> char_of (10 :: nat)) l = l" using assms(1) by (simp add: takeWhile_eq_all_conv)
  then have "fgets_len l = min (BUFSIZ - 1) (length l + 1)" unfolding fgets_len_def by (simp only:)
  then have "fgets_len l = length l + 1" using assms(2) by simp
  then show ?thesis unfolding ne read_lines.simps unfolding ne [symmetric] by simp
qed

definition ex_text :: string where
  "ex_text = ''O 3 0 0 -1 0 0 0 0 0 0 0 0 0 0 0 0 0 0 0 0 0 0 0 0 0 0 0 0 0 0 0 0 0 0 0 0 0 0 0 0 0 0 0 0 0 0 0 0 0 0 0 0 0 0 0 0 0 0 0 0 ''"

definition ex_line :: string where
  "ex_line = log_open_line 3 0 0 (- 1) 0 zero_pe"

lemma ex_line_text: "ex_line = ex_text @ newline"
  unfolding ex_line_def zero_pe_def ex_text_def by code_simp

definition ex_log :: string where
  "ex_log = ex_line @ ''C 3''"

lemma ex_text_plain: "\<forall>c\<in>set ex_text. c \<noteq> char_of (10 :: nat)" "length ex_text = 123"
proof -
  have "list_all (\<lambda>c. c \<noteq> char_of (10 :: nat)) ex_text" unfolding ex_text_def by code_simp
  then show "\<forall>c\<in>set ex_text. c \<noteq> char_of (10 :: nat)" by (simp add: list_all_iff)
  show "length ex_text = 123" by (simp add: ex_text_def)
qed

lemma ex_log_lines: "read_lines ex_log = [ex_line, ''C 3'']"
proof -
  have "\<forall>c\<in>set ''C 3''. c \<noteq> char_of (10 :: nat)" by code_simp
  then have "read_lines ''C 3'' = [''C 3'']" by (rule read_lines_last) (simp_all add: BUFSIZ_def)
  then show ?thesis
    using read_lines_line [OF ex_text_plain(1), of "''C 3''"] ex_text_plain(2) by (simp add: ex_log_def ex_line_text BUFSIZ_def)
qed

lemma ex_line_args: "has_args (open_convs @ attr_convs) 60 ex_line"
  "scan_convs (open_convs @ attr_convs) (drop 1 ex_line) ! 0 = 3"
  "scan_convs (open_convs @ attr_convs) (drop 1 ex_line) ! 3 = - 1"
  unfolding ex_line_def has_args_def scan_log_open_line
  by (simp_all add: open_convs_def attr_convs_def attr_values_def i32_id length_attr_bits)

lemma ex_close: "scan_d '' 3'' = Some (3, [])"
  by code_simp

definition code_renv :: renv where
  "code_renv = \<lparr>r_answer = (\<lambda>n k. case k of Sys_open a pid cpu g flags \<Rightarrow> 40 | _ \<Rightarrow> 0), r_getpid = 77,
     r_stack = (\<lambda>l i. 0)\<rparr>"


section \<open>Where the program departs from the replay\<close>

text \<open>
  The program takes a failed mapping for a valid one: the address it compares with 0 is not
  negative, and the line that overwrites the mapping writes to \<open>MAP_FAILED\<close>, where the replay
  leaves the line out.
\<close>

lemma code_trashes_failed_mapping:
  assumes "small fd" and "c_ok c" and "r_answer e (length (c_calls c)) (Sys_mmap sz (c_fd c ! nat fd)) = MAP_FAILED"
  shows "\<exists>c'. exec_stmts e [S_mmap fd sz, S_trash fd v n] c = Ret c' \<and>
     c_calls c' = c_calls c @ [Sys_mmap sz (c_fd c ! nat fd), Sys_memset MAP_FAILED v n]"
proof -
  have "nat fd < length (c_mmap c)" using assms(1,2) by (auto simp: c_ok_def small_def NUM_VALUES_def nat_less_iff)
  then show ?thesis using assms(1,3) by (simp add: in_values_small MAP_FAILED_def)
qed

lemma replay_leaves_failed_mapping:
  assumes "small fd" and "tables_ok r" and "mmap_remap (slot r fd) = MAP_FAILED"
    and "args_of e r [C_d, C_d, C_d] line 2 = fd"
  shows "replay_trash e line r = Ret r"
  using assms small_index by (auto simp: replay_trash_def Let_def in_table_def)

text \<open>What the program writes to a file has no newline, what the replay of the line writes has one.\<close>

lemma code_writes_no_newline:
  assumes "0 \<le> w" and "w < MAX_FILENAMES" and "ty \<noteq> 0" and "\<And>n. r_answer e n (Sys_fopen (nat w) True) \<noteq> 0"
    and "args_of e r [C_d, C_d, C_lld, C_d] line 0 = ty" "args_of e r [C_d, C_d, C_lld, C_d] line 1 = w"
      "args_of e r [C_d, C_d, C_lld, C_d] line 2 = v"
  shows "\<exists>c' t. exec_stmts e [S_write_file (nat w) v] c = Ret c' \<and>
     c_calls c' = c_calls c @ [Sys_fopen (nat w) True, Sys_fwrite (nat w) (show_int v)] \<and>
     replay_access e line r = Ret t \<and>
     calls t = calls r @ [Sys_fopen (nat w) True, Sys_fwrite (nat w) (show_int v @ newline)]"
  using assms by (simp add: replay_access_def Let_def)

section \<open>filter_log\<close>

text \<open>A log of whole lines, each short enough for the buffer, loses the lines of the letter and no other.\<close>

lemma read_lines_concat:
  assumes "\<forall>l\<in>set ls. (\<forall>c\<in>set l. c \<noteq> char_of (10 :: nat)) \<and> length l < BUFSIZ - 1"
  shows "read_lines (concat (map (\<lambda>l. l @ newline) ls)) = map (\<lambda>l. l @ newline) ls"
  using assms by (induction ls) (simp_all add: read_lines_line del: One_nat_def)

lemma filter_log_lines:
  assumes "\<forall>l\<in>set ls. (\<forall>c\<in>set l. c \<noteq> char_of (10 :: nat)) \<and> length l < BUFSIZ - 1"
  shows "read_lines (filter_log k (concat (map (\<lambda>l. l @ newline) ls)))
     = filter (\<lambda>l. hd l \<noteq> k) (map (\<lambda>l. l @ newline) ls)"
proof -
  let ?ls = "filter (\<lambda>l. hd (l @ newline) \<noteq> k) ls"
  have "filter_log k (concat (map (\<lambda>l. l @ newline) ls)) = concat (map (\<lambda>l. l @ newline) ?ls)"
    by (simp only: filter_log_def read_lines_concat [OF assms] filter_map comp_def)
  moreover have "\<forall>l\<in>set ?ls. (\<forall>c\<in>set l. c \<noteq> char_of (10 :: nat)) \<and> length l < BUFSIZ - 1"
    using assms by auto
  ultimately show ?thesis by (simp only: read_lines_concat filter_map comp_def)
qed

end
