(* ===== verification/StateLogic.thy ===== *)
theory StateLogic
  imports Prelude "HOL-Library.State_Monad"
begin

text \<open>
  Weakest preconditions for the state monad: what has to hold before a computation so that its
  result and final state satisfy a condition. One rule per combinator; the collection
  \<open>wp_intros\<close> takes a do-block apart.
\<close>

named_theorems wp_intros

definition wp :: "('s, 'a) state \<Rightarrow> ('a \<Rightarrow> 's \<Rightarrow> bool) \<Rightarrow> 's \<Rightarrow> bool" where
  "wp m Q s = (case run_state m s of (x, t) \<Rightarrow> Q x t)"

lemma wp_run: "wp m Q s \<Longrightarrow> run_state m s = (x, t) \<Longrightarrow> Q x t"
  by (simp add: wp_def)

lemma wp_return [wp_intros]: "Q x s \<Longrightarrow> wp (State_Monad.return x) Q s"
  by (simp add: wp_def)

lemma wp_bind [wp_intros]: "wp m (\<lambda>x. wp (k x) Q) s \<Longrightarrow> wp (State_Monad.bind m k) Q s"
  by (simp add: wp_def split: prod.splits)

lemma wp_if [wp_intros]: "(c \<Longrightarrow> wp m Q s) \<Longrightarrow> (\<not> c \<Longrightarrow> wp n Q s) \<Longrightarrow> wp (if c then m else n) Q s"
  by simp

lemma wp_let [wp_intros]: "(\<And>y. y = x \<Longrightarrow> wp (f y) Q s) \<Longrightarrow> wp (Let x f) Q s"
  by simp

lemma wp_prod [wp_intros]: "(\<And>a b. p = (a, b) \<Longrightarrow> wp (f a b) Q s) \<Longrightarrow> wp (case p of (a, b) \<Rightarrow> f a b) Q s"
  by (cases p) simp

text \<open>A computation of which nothing is known.\<close>

lemma wp_any: "(\<And>x t. run_state m s = (x, t) \<Longrightarrow> Q x t) \<Longrightarrow> wp m Q s"
  by (simp add: wp_def split: prod.splits)

lemma wp_mono: "wp m P s \<Longrightarrow> (\<And>x t. P x t \<Longrightarrow> Q x t) \<Longrightarrow> wp m Q s"
  by (simp add: wp_def split: prod.splits)

lemma wp_conj: "wp m P s \<Longrightarrow> wp m Q s \<Longrightarrow> wp m (\<lambda>x t. P x t \<and> Q x t) s"
  by (simp add: wp_def split: prod.splits)

end
