(* ===== verification/TrinityRandom.thy ===== *)
theory TrinityRandom
  imports StateLogic "HOL-Library.Signed_Division"
begin

text \<open>
  The random numbers behind the arguments of a random event: fuzzer/trinity_files/random.c,
  interesting-numbers.c, random-length.c, random-address.c, pids.c, fds.c and \<open>get_cpu\<close> of
  generic-sanitise.c, on a 64-bit x86 host. Each generator takes the position in the sequence
  \<open>rand()\<close> yields and returns a number and the position behind the ones it drew.
\<close>

section \<open>Drawing\<close>

record rand_env =
  r_seq :: "nat \<Rightarrow> int"
  r_page_size :: u32
  r_online_cpus :: u32

type_synonym 'a draw = "(nat, 'a) state"

definition crand :: "rand_env \<Rightarrow> int draw" where
  "crand e = State (\<lambda>p. (r_seq e p, p + 1))"

definition crand_mod :: "rand_env \<Rightarrow> int \<Rightarrow> int draw" where
  "crand_mod e n = do { r \<leftarrow> crand e; State_Monad.return (r mod n) }"

lemma crand_mod_range: "run_state (crand_mod r n) p = (x, q) \<Longrightarrow> 0 < n \<Longrightarrow> 0 \<le> x \<and> x < n"
  by (auto simp: crand_mod_def crand_def)

abbreviation ret :: "'a \<Rightarrow> ('s, 'a) state" where
  "ret \<equiv> State_Monad.return"

text \<open>The macros of random.h. A shift of an \<open>int\<close> wraps; operands are drawn from left to right.\<close>

definition RAND_MAX :: int where "RAND_MAX = 0x7FFFFFFF"

definition ONE_IN :: "rand_env \<Rightarrow> int \<Rightarrow> bool draw" where
  "ONE_IN e n = do { r \<leftarrow> crand_mod e n; ret (r = 0) }"

definition RAND_BOOL :: "rand_env \<Rightarrow> bool draw" where
  "RAND_BOOL e = do { r \<leftarrow> crand e; ret (r AND 1 \<noteq> 0) }"

definition RAND_BYTE :: "rand_env \<Rightarrow> int draw" where
  "RAND_BYTE e = do { r \<leftarrow> crand e; ret (r AND 0xff) }"

definition RAND_RANGE :: "rand_env \<Rightarrow> int \<Rightarrow> int \<Rightarrow> int draw" where
  "RAND_RANGE e lo hi = do { r \<leftarrow> crand e; ret (lo + r div (RAND_MAX div (hi - lo + 1) + 1)) }"

definition RAND_32 :: "rand_env \<Rightarrow> int draw" where
  "RAND_32 e = do { a \<leftarrow> crand e; b \<leftarrow> crand e; ret (i32 (push_bit 1 a) OR (b AND 1)) }"

definition RAND_64 :: "rand_env \<Rightarrow> u64 draw" where
  "RAND_64 e = do {
     a \<leftarrow> crand e; b \<leftarrow> crand e; c \<leftarrow> crand e;
     ret (push_bit 33 (word_of_int a) OR push_bit 2 (word_of_int b) OR word_of_int (c AND 3)) }"

section \<open>interesting-numbers.c\<close>

definition PAGE_OFFSET :: u64 where "PAGE_OFFSET = 0xffff880000000000"
definition KERNEL_ADDR :: u64 where "KERNEL_ADDR = 0xffffffff81000000"
definition MODULE_ADDR :: u64 where "MODULE_ADDR = 0xffffffffa0000000"
definition VDSO_ADDR :: u64 where "VDSO_ADDR = 0xffffffffff600000"

definition plus_minus_two :: "rand_env \<Rightarrow> u32 \<Rightarrow> u32 draw" where
  "plus_minus_two e num = do {
     k \<leftarrow> crand_mod e 4;
     ret (if k = 0 then num - 2 else if k = 1 then num - 1 else if k = 2 then num + 1 else num + 2) }"

definition get_interesting_8bit_value :: "rand_env \<Rightarrow> u8 draw" where
  "get_interesting_8bit_value e = do {
     k \<leftarrow> crand_mod e 5;
     if k = 0 then ret 1
     else if k = 1 then ret 0xff
     else if k = 2 then do { r \<leftarrow> crand e; ret (push_bit (nat (r AND 7)) 1) }
     else if k = 3 then do { b \<leftarrow> RAND_BYTE e; ret (word_of_int b) }
     else ret 0 }"

definition get_interesting_16bit_value :: "rand_env \<Rightarrow> u16 draw" where
  "get_interesting_16bit_value e = do {
     k \<leftarrow> crand_mod e 4;
     if k = 0 then do { r \<leftarrow> crand e; ret (drop_bit (nat (r AND 7)) 0x8000) }
     else if k = 1 then do { r \<leftarrow> crand e; ret (word_of_int (r AND 0xffff)) }
     else if k = 2 then do { b \<leftarrow> RAND_BYTE e; ret (0xff00 OR word_of_int b) }
     else ret 0xffff }"

definition get_interesting_32bit_value :: "rand_env \<Rightarrow> u32 draw" where
  "get_interesting_32bit_value e = do {
     k \<leftarrow> crand_mod e 10;
     if k = 0 then do { r \<leftarrow> crand e; ret (drop_bit (nat (r AND 0x1f)) 0x80000000) }
     else if k = 1 then do { r \<leftarrow> crand e; ret (word_of_int r) }
     else if k = 2 then do { r \<leftarrow> crand_mod e 25; ret (push_bit (nat r) 0xff) }
     else if k = 3 then ret 0xffff0000
     else if k = 4 then ret 0xffffe000
     else if k = 5 then do { b \<leftarrow> RAND_BYTE e; ret (0xffffff00 OR word_of_int b) }
     else if k = 6 then ret (0xffffffff - r_page_size e)
     else if k = 7 then ret (r_page_size e)
     else if k = 8 then do {
       r \<leftarrow> crand e;
       ret (r_page_size e * (word_of_int r mod (0xffffffff div r_page_size e) + 1)) }
     else ret 0xffffffff }"

definition per_arch_interesting_addr :: "rand_env \<Rightarrow> u64 \<Rightarrow> u64 draw" where
  "per_arch_interesting_addr e low = do {
     i \<leftarrow> crand_mod e 4;
     ret (if i = 0 then 0x00007fffffffffff
          else if i = 1 then 0x0000800000000000
          else if i = 2 then 0xffff800000000000 OR push_bit 4 low
          else VDSO_ADDR OR (low AND 0x0fffff)) }"

definition get_interesting_value :: "rand_env \<Rightarrow> u64 draw" where
  "get_interesting_value e = do {
     k \<leftarrow> crand_mod e 3;
     low \<leftarrow> (if k = 0 then do { v \<leftarrow> get_interesting_8bit_value e; ret (ucast v) }
             else if k = 1 then do { v \<leftarrow> get_interesting_16bit_value e; ret (ucast v) }
             else do { v \<leftarrow> get_interesting_32bit_value e; ret (ucast v) });
     m \<leftarrow> crand e;
     low \<leftarrow> (if m AND 0xf \<noteq> 0 then ret low
             else do { v \<leftarrow> plus_minus_two e (ucast low); ret (ucast v) });
     wide \<leftarrow> RAND_BOOL e;
     if \<not> wide then ret low
     else do {
       j \<leftarrow> crand_mod e 11;
       if j = 0 then ret (0x0000000100000000 OR low)
       else if j = 1 then ret (0x7fffffff00000000 OR low)
       else if j = 2 then ret (0x8000000000000000 OR low)
       else if j = 3 then ret (0xffffffff00000000 OR low)
       else if j = 4 then do { b \<leftarrow> RAND_BYTE e; ret (0xffffffffffffff00 OR word_of_int b) }
       else if j = 5 then ret (0xffffffffffffffff - ucast (r_page_size e))
       else if j = 6 then ret (PAGE_OFFSET OR push_bit 4 low)
       else if j = 7 then ret (KERNEL_ADDR OR (low AND 0xffffff))
       else if j = 8 then ret (MODULE_ADDR OR (low AND 0xffffff))
       else if j = 9 then per_arch_interesting_addr e low
       else ret (push_bit 32 low) } }"

section \<open>random.c\<close>

definition rand_single_bit :: "rand_env \<Rightarrow> int \<Rightarrow> u64 draw" where
  "rand_single_bit e width = do {
     r \<leftarrow> crand_mod e (if 64 < width then 64 else width);
     ret (push_bit (nat r) 1) }"

fun or_random_bits :: "rand_env \<Rightarrow> nat \<Rightarrow> int \<Rightarrow> u64 \<Rightarrow> u64 draw" where
  "or_random_bits e 0 limit r = ret r"
| "or_random_bits e (Suc n) limit r = do {
     k \<leftarrow> crand_mod e (limit - 1);
     or_random_bits e n limit (r OR push_bit (nat k) 1) }"

definition randbits :: "rand_env \<Rightarrow> int \<Rightarrow> u64 draw" where
  "randbits e limit = do {
     num \<leftarrow> crand_mod e (limit div 2);
     or_random_bits e (nat num) limit 0 }"

definition rept_byte :: "rand_env \<Rightarrow> u64 draw" where
  "rept_byte e = do {
     b \<leftarrow> RAND_BYTE e;
     let r = word_of_int b;
     let r = push_bit 8 r OR r;
     let r = push_bit 16 r OR r;
     ret (push_bit 32 r OR r) }"

definition PAGE_MASK :: "rand_env \<Rightarrow> u32" where
  "PAGE_MASK e = NOT (r_page_size e - 1)"

text \<open>What \<open>rand32\<close> does to the number that its first \<open>switch\<close> chose.\<close>

definition munge32 :: "rand_env \<Rightarrow> u64 \<Rightarrow> u32 draw" where
  "munge32 e r = do {
     deduct \<leftarrow> ONE_IN e 25;
     let r = (if deduct then 0x7fffffff - r else r);
     flip \<leftarrow> ONE_IN e 25;
     let r = (if flip then NOT r + 1 else r);
     divide \<leftarrow> ONE_IN e 4;
     r \<leftarrow> (if divide then do { d \<leftarrow> RAND_RANGE e 1 4; ret (r div push_bit (nat d) 1) } else ret r);
     k \<leftarrow> crand_mod e 5;
     ret (ucast (if k = 0 then r AND 0xff else if k = 1 then r AND 0xffff
                 else if k = 2 then r AND ucast (PAGE_MASK e)
                 else if k = 3 then r AND 0xffffff else r)) }"

definition trinity_rand32 :: "rand_env \<Rightarrow> u32 draw" where
  "trinity_rand32 e = do {
     k \<leftarrow> crand_mod e 5;
     if k = 4 then do { v \<leftarrow> get_interesting_value e; ret (ucast v) }
     else do {
       r \<leftarrow> (if k = 0 then rand_single_bit e 32
             else if k = 1 then randbits e 32
             else if k = 2 then do { v \<leftarrow> RAND_32 e; ret (word_of_int v) }
             else rept_byte e);
       munge32 e r } }"

text \<open>The end of \<open>rand64\<close>; the loop sets one of the eight top bits in each round.\<close>

fun set_top_bits :: "rand_env \<Rightarrow> nat \<Rightarrow> u64 \<Rightarrow> u64 draw" where
  "set_top_bits e 0 r = ret r"
| "set_top_bits e (Suc n) r = do {
     k \<leftarrow> crand_mod e 8;
     set_top_bits e n (r OR push_bit (63 - nat k) 1) }"

definition munge64 :: "rand_env \<Rightarrow> u64 \<Rightarrow> u64 draw" where
  "munge64 e r = do {
     invert \<leftarrow> ONE_IN e 25;
     let r = (if invert then NOT r else r);
     top \<leftarrow> ONE_IN e 10;
     r \<leftarrow> (if top then do { rounds \<leftarrow> crand_mod e 4; set_top_bits e (nat rounds) r } else ret r);
     flip \<leftarrow> ONE_IN e 25;
     ret (if flip then NOT r + 1 else r) }"

definition trinity_rand64 :: "rand_env \<Rightarrow> u64 draw" where
  "trinity_rand64 e = do {
     small \<leftarrow> RAND_BOOL e;
     if small then do { v \<leftarrow> trinity_rand32 e; munge64 e (ucast v) }
     else do {
       k \<leftarrow> crand_mod e 5;
       if k = 4 then get_interesting_value e
       else do {
         r \<leftarrow> (if k = 0 then rand_single_bit e 64
               else if k = 1 then randbits e 64
               else if k = 2 then RAND_64 e
               else rept_byte e);
         j \<leftarrow> crand_mod e 4;
         munge64 e (if j = 0 then r AND 0x000000ffffffffff
                    else if j = 1 then r AND 0x0000ffffffffffff
                    else if j = 2 then r AND 0x00ffffffffffffff else r) } } }"

section \<open>Lengths, addresses, descriptors, processes and processors\<close>

text \<open>The length is an \<open>int\<close>: the division truncates towards 0, the result is sign-extended.\<close>

definition get_len :: "rand_env \<Rightarrow> u64 draw" where
  "get_len e = do {
     i \<leftarrow> trinity_rand32 e;
     if i = 0 then ret 0
     else do {
       k \<leftarrow> crand_mod e 6;
       let i = (if k = 0 then i AND 0xff else if k = 1 then i AND (r_page_size e - 1)
                else if k = 2 then i AND 0xffff else if k = 3 then i AND 0xffffff else i);
       if i = 0 then ret 0
       else do {
         divide \<leftarrow> ONE_IN e 4;
         if divide then do { d \<leftarrow> RAND_RANGE e 1 4; ret (word_of_int (sint i sdiv 2 ^ nat d)) }
         else ret (word_of_int (sint i)) } } }"

definition get_address :: "rand_env \<Rightarrow> u64 draw" where
  "get_address e = do {
     i \<leftarrow> crand_mod e 4;
     if i = 1 then ret KERNEL_ADDR else if i = 2 then trinity_rand64 e else ret 0 }"

definition get_random_fd :: "rand_env \<Rightarrow> int draw" where
  "get_random_fd e = crand_mod e 30000"

definition get_pid :: int where "get_pid = 0"

definition get_cpu :: "rand_env \<Rightarrow> u32 draw" where
  "get_cpu e = do {
     i \<leftarrow> crand_mod e 100;
     if i = 0 then ret (- 1)
     else if i = 1 then do { r \<leftarrow> crand_mod e 4096; ret (word_of_int r) }
     else do { r \<leftarrow> crand e; ret (word_of_int r mod r_online_cpus e) } }"

end
