(* ===== verification/OpenGen.thy ===== *)
theory OpenGen
  imports TrinityRandom PmuEvents FuzzOpen
begin

text \<open>
  fuzzer/trinity_files/perf_event_open.c: the arguments of a random \<open>perf_event_open\<close> call.
  The generators write to a structure of zero bytes; their state is the position in the random
  sequence and the structure. \<open>config1\<close> and \<open>config2\<close> share their bytes with \<open>bp_addr\<close> and
  \<open>bp_len\<close>.
\<close>

section \<open>The state\<close>

type_synonym 'a attr_gen = "(nat \<times> perf_event_attr, 'a) state"

definition draws :: "'a draw \<Rightarrow> 'a attr_gen" where
  "draws g = State (\<lambda>(p, a). case run_state g p of (x, q) \<Rightarrow> (x, (q, a)))"

definition put :: "(perf_event_attr \<Rightarrow> perf_event_attr) \<Rightarrow> unit attr_gen" where
  "put f = State (\<lambda>(p, a). ((), (p, f a)))"

definition the_attr :: "perf_event_attr attr_gen" where
  "the_attr = State (\<lambda>(p, a). (a, (p, a)))"

text \<open>A field that is assigned a random value.\<close>

definition put_random :: "('a \<Rightarrow> perf_event_attr \<Rightarrow> perf_event_attr) \<Rightarrow> 'a draw \<Rightarrow> unit attr_gen" where
  "put_random f g = do { v \<leftarrow> draws g; put (f v) }"

section \<open>init_pmus\<close>

text \<open>
  The parser of the PMU descriptions is the one of tools/event_parser.c, but its buffers start
  as empty strings. \<open>None\<close>: a text that is scanned to its end, where the bytes behind it are
  read.
\<close>

definition generator_pmus :: "sys_pmu list option \<Rightarrow> pmu_type list option" where
  "generator_pmus sysfs = (case sysfs of None \<Rightarrow> Some []
     | Some entries \<Rightarrow> add_pmus (filter (\<lambda>d. not_dots (d_name d)) entries) (Some []) (Some []))"

section \<open>random_sysfs_config\<close>

text \<open>
  The tables of PMUs, \<open>getpid()\<close>, and the \<open>group_fd\<close> that an earlier call left in the record of
  the system call, by the position in the random sequence.
\<close>

record open_env =
  oe_rand :: rand_env
  oe_pmus :: "pmu_type list"
  oe_getpid :: int
  oe_old_group_fd :: "nat \<Rightarrow> int"

fun random_formats :: "rand_env \<Rightarrow> format_type list \<Rightarrow> configs \<Rightarrow> configs draw" where
  "random_formats r [] c = ret c"
| "random_formats r (f # fs) c = do {
     pick \<leftarrow> crand_mod r 2;
     if pick = 0 then random_formats r fs c
     else do {
       v \<leftarrow> trinity_rand64 r;
       random_formats r fs
         (if f_field f = FIELD_CONFIG then c\<lparr>cfg0 := cfg0 c OR (v AND f_mask f)\<rparr>
          else if f_field f = FIELD_CONFIG1 then c\<lparr>cfg1 := cfg1 c OR (v AND f_mask f)\<rparr>
          else c\<lparr>cfg2 := cfg2 c OR (v AND f_mask f)\<rparr>) } }"

definition event_configs :: "generic_event_type \<Rightarrow> configs" where
  "event_configs g = \<lparr>cfg0 = g_config g, cfg1 = g_config1 g, cfg2 = g_config2 g\<rparr>"

text \<open>By formats, by a named event, or (\<open>None\<close>) neither.\<close>

definition sysfs_configs :: "rand_env \<Rightarrow> pmu_type \<Rightarrow> configs option draw" where
  "sysfs_configs r pmu = do {
     k \<leftarrow> crand_mod r 3;
     if k = 0 \<and> p_formats pmu \<noteq> [] then do { c \<leftarrow> random_formats r (p_formats pmu) no_configs; ret (Some c) }
     else if k = 1 \<and> p_events pmu \<noteq> [] then do {
       j \<leftarrow> crand_mod r (int (length (p_events pmu)));
       ret (Some (event_configs (p_events pmu ! nat j))) }
     else ret None }"

definition random_sysfs_config :: "open_env \<Rightarrow> u64 attr_gen" where
  "random_sysfs_config oe = (let r = oe_rand oe in
     if oe_pmus oe = [] then do {
       put_random (\<lambda>v a. a\<lparr>a_type := v\<rparr>) (trinity_rand32 r);
       put_random (\<lambda>v a. a\<lparr>a_config1 := v\<rparr>) (trinity_rand64 r);
       draws (trinity_rand64 r) }
     else do {
       i \<leftarrow> draws (crand_mod r (int (length (oe_pmus oe))));
       let pmu = oe_pmus oe ! nat i;
       put (\<lambda>a. a\<lparr>a_type := word_of_int (p_type pmu)\<rparr>);
       cs \<leftarrow> draws (sysfs_configs r pmu);
       case cs of
         Some c \<Rightarrow> do { put (\<lambda>a. a\<lparr>a_config1 := cfg1 c, a_config2 := cfg2 c\<rparr>); ret (cfg0 c) }
       | None \<Rightarrow> do {
           put_random (\<lambda>v a. a\<lparr>a_config1 := word_of_int v\<rparr>) (crand_mod r 64);
           v \<leftarrow> draws (crand_mod r 64);
           ret (word_of_int v) } })"

section \<open>Types and configurations\<close>

definition PERF_TYPE_HARDWARE :: u32 where "PERF_TYPE_HARDWARE = 0"
definition PERF_TYPE_SOFTWARE :: u32 where "PERF_TYPE_SOFTWARE = 1"
definition PERF_TYPE_HW_CACHE :: u32 where "PERF_TYPE_HW_CACHE = 3"
definition PERF_TYPE_RAW :: u32 where "PERF_TYPE_RAW = 4"
definition PERF_TYPE_READ_FROM_SYSFS :: u32 where "PERF_TYPE_READ_FROM_SYSFS = 1027"

lemmas event_type_defs = PERF_TYPE_HARDWARE_def PERF_TYPE_SOFTWARE_def PERF_TYPE_TRACEPOINT_def
  PERF_TYPE_HW_CACHE_def PERF_TYPE_RAW_def PERF_TYPE_BREAKPOINT_def PERF_TYPE_READ_FROM_SYSFS_def

text \<open>A case of a \<open>switch\<close> that names the constants 0, 1, \dots in order, or draws.\<close>

definition enum_or :: "rand_env \<Rightarrow> int \<Rightarrow> u64 draw \<Rightarrow> u64 draw" where
  "enum_or r n g = do { k \<leftarrow> crand_mod r (n + 1); if k < n then ret (word_of_int k) else g }"

definition byte_draw :: "rand_env \<Rightarrow> u64 draw" where
  "byte_draw r = do { b \<leftarrow> RAND_BYTE r; ret (word_of_int b) }"

definition random_cache_config :: "rand_env \<Rightarrow> u64 draw" where
  "random_cache_config r = do {
     cache_id \<leftarrow> enum_or r 7 (byte_draw r);
     hw_cache_op_id \<leftarrow> enum_or r 3 (byte_draw r);
     hw_cache_op_result_id \<leftarrow> enum_or r 2 (byte_draw r);
     ret (cache_id OR push_bit 8 hw_cache_op_id OR push_bit 16 hw_cache_op_result_id) }"

definition random_event_type :: "rand_env \<Rightarrow> u32 draw" where
  "random_event_type r = do {
     k \<leftarrow> crand_mod r 8;
     if k = 0 then ret PERF_TYPE_HARDWARE
     else if k = 1 then ret PERF_TYPE_SOFTWARE
     else if k = 2 then ret PERF_TYPE_TRACEPOINT
     else if k = 3 then ret PERF_TYPE_HW_CACHE
     else if k = 4 then ret PERF_TYPE_RAW
     else if k = 5 then ret PERF_TYPE_BREAKPOINT
     else if k = 6 then ret PERF_TYPE_READ_FROM_SYSFS
     else trinity_rand32 r }"

text \<open>The hardware and software counters are the constants 0 to 9 and 0 to 11.\<close>

definition random_event_config :: "open_env \<Rightarrow> u64 attr_gen" where
  "random_event_config oe = do {
     a \<leftarrow> the_attr;
     let r = oe_rand oe;
     if a_type a = PERF_TYPE_HARDWARE then draws (enum_or r 10 (trinity_rand64 r))
     else if a_type a = PERF_TYPE_SOFTWARE then draws (enum_or r 12 (trinity_rand64 r))
     else if a_type a = PERF_TYPE_TRACEPOINT then draws (do {
       k \<leftarrow> crand_mod r 2;
       if k = 0 then do { v \<leftarrow> crand r; ret (word_of_int (v AND 0xfff)) } else trinity_rand64 r })
     else if a_type a = PERF_TYPE_HW_CACHE then draws (random_cache_config r)
     else if a_type a = PERF_TYPE_RAW then draws (trinity_rand64 r)
     else if a_type a = PERF_TYPE_BREAKPOINT then draws (do {
       b \<leftarrow> RAND_BOOL r; if b then trinity_rand64 r else ret 0 })
     else if a_type a = PERF_TYPE_READ_FROM_SYSFS then random_sysfs_config oe
     else do {
       config \<leftarrow> draws (trinity_rand64 r);
       put_random (\<lambda>v a. a\<lparr>a_config1 := v\<rparr>) (trinity_rand64 r);
       put_random (\<lambda>v a. a\<lparr>a_config2 := v\<rparr>) (trinity_rand64 r);
       ret config } }"

text \<open>
  \<open>HW_BREAKPOINT_EMPTY\<close>, \<open>R\<close>, \<open>W\<close>, \<open>RW\<close> and \<open>X\<close> are 0 to 4; the lengths are 1, 2, 4 and 8.
\<close>

definition setup_breakpoints :: "rand_env \<Rightarrow> unit attr_gen" where
  "setup_breakpoints r = do {
     put_random (\<lambda>v a. a\<lparr>a_bp_type := v\<rparr>) (do {
       k \<leftarrow> crand_mod r 6; if k < 5 then ret (word_of_int k) else trinity_rand32 r });
     put_random (\<lambda>v a. a\<lparr>a_config1 := v\<rparr>) (get_address r);
     put_random (\<lambda>v a. a\<lparr>a_config2 := v\<rparr>) (do {
       k \<leftarrow> crand_mod r 5; if k < 4 then ret (push_bit (nat k) 1) else trinity_rand64 r }) }"

section \<open>Masks\<close>

text \<open>\<open>if (RAND_BOOL()) x|=FLAG;\<close> for a list of flags.\<close>

fun or_flags :: "rand_env \<Rightarrow> u64 list \<Rightarrow> u64 \<Rightarrow> u64 draw" where
  "or_flags r [] x = ret x"
| "or_flags r (f # fs) x = do { b \<leftarrow> RAND_BOOL r; or_flags r fs (if b then x OR f else x) }"

definition random_mask :: "rand_env \<Rightarrow> u64 list \<Rightarrow> u64 draw" where
  "random_mask r fs = do { b \<leftarrow> RAND_BOOL r; if b then trinity_rand64 r else or_flags r fs 0 }"

definition PERF_SAMPLE_WEIGHT_STRUCT :: u32 where "PERF_SAMPLE_WEIGHT_STRUCT = 0x1000000"

definition random_sample_type :: "rand_env \<Rightarrow> u64 draw" where
  "random_sample_type r = random_mask r (map ucast
     [PERF_SAMPLE_IP, PERF_SAMPLE_TID, PERF_SAMPLE_TIME, PERF_SAMPLE_ADDR, PERF_SAMPLE_READ,
      PERF_SAMPLE_CALLCHAIN, PERF_SAMPLE_ID, PERF_SAMPLE_CPU, PERF_SAMPLE_PERIOD,
      PERF_SAMPLE_STREAM_ID, PERF_SAMPLE_RAW, PERF_SAMPLE_BRANCH_STACK, PERF_SAMPLE_REGS_USER,
      PERF_SAMPLE_STACK_USER, PERF_SAMPLE_WEIGHT, PERF_SAMPLE_DATA_SRC, PERF_SAMPLE_IDENTIFIER,
      PERF_SAMPLE_TRANSACTION, PERF_SAMPLE_REGS_INTR, PERF_SAMPLE_PHYS_ADDR, PERF_SAMPLE_AUX,
      PERF_SAMPLE_CGROUP, PERF_SAMPLE_DATA_PAGE_SIZE, PERF_SAMPLE_CODE_PAGE_SIZE,
      PERF_SAMPLE_WEIGHT_STRUCT])"

definition random_read_format :: "rand_env \<Rightarrow> u64 draw" where
  "random_read_format r = random_mask r (map ucast
     [PERF_FORMAT_LOST, PERF_FORMAT_GROUP, PERF_FORMAT_ID, PERF_FORMAT_TOTAL_TIME_ENABLED,
      PERF_FORMAT_TOTAL_TIME_RUNNING])"

text \<open>
  The sizes of \<open>PERF_ATTR_SIZE_VER0\<close> to \<open>VER9\<close> and of the structure.
\<close>

definition attr_sizes :: "u32 list" where
  "attr_sizes = [64, 72, 80, 96, 104, 112, 120, 128, 136, 144, 144]"

definition random_attr_size :: "rand_env \<Rightarrow> u32 draw" where
  "random_attr_size r = do {
     k \<leftarrow> crand_mod r 14;
     if k < 11 then ret (attr_sizes ! nat k)
     else if k = 11 then trinity_rand32 r
     else if k = 12 then do { v \<leftarrow> get_len r; ret (ucast v) }
     else ret 0 }"

text \<open>
  \<open>PERF_SAMPLE_BRANCH_USER\<close>, \<open>KERNEL\<close>, \<open>HV\<close>, \<open>ANY\<close>, \<open>ANY_CALL\<close>, \<open>ANY_RETURN\<close>, \<open>IND_CALL\<close>,
  \<open>ABORT_TX\<close>, \<open>IN_TX\<close>, \<open>NO_TX\<close>, \<open>COND\<close>, \<open>CALL_STACK\<close>, \<open>IND_JUMP\<close>, \<open>CALL\<close>, \<open>NO_FLAGS\<close>,
  \<open>NO_CYCLES\<close>, \<open>TYPE_SAVE\<close> and \<open>HW_INDEX\<close> are the bits 0 to 17.
\<close>

definition random_branch_sample_type :: "rand_env \<Rightarrow> u64 draw" where
  "random_branch_sample_type r = random_mask r (map (\<lambda>n. push_bit n 1) [0..<18])"

section \<open>Bit fields\<close>

text \<open>The structure has two more bit fields than the log holds.\<close>

definition struct_bits :: "(string \<times> nat \<times> nat) list" where
  "struct_bits = attr_bits @ [(''defer_callchain'', 38, 1), (''defer_output'', 39, 1)]"

definition put_field :: "string \<Rightarrow> int \<Rightarrow> perf_event_attr \<Rightarrow> perf_event_attr" where
  "put_field nm v a = (case map_of struct_bits nm of None \<Rightarrow> a
     | Some (pos, w) \<Rightarrow> a\<lparr>a_bits := put_bits pos w v (a_bits a)\<rparr>)"

text \<open>\<open>attr->x = RAND_BOOL();\<close> for a list of fields.\<close>

fun put_bools :: "rand_env \<Rightarrow> string list \<Rightarrow> unit attr_gen" where
  "put_bools r [] = ret ()"
| "put_bools r (nm # ns) = do {
     put_random (\<lambda>b. put_field nm (b2i b)) (RAND_BOOL r);
     put_bools r ns }"

definition before_precise :: "string list" where
  "before_precise =
     [''exclusive'', ''exclude_user'', ''exclude_kernel'', ''exclude_hv'', ''exclude_idle'', ''mmap'',
      ''comm'', ''freq'', ''inherit_stat'', ''enable_on_exec'', ''task'', ''watermark'']"

definition after_precise :: "string list" where
  "after_precise =
     [''mmap_data'', ''sample_id_all'', ''exclude_host'', ''exclude_guest'',
      ''exclude_callchain_kernel'', ''exclude_callchain_user'', ''mmap2'', ''comm_exec'',
      ''use_clockid'', ''context_switch'', ''write_backward'', ''namespaces'', ''ksymbol'', ''bpf_event'']"

definition newest_fields :: "string list" where
  "newest_fields =
     [''aux_output'', ''cgroup'', ''text_poke'', ''build_id'', ''inherit_thread'', ''remove_on_exec'',
      ''sigtrap'', ''defer_callchain'', ''defer_output'']"

definition put_precise :: "rand_env \<Rightarrow> unit attr_gen" where
  "put_precise r = put_random (put_field ''precise_ip'') (crand_mod r 4)"

section \<open>The four kinds of events\<close>

text \<open>The statements the four functions start with.\<close>

definition put_type_size_config :: "open_env \<Rightarrow> unit attr_gen" where
  "put_type_size_config oe = do {
     put_random (\<lambda>v a. a\<lparr>a_type := v\<rparr>) (random_event_type (oe_rand oe));
     put_random (\<lambda>v a. a\<lparr>a_size := v\<rparr>) (random_attr_size (oe_rand oe));
     config \<leftarrow> random_event_config oe;
     put (\<lambda>a. a\<lparr>a_config := config\<rparr>) }"

definition if_breakpoint :: "rand_env \<Rightarrow> unit attr_gen" where
  "if_breakpoint r = do {
     a \<leftarrow> the_attr;
     if a_type a = PERF_TYPE_BREAKPOINT then setup_breakpoints r else ret () }"

definition create_mostly_valid_counting_event :: "open_env \<Rightarrow> bool \<Rightarrow> unit attr_gen" where
  "create_mostly_valid_counting_event oe group_leader = (let r = oe_rand oe in do {
     put_type_size_config oe;
     put_random (\<lambda>v a. a\<lparr>a_read_format := v\<rparr>) (random_read_format r);
     put_bools r [''disabled'', ''inherit''];
     (if group_leader then put_bools r [''pinned''] else ret ());
     put_bools r before_precise;
     put_precise r;
     put_bools r after_precise;
     put_bools r newest_fields;
     if_breakpoint r })"

text \<open>\<open>CLOCK_MONOTONIC\<close>, \<open>MONOTONIC_RAW\<close>, \<open>REALTIME\<close> and \<open>BOOTTIME\<close> are 1, 4, 0 and 7.\<close>

definition random_clockid :: "rand_env \<Rightarrow> u32 draw" where
  "random_clockid r = do {
     k \<leftarrow> crand_mod r 6;
     if k < 4 then ret ([1, 4, 0, 7] ! nat k)
     else if k = 4 then do { b \<leftarrow> RAND_BYTE r; ret (word_of_int b) }
     else do { v \<leftarrow> crand r; ret (word_of_int v) } }"

definition random_regs_user :: "rand_env \<Rightarrow> u64 draw" where
  "random_regs_user r = do {
     k \<leftarrow> crand_mod r 3;
     if k = 0 then do { v \<leftarrow> crand_mod r 16; ret (word_of_int v) }
     else if k = 1 then do { v \<leftarrow> crand_mod r 64; ret (word_of_int v) }
     else trinity_rand64 r }"

text \<open>The statements the last two functions end with.\<close>

definition put_aux_and_extra :: "rand_env \<Rightarrow> unit attr_gen" where
  "put_aux_and_extra r = do {
     put_random (\<lambda>v a. a\<lparr>a_aux_watermark := v\<rparr>) (trinity_rand32 r);
     put_random (\<lambda>v a. a\<lparr>a_sample_max_stack := ucast v\<rparr>) (trinity_rand32 r);
     put_random (\<lambda>v a. a\<lparr>a_aux_sample_size := v\<rparr>) (trinity_rand32 r);
     put_random (\<lambda>v a. a\<lparr>a_sig_data := v\<rparr>) (trinity_rand64 r);
     put_random (\<lambda>v a. a\<lparr>a_config3 := v\<rparr>) (trinity_rand64 r);
     put_random (\<lambda>v a. a\<lparr>a_config4 := v\<rparr>) (trinity_rand64 r) }"

definition put_period_and_formats :: "rand_env \<Rightarrow> unit attr_gen" where
  "put_period_and_formats r = do {
     put_random (\<lambda>v a. a\<lparr>a_sample_period := v\<rparr>) (trinity_rand64 r);
     put_random (\<lambda>v a. a\<lparr>a_sample_type := v\<rparr>) (random_sample_type r);
     put_random (\<lambda>v a. a\<lparr>a_read_format := v\<rparr>) (random_read_format r) }"

definition create_mostly_valid_sampling_event :: "open_env \<Rightarrow> bool \<Rightarrow> unit attr_gen" where
  "create_mostly_valid_sampling_event oe group_leader = (let r = oe_rand oe in do {
     put_type_size_config oe;
     put_period_and_formats r;
     put_bools r [''disabled'', ''inherit''];
     (if group_leader then put_bools r [''pinned''] else put (put_field ''pinned'' 0));
     put_bools r before_precise;
     put_precise r;
     put_bools r after_precise;
     put_random (\<lambda>v a. a\<lparr>a_wakeup_events := v\<rparr>) (trinity_rand32 r);
     if_breakpoint r;
     put_random (\<lambda>v a. a\<lparr>a_branch_sample_type := v\<rparr>) (random_branch_sample_type r);
     put_random (\<lambda>v a. a\<lparr>a_sample_regs_user := v\<rparr>) (random_regs_user r);
     put_random (\<lambda>v a. a\<lparr>a_sample_stack_user := v\<rparr>) (trinity_rand32 r);
     a \<leftarrow> the_attr;
     (if get_bits 25 1 (a_bits a) \<noteq> 0
      then put_random (\<lambda>v a. a\<lparr>a_clockid := v\<rparr>) (random_clockid r) else ret ());
     put_aux_and_extra r })"

definition create_mostly_valid_global_event :: "open_env \<Rightarrow> bool \<Rightarrow> unit attr_gen" where
  "create_mostly_valid_global_event oe group_leader = (let r = oe_rand oe in do {
     put_type_size_config oe;
     put_random (\<lambda>v a. a\<lparr>a_read_format := v\<rparr>) (random_read_format r);
     put_bools r [''disabled'', ''inherit''];
     (if group_leader then put_bools r [''pinned''] else ret ()) })"

definition create_random_event :: "open_env \<Rightarrow> unit attr_gen" where
  "create_random_event oe = (let r = oe_rand oe in do {
     put_type_size_config oe;
     put_period_and_formats r;
     put_bools r [''disabled'', ''inherit'', ''pinned''];
     put_bools r before_precise;
     put_precise r;
     put_bools r after_precise;
     put_random (\<lambda>v a. a\<lparr>a_wakeup_events := v\<rparr>) (trinity_rand32 r);
     b \<leftarrow> draws (RAND_BOOL r);
     (if b then setup_breakpoints r else put_random (\<lambda>v a. a\<lparr>a_config2 := v\<rparr>) (trinity_rand64 r));
     put_random (\<lambda>v a. a\<lparr>a_branch_sample_type := v\<rparr>) (trinity_rand64 r);
     put_random (\<lambda>v a. a\<lparr>a_sample_regs_user := v\<rparr>) (trinity_rand64 r);
     put_random (\<lambda>v a. a\<lparr>a_sample_stack_user := v\<rparr>) (trinity_rand32 r);
     put_aux_and_extra r })"

section \<open>sanitise_perf_event_open\<close>

definition PERF_FLAG_FD_NO_GROUP :: u64 where "PERF_FLAG_FD_NO_GROUP = 1"
definition PERF_FLAG_FD_OUTPUT :: u64 where "PERF_FLAG_FD_OUTPUT = 2"
definition PERF_FLAG_PID_CGROUP :: u64 where "PERF_FLAG_PID_CGROUP = 4"
definition PERF_FLAG_FD_CLOEXEC :: u64 where "PERF_FLAG_FD_CLOEXEC = 8"

text \<open>The group leader's descriptor and whether the event is to lead a group.\<close>

definition random_group :: "open_env \<Rightarrow> (int \<times> bool) draw" where
  "random_group oe = do {
     old \<leftarrow> State (\<lambda>p. (oe_old_group_fd oe p, p));
     k \<leftarrow> crand_mod (oe_rand oe) 3;
     if k = 0 then ret (- 1, True)
     else if k = 1 then do { v \<leftarrow> crand_mod (oe_rand oe) 1024; ret (v, False) }
     else ret (old, False) }"

definition random_open_pid :: "open_env \<Rightarrow> u64 \<Rightarrow> int draw" where
  "random_open_pid oe flags = (let r = oe_rand oe in
     if has flags PERF_FLAG_PID_CGROUP then get_random_fd r
     else do {
       k \<leftarrow> crand_mod r 4;
       ret (if k = 0 then 0 else if k = 1 then get_pid else if k = 2 then - 1 else oe_getpid oe) })"

definition attr_gen_of :: "open_env \<Rightarrow> int \<Rightarrow> bool \<Rightarrow> unit attr_gen" where
  "attr_gen_of oe kind group_leader =
     (if kind = 0 then create_mostly_valid_counting_event oe group_leader
      else if kind = 1 then create_mostly_valid_sampling_event oe group_leader
      else if kind = 2 then create_mostly_valid_global_event oe group_leader
      else create_random_event oe)"

text \<open>The generator on the structure \<open>zmalloc\<close> returns.\<close>

definition make_attr :: "unit attr_gen \<Rightarrow> perf_event_attr draw" where
  "make_attr m = State (\<lambda>p. case run_state m (p, zero_pe) of (x, (q, a)) \<Rightarrow> (a, q))"

definition sanitise_perf_event_open :: "open_env \<Rightarrow> open_args draw" where
  "sanitise_perf_event_open oe = (let r = oe_rand oe in do {
     cpu \<leftarrow> crand_mod r 2;
     (group_fd, group_leader) \<leftarrow> random_group oe;
     flags \<leftarrow> random_mask r
       [PERF_FLAG_FD_NO_GROUP, PERF_FLAG_FD_OUTPUT, PERF_FLAG_PID_CGROUP, PERF_FLAG_FD_CLOEXEC];
     pid \<leftarrow> random_open_pid oe flags;
     kind \<leftarrow> crand_mod r 4;
     attr \<leftarrow> make_attr (attr_gen_of oe kind group_leader);
     ret \<lparr>o_attr = attr, o_pid = pid, o_group_fd = group_fd, o_flags = flags, o_trinity_type = nat kind\<rparr> })"

text \<open>
  The generators as the fuzzer's environment calls them, on the fuzzer's own sequence. The
  result of \<open>get_cpu\<close> becomes an \<open>int\<close>.
\<close>

definition generator_env :: "env \<Rightarrow> u32 \<Rightarrow> pmu_type list \<Rightarrow> int \<Rightarrow> (nat \<Rightarrow> int) \<Rightarrow> open_env" where
  "generator_env e cpus pmus pid old =
     \<lparr>oe_rand = \<lparr>r_seq = e_rand e, r_page_size = word_of_int (e_page_size e), r_online_cpus = cpus\<rparr>,
      oe_pmus = pmus, oe_getpid = pid, oe_old_group_fd = old\<rparr>"

definition with_generator :: "env \<Rightarrow> open_env \<Rightarrow> env" where
  "with_generator e oe = e\<lparr>e_sanitise := run_state (sanitise_perf_event_open oe),
     e_get_cpu := (\<lambda>p. case run_state (get_cpu (oe_rand oe)) p of (c, q) \<Rightarrow> (sint c, q))\<rparr>"

end
