(* ===== verification/OpenGenTheorems.thy ===== *)
theory OpenGenTheorems
  imports OpenGen AttrTheorems
begin

text \<open>
  What the generators of random events can and cannot produce: the fields they leave alone, and
  so which events a replay of the log opens as they were; and that the configurations taken
  from the PMU descriptions stay inside the masks of the formats.
\<close>

section \<open>Invariants of a generator\<close>

definition keeps :: "(perf_event_attr \<Rightarrow> bool) \<Rightarrow> 'a attr_gen \<Rightarrow> bool" where
  "keeps I m \<longleftrightarrow> (\<forall>p a. I a \<longrightarrow> wp m (\<lambda>x t. I (snd t)) (p, a))"

named_theorems keeps_intros

lemma keeps_return [keeps_intros]: "keeps I (ret x)"
  by (simp add: keeps_def wp_def)

lemma keeps_bind [keeps_intros]:
  assumes "keeps I m" and "\<And>x. keeps I (k x)"
  shows "keeps I (State_Monad.bind m k)"
  unfolding keeps_def
proof (intro allI impI wp_bind)
  fix p a
  assume "I a"
  with assms(1) have "wp m (\<lambda>x t. I (snd t)) (p, a)" by (simp add: keeps_def)
  then show "wp m (\<lambda>x. wp (k x) (\<lambda>y t. I (snd t))) (p, a)"
    by (rule wp_mono) (use assms(2) in \<open>auto simp: keeps_def\<close>)
qed

lemma keeps_if [keeps_intros]: "keeps I m \<Longrightarrow> keeps I n \<Longrightarrow> keeps I (if c then m else n)"
  by simp

lemma keeps_let [keeps_intros]: "(\<And>y. keeps I (f y)) \<Longrightarrow> keeps I (Let x f)"
  by simp

lemma keeps_option [keeps_intros]:
  "keeps I m \<Longrightarrow> (\<And>x. keeps I (f x)) \<Longrightarrow> keeps I (case v of None \<Rightarrow> m | Some x \<Rightarrow> f x)"
  by (cases v) simp_all

lemma keeps_draws [keeps_intros]: "keeps I (draws g)"
  by (auto simp: keeps_def wp_def draws_def split: prod.splits)

lemma keeps_the_attr [keeps_intros]: "keeps I the_attr"
  by (simp add: keeps_def wp_def the_attr_def)

lemma keeps_put [keeps_intros]: "(\<And>a. I a \<Longrightarrow> I (f a)) \<Longrightarrow> keeps I (put f)"
  by (simp add: keeps_def wp_def put_def)

lemma keeps_put_random [keeps_intros]: "(\<And>v a. I a \<Longrightarrow> I (f v a)) \<Longrightarrow> keeps I (put_random f g)"
  unfolding put_random_def by (intro keeps_intros)

lemma keeps_put_bools [keeps_intros]:
  "(\<And>nm b a. nm \<in> set ns \<Longrightarrow> I a \<Longrightarrow> I (put_field nm b a)) \<Longrightarrow> keeps I (put_bools r ns)"
  by (induction ns) (auto intro!: keeps_intros)

lemma keeps_made:
  assumes "keeps I m" and "I zero_pe" and "run_state (make_attr m) p = (a, q)"
  shows "I a"
proof -
  obtain x t where run: "run_state m (p, zero_pe) = (x, t)" by (cases "run_state m (p, zero_pe)")
  then have "a = snd t" using assms(3) by (cases t) (simp add: make_attr_def)
  moreover have "wp m (\<lambda>x t. I (snd t)) (p, zero_pe)" using assms(1,2) by (simp add: keeps_def)
  ultimately show ?thesis using wp_run [OF _ run] by simp
qed

section \<open>Bit fields\<close>

definition field_at :: "string \<Rightarrow> nat \<Rightarrow> bool" where
  "field_at nm i = (case map_of struct_bits nm of None \<Rightarrow> False | Some (pos, w) \<Rightarrow> pos \<le> i \<and> i < pos + w)"

lemma bit_put_outside:
  assumes "\<not> (pos \<le> i \<and> i < pos + w)"
  shows "bit (put_bits pos w v b) i \<longleftrightarrow> bit b i"
  using assms bit_imp_le_length [of b i] by (auto simp: put_bits_def bit_simps)

lemma put_field_outside: "\<not> field_at nm i \<Longrightarrow> bit (a_bits (put_field nm v a)) i \<longleftrightarrow> bit (a_bits a) i"
  by (auto simp: put_field_def field_at_def bit_put_outside split: option.splits)

lemma struct_bits_below:
  "list_all (\<lambda>(nm, pos, w). pos + w \<le> 40 \<and>
     (pos + w \<le> 38 \<or> nm = ''defer_callchain'' \<or> nm = ''defer_output'')) struct_bits"
  by code_simp

lemma field_below:
  assumes "field_at nm i"
  shows "i < 40" and "nm \<noteq> ''defer_callchain'' \<Longrightarrow> nm \<noteq> ''defer_output'' \<Longrightarrow> i < 38"
proof -
  from assms obtain pos w where m: "map_of struct_bits nm = Some (pos, w)" and i: "i < pos + w"
    by (auto simp: field_at_def split: option.splits)
  from struct_bits_below map_of_SomeD [OF m]
  have "pos + w \<le> 40 \<and> (pos + w \<le> 38 \<or> nm = ''defer_callchain'' \<or> nm = ''defer_output'')"
    unfolding list_all_iff by fast
  with i show "i < 40" "nm \<noteq> ''defer_callchain'' \<Longrightarrow> nm \<noteq> ''defer_output'' \<Longrightarrow> i < 38"
    by linarith+
qed

lemma put_field_other [simp]:
  "a_reserved_2 (put_field nm v a) = a_reserved_2 a" "a_aux_action (put_field nm v a) = a_aux_action a"
  "a_sig_data (put_field nm v a) = a_sig_data a" "a_config3 (put_field nm v a) = a_config3 a"
  "a_config4 (put_field nm v a) = a_config4 a"
  by (auto simp: put_field_def split: option.splits)

section \<open>What no event has, and what some events do not have\<close>

definition reserved_clear :: "perf_event_attr \<Rightarrow> bool" where
  "reserved_clear a \<longleftrightarrow> a_reserved_2 a = 0 \<and> a_aux_action a = 0 \<and> (\<forall>i. 40 \<le> i \<longrightarrow> \<not> bit (a_bits a) i)"

definition no_defer :: "perf_event_attr \<Rightarrow> bool" where
  "no_defer a \<longleftrightarrow> \<not> bit (a_bits a) 38 \<and> \<not> bit (a_bits a) 39"

definition no_extra :: "perf_event_attr \<Rightarrow> bool" where
  "no_extra a \<longleftrightarrow> a_sig_data a = 0 \<and> a_config3 a = 0 \<and> a_config4 a = 0"

lemmas absence_defs = reserved_clear_def no_defer_def no_extra_def

lemma zero_absence [simp]: "reserved_clear zero_pe" "no_defer zero_pe" "no_extra zero_pe"
  by (simp_all add: absence_defs zero_pe_def)

lemma put_field_keeps:
  "reserved_clear a \<Longrightarrow> reserved_clear (put_field nm v a)"
  "no_extra a \<Longrightarrow> no_extra (put_field nm v a)"
  using field_below(1) [of nm] put_field_outside [of nm _ v a] unfolding absence_defs by fastforce+

lemma put_field_no_defer:
  "nm \<noteq> ''defer_callchain'' \<Longrightarrow> nm \<noteq> ''defer_output'' \<Longrightarrow> no_defer a \<Longrightarrow> no_defer (put_field nm v a)"
  using field_below(2) [of nm] put_field_outside [of nm _ v a] unfolding no_defer_def by fastforce

lemmas shared_parts = put_type_size_config_def random_event_config_def random_sysfs_config_def
  setup_breakpoints_def put_precise_def put_period_and_formats_def if_breakpoint_def

lemmas field_lists = before_precise_def after_precise_def newest_fields_def

lemma counting_keeps:
  "keeps reserved_clear (create_mostly_valid_counting_event oe gl)"
  "keeps no_extra (create_mostly_valid_counting_event oe gl)"
  unfolding create_mostly_valid_counting_event_def shared_parts
  by (intro keeps_intros; simp add: put_field_keeps; simp add: absence_defs)+

definition not_defer :: "string \<Rightarrow> bool" where
  "not_defer nm \<longleftrightarrow> nm \<noteq> ''defer_callchain'' \<and> nm \<noteq> ''defer_output''"

lemma put_bools_no_defer: "list_all not_defer ns \<Longrightarrow> keeps no_defer (put_bools r ns)"
  by (rule keeps_put_bools) (auto simp: list_all_iff not_defer_def intro: put_field_no_defer)

lemma not_defer_lists:
  "list_all not_defer [''disabled'', ''inherit'']" "list_all not_defer [''pinned'']"
  "list_all not_defer [''disabled'', ''inherit'', ''pinned'']"
  "list_all not_defer before_precise" "list_all not_defer after_precise"
  by code_simp+

lemma put_field_not_defer: "not_defer nm \<Longrightarrow> no_defer a \<Longrightarrow> no_defer (put_field nm v a)"
  by (simp add: not_defer_def put_field_no_defer)

lemmas no_defer_intros = not_defer_lists [THEN put_bools_no_defer] keeps_intros put_field_not_defer

lemma not_defer_names: "not_defer ''precise_ip''" "not_defer ''pinned''"
  by code_simp+

lemma global_keeps:
  "keeps reserved_clear (create_mostly_valid_global_event oe gl)"
  "keeps no_extra (create_mostly_valid_global_event oe gl)"
  unfolding create_mostly_valid_global_event_def shared_parts
  by (intro keeps_intros; simp add: put_field_keeps; simp add: absence_defs)+

lemma sampling_keeps: "keeps reserved_clear (create_mostly_valid_sampling_event oe gl)"
  unfolding create_mostly_valid_sampling_event_def shared_parts put_aux_and_extra_def
  by (intro keeps_intros; simp add: put_field_keeps; simp add: absence_defs)

lemma random_keeps: "keeps reserved_clear (create_random_event oe)"
  unfolding create_random_event_def shared_parts put_aux_and_extra_def
  by (intro keeps_intros; simp add: put_field_keeps; simp add: absence_defs)

lemma global_no_defer: "keeps no_defer (create_mostly_valid_global_event oe gl)"
  unfolding create_mostly_valid_global_event_def shared_parts
  by (intro no_defer_intros; simp add: no_defer_def)

lemma sampling_no_defer: "keeps no_defer (create_mostly_valid_sampling_event oe gl)"
  unfolding create_mostly_valid_sampling_event_def shared_parts put_aux_and_extra_def
  by (intro no_defer_intros; simp add: not_defer_names; simp add: no_defer_def)

lemma random_no_defer: "keeps no_defer (create_random_event oe)"
  unfolding create_random_event_def shared_parts put_aux_and_extra_def
  by (intro no_defer_intros; simp add: not_defer_names; simp add: no_defer_def)

section \<open>Which events the log holds\<close>

lemma restored_zero:
  assumes "reserved_clear a"
  shows "restored a zero_pe = a \<longleftrightarrow> no_defer a \<and> no_extra a"
proof -
  have "a_bits a AND mask 38 = a_bits a \<longleftrightarrow> no_defer a"
  proof
    assume "a_bits a AND mask 38 = a_bits a"
    then have "bit (a_bits a) i \<Longrightarrow> i < 38" for i
      by (metis bit_and_iff bit_mask_iff)
    from this [of 38] this [of 39] show "no_defer a" by (auto simp: no_defer_def)
  next
    assume "no_defer a"
    have "bit (a_bits a) i \<Longrightarrow> i < 38" for i
    proof -
      assume b: "bit (a_bits a) i"
      with assms have "\<not> 40 \<le> i" by (auto simp: reserved_clear_def)
      moreover from b \<open>no_defer a\<close> have "i \<noteq> 38" "i \<noteq> 39" by (auto simp: no_defer_def)
      ultimately show "i < 38" by linarith
    qed
    then show "a_bits a AND mask 38 = a_bits a"
      by (intro bit_word_eqI) (auto simp: bit_simps)
  qed
  then show ?thesis
    using assms by (cases a) (auto simp: restored_def zero_pe_def reserved_clear_def no_extra_def)
qed

definition log_holds :: "nat \<Rightarrow> perf_event_attr \<Rightarrow> bool" where
  "log_holds kind a \<longleftrightarrow> (if kind = 0 then no_defer a else kind = 2 \<or> no_extra a)"

lemma attr_kinds:
  assumes "run_state (make_attr (attr_gen_of oe kind gl)) p = (a, q)"
  shows "reserved_clear a" and "kind = 0 \<or> kind = 2 \<Longrightarrow> no_extra a" and "kind \<noteq> 0 \<Longrightarrow> no_defer a"
proof -
  note keep = counting_keeps sampling_keeps global_keeps random_keeps
    sampling_no_defer global_no_defer random_no_defer
  have "keeps reserved_clear (attr_gen_of oe kind gl)"
    by (simp add: attr_gen_of_def keep)
  from keeps_made [OF this _ assms] show "reserved_clear a" by simp
  show "no_extra a" if "kind = 0 \<or> kind = 2"
  proof -
    have "keeps no_extra (attr_gen_of oe kind gl)"
      using that by (auto simp: attr_gen_of_def keep)
    from keeps_made [OF this _ assms] show ?thesis by simp
  qed
  show "no_defer a" if "kind \<noteq> 0"
  proof -
    have "keeps no_defer (attr_gen_of oe kind gl)"
      using that by (simp add: attr_gen_of_def keep)
    from keeps_made [OF this _ assms] show ?thesis by simp
  qed
qed

lemmas wp_opaque = wp_any [where m = "crand_mod r n" for r n] wp_any [where m = "random_group oe" for oe]
  wp_any [where m = "random_mask r fs" for r fs] wp_any [where m = "random_open_pid oe w" for oe w]
  wp_any [where m = "make_attr m" for m]

lemma sanitised_attr:
  assumes "run_state (sanitise_perf_event_open oe) p = (args, q)"
  shows "\<exists>kind gl p' q'. o_trinity_type args = nat kind \<and> 0 \<le> kind \<and> kind < 4 \<and>
     run_state (make_attr (attr_gen_of oe kind gl)) p' = (o_attr args, q')"
proof -
  have "wp (sanitise_perf_event_open oe) (\<lambda>args q. \<exists>kind gl p' q'. o_trinity_type args = nat kind \<and>
     0 \<le> kind \<and> kind < 4 \<and> run_state (make_attr (attr_gen_of oe kind gl)) p' = (o_attr args, q')) p"
    unfolding sanitise_perf_event_open_def
    by (intro wp_let wp_bind wp_prod wp_return wp_opaque)
      (simp; metis crand_mod_range zero_less_numeral)
  from wp_run [OF this assms] show ?thesis .
qed

text \<open>
  C33. Which events a replay of the log opens as the fuzzer opened them: for every random
  sequence, an event of the counting kind unless one of the two newest bit fields is set, an
  event of the global kind always, and a sampling or random event exactly when the three
  newest fields are all 0; whatever configuration a kprobe then puts in.
\<close>

theorem generated_event_replayed:
  assumes "run_state (sanitise_perf_event_open oe) p = (args, q)" and "a = (o_attr args)\<lparr>a_config := c\<rparr>"
  shows "\<exists>a'. parse_open_event (log_open_line fd pid cpu group_fd flags a) zero_pe
             = Some (i32 fd, i32 pid, i32 cpu, i32 group_fd, flags, a') \<and>
           (a' = a \<longleftrightarrow> log_holds (o_trinity_type args) (o_attr args))"
proof -
  obtain kind gl p' q' where kind: "o_trinity_type args = nat kind" "0 \<le> kind" "kind < 4"
    and run: "run_state (make_attr (attr_gen_of oe kind gl)) p' = (o_attr args, q')"
    using sanitised_attr [OF assms(1)] by blast
  note made = attr_kinds [OF run]
  have same: "no_defer a = no_defer (o_attr args)" "no_extra a = no_extra (o_attr args)"
    and "reserved_clear a"
    using made(1) by (simp_all add: assms(2) absence_defs)
  then have "restored a zero_pe = a \<longleftrightarrow> no_defer (o_attr args) \<and> no_extra (o_attr args)"
    by (simp add: restored_zero)
  also have "\<dots> \<longleftrightarrow> log_holds (o_trinity_type args) (o_attr args)"
    using made(2,3) kind by (auto simp: log_holds_def)
  finally show ?thesis by (simp add: parse_log_open_line)
qed

definition ex_open_env :: "(nat \<Rightarrow> int) \<Rightarrow> open_env" where
  "ex_open_env seq =
     \<lparr>oe_rand = \<lparr>r_seq = seq, r_page_size = 4096, r_online_cpus = 4\<rparr>, oe_pmus = [], oe_getpid = 99,
      oe_old_group_fd = (\<lambda>p. 0)\<rparr>"

definition ex_attr :: perf_event_attr where
  "ex_attr = zero_pe\<lparr>a_size := 64, a_bits := push_bit 39 1\<rparr>"

lemma ex_generated:
  "run_state (sanitise_perf_event_open (ex_open_env (\<lambda>p. if p = 56 then 1 else 0))) 0
     = (\<lparr>o_attr = ex_attr, o_pid = 0, o_group_fd = - 1, o_flags = 0, o_trinity_type = 0\<rparr>, 57)"
  by code_simp

theorem generated_event_replayed_witness:
  "\<exists>a'. parse_open_event (log_open_line 3 0 0 (- 1) 0 ex_attr) zero_pe
             = Some (i32 3, i32 0, i32 0, i32 (- 1), 0, a') \<and> a' \<noteq> ex_attr"
  using generated_event_replayed [OF ex_generated, where a = ex_attr and c = 0 and fd = 3 and pid = 0 and cpu = 0
      and group_fd = "- 1" and flags = 0]
  by (auto simp: log_holds_def no_defer_def ex_attr_def zero_pe_def bit_simps)

end
