(* ===== verification/OpenPmuTheorems.thy ===== *)
theory OpenPmuTheorems
  imports OpenGenTheorems PmuTheorems
begin

text \<open>
  The PMU descriptions and the generator of events together: whatever the kernel exports, a
  configuration that \<open>random_sysfs_config\<close> takes from a PMU has only bits that a format of
  that PMU describes.
\<close>

section \<open>Bits that the formats describe\<close>

definition covered :: "format_type list \<Rightarrow> (int \<Rightarrow> bool) \<Rightarrow> u64 \<Rightarrow> bool" where
  "covered fs P x \<longleftrightarrow> (\<forall>i<64. bit x i \<longrightarrow> (\<exists>f\<in>set fs. P (f_field f) \<and> bit (f_mask f) i))"

text \<open>A format whose field is not known counts for \<open>config2\<close>.\<close>

definition within :: "format_type list \<Rightarrow> configs \<Rightarrow> bool" where
  "within fs c \<longleftrightarrow> covered fs (\<lambda>k. k = FIELD_CONFIG) (cfg0 c) \<and>
     covered fs (\<lambda>k. k = FIELD_CONFIG1) (cfg1 c) \<and>
     covered fs (\<lambda>k. k \<noteq> FIELD_CONFIG \<and> k \<noteq> FIELD_CONFIG1) (cfg2 c)"

lemma covered_zero [simp]: "covered fs P 0"
  by (simp add: covered_def)

lemma covered_or: "covered fs P x \<Longrightarrow> covered fs P y \<Longrightarrow> covered fs P (x OR y)"
  by (auto simp: covered_def bit_or_iff)

lemma covered_mask: "f \<in> set fs \<Longrightarrow> P (f_field f) \<Longrightarrow> covered fs P (v AND f_mask f)"
  by (auto simp: covered_def bit_and_iff)

lemma covered_separate: "f \<in> set fs \<Longrightarrow> P (f_field f) \<Longrightarrow> covered fs P (separate_bits v (f_mask f))"
  by (auto simp: covered_def separate_bits_bit)

lemma within_none [simp]: "within fs no_configs"
  by (simp add: within_def no_configs_def)

section \<open>Named events\<close>

lemma update_configs_within:
  "update_configs gs field v c = Some c' \<Longrightarrow> set gs \<subseteq> set fs \<Longrightarrow> within fs c \<Longrightarrow> within fs c'"
  by (induction gs field v c rule: update_configs.induct)
    (auto simp: within_def field_defs intro!: covered_or covered_separate split: option.splits if_splits)

lemma generic_loop_within:
  "generic_loop fs s c errs = Some (c', errs') \<Longrightarrow> within fs c \<Longrightarrow> within fs c'"
proof (induction fs s c errs rule: generic_loop.induct)
  case (1 fs s c errs)
  let ?r = "dropWhile in_field s"
  obtain temp errs1 r1 where scan: "(if ?r = [] \<or> hd ?r = CHR '','' then (1, errs, ?r)
      else scan_based errs (tl ?r)) = (temp, errs1, r1)" by (metis prod_cases3)
  from 1(2) obtain c1 where upd: "update_configs fs (takeWhile in_field s) temp c = Some c1"
    unfolding generic_loop.simps [of fs s] Let_def scan by (auto split: option.splits)
  have in1: "within fs c1" using update_configs_within [OF upd _ 1(3)] by simp
  from 1(2) have rest: "(if r1 = [] then Some (c1, errs1) else generic_loop fs (tl r1) c1 errs1) = Some (c', errs')"
    unfolding generic_loop.simps [of fs s] Let_def scan by (simp add: upd)
  show ?case
  proof (cases "r1 = []")
    case True
    with rest in1 show ?thesis by simp
  next
    case False
    with rest have "generic_loop fs (tl r1) c1 errs1 = Some (c', errs')" by simp
    with 1(1) [OF refl refl scan [symmetric] refl refl upd False] in1 show ?thesis by simp
  qed
qed

lemma parse_generic_within: "parse_generic fs s = Some (c, errs) \<Longrightarrow> within fs c"
  unfolding parse_generic_def by (drule generic_loop_within) simp_all

definition events_within :: "format_type list \<Rightarrow> generic_event_type list \<Rightarrow> bool" where
  "events_within fs gs \<longleftrightarrow> (\<forall>g\<in>set gs. within fs (event_configs g))"

lemma events_within_update:
  "events_within fs gs \<Longrightarrow> (n < length gs \<Longrightarrow> within fs (event_configs g)) \<Longrightarrow> events_within fs (gs[n := g])"
  using set_update_subset_insert [of gs n g] list_update_beyond [of gs n g]
  by (cases "n < length gs") (auto simp: events_within_def)

lemma events_within_same:
  assumes "events_within fs gs" and "\<And>g. event_configs (f g) = event_configs g"
  shows "events_within fs (gs[n := f (gs ! n)])"
  using assms by (intro events_within_update) (simp_all add: events_within_def)

lemma fill_events_within:
  "fill_events fs es gs n buf = Some (gs', buf') \<Longrightarrow> events_within fs gs \<Longrightarrow> events_within fs gs'"
proof (induction fs es gs n buf rule: fill_events.induct)
  case (1 fs gs n buf)
  then show ?case by simp
next
  case (2 fs nm content es gs n buf)
  let ?gs1 = "gs[n := (gs ! n)\<lparr>g_name := Some nm\<rparr>]"
  let ?tok = "case content of None \<Rightarrow> None | Some txt \<Rightarrow> map_option fst (scan_token txt)"
  let ?gs2 = "if ?tok = None then ?gs1 else ?gs1[n := (?gs1 ! n)\<lparr>g_value := ?tok\<rparr>]"
  let ?buf1 = "if ?tok = None then buf else ?tok"
  have gs1: "events_within fs ?gs1"
    by (rule events_within_same [OF 2(3), where f = "\<lambda>g. g\<lparr>g_name := Some nm\<rparr>"]) (simp add: event_configs_def)
  have gs2: "events_within fs ?gs2"
    using gs1 events_within_same [OF gs1, where f = "\<lambda>g. g\<lparr>g_value := ?tok\<rparr>"]
    by (auto simp: event_configs_def simp del: list_update_overwrite)
  let ?filled = "\<lambda>c. ?gs2[n := (?gs2 ! n)\<lparr>g_config := cfg0 c, g_config1 := cfg1 c, g_config2 := cfg2 c\<rparr>]"
  have "\<exists>v c errs. ?buf1 = Some v \<and> parse_generic fs v = Some (c, errs) \<and>
      fill_events fs es (?filled c) (n + 1) ?buf1 = Some (gs', buf')"
    using 2(2) unfolding fill_events.simps Let_def
    by (cases ?buf1; simp only: option.case option.distinct; cases "parse_generic fs (the ?buf1)")
      (auto simp only: option.sel option.case option.distinct prod.case split: prod.splits)
  then obtain v c errs where v: "?buf1 = Some v" and c: "parse_generic fs v = Some (c, errs)"
    and rest: "fill_events fs es (?filled c) (n + 1) ?buf1 = Some (gs', buf')" by blast
  have "events_within fs (?filled c)"
    using parse_generic_within [OF c] by (intro events_within_update gs2) (simp add: event_configs_def within_def)
  then show ?case using 2(1) [OF refl refl refl refl v c refl rest] by simp
qed


lemma add_pmu_within:
  "add_pmu d fbuf ebuf = Some (pmu, fbuf', ebuf') \<Longrightarrow> events_within (p_formats pmu) (p_events pmu)"
  by (auto simp: add_pmu_def Let_def bind_Some_iff events_within_def new_event_def event_configs_def
      new_pmu_def no_configs_def [symmetric] split: option.splits dest!: fill_events_within)

lemma add_pmus_within:
  "add_pmus ds fbuf ebuf = Some ps \<Longrightarrow> pmu \<in> set ps \<Longrightarrow> events_within (p_formats pmu) (p_events pmu)"
proof (induction ds arbitrary: fbuf ebuf ps)
  case (Cons d ds)
  then show ?case by (auto simp: bind_Some_iff dest: add_pmu_within)
qed simp

section \<open>The generator\<close>

lemma random_formats_within:
  "set gs \<subseteq> set fs \<Longrightarrow> within fs c \<Longrightarrow> wp (random_formats r gs c) (\<lambda>c' q. within fs c') p"
proof (induction gs arbitrary: c p)
  case Nil
  then show ?case by (simp add: wp_def)
next
  case (Cons f gs)
  have "within fs (if f_field f = FIELD_CONFIG then c\<lparr>cfg0 := cfg0 c OR (v AND f_mask f)\<rparr>
      else if f_field f = FIELD_CONFIG1 then c\<lparr>cfg1 := cfg1 c OR (v AND f_mask f)\<rparr>
      else c\<lparr>cfg2 := cfg2 c OR (v AND f_mask f)\<rparr>)" for v
    using Cons.prems by (auto simp: within_def field_defs intro!: covered_or covered_mask)
  then show ?case
    unfolding random_formats.simps using Cons.prems
    by (intro wp_bind wp_if wp_any [where m = "crand_mod r n" for n] wp_any [where m = "trinity_rand64 r"] Cons.IH) auto
qed

lemma sysfs_configs_within:
  assumes "events_within (p_formats pmu) (p_events pmu)"
  shows "wp (sysfs_configs r pmu) (\<lambda>cs q. \<forall>c. cs = Some c \<longrightarrow> within (p_formats pmu) c) p"
proof -
  have event: "within (p_formats pmu) (event_configs (p_events pmu ! nat j))"
    if "run_state (crand_mod r (int (length (p_events pmu)))) s = (j, t)" "p_events pmu \<noteq> []" for j s t
    using crand_mod_range [OF that(1)] that(2) assms by (auto simp: events_within_def)
  have formats: "wp (random_formats r (p_formats pmu) no_configs) (\<lambda>c t. within (p_formats pmu) c) s" for s
    by (rule random_formats_within) simp_all
  show ?thesis
    unfolding sysfs_configs_def
    by (intro wp_bind wp_any wp_if wp_return) (auto intro: event wp_return dest: wp_run [OF formats])
qed

text \<open>
  C9. A configuration taken from sysfs stays inside the description of its PMU: whatever the
  kernel exports and whatever is drawn, the type of the event is that of a PMU of the table,
  and its three configurations have only bits of the masks of that PMU's formats, unless no
  format and no named event was used, where the first two are below 64.
\<close>

theorem sysfs_config_in_masks:
  assumes "generator_pmus sysfs = Some (oe_pmus oe)" and "oe_pmus oe \<noteq> []"
    and "run_state (random_sysfs_config oe) (p, a) = (c, (q, b))"
  shows "\<exists>pmu\<in>set (oe_pmus oe). a_type b = word_of_int (p_type pmu) \<and>
     (within (p_formats pmu) \<lparr>cfg0 = c, cfg1 = a_config1 b, cfg2 = a_config2 b\<rparr> \<or>
      c < 64 \<and> a_config1 b < 64 \<and> a_config2 b = a_config2 a)"
proof -
  let ?r = "oe_rand oe" and ?n = "int (length (oe_pmus oe))"
  obtain i p1 where i: "run_state (crand_mod ?r ?n) p = (i, p1)" by (cases "run_state (crand_mod ?r ?n) p")
  define pmu where "pmu = oe_pmus oe ! nat i"
  have pmu: "pmu \<in> set (oe_pmus oe)"
    using crand_mod_range [OF i] assms(2) by (auto simp: pmu_def nat_less_iff)
  then have events: "events_within (p_formats pmu) (p_events pmu)"
    using assms(1,2) add_pmus_within by (fastforce simp: generator_pmus_def split: option.splits)
  obtain cs p2 where cs: "run_state (sysfs_configs ?r pmu) p1 = (cs, p2)"
    by (cases "run_state (sysfs_configs ?r pmu) p1")
  have small: "(word_of_int v :: u64) < 64" if "run_state (crand_mod ?r 64) s = (v, t)" for v s t
    using crand_mod_range [OF that] by (simp add: word_less_def unsigned_of_int take_bit_int_eq_self)
  note run = assms(3) [unfolded random_sysfs_config_def Let_def]
  show ?thesis
  proof (cases cs)
    case (Some d)
    then have "c = cfg0 d" "b = a\<lparr>a_type := word_of_int (p_type pmu), a_config1 := cfg1 d, a_config2 := cfg2 d\<rparr>"
      using run i cs assms(2) by (auto simp: draws_def put_def pmu_def [symmetric])
    moreover have "within (p_formats pmu) d"
      using wp_run [OF sysfs_configs_within [OF events] cs] Some by simp
    ultimately show ?thesis using pmu by (intro bexI [of _ pmu]) (simp_all add: within_def)
  next
    case None
    then obtain v w s t where "b = a\<lparr>a_type := word_of_int (p_type pmu), a_config1 := word_of_int v\<rparr>"
        "c = word_of_int w" "run_state (crand_mod ?r 64) p2 = (v, s)" "run_state (crand_mod ?r 64) s = (w, t)"
      using run i cs assms(2)
      by (auto simp: draws_def put_def put_random_def pmu_def [symmetric] split: prod.splits)
    with small pmu show ?thesis by (intro bexI [of _ pmu]) auto
  qed
qed

definition ex_sysfs :: "sys_pmu list option" where
  "ex_sysfs = Some [\<lparr>d_name = ''.'', d_type = None, d_formats = None, d_events = None\<rparr>,
     \<lparr>d_name = ''cpu'', d_type = Some ''4'',
      d_formats = Some [(''event'', Some ''config:0-7''), (''frontend'', Some ''config1:0-23'')],
      d_events = None\<rparr>]"

definition ex_pmus :: "pmu_type list" where
  "ex_pmus = [\<lparr>p_name = Some ''cpu'', p_type = 4,
     p_formats = [\<lparr>f_name = Some ''event'', f_value = Some ''config:0-7'', f_field = 1, f_mask = 0xff\<rparr>,
       \<lparr>f_name = Some ''frontend'', f_value = Some ''config1:0-23'', f_field = 2, f_mask = 0xffffff\<rparr>],
     p_events = []\<rparr>]"

definition ex_sysfs_env :: open_env where
  "ex_sysfs_env = (ex_open_env (\<lambda>p. 3 * (int p + 5)))\<lparr>oe_pmus := ex_pmus\<rparr>"

lemma ex_sysfs_run:
  "generator_pmus ex_sysfs = Some ex_pmus"
  "run_state (random_sysfs_config ex_sysfs_env) (0, zero_pe)
     = (132, (22, zero_pe\<lparr>a_type := 4, a_config1 := 254\<rparr>))"
  by code_simp+

lemma ex_sysfs_pmus: "oe_pmus ex_sysfs_env = ex_pmus"
  by (simp add: ex_sysfs_env_def)

theorem sysfs_config_in_masks_witness:
  "\<exists>pmu\<in>set ex_pmus. a_type (zero_pe\<lparr>a_type := 4, a_config1 := 254\<rparr>) = word_of_int (p_type pmu) \<and>
     (within (p_formats pmu) \<lparr>cfg0 = 132, cfg1 = a_config1 (zero_pe\<lparr>a_type := 4, a_config1 := 254\<rparr>),
        cfg2 = a_config2 (zero_pe\<lparr>a_type := 4, a_config1 := 254\<rparr>)\<rparr> \<or>
      (132 :: u64) < 64 \<and> a_config1 (zero_pe\<lparr>a_type := 4, a_config1 := 254\<rparr>) < 64 \<and>
      a_config2 (zero_pe\<lparr>a_type := 4, a_config1 := 254\<rparr>) = a_config2 zero_pe)"
  by (rule sysfs_config_in_masks [where oe = ex_sysfs_env, OF _ _ ex_sysfs_run(2), unfolded ex_sysfs_pmus,
        OF ex_sysfs_run(1)]) (simp add: ex_pmus_def)

end
