(* ===== verification/PerfWrite.thy ===== *)
theory PerfWrite
  imports PerfData TrinityRandom
begin

text \<open>
  perf_data_fuzzer/create_perf_data.c: the writer of random perf.data files. A generator
  returns the bytes that its function writes; its state holds what outlives a call: the
  position in the random sequence, the page of random text and the two counts of processors.
  The writer has the file, its offset and the header too.
\<close>

section \<open>State\<close>

record gen_state =
  gs_draws :: nat
  gs_unicode :: "u8 list"
  gs_available :: u32
  gs_online :: u32

record write_state =
  ws_gen :: gen_state
  ws_file :: "u8 list"
  ws_pos :: nat
  ws_header :: perf_header
  ws_written :: nat

text \<open>
  \<open>we_page p n\<close>: the bytes \<open>gen_unicode_page\<close> puts at the start of a page of \<open>n\<close> bytes, and the
  new position in the random sequence. \<open>we_stack p\<close> and \<open>we_behind p\<close>: what a local buffer holds
  before it is written, and the memory behind the header, at a position of the sequence.
\<close>

record write_env =
  we_rand :: rand_env
  we_page :: "nat \<Rightarrow> nat \<Rightarrow> u8 list \<times> nat"
  we_stack :: "nat \<Rightarrow> nat \<Rightarrow> u8"
  we_behind :: "nat \<Rightarrow> nat \<Rightarrow> u8"
  we_open :: bool

type_synonym 'a content = "(gen_state, 'a) state"
type_synonym 'a writer = "(write_state, 'a) state"

definition pull :: "'a draw \<Rightarrow> 'a content" where
  "pull g = State (\<lambda>s. case run_state g (gs_draws s) of (x, q) \<Rightarrow> (x, s\<lparr>gs_draws := q\<rparr>))"

abbreviation roll_mod :: "write_env \<Rightarrow> int \<Rightarrow> int content" where
  "roll_mod e n \<equiv> pull (crand_mod (we_rand e) n)"

definition stack_bytes :: "write_env \<Rightarrow> nat \<Rightarrow> u8 list content" where
  "stack_bytes e n = State (\<lambda>s. (buffer n (we_stack e (gs_draws s)), s))"

fun random_bytes :: "rand_env \<Rightarrow> nat \<Rightarrow> u8 list draw" where
  "random_bytes r 0 = ret []"
| "random_bytes r (Suc n) = do { v \<leftarrow> crand r; bs \<leftarrow> random_bytes r n; ret (word_of_int v # bs) }"

section \<open>random_string\<close>

definition UNICODE_PAGESIZE :: nat where "UNICODE_PAGESIZE = 16384"

definition gen_unicode_page :: "write_env \<Rightarrow> nat \<Rightarrow> unit content" where
  "gen_unicode_page e n = State (\<lambda>s. case we_page e (gs_draws s) n of (bs, q) \<Rightarrow>
     ((), s\<lparr>gs_draws := q, gs_unicode := bs @ drop (length bs) (gs_unicode s)\<rparr>))"

text \<open>
  The argument is what \<open>dest\<close> points to, \<open>size\<close> bytes. No caller asks for more than
  \<open>UNICODE_PAGESIZE\<close> bytes, which would end the program.
\<close>

definition random_string :: "write_env \<Rightarrow> u8 list \<Rightarrow> u8 list content" where
  "random_string e dest = (let size = length dest in do {
     refresh \<leftarrow> roll_mod e 128;
     (if refresh = 0 then gen_unicode_page e UNICODE_PAGESIZE else ret ());
     if size = 0 then ret dest
     else do {
       offset \<leftarrow> roll_mod e (int (UNICODE_PAGESIZE - size));
       k \<leftarrow> roll_mod e 4;
       len \<leftarrow> (if k < 2 then roll_mod e (int size) else ret (int size));
       page \<leftarrow> State (\<lambda>s. (gs_unicode s, s));
       let n = nat len;
       let str = take n (drop (nat offset) page) @ drop n dest;
       terminate \<leftarrow> roll_mod e 16;
       ret (if terminate \<noteq> 0 \<and> n > 0 then str[n - 1 := 0] else str) } })"

section \<open>create_perf_header\<close>

text \<open>Case 14 has no \<open>break\<close>: the random string is overwritten.\<close>

definition random_magic :: "write_env \<Rightarrow> u8 list \<Rightarrow> u8 list content" where
  "random_magic e old = do {
     k \<leftarrow> roll_mod e 16;
     magic \<leftarrow>
       (if k < 12 then ret (ascii ''PERFILE2'')
        else if k = 12 then do { d \<leftarrow> roll_mod e 10; ret (ascii ''PERFILE'' @ [word_of_int (d + 48)]) }
        else if k = 13 then do { d \<leftarrow> pull (crand (we_rand e)); ret (ascii ''PERFILE'' @ [word_of_int d]) }
        else if k = 14 then do { str \<leftarrow> random_string e old; pull (random_bytes (we_rand e) 8) }
        else pull (random_bytes (we_rand e) 8));
     swap \<leftarrow> roll_mod e 4;
     ret (if swap = 3 then rev magic else magic) }"

definition byte_or_64 :: "write_env \<Rightarrow> int \<Rightarrow> u64 content" where
  "byte_or_64 e k = (if k = 1 then do { v \<leftarrow> roll_mod e 256; ret (word_of_int v) }
     else pull (trinity_rand64 (we_rand e)))"

text \<open>The second \<open>switch\<close> stores the size of the attributes to \<open>ph.size\<close> too.\<close>

definition random_sizes :: "write_env \<Rightarrow> perf_header \<Rightarrow> perf_header content" where
  "random_sizes e h = do {
     k \<leftarrow> roll_mod e 3;
     h \<leftarrow> (if k = 0 then ret (h\<lparr>ph_size := 104\<rparr>)
           else do { v \<leftarrow> byte_or_64 e k; ret (h\<lparr>ph_size := v\<rparr>) });
     j \<leftarrow> roll_mod e 3;
     if j = 0 then ret (h\<lparr>ph_size := 144\<rparr>)
     else do { v \<leftarrow> byte_or_64 e j; ret (h\<lparr>ph_attr_size := v\<rparr>) } }"

definition random_flags :: "write_env \<Rightarrow> perf_header \<Rightarrow> perf_header content" where
  "random_flags e h = (let r = we_rand e in do {
     k \<leftarrow> roll_mod e 3;
     h \<leftarrow> (if k = 0 then ret (h\<lparr>ph_flags := 0\<rparr>)
           else do { v \<leftarrow> byte_or_64 e k; ret (h\<lparr>ph_flags := v\<rparr>) });
     j \<leftarrow> roll_mod e 16;
     if j < 14 then ret h
     else if j = 14 then do {
       i \<leftarrow> roll_mod e 3;
       v \<leftarrow> pull (trinity_rand64 r);
       ret (h\<lparr>ph_flags1 := (ph_flags1 h)[nat i := v]\<rparr>) }
     else do {
       a \<leftarrow> pull (trinity_rand64 r); b \<leftarrow> pull (trinity_rand64 r); c \<leftarrow> pull (trinity_rand64 r);
       ret (h\<lparr>ph_flags1 := [a, b, c]\<rparr>) } })"

definition random_header :: "write_env \<Rightarrow> perf_header \<Rightarrow> (perf_header \<times> nat) content" where
  "random_header e h = do {
     magic \<leftarrow> random_magic e (ph_magic h);
     h \<leftarrow> random_sizes e (h\<lparr>ph_magic := magic\<rparr>);
     h \<leftarrow> random_flags e h;
     k \<leftarrow> roll_mod e 16;
     if k < 15 then ret (h, PERF_HEADER_SIZE)
     else do { n \<leftarrow> roll_mod e 16384; ret (h, nat n) } }"

section \<open>The feature sections\<close>

definition create_flag_section_random :: "write_env \<Rightarrow> u8 list content" where
  "create_flag_section_random e = do {
     len \<leftarrow> roll_mod e 4096;
     pull (random_bytes (we_rand e) (nat len)) }"

text \<open>Header, pid and id take 36 bytes; up to 511 bytes of the buffer are written.\<close>

definition create_flag_section_build_id :: "write_env \<Rightarrow> u8 list content" where
  "create_flag_section_build_id e = do {
     data \<leftarrow> stack_bytes e 4096;
     pid \<leftarrow> pull (crand (we_rand e));
     build_id \<leftarrow> pull (random_bytes (we_rand e) 24);
     filename \<leftarrow> random_string e (take 36 (drop 36 data));
     len \<leftarrow> roll_mod e 512;
     ret (take (nat len) (le32 0 @ le16 1 @ le16 100 @ le32 (word_of_int pid) @ build_id @ filename @
            drop 72 data)) }"

text \<open>In case 2 the length in front of the string is not set.\<close>

definition create_flag_section_string :: "write_env \<Rightarrow> u8 list content" where
  "create_flag_section_string e = (let r = we_rand e in do {
     data \<leftarrow> stack_bytes e 16384;
     i \<leftarrow> roll_mod e 16;
     if i = 0 then ret (le32 3 @ ascii ''VMW'')
     else do {
       string_len \<leftarrow> roll_mod e 8192;
       if i = 1 then do {
         str \<leftarrow> pull (random_bytes r (nat string_len));
         len \<leftarrow> pull (crand r);
         ret (le32 (word_of_int len) @ str) }
       else if i = 2 then do {
         str \<leftarrow> random_string e (take (nat string_len) (drop 4 data));
         ret (take 4 data @ str) }
       else do {
         str \<leftarrow> pull (random_bytes r (nat string_len));
         ret (le32 (word_of_int string_len) @ str) } } })"

text \<open>The statements of the function for lists are those for one string.\<close>

definition create_flag_section_string_list :: "write_env \<Rightarrow> u8 list content" where
  "create_flag_section_string_list e = create_flag_section_string e"

definition create_flag_section_u64 :: "write_env \<Rightarrow> u8 list content" where
  "create_flag_section_u64 e = do {
     i \<leftarrow> roll_mod e 16;
     value \<leftarrow> (if i = 0 then pull (trinity_rand64 (we_rand e))
               else if i = 1 then ret 0
               else do { v \<leftarrow> pull (trinity_rand64 (we_rand e)); ret (v mod 256000000) });
     ret (le64 value) }"

definition create_flag_section_nrcpus :: "write_env \<Rightarrow> u8 list content" where
  "create_flag_section_nrcpus e = (let r = we_rand e in do {
     i \<leftarrow> roll_mod e 16;
     v \<leftarrow> (if i < 2 then pull (crand r) else roll_mod e 128);
     let avail = word_of_int v;
     j \<leftarrow> roll_mod e 16;
     online \<leftarrow> (if j < 2 then do { v \<leftarrow> pull (crand r); ret (word_of_int v) }
                else if j < 4 then do { v \<leftarrow> roll_mod e 128; ret (word_of_int v) }
                else if j = 4 then do { v \<leftarrow> roll_mod e 4; ret (avail - word_of_int v) }
                else if j = 5 then do { v \<leftarrow> roll_mod e 4; ret (avail + word_of_int v) }
                else ret avail);
     State (\<lambda>s. ((), s\<lparr>gs_available := avail, gs_online := online\<rparr>));
     ret (le32 avail @ le32 online) })"

definition create_flag_section :: "write_env \<Rightarrow> nat \<Rightarrow> u8 list content" where
  "create_flag_section e which =
     (if which = 2 then create_flag_section_build_id e
      else if which \<in> {3, 4, 5, 6, 8, 9} then create_flag_section_string e
      else if which = 7 then create_flag_section_nrcpus e
      else if which = 10 then create_flag_section_u64 e
      else if which = 11 then create_flag_section_string_list e
      else create_flag_section_random e)"

section \<open>Writing\<close>

text \<open>A file keeps what is behind the bytes written, and is filled with zeros up to them.\<close>

definition overwrite :: "u8 list \<Rightarrow> nat \<Rightarrow> u8 list \<Rightarrow> u8 list" where
  "overwrite file pos bs =
     (if bs = [] then file
      else take pos (file @ replicate (pos - length file) 0) @ bs @ drop (pos + length bs) file)"

definition content :: "'a content \<Rightarrow> 'a writer" where
  "content g = State (\<lambda>s. case run_state g (ws_gen s) of (x, q) \<Rightarrow> (x, s\<lparr>ws_gen := q\<rparr>))"

definition write_bytes :: "u8 list \<Rightarrow> unit writer" where
  "write_bytes bs = State (\<lambda>s. ((), s\<lparr>ws_file := overwrite (ws_file s) (ws_pos s) bs,
     ws_pos := ws_pos s + length bs\<rparr>))"

definition seek_to :: "nat \<Rightarrow> unit writer" where
  "seek_to pos = State (\<lambda>s. ((), s\<lparr>ws_pos := pos\<rparr>))"

definition the_pos :: "nat writer" where
  "the_pos = State (\<lambda>s. (ws_pos s, s))"

definition the_header :: "perf_header writer" where
  "the_header = State (\<lambda>s. (ws_header s, s))"

definition upd_header :: "(perf_header \<Rightarrow> perf_header) \<Rightarrow> unit writer" where
  "upd_header f = State (\<lambda>s. ((), s\<lparr>ws_header := f (ws_header s)\<rparr>))"

text \<open>\<open>write(fd,&ph,header_written_size)\<close>, which may read the memory behind the header.\<close>

definition header_bytes :: "write_env \<Rightarrow> write_state \<Rightarrow> u8 list" where
  "header_bytes e s = take (ws_written s)
     (enc_header (ws_header s) @ buffer (ws_written s) (we_behind e (gs_draws (ws_gen s))))"

definition write_header :: "write_env \<Rightarrow> unit writer" where
  "write_header e = do { bs \<leftarrow> State (\<lambda>s. (header_bytes e s, s)); write_bytes bs }"

definition create_perf_header :: "write_env \<Rightarrow> unit writer" where
  "create_perf_header e = do {
     h \<leftarrow> the_header;
     (h, n) \<leftarrow> content (random_header e h);
     State (\<lambda>s. ((), s\<lparr>ws_header := h, ws_written := n\<rparr>));
     write_header e }"

definition create_perf_attributes :: "write_env \<Rightarrow> unit writer" where
  "create_perf_attributes e = do {
     upd_header (\<lambda>h. h\<lparr>ph_attrs := \<lparr>fs_offset = 168, fs_size = 128\<rparr>\<rparr>);
     fake_attr \<leftarrow> content (pull (random_bytes (we_rand e) 128));
     write_bytes fake_attr }"

definition create_perf_data :: "write_env \<Rightarrow> unit writer" where
  "create_perf_data e = do {
     upd_header (\<lambda>h. h\<lparr>ph_data := \<lparr>fs_offset = 296, fs_size = 1576\<rparr>\<rparr>);
     data \<leftarrow> content (pull (random_bytes (we_rand e) 1576));
     write_bytes data }"

section \<open>create_perf_data_file\<close>

text \<open>
  The loop over the flags: the bytes of a section are written where its entry of the table
  goes, which is then written over them. The kind of the section is the number of the round.
\<close>

fun write_sections :: "write_env \<Rightarrow> nat list \<Rightarrow> nat \<Rightarrow> unit writer" where
  "write_sections e [] offset = ret ()"
| "write_sections e (i # is) offset = do {
     flag_header_offset \<leftarrow> the_pos;
     data \<leftarrow> content (create_flag_section e i);
     write_bytes data;
     seek_to flag_header_offset;
     write_bytes (enc_section \<lparr>fs_offset = of_nat offset, fs_size = of_nat (length data)\<rparr>);
     write_sections e is (offset + length data) }"

definition flag_count :: "u64 \<Rightarrow> nat" where
  "flag_count flags = length (filter (bit flags) [0..<64])"

text \<open>The file is opened without \<open>O_TRUNC\<close>: what it held before stays behind what is written.\<close>

definition create_perf_data_file :: "write_env \<Rightarrow> int writer" where
  "create_perf_data_file e = do {
     content (gen_unicode_page e 4096);
     if \<not> we_open e then ret (- 1)
     else do {
       seek_to 0;
       create_perf_header e;
       seek_to 168;
       create_perf_attributes e;
       create_perf_data e;
       h \<leftarrow> the_header;
       let n = flag_count (ph_flags h);
       pos \<leftarrow> the_pos;
       write_sections e [0..<n] (pos + n * 16);
       seek_to 0;
       write_header e;
       ret 0 } }"

end
