(* ===== verification/PerfWriteTheorems.thy ===== *)
theory PerfWriteTheorems
  imports PerfWrite DumpTheorems
begin

text \<open>
  The writer of random perf.data files against the dumper: the table of sections it writes, how
  far the file goes, and why a file with a section in it is never accepted.
\<close>

section \<open>Overwriting\<close>

lemma length_overwrite:
  "length (overwrite file pos bs) = (if bs = [] then length file else max (length file) (pos + length bs))"
  by (auto simp: overwrite_def)

lemma overwrite_at:
  assumes "bs \<noteq> []"
  shows "at (overwrite file pos bs) (int pos) bs"
proof -
  let ?pre = "take pos (file @ replicate (pos - length file) 0)"
  have "length ?pre = pos" by simp
  then show ?thesis
    using at_self [of ?pre bs "drop (pos + length bs) file"] assms by (simp add: overwrite_def)
qed

lemma overwrite_below:
  assumes "int n + int (length cs) \<le> int pos" and "at file (int n) cs"
  shows "at (overwrite file pos bs) (int n) cs"
proof -
  have "n + length cs \<le> length file" using at_bound [OF assms(2)] by linarith
  with assms show ?thesis by (auto simp: at_def overwrite_def take_drop min_def)
qed

lemma overwrite_above:
  assumes "pos + length bs \<le> n" and "at file (int n) cs"
  shows "at (overwrite file pos bs) (int n) cs"
proof -
  have len: "n + length cs \<le> length file" using at_bound [OF assms(2)] by linarith
  with assms have "overwrite file pos bs = take pos file @ bs @ drop (pos + length bs) file" if "bs \<noteq> []"
    using that by (simp add: overwrite_def)
  with assms len show ?thesis
    by (cases "bs = []") (auto simp: at_def overwrite_def)
qed

section \<open>The sections\<close>

definition entries :: "nat \<Rightarrow> nat list \<Rightarrow> u8 list" where
  "entries offset lens = concat (map (\<lambda>k. enc_section
     \<lparr>fs_offset = of_nat (offset + sum_list (take k lens)), fs_size = of_nat (lens ! k)\<rparr>) [0..<length lens])"

lemma entries_Nil [simp]: "entries offset [] = []"
  by (simp add: entries_def)

lemma entries_Cons:
  "entries offset (l # ls) = enc_section \<lparr>fs_offset = of_nat offset, fs_size = of_nat l\<rparr> @ entries (offset + l) ls"
proof -
  have "[0..<length (l # ls)] = 0 # map Suc [0..<length ls]"
    by (simp add: upt_conv_Cons map_Suc_upt del: upt_Suc)
  then show ?thesis by (simp add: entries_def comp_def add.assoc del: upt_Suc)
qed

lemma length_entries [simp]: "length (entries offset lens) = 16 * length lens"
  by (induction lens arbitrary: offset) (simp_all add: entries_Cons enc_section_def)

section \<open>The size of a section\<close>

lemma wp_pull: "(\<And>x q. run_state g (gs_draws s) = (x, q) \<Longrightarrow> Q x (s\<lparr>gs_draws := q\<rparr>)) \<Longrightarrow> wp (pull g) Q s"
  by (simp add: wp_def pull_def split: prod.splits)

lemma wp_get: "Q (f s) (h s) \<Longrightarrow> wp (State (\<lambda>s. (f s, h s))) Q s"
  by (simp add: wp_def)

lemma wp_stack: "Q (buffer n (we_stack e (gs_draws s))) s \<Longrightarrow> wp (stack_bytes e n) Q s"
  by (simp add: wp_def stack_bytes_def)

lemma wp_page: "(\<And>t. Q () t) \<Longrightarrow> wp (gen_unicode_page e n) Q s"
  by (simp add: wp_def gen_unicode_page_def split: prod.splits)

lemmas content_intros = wp_bind wp_let wp_if wp_return wp_pull wp_get wp_stack wp_page

lemma length_random_bytes: "run_state (random_bytes r n) p = (bs, q) \<Longrightarrow> length bs = n"
  by (induction n arbitrary: p bs) (auto split: prod.splits)

lemma random_string_length: "wp (random_string e dest) (\<lambda>str t. length str \<le> length dest) s"
  unfolding random_string_def
  by (intro content_intros) (auto dest!: crand_mod_range simp: nat_le_iff)

lemma wp_random_string: "(\<And>str t. length str \<le> length dest \<Longrightarrow> Q str t) \<Longrightarrow> wp (random_string e dest) Q s"
  by (rule wp_mono [OF random_string_length])

lemma build_id_size: "wp (create_flag_section_build_id e) (\<lambda>data t. length data \<le> 8200) s"
  unfolding create_flag_section_build_id_def
  by (intro content_intros wp_random_string)
    (auto dest!: crand_mod_range simp: min_le_iff_disj simp del: length_append take_append)

lemma section_size: "wp (create_flag_section e i) (\<lambda>data t. length data \<le> 8200) s"
  unfolding create_flag_section_def create_flag_section_string_list_def create_flag_section_string_def
    create_flag_section_nrcpus_def create_flag_section_u64_def create_flag_section_random_def
  by (intro build_id_size content_intros wp_random_string)
    (auto dest!: crand_mod_range length_random_bytes simp: ascii_def)

definition stepped :: "write_state \<Rightarrow> gen_state \<Rightarrow> nat \<Rightarrow> u8 list \<Rightarrow> write_state" where
  "stepped s g offset data = s\<lparr>ws_gen := g,
     ws_file := overwrite (overwrite (ws_file s) (ws_pos s) data) (ws_pos s)
       (enc_section \<lparr>fs_offset = of_nat offset, fs_size = of_nat (length data)\<rparr>),
     ws_pos := ws_pos s + 16\<rparr>"

lemma sections_step:
  assumes "run_state (write_sections e (i # is) offset) s = ((), t)"
  shows "\<exists>data g. run_state (create_flag_section e i) (ws_gen s) = (data, g) \<and>
     run_state (write_sections e is (offset + length data)) (stepped s g offset data) = ((), t)"
  using assms
  by (auto simp: the_pos_def content_def write_bytes_def seek_to_def enc_section_def stepped_def split: prod.splits)

lemma length_enc_section [simp]: "length (enc_section sec) = 16"
  by (simp add: enc_section_def)

lemma enc_section_Cons [simp]: "enc_section sec \<noteq> []"
  using length_enc_section [of sec] by (metis list.size(3) zero_neq_numeral)

lemma write_sections_table:
  assumes "run_state (write_sections e is offset) s = ((), t)" and "ws_pos s \<le> length (ws_file s)"
  shows "\<exists>lens. length lens = length is \<and> (\<forall>l\<in>set lens. l \<le> 8200) \<and> at (ws_file t) (int (ws_pos s)) (entries offset lens) \<and>
     length (ws_file t) \<le> max (length (ws_file s)) (ws_pos s + 16 * length is + (sum_list lens - 16)) \<and>
     length (ws_file s) \<le> length (ws_file t) \<and>
     (\<forall>n bs. n + length bs \<le> ws_pos s \<longrightarrow> at (ws_file s) (int n) bs \<longrightarrow> at (ws_file t) (int n) bs) \<and>
     ws_header t = ws_header s \<and> ws_written t = ws_written s"
  using assms
proof (induction "is" arbitrary: offset s)
  case Nil
  then show ?case by (intro exI [of _ "[]"]) (simp add: at_def)
next
  case (Cons i "is")
  obtain data g where gen: "run_state (create_flag_section e i) (ws_gen s) = (data, g)"
    and rest: "run_state (write_sections e is (offset + length data)) (stepped s g offset data) = ((), t)"
    using sections_step [OF Cons.prems(1)] by blast
  have size: "length data \<le> 8200" using wp_run [OF section_size gen] .
  let ?entry = "enc_section \<lparr>fs_offset = of_nat offset, fs_size = of_nat (length data)\<rparr>"
    and ?s = "stepped s g offset data"
  have len: "length (ws_file ?s) = max (length (ws_file s)) (ws_pos s + max 16 (length data))"
    by (simp add: stepped_def length_overwrite) (use Cons.prems(2) in auto)
  have fields: "ws_pos ?s = ws_pos s + 16" "ws_header ?s = ws_header s" "ws_written ?s = ws_written s"
    by (simp_all add: stepped_def)
  have "ws_pos ?s \<le> length (ws_file ?s)" unfolding len fields by linarith
  from Cons.IH [OF rest this] obtain lens where lens: "length lens = length is" "\<forall>l\<in>set lens. l \<le> 8200"
    and table: "at (ws_file t) (int (ws_pos ?s)) (entries (offset + length data) lens)"
    and bound: "length (ws_file t) \<le> max (length (ws_file ?s)) (ws_pos ?s + 16 * length is + (sum_list lens - 16))"
    and grow: "length (ws_file ?s) \<le> length (ws_file t)"
    and below: "\<And>n bs. n + length bs \<le> ws_pos ?s \<Longrightarrow> at (ws_file ?s) (int n) bs \<Longrightarrow> at (ws_file t) (int n) bs"
    and same: "ws_header t = ws_header ?s" "ws_written t = ws_written ?s"
    by blast
  have "at (ws_file ?s) (int (ws_pos s)) ?entry"
    by (simp add: stepped_def overwrite_at)
  from below [OF _ this] have "at (ws_file t) (int (ws_pos s)) ?entry" by (simp add: fields)
  with table have "at (ws_file t) (int (ws_pos s)) (entries offset (length data # lens))"
    by (simp add: entries_Cons at_append_iff fields add.commute)
  moreover have "length (ws_file t) \<le> max (length (ws_file s))
      (ws_pos s + 16 * length (i # is) + (sum_list (length data # lens) - 16))"
    using bound unfolding len fields by auto
  moreover have "at (ws_file t) (int n) bs" if "n + length bs \<le> ws_pos s" "at (ws_file s) (int n) bs" for n bs
  proof (rule below)
    show "at (ws_file ?s) (int n) bs"
      unfolding stepped_def using that by (simp add: overwrite_below)
  qed (use that fields in simp)
  ultimately show ?case
    using lens size grow same unfolding len fields by (intro exI [of _ "length data # lens"]) auto
qed

section \<open>The file\<close>

definition table_offset :: nat where "table_offset = 1872"

definition header_ok :: "perf_header \<Rightarrow> bool" where
  "header_ok h \<longleftrightarrow> length (ph_magic h) = 8 \<and> length (ph_flags1 h) = 3"

lemma header_ok_enc:
  assumes "header_ok h"
  shows "header_of (enc_header h) = h" and "length (enc_header h) = PERF_HEADER_SIZE"
proof -
  from assms obtain a b c where "ph_flags1 h = [a, b, c]"
    by (auto simp: header_ok_def numeral_3_eq_3 length_Suc_conv)
  with assms show "header_of (enc_header h) = h" "length (enc_header h) = PERF_HEADER_SIZE"
    using header_of_enc [of h] by (auto simp: header_ok_def)
qed

lemma magic_length: "wp (random_magic e old) (\<lambda>magic t. length magic = 8) s"
  unfolding random_magic_def
  by (intro content_intros wp_random_string) (auto dest!: length_random_bytes simp: ascii_def)

lemma random_header_ok:
  assumes "header_ok h"
  shows "wp (random_header e h) (\<lambda>r t. header_ok (fst r)) s"
  unfolding random_header_def random_sizes_def random_flags_def byte_or_64_def
  using assms
  by (intro wp_bind wp_mono [OF magic_length]; intro content_intros) (auto simp: header_ok_def)

section \<open>The writer\<close>

lemma wp_seek: "Q () (s\<lparr>ws_pos := p\<rparr>) \<Longrightarrow> wp (seek_to p) Q s"
  by (simp add: wp_def seek_to_def)

lemma wp_upd_header: "Q () (s\<lparr>ws_header := f (ws_header s)\<rparr>) \<Longrightarrow> wp (upd_header f) Q s"
  by (simp add: wp_def upd_header_def)

lemma wp_content:
  "(\<And>x g. run_state c (ws_gen s) = (x, g) \<Longrightarrow> Q x (s\<lparr>ws_gen := g\<rparr>)) \<Longrightarrow> wp (content c) Q s"
  by (simp add: wp_def content_def split: prod.splits)

lemma wp_write:
  "Q () (s\<lparr>ws_file := overwrite (ws_file s) (ws_pos s) bs, ws_pos := ws_pos s + length bs\<rparr>) \<Longrightarrow>
   wp (write_bytes bs) Q s"
  by (simp add: wp_def write_bytes_def)

lemma wp_the_pos: "Q (ws_pos s) s \<Longrightarrow> wp the_pos Q s"
  by (simp add: wp_def the_pos_def)

lemma wp_the_header: "Q (ws_header s) s \<Longrightarrow> wp the_header Q s"
  by (simp add: wp_def the_header_def)

lemma wp_write_header:
  "Q () (s\<lparr>ws_file := overwrite (ws_file s) (ws_pos s) (header_bytes e s),
     ws_pos := ws_pos s + length (header_bytes e s)\<rparr>) \<Longrightarrow> wp (write_header e) Q s"
  by (simp add: wp_def write_header_def write_bytes_def)

lemma header_bytes_whole:
  "ws_written s = PERF_HEADER_SIZE \<Longrightarrow> header_ok (ws_header s) \<Longrightarrow> header_bytes e s = enc_header (ws_header s)"
  using header_ok_enc(2) [of "ws_header s"] by (simp add: header_bytes_def)

lemma length_header_bytes: "length (header_bytes e s) = ws_written s"
  by (simp add: header_bytes_def)

lemma wp_modify: "Q () (f s) \<Longrightarrow> wp (State (\<lambda>s. ((), f s))) Q s"
  by (simp add: wp_def)

lemmas writer_intros = wp_bind wp_let wp_prod wp_return wp_seek wp_upd_header wp_content wp_write
  wp_the_pos wp_the_header wp_write_header wp_modify

text \<open>The file up to the table of sections.\<close>

definition head_ok :: "write_state \<Rightarrow> bool" where
  "head_ok u \<longleftrightarrow> ws_pos u = table_offset \<and> length (ws_file u) = table_offset \<and> header_ok (ws_header u) \<and>
     ph_data (ws_header u) = \<lparr>fs_offset = 296, fs_size = 1576\<rparr>"

definition file_written :: "write_state \<Rightarrow> nat list \<Rightarrow> bool" where
  "file_written t lens \<longleftrightarrow> header_ok (ws_header t) \<and>
     length lens = flag_count (ph_flags (ws_header t)) \<and> (\<forall>l\<in>set lens. l \<le> 8200) \<and>
     ph_data (ws_header t) = \<lparr>fs_offset = 296, fs_size = 1576\<rparr> \<and>
     at (ws_file t) 0 (enc_header (ws_header t)) \<and>
     at (ws_file t) (int table_offset) (entries (table_offset + 16 * length lens) lens) \<and>
     length (ws_file t) \<le> table_offset + 16 * length lens + (sum_list lens - 16)"

lemma rest_of_file:
  assumes "head_ok u" and "ws_written v = PERF_HEADER_SIZE"
    and "run_state (write_sections e [0..<flag_count (ph_flags (ws_header u))]
           (ws_pos u + flag_count (ph_flags (ws_header u)) * 16)) u = ((), v)"
  shows "\<exists>lens. file_written (v\<lparr>ws_file := overwrite (ws_file v) 0 (header_bytes e (v\<lparr>ws_pos := 0\<rparr>)), ws_pos := k\<rparr>) lens"
proof -
  let ?n = "flag_count (ph_flags (ws_header u))" and ?f = "overwrite (ws_file v) 0 (enc_header (ws_header u))"
  have head: "ws_pos u = table_offset" "length (ws_file u) = table_offset" "header_ok (ws_header u)"
    "ph_data (ws_header u) = \<lparr>fs_offset = 296, fs_size = 1576\<rparr>"
    using assms(1) by (simp_all add: head_ok_def)
  obtain lens where lens: "length lens = ?n" "\<forall>l\<in>set lens. l \<le> 8200"
    and table: "at (ws_file v) (int table_offset) (entries (table_offset + 16 * ?n) lens)"
    and bound: "length (ws_file v) \<le> table_offset + 16 * ?n + (sum_list lens - 16)"
    and grow: "table_offset \<le> length (ws_file v)"
    and same: "ws_header v = ws_header u" "ws_written v = ws_written u"
    using write_sections_table [OF assms(3)] head by (auto simp: mult.commute)
  have bytes: "header_bytes e (v\<lparr>ws_pos := 0\<rparr>) = enc_header (ws_header u)"
    using header_bytes_whole [of "v\<lparr>ws_pos := 0\<rparr>"] same head(3) assms(2) by simp
  have size: "length (enc_header (ws_header u)) = 104"
    using header_ok_enc(2) [OF head(3)] by (simp add: PERF_HEADER_SIZE_def)
  then have "enc_header (ws_header u) \<noteq> []" by auto
  from overwrite_at [OF this, of "ws_file v" 0] have "at ?f 0 (enc_header (ws_header u))" by simp
  moreover have "at ?f (int table_offset) (entries (table_offset + 16 * ?n) lens)"
    using table by (intro overwrite_above) (simp_all add: size table_offset_def)
  moreover have "length ?f \<le> table_offset + 16 * ?n + (sum_list lens - 16)"
    using bound grow by (simp add: length_overwrite size table_offset_def)
  ultimately show ?thesis
    using head lens by (intro exI [of _ lens]) (simp add: file_written_def same bytes)
qed

lemma length_fake: "run_state (pull (random_bytes r n)) s = (bs, t) \<Longrightarrow> length bs = n"
  by (auto simp: pull_def dest: length_random_bytes split: prod.splits)

lemma wp_create_perf_header:
  assumes "header_ok (ws_header s)"
    and "\<And>t. header_ok (ws_header t) \<Longrightarrow> length (ws_file t) \<le> max (length (ws_file s)) (ws_pos s + ws_written t)
           \<Longrightarrow> Q () t"
  shows "wp (create_perf_header e) Q s"
  unfolding create_perf_header_def
proof (intro wp_bind wp_the_header wp_content wp_prod wp_modify wp_write_header assms(2))
  fix r g h n
  assume run: "run_state (random_header e (ws_header s)) (ws_gen s) = (r, g)" and r: "r = (h, n)"
  from wp_run [OF random_header_ok [OF assms(1)] run] r show "header_ok (ws_header
      (s\<lparr>ws_gen := g, ws_header := h, ws_written := n,
         ws_file := overwrite (ws_file (s\<lparr>ws_gen := g, ws_header := h, ws_written := n\<rparr>))
           (ws_pos (s\<lparr>ws_gen := g, ws_header := h, ws_written := n\<rparr>))
           (header_bytes e (s\<lparr>ws_gen := g, ws_header := h, ws_written := n\<rparr>)),
         ws_pos := ws_pos (s\<lparr>ws_gen := g, ws_header := h, ws_written := n\<rparr>) +
           length (header_bytes e (s\<lparr>ws_gen := g, ws_header := h, ws_written := n\<rparr>))\<rparr>))"
    by simp
qed (simp add: length_overwrite length_header_bytes)

lemma wp_create_part:
  assumes "\<And>t. ws_pos t = ws_pos s + n \<Longrightarrow> length (ws_file t) = max (length (ws_file s)) (ws_pos s + n) \<Longrightarrow>
     ws_header t = f (ws_header s) \<Longrightarrow> ws_written t = ws_written s \<Longrightarrow> Q () t" and "0 < n"
  shows "wp (do { upd_header f; bs \<leftarrow> content (pull (random_bytes r n)); write_bytes bs }) Q s"
  by (intro wp_bind wp_upd_header wp_content wp_write assms(1))
    (use assms(2) in \<open>auto dest!: length_fake simp: length_overwrite\<close>)

lemma wp_create_perf_attributes:
  assumes "\<And>t. ws_pos t = ws_pos s + 128 \<Longrightarrow> length (ws_file t) = max (length (ws_file s)) (ws_pos s + 128) \<Longrightarrow>
     ws_header t = (ws_header s)\<lparr>ph_attrs := \<lparr>fs_offset = 168, fs_size = 128\<rparr>\<rparr> \<Longrightarrow>
     ws_written t = ws_written s \<Longrightarrow> Q () t"
  shows "wp (create_perf_attributes e) Q s"
  unfolding create_perf_attributes_def by (rule wp_create_part) (use assms in auto)

lemma wp_create_perf_data:
  assumes "\<And>t. ws_pos t = ws_pos s + 1576 \<Longrightarrow> length (ws_file t) = max (length (ws_file s)) (ws_pos s + 1576) \<Longrightarrow>
     ws_header t = (ws_header s)\<lparr>ph_data := \<lparr>fs_offset = 296, fs_size = 1576\<rparr>\<rparr> \<Longrightarrow>
     ws_written t = ws_written s \<Longrightarrow> Q () t"
  shows "wp (create_perf_data e) Q s"
  unfolding create_perf_data_def by (rule wp_create_part) (use assms in auto)

lemma wp_rest_of_file:
  assumes "\<And>v. run_state (write_sections e is off) s = ((), v) \<Longrightarrow>
      Q 0 (v\<lparr>ws_file := overwrite (ws_file v) 0 (header_bytes e (v\<lparr>ws_pos := 0\<rparr>)),
             ws_pos := length (header_bytes e (v\<lparr>ws_pos := 0\<rparr>))\<rparr>)"
  shows "wp (do { write_sections e is off; seek_to 0; write_header e; ret (0 :: int) }) Q s"
  using assms by (simp add: wp_def seek_to_def write_header_def write_bytes_def split: prod.splits)

lemma create_file_ok:
  assumes "header_ok (ws_header s)" and "length (ws_file s) \<le> table_offset"
  shows "wp (create_perf_data_file e)
    (\<lambda>r t. r = 0 \<longrightarrow> ws_written t = PERF_HEADER_SIZE \<longrightarrow> (\<exists>lens. file_written t lens)) s"
  unfolding create_perf_data_file_def
proof (intro wp_rest_of_file wp_bind wp_let wp_content wp_if wp_return wp_seek wp_create_perf_header
    wp_create_perf_attributes wp_create_perf_data wp_the_header wp_the_pos impI)
  fix g t ta u v n
  assume t: "header_ok (ws_header t)"
      "length (ws_file t) \<le> max (length (ws_file (s\<lparr>ws_gen := g, ws_pos := 0\<rparr>)))
         (ws_pos (s\<lparr>ws_gen := g, ws_pos := 0\<rparr>) + ws_written t)"
    and ta: "ws_pos ta = ws_pos (t\<lparr>ws_pos := 168\<rparr>) + 128"
      "length (ws_file ta) = max (length (ws_file (t\<lparr>ws_pos := 168\<rparr>))) (ws_pos (t\<lparr>ws_pos := 168\<rparr>) + 128)"
      "ws_header ta = ws_header (t\<lparr>ws_pos := 168\<rparr>)\<lparr>ph_attrs := \<lparr>fs_offset = 168, fs_size = 128\<rparr>\<rparr>"
      "ws_written ta = ws_written (t\<lparr>ws_pos := 168\<rparr>)"
    and u: "ws_pos u = ws_pos ta + 1576" "length (ws_file u) = max (length (ws_file ta)) (ws_pos ta + 1576)"
      "ws_header u = ws_header ta\<lparr>ph_data := \<lparr>fs_offset = 296, fs_size = 1576\<rparr>\<rparr>" "ws_written u = ws_written ta"
    and n: "n = flag_count (ph_flags (ws_header u))"
    and run: "run_state (write_sections e [0..<n] (ws_pos u + n * 16)) u = ((), v)"
    and whole: "ws_written (v\<lparr>ws_file := overwrite (ws_file v) 0 (header_bytes e (v\<lparr>ws_pos := 0\<rparr>)),
        ws_pos := length (header_bytes e (v\<lparr>ws_pos := 0\<rparr>))\<rparr>) = PERF_HEADER_SIZE"
  from whole have written: "ws_written v = PERF_HEADER_SIZE" by simp
  have pos: "ws_pos u = table_offset" using ta(1) u(1) by (simp add: table_offset_def)
  have "ws_pos u \<le> length (ws_file u)" using u(1,2) by simp
  from write_sections_table [OF run this] have "ws_written t = 104"
    using written ta(4) u(4) by (auto simp: PERF_HEADER_SIZE_def)
  then have "head_ok u"
    using t ta u assms(2) pos by (simp add: head_ok_def header_ok_def table_offset_def)
  from rest_of_file [OF this written run [unfolded n]]
  show "\<exists>lens. file_written (v\<lparr>ws_file := overwrite (ws_file v) 0 (header_bytes e (v\<lparr>ws_pos := 0\<rparr>)),
        ws_pos := length (header_bytes e (v\<lparr>ws_pos := 0\<rparr>))\<rparr>) lens" .
qed (use assms(1) in simp_all)

section \<open>The dumper on such a file\<close>

lemma dump_section_keeps:
  assumes "dump_section d i offset len s = Some (os, r, s')" and "\<not> r < 0"
  shows "ds_pos s' = ds_pos s" and "ds_header s' = ds_header s"
  using assms by (auto simp: dump_section_def Let_def bind_Some_iff split: if_splits option.splits)

lemma dump_section_behind:
  assumes "0 < l" and "length (d_file d) < off + l" and "int off \<le> d_max_seek d"
  shows "\<exists>os s'. dump_section d i (int off) (int l) s = Some (os, - 1, s')"
proof -
  from read_section_refused [of "int l" d "int off" "ds_nr_cpus s" i] assms(1,2)
  obtain m v pos' where "read_section d (ds_nr_cpus s) i (int off) (int l) = Some ([Er m v], - 1, pos', None)"
    by auto
  with assms(3) show ?thesis by (simp add: dump_section_def seek_set_def)
qed

lemma flag_loop_refuses:
  assumes "at (d_file d) (ds_pos s) (entries off lens)"
    and "length lens = length (filter (bit (ph_flags (ds_header s))) is)"
    and "0 < sum_list lens" and "length (d_file d) < off + sum_list lens"
    and "off + sum_list lens < 2 ^ 31" and "int (off + sum_list lens) \<le> d_max_seek d"
  shows "\<not> (\<exists>os r' s'. flag_loop d is r s = Some (os, r', s') \<and> 0 \<le> r')"
  using assms
proof (induction "is" arbitrary: off lens r s)
  case Nil
  then show ?case by simp
next
  case (Cons i "is")
  show ?case
  proof (cases "bit (ph_flags (ds_header s)) i")
    case False
    with Cons show ?thesis by simp
  next
    case True
    with Cons.prems(2) obtain l ls where lens: "lens = l # ls" by (cases lens) auto
    let ?s = "s\<lparr>ds_pos := ds_pos s + 16\<rparr>"
    have "at (d_file d) (ds_pos s) (le64 (of_nat off) @ le64 (of_nat l))"
      and rest: "at (d_file d) (ds_pos s + 16) (entries (off + l) ls)"
      using Cons.prems(1) by (simp_all add: lens entries_Cons at_append_iff enc_section_def add.commute)
    from dump_section_offset_ok [OF this(1)] Cons.prems(5)
    have entry: "dump_section_offset d i s = Some ([Pr ''%ld bytes at offset 0x%lx'' [int l, int off]], int off, int l, ?s)"
      by (simp add: lens)
    show ?thesis
    proof (cases "sum_list ls = 0")
      case zero: True
      then have "sum_list lens = l" unfolding lens by (simp only: sum_list.Cons add_0_right)
      then obtain os s' where "dump_section d i (int off) (int l) ?s = Some (os, - 1, s')"
        using dump_section_behind [of l d off i ?s] Cons.prems(3,4,6) by auto
      with \<open>bit (ph_flags (ds_header s)) i\<close> entry show ?thesis by simp
    next
      case False
      then have pos: "0 < sum_list ls" by (simp only: neq0_conv)
      have "\<not> (\<exists>os r' s'. flag_loop d is r2 s2 = Some (os, r', s') \<and> 0 \<le> r')"
        if "dump_section d i (int off) (int l) ?s = Some (os2, r2, s2)" "\<not> r2 < 0" for os2 r2 s2
        using Cons.prems True rest dump_section_keeps [OF that]
        by (intro Cons.IH [where off = "off + l" and lens = ls] pos) (simp_all add: lens add.assoc)
      with True entry show ?thesis
        by (auto simp: bind_Some_iff split: if_splits)
    qed
  qed
qed

lemma section_of_at:
  assumes "at bs (int p) (enc_section sec)"
  shows "section_of bs p = sec"
proof -
  have "at bs (int p) (le64 (fs_offset sec))" "at bs (int (p + 8)) (le64 (fs_size sec))"
    using assms by (simp_all add: enc_section_def at_append_iff)
  then have "take 8 (drop p bs) = le64 (fs_offset sec)" "take 8 (drop (p + 8) bs) = le64 (fs_size sec)"
    by (simp_all add: at_def nat_add_distrib)
  then show ?thesis by (simp add: section_of_def le64_at_def)
qed

lemma entries_nth:
  "at bs (int p) (entries off lens) \<Longrightarrow> k < length lens \<Longrightarrow>
   section_of bs (p + 16 * k) = \<lparr>fs_offset = of_nat (off + sum_list (take k lens)), fs_size = of_nat (lens ! k)\<rparr>"
proof (induction lens arbitrary: p off k)
  case (Cons l ls)
  then have entry: "at bs (int p) (enc_section \<lparr>fs_offset = of_nat off, fs_size = of_nat l\<rparr>)"
    and rest: "at bs (int (p + 16)) (entries (off + l) ls)"
    by (simp_all add: entries_Cons at_append_iff add.commute)
  show ?case
  proof (cases k)
    case 0
    with section_of_at [OF entry] show ?thesis by simp
  next
    case (Suc j)
    with Cons.IH [OF rest, of j] Cons.prems(2) show ?thesis by (simp add: add.assoc)
  qed
qed simp

lemma flag_count_le: "flag_count w \<le> 64"
  unfolding flag_count_def using length_filter_le [of "bit w" "[0..<64]"] by simp

lemma sum_list_le: "(\<forall>l\<in>set lens. l \<le> n) \<Longrightarrow> sum_list lens \<le> n * length lens" for lens :: "nat list"
  by (induction lens) auto

lemma dump_header_reads:
  assumes "at (d_file d) 0 (enc_header h)" and "header_ok h" and "dump_header d dump_start = Some (os, r, s)"
  shows "ds_header s = h"
proof -
  have "read_fd (d_file d) (ds_pos dump_start) (int PERF_HEADER_SIZE) (replicate PERF_HEADER_SIZE 0)
      = Some (104, 104, enc_header h)"
    using read_fd_at [OF assms(1), of "replicate PERF_HEADER_SIZE 0"] header_ok_enc(2) [OF assms(2)]
    by (simp add: dump_start_def) (simp add: PERF_HEADER_SIZE_def)
  with assms(3) show ?thesis
    unfolding dump_header_def
    by (auto simp: Let_def header_ok_enc(1) [OF assms(2)] split: if_splits option.splits)
qed

lemma written_flags_refused:
  assumes "file_written t lens" and "0 < sum_list lens" and "d_file d = ws_file t" and "2 ^ 20 \<le> d_max_seek d"
    and "ds_header s = ws_header t"
  shows "\<not> (\<exists>os r s'. dump_flag_sections d s = Some (os, r, s') \<and> 0 \<le> r)"
proof -
  let ?off = "table_offset + 16 * length lens"
  have "length lens \<le> 64" using assms(1) flag_count_le by (simp add: file_written_def)
  moreover have "sum_list lens \<le> 8200 * length lens"
    using assms(1) by (intro sum_list_le) (simp add: file_written_def)
  ultimately have small: "?off + sum_list lens < 2 ^ 20" by (simp add: table_offset_def)
  have loop: "\<not> (\<exists>os r' s'. flag_loop d [0..<64] 1872 (s\<lparr>ds_pos := 1872\<rparr>) = Some (os, r', s') \<and> 0 \<le> r')"
    using assms small
    by (intro flag_loop_refuses [where off = ?off and lens = lens])
      (auto simp: file_written_def flag_count_def table_offset_def)
  have "seek_set d (ds_pos s) (sint (fs_offset (ph_data (ds_header s)) + fs_size (ph_data (ds_header s)))) = (1872, 1872)"
    using assms by (simp add: file_written_def seek_set_def)
  with loop show ?thesis
    unfolding dump_flag_sections_def Let_def by (auto simp: i32_def)
qed

lemma dump_stops_at_flags:
  assumes "dump_header d dump_start = Some (os1, r1, s1)"
    and "\<not> (\<exists>os r s. dump_flag_sections d s1 = Some (os, r, s) \<and> 0 \<le> r)"
  shows "perf_data_dump d \<noteq> Some (Done os 0)"
proof (cases "r1 < 0")
  case True
  then show ?thesis by (simp add: perf_data_dump_def assms(1) and_then_def after_def)
next
  case False
  show ?thesis
  proof (cases "dump_flag_sections d s1")
    case None
    with False show ?thesis by (simp add: perf_data_dump_def assms(1) and_then_def after_def)
  next
    case (Some p)
    then obtain os2 r2 s2 where flags: "dump_flag_sections d s1 = Some (os2, r2, s2)" by (cases p) auto
    with assms(2) have "r2 < 0" by force
    with False show ?thesis by (simp add: perf_data_dump_def assms(1) flags and_then_def after_def)
  qed
qed

text \<open>
  C21. A file written in one round on an empty file, or over one of at most 1872 bytes (where
  the table starts), is refused if it has a section: whatever is drawn, when the header is
  written whole and one of the sections has bytes, the dumper run on the file does not
  return 0, because the table promises more than the file has. Nothing is said of a round
  over a longer file: \<open>open\<close> has no \<open>O_TRUNC\<close>, so the old bytes behind the new ones can be
  what the table promises.
\<close>

theorem written_file_refused:
  assumes "run_state (create_perf_data_file e) s = (0, t)" and "header_ok (ws_header s)"
    and "length (ws_file s) \<le> table_offset" and "ws_written t = PERF_HEADER_SIZE"
    and "k < flag_count (ph_flags (ws_header t))"
    and "fs_size (section_of (ws_file t) (table_offset + 16 * k)) \<noteq> 0"
    and "d_file d = ws_file t" and "2 ^ 20 \<le> d_max_seek d"
  shows "perf_data_dump d \<noteq> Some (Done os 0)"
proof -
  obtain lens where lens: "file_written t lens"
    using wp_run [OF create_file_ok [OF assms(2,3)] assms(1)] assms(4) by blast
  then have k: "k < length lens" using assms(5) by (simp add: file_written_def)
  have "at (ws_file t) (int table_offset) (entries (table_offset + 16 * length lens) lens)"
    using lens unfolding file_written_def by blast
  from entries_nth [OF this k]
  have "fs_size (section_of (ws_file t) (table_offset + 16 * k)) = of_nat (lens ! k)" by simp
  with assms(6) have "lens ! k \<noteq> 0" by (cases "lens ! k = 0") simp_all
  with k have "0 < sum_list lens" by (metis elem_le_sum_list not_gr_zero le_zero_eq)
  note refused = written_flags_refused [OF lens this assms(7,8)]
  show ?thesis
  proof (cases "dump_header d dump_start")
    case None
    then show ?thesis by (simp add: perf_data_dump_def and_then_def after_def)
  next
    case (Some p)
    then obtain os1 r1 s1 where header: "dump_header d dump_start = Some (os1, r1, s1)" by (cases p) auto
    have "ds_header s1 = ws_header t"
      using lens assms(7) by (intro dump_header_reads [OF _ _ header]) (simp_all add: file_written_def)
    from dump_stops_at_flags [OF header refused [OF this]] show ?thesis .
  qed
qed

lemma random_bytes_run:
  "run_state (random_bytes r n) p = (map (\<lambda>k. word_of_int (r_seq r k)) [p..<p + n], p + n)"
  by (induction n arbitrary: p) (simp_all add: crand_def upt_conv_Cons del: upt_Suc)

definition ex_write_env :: write_env where
  "ex_write_env = \<lparr>we_rand = \<lparr>r_seq = (\<lambda>p. if p = 4 \<or> p = 5 \<or> 1712 \<le> p then 1 else 0), r_page_size = 4096, r_online_cpus = 4\<rparr>,
     we_page = (\<lambda>p n. ([], p)), we_stack = (\<lambda>p k. 0), we_behind = (\<lambda>p k. 0), we_open = True\<rparr>"

definition ex_write_state :: write_state where
  "ex_write_state = \<lparr>ws_gen = \<lparr>gs_draws = 0, gs_unicode = [], gs_available = 0, gs_online = 0\<rparr>,
     ws_file = [], ws_pos = 0, ws_header = ds_header dump_start, ws_written = 0\<rparr>"

definition ex_written :: write_state where
  "ex_written = snd (run_state (create_perf_data_file ex_write_env) ex_write_state)"

lemma flag_count_one: "flag_count 1 = 1"
  by code_simp

lemma ex_header: "run_state (random_header ex_write_env (ds_header dump_start)) \<lparr>gs_draws = 0, gs_unicode = [], gs_available = 0, gs_online = 0\<rparr>
  = (((ds_header dump_start)\<lparr>ph_magic := ascii ''PERFILE2'', ph_size := 144, ph_flags := 1\<rparr>, 104), \<lparr>gs_draws = 8, gs_unicode = [], gs_available = 0, gs_online = 0\<rparr>)"
  by code_simp

lemma ex_rest: "run_state (create_flag_section ex_write_env 0) \<lparr>gs_draws = 1712, gs_unicode = [], gs_available = 0, gs_online = 0\<rparr>
  = ([1], \<lparr>gs_draws = 1714, gs_unicode = [], gs_available = 0, gs_online = 0\<rparr>)"
  by code_simp

lemma ex_fields: "we_open ex_write_env" "we_page ex_write_env p n = ([], p)"
  by (simp_all add: ex_write_env_def)

lemma ex_created: "\<exists>t. run_state (create_perf_data_file ex_write_env) ex_write_state = (0, t) \<and> ws_written t = 104 \<and>
  ph_flags (ws_header t) = 1 \<and> at (ws_file t) (int table_offset) (enc_section \<lparr>fs_offset = 1888, fs_size = 1\<rparr>)"
  unfolding create_perf_data_file_def create_perf_header_def create_perf_attributes_def create_perf_data_def
    content_def gen_unicode_page_def seek_to_def the_header_def write_header_def write_bytes_def upd_header_def pull_def
    the_pos_def
  by (simp add: ex_write_state_def ex_fields ex_header random_bytes_run flag_count_one ex_rest length_header_bytes
      Let_def content_def pull_def write_bytes_def seek_to_def the_pos_def del: upt_rec_numeral)
    (rule overwrite_above, simp add: length_header_bytes table_offset_def,
      unfold table_offset_def, rule overwrite_at, simp)

theorem written_file_refused_witness:
  "\<exists>t. run_state (create_perf_data_file ex_write_env) ex_write_state = (0, t) \<and>
     (\<forall>os. perf_data_dump (example_env (ws_file t)) \<noteq> Some (Done os 0))"
proof -
  obtain t where t: "run_state (create_perf_data_file ex_write_env) ex_write_state = (0, t)" "ws_written t = 104"
      "ph_flags (ws_header t) = 1" "at (ws_file t) (int table_offset) (enc_section \<lparr>fs_offset = 1888, fs_size = 1\<rparr>)"
    using ex_created by blast
  have "perf_data_dump (example_env (ws_file t)) \<noteq> Some (Done os 0)" for os
    by (rule written_file_refused [OF t(1), where k = 0])
      (simp_all add: ex_write_state_def header_ok_def dump_start_def t(2,3) flag_count_one PERF_HEADER_SIZE_def
        section_of_at [OF t(4)] example_env_def)
  with t(1) show ?thesis by blast
qed

end
