(* ===== verification/DataFuzzer.thy ===== *)
theory DataFuzzer
  imports PerfWriteTheorems CText
begin

text \<open>
  perf_data_fuzzer/perf_data_fuzzer.c: the loop that writes a file, runs perf on it in a child and
  counts how the child ended. The child and what \<open>waitpid\<close> says of it are parameters.
\<close>

section \<open>main\<close>

text \<open>
  What one call of \<open>waitpid\<close> tells; \<open>WEXITSTATUS\<close> is a byte. After a failed fork it is a failure.
\<close>

datatype wait_answer = Wait_Failed | Exited u8 | Signaled nat | Stopped nat | Continued

record fuzzer_run =
  fr_iterations :: int
  fr_statuses :: "int list"
  fr_out :: string

definition NUM_STATUSES :: nat where "NUM_STATUSES = 1024"

definition start_run :: fuzzer_run where
  "start_run = \<lparr>fr_iterations = 0, fr_statuses = replicate NUM_STATUSES 0, fr_out = []\<rparr>"

definition say :: "string \<Rightarrow> fuzzer_run \<Rightarrow> fuzzer_run" where
  "say t s = s\<lparr>fr_out := fr_out s @ t\<rparr>"

text \<open>
  The loop around \<open>waitpid\<close>: whether the fuzzer goes on, or \<open>None\<close> when it waits forever.
\<close>

fun wait_child :: "wait_answer list \<Rightarrow> fuzzer_run \<Rightarrow> (bool \<times> fuzzer_run) option" where
  "wait_child [] s = None"
| "wait_child (Wait_Failed # ws) s = Some (False, s)"
| "wait_child (Exited i # ws) s = Some (True,
     if unat i > NUM_STATUSES
     then say (''Exit status '' @ show_nat (unat i) @ '' too high!\<newline>'') s
     else s\<lparr>fr_statuses := (fr_statuses s)[unat i := fr_statuses s ! unat i + 1]\<rparr>)"
| "wait_child (Signaled n # ws) s = Some (False, say (''killed by signal '' @ show_nat n @ ''\<newline>'') s)"
| "wait_child (Stopped n # ws) s = Some (False, say (''stopped by signal '' @ show_nat n @ ''\<newline>'') s)"
| "wait_child (Continued # ws) s = wait_child ws (say ''continued\<newline>'' s)"

definition pad7 :: "string \<Rightarrow> string" where
  "pad7 t = replicate (7 - length t) CHR '' '' @ t"

definition report :: "fuzzer_run \<Rightarrow> string" where
  "report s = ''Iteration: '' @ pad7 (show_int (fr_iterations s)) @ '': '' @
     concat (map (\<lambda>i. if fr_statuses s ! i = 0 then []
       else ''#'' @ show_nat i @ ''='' @ show_int (fr_statuses s ! i) @ '' '') [0..<NUM_STATUSES]) @ ''\<newline>''"

text \<open>One round on the answers about its child; the counters are below \<open>2 ^ 31\<close>.\<close>

definition fuzz_round ::
  "write_env \<Rightarrow> wait_answer list \<Rightarrow> fuzzer_run \<times> write_state \<Rightarrow> (bool \<times> fuzzer_run \<times> write_state) option" where
  "fuzz_round e ws = (\<lambda>(s, w). case run_state (create_perf_data_file e) w of (r, w) \<Rightarrow>
     (case wait_child ws s of
        None \<Rightarrow> None
      | Some (False, s) \<Rightarrow> Some (False, s, w)
      | Some (True, s) \<Rightarrow>
          let s = s\<lparr>fr_iterations := fr_iterations s + 1\<rparr>
          in Some (True, if fr_iterations s mod 1000 = 0 then say (report s) s else s, w)))"

text \<open>\<open>main\<close>, for as many rounds as there are answers; the flag is whether it still runs.\<close>

fun data_fuzzer ::
  "write_env \<Rightarrow> wait_answer list list \<Rightarrow> fuzzer_run \<times> write_state \<Rightarrow> (bool \<times> fuzzer_run \<times> write_state) option" where
  "data_fuzzer e [] x = Some (True, x)"
| "data_fuzzer e (ws # wss) x = (case fuzz_round e ws x of
     Some (True, y) \<Rightarrow> data_fuzzer e wss y | other \<Rightarrow> other)"

section \<open>The counts\<close>

text \<open>The array has a cell for every exit status, so the test for a high one never succeeds.\<close>

definition cells_ok :: "fuzzer_run \<Rightarrow> bool" where
  "cells_ok s \<longleftrightarrow> length (fr_statuses s) = NUM_STATUSES"

lemma status_index: "unat (i :: u8) < NUM_STATUSES"
  by (rule less_trans [OF unsigned_less]) (simp add: NUM_STATUSES_def)

lemma sum_list_bump: "i < length xs \<Longrightarrow> sum_list (xs[i := xs ! i + 1]) = sum_list xs + (1 :: int)"
  by (induction xs arbitrary: i) (auto split: nat.splits)

lemma say_simps [simp]: "fr_iterations (say t s) = fr_iterations s" "fr_statuses (say t s) = fr_statuses s"
  by (simp_all add: say_def)

lemma wait_child_counts:
  assumes "wait_child ws s = Some (go, t)" and "cells_ok s"
  shows "cells_ok t \<and> fr_iterations t = fr_iterations s \<and>
    sum_list (fr_statuses t) = sum_list (fr_statuses s) + b2i go"
  using assms
proof (induction ws s rule: wait_child.induct)
  case (3 i ws s)
  then have "unat i < length (fr_statuses s)" using status_index by (simp add: cells_ok_def)
  with 3 status_index [of i] show ?case
    by (auto simp: cells_ok_def sum_list_bump)
qed (auto simp: cells_ok_def)

lemma fuzz_round_counts:
  assumes "fuzz_round e ws (s, w) = Some (go, t, v)" and "cells_ok s"
  shows "cells_ok t \<and> (go \<longrightarrow> fr_iterations t = fr_iterations s + 1 \<and>
    sum_list (fr_statuses t) = sum_list (fr_statuses s) + 1)"
proof -
  obtain r w' where written: "run_state (create_perf_data_file e) w = (r, w')" by fastforce
  from assms(1) obtain s' where "wait_child ws s = Some (go, s')"
    by (auto simp: fuzz_round_def written Let_def split: option.splits bool.splits)
  from wait_child_counts [OF this assms(2)] this assms(1) show ?thesis
    by (auto simp: fuzz_round_def written Let_def cells_ok_def split: bool.splits if_splits)
qed

lemma data_fuzzer_counts:
  assumes "data_fuzzer e wss (s, w) = Some (True, t, v)" and "cells_ok s"
  shows "cells_ok t \<and> fr_iterations t = fr_iterations s + int (length wss) \<and>
    sum_list (fr_statuses t) = sum_list (fr_statuses s) + int (length wss)"
  using assms
proof (induction wss arbitrary: s w)
  case (Cons ws wss)
  from Cons.prems(1) obtain s' w' where round: "fuzz_round e ws (s, w) = Some (True, s', w')"
      and rest: "data_fuzzer e wss (s', w') = Some (True, t, v)"
    by (auto split: option.splits prod.splits bool.splits elim: that)
  from fuzz_round_counts [OF round Cons.prems(2)] Cons.IH [OF rest] show ?case by simp
qed simp

text \<open>While the fuzzer runs every iteration is counted under one exit status.\<close>

theorem every_run_counted:
  "data_fuzzer e wss (start_run, w) = Some (True, t, v) \<Longrightarrow>
     fr_iterations t = int (length wss) \<and> sum_list (fr_statuses t) = fr_iterations t"
  using data_fuzzer_counts [of e wss start_run w t v] by (simp add: start_run_def cells_ok_def sum_list_replicate)

end
