(* ===== verification/TraceTools.thy ===== *)
theory TraceTools
  imports FilterGen CText
begin

text \<open>
  tools/trace_event_parser.c, which writes the table of tracepoints (trace_filters.h) from the
  descriptions the kernel exports, and tools/trace_filter_generator.c, which prints random filters
  for the events of the table. The directory tree is a parameter; it is the same each time it is
  read. An access outside a table is \<open>None\<close>.
\<close>

section \<open>parse_type\<close>

definition blank :: "char \<Rightarrow> bool" where
  "blank c \<longleftrightarrow> (of_char c :: nat) = 32 \<or> (of_char c :: nat) = 9 \<or> (of_char c :: nat) = 10"

definition FILTER_TYPE_INVALID :: int where "FILTER_TYPE_INVALID = - 1"
definition FILTER_TYPE_INT :: int where "FILTER_TYPE_INT = 0"
definition FILTER_TYPE_POINTER :: int where "FILTER_TYPE_POINTER = 1"

text \<open>A call of \<open>strtok\<close> on the words that are left.\<close>

definition strtok :: "string list \<Rightarrow> (string \<times> string list) option" where
  "strtok ws = (case ws of [] \<Rightarrow> None | w # rest \<Rightarrow> Some (w, rest))"

definition skip_word :: "string \<Rightarrow> string \<Rightarrow> string list \<Rightarrow> (string \<times> string list) option" where
  "skip_word w type rest = (if type = w then strtok rest else Some (type, rest))"

text \<open>The word that holds the name, and whether a \<open>*\<close> stands before it.\<close>

definition name_word :: "string \<Rightarrow> (string \<times> bool) option" where
  "name_word buffer = do {
     (type, ws) \<leftarrow> strtok (tokens blank buffer);
     (type, ws) \<leftarrow> skip_word ''unsigned'' type ws;
     (type, ws) \<leftarrow> skip_word ''enum'' type ws;
     (name, ws) \<leftarrow> strtok ws;
     (name, ws) \<leftarrow> (if last name \<noteq> CHR '';'' then strtok ws else Some (name, ws));
     if hd name = CHR ''*'' then do { (name, ws) \<leftarrow> strtok ws; Some (name, True) }
     else Some (name, False) }"

text \<open>The loop over the name stops at the first NUL it writes.\<close>

definition in_name :: "char \<Rightarrow> bool" where
  "in_name c \<longleftrightarrow> c \<noteq> CHR '';'' \<and> c \<noteq> CHR ''[''"

definition is_array :: "string \<Rightarrow> bool" where
  "is_array name = (case dropWhile in_name name of [] \<Rightarrow> False | c # _ \<Rightarrow> c = CHR ''['')"

text \<open>The type and what \<open>out_name\<close> holds afterwards.\<close>

definition parse_type :: "string \<Rightarrow> string \<Rightarrow> int \<times> string" where
  "parse_type buffer out_name = (case name_word buffer of
     None \<Rightarrow> (FILTER_TYPE_INVALID, out_name)
   | Some (name, pointer) \<Rightarrow>
       (if is_array name then FILTER_TYPE_STR else if pointer then FILTER_TYPE_POINTER else FILTER_TYPE_INT,
        takeWhile in_name name))"

section \<open>init_trace_events\<close>

text \<open>
  The directories: what \<open>id\<close> holds and the lines of \<open>format\<close>, or \<open>None\<close> where opening fails.
\<close>

record sub_entry =
  sn_name :: string
  sn_is_dir :: bool
  sn_id :: "string option"
  sn_format :: "string list option"

record group_entry =
  gn_name :: string
  gn_is_dir :: bool
  gn_subs :: "sub_entry list option"

definition event_dir :: "bool \<Rightarrow> string \<Rightarrow> bool" where
  "event_dir is_dir name \<longleftrightarrow> is_dir \<and> name \<noteq> ''.'' \<and> name \<noteq> ''..''"

definition sub_dirs :: "sub_entry list \<Rightarrow> sub_entry list" where
  "sub_dirs es = filter (\<lambda>e. event_dir (sn_is_dir e) (sn_name e)) es"

definition group_dirs :: "group_entry list \<Rightarrow> group_entry list" where
  "group_dirs es = filter (\<lambda>e. event_dir (gn_is_dir e) (gn_name e)) es"

record trace_field =
  fd_type :: int
  fd_name :: string

record trace_sub =
  ts_name :: "string option"
  ts_id :: int
  ts_formats :: "trace_field list"

record trace_group =
  tg_name :: "string option"
  tg_subs :: "trace_sub list"

text \<open>What \<open>calloc\<close> leaves of the entries behind one that fails.\<close>

definition zero_sub :: trace_sub where
  "zero_sub = \<lparr>ts_name = None, ts_id = 0, ts_formats = []\<rparr>"

definition zero_group :: trace_group where
  "zero_group = \<lparr>tg_name = None, tg_subs = []\<rparr>"

definition MAX_FORMAT :: nat where "MAX_FORMAT = 30"

definition field_prefix :: string where
  "field_prefix = char_of (9 :: nat) # ''field:''"

text \<open>
  The array of fields is written before the test for too many of them, so the field one too many
  is outside of it. \<open>field_name\<close> keeps the name of the last field.
\<close>

fun parse_formats :: "string list \<Rightarrow> string \<Rightarrow> trace_field list \<Rightarrow> (string \<times> trace_field list) option" where
  "parse_formats [] field_name fs = Some (field_name, fs)"
| "parse_formats (l # ls) field_name fs =
     (if take 7 l \<noteq> field_prefix then parse_formats ls field_name fs
      else if length fs < MAX_FORMAT
      then (case parse_type (drop 7 l) field_name of (type, name) \<Rightarrow>
              parse_formats ls name (fs @ [\<lparr>fd_type = type, fd_name = name\<rparr>]))
      else None)"

definition fill_sub :: "sub_entry \<Rightarrow> string \<Rightarrow> (bool \<times> string \<times> trace_sub) option" where
  "fill_sub e field_name = (let s = zero_sub\<lparr>ts_name := Some (sn_name e)\<rparr> in
     case sn_id e of None \<Rightarrow> Some (False, field_name, s)
     | Some number \<Rightarrow> let s = s\<lparr>ts_id := atoi number\<rparr> in
         (case sn_format e of None \<Rightarrow> Some (False, field_name, s)
          | Some ls \<Rightarrow> (case parse_formats ls field_name [] of None \<Rightarrow> None
              | Some (name, fs) \<Rightarrow> Some (True, name, s\<lparr>ts_formats := fs\<rparr>))))"

fun fill_subs :: "sub_entry list \<Rightarrow> string \<Rightarrow> (bool \<times> string \<times> trace_sub list) option" where
  "fill_subs [] field_name = Some (True, field_name, [])"
| "fill_subs (e # es) field_name = (case fill_sub e field_name of
     None \<Rightarrow> None
   | Some (ok, name, s) \<Rightarrow>
       if \<not> ok then Some (False, name, s # map (\<lambda>_. zero_sub) es)
       else (case fill_subs es name of None \<Rightarrow> None | Some (ok, name, ss) \<Rightarrow> Some (ok, name, s # ss)))"

text \<open>Whether all went well, \<open>total_events\<close> and the table.\<close>

fun fill_groups :: "group_entry list \<Rightarrow> string \<Rightarrow> int \<Rightarrow> (bool \<times> int \<times> trace_group list) option" where
  "fill_groups [] field_name n = Some (True, n, [])"
| "fill_groups (g # gs) field_name n = (case gn_subs g of
     None \<Rightarrow> Some (False, n, \<lparr>tg_name = Some (gn_name g), tg_subs = []\<rparr> # map (\<lambda>_. zero_group) gs)
   | Some es \<Rightarrow> let n = n + int (length (sub_dirs es)) in
       (case fill_subs (sub_dirs es) field_name of None \<Rightarrow> None
        | Some (ok, name, ss) \<Rightarrow> let t = \<lparr>tg_name = Some (gn_name g), tg_subs = ss\<rparr> in
            if \<not> ok then Some (False, n, t # map (\<lambda>_. zero_group) gs)
            else (case fill_groups gs name n of None \<Rightarrow> None
                  | Some (ok, n, ts) \<Rightarrow> Some (ok, n, t # ts))))"

definition init_trace_events :: "group_entry list option \<Rightarrow> string \<Rightarrow> (int \<times> int \<times> trace_group list) option" where
  "init_trace_events tree field_name = (case tree of None \<Rightarrow> Some (- 1, 0, [])
     | Some es \<Rightarrow> if group_dirs es = [] then Some (- 1, 0, [])
         else (case fill_groups (group_dirs es) field_name 0 of None \<Rightarrow> None
               | Some (ok, n, ts) \<Rightarrow> Some (if ok then 0 else - 1, n, ts)))"

section \<open>dump_trace_header\<close>

text \<open>The initialisers of the table; \<open>printf\<close> prints a null pointer as \<open>(null)\<close>.\<close>

datatype init_item =
  Open_Entry int string nat | Filter_Type nat string | Filter_Name nat string | Close_Entry

definition filter_type_names :: "string list" where
  "filter_type_names = [''FILTER_TYPE_INT'', ''FILTER_TYPE_PTR'', ''FILTER_TYPE_STR'']"

definition type_name :: "int \<Rightarrow> string option" where
  "type_name t = (if 0 \<le> t \<and> nat t < length filter_type_names then Some (filter_type_names ! nat t) else None)"

definition printed :: "string option \<Rightarrow> string" where
  "printed s = (case s of None \<Rightarrow> ''(null)'' | Some t \<Rightarrow> t)"

fun field_items :: "nat \<Rightarrow> trace_field list \<Rightarrow> init_item list option" where
  "field_items k [] = Some []"
| "field_items k (f # fs) = do {
     t \<leftarrow> type_name (fd_type f);
     is \<leftarrow> field_items (k + 1) fs;
     Some (Filter_Type k t # Filter_Name k (fd_name f) # is) }"

definition sub_items :: "string option \<Rightarrow> trace_sub \<Rightarrow> init_item list option" where
  "sub_items grp s = do {
     is \<leftarrow> field_items 0 (ts_formats s);
     Some (Open_Entry (ts_id s) (printed grp @ '':'' @ printed (ts_name s)) (length (ts_formats s)) #
       is @ [Close_Entry]) }"

fun subs_items :: "string option \<Rightarrow> trace_sub list \<Rightarrow> init_item list option" where
  "subs_items grp [] = Some []"
| "subs_items grp (s # ss) = do { a \<leftarrow> sub_items grp s; b \<leftarrow> subs_items grp ss; Some (a @ b) }"

fun table_items :: "trace_group list \<Rightarrow> init_item list option" where
  "table_items [] = Some []"
| "table_items (g # gs) = do {
     a \<leftarrow> subs_items (tg_name g) (tg_subs g); b \<leftarrow> table_items gs; Some (a @ b) }"

text \<open>The value of \<open>NUM_EVENTS\<close> and the initialisers.\<close>

definition dump_trace_header :: "int \<Rightarrow> trace_group list \<Rightarrow> (int \<times> init_item list) option" where
  "dump_trace_header n gs = do { is \<leftarrow> table_items gs; Some (n, is) }"

text \<open>\<open>main\<close>, which does not look at the result of \<open>init_trace_events\<close>.\<close>

definition trace_event_parser :: "group_entry list option \<Rightarrow> string \<Rightarrow> (int \<times> init_item list) option" where
  "trace_event_parser tree field_name = do {
     (r, n, gs) \<leftarrow> init_trace_events tree field_name;
     dump_trace_header n gs }"

section \<open>The text of the header\<close>

definition item_text :: "init_item \<Rightarrow> string" where
  "item_text i = (let tab = [char_of (9 :: nat)]; quoted = (\<lambda>s. quote # s @ [quote]) in case i of
     Open_Entry number name n \<Rightarrow> tab @ ''{ .id='' @ show_int number @ '', .name='' @ quoted name @
       '', .num_filters='' @ show_nat n @ '',\<newline>''
   | Filter_Type k t \<Rightarrow> tab @ tab @ ''.filter['' @ show_nat k @ ''].type='' @ t @ '', ''
   | Filter_Name k s \<Rightarrow> ''.filter['' @ show_nat k @ ''].name='' @ quoted s @ '',\<newline>''
   | Close_Entry \<Rightarrow> tab @ ''},\<newline>'')"

definition header_text :: "int \<times> init_item list \<Rightarrow> string" where
  "header_text h = (let tab = [char_of (9 :: nat)] in
     ''/* Auto-generated by trace_event_parser */\<newline>\<newline>'' @
     ''struct trace_filter_t {\<newline>'' @ tab @ ''int type;\<newline>'' @ tab @ ''char name[50];\<newline>'' @ ''};\<newline>\<newline>'' @
     ''struct trace_event_t {\<newline>'' @ tab @ ''int id;\<newline>'' @ tab @ ''char name[50];\<newline>'' @
     tab @ ''int num_filters;\<newline>'' @ tab @ ''struct trace_filter_t filter[30];\<newline>'' @ ''};\<newline>\<newline>'' @
     ''#define NUM_EVENTS '' @ show_int (fst h) @ ''\<newline>\<newline>'' @
     ''#define FILTER_TYPE_INT 0\<newline>'' @ ''#define FILTER_TYPE_PTR 1\<newline>'' @ ''#define FILTER_TYPE_STR 2\<newline>'' @
     ''struct trace_event_t trace_events[NUM_EVENTS] = {\<newline>'' @
     concat (map item_text (snd h)) @ ''};\<newline>'')"

section \<open>trace_filter_generator.c\<close>

text \<open>
  The program prints to the terminal: the state is the position in the random sequence and what
  was printed. The random sequence is that of an environment whose table is the generated one.
\<close>

definition gen_whitespace :: "env \<Rightarrow> int \<Rightarrow> (gst, unit) state" where
  "gen_whitespace e max_amount = do {
     amount \<leftarrow> roll_mod e max_amount;
     repeat_gen (nat amount)
       (do { r \<leftarrow> roll_mod e 2; strcat (if r = 0 then '' '' else [char_of (9 :: nat)]) }) }"

definition gen_value :: "env \<Rightarrow> int \<Rightarrow> (gst, unit) state" where
  "gen_value e type =
     (if type = FILTER_TYPE_STR then strcat (quote # ''blah'' @ [quote])
      else do { r \<leftarrow> roll_mod e 1024; strcat (show_int r) })"

definition gen_term :: "env \<Rightarrow> trace_event_t \<Rightarrow> int \<Rightarrow> (gst, unit) state" where
  "gen_term e event max_whitespace = do {
     k \<leftarrow> roll_mod e (int (length (te_filters event)));
     let f = te_filters event ! nat k;
     strcat (tf_name f);
     gen_whitespace e max_whitespace;
     print_comparison e;
     gen_whitespace e max_whitespace;
     gen_value e (tf_type f);
     gen_whitespace e max_whitespace }"

text \<open>The \<open>do\<close> loop; the argument is \<open>levels-l\<close>, 0 only when there are no levels.\<close>

fun gen_levels :: "env \<Rightarrow> trace_event_t \<Rightarrow> int \<Rightarrow> nat \<Rightarrow> (gst, unit) state" where
  "gen_levels e event w 0 = gen_term e event w"
| "gen_levels e event w (Suc l) = do {
     gen_term e event w;
     strcat '')'';
     gen_whitespace e w;
     (if l = 0 then skip else strcat ''&&'');
     gen_whitespace e w;
     (if l = 0 then skip else gen_levels e event w l) }"

definition print_filter :: "env \<Rightarrow> trace_event_t \<Rightarrow> int \<Rightarrow> int \<Rightarrow> (gst, unit) state" where
  "print_filter e event max_levels max_whitespace = do {
     levels \<leftarrow> roll_mod e max_levels;
     gen_whitespace e max_whitespace;
     repeat_gen (nat levels) (do { strcat ''(''; gen_whitespace e max_whitespace });
     gen_levels e event max_whitespace (nat levels);
     strcat ''\<newline>'' }"

text \<open>
  A round of \<open>main\<close>; the names of the table, by event number, are a parameter. \<open>None\<close>: the
  division by 0 for an event without fields.
\<close>

definition generator_round :: "env \<Rightarrow> (int \<Rightarrow> string) \<Rightarrow> gst \<Rightarrow> gst option" where
  "generator_round e names s = (case run_state (roll_mod e 1024) s of (which, s) \<Rightarrow>
     (case find_event e which of
        None \<Rightarrow> Some s
      | Some event \<Rightarrow>
          if te_filters event = [] then None
          else Some (snd (run_state (do {
            strcat (''Found event '' @ names which @ '' with '' @ show_nat (length (te_filters event)) @
              '' filters\<newline>'');
            print_filter e event 4 1 }) s))))"

text \<open>\<open>main\<close>: what is printed.\<close>

fun generator_rounds :: "env \<Rightarrow> (int \<Rightarrow> string) \<Rightarrow> nat \<Rightarrow> gst \<Rightarrow> gst option" where
  "generator_rounds e names 0 s = Some s"
| "generator_rounds e names (Suc n) s =
     (case generator_round e names s of None \<Rightarrow> None | Some t \<Rightarrow> generator_rounds e names n t)"

definition trace_filter_generator :: "env \<Rightarrow> (int \<Rightarrow> string) \<Rightarrow> string option" where
  "trace_filter_generator e names = map_option snd (generator_rounds e names 100 (0, []))"

end
