(* ===== verification/TraceTheorems.thy ===== *)
theory TraceTheorems
  imports TraceTools StateLogic
begin

text \<open>
  The parser of trace events against the format files the kernel writes, and the table that a
  compiler makes of the generated header; which declarations are misread; and the shape of the
  printed filters.
\<close>

section \<open>Words\<close>

definition is_word :: "string \<Rightarrow> bool" where
  "is_word w \<longleftrightarrow> w \<noteq> [] \<and> (\<forall>c\<in>set w. \<not> blank c)"

lemma blank_space [simp]: "blank CHR '' ''"
  by (simp add: blank_def)

lemma tokens_words:
  "\<forall>w\<in>set ws. is_word w \<Longrightarrow> tokens blank (concat (map (\<lambda>w. w @ '' '') ws) @ cs) = ws @ tokens blank cs"
  by (induction ws) (simp_all add: tokens_word is_word_def)

section \<open>Format files\<close>

text \<open>The types that are read: one word, two words, and a pointer to a type of two words.\<close>

datatype type_words = One string | Two string string | Pointer string string

record field_decl =
  dl_unsigned :: bool
  dl_enum :: bool
  dl_type :: type_words
  dl_name :: string
  dl_dims :: "string option"
  dl_rest :: string

fun words_of :: "type_words \<Rightarrow> string list" where
  "words_of (One t) = [t]"
| "words_of (Two t u) = [t, u]"
| "words_of (Pointer t u) = [t, u, ''*'']"

definition decl_words :: "field_decl \<Rightarrow> string list" where
  "decl_words d = (if dl_unsigned d then [''unsigned''] else []) @ (if dl_enum d then [''enum''] else []) @
     words_of (dl_type d)"

definition declarator :: "field_decl \<Rightarrow> string" where
  "declarator d = dl_name d @ (case dl_dims d of None \<Rightarrow> [] | Some n \<Rightarrow> ''['' @ n @ '']'') @ '';''"

definition decl_text :: "field_decl \<Rightarrow> string" where
  "decl_text d = field_prefix @ concat (map (\<lambda>w. w @ '' '') (decl_words d)) @ declarator d @ dl_rest d"

definition decl_ok :: "field_decl \<Rightarrow> bool" where
  "decl_ok d \<longleftrightarrow> (\<forall>w\<in>set (words_of (dl_type d)). is_word w) \<and>
     hd (words_of (dl_type d)) \<notin> {''unsigned'', ''enum''} \<and>
     (case dl_type d of One t \<Rightarrow> True | Two t u \<Rightarrow> last u \<noteq> CHR '';'' | Pointer t u \<Rightarrow> last u \<noteq> CHR '';'') \<and>
     is_word (dl_name d) \<and> (\<forall>c\<in>set (dl_name d). in_name c) \<and> hd (dl_name d) \<noteq> CHR ''*'' \<and>
     length (dl_name d) < 50 \<and>
     (case dl_dims d of None \<Rightarrow> True | Some n \<Rightarrow> \<forall>c\<in>set n. \<not> blank c) \<and> (dl_rest d = [] \<or> blank (hd (dl_rest d)))"

definition decl_class :: "field_decl \<Rightarrow> int" where
  "decl_class d = (if dl_dims d \<noteq> None then FILTER_TYPE_STR
     else case dl_type d of Pointer t u \<Rightarrow> FILTER_TYPE_POINTER | _ \<Rightarrow> FILTER_TYPE_INT)"

lemma not_blank_simps:
  "is_word ''unsigned''" "is_word ''enum''" "is_word ''*''" "\<not> blank CHR '';''" "\<not> blank CHR ''[''" "\<not> blank CHR '']''"
  by (simp_all add: is_word_def blank_def)

lemma declarator_facts:
  assumes "decl_ok d"
  shows "declarator d \<noteq> []" "\<forall>c\<in>set (declarator d). \<not> blank c" "last (declarator d) = CHR '';''"
    "hd (declarator d) \<noteq> CHR ''*''" "takeWhile in_name (declarator d) = dl_name d"
    "is_array (declarator d) \<longleftrightarrow> dl_dims d \<noteq> None"
proof -
  have name: "takeWhile in_name (dl_name d @ c # cs) = dl_name d" "dropWhile in_name (dl_name d @ c # cs) = c # cs"
    if "\<not> in_name c" for c cs
    using assms that by (simp_all add: decl_ok_def takeWhile_append2 dropWhile_append2)
  have stop: "\<not> in_name CHR '';''" "\<not> in_name CHR ''[''" by (simp_all add: in_name_def)
  show "takeWhile in_name (declarator d) = dl_name d" "is_array (declarator d) \<longleftrightarrow> dl_dims d \<noteq> None"
    by (simp_all add: declarator_def is_array_def name stop split: option.splits)
  show "declarator d \<noteq> []" "last (declarator d) = CHR '';''" by (simp_all add: declarator_def)
  show "\<forall>c\<in>set (declarator d). \<not> blank c" "hd (declarator d) \<noteq> CHR ''*''"
    using assms
    by (cases "dl_dims d"; auto simp: declarator_def decl_ok_def is_word_def not_blank_simps hd_append)+
qed

lemma tokens_decl:
  assumes "decl_ok d"
  shows "\<exists>ts. tokens blank (drop 7 (decl_text d)) = decl_words d @ declarator d # ts"
proof -
  have words: "\<forall>w\<in>set (decl_words d). is_word w"
    using assms by (auto simp: decl_words_def decl_ok_def not_blank_simps)
  have "drop 7 (decl_text d) = concat (map (\<lambda>w. w @ '' '') (decl_words d)) @ declarator d @ dl_rest d"
    by (simp add: decl_text_def field_prefix_def)
  moreover have "dl_rest d = [] \<or> blank (hd (dl_rest d))" using assms by (simp add: decl_ok_def)
  ultimately show ?thesis
    using tokens_word [OF declarator_facts(1,2), OF assms assms] by (simp add: tokens_words [OF words])
qed

lemma parse_type_decl:
  assumes "decl_ok d"
  shows "parse_type (drop 7 (decl_text d)) old = (decl_class d, dl_name d)"
proof -
  note facts = declarator_facts [OF assms]
  obtain ts where ts: "tokens blank (drop 7 (decl_text d)) = decl_words d @ declarator d # ts"
    using tokens_decl [OF assms] by blast
  have "name_word (drop 7 (decl_text d)) =
      Some (declarator d, case dl_type d of Pointer t u \<Rightarrow> True | _ \<Rightarrow> False)"
    using assms facts
    by (cases "dl_type d") (auto simp: name_word_def ts decl_words_def strtok_def skip_word_def decl_ok_def)
  then show ?thesis
    using facts(5,6) by (auto simp: parse_type_def decl_class_def split: type_words.splits)
qed

text \<open>
  Declarations that are misread: a pointer to a type of one word is a number, a \<open>*\<close> that is part of
  the declarator and a lone \<open>unsigned\<close> give the offset for the name, a third word of a type is the name.
\<close>

lemma misread_declarations:
  "parse_type ''void * ptr; offset:8;'' old = (FILTER_TYPE_INT, ''ptr'')"
  "parse_type ''char *ptr; offset:8;'' old = (FILTER_TYPE_POINTER, ''offset:8'')"
  "parse_type ''unsigned flags; offset:24;'' old = (FILTER_TYPE_INT, ''offset:24'')"
  "parse_type ''const struct page * page; offset:8;'' old = (FILTER_TYPE_INT, ''page'')"
  by code_simp+

section \<open>The compiled table\<close>

text \<open>
  What the initialisers of the header mean in C. \<open>None\<close>: a designator outside its array, a name
  that its array of 50 characters does not terminate, or more entries than \<open>NUM_EVENTS\<close>.
\<close>

definition type_consts :: "(string \<times> int) list" where
  "type_consts = [(''FILTER_TYPE_INT'', 0), (''FILTER_TYPE_PTR'', 1), (''FILTER_TYPE_STR'', 2)]"

definition zero_filter :: trace_filter_t where
  "zero_filter = \<lparr>tf_type = 0, tf_name = []\<rparr>"

definition zero_entry :: "string \<times> trace_event_t" where
  "zero_entry = ([], \<lparr>te_id = 0, te_filters = []\<rparr>)"

type_synonym open_entry = "int \<times> string \<times> nat \<times> trace_filter_t list"

definition set_filter :: "(trace_filter_t \<Rightarrow> trace_filter_t) \<Rightarrow> nat \<Rightarrow> open_entry \<Rightarrow> open_entry option" where
  "set_filter f j = (\<lambda>(n, name, k, fs). if j < length fs then Some (n, name, k, fs[j := f (fs ! j)]) else None)"

fun compile_items :: "init_item list \<Rightarrow> open_entry option \<Rightarrow> (string \<times> trace_event_t) list option" where
  "compile_items [] cur = (if cur = None then Some [] else None)"
| "compile_items (Open_Entry n name k # is) cur =
     (if cur = None \<and> length name < 50 \<and> k \<le> 30
      then compile_items is (Some (n, name, k, replicate 30 zero_filter)) else None)"
| "compile_items (Filter_Type j t # is) cur =
     do { c \<leftarrow> cur; v \<leftarrow> map_of type_consts t; c \<leftarrow> set_filter (\<lambda>f. f\<lparr>tf_type := v\<rparr>) j c; compile_items is (Some c) }"
| "compile_items (Filter_Name j s # is) cur =
     do { c \<leftarrow> cur; c \<leftarrow> (if length s < 50 then set_filter (\<lambda>f. f\<lparr>tf_name := s\<rparr>) j c else None);
          compile_items is (Some c) }"
| "compile_items (Close_Entry # is) cur =
     do { (n, name, k, fs) \<leftarrow> cur; es \<leftarrow> compile_items is None;
          Some ((name, \<lparr>te_id = n, te_filters = take k fs\<rparr>) # es) }"

definition compiled :: "int \<times> init_item list \<Rightarrow> (string \<times> trace_event_t) list option" where
  "compiled h = do {
     es \<leftarrow> compile_items (snd h) None;
     if int (length es) \<le> fst h then Some (es @ replicate (nat (fst h) - length es) zero_entry) else None }"

text \<open>What a field should be in the table.\<close>

definition field_ok :: "trace_field \<Rightarrow> bool" where
  "field_ok f \<longleftrightarrow> fd_type f \<in> {0, 1, 2} \<and> length (fd_name f) < 50"

definition to_filter :: "trace_field \<Rightarrow> trace_filter_t" where
  "to_filter f = \<lparr>tf_type = fd_type f, tf_name = fd_name f\<rparr>"

lemma type_name_const:
  "t \<in> {0, 1, 2} \<Longrightarrow> \<exists>c. type_name t = Some c \<and> map_of type_consts c = Some t"
  by (auto simp: type_name_def filter_type_names_def type_consts_def)

lemma compile_fields:
  assumes "\<forall>f\<in>set fs. field_ok f" and "length pre + length fs \<le> 30"
  shows "\<exists>its. field_items (length pre) fs = Some its \<and>
    compile_items (its @ rest) (Some (n, name, k, pre @ replicate (30 - length pre) zero_filter)) =
    compile_items rest (Some (n, name, k, pre @ map to_filter fs @ replicate (30 - length pre - length fs) zero_filter))"
  using assms
proof (induction fs arbitrary: pre)
  case (Cons f fs)
  obtain c where c: "type_name (fd_type f) = Some c" "map_of type_consts c = Some (fd_type f)"
    using Cons.prems(1) type_name_const [of "fd_type f"] by (auto simp: field_ok_def)
  have "length (pre @ [to_filter f]) + length fs \<le> 30" using Cons.prems(2) by simp
  from Cons.IH [OF _ this] Cons.prems(1) obtain its where its:
    "field_items (length pre + 1) fs = Some its"
    "compile_items (its @ rest) (Some (n, name, k, (pre @ [to_filter f]) @ replicate (29 - length pre) zero_filter)) =
     compile_items rest (Some (n, name, k, pre @ to_filter f # map to_filter fs @
       replicate (29 - length pre - length fs) zero_filter))"
    by auto
  have open_cell: "replicate (30 - length pre) zero_filter = zero_filter # replicate (29 - length pre) zero_filter"
    using Cons.prems(2) by (simp flip: replicate_Suc add: Suc_diff_le)
  have "zero_filter\<lparr>tf_type := fd_type f, tf_name := fd_name f\<rparr> = to_filter f"
    by (simp add: to_filter_def zero_filter_def)
  with Cons.prems its c show ?case
    by (simp add: open_cell set_filter_def field_ok_def list_update_append nth_append)
qed simp

definition sub_good :: "string \<Rightarrow> trace_sub \<Rightarrow> bool" where
  "sub_good grp s \<longleftrightarrow> (\<exists>nm. ts_name s = Some nm \<and> length grp + length nm < 49) \<and>
     (\<forall>f\<in>set (ts_formats s). field_ok f) \<and> length (ts_formats s) \<le> 30"

definition to_entry :: "string \<Rightarrow> trace_sub \<Rightarrow> string \<times> trace_event_t" where
  "to_entry grp s = (grp @ '':'' @ the (ts_name s), \<lparr>te_id = ts_id s, te_filters = map to_filter (ts_formats s)\<rparr>)"

lemma compile_sub:
  assumes "sub_good grp s"
  shows "\<exists>its. sub_items (Some grp) s = Some its \<and>
    compile_items (its @ rest) None = map_option (Cons (to_entry grp s)) (compile_items rest None)"
proof -
  obtain nm where nm: "ts_name s = Some nm" "length grp + length nm < 49"
    using assms by (auto simp: sub_good_def)
  from assms compile_fields [of "ts_formats s" "[]" "Close_Entry # rest" "ts_id s" "grp @ '':'' @ nm" "length (ts_formats s)"]
  show ?thesis using nm
    by (auto simp: sub_good_def sub_items_def printed_def to_entry_def map_option_case bind_eq_Some_conv
        split: option.splits)
qed

lemma compile_subs:
  assumes "\<forall>s\<in>set ss. sub_good grp s"
  shows "\<exists>its. subs_items (Some grp) ss = Some its \<and>
    compile_items (its @ rest) None = map_option (append (map (to_entry grp) ss)) (compile_items rest None)"
  using assms
proof (induction ss)
  case (Cons s ss)
  then obtain its where its: "subs_items (Some grp) ss = Some its"
      "compile_items (its @ rest) None = map_option (append (map (to_entry grp) ss)) (compile_items rest None)"
    by auto
  from Cons.prems compile_sub [of grp s "its @ rest"] its show ?case
    by (auto simp: option.map_comp comp_def)
qed (simp add: map_option_case split: option.splits)

lemma compile_table:
  assumes "\<forall>(grp, ss)\<in>set gs. \<forall>s\<in>set ss. sub_good grp s"
  shows "\<exists>its. table_items (map (\<lambda>(grp, ss). \<lparr>tg_name = Some grp, tg_subs = ss\<rparr>) gs) = Some its \<and>
    compile_items its None = Some (concat (map (\<lambda>(grp, ss). map (to_entry grp) ss) gs))"
  using assms
proof (induction gs)
  case (Cons g gs)
  obtain grp ss where g: "g = (grp, ss)" by (cases g)
  from Cons obtain its where its: "table_items (map (\<lambda>(grp, ss). \<lparr>tg_name = Some grp, tg_subs = ss\<rparr>) gs) = Some its"
      "compile_items its None = Some (concat (map (\<lambda>(grp, ss). map (to_entry grp) ss) gs))"
    by auto
  have "\<forall>s\<in>set ss. sub_good grp s" using Cons.prems g by simp
  from compile_subs [OF this, of its] its g show ?case by auto
qed simp

section \<open>The exported descriptions\<close>

datatype format_line = Other string | Field field_decl

fun line_text :: "format_line \<Rightarrow> string" where
  "line_text (Other l) = l"
| "line_text (Field d) = decl_text d"

fun line_ok :: "format_line \<Rightarrow> bool" where
  "line_ok (Other l) = (take 7 l \<noteq> field_prefix)"
| "line_ok (Field d) = decl_ok d"

fun fields_of :: "format_line list \<Rightarrow> field_decl list" where
  "fields_of [] = []"
| "fields_of (Other l # ls) = fields_of ls"
| "fields_of (Field d # ls) = d # fields_of ls"

record tracepoint =
  tp_name :: string
  tp_id :: int
  tp_lines :: "format_line list"

definition tp_ok :: "string \<Rightarrow> tracepoint \<Rightarrow> bool" where
  "tp_ok grp t \<longleftrightarrow> - (2 ^ 31) \<le> tp_id t \<and> tp_id t < 2 ^ 31 \<and> length grp + length (tp_name t) < 49 \<and>
     (\<forall>l\<in>set (tp_lines t). line_ok l) \<and> length (fields_of (tp_lines t)) \<le> 30"

definition sub_of :: "tracepoint \<Rightarrow> sub_entry" where
  "sub_of t = \<lparr>sn_name = tp_name t, sn_is_dir = True, sn_id = Some (show_int (tp_id t) @ ''\<newline>''),
     sn_format = Some (map line_text (tp_lines t))\<rparr>"

text \<open>The directories of a tree, beside whatever else is in it.\<close>

definition exported :: "group_entry list \<Rightarrow> (string \<times> tracepoint list) list \<Rightarrow> bool" where
  "exported = list_all2 (\<lambda>g (grp, ts). gn_name g = grp \<and> (\<forall>t\<in>set ts. tp_ok grp t) \<and>
     (case gn_subs g of None \<Rightarrow> False | Some es \<Rightarrow> sub_dirs es = map sub_of ts))"

definition exports :: "group_entry list \<Rightarrow> (string \<times> tracepoint list) list \<Rightarrow> bool" where
  "exports tree gs \<longleftrightarrow> exported (group_dirs tree) gs"

definition decl_field :: "field_decl \<Rightarrow> trace_field" where
  "decl_field d = \<lparr>fd_type = decl_class d, fd_name = dl_name d\<rparr>"

definition read_sub :: "tracepoint \<Rightarrow> trace_sub" where
  "read_sub t = \<lparr>ts_name = Some (tp_name t), ts_id = tp_id t, ts_formats = map decl_field (fields_of (tp_lines t))\<rparr>"

definition table_entry :: "string \<Rightarrow> tracepoint \<Rightarrow> string \<times> trace_event_t" where
  "table_entry grp t = (grp @ '':'' @ tp_name t,
     \<lparr>te_id = tp_id t, te_filters = map (\<lambda>d. \<lparr>tf_type = decl_class d, tf_name = dl_name d\<rparr>) (fields_of (tp_lines t))\<rparr>)"

lemma to_entry_read: "to_entry grp (read_sub t) = table_entry grp t"
  by (simp add: to_entry_def read_sub_def table_entry_def to_filter_def decl_field_def)

lemma decls_ok: "\<forall>l\<in>set ls. line_ok l \<Longrightarrow> d \<in> set (fields_of ls) \<Longrightarrow> decl_ok d"
  by (induction ls rule: fields_of.induct) auto

lemma read_sub_good: "tp_ok grp t \<Longrightarrow> sub_good grp (read_sub t)"
  by (auto simp: tp_ok_def sub_good_def read_sub_def field_ok_def decl_field_def decl_class_def FILTER_TYPE_INT_def
      FILTER_TYPE_POINTER_def FILTER_TYPE_STR_def decl_ok_def dest: decls_ok split: type_words.splits)

lemma parse_formats_lines:
  assumes "\<forall>l\<in>set ls. line_ok l" and "length pre + length (fields_of ls) \<le> 30"
  shows "\<exists>nm. parse_formats (map line_text ls) old pre = Some (nm, pre @ map decl_field (fields_of ls))"
  using assms
proof (induction ls arbitrary: old pre rule: fields_of.induct)
  case (3 d ls)
  have "take 7 (decl_text d) = field_prefix" by (simp add: decl_text_def field_prefix_def)
  moreover have "\<exists>nm. parse_formats (map line_text ls) (dl_name d) (pre @ [decl_field d]) =
      Some (nm, (pre @ [decl_field d]) @ map decl_field (fields_of ls))"
    using "3.prems" by (intro "3.IH") simp_all
  ultimately show ?case using "3.prems" by (simp add: parse_type_decl MAX_FORMAT_def decl_field_def [of d])
qed simp_all

lemma fill_sub_of: "tp_ok grp t \<Longrightarrow> \<exists>nm. fill_sub (sub_of t) old = Some (True, nm, read_sub t)"
  using parse_formats_lines [of "tp_lines t" "[]" old] scan_d_show_int [of "''\<newline>''" "tp_id t"]
  by (auto simp: tp_ok_def fill_sub_def sub_of_def zero_sub_def read_sub_def atoi_def stops_def is_digit_def)

lemma fill_subs_of:
  "\<forall>t\<in>set ts. tp_ok grp t \<Longrightarrow> \<exists>nm. fill_subs (map sub_of ts) old = Some (True, nm, map read_sub ts)"
proof (induction ts arbitrary: old)
  case (Cons t ts)
  from Cons.prems obtain nm where "fill_sub (sub_of t) old = Some (True, nm, read_sub t)"
    using fill_sub_of by force
  with Cons.IH [of nm] Cons.prems show ?case by auto
qed simp

lemma exported_ok: "exported dirs gs \<Longrightarrow> (grp, ts) \<in> set gs \<Longrightarrow> t \<in> set ts \<Longrightarrow> tp_ok grp t"
  unfolding exported_def by (induction dirs gs rule: list_all2_induct) auto

lemma fill_groups_of:
  assumes "exported dirs gs"
  shows "fill_groups dirs old n = Some (True, n + int (length (concat (map snd gs))),
    map (\<lambda>(grp, ts). \<lparr>tg_name = Some grp, tg_subs = map read_sub ts\<rparr>) gs)"
  using assms unfolding exported_def
proof (induction dirs gs arbitrary: old n rule: list_all2_induct)
  case (Cons g dirs p gs)
  obtain grp ts where p: "p = (grp, ts)" by (cases p)
  from Cons(1) p obtain es where es: "gn_subs g = Some es" "sub_dirs es = map sub_of ts" "gn_name g = grp"
      "\<forall>t\<in>set ts. tp_ok grp t"
    by (auto split: option.splits)
  obtain nm where "fill_subs (map sub_of ts) old = Some (True, nm, map read_sub ts)"
    using fill_subs_of [OF es(4)] by blast
  with es p Cons.IH show ?case by (simp add: Let_def)
qed simp

text \<open>
  C8. The generated table of tracepoints: when every directory and file of the tree can be read,
  the ids are numbers and the fields of the events are declared in one of the forms the kernel
  mostly uses, the header that is written compiles to one entry for each event, in the order of
  the tree, with its name, its id and the names and classes of its fields.
\<close>

theorem trace_header_compiles:
  assumes "exports tree gs" and "gs \<noteq> []"
  shows "\<exists>h. trace_event_parser (Some tree) old = Some h \<and> fst h = int (length (concat (map snd gs))) \<and>
    compiled h = Some (concat (map (\<lambda>(grp, ts). map (table_entry grp) ts) gs))"
proof -
  define rs where "rs = map (\<lambda>(grp, ts). (grp, map read_sub ts)) gs"
  have dirs: "group_dirs tree \<noteq> []" using assms by (auto simp: exports_def exported_def)
  have "\<forall>(grp, ss)\<in>set rs. \<forall>s\<in>set ss. sub_good grp s"
    using exported_ok assms(1) by (fastforce simp: rs_def exports_def intro: read_sub_good)
  from compile_table [OF this] obtain its where
    "table_items (map (\<lambda>(grp, ss). \<lparr>tg_name = Some grp, tg_subs = ss\<rparr>) rs) = Some its"
    "compile_items its None = Some (concat (map (\<lambda>(grp, ss). map (to_entry grp) ss) rs))"
    by blast
  moreover have "map (\<lambda>(grp, ss). \<lparr>tg_name = Some grp, tg_subs = ss\<rparr>) rs =
      map (\<lambda>(grp, ts). \<lparr>tg_name = Some grp, tg_subs = map read_sub ts\<rparr>) gs"
    "map (\<lambda>(grp, ss). map (to_entry grp) ss) rs = map (\<lambda>(grp, ts). map (table_entry grp) ts) gs"
    by (auto simp: rs_def to_entry_read)
  moreover have "length (concat (map (\<lambda>(grp, ts). map (table_entry grp) ts) gs)) = length (concat (map snd gs))"
    by (induction gs) auto
  ultimately show ?thesis
    using fill_groups_of [OF assms(1) [unfolded exports_def], of old 0] dirs
    by (simp add: trace_event_parser_def init_trace_events_def dump_trace_header_def compiled_def)
qed

definition tab :: string where "tab = [char_of (9 :: nat)]"

definition ex_fields :: "field_decl list" where
  "ex_fields =
     [\<lparr>dl_unsigned = True, dl_enum = False, dl_type = One ''short'', dl_name = ''common_type'', dl_dims = None,
       dl_rest = tab @ ''offset:0;''\<rparr>,
      \<lparr>dl_unsigned = False, dl_enum = False, dl_type = One ''char'', dl_name = ''prev_comm'', dl_dims = Some ''16'',
       dl_rest = tab @ ''offset:8;''\<rparr>,
      \<lparr>dl_unsigned = False, dl_enum = False, dl_type = Pointer ''const'' ''char'', dl_name = ''next'', dl_dims = None,
       dl_rest = tab @ ''offset:24;''\<rparr>]"

definition ex_switch :: tracepoint where
  "ex_switch = \<lparr>tp_name = ''sched_switch'', tp_id = 316,
     tp_lines = Other ''name: sched_switch'' # map Field ex_fields\<rparr>"

definition ex_tree :: "group_entry list" where
  "ex_tree =
     [\<lparr>gn_name = ''.'', gn_is_dir = True, gn_subs = None\<rparr>, \<lparr>gn_name = ''enable'', gn_is_dir = False, gn_subs = None\<rparr>,
      \<lparr>gn_name = ''sched'', gn_is_dir = True, gn_subs = Some
         [\<lparr>sn_name = ''filter'', sn_is_dir = False, sn_id = None, sn_format = None\<rparr>, sub_of ex_switch]\<rparr>]"

lemma ex_decls_ok: "list_all decl_ok ex_fields"
  by code_simp

lemma ex_exports: "exports ex_tree [(''sched'', [ex_switch])]"
  using ex_decls_ok
  by (auto simp: exports_def exported_def ex_tree_def group_dirs_def event_dir_def sub_dirs_def sub_of_def ex_switch_def
      tp_ok_def ex_fields_def field_prefix_def)

theorem trace_header_compiles_witness:
  "\<exists>h. trace_event_parser (Some ex_tree) ''?'' = Some h \<and> fst h = 1 \<and>
    compiled h = Some [(''sched:sched_switch'', \<lparr>te_id = 316, te_filters =
      [\<lparr>tf_type = 0, tf_name = ''common_type''\<rparr>, \<lparr>tf_type = 2, tf_name = ''prev_comm''\<rparr>,
       \<lparr>tf_type = 1, tf_name = ''next''\<rparr>]\<rparr>)]"
  using trace_header_compiles [OF ex_exports, of "''?''"]
  by (simp add: table_entry_def ex_switch_def ex_fields_def decl_class_def FILTER_TYPE_INT_def FILTER_TYPE_POINTER_def
      FILTER_TYPE_STR_def)

text \<open>The fuzzer finds an event of the tree by its id in the generated table.\<close>

lemma generated_event_found:
  assumes "exports tree gs" and "e_trace_events e = map snd (concat (map (\<lambda>(grp, ts). map (table_entry grp) ts) gs))"
    and "distinct (map tp_id (concat (map snd gs)))" and "(grp, ts) \<in> set gs" and "t \<in> set ts"
  shows "find_event e (tp_id t) = Some (snd (table_entry grp t))"
proof -
  have table: "e_trace_events e = map (\<lambda>t. snd (table_entry [] t)) (concat (map snd gs))"
    unfolding assms(2) by (induction gs) (auto simp: table_entry_def)
  have "find (\<lambda>x. te_id x = tp_id t) (map (\<lambda>t. snd (table_entry [] t)) us) = Some (snd (table_entry [] t))"
    if "distinct (map tp_id us)" "t \<in> set us" for us
    using that by (induction us) (auto simp: table_entry_def)
  with assms(3-5) show ?thesis by (force simp: find_event_def table table_entry_def)
qed

text \<open>
  When a file of the tree cannot be read the header is written all the same, with null names for
  what was not filled in.
\<close>

lemma header_after_failure:
  "trace_event_parser (Some [\<lparr>gn_name = ''sched'', gn_is_dir = True, gn_subs = Some
     [\<lparr>sn_name = ''a'', sn_is_dir = True, sn_id = None, sn_format = None\<rparr>,
      \<lparr>sn_name = ''b'', sn_is_dir = True, sn_id = Some ''7'', sn_format = Some []\<rparr>]\<rparr>]) old =
   Some (2, [Open_Entry 0 ''sched:a'' 0, Close_Entry, Open_Entry 0 ''sched:(null)'' 0, Close_Entry])"
  by code_simp

text \<open>A field of no known form makes the type an index in front of the table of names.\<close>

lemma invalid_field_outside:
  "trace_event_parser (Some [\<lparr>gn_name = ''g'', gn_is_dir = True, gn_subs = Some
     [\<lparr>sn_name = ''a'', sn_is_dir = True, sn_id = Some ''1'', sn_format = Some [field_prefix @ ''int'']\<rparr>]\<rparr>]) old = None"
  by code_simp

section \<open>Printed filters\<close>

definition depth :: "string \<Rightarrow> int" where
  "depth cs = int (count_list cs CHR ''('') - int (count_list cs CHR '')'')"

definition adds :: "int \<Rightarrow> (gst, 'a) state \<Rightarrow> bool" where
  "adds n m \<longleftrightarrow> (\<forall>s. depth (snd (snd (run_state m s))) = depth (snd s) + n)"

lemma depth_append [simp]: "depth (a @ b) = depth a + depth b"
  by (simp add: depth_def)

lemma depth_plain: "CHR ''('' \<notin> set cs \<Longrightarrow> CHR '')'' \<notin> set cs \<Longrightarrow> depth cs = 0"
  by (simp add: depth_def count_list_0_iff)

lemma adds_return: "adds 0 (State_Monad.return x)"
  by (simp add: adds_def)

lemma adds_roll: "adds 0 (roll_mod e n)"
  by (simp add: adds_def roll_mod_def split_beta)

lemma adds_strcat: "depth t = n \<Longrightarrow> adds n (strcat t)"
  by (simp add: adds_def strcat_def split_beta)

lemma adds_bind: "adds a m \<Longrightarrow> (\<And>x. adds b (k x)) \<Longrightarrow> a + b = c \<Longrightarrow> adds c (State_Monad.bind m k)"
  by (auto simp: adds_def split_beta simp del: split_paired_All)

lemma adds_bind0: "adds 0 m \<Longrightarrow> (\<And>x. adds n (k x)) \<Longrightarrow> adds n (State_Monad.bind m k)"
  using adds_bind [of 0 m n k n] by simp

lemma adds_bind_roll:
  "0 < n \<Longrightarrow> (\<And>r. 0 \<le> r \<Longrightarrow> r < n \<Longrightarrow> adds b (k r)) \<Longrightarrow> adds b (State_Monad.bind (roll_mod e n) k)"
  by (auto simp: adds_def roll_mod_def)

lemma adds_if: "(c \<Longrightarrow> adds n a) \<Longrightarrow> (\<not> c \<Longrightarrow> adds n b) \<Longrightarrow> adds n (if c then a else b)"
  by simp

lemma adds_repeat: "adds n m \<Longrightarrow> adds (int k * n) (repeat_gen k m)"
  by (induction k) (auto intro!: adds_return adds_bind simp: algebra_simps)

lemmas adds_intros = adds_return adds_roll adds_bind0 adds_if

lemma depth_texts:
  "depth [char_of (9 :: nat)] = 0" "depth '' '' = 0" "depth [quote, CHR ''b'', CHR ''l'', CHR ''a'', CHR ''h'', quote] = 0"
  "depth ''('' = 1" "depth '')'' = - 1" "depth ''&&'' = 0" "depth ''\<newline>'' = 0"
  by code_simp+

lemma depth_digits: "depth (show_int i) = 0"
  using digits10_is_digit by (force simp: show_int_def is_digit_def intro: depth_plain)

lemma adds_whitespace: "adds 0 (gen_whitespace e n)"
  unfolding gen_whitespace_def
  by (intro adds_intros, rule adds_repeat [where n = 0, simplified], intro adds_intros adds_strcat)
    (simp add: depth_texts)

lemma adds_comparison: "adds 0 (print_comparison e)"
proof -
  have "depth (comparisons ! nat r) = 0" if "0 \<le> r" "r < 8" for r
  proof -
    have "comparisons ! nat r \<in> set comparisons" using that by (intro nth_mem) (simp add: comparisons_def)
    then show ?thesis by (auto simp: comparisons_def depth_plain)
  qed
  then show ?thesis unfolding print_comparison_def by (intro adds_bind_roll adds_strcat) simp_all
qed

lemma adds_value: "adds 0 (gen_value e type)"
  unfolding gen_value_def by (intro adds_intros adds_strcat) (simp_all add: depth_texts depth_digits)

text \<open>Names without parentheses.\<close>

definition plain_event :: "trace_event_t \<Rightarrow> bool" where
  "plain_event event \<longleftrightarrow> te_filters event \<noteq> [] \<and> (\<forall>f\<in>set (te_filters event). depth (tf_name f) = 0)"

lemma adds_term: "plain_event event \<Longrightarrow> adds 0 (gen_term e event w)"
  unfolding gen_term_def Let_def
  by (intro adds_bind_roll adds_bind0 adds_strcat adds_whitespace adds_comparison adds_value)
    (simp_all add: plain_event_def nat_less_iff)

lemma adds_levels: "plain_event event \<Longrightarrow> adds (- int l) (gen_levels e event w l)"
proof (induction l)
  case (Suc l)
  have "adds (- int l) (do { gen_whitespace e w; (if l = 0 then skip else strcat ''&&''); gen_whitespace e w;
      (if l = 0 then skip else gen_levels e event w l) })"
    using Suc by (auto intro!: adds_bind0 adds_whitespace adds_strcat adds_return simp: depth_texts)
  from adds_bind [OF adds_strcat [OF depth_texts(5)] this refl]
  have "adds (- 1 + - int l) (do { strcat '')''; gen_whitespace e w; (if l = 0 then skip else strcat ''&&'');
      gen_whitespace e w; (if l = 0 then skip else gen_levels e event w l) })" .
  from adds_bind0 [OF adds_term [OF Suc.prems] this] show ?case by (simp only: gen_levels.simps of_nat_Suc) simp
qed (simp add: adds_term)

text \<open>A printed filter closes every parenthesis it opens.\<close>

lemma printed_filter_balanced:
  assumes "plain_event event"
  shows "adds 0 (print_filter e event m w)"
proof -
  have opened: "adds (int l * 1) (repeat_gen l (do { strcat ''(''; gen_whitespace e w }))" for l
    by (rule adds_repeat, rule adds_bind [OF adds_strcat [OF depth_texts(4)] adds_whitespace]) simp
  have "adds (- int l) (do { gen_levels e event w l; strcat ''\<newline>'' })" for l
    by (rule adds_bind [OF adds_levels [OF assms] adds_strcat [OF depth_texts(7)]]) simp
  from adds_bind [OF opened this, of l l 0 for l]
  have "adds 0 (do { repeat_gen l (do { strcat ''(''; gen_whitespace e w }); gen_levels e event w l; strcat ''\<newline>'' })"
    for l by simp
  then show ?thesis
    unfolding print_filter_def by (intro adds_bind0 [OF adds_roll] adds_bind0 [OF adds_whitespace])
qed

end
