(* ===== verification/PerfHelpers.thy ===== *)
theory PerfHelpers
  imports CText PerfAttr
begin

text \<open>
  lib/perf_helpers.c: what the tests ask about the machine. The contents of the files in /proc and
  the release of the kernel are parameters, as is what an uninitialised variable holds.
\<close>

section \<open>Processors\<close>

text \<open>The constants \<open>PROCESSOR_\<dots>\<close> by name.\<close>

definition processors :: "(string \<times> int) list" where
  "processors =
    [(''UNKNOWN'', - 1), (''PENTIUM_PRO'', 1), (''PENTIUM_II'', 2), (''PENTIUM_III'', 3),
     (''PENTIUM_4'', 4), (''PENTIUM_M'', 5), (''COREDUO'', 6), (''CORE2'', 7), (''NEHALEM'', 8),
     (''NEHALEM_EX'', 9), (''WESTMERE'', 10), (''WESTMERE_EX'', 11), (''SANDYBRIDGE'', 12),
     (''ATOM'', 13), (''K7'', 14), (''K8'', 15), (''AMD_FAM10H'', 16), (''AMD_FAM11H'', 17),
     (''AMD_FAM14H'', 18), (''AMD_FAM15H'', 19), (''IVYBRIDGE'', 20), (''KNIGHTSCORNER'', 21),
     (''SANDYBRIDGE_EP'', 22), (''AMD_FAM16H'', 23), (''IVYBRIDGE_EP'', 24), (''HASWELL'', 25),
     (''ATOM_CEDARVIEW'', 26), (''ATOM_SILVERMONT'', 27), (''BROADWELL'', 28),
     (''HASWELL_EP'', 29), (''SKYLAKE'', 30), (''AMD_FAM17H'', 31), (''KABYLAKE'', 32),
     (''AMD_FAM12H'', 33), (''AMD_FAM13H'', 34), (''SKYLAKE_X'', 35), (''SNOWRIDGE_X'', 36),
     (''TIGERLAKE'', 37), (''ALDERLAKE'', 38), (''ALDERLAKEN'', 39), (''ELKHARTLAKE'', 40),
     (''EMERALDRAPIDS'', 41), (''GOLDMONT'', 42), (''GOLDMONTPLUS'', 43), (''ICELAKE'', 44),
     (''ICELAKE_X'', 45), (''GRANDRIDGE'', 46), (''LUNARLAKE'', 47), (''METEORLAKE'', 48),
     (''GRANITERAPIDS'', 49), (''KNIGHTSLANDING'', 50), (''ROCKETLAKE'', 51),
     (''SAPPHIRERAPIDS'', 52), (''SIERRAFOREST'', 53), (''CASCADELAKE_X'', 54),
     (''COMETLAKE'', 55), (''CANNONLAKE'', 56), (''LAKEFIELD'', 57), (''RAPTORLAKE'', 58),
     (''POWER3'', 103), (''POWER4'', 104), (''POWER5'', 105), (''POWER6'', 106),
     (''POWER7'', 107), (''CORTEX_A8'', 200), (''CORTEX_A9'', 201), (''CORTEX_A5'', 202),
     (''CORTEX_A15'', 203), (''ARM1176'', 204), (''CORTEX_A7'', 205), (''CORTEX_A57'', 206),
     (''CORTEX_A53'', 207)]"

definition processor :: "string \<Rightarrow> int" where
  "processor name = the (map_of processors name)"

definition VENDOR_INTEL :: int where "VENDOR_INTEL = 1"
definition VENDOR_AMD :: int where "VENDOR_AMD = 2"
definition VENDOR_IBM :: int where "VENDOR_IBM = 3"
definition VENDOR_ARM :: int where "VENDOR_ARM = 4"

text \<open>A table of the cases of a \<open>switch\<close>.\<close>

definition switch :: "('a list \<times> 'b) list \<Rightarrow> 'a \<Rightarrow> 'b option" where
  "switch table x = map_option snd (find (\<lambda>(xs, y). x \<in> set xs) table)"

definition amd_families :: "(int list \<times> string) list" where
  "amd_families =
    [([6], ''K7''), ([15], ''K8''), ([16], ''AMD_FAM10H''), ([17], ''AMD_FAM11H''),
     ([18], ''AMD_FAM12H''), ([19], ''AMD_FAM13H''), ([20], ''AMD_FAM14H''),
     ([21], ''AMD_FAM15H''), ([22], ''AMD_FAM16H''), ([23], ''AMD_FAM17H'')]"

text \<open>The models of Intel's family 6, but 85.\<close>

definition intel_models :: "(int list \<times> string) list" where
  "intel_models =
    [([1], ''PENTIUM_PRO''), ([3, 5, 6], ''PENTIUM_II''), ([7, 8, 10, 11], ''PENTIUM_III''),
     ([9, 13], ''PENTIUM_M''), ([14], ''COREDUO''), ([15, 22, 23, 29], ''CORE2''),
     ([28, 38, 39, 53], ''ATOM''), ([54], ''ATOM_CEDARVIEW''),
     ([55, 74, 77, 93, 76, 90, 117], ''ATOM_SILVERMONT''), ([92, 95], ''GOLDMONT''),
     ([122], ''GOLDMONTPLUS''), ([150, 156], ''ELKHARTLAKE''), ([134], ''SNOWRIDGE_X''),
     ([87, 133], ''KNIGHTSLANDING''), ([26, 30, 31], ''NEHALEM''), ([46], ''NEHALEM_EX''),
     ([37, 44], ''WESTMERE''), ([47], ''WESTMERE_EX''), ([42], ''SANDYBRIDGE''),
     ([45], ''SANDYBRIDGE_EP''), ([58], ''IVYBRIDGE''), ([62], ''IVYBRIDGE_EP''),
     ([60, 69, 70], ''HASWELL''), ([63], ''HASWELL_EP''), ([61, 71, 79, 86], ''BROADWELL''),
     ([78, 94], ''SKYLAKE''), ([140, 141], ''TIGERLAKE''), ([142, 158], ''KABYLAKE''),
     ([165, 166], ''COMETLAKE''), ([102], ''CANNONLAKE''), ([125, 126, 157], ''ICELAKE''),
     ([106, 108], ''ICELAKE_X''), ([138], ''LAKEFIELD''), ([143], ''SAPPHIRERAPIDS''),
     ([151, 154, 191], ''ALDERLAKE''), ([190], ''ALDERLAKEN''), ([183, 186], ''RAPTORLAKE''),
     ([167], ''ROCKETLAKE''), ([207], ''EMERALDRAPIDS''), ([182], ''GRANDRIDGE''),
     ([189], ''LUNARLAKE''), ([170, 172], ''METEORLAKE''), ([173, 174], ''GRANITERAPIDS''),
     ([175], ''SIERRAFOREST'')]"

definition arm_parts :: "(string \<times> string) list" where
  "arm_parts = [(''0xb76'', ''ARM1176''), (''0xc05'', ''CORTEX_A5''), (''0xc09'', ''CORTEX_A9''),
     (''0xc08'', ''CORTEX_A8''), (''0xc07'', ''CORTEX_A7''), (''0xc0f'', ''CORTEX_A15''), (''0xd03'', ''CORTEX_A53'')]"

section \<open>detect_processor_cpuinfo\<close>

text \<open>The two static variables, and the numbers read so far.\<close>

record cpu_state =
  cs_type :: int
  cs_vendor :: int
  cs_family :: int
  cs_model :: int
  cs_stepping :: int

fun strstr :: "string \<Rightarrow> string \<Rightarrow> bool" where
  "strstr [] w \<longleftrightarrow> w = []"
| "strstr (c # cs) w \<longleftrightarrow> take (length w) (c # cs) = w \<or> strstr cs w"

text \<open>\<open>sscanf\<close> with \<open>%*s\<close> so many times and \<open>%d\<close>: the variable is set when all of it matches.\<close>

fun scan_past :: "nat \<Rightarrow> string \<Rightarrow> int \<Rightarrow> int" where
  "scan_past 0 cs old = (case scan_d cs of None \<Rightarrow> old | Some (v, rest) \<Rightarrow> v)"
| "scan_past (Suc n) cs old = (case scan_token cs of None \<Rightarrow> old | Some (t, rest) \<Rightarrow> scan_past n rest old)"

definition vendor_line :: "string \<Rightarrow> cpu_state \<Rightarrow> cpu_state" where
  "vendor_line l s = (if \<not> strstr l ''vendor_id'' then s else
     let s = (if strstr l ''GenuineIntel'' then s\<lparr>cs_vendor := VENDOR_INTEL\<rparr> else s)
     in if strstr l ''AuthenticAMD'' then s\<lparr>cs_vendor := VENDOR_AMD\<rparr> else s)"

definition number_lines :: "string \<Rightarrow> cpu_state \<Rightarrow> cpu_state" where
  "number_lines l s =
    (let s = (if strstr l ''cpu family'' then s\<lparr>cs_family := scan_past 3 l (cs_family s)\<rparr> else s);
         s = (if strstr l ''model'' \<and> \<not> strstr l ''model name''
              then s\<lparr>cs_model := scan_past 2 l (cs_model s)\<rparr> else s)
     in if strstr l ''stepping'' then s\<lparr>cs_stepping := scan_past 3 l (cs_stepping s)\<rparr> else s)"

text \<open>One line; the flag is set when the function returns.\<close>

definition cpuinfo_line :: "string \<Rightarrow> cpu_state \<Rightarrow> bool \<times> cpu_state" where
  "cpuinfo_line l s =
     (if strstr l ''POWER6'' then (True, s\<lparr>cs_vendor := VENDOR_IBM, cs_type := processor ''POWER6''\<rparr>)
      else let s = (if strstr l ''CPU part'' then s\<lparr>cs_vendor := VENDOR_ARM\<rparr> else s) in
        (case (if strstr l ''CPU part'' then find (\<lambda>(part, name). strstr l part) arm_parts else None) of
           Some (part, name) \<Rightarrow> (True, s\<lparr>cs_type := processor name\<rparr>)
         | None \<Rightarrow> (False, number_lines l (vendor_line l s))))"

fun cpuinfo_lines :: "string list \<Rightarrow> cpu_state \<Rightarrow> bool \<times> cpu_state" where
  "cpuinfo_lines [] s = (False, s)"
| "cpuinfo_lines (l # ls) s = (case cpuinfo_line l s of (done, s) \<Rightarrow>
     if done then (True, s) else cpuinfo_lines ls s)"

definition classify :: "cpu_state \<Rightarrow> int" where
  "classify s =
     (if cs_vendor s = VENDOR_AMD then
        (case switch amd_families (cs_family s) of None \<Rightarrow> processor ''UNKNOWN'' | Some name \<Rightarrow> processor name)
      else if cs_vendor s = VENDOR_INTEL \<and> cs_family s = 6 then
        (if cs_model s = 85
         then (if cs_stepping s < 5 then processor ''SKYLAKE_X'' else processor ''CASCADELAKE_X'')
         else (case switch intel_models (cs_model s) of None \<Rightarrow> processor ''UNKNOWN'' | Some name \<Rightarrow> processor name))
      else if cs_vendor s = VENDOR_INTEL \<and> cs_family s = 11 then processor ''KNIGHTSCORNER''
      else if cs_vendor s = VENDOR_INTEL \<and> cs_family s = 15 then processor ''PENTIUM_4''
      else processor ''UNKNOWN'')"

text \<open>
  The lines of /proc/cpuinfo, or \<open>None\<close> when it cannot be opened; \<open>garbage\<close> is what \<open>stepping\<close>
  holds at first. The state is the type and the vendor.
\<close>

type_synonym machine = "int \<times> int"

definition detect_processor_cpuinfo :: "string list option \<Rightarrow> int \<Rightarrow> machine \<Rightarrow> machine" where
  "detect_processor_cpuinfo cpuinfo garbage = (\<lambda>(type, vendor). case cpuinfo of None \<Rightarrow> (type, vendor)
     | Some ls \<Rightarrow>
       (case cpuinfo_lines ls \<lparr>cs_type = type, cs_vendor = vendor, cs_family = 0, cs_model = 0, cs_stepping = garbage\<rparr> of
          (done, s) \<Rightarrow> (if done then cs_type s else classify s, cs_vendor s)))"

definition undetected :: machine where "undetected = (- 2, - 2)"

definition detect_processor :: "string list option \<Rightarrow> int \<Rightarrow> machine \<Rightarrow> int \<times> machine" where
  "detect_processor cpuinfo garbage m =
     (let m = (if fst m = - 2 then detect_processor_cpuinfo cpuinfo garbage m else m) in (fst m, m))"

definition detect_vendor :: "string list option \<Rightarrow> int \<Rightarrow> machine \<Rightarrow> int \<times> machine" where
  "detect_vendor cpuinfo garbage m =
     (let m = (if snd m = - 2 then detect_processor_cpuinfo cpuinfo garbage m else m) in (snd m, m))"

text \<open>On ARM hosts only: the domains that older PMUs do not support.\<close>

definition arch_adjust_domain :: "bool \<Rightarrow> int \<Rightarrow> perf_event_attr \<Rightarrow> perf_event_attr" where
  "arch_adjust_domain arm type pe =
     (if \<not> arm \<or> type \<in> {processor ''CORTEX_A15'', processor ''CORTEX_A7'', processor ''CORTEX_A53''} then pe
      else pe\<lparr>a_bits := fold (\<lambda>pos. put_bits pos 1 0) [4, 5, 6] (a_bits pe)\<rparr>)"

section \<open>Event tables\<close>

definition core2_events :: "int list" where
  "core2_events =
     [0x53003c, 0x5300c0, 0x5300c4, 0x5300c5, 0x531282, 0x530108, 0x530080, 0x530081, 0x530143,
     0x530f45, 0x5300c8, 0x530010, 0x5301c0, 0x5302c0, 0x537f2e, 0x537024]"

definition atom_events :: "int list" where
  "atom_events =
     [0x53003c, 0x5300c0, 0x5300c4, 0x5300c5, 0x530282, 0x530708, 0x530380, 0x530280, 0x532140,
     0x537f2e, 0x5301c8, 0x531fc7, 0x537f29, 0x534f2a, 0x537f29, 0x537024]"

definition amd10h_events :: "int list" where
  "amd10h_events =
     [0x530076, 0x5300c0, 0x5300c2, 0x5300c3, 0x530385, 0x530746, 0x530080, 0x530081, 0x530040,
     0x530041, 0x5300cf, 0x530300, 0x5300d0, 0x5300d1, 0x533f7d, 0x53037e]"

definition nehalem_events :: "int list" where
  "nehalem_events =
     [0x53003c, 0x5300c0, 0x537f88, 0x537f89, 0x530185, 0x530149, 0x530380, 0x530280, 0x530143,
     0x530151, 0x53011d, 0x530410, 0x53010b, 0x53020b, 0x53ff24, 0x53c024]"

definition ivybridge_events :: "int list" where
  "ivybridge_events =
     [0x53003c, 0x5300c0, 0x5304c4, 0x5304c5, 0x530185, 0x538108, 0x531024, 0x530280, 0x532024,
     0x530151, 0x5301cb, 0x531eca, 0x5381d0, 0x5382d0, 0x533024, 0x534f2e]"

definition haswell_events :: "int list" where
  "haswell_events =
     [0x53003c, 0x5300c0, 0x5300c4, 0x5300c5, 0x530185, 0x538108, 0x534424, 0x530280, 0x532424,
     0x530151, 0x5301cb, 0x531eca, 0x5381d0, 0x5382d0, 0x53e424, 0x534f2e]"

definition broadwell_events :: "int list" where
  "broadwell_events =
     [0x53003c, 0x5300c0, 0x5300c4, 0x5300c5, 0x530185, 0x538108, 0x534424, 0x530280, 0x532424,
     0x530151, 0x5301cb, 0x531eca, 0x5381d0, 0x5382d0, 0x53e424, 0x534f2e]"

definition skylake_events :: "int list" where
  "skylake_events =
     [0x53003c, 0x5300c0, 0x5300c4, 0x5300c5, 0x530185, 0x538108, 0x534424, 0x530280, 0x532424,
     0x530151, 0x5301cb, 0x531eca, 0x5381d0, 0x5382d0, 0x53e424, 0x534f2e]"

definition power6_events :: "int list" where
  "power6_events =
     [0x10000a, 0x2, 0x430e6, 0x400052, 0x2000fe, 0x2000fe, 0x80086, 0x100056, 0x80082, 0x80080,
     0x2000f8, 0x1c0032, 0x80082, 0x80086, 0x80082, 0x2000fe]"

definition cortexA9_events :: "int list" where
  "cortexA9_events =
     [0xff, 0x68, 0xc, 0x10, 0x2, 0x5, 0x70, 0x1, 0x4, 0x3, 0x93, 0x73, 0x6, 0x7, 0x4, 0x3]"

definition event_tables :: "(string list \<times> int list) list" where
  "event_tables =
    [([''ATOM''], atom_events), ([''CORE2''], core2_events), ([''NEHALEM''], nehalem_events),
     ([''IVYBRIDGE''], ivybridge_events), ([''HASWELL'', ''HASWELL_EP''], haswell_events),
     ([''BROADWELL''], broadwell_events), ([''SKYLAKE'', ''KABYLAKE''], skylake_events),
     ([''K7'', ''K8'', ''AMD_FAM10H'', ''AMD_FAM11H'', ''AMD_FAM12H'', ''AMD_FAM13H'', ''AMD_FAM14H'', ''AMD_FAM15H'', ''AMD_FAM16H'', ''AMD_FAM17H''], amd10h_events),
     ([''POWER6''], power6_events), ([''CORTEX_A8''], cortexA9_events)]"

text \<open>What \<open>copy_events\<close> returns and what it copies to its argument.\<close>

definition copy_events :: "int \<Rightarrow> int \<times> int list option" where
  "copy_events type = (case switch (map (\<lambda>(names, t). (map processor names, t)) event_tables) type of
     None \<Rightarrow> (1, None) | Some t \<Rightarrow> (0, Some t))"

text \<open>The result, \<open>config\<close>, \<open>config1\<close>, \<open>precise_ip\<close> and the name.\<close>

type_synonym latency_event = "int \<times> u64 \<times> u64 \<times> int \<times> string"

definition get_latency_load_event :: "int \<Rightarrow> latency_event" where
  "get_latency_load_event type =
     (if type \<in> set (map processor [''NEHALEM'', ''NEHALEM_EX'', ''WESTMERE'', ''WESTMERE_EX''])
      then (0, 0x100b, 0x3, 2, ''MEM_INST_RETIRED:LATENCY_ABOVE_THRESHOLD'')
      else if type \<in> set (map processor [''SANDYBRIDGE'', ''SANDYBRIDGE_EP'', ''IVYBRIDGE'', ''IVYBRIDGE_EP'',
        ''HASWELL'', ''HASWELL_EP'', ''BROADWELL''])
      then (0, 0x1cd, 0x3, 2, ''MEM_TRANS_RETIRED:LATENCY_ABOVE_THRESHOLD'')
      else (- 1, 0, 0, 0, ''UNKNOWN''))"

definition get_latency_store_event :: "int \<Rightarrow> latency_event" where
  "get_latency_store_event type =
     (if type \<in> set (map processor [''SANDYBRIDGE'', ''SANDYBRIDGE_EP'', ''IVYBRIDGE'', ''IVYBRIDGE_EP'',
        ''HASWELL'', ''HASWELL_EP'', ''BROADWELL''])
      then (0, 0x2cd, 0, 2, ''MEM_TRANS_RETIRED:LATENCY_ABOVE_THRESHOLD'')
      else (- 1, 0, 0, 0, ''UNKNOWN''))"

section \<open>The kernel\<close>

definition detect_nmi_watchdog :: "string option \<Rightarrow> int" where
  "detect_nmi_watchdog file = (case Option.bind file scan_d of
     Some (v, rest) \<Rightarrow> if v > 0 then 1 else 0 | None \<Rightarrow> 0)"

text \<open>The first three parts of a release such as \<open>6.1.0-13-amd64\<close>; 0 for a part that is missing.\<close>

definition release_parts :: "string \<Rightarrow> int \<times> int \<times> int" where
  "release_parts release = (let ts = tokens (\<lambda>c. c = CHR ''.'') release;
     part = (\<lambda>n. if n < length ts then atoi (ts ! n) else 0) in (part 0, part 1, part 2))"

definition get_kernel_version :: "string \<Rightarrow> int" where
  "get_kernel_version release = (case release_parts release of (major, minor, subminor) \<Rightarrow>
     i32 (push_bit 16 major) OR i32 (push_bit 8 minor) OR subminor)"

text \<open>By the macros the compiler defines for the host.\<close>

definition detect_architecture :: "string set \<Rightarrow> int" where
  "detect_architecture macros =
     (if ''__i386__'' \<in> macros then 1 else if ''__x86_64__'' \<in> macros then 2
      else if ''__powerpc__'' \<in> macros then 3 else if ''__arm__'' \<in> macros then 4
      else if ''__aarch64__'' \<in> macros then 5 else - 1)"

end
