(* ===== verification/TestHelpers.thy ===== *)
theory TestHelpers
  imports PerfHelpers "HOL-Library.Signed_Division" "HOL-Library.Monad_Syntax"
begin

text \<open>
  lib/test_utils.c, lib/tracefs_helpers.c and lib/detect_cache.c: verdicts of the tests, versions of
  the kernel, where the tracing files are, and the caches of the machine. The files in /proc and
  /sys are parameters.
\<close>

section \<open>Verdicts\<close>

definition test_quiet :: "string option \<Rightarrow> int" where
  "test_quiet tests_quiet = (if tests_quiet \<noteq> None then 1 else 0)"

definition escape :: "string \<Rightarrow> string" where "escape code = char_of (27 :: nat) # code"

definition RED :: string where "RED = escape ''[1;31m''"
definition YELLOW :: string where "YELLOW = escape ''[1;33m''"
definition GREEN :: string where "GREEN = escape ''[1;32m''"
definition BLUE :: string where "BLUE = escape ''[1;34m''"
definition WHITE :: string where "WHITE = escape ''[1m''"
definition NORMAL :: string where "NORMAL = escape ''[0m''"

definition ERROR_COLUMN :: nat where "ERROR_COLUMN = 58"

text \<open>What is printed, and whether the program then exits with 1.\<close>

type_synonym verdict = "string \<times> bool"

text \<open>The name of the test is filled up to the column of the verdict, which a terminal colours.\<close>

definition verdict_line :: "bool \<Rightarrow> string \<Rightarrow> string \<Rightarrow> string \<Rightarrow> string" where
  "verdict_line tty colour s text = s @ replicate (ERROR_COLUMN - length s) CHR '' '' @ '' '' @
     (if tty then colour @ text @ NORMAL else text) @ ''\<newline>''"

definition test_pass :: "bool \<Rightarrow> string \<Rightarrow> verdict" where
  "test_pass tty s = (verdict_line tty GREEN s ''PASSED'', False)"

definition test_warn :: "bool \<Rightarrow> string \<Rightarrow> verdict" where
  "test_warn tty s = (verdict_line tty YELLOW s ''WARNING'', True)"

definition test_needtest :: "bool \<Rightarrow> string \<Rightarrow> verdict" where
  "test_needtest tty s = (verdict_line tty YELLOW s ''NEED TESTCASE'', True)"

definition test_caution :: "bool \<Rightarrow> string \<Rightarrow> verdict" where
  "test_caution tty s = (verdict_line tty YELLOW s ''USE CAUTION'', True)"

definition test_known_issue :: "bool \<Rightarrow> string \<Rightarrow> verdict" where
  "test_known_issue tty s = (verdict_line tty YELLOW s ''KNOWN ISSUE'', True)"

definition test_skip :: "bool \<Rightarrow> string \<Rightarrow> verdict" where
  "test_skip tty s = (verdict_line tty WHITE s ''SKIPPED'', True)"

definition test_fail :: "bool \<Rightarrow> string \<Rightarrow> verdict" where
  "test_fail tty s = (verdict_line tty RED s ''FAILED'', True)"

definition test_known_kernel_bug :: "bool \<Rightarrow> string \<Rightarrow> verdict" where
  "test_known_kernel_bug tty s = (verdict_line tty RED s ''KNOWN KERNEL BUG'', True)"

definition test_fail_kernel :: "bool \<Rightarrow> string \<Rightarrow> verdict" where
  "test_fail_kernel tty s = (verdict_line tty RED s ''FAILED (KERNEL TOO OLD)'', True)"

definition test_kernel_fail :: "bool \<Rightarrow> string \<Rightarrow> verdict" where
  "test_kernel_fail tty s = (verdict_line tty RED s ''KERNEL FAILED'', True)"

definition test_kernel_pass :: "bool \<Rightarrow> string \<Rightarrow> verdict" where
  "test_kernel_pass tty s = (verdict_line tty GREEN s ''KERNEL OK'', True)"

definition test_unexplained :: "bool \<Rightarrow> string \<Rightarrow> verdict" where
  "test_unexplained tty s = (verdict_line tty BLUE s ''UNEXPLAINED'', True)"

definition test_unimplemented :: "bool \<Rightarrow> string \<Rightarrow> verdict" where
  "test_unimplemented tty s = (verdict_line tty BLUE s ''UNIMPLEMENTED'', True)"

definition test_yellow_no :: "bool \<Rightarrow> string \<Rightarrow> verdict" where
  "test_yellow_no tty s = (verdict_line tty YELLOW s ''NO'', True)"

definition test_green_yes :: "bool \<Rightarrow> string \<Rightarrow> verdict" where
  "test_green_yes tty s = (verdict_line tty GREEN s ''YES'', True)"

definition test_yellow_yes :: "bool \<Rightarrow> string \<Rightarrow> verdict" where
  "test_yellow_yes tty s = (verdict_line tty YELLOW s ''YES'', True)"

definition test_yellow_old_behavior :: "bool \<Rightarrow> string \<Rightarrow> verdict" where
  "test_yellow_old_behavior tty s = (verdict_line tty YELLOW s ''OLD BEHAVIOR'', True)"

definition test_green_new_behavior :: "bool \<Rightarrow> string \<Rightarrow> verdict" where
  "test_green_new_behavior tty s = (verdict_line tty GREEN s ''NEW BEHAVIOR'', True)"

section \<open>Settings of the kernel\<close>

text \<open>The result of \<open>fscanf\<close> is not looked at: \<open>garbage\<close> is what the variable holds.\<close>

definition get_paranoid_setting :: "string option \<Rightarrow> int \<Rightarrow> int" where
  "get_paranoid_setting file garbage = (case file of None \<Rightarrow> - 1
     | Some text \<Rightarrow> (case scan_d text of None \<Rightarrow> garbage | Some (v, rest) \<Rightarrow> v))"

definition check_paranoid_setting :: "string option \<Rightarrow> int \<Rightarrow> int \<Rightarrow> int" where
  "check_paranoid_setting file garbage desired = (if get_paranoid_setting file garbage > desired then - 1 else 0)"

definition version_code :: "int \<times> int \<times> int \<Rightarrow> int" where
  "version_code = (\<lambda>(major, minor, subminor).
     i32 (push_bit 24 (major AND 0xff)) OR push_bit 16 (minor AND 0xff) OR push_bit 8 (subminor AND 0xff))"

definition check_linux_version_newer :: "string \<Rightarrow> int \<times> int \<times> int \<Rightarrow> int" where
  "check_linux_version_newer release version =
     (if version_code (release_parts release) \<ge> version_code version then 1 else 0)"

definition check_linux_version_older :: "string \<Rightarrow> int \<times> int \<times> int \<Rightarrow> int" where
  "check_linux_version_older release version =
     (if version_code (release_parts release) < version_code version then 1 else 0)"

text \<open>What \<open>access\<close> sets \<open>errno\<close> to, or \<open>None\<close> when it succeeds.\<close>

definition EPERM :: int where "EPERM = 1"

definition find_tracefs_location :: "(string \<Rightarrow> int option) \<Rightarrow> string option" where
  "find_tracefs_location errno =
     (if errno ''/sys/kernel/tracing'' = None then Some ''/sys/kernel/tracing''
      else if errno ''/sys/kernel/tracing'' = Some EPERM then None
      else if errno ''/sys/kernel/debug/tracing'' = None then Some ''/sys/kernel/debug/tracing''
      else None)"

section \<open>The caches\<close>

record cache_info_t =
  ci_exists :: bool
  ci_level :: int
  ci_type :: int
  ci_wpolicy :: int
  ci_replace :: int
  ci_size :: int
  ci_lines :: int
  ci_ways :: int
  ci_linesize :: int

definition MAX_CACHE_LEVEL :: int where "MAX_CACHE_LEVEL = 5"
definition CACHE_I :: int where "CACHE_I = 0"
definition CACHE_D :: int where "CACHE_D = 1"
definition CACHE_U :: int where "CACHE_U = 2"
definition CACHE_UNKNOWN :: int where "CACHE_UNKNOWN = 0"

text \<open>The table by level and type, and the two variables beside it.\<close>

record cache_state =
  ca_info :: "int \<Rightarrow> int \<Rightarrow> cache_info_t"
  ca_initialized :: bool
  ca_max_level :: int

text \<open>The local variables of the loop: a number that cannot be read is the one read before.\<close>

record cache_vars =
  cv_level :: int
  cv_type :: string
  cv_size :: int
  cv_line_size :: int
  cv_associativity :: int
  cv_sets :: int

text \<open>A directory and its files; \<open>None\<close> is a file that cannot be opened, and read all the same.\<close>

record cache_dir =
  cd_name :: string
  cd_file :: "string \<Rightarrow> string option"

definition read_number :: "cache_dir \<Rightarrow> string \<Rightarrow> int \<Rightarrow> int option" where
  "read_number d name old = (case cd_file d name of None \<Rightarrow> None
     | Some text \<Rightarrow> (case scan_d text of None \<Rightarrow> Some old | Some (v, rest) \<Rightarrow> Some v))"

definition read_word :: "cache_dir \<Rightarrow> string \<Rightarrow> string \<Rightarrow> string option" where
  "read_word d name old = (case cd_file d name of None \<Rightarrow> None
     | Some text \<Rightarrow> (case scan_token text of None \<Rightarrow> Some old | Some (w, rest) \<Rightarrow> Some w))"

definition read_cache :: "cache_dir \<Rightarrow> cache_vars \<Rightarrow> cache_vars option" where
  "read_cache d v = do {
     level \<leftarrow> read_number d ''level'' (cv_level v);
     type \<leftarrow> read_word d ''type'' (cv_type v);
     size \<leftarrow> read_number d ''size'' (cv_size v);
     line_size \<leftarrow> read_number d ''coherency_line_size'' (cv_line_size v);
     associativity \<leftarrow> read_number d ''ways_of_associativity'' (cv_associativity v);
     sets \<leftarrow> read_number d ''number_of_sets'' (cv_sets v);
     Some \<lparr>cv_level = level, cv_type = type, cv_size = size, cv_line_size = line_size,
       cv_associativity = associativity, cv_sets = sets\<rparr> }"

text \<open>A type that is not known counts for \<open>CACHE_UNKNOWN\<close>, which is \<open>CACHE_I\<close>.\<close>

definition cache_type :: "string \<Rightarrow> int" where
  "cache_type t = (if t = ''Unified'' then CACHE_U else if t = ''Data'' then CACHE_D
     else if t = ''Instruction'' then CACHE_I else CACHE_UNKNOWN)"

definition cache_entry :: "cache_vars \<Rightarrow> cache_info_t" where
  "cache_entry v = \<lparr>ci_exists = True, ci_level = cv_level v, ci_type = cache_type (cv_type v),
     ci_wpolicy = CACHE_UNKNOWN, ci_replace = CACHE_UNKNOWN, ci_size = i32 (cv_size v * 1024),
     ci_lines = cv_sets v, ci_ways = cv_associativity v, ci_linesize = cv_line_size v\<rparr>"

definition set_cache :: "cache_info_t \<Rightarrow> cache_state \<Rightarrow> cache_state" where
  "set_cache c s = s\<lparr>ca_info := (\<lambda>l t. if l = ci_level c \<and> t = ci_type c then c else ca_info s l t)\<rparr>"

text \<open>
  One directory: the result with which the function returns, if it does. \<open>None\<close>: a file that is not
  open is read, a division by 0, or a level in front of the table.
\<close>

definition gather_one :: "cache_dir \<Rightarrow> cache_vars \<Rightarrow> cache_state \<Rightarrow> (int option \<times> cache_vars \<times> cache_state) option" where
  "gather_one d v s = do {
     v \<leftarrow> read_cache d v;
     if cv_line_size v = 0 \<or> cv_associativity v = 0 then None
     else let s = (if cv_level v > ca_max_level s then s\<lparr>ca_max_level := cv_level v\<rparr> else s) in
       if cv_level v \<ge> MAX_CACHE_LEVEL then Some (Some (- 2), v, s)
       else if cv_level v < 0 then None
       else Some (None, v, set_cache (cache_entry v) s) }"

fun gather_dirs :: "cache_dir list \<Rightarrow> cache_vars \<Rightarrow> cache_state \<Rightarrow> (int \<times> cache_state) option" where
  "gather_dirs [] v s = Some (0, s\<lparr>ca_initialized := True\<rparr>)"
| "gather_dirs (d # ds) v s =
     (if take 5 (cd_name d) \<noteq> ''index'' then gather_dirs ds v s
      else (case gather_one d v s of None \<Rightarrow> None
        | Some (Some r, v, s) \<Rightarrow> Some (r, s)
        | Some (None, v, s) \<Rightarrow> gather_dirs ds v s))"

definition gather_cache_info :: "cache_dir list option \<Rightarrow> cache_vars \<Rightarrow> cache_state \<Rightarrow> (int \<times> cache_state) option" where
  "gather_cache_info dir v s =
     (let s = s\<lparr>ca_info := (\<lambda>l t. (ca_info s l t)\<lparr>ci_exists := False\<rparr>)\<rparr> in
      case dir of None \<Rightarrow> Some (- 1, s) | Some ds \<Rightarrow> gather_dirs ds v s)"

definition cache_get_max_levels :: "cache_dir list option \<Rightarrow> cache_vars \<Rightarrow> cache_state \<Rightarrow> (int \<times> cache_state) option" where
  "cache_get_max_levels dir v s =
     (if ca_initialized s then Some (ca_max_level s, s)
      else map_option (\<lambda>(r, s). (ca_max_level s, s)) (gather_cache_info dir v s))"

definition cache_type_name :: "int \<Rightarrow> string" where
  "cache_type_name t = (if t = 0 then ''Instruction'' else if t = 1 then ''Data'' else if t = 2 then ''Unified''
     else if t = 3 then ''Trace'' else ''Unknown'')"

definition print_cache_info :: "bool \<Rightarrow> cache_info_t \<Rightarrow> string" where
  "print_cache_info quiet c = (if quiet \<or> \<not> ci_exists c then [] else
     let tab = [char_of (9 :: nat)] in
     ''L'' @ show_int (ci_level c) @ '' '' @ cache_type_name (ci_type c) @ '' Cache\<newline>'' @
     tab @ ''Size: '' @ show_int (ci_size c sdiv 1024) @ '' kilobytes\<newline>'' @
     tab @ ''Line Size: '' @ show_int (ci_linesize c) @ '' bytes\<newline>'' @
     tab @ ''Lines: '' @ show_int (ci_lines c) @ ''\<newline>'' @
     tab @ ''Associativity: '' @ show_int (ci_ways c) @ ''\<newline>'' @
     tab @ ''Inclusivity: UNKNOWN\<newline>'' @ tab @ ''Replacement Policy: UNKNOWN\<newline>'')"

end
