(* ===== verification/HelperTheorems.thy ===== *)
theory HelperTheorems
  imports TestHelpers
begin

text \<open>
  Comparing versions of the kernel, recognizing the processor from /proc/cpuinfo, and the table of
  caches.
\<close>

section \<open>Versions\<close>

lemma or_push: "0 \<le> y \<Longrightarrow> y < 2 ^ n \<Longrightarrow> push_bit n x OR y = x * 2 ^ n + (y :: int)"
  using concat_bit_eq [of n y x] by (simp add: concat_bit_def take_bit_int_eq_self push_bit_eq_mult or.commute)

lemma and_byte: "0 \<le> x \<Longrightarrow> x < 256 \<Longrightarrow> x AND 255 = (x :: int)"
  using take_bit_eq_mask [of 8 x] by (simp add: take_bit_int_eq_self mask_eq_exp_minus_1)

lemma version_code_value:
  assumes "0 \<le> a" "a < 128" "0 \<le> b" "b < 256" "0 \<le> c" "c < 256"
  shows "version_code (a, b, c) = a * 2 ^ 24 + b * 2 ^ 16 + c * 2 ^ 8"
proof -
  have "version_code (a, b, c) = push_bit 24 a OR (push_bit 16 b OR push_bit 8 c)"
    using assms by (simp add: version_code_def and_byte push_bit_eq_mult i32_id or.assoc)
  also have "push_bit 16 b OR push_bit 8 c = b * 2 ^ 16 + c * 2 ^ 8"
    using assms or_push [of "push_bit 8 c" 16 b] by (simp add: push_bit_eq_mult)
  also have "push_bit 24 a OR (b * 2 ^ 16 + c * 2 ^ 8) = a * 2 ^ 24 + (b * 2 ^ 16 + c * 2 ^ 8)"
    using assms by (intro or_push) auto
  finally show ?thesis by simp
qed

text \<open>The versions of the kernel with their order.\<close>

datatype kernel_version = Version int int int

fun parts :: "kernel_version \<Rightarrow> int \<times> int \<times> int" where
  "parts (Version a b c) = (a, b, c)"

instantiation kernel_version :: linorder
begin

definition less_eq_kernel_version :: "kernel_version \<Rightarrow> kernel_version \<Rightarrow> bool" where
  "v \<le> w \<longleftrightarrow> (case (parts v, parts w) of ((a, b, c), (x, y, z)) \<Rightarrow> a < x \<or> a = x \<and> (b < y \<or> b = y \<and> c \<le> z))"

definition less_kernel_version :: "kernel_version \<Rightarrow> kernel_version \<Rightarrow> bool" where
  "v < w \<longleftrightarrow> v \<le> w \<and> \<not> w \<le> (v :: kernel_version)"

instance
proof
  fix u v w :: kernel_version
  show "(v < w) = (v \<le> w \<and> \<not> w \<le> v)" by (simp add: less_kernel_version_def)
  show "v \<le> v" "v \<le> w \<or> w \<le> v" by (cases v; cases w; auto simp: less_eq_kernel_version_def)+
  show "u \<le> v \<Longrightarrow> v \<le> w \<Longrightarrow> u \<le> w"
    by (cases u; cases v; cases w) (auto simp: less_eq_kernel_version_def)
  show "v \<le> w \<Longrightarrow> w \<le> v \<Longrightarrow> v = w" by (cases v; cases w) (auto simp: less_eq_kernel_version_def)
qed

end

definition version_ok :: "kernel_version \<Rightarrow> bool" where
  "version_ok v = (case parts v of (a, b, c) \<Rightarrow> 0 \<le> a \<and> a < 128 \<and> 0 \<le> b \<and> b < 256 \<and> 0 \<le> c \<and> c < 256)"

lemma version_code_le:
  assumes "version_ok v" and "version_ok w"
  shows "version_code (parts v) \<le> version_code (parts w) \<longleftrightarrow> v \<le> w"
  using assms
  by (cases v; cases w) (auto simp: version_ok_def version_code_value less_eq_kernel_version_def)

definition show_release :: "kernel_version \<Rightarrow> string \<Rightarrow> string" where
  "show_release v rest = (case parts v of (a, b, c) \<Rightarrow> show_int a @ ''.'' @ show_int b @ ''.'' @ show_int c @ rest)"

lemma show_int_chars: "0 \<le> i \<Longrightarrow> \<forall>c\<in>set (show_int i). is_digit c"
  by (simp add: show_int_def digits10_is_digit)

lemma show_int_nonempty: "show_int i \<noteq> []"
  by (simp add: show_int_def)

lemma atoi_show: "stops is_digit rest \<Longrightarrow> 0 \<le> i \<Longrightarrow> i < 2 ^ 31 \<Longrightarrow> atoi (show_int i @ rest) = i"
  by (simp add: atoi_def scan_d_show_int)

lemma release_parts_show:
  assumes "version_ok v" and "stops is_digit rest"
  shows "release_parts (show_release v rest) = parts v"
proof -
  obtain a b c where v: "v = Version a b c" by (cases v)
  let ?P = "\<lambda>c. c = CHR ''.''" and ?r = "takeWhile (\<lambda>c. c \<noteq> CHR ''.'') rest"
  have dot: "\<not> is_digit CHR ''.''" by (simp add: is_digit_def)
  have plain: "\<forall>x\<in>set (show_int i). \<not> ?P x" if "0 \<le> i" for i
    using show_int_chars [OF that] dot by auto
  have nums: "0 \<le> a" "0 \<le> b" "0 \<le> c" "a < 2 ^ 31" "b < 2 ^ 31" "c < 2 ^ 31"
    using assms(1) by (auto simp: v version_ok_def)
  have third: "tokens ?P (show_int c @ rest) = (show_int c @ ?r) # tokens ?P (dropWhile (\<lambda>c. c \<noteq> CHR ''.'') rest)"
  proof -
    have "tokens ?P ((show_int c @ ?r) @ dropWhile (\<lambda>c. c \<noteq> CHR ''.'') rest) =
        (show_int c @ ?r) # tokens ?P (dropWhile (\<lambda>c. c \<noteq> CHR ''.'') rest)"
      using plain [OF nums(3)] hd_dropWhile [of "\<lambda>c. c \<noteq> CHR ''.''" rest]
      by (intro tokens_word) (auto simp: show_int_nonempty dest: set_takeWhileD)
    then show ?thesis by simp
  qed
  have "stops is_digit ?r" using assms(2) by (cases rest) (auto simp: stops_def)
  moreover have "tokens ?P (show_release v rest) =
      show_int a # show_int b # (show_int c @ ?r) # tokens ?P (dropWhile (\<lambda>c. c \<noteq> CHR ''.'') rest)"
    using third plain nums by (simp add: show_release_def v tokens_word show_int_nonempty)
  ultimately show ?thesis
    using nums atoi_show [of "[]"] atoi_show [of ?r] by (simp add: release_parts_def Let_def v stops_def)
qed

text \<open>
  C34. A version is compared with the running kernel part by part: when no part of either is above
  255 (127 for the first), \<open>check_linux_version_newer\<close> is 1 exactly when the release is at least
  the version, whatever follows the three numbers, and \<open>check_linux_version_older\<close> when it is below.
\<close>

theorem version_checks_lexicographic:
  assumes "version_ok v" and "version_ok w" and "stops is_digit rest"
  shows "check_linux_version_newer (show_release v rest) (parts w) = (if w \<le> v then 1 else 0) \<and>
    check_linux_version_older (show_release v rest) (parts w) = (if v < w then 1 else 0)"
  using version_code_le [OF assms(2,1)] release_parts_show [OF assms(1,3)]
  by (auto simp: not_le check_linux_version_newer_def check_linux_version_older_def)

theorem version_checks_lexicographic_witness:
  "check_linux_version_newer ''6.1.0-13-amd64'' (5, 255, 3) = 1 \<and>
   check_linux_version_older ''6.1.0-13-amd64'' (5, 255, 3) = 0"
proof -
  have "show_release (Version 6 1 0) ''-13-amd64'' = ''6.1.0-13-amd64''" by code_simp
  then show ?thesis
    using version_checks_lexicographic [of "Version 6 1 0" "Version 5 255 3" "''-13-amd64''"]
    by (simp add: version_ok_def less_kernel_version_def less_eq_kernel_version_def stops_def is_digit_def)
qed

text \<open>
  A third part above 255, which stable kernels have had, is cut to its low byte, or carries into the
  second part.
\<close>

lemma sublevel_wraps:
  "check_linux_version_newer ''4.9.337'' (4, 9, 100) = 0"
  "get_kernel_version ''4.9.337'' = get_kernel_version ''4.9.81''"
  by code_simp+

section \<open>The processor\<close>

definition cpu_words :: "string list" where
  "cpu_words = [''POWER6'', ''CPU part'', ''vendor_id'', ''cpu family'', ''model'', ''stepping'']"

text \<open>The lines of one processor, as the kernel prints them on x86.\<close>

record cpu_block =
  cb_before :: "string list"
  cb_family :: int
  cb_model :: int
  cb_name :: string
  cb_stepping :: int
  cb_after :: "string list"

definition cpu_tab :: string where "cpu_tab = [CHR 0x09]"

definition vendor_text :: string where
  "vendor_text = ''vendor_id'' @ cpu_tab @ '': GenuineIntel\<newline>''"

definition family_text :: "int \<Rightarrow> string" where
  "family_text f = ''cpu family'' @ cpu_tab @ '': '' @ show_int f @ ''\<newline>''"

definition model_text :: "int \<Rightarrow> string" where
  "model_text m = ''model'' @ cpu_tab @ cpu_tab @ '': '' @ show_int m @ ''\<newline>''"

definition name_text :: "string \<Rightarrow> string" where
  "name_text n = ''model name'' @ cpu_tab @ '': '' @ n @ ''\<newline>''"

definition stepping_text :: "int \<Rightarrow> string" where
  "stepping_text s = ''stepping'' @ cpu_tab @ '': '' @ show_int s @ ''\<newline>''"

definition block_lines :: "cpu_block \<Rightarrow> string list" where
  "block_lines b = cb_before b @ [vendor_text, family_text (cb_family b), model_text (cb_model b),
     name_text (cb_name b), stepping_text (cb_stepping b)] @ cb_after b"

definition plain_line :: "string \<Rightarrow> bool" where
  "plain_line l \<longleftrightarrow> (\<forall>w\<in>set cpu_words. \<not> strstr l w)"

definition block_ok :: "cpu_block \<Rightarrow> bool" where
  "block_ok b \<longleftrightarrow> (\<forall>l\<in>set (cb_before b @ cb_after b). plain_line l) \<and>
     0 \<le> cb_family b \<and> cb_family b < 2 ^ 31 \<and> 0 \<le> cb_model b \<and> cb_model b < 2 ^ 31 \<and> 0 \<le> cb_stepping b \<and>
     (\<forall>w\<in>{''POWER6'', ''CPU part'', ''vendor_id'', ''cpu family'', ''stepping''}. \<not> strstr (name_text (cb_name b)) w)"

lemma strstr_absent: "c \<in> set w \<Longrightarrow> c \<notin> set l \<Longrightarrow> \<not> strstr l w"
proof (induction l w rule: strstr.induct)
  case (2 d cs w)
  have "set w \<subseteq> set (d # cs)" if "take (length w) (d # cs) = w"
    using that by (metis set_take_subset)
  with 2 show ?case by auto
qed auto

lemma strstr_prefix: "strstr (w @ l) w"
  by (cases "w @ l") (auto, metis append_eq_conv_conj)

lemma digits_other: "0 \<le> i \<Longrightarrow> \<not> is_digit c \<Longrightarrow> c \<notin> set (show_int i)"
  using show_int_chars by blast

lemma scan_token_word:
  "w \<noteq> [] \<Longrightarrow> \<forall>c\<in>set w. \<not> is_space c \<Longrightarrow> is_space c \<Longrightarrow> scan_token (w @ c # rest) = Some (w, c # rest)"
  by (cases w) (auto simp: scan_token_def skip_ws_def Let_def takeWhile_append2 dropWhile_append2)

lemma scan_token_skip: "is_space c \<Longrightarrow> scan_token (c # cs) = scan_token cs"
  by (simp add: scan_token_def skip_ws_def)

lemma scan_d_space: "is_space c \<Longrightarrow> scan_d (c # cs) = scan_d cs"
  by (simp add: scan_d_def scan_dec_def skip_ws_def)

lemma spaces: "is_space CHR '' ''" "is_space CHR 0x09" "is_space CHR 0x0A"
  by (simp_all add: is_space_def)

lemma word_token:
  assumes "list_all (\<lambda>c. \<not> is_space c) w" and "w \<noteq> []" and "is_space c"
  shows "scan_past (Suc n) (w @ c # rest) old = scan_past n (c # rest) old"
  using assms scan_token_word [of w c rest] by (simp add: list_all_iff)

lemma skip_space: "is_space c \<Longrightarrow> scan_past n (c # rest) old = scan_past n rest old"
  by (cases n) (simp_all add: scan_token_skip scan_d_space)

lemma scan_number: "0 \<le> i \<Longrightarrow> i < 2 ^ 31 \<Longrightarrow> scan_past 0 (show_int i @ ''\<newline>'') old = i"
  by (simp add: scan_d_show_int stops_def is_digit_def)

lemma no_number_left: "0 \<le> i \<Longrightarrow> scan_past (Suc 0) (show_int i @ ''\<newline>'') old = old"
proof -
  assume "0 \<le> i"
  have "list_all (\<lambda>c. \<not> is_space c) (show_int i)"
    using show_int_chars [OF \<open>0 \<le> i\<close>] not_space_digit by (auto simp: list_all_iff is_xdigit_def)
  from word_token [OF this show_int_nonempty spaces(3), of 0 "[]" old] show ?thesis
    by (simp add: skip_space spaces scan_d_def scan_dec_def skip_ws_def scan_sign_def)
qed

lemma line_plain: "plain_line l \<Longrightarrow> cpuinfo_line l s = (False, s)"
  by (simp add: plain_line_def cpu_words_def cpuinfo_line_def vendor_line_def number_lines_def)

lemma lines_plain: "\<forall>l\<in>set ls. plain_line l \<Longrightarrow> cpuinfo_lines (ls @ rest) s = cpuinfo_lines rest s"
  by (induction ls) (simp_all add: line_plain)

lemma vendor_words:
  "\<not> strstr vendor_text ''POWER6''" "\<not> strstr vendor_text ''CPU part''" "strstr vendor_text ''vendor_id''"
  "strstr vendor_text ''GenuineIntel''" "\<not> strstr vendor_text ''AuthenticAMD''" "\<not> strstr vendor_text ''cpu family''"
  "\<not> strstr vendor_text ''model''" "\<not> strstr vendor_text ''stepping''"
  by code_simp+

lemma line_vendor: "cpuinfo_line vendor_text s = (False, s\<lparr>cs_vendor := VENDOR_INTEL\<rparr>)"
  by (simp add: cpuinfo_line_def vendor_line_def number_lines_def vendor_words)

lemma family_words:
  assumes "0 \<le> f"
  shows "\<not> strstr (family_text f) ''POWER6''" "\<not> strstr (family_text f) ''CPU part''"
    "\<not> strstr (family_text f) ''vendor_id''" "strstr (family_text f) ''cpu family''"
    "\<not> strstr (family_text f) ''model''" "\<not> strstr (family_text f) ''stepping''"
  using strstr_prefix [of "''cpu family''"]
    strstr_absent [of "CHR ''P''" "''POWER6''"] strstr_absent [of "CHR ''P''" "''CPU part''"]
    strstr_absent [of "CHR ''_''" "''vendor_id''"] strstr_absent [of "CHR ''d''" "''model''"]
    strstr_absent [of "CHR ''s''" "''stepping''"] digits_other [OF assms]
  by (simp_all add: family_text_def cpu_tab_def is_digit_def)

lemma line_family:
  assumes "0 \<le> f" "f < 2 ^ 31"
  shows "cpuinfo_line (family_text f) s = (False, s\<lparr>cs_family := f\<rparr>)"
proof -
  have "scan_past 3 (family_text f) old = f" for old
    using assms scan_number word_token [of "''cpu''"] word_token [of "''family''"] word_token [of "'':''"]
    by (simp add: family_text_def cpu_tab_def numeral_3_eq_3 is_space_def skip_space spaces del: scan_past.simps)
  then show ?thesis
    by (simp add: cpuinfo_line_def vendor_line_def number_lines_def family_words [OF assms(1)])
qed

lemma model_words:
  assumes "0 \<le> m"
  shows "\<not> strstr (model_text m) ''POWER6''" "\<not> strstr (model_text m) ''CPU part''"
    "\<not> strstr (model_text m) ''vendor_id''" "\<not> strstr (model_text m) ''cpu family''"
    "strstr (model_text m) ''model''" "\<not> strstr (model_text m) ''model name''"
    "\<not> strstr (model_text m) ''stepping''"
  using strstr_prefix [of "''model''"]
    strstr_absent [of "CHR ''P''" "''POWER6''"] strstr_absent [of "CHR ''P''" "''CPU part''"]
    strstr_absent [of "CHR ''_''" "''vendor_id''"] strstr_absent [of "CHR ''c''" "''cpu family''"]
    strstr_absent [of "CHR ''n''" "''model name''"] strstr_absent [of "CHR ''s''" "''stepping''"]
    digits_other [OF assms]
  by (simp_all add: model_text_def cpu_tab_def is_digit_def)

lemma line_model:
  assumes "0 \<le> m" "m < 2 ^ 31"
  shows "cpuinfo_line (model_text m) s = (False, s\<lparr>cs_model := m\<rparr>)"
proof -
  have "scan_past 2 (model_text m) old = m" for old
    using assms scan_number word_token [of "''model''"] word_token [of "'':''"]
    by (simp add: model_text_def cpu_tab_def numeral_2_eq_2 is_space_def skip_space spaces del: scan_past.simps)
  then show ?thesis
    by (simp add: cpuinfo_line_def vendor_line_def number_lines_def model_words [OF assms(1)])
qed

lemma stepping_words:
  assumes "0 \<le> k"
  shows "\<not> strstr (stepping_text k) ''POWER6''" "\<not> strstr (stepping_text k) ''CPU part''"
    "\<not> strstr (stepping_text k) ''vendor_id''" "\<not> strstr (stepping_text k) ''cpu family''"
    "\<not> strstr (stepping_text k) ''model''" "strstr (stepping_text k) ''stepping''"
  using strstr_prefix [of "''stepping''"]
    strstr_absent [of "CHR ''P''" "''POWER6''"] strstr_absent [of "CHR ''P''" "''CPU part''"]
    strstr_absent [of "CHR ''_''" "''vendor_id''"] strstr_absent [of "CHR ''c''" "''cpu family''"]
    strstr_absent [of "CHR ''m''" "''model''"] digits_other [OF assms]
  by (simp_all add: stepping_text_def cpu_tab_def is_digit_def)

text \<open>The format has a word more than the line: the number is skipped and nothing is stored.\<close>

lemma line_stepping:
  assumes "0 \<le> k"
  shows "cpuinfo_line (stepping_text k) s = (False, s)"
proof -
  have "scan_past 3 (stepping_text k) old = old" for old
    using no_number_left [OF assms] word_token [of "''stepping''"] word_token [of "'':''"]
    by (simp add: stepping_text_def cpu_tab_def numeral_3_eq_3 is_space_def skip_space spaces del: scan_past.simps)
  then show ?thesis
    by (simp add: cpuinfo_line_def vendor_line_def number_lines_def stepping_words [OF assms])
qed

lemma line_name:
  assumes "block_ok b"
  shows "cpuinfo_line (name_text (cb_name b)) s = (False, s)"
proof -
  have "strstr (name_text (cb_name b)) ''model name''"
    using strstr_prefix [of "''model name''"] by (simp add: name_text_def)
  with assms show ?thesis
    by (simp add: block_ok_def cpuinfo_line_def vendor_line_def number_lines_def)
qed

lemma lines_block:
  assumes "block_ok b"
  shows "cpuinfo_lines (block_lines b @ rest) s = cpuinfo_lines rest
    (s\<lparr>cs_vendor := VENDOR_INTEL, cs_family := cb_family b, cs_model := cb_model b\<rparr>)"
  using assms line_name [OF assms]
  by (simp add: block_ok_def block_lines_def lines_plain line_vendor line_family line_model line_stepping ball_Un)

lemma lines_blocks:
  assumes "\<forall>b\<in>set bs. block_ok b \<and> cb_family b = f \<and> cb_model b = m" and "bs \<noteq> []"
  shows "cpuinfo_lines (concat (map block_lines bs)) s =
    (False, s\<lparr>cs_vendor := VENDOR_INTEL, cs_family := f, cs_model := m\<rparr>)"
  using assms
proof (induction bs arbitrary: s)
  case (Cons b bs)
  then show ?case using lines_block [of b "[]"] by (cases "bs = []") (auto simp: lines_block)
qed simp

text \<open>What the code means a processor of Intel to be.\<close>

definition intel_type :: "int \<Rightarrow> int \<Rightarrow> int \<Rightarrow> int" where
  "intel_type f m stepping = classify \<lparr>cs_type = - 2, cs_vendor = VENDOR_INTEL, cs_family = f, cs_model = m,
     cs_stepping = stepping\<rparr>"

lemma switch_entry: "switch table x = Some y \<Longrightarrow> \<exists>xs. (xs, y) \<in> set table"
  by (auto simp: switch_def find_Some_iff) (metis nth_mem)

lemma intel_type_known: "intel_type f m k \<noteq> - 2"
proof -
  have "list_all (\<lambda>(xs, nm). processor nm \<noteq> - 2) intel_models" by code_simp
  then have "switch intel_models m = Some nm \<Longrightarrow> processor nm \<noteq> - 2" for nm
    by (fastforce dest: switch_entry simp: list_all_iff)
  moreover have "processor ''UNKNOWN'' \<noteq> - 2" "processor ''SKYLAKE_X'' \<noteq> - 2" "processor ''CASCADELAKE_X'' \<noteq> - 2"
      "processor ''KNIGHTSCORNER'' \<noteq> - 2" "processor ''PENTIUM_4'' \<noteq> - 2"
    by code_simp+
  ultimately show ?thesis
    by (simp add: intel_type_def classify_def VENDOR_INTEL_def VENDOR_AMD_def split: option.splits)
qed

text \<open>
  C15. The stepping of a processor is never read: on a machine with Intel processors of one family
  and model, whatever their steppings and the other lines, the processor is classified by family
  and model, and where the stepping matters by what the uninitialised variable happens to hold.
  A second call gives the same answer, whatever the variable holds then.
\<close>

theorem stepping_never_read:
  assumes "\<forall>b\<in>set bs. block_ok b \<and> cb_family b = f \<and> cb_model b = m" and "bs \<noteq> []"
    and "detect_processor (Some (concat (map block_lines bs))) garbage undetected = (t, machine)"
  shows "t = intel_type f m garbage \<and>
    detect_processor (Some (concat (map block_lines bs))) garbage' machine = (t, machine)"
  using assms(3) lines_blocks [OF assms(1,2)] intel_type_known [of f m garbage]
  by (auto simp: detect_processor_def detect_processor_cpuinfo_def undetected_def intel_type_def Let_def)

definition ex_block :: "int \<Rightarrow> cpu_block" where
  "ex_block stepping = \<lparr>cb_before = [''processor : 0''], cb_family = 6, cb_model = 85,
     cb_name = ''Intel(R) Xeon(R) Gold'', cb_stepping = stepping, cb_after = [''flags : fpu'']\<rparr>"

lemma ex_block_ok: "block_ok (ex_block 7)"
  by code_simp

theorem stepping_never_read_witness:
  "\<exists>t machine. detect_processor (Some (block_lines (ex_block 7))) 0 undetected = (t, machine) \<and>
    t = processor ''SKYLAKE_X''"
proof -
  obtain t machine where run: "detect_processor (Some (concat (map block_lines [ex_block 7]))) 0 undetected = (t, machine)"
    by (cases "detect_processor (Some (concat (map block_lines [ex_block 7]))) 0 undetected") auto
  have "t = intel_type 6 85 0"
    using stepping_never_read [where bs = "[ex_block 7]" and f = 6 and m = 85, OF _ _ run] ex_block_ok
    by (simp add: ex_block_def)
  with run show ?thesis by (simp add: intel_type_def classify_def VENDOR_INTEL_def VENDOR_AMD_def)
qed

lemma processor_codes: "distinct (map snd processors)" "distinct (map fst processors)"
  by code_simp+

text \<open>
  Without /proc/cpuinfo the answer is the initial -2, not \<open>PROCESSOR_UNKNOWN\<close>; a vendor that is not
  known stays -2 as well. The table for the Cortex-A9 is given to the Cortex-A8 only.
\<close>

lemma processor_not_unknown:
  "detect_processor None garbage undetected = (- 2, undetected)"
  "fst (detect_vendor (Some [''vendor_id : CentaurHauls'']) 0 undetected) = - 2"
  "processor ''UNKNOWN'' = - 1"
  by code_simp+

lemma cortex_tables:
  "copy_events (processor ''CORTEX_A9'') = (1, None)"
  "copy_events (processor ''CORTEX_A8'') = (0, Some cortexA9_events)"
  by code_simp+

section \<open>Caches\<close>

text \<open>Whatever the files hold, an entry that exists is at its own level and type, inside the table.\<close>

definition cache_table_ok :: "cache_state \<Rightarrow> bool" where
  "cache_table_ok s \<longleftrightarrow> (\<forall>l t. ci_exists (ca_info s l t) \<longrightarrow>
     0 \<le> l \<and> l < MAX_CACHE_LEVEL \<and> 0 \<le> t \<and> t < 4 \<and> ci_level (ca_info s l t) = l \<and> ci_type (ca_info s l t) = t \<and>
     l \<le> ca_max_level s)"

lemma cache_type_range: "0 \<le> cache_type t \<and> cache_type t < 4"
  by (simp add: cache_type_def CACHE_U_def CACHE_D_def CACHE_I_def CACHE_UNKNOWN_def)

lemma gather_one_ok:
  assumes "gather_one d v s = Some (r, v', s')" and "cache_table_ok s"
  shows "cache_table_ok s' \<and> (r = None \<longrightarrow> ca_max_level s < MAX_CACHE_LEVEL \<longrightarrow> ca_max_level s' < MAX_CACHE_LEVEL)"
proof -
  obtain u where u: "read_cache d v = Some u" using assms(1) by (cases "read_cache d v") (auto simp: gather_one_def)
  define m where "m = (if cv_level u > ca_max_level s then s\<lparr>ca_max_level := cv_level u\<rparr> else s)"
  have m: "cache_table_ok m" "cv_level u \<le> ca_max_level m" "ca_max_level m \<in> {ca_max_level s, cv_level u}"
    using assms(2) by (fastforce simp: m_def cache_table_ok_def)+
  have "cache_table_ok (set_cache (cache_entry u) m)" if "0 \<le> cv_level u" "cv_level u < MAX_CACHE_LEVEL"
    using m(1,2) that cache_type_range by (simp add: cache_table_ok_def set_cache_def cache_entry_def)
  then show ?thesis
    using assms(1) m by (auto simp: gather_one_def u m_def [symmetric] Let_def set_cache_def split: if_splits)
qed

lemma gather_dirs_ok:
  "gather_dirs ds v s = Some (r, t) \<Longrightarrow> cache_table_ok s \<Longrightarrow>
     cache_table_ok t \<and> (r = 0 \<longrightarrow> ca_max_level s < MAX_CACHE_LEVEL \<longrightarrow> ca_max_level t < MAX_CACHE_LEVEL)"
proof (induction ds v s rule: gather_dirs.induct)
  case (2 d ds v s)
  show ?case
  proof (cases "take 5 (cd_name d) = ''index''")
    case False
    with 2 show ?thesis by simp
  next
    case True
    with "2.prems" obtain q u m where one: "gather_one d v s = Some (q, u, m)"
      by (auto split: option.splits)
    note ok = gather_one_ok [OF one "2.prems"(2)]
    show ?thesis
    proof (cases q)
      case None
      with True one ok "2.prems"(1) show ?thesis using "2.IH"(2) by (auto simp: one)
    next
      case (Some k)
      then have "k = - 2" using one by (auto simp: gather_one_def Let_def bind_eq_Some_conv split: if_splits)
      with Some True one ok "2.prems"(1) show ?thesis by auto
    qed
  qed
qed (auto simp: cache_table_ok_def)

theorem cache_table_inside:
  assumes "gather_cache_info dir v s = Some (r, t)"
  shows "cache_table_ok t \<and> (r = 0 \<longrightarrow> ca_max_level s < MAX_CACHE_LEVEL \<longrightarrow> ca_max_level t < MAX_CACHE_LEVEL)"
proof -
  have "cache_table_ok (s\<lparr>ca_info := (\<lambda>l t. (ca_info s l t)\<lparr>ci_exists := False\<rparr>)\<rparr>)" by (simp add: cache_table_ok_def)
  with assms gather_dirs_ok show ?thesis
    by (fastforce simp: gather_cache_info_def Let_def split: option.splits)
qed

text \<open>A level that the table has no room for is kept as the maximum.\<close>

lemma max_level_kept:
  "map_option (\<lambda>(r, s). (r, ca_max_level s)) (gather_cache_info (Some
     [\<lparr>cd_name = ''index0'', cd_file = (\<lambda>name. if name = ''type'' then Some ''Data'' else Some ''7'')\<rparr>])
     \<lparr>cv_level = 0, cv_type = [], cv_size = 0, cv_line_size = 0, cv_associativity = 0, cv_sets = 0\<rparr>
     \<lparr>ca_info = info, ca_initialized = False, ca_max_level = 0\<rparr>) = Some (- 2, 7)"
  by (simp add: gather_cache_info_def Let_def gather_one_def read_cache_def read_number_def read_word_def
      scan_d_def scan_dec_def scan_sign_def skip_ws_def is_space_def is_digit_def horner_def digit_val_def clamp64_def
      i32_def scan_token_def MAX_CACHE_LEVEL_def)

end
