(* ===== verification/Spec2Isabelle.thy ===== *)
theory Spec2Isabelle
  imports RecordTheorems PmuTheorems AttrTheorems FuzzTheorems FilterTheorems ReadSizeTheorems
    FuzzLoopTheorems FuzzEndTheorems ReplayTheorems ReplayInv ActiveTheorems DumpTheorems
    CodeTheorems OpenPmuTheorems DataFuzzer
    TraceTheorems HelperTheorems
begin

text \<open>
  A verification development for perf_event_tests: tests, a fuzzer and tools for the
  \<open>perf_event_open\<close> interface of Linux, written in C. The repository has no single program; the
  development models the parts with logic of their own and leaves the test programs, which are
  straight sequences of system calls, to their authors.

  \<^bold>\<open>The parts and how they interact.\<close> The kernel writes records to a ring buffer that
  lib/parse_record.c decodes for the tests. tools/event_parser.c reads the descriptions of the
  processor's events from sysfs. The fuzzer (fuzzer/) keeps a table of events and a table of
  mappings, makes random calls on them from a main loop and from signal handlers, and writes one
  line per successful call to a log. replay_log.c makes the calls of a log again, and
  active_events.c reports which events are active at its end, and log_to_code.c writes a C program
  that makes the calls; all three read the log with parse_log.c, and perf_attr_print.c prints the
  attributes of an event as C.
  perf_data_fuzzer/ has a dumper of the perf.data files that its fuzzer corrupts.

  \<^bold>\<open>Foundations.\<close> Prelude: machine integers, the test of a flag, the collections of facts.
  Bytes: reads from little-endian memory, and decoders that may leave the buffer. CText:
  \<open>printf\<close>, \<open>scanf\<close> and \<open>strtok\<close> on character lists. PerfEvent: constants of
  include/perf_event.h.

  \<^bold>\<open>The record decoder\<close> (lib/parse_record.c). RecordFields and ParseRecord have one definition
  per section of \<open>parse_record\<close>, \<open>parse_sample\<close> and \<open>perf_mmap_read\<close>, with the printed fields as
  result and a read outside the buffer as \<open>None\<close>. RecordSpec, SampleSpec and StreamSpec are the
  abstract side: samples, group reads and streams of records as data, with encoders that follow
  the layout in the comments of perf_event.h. Termination has the measure of the walk over the
  buffer; the fuel of \<open>perf_mmap_read\<close> is one unit per record, and the bytes that are unread
  bound it. RecordTheorems (C1-C7): decoding inverts encoding, through the wrap of the buffer;
  group reads with \<open>PERF_FORMAT_LOST\<close> are decoded as if it were not set; the reader comes back
  from any ring without raw data and quiet dumps of the stack, and loops on a raw size that goes
  back or a quiet dump of the stack with a size near the largest integer (the \<open>_spins\<close>
  predicates say when a loop over a dump has no end); and the layouts the decoder misreads.

  \<^bold>\<open>The event parser\<close> (tools/event_parser.c). PmuEvents models the parser of formats and of
  generic events and \<open>init_pmus\<close>, with the directory tree as a parameter; PmuTheorems (C11-C14):
  the spread of a value over a mask is the specified one and injective, parsing inverts
  printing, and unreadable files leave stale or null entries.

  \<^bold>\<open>The log format\<close> (fuzz_open.c, parse_log.c). PerfAttr has the attribute structure with its
  bit field as one word, and the two format strings as lists of conversions; AttrTheorems
  (C17): parsing inverts logging.

  \<^bold>\<open>The fuzzer.\<close> SlotTable is the interface of the two tables (a locale: what a search for a free
  or a random active slot returns), interpreted on the table of events in FuzzState and on that
  of mappings in FuzzMmap. FuzzState has the globals of perf_fuzzer.h and fuzzer_stats.h and the
  environment: the random sequence and the kernel's answers are functions in the record \<open>env\<close>,
  indexed with the draws and the system calls made so far. FuzzMmap is fuzz_mmap.c and
  fuzz_close.c, FilterGen the filter generators (in the state monad over the position in the
  random sequence and the static buffer), FuzzRandom fuzzer_random.c, FuzzCalls the small calls,
  FuzzIoctl and FuzzOpen the two large ones, FuzzSignals the three handlers, FuzzStats the
  statistics, FuzzLoop the options and the main loop. An access outside a table is \<open>None\<close>, or
  \<open>Fault\<close> in the type \<open>outcome\<close>, where an exit, the forked child and exhausted fuel are values
  too. Two loops need fuel: \<open>open_loop\<close> (attempts to open an event) and \<open>main_loop\<close>; C32 shows
  how much is enough when the kernel answers within a bound.

  FuzzInv, FuzzRuns and FuzzTheorems (C19, C20, C22, C23) are on the mappings (C23: after an
  auxiliary mapping took the place of the main one, only other events may still name the old
  slot); FilterTheorems (C25, C26) on the length of filters; ReadSizeTheorems (C27) compares the
  nominal size of a read with the reader's own layout. FuzzObs names what the invariant
  observes; FuzzCallsInv, FuzzAccessInv, FuzzTablesInv, FuzzIoctlInv, FuzzOpenInv and
  FuzzLoopInv prove it preserved call by call, and FuzzLoopInv has the step relation that
  interleaves iterations of the main loop with the handlers. FuzzLoopTheorems (C28-C31) and
  FuzzEndTheorems (C32) have its consequences, the end of the main loop and the option \<open>-t\<close>. Two
  components of the state only observe: \<open>forks\<close> lists the answers of all calls of \<open>fork\<close>,
  \<open>killed\<close> the processes that were sent a kill; after an orderly shutdown the second is the
  positive part of the first. With \<open>-s\<close> the main loop makes exactly the iterations asked for
  when it returns.

  \<^bold>\<open>The random events\<close> (fuzzer/trinity_files). StateLogic has weakest preconditions for the
  state monad, one rule per construct. TrinityRandom is random.c, interesting-numbers.c and the
  small generators of lengths, addresses, descriptors and processors; OpenGen is
  perf_event_open.c: the four kinds of random events and the other arguments of the call, with
  the position in the random sequence and the structure as state. \<open>with_generator\<close> puts it in
  the environment of the fuzzer. OpenGenTheorems (C33) puts the generator, the log and the replay
  together: which generated events a replay opens as they were. OpenPmuTheorems (C9) puts the
  descriptions of the PMUs and the generator together: configurations stay in the masks.

  \<^bold>\<open>The replay.\<close> Replay is replay_log.c, with every call it makes recorded in the state, and
  ActiveEvents is active_events.c. ReplayTheorems (C35, C36, C38) puts the fuzzer's log and the
  replay together: what is logged is made again, and where that fails. C36 is on the requests of
  kinds 0 to 5: the lines of SET_FILTER, and of the kinds 8 to 11, do not have the argument
  where the replay reads it. ReplayInv (C39) is the invariant of the replayer under lines and
  signals. ActiveTheorems (C40) is a refinement: the report of a log implements the set of open
  descriptors, and that of the enabled ones as perf_event.h has it, as far as a request or a
  \<open>prctl\<close> decided it; for an event that was only opened the tool looks at the wrong bit.

  \<^bold>\<open>C from a log\<close> (perf_attr_print.c, log_to_code.c). CCode has the generated language: the
  constants of the headers, expressions and statements as data, the text of each, and its
  execution on the variables of the generated program, with the calls recorded as in Replay.
  TracepointNames is the table of tracepoints, AttrPrint the printer of attributes (and the
  functions of its copy in perf_data_fuzzer that differ), LogToCode the translator and
  filter_log.c. AttrPrintTheorems (C10): every printed expression has the value it was printed
  for, and running the statements restores the attributes. CodeSim relates the tables of the
  replay to the variables of the program and carries the relation through every kind of line;
  CodeTheorems (C37): the program makes the calls of the replay, but for the newline of a write
  to a file and the kill of a child that is left at the end.

  \<^bold>\<open>The dumper of perf.data files\<close> (perf_data_fuzzer/perf_data_dump.c, data_read.c and
  parse_record.c). DataRecord is the decoder of one record, on the definitions of ParseRecord;
  PerfData has the file, the header and the pieces of a section reader, which thread the string
  buffers; PerfSections the reader of each feature section; PerfDump the table of sections, the
  loop over the records (which may not end, so its value is an option) and \<open>main\<close>. PerfDataSpec,
  FeatureSpec, FeatureLaws, DumpLaws and DumpSections are the abstract side: features as data,
  their documented bytes, what is printed, and the law of each reader. DumpTheorems (C16, C18,
  C24): dumping a file that was laid out from data prints the data, a record of size 0 hangs the
  dumper, and bad sections are refused, by their size as it is after the dumper stored its 64
  bits to an integer.

  \<^bold>\<open>The fuzzer of perf.data files\<close> (create_perf_data.c, perf_data_fuzzer.c). PerfWrite has the
  generators of the header and of each section and the writer, whose state is the file and the
  offset in it; PerfWriteTheorems (C21) runs the dumper on what was written: the table of
  sections is written over their data, so a file with a section is refused, when what it
  replaces was not longer than the offset of that table and the header is written whole.
  DataFuzzer is the loop that runs perf on the files and counts how it ended.

  \<^bold>\<open>The table of tracepoints\<close> (tools/trace_event_parser.c, trace_filter_generator.c). TraceTools has
  the parser of the format files, the table it fills and the header it writes, as initialisers
  with their text, and the generator of filters from the table. TraceTheorems (C8): what a
  compiler makes of the header is the table of the exported events, in which the fuzzer's
  \<open>find_event\<close> finds them; which declarations are misread; and printed filters are balanced.

  \<^bold>\<open>The helpers of the tests\<close> (lib/perf_helpers.c, test_utils.c, detect_cache.c,
  tracefs_helpers.c). PerfHelpers recognizes the processor and has the tables of its events;
  TestHelpers has the verdicts, the checks of the kernel's version and the table of caches.
  HelperTheorems (C15, C34): versions are compared in their order (an instance of
  \<open>linorder\<close>) as long as a part fits a byte, the stepping of a processor is never read, and the
  entries of the table of caches are inside it.

  \<^bold>\<open>Parameters.\<close> The sequence of \<open>rand()\<close>, the kernel, the page of random text (unicode.c), the
  table of tracepoints of the fuzzer (trace_filters.h), the files of /proc and /sys, the values
  of uninitialised variables, and addresses. The theorems on the fuzzer hold for any function in
  the place of the generator of events.

  \<^bold>\<open>Not modelled.\<close> The test programs under tests/, papi/, crashes/, exploits/ and warnings/, which
  are sequences of system calls; the vendored trinity files that no random event needs; the
  generated tables of tracepoints; the code that is only there to be counted (inline assembly, a
  matrix multiplication); what is only printed to the terminal; time and floating-point numbers.
\<close>

end
